(* ===== verification/Sr_Prelude.thy ===== *)
theory Sr_Prelude
  imports Main "HOL-Library.Monad_Syntax" "HOL-Library.Sublist" "HOL-Library.Word"
begin

text \<open>
  What every component of the development shares: the rule collections the component proofs
  draw on, the names of the byte and string types, checked reads and writes of arrays, and the
  facts on lists that the array operations need.
\<close>

named_theorems wp_intro \<open>introduction rules for weakest preconditions, one per command or callee\<close>
named_theorems rt_simps \<open>defining equations of the runtime's expressions\<close>

unbundle bit_operations_syntax

type_synonym symbol = char

abbreviation byte :: "symbol \<Rightarrow> int" where
  "byte ch \<equiv> of_char ch"

subsection \<open>Checked array access\<close>

text \<open>
  An array read or write outside the allocated elements is undefined behaviour in C; here it has
  no result.
\<close>

definition arr_get :: "'a list \<Rightarrow> int \<Rightarrow> 'a option" where
  "arr_get xs i = (if 0 \<le> i \<and> i < int (length xs) then Some (xs ! nat i) else None)"

definition arr_set :: "'a list \<Rightarrow> int \<Rightarrow> 'a \<Rightarrow> 'a list option" where
  "arr_set xs i v = (if 0 \<le> i \<and> i < int (length xs) then Some (xs[nat i := v]) else None)"

text \<open>
  The bytes \<open>[i, i + n)\<close> of an array, and the array with those bytes overwritten: what
  \<^verbatim>\<open>memcmp\<close> and \<^verbatim>\<open>memmove\<close> read and write. A negative count is a huge \<^verbatim>\<open>size_t\<close>.
\<close>

definition arr_read :: "'a list \<Rightarrow> int \<Rightarrow> int \<Rightarrow> 'a list option" where
  "arr_read xs i n =
     (if 0 \<le> i \<and> 0 \<le> n \<and> i + n \<le> int (length xs) then Some (take (nat n) (drop (nat i) xs)) else None)"

definition arr_write :: "'a list \<Rightarrow> int \<Rightarrow> 'a list \<Rightarrow> 'a list option" where
  "arr_write xs i ys =
     (if 0 \<le> i \<and> i + int (length ys) \<le> int (length xs)
      then Some (take (nat i) xs @ ys @ drop (nat i + length ys) xs) else None)"

definition memmove :: "'a list \<Rightarrow> int \<Rightarrow> int \<Rightarrow> int \<Rightarrow> 'a list option" where
  "memmove xs dst src n = do { ys \<leftarrow> arr_read xs src n; arr_write xs dst ys }"

lemma arr_get_Some [simp]:
  "0 \<le> i \<Longrightarrow> i < int (length xs) \<Longrightarrow> arr_get xs i = Some (xs ! nat i)"
  by (simp add: arr_get_def)

lemma arr_get_eq_Some:
  "arr_get xs i = Some v \<longleftrightarrow> 0 \<le> i \<and> i < int (length xs) \<and> v = xs ! nat i"
  by (auto simp: arr_get_def)

lemma arr_set_Some [simp]:
  "0 \<le> i \<Longrightarrow> i < int (length xs) \<Longrightarrow> arr_set xs i v = Some (xs[nat i := v])"
  by (simp add: arr_set_def)

lemma arr_read_Some [simp]:
  "0 \<le> i \<Longrightarrow> 0 \<le> n \<Longrightarrow> i + n \<le> int (length xs)
   \<Longrightarrow> arr_read xs i n = Some (take (nat n) (drop (nat i) xs))"
  by (simp add: arr_read_def)

lemma arr_write_Some [simp]:
  "0 \<le> i \<Longrightarrow> i + int (length ys) \<le> int (length xs)
   \<Longrightarrow> arr_write xs i ys = Some (take (nat i) xs @ ys @ drop (nat i + length ys) xs)"
  by (simp add: arr_write_def)

lemma length_arr_write: "arr_write xs i ys = Some zs \<Longrightarrow> length zs = length xs"
  by (auto simp: arr_write_def split: if_splits)

lemma memmove_Some:
  assumes "0 \<le> src" "0 \<le> dst" "0 \<le> n" "src + n \<le> int (length xs)" "dst + n \<le> int (length xs)"
  shows "memmove xs dst src n =
    Some (take (nat dst) xs @ take (nat n) (drop (nat src) xs) @ drop (nat dst + nat n) xs)"
proof -
  have "length (take (nat n) (drop (nat src) xs)) = nat n"
    using assms by simp
  with assms show ?thesis by (simp add: memmove_def)
qed

subsection \<open>Bytes\<close>

lemma byte_nonneg [simp]: "0 \<le> byte ch"
  by (metis of_char_mod_256 pos_mod_sign zero_less_numeral)

lemma byte_less [simp]: "byte ch < 256"
  by (metis of_char_mod_256 pos_mod_bound zero_less_numeral)

end
