(* ===== verification/C_Control.thy ===== *)
theory C_Control
  imports Sr_Prelude
begin

text \<open>
  Statements of C as functions on a state. A statement either has no result (\<^const>\<open>None\<close>:
  undefined behaviour, or it runs forever) or leaves a new state and says how control goes on:
  to the next statement, to a label, out of a loop or switch, or out of the function. Labels are
  numbers, as the Snowball compiler writes them (\<^verbatim>\<open>lab0\<close>, \<^verbatim>\<open>lab1\<close>, ...); every jump
  goes forward to a label that closes an enclosing group of statements.
\<close>

datatype c_ctl = Next | Goto nat | Break | Continue | Return int

type_synonym 's c_cmd = "'s \<Rightarrow> (c_ctl \<times> 's) option"
type_synonym 's c_func = "'s \<Rightarrow> (int \<times> 's) option"

definition c_skip :: "'s c_cmd" where
  "c_skip z = Some (Next, z)"

definition c_goto :: "nat \<Rightarrow> 's c_cmd" where
  "c_goto n z = Some (Goto n, z)"

definition c_break :: "'s c_cmd" where
  "c_break z = Some (Break, z)"

definition c_continue :: "'s c_cmd" where
  "c_continue z = Some (Continue, z)"

definition c_return :: "int \<Rightarrow> 's c_cmd" where
  "c_return r z = Some (Return r, z)"

definition c_mod :: "('s \<Rightarrow> 's) \<Rightarrow> 's c_cmd" where
  "c_mod f z = Some (Next, f z)"

text \<open>A compound statement: its parts run in order until one of them jumps.\<close>

primrec c_block :: "'s c_cmd list \<Rightarrow> 's c_cmd" where
  "c_block [] = c_skip"
| "c_block (a # as) = (\<lambda>z. case a z of None \<Rightarrow> None
     | Some (k, z') \<Rightarrow> if k = Next then c_block as z' else Some (k, z'))"

text \<open>Statements followed by the label \<open>n\<close>: a jump to \<open>n\<close> inside them lands after them.\<close>

definition c_upto :: "nat \<Rightarrow> 's c_cmd list \<Rightarrow> 's c_cmd" where
  "c_upto n as z = (case c_block as z of None \<Rightarrow> None
     | Some (k, z') \<Rightarrow> Some (if k = Goto n then Next else k, z'))"

text \<open>A local variable initialised from the state, and conditionals on an expression that may
  itself read out of bounds.\<close>

definition c_let :: "('s \<Rightarrow> 'a) \<Rightarrow> ('a \<Rightarrow> 's c_cmd) \<Rightarrow> 's c_cmd" where
  "c_let e k z = k (e z) z"

definition c_if :: "('s \<Rightarrow> bool option) \<Rightarrow> 's c_cmd \<Rightarrow> 's c_cmd" where
  "c_if b a z = (case b z of None \<Rightarrow> None | Some v \<Rightarrow> if v then a z else Some (Next, z))"

text \<open>A call whose result the rest of the block uses.\<close>

definition c_call :: "'s c_func \<Rightarrow> (int \<Rightarrow> 's c_cmd) \<Rightarrow> 's c_cmd" where
  "c_call f k z = (case f z of None \<Rightarrow> None | Some (r, z') \<Rightarrow> k r z')"

definition c_switch :: "int \<Rightarrow> (int \<times> 's c_cmd) list \<Rightarrow> 's c_cmd" where
  "c_switch v cs z = (case map_of cs v of None \<Rightarrow> Some (Next, z)
     | Some a \<Rightarrow> (case a z of None \<Rightarrow> None
         | Some (k, z') \<Rightarrow> Some (if k = Break then Next else k, z')))"

text \<open>\<^verbatim>\<open>while(1) { ... }\<close>\<close>

partial_function (option) c_while1 :: "'s c_cmd \<Rightarrow> 's \<Rightarrow> (c_ctl \<times> 's) option" where
  "c_while1 a z = (case a z of None \<Rightarrow> None
     | Some (k, z') \<Rightarrow>
         if k = Next \<or> k = Continue then c_while1 a z'
         else Some (if k = Break then Next else k, z'))"

declare c_while1.simps [code]

text \<open>
  \<^verbatim>\<open>{ int i = n; while(1) { ... i--; continue; lab: ... break; } if (i > 0) x }\<close>, where \<open>a\<close> is the body
  without the decrement: the counter goes down in every round that ends with \<^verbatim>\<open>continue\<close>.
\<close>

definition counted :: "'s c_cmd \<Rightarrow> (int \<times> 's) c_cmd" where
  "counted a = (\<lambda>(i, z). case a z of None \<Rightarrow> None
     | Some (k, z') \<Rightarrow> Some (k, (if k = Continue then i - 1 else i, z')))"

definition c_atleast :: "int \<Rightarrow> 's c_cmd \<Rightarrow> 's c_cmd \<Rightarrow> 's c_cmd" where
  "c_atleast n a x z = (case c_while1 (counted a) (n, z) of None \<Rightarrow> None
     | Some (k, (i, z')) \<Rightarrow> if k = Next \<and> i > 0 then x z' else Some (k, z'))"

text \<open>A function body: it must leave through a \<^verbatim>\<open>return\<close>.\<close>

definition c_fun :: "'s c_cmd list \<Rightarrow> 's c_func" where
  "c_fun as z = (case c_block as z of Some (Return r, z') \<Rightarrow> Some (r, z') | _ \<Rightarrow> None)"

subsection \<open>Recursive functions\<close>

text \<open>Statements are monotone in the functions they call, so a function of the program may call
  itself.\<close>

lemma c_fun_bind: "c_fun as z = Option.bind (c_block as z) (\<lambda>(k, z'). case k of Return r \<Rightarrow> Some (r, z') | _ \<Rightarrow> None)"
  by (auto simp: c_fun_def split: option.splits c_ctl.splits)

lemma c_fun_mono [partial_function_mono]:
  "(\<And>z. mono_option (\<lambda>f. c_block (as f) z)) \<Longrightarrow> mono_option (\<lambda>f. c_fun (as f) z)"
  unfolding c_fun_bind by (intro partial_function_mono)

lemma c_block_mono [partial_function_mono]:
  assumes "\<And>z. mono_option (\<lambda>f. a f z)" "\<And>z. mono_option (\<lambda>f. c_block (as f) z)"
  shows "mono_option (\<lambda>f. c_block (a f # as f) z)"
proof -
  have eq: "c_block (a # as) z = Option.bind (a z) (\<lambda>q. if fst q = Next then c_block as (snd q) else Some q)" for a as z
    by (auto simp: c_block.simps split: option.splits)
  show ?thesis unfolding eq by (intro partial_function_mono assms)
qed

lemma c_upto_mono [partial_function_mono]:
  assumes "\<And>z. mono_option (\<lambda>f. c_block (as f) z)"
  shows "mono_option (\<lambda>f. c_upto n (as f) z)"
proof -
  have eq: "c_upto n as z = Option.bind (c_block as z) (\<lambda>(k, z'). Some (if k = Goto n then Next else k, z'))" for as z
    by (auto simp: c_upto_def split: option.splits)
  show ?thesis unfolding eq by (intro partial_function_mono assms)
qed

lemma c_let_mono [partial_function_mono]:
  "(\<And>v z. mono_option (\<lambda>f. k f v z)) \<Longrightarrow> mono_option (\<lambda>f. c_let e (k f) z)"
  by (simp add: c_let_def)

lemma c_call_mono [partial_function_mono]:
  assumes "\<And>z. mono_option (\<lambda>f. g f z)" "\<And>v z. mono_option (\<lambda>f. k f v z)"
  shows "mono_option (\<lambda>f. c_call (g f) (k f) z)"
proof -
  have eq: "c_call g k z = Option.bind (g z) (\<lambda>q. k (fst q) (snd q))" for g k z
    by (auto simp: c_call_def split: option.splits)
  show ?thesis unfolding eq by (intro partial_function_mono assms)
qed

subsection \<open>Weakest preconditions\<close>

text \<open>
  \<open>wp a Q z\<close>: from \<open>z\<close> the statement \<open>a\<close> is free of undefined behaviour, ends, and \<open>Q\<close> holds of
  the way it ends and the state it leaves. \<open>wpf\<close> is the same for a function and its result.
\<close>

definition wp :: "'s c_cmd \<Rightarrow> (c_ctl \<Rightarrow> 's \<Rightarrow> bool) \<Rightarrow> 's \<Rightarrow> bool" where
  "wp a Q z \<longleftrightarrow> (\<exists>k z'. a z = Some (k, z') \<and> Q k z')"

definition wpf :: "'s c_func \<Rightarrow> (int \<Rightarrow> 's \<Rightarrow> bool) \<Rightarrow> 's \<Rightarrow> bool" where
  "wpf f Q z \<longleftrightarrow> (\<exists>r z'. f z = Some (r, z') \<and> Q r z')"

lemma wp_mono: "wp a Q z \<Longrightarrow> (\<And>k z'. Q k z' \<Longrightarrow> R k z') \<Longrightarrow> wp a R z"
  by (auto simp: wp_def)

lemma wpf_mono: "wpf f Q z \<Longrightarrow> (\<And>r z'. Q r z' \<Longrightarrow> R r z') \<Longrightarrow> wpf f R z"
  by (auto simp: wpf_def)

lemma wp_skip [simp]: "wp c_skip Q z \<longleftrightarrow> Q Next z"
  by (simp add: wp_def c_skip_def)

lemma wp_goto [simp]: "wp (c_goto n) Q z \<longleftrightarrow> Q (Goto n) z"
  by (simp add: wp_def c_goto_def)

lemma wp_break [simp]: "wp c_break Q z \<longleftrightarrow> Q Break z"
  by (simp add: wp_def c_break_def)

lemma wp_continue [simp]: "wp c_continue Q z \<longleftrightarrow> Q Continue z"
  by (simp add: wp_def c_continue_def)

lemma wp_return [simp]: "wp (c_return r) Q z \<longleftrightarrow> Q (Return r) z"
  by (simp add: wp_def c_return_def)

lemma wp_mod [simp]: "wp (c_mod f) Q z \<longleftrightarrow> Q Next (f z)"
  by (simp add: wp_def c_mod_def)

lemma wp_let [simp]: "wp (c_let e k) Q z \<longleftrightarrow> wp (k (e z)) Q z"
  by (simp add: wp_def c_let_def)

text \<open>
  How the rest of a statement continues what a part of it leaves: the statements after it in a
  block, the label or switch around it, the function it returns from. They are constants, so that
  the simplifier runs a statement one part at a time.
\<close>

definition block_k :: "'s c_cmd list \<Rightarrow> (c_ctl \<Rightarrow> 's \<Rightarrow> bool) \<Rightarrow> c_ctl \<Rightarrow> 's \<Rightarrow> bool" where
  "block_k as Q k z \<longleftrightarrow> (if k = Next then wp (c_block as) Q z else Q k z)"

definition upto_k :: "nat \<Rightarrow> (c_ctl \<Rightarrow> 's \<Rightarrow> bool) \<Rightarrow> c_ctl \<Rightarrow> 's \<Rightarrow> bool" where
  "upto_k n Q k z \<longleftrightarrow> Q (if k = Goto n then Next else k) z"

definition switch_k :: "(c_ctl \<Rightarrow> 's \<Rightarrow> bool) \<Rightarrow> c_ctl \<Rightarrow> 's \<Rightarrow> bool" where
  "switch_k Q k z \<longleftrightarrow> Q (if k = Break then Next else k) z"

definition fun_k :: "(int \<Rightarrow> 's \<Rightarrow> bool) \<Rightarrow> c_ctl \<Rightarrow> 's \<Rightarrow> bool" where
  "fun_k Q k z \<longleftrightarrow> (case k of Return r \<Rightarrow> Q r z | _ \<Rightarrow> False)"

definition call_k :: "(int \<Rightarrow> 's c_cmd) \<Rightarrow> (c_ctl \<Rightarrow> 's \<Rightarrow> bool) \<Rightarrow> int \<Rightarrow> 's \<Rightarrow> bool" where
  "call_k f Q r z \<longleftrightarrow> wp (f r) Q z"

definition loop_k :: "('s \<Rightarrow> bool) \<Rightarrow> (c_ctl \<Rightarrow> 's \<Rightarrow> bool) \<Rightarrow> c_ctl \<Rightarrow> 's \<Rightarrow> bool" where
  "loop_k P Q k z \<longleftrightarrow> (if k = Next \<or> k = Continue then P z else Q (if k = Break then Next else k) z)"

lemmas k_defs = block_k_def upto_k_def switch_k_def fun_k_def call_k_def loop_k_def

lemma k_simps [simp]:
  "block_k as Q Next z \<longleftrightarrow> wp (c_block as) Q z" "block_k as Q (Goto n) z \<longleftrightarrow> Q (Goto n) z" "block_k as Q Break z \<longleftrightarrow> Q Break z"
  "block_k as Q Continue z \<longleftrightarrow> Q Continue z" "block_k as Q (Return r) z \<longleftrightarrow> Q (Return r) z"
  "upto_k m Q Next z \<longleftrightarrow> Q Next z" "upto_k m Q (Goto n) z \<longleftrightarrow> (if n = m then Q Next z else Q (Goto n) z)"
  "upto_k m Q Break z \<longleftrightarrow> Q Break z" "upto_k m Q Continue z \<longleftrightarrow> Q Continue z"
  "upto_k m Q (Return r) z \<longleftrightarrow> Q (Return r) z"
  "switch_k Q Next z \<longleftrightarrow> Q Next z" "switch_k Q (Goto n) z \<longleftrightarrow> Q (Goto n) z" "switch_k Q Break z \<longleftrightarrow> Q Next z"
  "switch_k Q Continue z \<longleftrightarrow> Q Continue z" "switch_k Q (Return r) z \<longleftrightarrow> Q (Return r) z"
  "fun_k R (Return r) z \<longleftrightarrow> R r z" "\<not> fun_k R Next z" "\<not> fun_k R (Goto n) z" "\<not> fun_k R Break z"
  "\<not> fun_k R Continue z"
  "call_k f Q r z \<longleftrightarrow> wp (f r) Q z"
  "loop_k P Q Next z \<longleftrightarrow> P z" "loop_k P Q Continue z \<longleftrightarrow> P z" "loop_k P Q Break z \<longleftrightarrow> Q Next z"
  "loop_k P Q (Goto n) z \<longleftrightarrow> Q (Goto n) z" "loop_k P Q (Return r) z \<longleftrightarrow> Q (Return r) z"
  by (simp_all add: k_defs)

lemma loop_k_mono: "loop_k P Q k z \<Longrightarrow> (P z \<Longrightarrow> P' z) \<Longrightarrow> loop_k P' Q k z"
  by (simp add: loop_k_def split: if_splits)

lemma wp_block_Nil [simp]: "wp (c_block []) Q z \<longleftrightarrow> Q Next z"
  by simp

lemma wp_block_Cons [simp]:
  "wp (c_block (a # as)) Q z \<longleftrightarrow> wp a (block_k as Q) z"
  by (auto simp: wp_def k_defs split: option.splits)

declare c_block.simps [simp del]

lemma wp_upto [simp]: "wp (c_upto n as) Q z \<longleftrightarrow> wp (c_block as) (upto_k n Q) z"
  by (auto simp: wp_def c_upto_def k_defs split: option.splits)

lemma wp_call [simp]: "wp (c_call f k) Q z \<longleftrightarrow> wpf f (call_k k Q) z"
  by (auto simp: wp_def wpf_def c_call_def k_defs split: option.splits)

lemma wp_switch [simp]:
  "wp (c_switch v cs) Q z \<longleftrightarrow> (case map_of cs v of None \<Rightarrow> Q Next z | Some a \<Rightarrow> wp a (switch_k Q) z)"
  by (auto simp: wp_def c_switch_def k_defs split: option.splits)

lemma wp_if:
  assumes "b z = Some v" and "v \<Longrightarrow> wp a Q z" and "\<not> v \<Longrightarrow> Q Next z"
  shows "wp (c_if b a) Q z"
  using assms by (cases v) (auto simp: wp_def c_if_def)

lemma wpf_fun [simp]: "wpf (c_fun as) Q z \<longleftrightarrow> wp (c_block as) (fun_k Q) z"
  by (auto simp: wp_def wpf_def c_fun_def k_defs split: option.splits c_ctl.splits)

lemma wpf_cong: "f z = g z \<Longrightarrow> wpf f Q z = wpf g Q z"
  by (simp add: wpf_def)

lemma wp_state_cong [cong]: "z = z' \<Longrightarrow> wp a Q z = wp a Q z'"
  by simp

lemma wpf_state_cong [cong]: "z = z' \<Longrightarrow> wpf f Q z = wpf f Q z'"
  by simp

text \<open>
  The rule for \<^verbatim>\<open>while(1)\<close>: an invariant, and a measure that every round that stays in the
  loop decreases.
\<close>

lemma wp_while1:
  fixes f :: "'s \<Rightarrow> nat"
  assumes start: "P z"
    and body: "\<And>z. P z \<Longrightarrow> wp a (loop_k (\<lambda>z'. P z' \<and> f z' < f z) Q) z"
  shows "wp (c_while1 a) Q z"
  using start
proof (induction "f z" arbitrary: z rule: less_induct)
  case less
  obtain k z' where step: "a z = Some (k, z')" and post: "loop_k (\<lambda>z'. P z' \<and> f z' < f z) Q k z'"
    using body [OF less.prems] by (auto simp: wp_def)
  show ?case
  proof (cases "k = Next \<or> k = Continue")
    case True
    with post less.hyps have "wp (c_while1 a) Q z'" by (auto simp: loop_k_def)
    with True step show ?thesis
      by (auto simp: wp_def c_while1.simps [of a z])
  next
    case False
    with post step show ?thesis
      by (simp add: wp_def c_while1.simps [of a z] loop_k_def)
  qed
qed

lemma wp_atleast:
  fixes f :: "'s \<Rightarrow> nat"
  assumes start: "P z"
    and body: "\<And>z. P z \<Longrightarrow> wp a (loop_k (\<lambda>z'. P z' \<and> f z' < f z) R) z"
    and fewer: "\<And>z. R Next z \<Longrightarrow> wp x Q z" and left: "\<And>z k. R k z \<Longrightarrow> Q k z"
  shows "wp (c_atleast n a x) Q z"
proof -
  have "wp (c_while1 (counted a)) (\<lambda>k (i, z). R k z) (n, z)"
  proof (rule wp_while1 [where P = "\<lambda>(i, z). P z" and f = "\<lambda>(i, z). f z"])
    fix iz :: "int \<times> 's" assume "case iz of (i, z) \<Rightarrow> P z"
    then obtain i z k z' where "iz = (i, z)" "a z = Some (k, z')" "loop_k (\<lambda>z'. P z' \<and> f z' < f z) R k z'"
      using body by (cases iz) (force simp: wp_def)
    then show "wp (counted a) (loop_k (\<lambda>iz'. (case iz' of (i, z) \<Rightarrow> P z) \<and>
        (case iz' of (i, z) \<Rightarrow> f z) < (case iz of (i, z) \<Rightarrow> f z)) (\<lambda>k (i, z). R k z)) iz"
      by (simp add: wp_def counted_def loop_k_def split: if_splits)
  qed (use start in simp)
  then obtain k i z' where "c_while1 (counted a) (n, z) = Some (k, (i, z'))" "R k z'"
    by (auto simp: wp_def)
  then show ?thesis using fewer [of z'] left [of k z'] by (auto simp: wp_def c_atleast_def)
qed

end
