(* ===== verification/Sn_Env.thy ===== *)
theory Sn_Env
  imports C_Control
begin

text \<open>
  The data of the Snowball runtime (\<^verbatim>\<open>runtime/api.h\<close>, \<^verbatim>\<open>runtime/header.h\<close>): the
  length-prefixed symbol buffer, the environment \<^verbatim>\<open>struct SN_env\<close> a stemmer works on and the
  search table \<^verbatim>\<open>struct among\<close>; the allocator the runtime calls; and the statements the
  generated stemmers are made of.
\<close>

subsection \<open>Symbol buffers\<close>

text \<open>
  A \<^verbatim>\<open>symbol *\<close> made by \<^verbatim>\<open>create_s\<close> points behind a header of two integers. \<open>bytes\<close> are
  the allocated symbols, \<open>CAPACITY + 1\<close> of them.
\<close>

record sbuf =
  bytes :: "symbol list"
  SIZE :: int
  CAPACITY :: int

text \<open>
  The environment, field by field; a null \<open>z_p\<close> or string variable is \<^const>\<open>None\<close>. The last two
  fields are the allocator's: whether each of the coming requests fails (requests after the end
  of the list succeed) and what the bytes of fresh memory hold.
\<close>

record SN_env =
  z_p :: "sbuf option"
  z_c :: int
  z_l :: int
  z_lb :: int
  z_bra :: int
  z_ket :: int
  z_S :: "sbuf option list"
  z_I :: "int list"
  z_B :: "int list"
  z_faults :: "bool list"
  z_fresh :: "nat \<Rightarrow> symbol"

type_synonym sn_func = "SN_env c_func"
type_synonym sn_cmd = "SN_env c_cmd"

record among =
  s_size :: int
  s_sym :: "symbol list"
  substring_i :: int
  result :: int
  among_fun :: "sn_func option"

definition amg_fun :: "int \<Rightarrow> symbol list \<Rightarrow> int \<Rightarrow> int \<Rightarrow> sn_func \<Rightarrow> among" where
  "amg_fun n str sub res f =
     \<lparr>s_size = n, s_sym = str, substring_i = sub, result = res, among_fun = Some f\<rparr>"

definition amg :: "int \<Rightarrow> symbol list \<Rightarrow> int \<Rightarrow> int \<Rightarrow> among" where
  "amg n str sub res = \<lparr>s_size = n, s_sym = str, substring_i = sub, result = res, among_fun = None\<rparr>"

lemma amg_sel [simp]:
  "s_size (amg n str sub res) = n" "s_sym (amg n str sub res) = str"
  "substring_i (amg n str sub res) = sub" "result (amg n str sub res) = res"
  "among_fun (amg n str sub res) = None"
  by (simp_all add: amg_def)

subsection \<open>Allocation\<close>

definition MAXINT :: int where
  "MAXINT = 2147483647"

definition alloc_ok :: "SN_env \<Rightarrow> bool \<times> SN_env" where
  "alloc_ok z = (case z_faults z of [] \<Rightarrow> (True, z) | b # bs \<Rightarrow> (\<not> b, z\<lparr>z_faults := bs\<rparr>))"

definition CREATE_SIZE :: int where
  "CREATE_SIZE = 1"

definition create_s :: "SN_env \<Rightarrow> sbuf option \<times> SN_env" where
  "create_s z = (let (ok, z) = alloc_ok z in
     if \<not> ok then (None, z)
     else (Some \<lparr>bytes = map (z_fresh z) [0..<nat (CREATE_SIZE + 1)],
                 SIZE = CREATE_SIZE, CAPACITY = CREATE_SIZE\<rparr>, z))"

text \<open>
  \<^verbatim>\<open>increase_size\<close> keeps the bytes that fit and leaves the rest of the new block fresh; when
  \<^verbatim>\<open>realloc\<close> fails the old buffer is freed and the result is null. The header's size field
  is copied with the block.
\<close>

definition increase_size :: "sbuf \<Rightarrow> int \<Rightarrow> SN_env \<Rightarrow> sbuf option \<times> SN_env" where
  "increase_size p n z = (let new_size = n + 20; (ok, z) = alloc_ok z in
     if \<not> ok then (None, z)
     else (Some (p\<lparr>bytes := map (\<lambda>i. if i < length (bytes p) then bytes p ! i else z_fresh z i)
                              [0..<nat (new_size + 1)],
                   CAPACITY := new_size\<rparr>), z))"

subsection \<open>Reads of the environment\<close>

definition p_at :: "SN_env \<Rightarrow> int \<Rightarrow> int option" where
  "p_at z i = do { p \<leftarrow> z_p z; ch \<leftarrow> arr_get (bytes p) i; Some (byte ch) }"

definition I_at :: "SN_env \<Rightarrow> int \<Rightarrow> int option" where
  "I_at z i = arr_get (z_I z) i"

definition B_at :: "SN_env \<Rightarrow> int \<Rightarrow> int option" where
  "B_at z i = arr_get (z_B z) i"

subsection \<open>Statements of the generated code\<close>

definition set_c :: "(SN_env \<Rightarrow> int) \<Rightarrow> sn_cmd" where
  "set_c e = c_mod (\<lambda>z. z\<lparr>z_c := e z\<rparr>)"

definition set_lb :: "(SN_env \<Rightarrow> int) \<Rightarrow> sn_cmd" where
  "set_lb e = c_mod (\<lambda>z. z\<lparr>z_lb := e z\<rparr>)"

definition set_bra :: "(SN_env \<Rightarrow> int) \<Rightarrow> sn_cmd" where
  "set_bra e = c_mod (\<lambda>z. z\<lparr>z_bra := e z\<rparr>)"

definition set_ket :: "(SN_env \<Rightarrow> int) \<Rightarrow> sn_cmd" where
  "set_ket e = c_mod (\<lambda>z. z\<lparr>z_ket := e z\<rparr>)"

text \<open>\<^verbatim>\<open>z->I[i] = e;\<close>, \<^verbatim>\<open>z->B[i] = v;\<close>, \<^verbatim>\<open>z->c = z->I[i];\<close> and
  \<^verbatim>\<open>z->I[i] = z->I[j];\<close>\<close>

definition set_I :: "int \<Rightarrow> (SN_env \<Rightarrow> int) \<Rightarrow> sn_cmd" where
  "set_I i e z = (case arr_set (z_I z) i (e z) of None \<Rightarrow> None | Some xs \<Rightarrow> Some (Next, z\<lparr>z_I := xs\<rparr>))"

definition set_B :: "int \<Rightarrow> int \<Rightarrow> sn_cmd" where
  "set_B i v z = (case arr_set (z_B z) i v of None \<Rightarrow> None | Some xs \<Rightarrow> Some (Next, z\<lparr>z_B := xs\<rparr>))"

definition set_c_I :: "int \<Rightarrow> sn_cmd" where
  "set_c_I i z = (case I_at z i of None \<Rightarrow> None | Some v \<Rightarrow> Some (Next, z\<lparr>z_c := v\<rparr>))"

definition set_I_I :: "int \<Rightarrow> int \<Rightarrow> sn_cmd" where
  "set_I_I i j z = (case I_at z j of None \<Rightarrow> None | Some v \<Rightarrow> set_I i (\<lambda>_. v) z)"

text \<open>
  The ways the generated code uses the result of a call:
  \<open>check f\<close> is \<^verbatim>\<open>{ int ret = f(z); if (ret < 0) return ret; }\<close>;
  \<open>routine f x\<close> is \<^verbatim>\<open>{ int ret = f(z); if (ret == 0) x; if (ret < 0) return ret; }\<close>, where \<open>x\<close> jumps;
  \<open>unless f x\<close> is \<^verbatim>\<open>if (!(f(z))) x;\<close>;
  \<open>when_true f x\<close> is \<^verbatim>\<open>if (f(z)) x;\<close>;
  \<open>when_neg f x\<close> is \<^verbatim>\<open>if (f(z) < 0) x;\<close>;
  \<open>advance f x\<close> is \<^verbatim>\<open>{ int ret = f(z); if (ret < 0) x; z->c += ret; }\<close>, \<open>retreat f x\<close> the same with \<^verbatim>\<open>-=\<close>;
  \<open>move_to f x\<close> is \<^verbatim>\<open>{ int ret = f(z); if (ret < 0) x; z->c = ret; }\<close>.
\<close>

definition check :: "sn_func \<Rightarrow> sn_cmd" where
  "check f = c_call f (\<lambda>ret. if ret < 0 then c_return ret else c_skip)"

definition routine :: "sn_func \<Rightarrow> sn_cmd \<Rightarrow> sn_cmd" where
  "routine f x = c_call f (\<lambda>ret. if ret = 0 then x else if ret < 0 then c_return ret else c_skip)"

definition unless :: "sn_func \<Rightarrow> sn_cmd \<Rightarrow> sn_cmd" where
  "unless f x = c_call f (\<lambda>ret. if ret = 0 then x else c_skip)"

definition when_true :: "sn_func \<Rightarrow> sn_cmd \<Rightarrow> sn_cmd" where
  "when_true f x = c_call f (\<lambda>ret. if ret \<noteq> 0 then x else c_skip)"

definition when_neg :: "sn_func \<Rightarrow> sn_cmd \<Rightarrow> sn_cmd" where
  "when_neg f x = c_call f (\<lambda>ret. if ret < 0 then x else c_skip)"

definition advance :: "sn_func \<Rightarrow> sn_cmd \<Rightarrow> sn_cmd" where
  "advance f x = c_call f (\<lambda>ret. if ret < 0 then x else set_c (\<lambda>z. z_c z + ret))"

definition retreat :: "sn_func \<Rightarrow> sn_cmd \<Rightarrow> sn_cmd" where
  "retreat f x = c_call f (\<lambda>ret. if ret < 0 then x else set_c (\<lambda>z. z_c z - ret))"

definition move_to :: "sn_func \<Rightarrow> sn_cmd \<Rightarrow> sn_cmd" where
  "move_to f x = c_call f (\<lambda>ret. if ret < 0 then x else set_c (\<lambda>z. ret))"

text \<open>
  The conditions of the generated code. \<open>tail_guard n P\<close> is
  \<^verbatim>\<open>z->c - n <= z->lb || P(z->p[z->c - 1])\<close> and \<open>head_guard n P\<close> is
  \<^verbatim>\<open>z->c + n >= z->l || P(z->p[z->c + n])\<close>; \<open>not_in_mask k m ch\<close> is
  \<^verbatim>\<open>ch >> 5 != k || !((m >> (ch & 0x1f)) & 1)\<close>. \<open>on_I i f\<close> and \<open>on_B i f\<close> test \<^verbatim>\<open>z->I[i]\<close> and
  \<^verbatim>\<open>z->B[i]\<close>, \<open>on_II i j f\<close> compares \<^verbatim>\<open>z->I[i]\<close> with \<^verbatim>\<open>z->I[j]\<close>.
\<close>

definition tail_guard :: "int \<Rightarrow> (int \<Rightarrow> bool) \<Rightarrow> SN_env \<Rightarrow> bool option" where
  "tail_guard n P z =
     (if z_c z - n \<le> z_lb z then Some True else do { ch \<leftarrow> p_at z (z_c z - 1); Some (P ch) })"

definition head_guard :: "int \<Rightarrow> (int \<Rightarrow> bool) \<Rightarrow> SN_env \<Rightarrow> bool option" where
  "head_guard n P z =
     (if z_c z + n \<ge> z_l z then Some True else do { ch \<leftarrow> p_at z (z_c z + n); Some (P ch) })"

definition not_in_mask :: "int \<Rightarrow> int \<Rightarrow> int \<Rightarrow> bool" where
  "not_in_mask k m ch \<longleftrightarrow> drop_bit 5 ch \<noteq> k \<or> drop_bit (nat (ch AND 0x1f)) m AND 1 = 0"

definition on_I :: "int \<Rightarrow> (SN_env \<Rightarrow> int \<Rightarrow> bool) \<Rightarrow> SN_env \<Rightarrow> bool option" where
  "on_I i f z = do { v \<leftarrow> I_at z i; Some (f z v) }"

definition on_II :: "int \<Rightarrow> int \<Rightarrow> (int \<Rightarrow> int \<Rightarrow> bool) \<Rightarrow> SN_env \<Rightarrow> bool option" where
  "on_II i j f z = do { v \<leftarrow> I_at z i; w \<leftarrow> I_at z j; Some (f v w) }"

definition on_B :: "int \<Rightarrow> (int \<Rightarrow> bool) \<Rightarrow> SN_env \<Rightarrow> bool option" where
  "on_B i f z = do { v \<leftarrow> B_at z i; Some (f v) }"

definition test :: "(SN_env \<Rightarrow> bool) \<Rightarrow> SN_env \<Rightarrow> bool option" where
  "test f z = Some (f z)"

text \<open>
  \<^verbatim>\<open>if (cond) among_var = v; else among_var = f(z);\<close> and
  \<^verbatim>\<open>{ int c_keep = z->c; int ret = f(z); z->c = c_keep; if (ret < 0) return ret; }\<close>.
\<close>

definition or_else :: "(SN_env \<Rightarrow> bool option) \<Rightarrow> int \<Rightarrow> sn_func \<Rightarrow> sn_func" where
  "or_else b v f z = (case b z of None \<Rightarrow> None | Some t \<Rightarrow> if t then Some (v, z) else f z)"

definition check_keep_c :: "sn_func \<Rightarrow> sn_cmd" where
  "check_keep_c f = c_let z_c (\<lambda>c_keep. c_call f (\<lambda>ret.
     c_block [set_c (\<lambda>_. c_keep), if ret < 0 then c_return ret else c_skip]))"

lemma routine_mono [partial_function_mono]:
  assumes "\<And>z. mono_option (\<lambda>f. g f z)" "\<And>z. mono_option (\<lambda>f. x f z)"
  shows "mono_option (\<lambda>f. routine (g f) (x f) z)"
proof -
  have "mono_option (\<lambda>f. (if v = (0::int) then x f else if v < 0 then c_return v else c_skip) z)" for v z
    by (cases "v = 0") (auto intro: assms partial_function_mono)
  then show ?thesis unfolding routine_def by (intro partial_function_mono assms)
qed

text \<open>
  An attempt whose cursor is restored from the end of the text, and one from its start: \<open>try_b n f\<close>
  is \<^verbatim>\<open>{ int m = z->l - z->c; { int ret = f(z); if (ret == 0) goto labn; if (ret < 0) return ret; }
  labn: z->c = z->l - m; }\<close> and \<open>try_f n f\<close> the same with \<^verbatim>\<open>int c = z->c;\<close> and \<^verbatim>\<open>z->c = c;\<close>.
\<close>

definition try_b :: "nat \<Rightarrow> sn_func \<Rightarrow> sn_cmd" where
  "try_b n f = c_let (\<lambda>z. z_l z - z_c z) (\<lambda>m.
     c_block [c_upto n [routine f (c_goto n)], set_c (\<lambda>z. z_l z - m)])"

definition try_f :: "nat \<Rightarrow> sn_func \<Rightarrow> sn_cmd" where
  "try_f n f = c_let z_c (\<lambda>c. c_block [c_upto n [routine f (c_goto n)], set_c (\<lambda>_. c)])"

end
