(* ===== verification/Utf8.thy ===== *)
theory Utf8
  imports Sn_Env
begin

text \<open>
  Characters in UTF-8 (\<^verbatim>\<open>runtime/utilities.c\<close>, first half): moving by characters,
  decoding the character before or after the cursor, and the grouping tests built on them.
\<close>

subsection \<open>skip\_utf8\<close>

text \<open>The inner loops: over the continuation bytes \<^verbatim>\<open>10xxxxxx\<close> after a lead byte, and back to
  the lead byte.\<close>

function skip_cont :: "symbol list \<Rightarrow> int \<Rightarrow> int \<Rightarrow> int option" where
  "skip_cont p c l =
     (if c < l then do {
        b \<leftarrow> arr_get p c;
        if byte b \<ge> 0xC0 \<or> byte b < 0x80 then Some c else skip_cont p (c + 1) l }
      else Some c)"
  by pat_completeness auto
termination by (relation "measure (\<lambda>(p, c, l). nat (l - c))") auto

function skip_cont_b :: "symbol list \<Rightarrow> int \<Rightarrow> int \<Rightarrow> int option" where
  "skip_cont_b p c lb =
     (if lb < c then do {
        b \<leftarrow> arr_get p c;
        if byte b \<ge> 0xC0 then Some c else skip_cont_b p (c - 1) lb }
      else Some c)"
  by pat_completeness auto
termination by (relation "measure (\<lambda>(p, c, lb). nat (c - lb))") auto

declare skip_cont.simps [simp del] skip_cont_b.simps [simp del]

text \<open>The outer loops, \<open>n\<close> rounds; the result \<open>-1\<close> is failure.\<close>

fun skip_fwd :: "symbol list \<Rightarrow> int \<Rightarrow> int \<Rightarrow> nat \<Rightarrow> int option" where
  "skip_fwd p c l 0 = Some c"
| "skip_fwd p c l (Suc n) =
     (if c \<ge> l then Some (- 1)
      else do {
        b \<leftarrow> arr_get p c;
        c' \<leftarrow> (if byte b \<ge> 0xC0 then skip_cont p (c + 1) l else Some (c + 1));
        skip_fwd p c' l n })"

fun skip_bwd :: "symbol list \<Rightarrow> int \<Rightarrow> int \<Rightarrow> nat \<Rightarrow> int option" where
  "skip_bwd p c lb 0 = Some c"
| "skip_bwd p c lb (Suc n) =
     (if c \<le> lb then Some (- 1)
      else do {
        b \<leftarrow> arr_get p (c - 1);
        c' \<leftarrow> (if byte b \<ge> 0x80 then skip_cont_b p (c - 1) lb else Some (c - 1));
        skip_bwd p c' lb n })"

definition skip_utf8 :: "symbol list \<Rightarrow> int \<Rightarrow> int \<Rightarrow> int \<Rightarrow> int \<Rightarrow> int option" where
  "skip_utf8 p c lb l n =
     (if n \<ge> 0 then skip_fwd p c l (nat n) else skip_bwd p c lb (nat (- n)))"

text \<open>The call \<^verbatim>\<open>skip_utf8(z->p, z->c, lb, l, n)\<close> of the stemmers, which leaves \<open>z\<close> alone.\<close>

definition skip_utf8_z :: "(SN_env \<Rightarrow> int) \<Rightarrow> (SN_env \<Rightarrow> int) \<Rightarrow> int \<Rightarrow> sn_func" where
  "skip_utf8_z lb l n z = do { p \<leftarrow> z_p z; r \<leftarrow> skip_utf8 (bytes p) (z_c z) (lb z) (l z) n; Some (r, z) }"

subsection \<open>Decoding one character\<close>

text \<open>The result is the width, 0 at the limit, and the value put in \<^verbatim>\<open>*slot\<close>.\<close>

definition get_utf8 :: "symbol list \<Rightarrow> int \<Rightarrow> int \<Rightarrow> (int \<times> int) option" where
  "get_utf8 p c l =
     (if c \<ge> l then Some (0, 0)
      else do {
        b0 \<leftarrow> arr_get p c;
        if byte b0 < 0xC0 \<or> c + 1 = l then Some (1, byte b0)
        else do {
          b1 \<leftarrow> arr_get p (c + 1);
          if byte b0 < 0xE0 \<or> c + 2 = l
          then Some (2, push_bit 6 (byte b0 AND 0x1F) OR (byte b1 AND 0x3F))
          else do {
            b2 \<leftarrow> arr_get p (c + 2);
            Some (3, push_bit 12 (byte b0 AND 0xF) OR push_bit 6 (byte b1 AND 0x3F)
                       OR (byte b2 AND 0x3F)) } } })"

definition get_b_utf8 :: "symbol list \<Rightarrow> int \<Rightarrow> int \<Rightarrow> (int \<times> int) option" where
  "get_b_utf8 p c lb =
     (if c \<le> lb then Some (0, 0)
      else do {
        b0 \<leftarrow> arr_get p (c - 1);
        if byte b0 < 0x80 \<or> c - 1 = lb then Some (1, byte b0)
        else do {
          b1 \<leftarrow> arr_get p (c - 2);
          if byte b1 \<ge> 0xC0 \<or> c - 2 = lb
          then Some (2, push_bit 6 (byte b1 AND 0x1F) OR (byte b0 AND 0x3F))
          else do {
            b2 \<leftarrow> arr_get p (c - 2);
            Some (3, push_bit 12 (byte b2 AND 0xF) OR push_bit 6 (byte b1 AND 0x3F)
                       OR (byte b0 AND 0x3F)) } } })"

text \<open>
  A character that a decoder hands out has width 1, 2 or 3 and lies inside the limits.
\<close>

lemma get_utf8_range:
  assumes "get_utf8 p c l = Some (w, ch)"
  shows "w = 0 \<and> l \<le> c \<or> 1 \<le> w \<and> w \<le> 3 \<and> c + w \<le> l"
  using assms by (auto simp: get_utf8_def Let_def split: if_splits bind_splits)

lemma get_b_utf8_range:
  assumes "get_b_utf8 p c lb = Some (w, ch)"
  shows "w = 0 \<and> c \<le> lb \<or> 1 \<le> w \<and> w \<le> 3 \<and> lb \<le> c - w"
  using assms by (auto simp: get_b_utf8_def Let_def split: if_splits bind_splits)

subsection \<open>Groupings\<close>

text \<open>
  The test \<^verbatim>\<open>ch > max || (ch -= min) < 0 || (s[ch >> 3] & (0X1 << (ch & 0X7))) == 0\<close>: true
  when the character is outside the bit map \<open>grp\<close>.
\<close>

definition outside :: "int list \<Rightarrow> int \<Rightarrow> int \<Rightarrow> int \<Rightarrow> bool option" where
  "outside grp mn mx ch =
     (if ch > mx then Some True
      else if ch - mn < 0 then Some True
      else do {
        b \<leftarrow> arr_get grp (drop_bit 3 (ch - mn));
        Some (b AND push_bit (nat ((ch - mn) AND 7)) 1 = 0) })"

text \<open>
  The \<^verbatim>\<open>do ... while (repeat)\<close> loops; \<open>inside\<close> tells the \<^verbatim>\<open>in_\<close> functions (leave at a character
  outside) from the \<^verbatim>\<open>out_\<close> functions (leave at one inside). The results are the return value
  and the cursor.
\<close>

function grouping_fwd ::
  "bool \<Rightarrow> symbol list \<Rightarrow> int list \<Rightarrow> int \<Rightarrow> int \<Rightarrow> int \<Rightarrow> int \<Rightarrow> int \<Rightarrow> (int \<times> int) option" where
  "grouping_fwd inside p grp mn mx repeat c l =
     (case get_utf8 p c l of None \<Rightarrow> None
      | Some (w, ch) \<Rightarrow>
          if w = 0 then Some (- 1, c)
          else (case outside grp mn mx ch of None \<Rightarrow> None
            | Some out \<Rightarrow>
                if out = inside then Some (w, c)
                else if repeat \<noteq> 0 then grouping_fwd inside p grp mn mx repeat (c + w) l
                else Some (0, c + w)))"
  by pat_completeness auto
termination
  by (relation "measure (\<lambda>(inside, p, grp, mn, mx, repeat, c, l). nat (l - c))")
    (auto dest!: get_utf8_range)

function grouping_bwd ::
  "bool \<Rightarrow> symbol list \<Rightarrow> int list \<Rightarrow> int \<Rightarrow> int \<Rightarrow> int \<Rightarrow> int \<Rightarrow> int \<Rightarrow> (int \<times> int) option" where
  "grouping_bwd inside p grp mn mx repeat c lb =
     (case get_b_utf8 p c lb of None \<Rightarrow> None
      | Some (w, ch) \<Rightarrow>
          if w = 0 then Some (- 1, c)
          else (case outside grp mn mx ch of None \<Rightarrow> None
            | Some out \<Rightarrow>
                if out = inside then Some (w, c)
                else if repeat \<noteq> 0 then grouping_bwd inside p grp mn mx repeat (c - w) lb
                else Some (0, c - w)))"
  by pat_completeness auto
termination
  by (relation "measure (\<lambda>(inside, p, grp, mn, mx, repeat, c, lb). nat (c - lb))")
    (auto dest!: get_b_utf8_range)

declare grouping_fwd.simps [simp del] grouping_bwd.simps [simp del]

definition in_grouping_U :: "int list \<Rightarrow> int \<Rightarrow> int \<Rightarrow> int \<Rightarrow> sn_func" where
  "in_grouping_U grp mn mx repeat z = do {
     p \<leftarrow> z_p z;
     (r, c) \<leftarrow> grouping_fwd True (bytes p) grp mn mx repeat (z_c z) (z_l z);
     Some (r, z\<lparr>z_c := c\<rparr>) }"

definition in_grouping_b_U :: "int list \<Rightarrow> int \<Rightarrow> int \<Rightarrow> int \<Rightarrow> sn_func" where
  "in_grouping_b_U grp mn mx repeat z = do {
     p \<leftarrow> z_p z;
     (r, c) \<leftarrow> grouping_bwd True (bytes p) grp mn mx repeat (z_c z) (z_lb z);
     Some (r, z\<lparr>z_c := c\<rparr>) }"

definition out_grouping_U :: "int list \<Rightarrow> int \<Rightarrow> int \<Rightarrow> int \<Rightarrow> sn_func" where
  "out_grouping_U grp mn mx repeat z = do {
     p \<leftarrow> z_p z;
     (r, c) \<leftarrow> grouping_fwd False (bytes p) grp mn mx repeat (z_c z) (z_l z);
     Some (r, z\<lparr>z_c := c\<rparr>) }"

definition out_grouping_b_U :: "int list \<Rightarrow> int \<Rightarrow> int \<Rightarrow> int \<Rightarrow> sn_func" where
  "out_grouping_b_U grp mn mx repeat z = do {
     p \<leftarrow> z_p z;
     (r, c) \<leftarrow> grouping_bwd False (bytes p) grp mn mx repeat (z_c z) (z_lb z);
     Some (r, z\<lparr>z_c := c\<rparr>) }"

end
