(* ===== verification/Slices.thy ===== *)
theory Slices
  imports Utf8
begin

text \<open>
  Matching and editing the text (\<^verbatim>\<open>runtime/utilities.c\<close>, second half): string tests at the
  cursor, \<^verbatim>\<open>replace_s\<close> and the slice operations built on it. The invariant \<open>wf_env\<close> ties the
  limit, the buffer's size field and the allocated bytes together; under it no operation reads or
  writes outside its buffer, and \<open>replace_s\<close> is replacement on the text.
\<close>

subsection \<open>Tests at the cursor\<close>

definition eq_s :: "int \<Rightarrow> symbol list \<Rightarrow> sn_func" where
  "eq_s n str z =
     (if z_l z - z_c z < n then Some (0, z)
      else do {
        p \<leftarrow> z_p z;
        a \<leftarrow> arr_read (bytes p) (z_c z) n;
        b \<leftarrow> arr_read str 0 n;
        Some (if a \<noteq> b then (0, z) else (1, z\<lparr>z_c := z_c z + n\<rparr>)) })"

definition eq_s_b :: "int \<Rightarrow> symbol list \<Rightarrow> sn_func" where
  "eq_s_b n str z =
     (if z_c z - z_lb z < n then Some (0, z)
      else do {
        p \<leftarrow> z_p z;
        a \<leftarrow> arr_read (bytes p) (z_c z - n) n;
        b \<leftarrow> arr_read str 0 n;
        Some (if a \<noteq> b then (0, z) else (1, z\<lparr>z_c := z_c z - n\<rparr>)) })"

definition eq_v :: "sbuf \<Rightarrow> sn_func" where
  "eq_v v = eq_s (SIZE v) (bytes v)"

definition eq_v_b :: "sbuf \<Rightarrow> sn_func" where
  "eq_v_b v = eq_s_b (SIZE v) (bytes v)"

subsection \<open>replace\_s\<close>

text \<open>The block \<^verbatim>\<open>if (adjustment != 0) { ... }\<close>; \<^const>\<open>False\<close> when the buffer could not grow.\<close>

definition replace_shift :: "int \<Rightarrow> int \<Rightarrow> int \<Rightarrow> sbuf \<Rightarrow> SN_env \<Rightarrow> (bool \<times> SN_env) option" where
  "replace_shift c_bra c_ket adjustment p z =
     (let len = SIZE p;
          (q, z) = (if adjustment + len > CAPACITY p
                    then increase_size p (adjustment + len) z else (Some p, z))
      in case q of
        None \<Rightarrow> Some (False, z\<lparr>z_p := None\<rparr>)
      | Some p \<Rightarrow> do {
          bs \<leftarrow> memmove (bytes p) (c_ket + adjustment) c_ket (len - c_ket);
          Some (True, z\<lparr>z_p := Some (p\<lparr>bytes := bs, SIZE := adjustment + len\<rparr>),
                        z_l := z_l z + adjustment,
                        z_c := (if z_c z \<ge> c_ket then z_c z + adjustment
                                else if z_c z > c_bra then c_bra else z_c z)\<rparr>) })"

text \<open>The result pairs the return value with the adjustment stored through \<^verbatim>\<open>adjptr\<close>.\<close>

definition replace_s :: "int \<Rightarrow> int \<Rightarrow> int \<Rightarrow> symbol list \<Rightarrow> SN_env \<Rightarrow> ((int \<times> int) \<times> SN_env) option" where
  "replace_s c_bra c_ket n str z =
     (let (p, z) = (case z_p z of Some p \<Rightarrow> (Some p, z)
                    | None \<Rightarrow> (let (q, z) = create_s z in (q, z\<lparr>z_p := q\<rparr>)))
      in case p of
        None \<Rightarrow> Some ((- 1, 0), z)
      | Some p \<Rightarrow>
          (let adjustment = n - (c_ket - c_bra) in do {
            (ok, z) \<leftarrow> (if adjustment \<noteq> 0 then replace_shift c_bra c_ket adjustment p z
                        else Some (True, z));
            if \<not> ok then Some ((- 1, 0), z)
            else if n = 0 then Some ((0, adjustment), z)
            else do {
              p \<leftarrow> z_p z;
              src \<leftarrow> arr_read str 0 n;
              bs \<leftarrow> arr_write (bytes p) c_bra src;
              Some ((0, adjustment), z\<lparr>z_p := Some (p\<lparr>bytes := bs\<rparr>)\<rparr>) } }))"

subsection \<open>Slices\<close>

definition slice_check :: "SN_env \<Rightarrow> int" where
  "slice_check z =
     (if z_bra z < 0 \<or> z_bra z > z_ket z \<or> z_ket z > z_l z
         \<or> (case z_p z of None \<Rightarrow> True | Some p \<Rightarrow> z_l z > SIZE p)
      then - 1 else 0)"

definition slice_from_s :: "int \<Rightarrow> symbol list \<Rightarrow> sn_func" where
  "slice_from_s n str z =
     (if slice_check z \<noteq> 0 then Some (- 1, z)
      else do { ((r, _), z) \<leftarrow> replace_s (z_bra z) (z_ket z) n str z; Some (r, z) })"

definition slice_from_v :: "sbuf \<Rightarrow> sn_func" where
  "slice_from_v v = slice_from_s (SIZE v) (bytes v)"

definition slice_del :: sn_func where
  "slice_del = slice_from_s 0 []"

definition insert_s :: "int \<Rightarrow> int \<Rightarrow> int \<Rightarrow> symbol list \<Rightarrow> sn_func" where
  "insert_s bra ket n str z = do {
     ((r, adjustment), z) \<leftarrow> replace_s bra ket n str z;
     Some (if r \<noteq> 0 then (- 1, z)
           else (0, z\<lparr>z_bra := (if bra \<le> z_bra z then z_bra z + adjustment else z_bra z),
                      z_ket := (if bra \<le> z_ket z then z_ket z + adjustment else z_ket z)\<rparr>)) }"

text \<open>A call of \<open>insert_s\<close> whose positions are read from the environment, as in
  \<^verbatim>\<open>insert_s(z, z->c, z->c, 1, s_3)\<close>.\<close>

definition insert_s_at :: "(SN_env \<Rightarrow> int) \<Rightarrow> (SN_env \<Rightarrow> int) \<Rightarrow> int \<Rightarrow> symbol list \<Rightarrow> sn_func" where
  "insert_s_at bra ket n str z = insert_s (bra z) (ket z) n str z"

definition insert_v :: "int \<Rightarrow> int \<Rightarrow> sbuf \<Rightarrow> sn_func" where
  "insert_v bra ket v = insert_s bra ket (SIZE v) (bytes v)"

text \<open>Copies of a slice, or of the whole text, into a string variable \<open>p\<close>.\<close>

definition copy_to :: "int \<Rightarrow> int \<Rightarrow> sbuf \<Rightarrow> SN_env \<Rightarrow> (sbuf option \<times> SN_env) option" where
  "copy_to from len p z =
     (let (q, z) = (if CAPACITY p < len then increase_size p len z else (Some p, z))
      in case q of None \<Rightarrow> Some (None, z)
      | Some p \<Rightarrow> do {
          t \<leftarrow> z_p z;
          src \<leftarrow> arr_read (bytes t) from len;
          bs \<leftarrow> arr_write (bytes p) 0 src;
          Some (Some (p\<lparr>bytes := bs, SIZE := len\<rparr>), z) })"

definition slice_to :: "sbuf option \<Rightarrow> SN_env \<Rightarrow> (sbuf option \<times> SN_env) option" where
  "slice_to p z =
     (if slice_check z \<noteq> 0 then Some (None, z)
      else do { p \<leftarrow> p; copy_to (z_bra z) (z_ket z - z_bra z) p z })"

definition assign_to :: "sbuf option \<Rightarrow> SN_env \<Rightarrow> (sbuf option \<times> SN_env) option" where
  "assign_to p z = do { p \<leftarrow> p; copy_to 0 (z_l z) p z }"

text \<open>
  The string variables of an environment: \<^verbatim>\<open>z->S[i] = slice_to(z, z->S[i]);\<close>,
  \<^verbatim>\<open>z->S[i] == 0\<close> and \<^verbatim>\<open>eq_v_b(z, z->S[i])\<close>.
\<close>

definition set_S_slice_to :: "int \<Rightarrow> sn_cmd" where
  "set_S_slice_to i z = do {
     p \<leftarrow> arr_get (z_S z) i;
     (q, z) \<leftarrow> slice_to p z;
     xs \<leftarrow> arr_set (z_S z) i q;
     Some (Next, z\<lparr>z_S := xs\<rparr>) }"

definition S_null :: "int \<Rightarrow> SN_env \<Rightarrow> bool option" where
  "S_null i z = do { p \<leftarrow> arr_get (z_S z) i; Some (p = None) }"

definition eq_v_b_S :: "int \<Rightarrow> sn_func" where
  "eq_v_b_S i z = do { p \<leftarrow> arr_get (z_S z) i; v \<leftarrow> p; eq_v_b v z }"

subsection \<open>The invariant\<close>

definition wf_buf :: "sbuf \<Rightarrow> bool" where
  "wf_buf b \<longleftrightarrow> 0 \<le> SIZE b \<and> SIZE b \<le> CAPACITY b \<and> int (length (bytes b)) = CAPACITY b + 1"

definition wf_env :: "SN_env \<Rightarrow> bool" where
  "wf_env z \<longleftrightarrow> (case z_p z of None \<Rightarrow> False | Some b \<Rightarrow> wf_buf b \<and> 0 \<le> z_l z \<and> z_l z \<le> SIZE b)"

definition content :: "SN_env \<Rightarrow> symbol list" where
  "content z = (case z_p z of None \<Rightarrow> [] | Some b \<Rightarrow> take (nat (z_l z)) (bytes b))"

text \<open>The length to which the text can grow in the buffer it has.\<close>

definition free :: "SN_env \<Rightarrow> int" where
  "free z = (case z_p z of None \<Rightarrow> 0 | Some b \<Rightarrow> CAPACITY b - SIZE b + z_l z)"

lemma wf_envE:
  assumes "wf_env z"
  obtains b where "z_p z = Some b" "wf_buf b" "0 \<le> z_l z" "z_l z \<le> SIZE b"
    "z_l z < int (length (bytes b))" "content z = take (nat (z_l z)) (bytes b)"
  using assms by (auto simp: wf_env_def wf_buf_def content_def split: option.splits)

lemma length_content [simp]: "wf_env z \<Longrightarrow> int (length (content z)) = z_l z"
  by (erule wf_envE) (auto simp: wf_buf_def)

lemma wf_env_upd [simp]:
  "wf_env (z\<lparr>z_c := x\<rparr>) = wf_env z" "wf_env (z\<lparr>z_lb := x\<rparr>) = wf_env z"
  "wf_env (z\<lparr>z_bra := x\<rparr>) = wf_env z" "wf_env (z\<lparr>z_ket := x\<rparr>) = wf_env z"
  "wf_env (z\<lparr>z_I := xs\<rparr>) = wf_env z" "wf_env (z\<lparr>z_B := xs\<rparr>) = wf_env z"
  "wf_env (z\<lparr>z_S := ys\<rparr>) = wf_env z" "wf_env (z\<lparr>z_faults := fs\<rparr>) = wf_env z"
  by (simp_all add: wf_env_def split: option.splits)

lemma content_upd [simp]:
  "content (z\<lparr>z_c := x\<rparr>) = content z" "content (z\<lparr>z_lb := x\<rparr>) = content z"
  "content (z\<lparr>z_bra := x\<rparr>) = content z" "content (z\<lparr>z_ket := x\<rparr>) = content z"
  "content (z\<lparr>z_I := xs\<rparr>) = content z" "content (z\<lparr>z_B := xs\<rparr>) = content z"
  "content (z\<lparr>z_S := ys\<rparr>) = content z" "content (z\<lparr>z_faults := fs\<rparr>) = content z"
  by (simp_all add: content_def split: option.splits)

lemma free_upd [simp]:
  "free (z\<lparr>z_c := x\<rparr>) = free z" "free (z\<lparr>z_lb := x\<rparr>) = free z"
  "free (z\<lparr>z_bra := x\<rparr>) = free z" "free (z\<lparr>z_ket := x\<rparr>) = free z"
  "free (z\<lparr>z_I := xs\<rparr>) = free z" "free (z\<lparr>z_B := xs\<rparr>) = free z"
  "free (z\<lparr>z_S := ys\<rparr>) = free z" "free (z\<lparr>z_faults := fs\<rparr>) = free z"
  by (simp_all add: free_def split: option.splits)

lemma l_le_free: "wf_env z \<Longrightarrow> z_l z \<le> free z"
  by (auto simp: wf_env_def wf_buf_def free_def split: option.splits)

lemma p_at_content:
  assumes "wf_env z" "0 \<le> i" "i < z_l z"
  shows "p_at z i = Some (byte (content z ! nat i))"
  using assms by (auto simp: p_at_def elim!: wf_envE)

subsection \<open>What replace\_s does\<close>

text \<open>The number of coming allocations that will fail.\<close>

definition failing :: "bool list \<Rightarrow> nat" where
  "failing fs = length (filter id fs)"

lemma alloc_ok_cases:
  obtains (ok) fs where "alloc_ok z = (True, z\<lparr>z_faults := fs\<rparr>)" "failing fs \<le> failing (z_faults z)"
    | (fail) fs where "alloc_ok z = (False, z\<lparr>z_faults := fs\<rparr>)" "0 < failing (z_faults z)"
proof (cases "z_faults z")
  case Nil
  then have "alloc_ok z = (True, z\<lparr>z_faults := []\<rparr>)"
    by (cases z) (simp add: alloc_ok_def)
  then show thesis by (rule ok) (simp add: failing_def)
next
  case (Cons b bs)
  then have eq: "alloc_ok z = (\<not> b, z\<lparr>z_faults := bs\<rparr>)" by (simp add: alloc_ok_def)
  show thesis
  proof (cases b)
    case True
    with eq Cons show thesis by (intro fail [of bs]) (simp_all add: failing_def)
  next
    case False
    with eq Cons show thesis by (intro ok [of bs]) (simp_all add: failing_def)
  qed
qed

text \<open>A buffer that holds the first \<open>SIZE\<close> bytes of \<open>p\<close> and has room for \<open>n\<close>.\<close>

definition room :: "sbuf \<Rightarrow> int \<Rightarrow> sbuf \<Rightarrow> bool" where
  "room p n q \<longleftrightarrow> SIZE q = SIZE p \<and> n \<le> CAPACITY q \<and> int (length (bytes q)) = CAPACITY q + 1
     \<and> CAPACITY p \<le> CAPACITY q \<and> take (nat (SIZE p)) (bytes q) = take (nat (SIZE p)) (bytes p)"

lemma room_refl: "wf_buf p \<Longrightarrow> n \<le> CAPACITY p \<Longrightarrow> room p n p"
  by (simp add: room_def wf_buf_def)

lemma increase_size_cases:
  assumes "wf_buf p" "CAPACITY p < n"
  obtains (ok) q fs where "increase_size p n z = (Some q, z\<lparr>z_faults := fs\<rparr>)" "room p n q"
      "failing fs \<le> failing (z_faults z)"
    | (fail) fs where "increase_size p n z = (None, z\<lparr>z_faults := fs\<rparr>)" "0 < failing (z_faults z)"
proof (cases z rule: alloc_ok_cases)
  case (ok fs)
  let ?q = "p\<lparr>bytes := map (\<lambda>i. if i < length (bytes p) then bytes p ! i else z_fresh z i)
      [0..<nat (n + 21)], CAPACITY := n + 20\<rparr>"
  have "room p n ?q"
    using assms by (auto simp: room_def wf_buf_def intro!: nth_equalityI)
  moreover have "increase_size p n z = (Some ?q, z\<lparr>z_faults := fs\<rparr>)"
    using ok by (simp add: increase_size_def Let_def algebra_simps)
  ultimately show thesis using that(1) ok(2) by blast
next
  case (fail fs)
  then show thesis using that(2) by (simp add: increase_size_def Let_def)
qed

lemma splice_bytes:
  fixes bra ket l len :: nat
  assumes le: "bra \<le> ket" "ket \<le> l" "l \<le> len" "len \<le> length bs"
    and fits: "bra + length str + (len - ket) \<le> length bs"
    and bs1: "bs1 = take (bra + length str) bs @ take (len - ket) (drop ket bs)
      @ drop (bra + length str + (len - ket)) bs"
    and bs2: "bs2 = take bra bs1 @ str @ drop (bra + length str) bs1"
  shows "take (bra + length str + (l - ket)) bs2 = take bra bs @ str @ drop ket (take l bs)"
    and "length bs2 = length bs"
proof -
  have len1: "length bs1 = length bs"
    unfolding bs1 using le fits by simp
  have a: "take bra bs1 = take bra bs"
    unfolding bs1 using fits by simp
  have b: "take (l - ket) (drop (bra + length str) bs1) = drop ket (take l bs)"
    unfolding bs1 using le fits by (simp add: drop_take)
  have bra: "length (take bra bs) = bra" using fits by simp
  show "take (bra + length str + (l - ket)) bs2 = take bra bs @ str @ drop ket (take l bs)"
    unfolding bs2 a using b bra by simp
  show "length bs2 = length bs"
    unfolding bs2 using len1 fits by simp
qed

definition moved_c :: "int \<Rightarrow> int \<Rightarrow> int \<Rightarrow> int \<Rightarrow> int" where
  "moved_c bra ket adj c =
     (if adj = 0 then c else if ket \<le> c then c + adj else if bra < c then bra else c)"

text \<open>The final write of the \<open>n\<close> new symbols over a buffer whose tail is already in place.\<close>

lemma replace_write:
  assumes room: "room p (SIZE p + adj) q" and p: "wf_buf p" and le: "0 \<le> bra" "bra \<le> ket" "ket \<le> l" "l \<le> SIZE p"
    and n: "n = int (length str)" and adj: "adj = n - (ket - bra)"
    and bs1: "bs1 = take (nat (ket + adj)) (bytes q) @ take (nat (SIZE p - ket)) (drop (nat ket) (bytes q))
      @ drop (nat (ket + adj) + nat (SIZE p - ket)) (bytes q)"
    and bs2: "bs2 = take (nat bra) bs1 @ str @ drop (nat bra + length str) bs1"
  shows "take (nat (l + adj)) bs2 = take (nat bra) (take (nat l) (bytes p)) @ str @ drop (nat ket) (take (nat l) (bytes p))"
    and "length bs2 = length (bytes q)"
proof -
  have len: "nat (SIZE p) \<le> length (bytes q)" "nat (ket + adj) = nat bra + length str"
    "nat (SIZE p - ket) = nat (SIZE p) - nat ket" "nat (l + adj) = nat bra + length str + (nat l - nat ket)"
    using room p le n adj by (auto simp: room_def wf_buf_def)
  have fits: "nat bra + length str + (nat (SIZE p) - nat ket) \<le> length (bytes q)"
    using room p le n adj by (simp add: room_def wf_buf_def) linarith
  have keep: "take (nat l) (bytes q) = take (nat l) (bytes p)"
    using room le by (metis (no_types, lifting) min.absorb1 nat_mono room_def take_take)
  have b: "take (nat bra) (bytes q) = take (nat bra) (take (nat l) (bytes p))"
    using le by (metis keep min.absorb1 nat_mono order_trans take_take)
  have bs1': "bs1 = take (nat bra + length str) (bytes q)
      @ take (nat (SIZE p) - nat ket) (drop (nat ket) (bytes q))
      @ drop (nat bra + length str + (nat (SIZE p) - nat ket)) (bytes q)"
    using bs1 by (simp only: len)
  have mono: "nat bra \<le> nat ket" "nat ket \<le> nat l" "nat l \<le> nat (SIZE p)"
    using le by simp_all
  note sp = splice_bytes [OF mono len(1) fits bs1' bs2]
  show "take (nat (l + adj)) bs2 = take (nat bra) (take (nat l) (bytes p)) @ str @ drop (nat ket) (take (nat l) (bytes p))"
    using sp(1) by (simp only: len keep b)
  show "length bs2 = length (bytes q)"
    by (rule sp(2))
qed

lemma replace_shift_cases:
  assumes p: "wf_buf p" and le: "0 \<le> bra" "bra \<le> ket" "ket \<le> SIZE p" and adj: "0 \<le> ket + adj"
  obtains (ok) q fs where
      "replace_shift bra ket adj p z = Some (True, z\<lparr>z_p := Some (q\<lparr>bytes :=
         take (nat (ket + adj)) (bytes q) @ take (nat (SIZE p - ket)) (drop (nat ket) (bytes q))
         @ drop (nat (ket + adj) + nat (SIZE p - ket)) (bytes q), SIZE := SIZE p + adj\<rparr>),
         z_l := z_l z + adj,
         z_c := (if ket \<le> z_c z then z_c z + adj else if bra < z_c z then bra else z_c z),
         z_faults := fs\<rparr>)"
      "room p (SIZE p + adj) q" "failing fs \<le> failing (z_faults z)"
      "SIZE p + adj \<le> CAPACITY p \<Longrightarrow> q = p \<and> fs = z_faults z"
    | (fail) fs where
      "replace_shift bra ket adj p z = Some (False, z\<lparr>z_p := None, z_faults := fs\<rparr>)" "0 < failing (z_faults z)"
      "CAPACITY p < SIZE p + adj"
proof -
  have mv: "memmove (bytes q) (ket + adj) ket (SIZE p - ket) = Some (take (nat (ket + adj)) (bytes q)
      @ take (nat (SIZE p - ket)) (drop (nat ket) (bytes q)) @ drop (nat (ket + adj) + nat (SIZE p - ket)) (bytes q))"
    if "room p (SIZE p + adj) q" for q
    using le adj that p by (intro memmove_Some) (auto simp: room_def wf_buf_def)
  show thesis
  proof (cases "adj + SIZE p > CAPACITY p")
    case True
    then have more: "CAPACITY p < SIZE p + adj" by simp
    show thesis
    proof (cases rule: increase_size_cases [OF p more, of z, case_names ok fail])
      case (ok q fs)
      show thesis using ok True mv [OF ok(2)]
        by (intro that(1) [where q = q and fs = fs]) (simp_all add: replace_shift_def Let_def add.commute)
    next
      case (fail fs)
      show thesis using fail True
        by (intro that(2) [where fs = fs]) (simp_all add: replace_shift_def Let_def add.commute)
    qed
  next
    case False
    then have "room p (SIZE p + adj) p" using p by (intro room_refl) auto
    then show thesis using False mv
      by (intro that(1) [where q = p and fs = "z_faults z"]) (simp_all add: replace_shift_def Let_def add.commute)
  qed
qed

text \<open>
  The contract of \<open>replace_s\<close>: the text between \<open>bra\<close> and \<open>ket\<close> is replaced by \<open>str\<close>, the limit and
  the size move by the adjustment and the cursor by \<^const>\<open>moved_c\<close>; or, only when an allocation
  fails, the result is an error and the buffer is gone while the limit is as before.
\<close>

definition replaced :: "int \<Rightarrow> int \<Rightarrow> symbol list \<Rightarrow> SN_env \<Rightarrow> sbuf \<Rightarrow> bool list \<Rightarrow> SN_env" where
  "replaced bra ket str z b fs =
     z\<lparr>z_p := Some b, z_l := z_l z + (int (length str) - (ket - bra)),
       z_c := moved_c bra ket (int (length str) - (ket - bra)) (z_c z), z_faults := fs\<rparr>"

text \<open>What is left of an environment whose buffer could not grow: everything but the buffer.\<close>

definition lost :: "SN_env \<Rightarrow> SN_env \<Rightarrow> bool" where
  "lost z z' \<longleftrightarrow> z_p z' = None \<and> z_l z' = z_l z \<and> z_lb z' = z_lb z
     \<and> z_S z' = z_S z \<and> z_I z' = z_I z \<and> z_B z' = z_B z"

lemma replace_s_no_shift:
  assumes p: "z_p z = Some p" and wf: "wf_env z" and le: "0 \<le> bra" "ket \<le> z_l z"
    and n: "n = int (length str)" and adj: "n = ket - bra"
  shows "\<exists>b. replace_s bra ket n str z = Some ((0, 0), replaced bra ket str z b (z_faults z))
    \<and> SIZE b = SIZE p \<and> CAPACITY b = CAPACITY p \<and> wf_env (replaced bra ket str z b (z_faults z))
    \<and> content (replaced bra ket str z b (z_faults z))
        = take (nat bra) (content z) @ str @ drop (nat ket) (content z)"
proof -
  let ?bs = "take (nat bra) (bytes p) @ str @ drop (nat bra + length str) (bytes p)"
  let ?b = "p\<lparr>bytes := ?bs\<rparr>"
  have wfb: "wf_buf p" "z_l z \<le> SIZE p" "0 \<le> z_l z" using wf p by (auto simp: wf_env_def)
  have ket: "nat ket = nat bra + length str" "ket = bra + int (length str)" using le n adj by linarith+
  have len: "length ?bs = length (bytes p)" and bnd: "bra + int (length str) \<le> int (length (bytes p))"
    using wfb le n adj by (auto simp: wf_buf_def)
  have eq: "replaced bra ket str z ?b (z_faults z) = z\<lparr>z_p := Some ?b\<rparr>"
    using n adj by (cases z) (simp add: replaced_def moved_c_def)
  have run: "replace_s bra ket n str z = Some ((0, 0), z\<lparr>z_p := Some ?b\<rparr>)"
  proof (cases "n = 0")
    case True
    then have "str = []" using n by simp
    with p True adj show ?thesis by (cases z, cases p) (simp add: replace_s_def)
  next
    case False
    with p n adj le bnd show ?thesis by (simp add: replace_s_def)
  qed
  have wf': "wf_env (z\<lparr>z_p := Some ?b\<rparr>)"
    using wfb len by (simp add: wf_env_def wf_buf_def)
  have "take (nat (z_l z)) ?bs = take (nat bra) (take (nat (z_l z)) (bytes p)) @ str
      @ drop (nat ket) (take (nat (z_l z)) (bytes p))"
  proof -
    have "nat bra \<le> nat (z_l z)" "nat bra + length str \<le> nat (z_l z)" "nat bra \<le> length (bytes p)"
      using le ket bnd wfb by auto
    then show ?thesis by (simp add: ket(1) drop_take)
  qed
  with run wf' p show ?thesis
    by (intro exI [of _ ?b]) (simp add: eq content_def)
qed

lemma replace_s_shift:
  assumes p: "z_p z = Some p" and wf: "wf_env z" and le: "0 \<le> bra" "bra \<le> ket" "ket \<le> z_l z"
    and n: "n = int (length str)" and adj: "n \<noteq> ket - bra"
  shows "(\<exists>b fs. replace_s bra ket n str z = Some ((0, n - (ket - bra)), replaced bra ket str z b fs)
      \<and> SIZE b = SIZE p + (n - (ket - bra)) \<and> CAPACITY p \<le> CAPACITY b \<and> wf_env (replaced bra ket str z b fs)
      \<and> content (replaced bra ket str z b fs) = take (nat bra) (content z) @ str @ drop (nat ket) (content z)
      \<and> failing fs \<le> failing (z_faults z)
      \<and> (z_l z + (n - (ket - bra)) \<le> free z \<longrightarrow> CAPACITY b = CAPACITY p \<and> fs = z_faults z))
    \<or> (\<exists>z'. replace_s bra ket n str z = Some ((- 1, 0), z') \<and> lost z z'
        \<and> 0 < failing (z_faults z) \<and> free z < z_l z + (n - (ket - bra)))"
proof -
  let ?adj = "n - (ket - bra)"
  have wfb: "wf_buf p" "z_l z \<le> SIZE p" "0 \<le> z_l z" using wf p by (auto simp: wf_env_def)
  have pos: "0 \<le> ket + ?adj" "ket \<le> SIZE p" using le n wfb by auto
  show ?thesis
  proof (cases rule: replace_shift_cases [OF wfb(1) le(1,2) pos(2,1), of z, case_names ok fail])
    case (ok q fs)
    define bs1 where "bs1 = take (nat (ket + ?adj)) (bytes q)
      @ take (nat (SIZE p - ket)) (drop (nat ket) (bytes q)) @ drop (nat (ket + ?adj) + nat (SIZE p - ket)) (bytes q)"
    define bs2 where "bs2 = take (nat bra) bs1 @ str @ drop (nat bra + length str) bs1"
    note w = replace_write [OF ok(2) wfb(1) le wfb(2) n refl bs1_def bs2_def]
    have "length bs1 = length (bytes q)"
      using ok(2) le n wfb by (auto simp: bs1_def room_def wf_buf_def)
    then have fits: "bra + int (length str) \<le> int (length bs1)"
      using ok(2) le n wfb by (simp add: room_def)
    let ?b = "q\<lparr>bytes := bs2, SIZE := SIZE p + ?adj\<rparr>"
    have "replace_s bra ket n str z = Some ((0, ?adj), replaced bra ket str z ?b fs)"
    proof (cases "n = 0")
      case True
      then have "bs2 = bs1" using n by (simp add: bs2_def)
      with True n adj p ok(1) [folded bs1_def] show ?thesis
        by (simp add: replace_s_def Let_def replaced_def moved_c_def)
    next
      case False
      with n adj p ok(1) [folded bs1_def] le fits show ?thesis
        by (simp add: replace_s_def Let_def replaced_def moved_c_def bs2_def)
    qed
    moreover have "wf_env (replaced bra ket str z ?b fs)"
      using ok(2) w(2) n wfb le by (simp add: wf_env_def wf_buf_def replaced_def room_def)
    moreover have "content (replaced bra ket str z ?b fs) = take (nat bra) (content z) @ str @ drop (nat ket) (content z)"
      using w(1) p n by (simp add: content_def replaced_def)
    moreover have "CAPACITY p \<le> CAPACITY ?b" using ok(2) by (simp add: room_def)
    moreover have "CAPACITY ?b = CAPACITY p \<and> fs = z_faults z" if "z_l z + ?adj \<le> free z"
      using that ok(4) p by (auto simp: free_def)
    ultimately show ?thesis using ok(3) by (intro disjI1 exI [of _ ?b] exI [of _ fs]) simp
  next
    case (fail fs)
    then have "free z < z_l z + ?adj" using p by (simp add: free_def)
    with fail p adj n show ?thesis by (simp add: replace_s_def lost_def)
  qed
qed

end
