(* ===== verification/Libc.thy ===== *)
theory Libc
  imports Slices
begin

text \<open>
  What the programs of the repository use of the C library and what the components outside the
  stemming library share: \<^verbatim>\<open>malloc\<close> on a given future of the allocator, the remainder of
  integers, \<^verbatim>\<open>printf\<close>'s decimal integers, and the word scanner \<^verbatim>\<open>fscanf("%99s")\<close>.
\<close>

subsection \<open>Memory\<close>

text \<open>
  The future of the allocator says which of the coming requests fail; requests after its end
  succeed.
\<close>

definition malloc_ok :: "bool list \<Rightarrow> bool \<times> bool list" where
  "malloc_ok fs = (case fs of [] \<Rightarrow> (True, []) | b # bs \<Rightarrow> (\<not> b, bs))"

lemma malloc_ok_cases:
  obtains (ok) fs' where "malloc_ok fs = (True, fs')" "failing fs' \<le> failing fs"
    | (fail) fs' where "malloc_ok fs = (False, fs')" "0 < failing fs"
proof (cases fs)
  case Nil
  then show thesis by (intro ok [of "[]"]) (simp_all add: malloc_ok_def failing_def)
next
  case (Cons b bs)
  then show thesis
    by (cases b) (auto intro: ok [of bs] fail [of bs] simp: malloc_ok_def failing_def)
qed

lemma malloc_ok_plenty:
  assumes "failing fs = 0"
  obtains fs' where "malloc_ok fs = (True, fs')" "failing fs' = 0"
proof (cases rule: malloc_ok_cases [of fs])
  case (ok fs')
  then show thesis using that [of fs'] assms by simp
qed (use assms in simp)

text \<open>A request whose failure the caller does not check: the null pointer is written through.\<close>

definition malloc_used :: "bool list \<Rightarrow> bool list option" where
  "malloc_used fs = (let (ok, fs) = malloc_ok fs in if ok then Some fs else None)"

lemma malloc_used_plenty:
  assumes "failing fs = 0"
  obtains fs' where "malloc_used fs = Some fs'" "failing fs' = 0"
proof -
  obtain fs' where "malloc_ok fs = (True, fs')" "failing fs' = 0" using assms by (rule malloc_ok_plenty)
  then show thesis by (intro that [of fs']) (simp_all add: malloc_used_def)
qed

lemma malloc_used_Some: "malloc_used fs = Some fs' \<Longrightarrow> failing fs' \<le> failing fs"
  by (cases rule: malloc_ok_cases [of fs]) (auto simp: malloc_used_def)

subsection \<open>Integers\<close>

text \<open>The \<^verbatim>\<open>%\<close> of C: the sign is the dividend's, and there is no remainder by zero.\<close>

definition c_rem :: "int \<Rightarrow> int \<Rightarrow> int option" where
  "c_rem a b = (if b = 0 then None else Some (sgn a * (\<bar>a\<bar> mod \<bar>b\<bar>)))"

lemma c_rem_bounds:
  assumes "0 \<le> a" "b \<noteq> 0"
  obtains r where "c_rem a b = Some r" "0 \<le> r" "r < \<bar>b\<bar>"
proof -
  have "sgn a * (\<bar>a\<bar> mod \<bar>b\<bar>) = a mod \<bar>b\<bar>" using assms(1) by (cases "a = 0") (simp_all add: sgn_if)
  then have "c_rem a b = Some (a mod \<bar>b\<bar>)" using assms(2) unfolding c_rem_def by simp
  moreover have "0 < \<bar>b\<bar>" using assms(2) by simp
  ultimately show thesis using pos_mod_sign pos_mod_bound by (intro that)
qed

fun dec_nat :: "nat \<Rightarrow> string" where
  "dec_nat n = (if n < 10 then [char_of (48 + n)] else dec_nat (n div 10) @ [char_of (48 + n mod 10)])"

declare dec_nat.simps [simp del]

definition dec :: "int \<Rightarrow> string" where
  "dec i = (if i < 0 then ''-'' @ dec_nat (nat (- i)) else dec_nat (nat i))"

text \<open>\<^verbatim>\<open>atoi\<close>, for numbers that an \<^verbatim>\<open>int\<close> can hold.\<close>

definition atoi :: "string \<Rightarrow> int" where
  "atoi s = (let s = dropWhile (\<lambda>c. c = CHR 0x20 \<or> 0x09 \<le> byte c \<and> byte c \<le> 0x0D) s;
     neg = (take 1 s = ''-'');
     s = (if take 1 s \<in> {''-'', ''+''} then drop 1 s else s);
     n = foldl (\<lambda>n c. n * 10 + (byte c - 48)) 0 (takeWhile (\<lambda>c. 48 \<le> byte c \<and> byte c \<le> 57) s)
   in if neg then - n else n)"

subsection \<open>Arrays filled from the front\<close>

lemma arr_set_append:
  "arr_set (xs @ ys) (int (length xs)) v = (case ys of [] \<Rightarrow> None | _ # zs \<Rightarrow> Some ((xs @ [v]) @ zs))"
  by (cases ys) (simp_all add: arr_set_def)

lemma arr_set_end [simp]: "arr_set xs (int (length xs)) v = None"
  by (simp add: arr_set_def)

subsection \<open>Scanning words\<close>

definition isspace :: "char \<Rightarrow> bool" where
  "isspace ch \<longleftrightarrow> ch \<in> {CHR 0x20, CHR 0x09, CHR 0x0A, CHR 0x0B, CHR 0x0C, CHR 0x0D}"

text \<open>
  \<^verbatim>\<open>fscanf(f, "%99s", buf)\<close> on the rest of a file: at the end of the file there is no word; else
  the word, at most 99 bytes of it, and what is left of the file.
\<close>

definition fscanf_word :: "string \<Rightarrow> (string \<times> string) option" where
  "fscanf_word f = (let f = dropWhile isspace f in
     if f = [] then None
     else let buf = take 99 (takeWhile (\<lambda>ch. \<not> isspace ch) f) in Some (buf, drop (length buf) f))"

text \<open>The string in a buffer ends at the first zero byte.\<close>

definition c_str :: "string \<Rightarrow> string" where
  "c_str buf = takeWhile (\<lambda>ch. ch \<noteq> CHR 0x00) buf"

lemma fscanf_word_shorter: "fscanf_word f = Some (buf, f') \<Longrightarrow> length f' < length f"
proof -
  assume a: "fscanf_word f = Some (buf, f')"
  obtain g where g: "g = dropWhile isspace f" by simp
  with a have ne: "g \<noteq> []" "buf = take 99 (takeWhile (\<lambda>ch. \<not> isspace ch) g)" "f' = drop (length buf) g"
    by (auto simp: fscanf_word_def Let_def split: if_splits)
  then obtain c cs where gc: "g = c # cs" by (cases g) auto
  moreover have "\<not> isspace c" using g gc hd_dropWhile [of isspace f] by (metis list.distinct(1) list.sel(1))
  ultimately have "buf \<noteq> []" using ne by simp
  then have "length f' < length g" using ne gc by (cases buf) auto
  also have "length g \<le> length f" using g by (simp add: length_dropWhile_le)
  finally show "length f' < length f" .
qed

text \<open>The words of a file, as strings.\<close>

function file_words :: "string \<Rightarrow> string list" where
  "file_words f = (case fscanf_word f of None \<Rightarrow> [] | Some (buf, f') \<Rightarrow> c_str buf # file_words f')"
  by pat_completeness auto
termination by (relation "measure length") (auto dest: fscanf_word_shorter)

declare file_words.simps [simp del]

end
