(* ===== verification/Among.thy ===== *)
theory Among
  imports Slices
begin

text \<open>
  Searching a table of strings at the cursor (\<^verbatim>\<open>find_among\<close> and \<^verbatim>\<open>find_among_b\<close> of
  \<^verbatim>\<open>runtime/utilities.c\<close>): a binary search that remembers how much of the text the two ends of
  the interval already match, then a walk along the \<^verbatim>\<open>substring_i\<close> links to the longest entry that
  matches. The search is proved once, in a locale over the comparison of the text with an entry,
  and used for both directions.
\<close>

subsection \<open>The inner loops\<close>

text \<open>\<^verbatim>\<open>for (i2 = common; i2 < w->s_size; i2++)\<close> and its mirror image; the results are \<^verbatim>\<open>diff\<close>
  and \<^verbatim>\<open>common\<close>.\<close>

function among_cmp :: "symbol list \<Rightarrow> int \<Rightarrow> int \<Rightarrow> among \<Rightarrow> int \<Rightarrow> int \<Rightarrow> (int \<times> int) option" where
  "among_cmp p c l w i2 common =
     (if i2 < s_size w then
        if c + common = l then Some (- 1, common)
        else do {
          a \<leftarrow> arr_get p (c + common);
          b \<leftarrow> arr_get (s_sym w) i2;
          if byte a - byte b \<noteq> 0 then Some (byte a - byte b, common)
          else among_cmp p c l w (i2 + 1) (common + 1) }
      else Some (0, common))"
  by pat_completeness auto
termination
  by (relation "measure (\<lambda>(p, c, l, w, i2, common). nat (s_size w - i2))") auto

function among_cmp_b :: "symbol list \<Rightarrow> int \<Rightarrow> int \<Rightarrow> among \<Rightarrow> int \<Rightarrow> int \<Rightarrow> (int \<times> int) option" where
  "among_cmp_b p c lb w i2 common =
     (if i2 \<ge> 0 then
        if c - common = lb then Some (- 1, common)
        else do {
          a \<leftarrow> arr_get p (c - 1 - common);
          b \<leftarrow> arr_get (s_sym w) i2;
          if byte a - byte b \<noteq> 0 then Some (byte a - byte b, common)
          else among_cmp_b p c lb w (i2 - 1) (common + 1) }
      else Some (0, common))"
  by pat_completeness auto
termination
  by (relation "measure (\<lambda>(p, c, lb, w, i2, common). nat (i2 + 1))") auto

declare among_cmp.simps [simp del] among_cmp_b.simps [simp del]

definition cmp_fwd :: "SN_env \<Rightarrow> among \<Rightarrow> int \<Rightarrow> (int \<times> int) option" where
  "cmp_fwd z w common = do {
     p \<leftarrow> z_p z; among_cmp (bytes p) (z_c z) (z_l z) w common common }"

definition cmp_bwd :: "SN_env \<Rightarrow> among \<Rightarrow> int \<Rightarrow> (int \<times> int) option" where
  "cmp_bwd z w common = do {
     p \<leftarrow> z_p z; among_cmp_b (bytes p) (z_c z) (z_lb z) w (s_size w - 1 - common) common }"

subsection \<open>The two while loops\<close>

text \<open>
  The binary search, which is the same text in both functions; \<open>cmp\<close> is the inner loop. The
  results are \<^verbatim>\<open>i\<close> and \<^verbatim>\<open>common_i\<close> at the \<^verbatim>\<open>break\<close>.
\<close>

partial_function (option) among_bsearch ::
  "(among \<Rightarrow> int \<Rightarrow> (int \<times> int) option) \<Rightarrow> among list \<Rightarrow> int \<Rightarrow> int \<Rightarrow> int \<Rightarrow> int \<Rightarrow> bool
   \<Rightarrow> (int \<times> int) option" where
  "among_bsearch cmp v i j common_i common_j first_key_inspected =
     (let k = i + drop_bit 1 (j - i);
          common = (if common_i < common_j then common_i else common_j)
      in case arr_get v k of None \<Rightarrow> None
      | Some w \<Rightarrow> (case cmp w common of None \<Rightarrow> None
        | Some (diff, common) \<Rightarrow>
            (let j = (if diff < 0 then k else j);
                 common_j = (if diff < 0 then common else common_j);
                 i = (if diff < 0 then i else k);
                 common_i = (if diff < 0 then common_i else common)
             in if j - i \<le> 1 then
                  if i > 0 then Some (i, common_i)
                  else if j = i then Some (i, common_i)
                  else if first_key_inspected then Some (i, common_i)
                  else among_bsearch cmp v i j common_i common_j True
                else among_bsearch cmp v i j common_i common_j first_key_inspected)))"

declare among_bsearch.simps [code]

text \<open>
  The walk along the links. \<open>pos w\<close> is where the cursor goes when \<open>w\<close> matches:
  \<^verbatim>\<open>c + w->s_size\<close> or \<^verbatim>\<open>c - w->s_size\<close>.
\<close>

partial_function (option) among_walk ::
  "(among \<Rightarrow> int) \<Rightarrow> among list \<Rightarrow> int \<Rightarrow> int \<Rightarrow> SN_env \<Rightarrow> (int \<times> SN_env) option" where
  "among_walk pos v i common_i z =
     (case arr_get v i of None \<Rightarrow> None
      | Some w \<Rightarrow>
          if common_i \<ge> s_size w then
            (let z = z\<lparr>z_c := pos w\<rparr> in
             case among_fun w of
               None \<Rightarrow> Some (result w, z)
             | Some f \<Rightarrow> (case f z of None \<Rightarrow> None
                 | Some (res, z) \<Rightarrow>
                     (let z = z\<lparr>z_c := pos w\<rparr> in
                      if res \<noteq> 0 then Some (result w, z)
                      else if substring_i w < 0 then Some (0, z)
                      else among_walk pos v (substring_i w) common_i z)))
          else if substring_i w < 0 then Some (0, z)
          else among_walk pos v (substring_i w) common_i z)"

declare among_walk.simps [code]

definition find_among :: "among list \<Rightarrow> int \<Rightarrow> sn_func" where
  "find_among v v_size z = do {
     (i, common_i) \<leftarrow> among_bsearch (cmp_fwd z) v 0 v_size 0 0 False;
     among_walk (\<lambda>w. z_c z + s_size w) v i common_i z }"

definition find_among_b :: "among list \<Rightarrow> int \<Rightarrow> sn_func" where
  "find_among_b v v_size z = do {
     (i, common_i) \<leftarrow> among_bsearch (cmp_bwd z) v 0 v_size 0 0 False;
     among_walk (\<lambda>w. z_c z - s_size w) v i common_i z }"

subsection \<open>The order the tables are sorted in\<close>

text \<open>
  Length of the longest common prefix, and the lexicographic order on byte strings in which a
  string comes before its extensions.
\<close>

fun lcp :: "symbol list \<Rightarrow> symbol list \<Rightarrow> nat" where
  "lcp (x # xs) (y # ys) = (if x = y then Suc (lcp xs ys) else 0)"
| "lcp _ _ = 0"

fun kle :: "symbol list \<Rightarrow> symbol list \<Rightarrow> bool" where
  "kle [] ys = True"
| "kle (x # xs) [] = False"
| "kle (x # xs) (y # ys) = (byte x < byte y \<or> x = y \<and> kle xs ys)"

lemma lcp_Nil [simp]: "lcp xs [] = 0"
  by (cases xs) simp_all

lemma kle_Nil [simp]: "kle xs [] \<longleftrightarrow> xs = []"
  by (cases xs) simp_all

lemma lcp_le: "lcp xs ys \<le> length xs" "lcp xs ys \<le> length ys"
  by (induction xs ys rule: lcp.induct) auto

lemma lcp_prefix: "prefix xs ys \<longleftrightarrow> length xs \<le> lcp xs ys"
  by (induction xs ys rule: lcp.induct) auto

lemma le_lcp_iff: "n \<le> lcp xs ys \<longleftrightarrow> n \<le> length xs \<and> n \<le> length ys \<and> take n xs = take n ys"
proof (induction xs ys arbitrary: n rule: lcp.induct)
  case (1 x xs y ys)
  then show ?case by (cases n) auto
qed auto

lemma lcp_nth: "i < lcp xs ys \<Longrightarrow> xs ! i = ys ! i"
proof (induction xs ys arbitrary: i rule: lcp.induct)
  case (1 x xs y ys)
  then show ?case by (cases i) (auto split: if_splits)
qed auto

lemma lcp_stop:
  "lcp xs ys < length xs \<Longrightarrow> lcp xs ys < length ys \<Longrightarrow> xs ! lcp xs ys \<noteq> ys ! lcp xs ys"
  by (induction xs ys rule: lcp.induct) (auto split: if_splits)

lemma kle_refl [simp]: "kle xs xs"
  by (induction xs) simp_all

lemma kle_trans: "kle xs ys \<Longrightarrow> kle ys zs \<Longrightarrow> kle xs zs"
proof (induction xs ys arbitrary: zs rule: kle.induct)
  case (3 x xs y ys)
  then show ?case by (cases zs) auto
qed auto

lemma kle_antisym: "kle xs ys \<Longrightarrow> kle ys xs \<Longrightarrow> xs = ys"
  by (induction xs ys rule: kle.induct) auto

lemma kle_linear: "\<not> kle xs ys \<Longrightarrow> kle ys xs"
  by (induction xs ys rule: kle.induct) (auto dest: not_le_imp_less)

lemma prefix_kle: "prefix xs ys \<Longrightarrow> kle xs ys"
  by (induction xs ys rule: kle.induct) auto

text \<open>\<open>xs \<le> ys\<close> is decided at the first position where they differ.\<close>

lemma kle_iff_lcp:
  "kle xs ys \<longleftrightarrow> length xs \<le> lcp xs ys
     \<or> lcp xs ys < length xs \<and> lcp xs ys < length ys \<and> byte (xs ! lcp xs ys) < byte (ys ! lcp xs ys)"
  by (induction xs ys rule: kle.induct) auto

lemma kle_sandwich: "kle (ps @ xs) ys \<Longrightarrow> kle ys (ps @ zs) \<Longrightarrow> prefix ps ys"
proof (induction ps arbitrary: ys)
  case (Cons x ps)
  then show ?case by (cases ys) auto
qed simp

lemma lcp_between:
  assumes "kle xs ys" "kle ys zs"
  shows "min (lcp xs t) (lcp zs t) \<le> lcp ys t"
proof -
  let ?n = "min (lcp xs t) (lcp zs t)"
  have "take ?n xs = take ?n t" "take ?n zs = take ?n t" "?n \<le> length t"
    using le_lcp_iff [of ?n xs t] le_lcp_iff [of ?n zs t] by auto
  then have "kle (take ?n t @ drop ?n xs) ys" "kle ys (take ?n t @ drop ?n zs)"
    using assms by (metis append_take_drop_id)+
  then have "prefix (take ?n t) ys" by (rule kle_sandwich)
  then have "take ?n ys = take ?n t" "?n \<le> length ys"
    using \<open>?n \<le> length t\<close> by (auto simp: prefix_def min_def)
  with \<open>?n \<le> length t\<close> show ?thesis by (simp add: le_lcp_iff)
qed

lemma prefix_between:
  assumes "prefix xs t" "kle xs ys" "kle ys t"
  shows "prefix xs ys"
proof -
  obtain us where "t = xs @ us" using assms(1) by (auto simp: prefix_def)
  with assms show ?thesis using kle_sandwich [of xs "[]" ys us] by simp
qed

subsection \<open>Well-formed tables\<close>

text \<open>
  What the Snowball compiler guarantees of a table, for the reading direction \<open>key\<close> (the string,
  or its reverse for backward search): the sizes are right, the keys are strictly sorted, and
  every link leads to the longest entry that is a proper prefix of the key, \<open>-1\<close> if there is none.
\<close>

definition link_ok :: "(among \<Rightarrow> symbol list) \<Rightarrow> among list \<Rightarrow> nat \<Rightarrow> bool" where
  "link_ok key v k \<longleftrightarrow> (let w = v ! k; m = substring_i w in
     (if m < 0 then True else nat m < k \<and> strict_prefix (key (v ! nat m)) (key w)) \<and>
     list_all (\<lambda>w'. strict_prefix (key w') (key w) \<longrightarrow>
       0 \<le> m \<and> length (key w') \<le> length (key (v ! nat m))) v)"

definition table_ok :: "(among \<Rightarrow> symbol list) \<Rightarrow> among list \<Rightarrow> bool" where
  "table_ok key v \<longleftrightarrow> v \<noteq> []
     \<and> list_all (\<lambda>w. s_size w = int (length (s_sym w))) v
     \<and> sorted_wrt (\<lambda>a b. kle (key a) (key b) \<and> key a \<noteq> key b) v
     \<and> list_all (link_ok key v) [0..<length v]"

text \<open>The reference: the longest of a list of entries.\<close>

fun longest :: "among list \<Rightarrow> among option" where
  "longest [] = None"
| "longest (w # ws) = (case longest ws of None \<Rightarrow> Some w
     | Some w' \<Rightarrow> Some (if s_size w \<le> s_size w' then w' else w))"

lemma longest_None [simp]: "longest ws = None \<longleftrightarrow> ws = []"
  by (cases ws) (auto split: option.splits)

lemma longest_Some: "longest ws = Some w \<Longrightarrow> w \<in> set ws \<and> (\<forall>w' \<in> set ws. s_size w' \<le> s_size w)"
  by (induction ws arbitrary: w) (fastforce split: option.splits if_splits)+

lemma longest_unique:
  assumes "w \<in> set ws" "\<And>w'. w' \<in> set ws \<Longrightarrow> w' \<noteq> w \<Longrightarrow> s_size w' < s_size w"
  shows "longest ws = Some w"
proof (cases "longest ws")
  case None
  with assms show ?thesis by simp
next
  case (Some x)
  then have "x \<in> set ws" "s_size w \<le> s_size x" using longest_Some assms(1) by auto
  then have "x = w" using assms(2) [of x] by fastforce
  with Some show ?thesis by simp
qed

text \<open>
  The reference for the search among the entries \<open>ws\<close> that match: the longest of them counts, unless
  it has a test of its own and fails it; then the next longest has its turn. The cursor is put
  behind the entry (\<open>pos\<close>) before its test and again after it.
\<close>

function among_spec :: "(among \<Rightarrow> int) \<Rightarrow> among list \<Rightarrow> SN_env \<Rightarrow> (int \<times> SN_env) option" where
  "among_spec pos ws z = (case longest ws of None \<Rightarrow> Some (0, z)
     | Some w \<Rightarrow>
         (let z = z\<lparr>z_c := pos w\<rparr> in
          case among_fun w of
            None \<Rightarrow> Some (result w, z)
          | Some f \<Rightarrow> (case f z of None \<Rightarrow> None
              | Some (res, z) \<Rightarrow>
                  (let z = z\<lparr>z_c := pos w\<rparr> in
                   if res \<noteq> 0 then Some (result w, z)
                   else among_spec pos (filter (\<lambda>w'. s_size w' < s_size w) ws) z))))"
  by pat_completeness auto
termination
  by (relation "measure (\<lambda>(pos, ws, z). length ws)")
    (auto dest!: longest_Some intro!: length_filter_less)

declare among_spec.simps [simp del]

lemma among_spec_Nil [simp]: "among_spec pos [] z = Some (0, z)"
  by (simp add: among_spec.simps)

text \<open>Tables without tests.\<close>

definition plain :: "among list \<Rightarrow> bool" where
  "plain v \<longleftrightarrow> list_all (\<lambda>w. among_fun w = None) v"

lemma among_spec_plain:
  assumes "plain v"
  shows "among_spec pos (filter P v) z = (case longest (filter P v) of
    None \<Rightarrow> Some (0, z) | Some w \<Rightarrow> Some (result w, z\<lparr>z_c := pos w\<rparr>))"
  using assms by (subst among_spec.simps) (auto simp: plain_def list_all_iff split: option.split dest!: longest_Some)

subsection \<open>The search, for any comparison\<close>

text \<open>
  What the search needs of its comparison: started with at most the number of symbols that the
  entry and the subject share, it returns exactly that number, and a negative difference just when
  the entry comes after the subject.
\<close>

locale among_order =
  fixes key :: "among \<Rightarrow> symbol list"
    and cmp :: "SN_env \<Rightarrow> among \<Rightarrow> int \<Rightarrow> (int \<times> int) option"
    and subject :: "SN_env \<Rightarrow> symbol list"
    and ready :: "SN_env \<Rightarrow> bool"
  assumes length_key: "length (key w) = length (s_sym w)"
    and cmp: "ready z \<Longrightarrow> s_size w = int (length (s_sym w)) \<Longrightarrow> 0 \<le> n
      \<Longrightarrow> n \<le> int (lcp (key w) (subject z))
      \<Longrightarrow> \<exists>d. cmp z w n = Some (d, int (lcp (key w) (subject z))) \<and> (d < 0 \<longleftrightarrow> \<not> kle (key w) (subject z))"
begin

text \<open>
  The state of the binary search: every entry from \<open>j\<close> on is above the subject; entry \<open>i\<close>, once it
  has been inspected, is not; and the two counters are what the ends share with the subject, or 0.
\<close>

definition search_inv :: "among list \<Rightarrow> SN_env \<Rightarrow> int \<Rightarrow> int \<Rightarrow> int \<Rightarrow> int \<Rightarrow> bool" where
  "search_inv v z i j ci cj \<longleftrightarrow>
     0 \<le> i \<and> i < j \<and> j \<le> int (length v)
     \<and> (j = int (length v) \<and> cj = 0
        \<or> j < int (length v) \<and> cj = int (lcp (key (v ! nat j)) (subject z)) \<and> \<not> kle (key (v ! nat j)) (subject z))
     \<and> (i = 0 \<and> ci = 0 \<or> ci = int (lcp (key (v ! nat i)) (subject z)) \<and> kle (key (v ! nat i)) (subject z))"

text \<open>What the search hands to the walk.\<close>

definition found :: "among list \<Rightarrow> SN_env \<Rightarrow> int \<Rightarrow> int \<Rightarrow> bool" where
  "found v z i ci \<longleftrightarrow>
     0 \<le> i \<and> i < int (length v)
     \<and> (ci = int (lcp (key (v ! nat i)) (subject z)) \<and> kle (key (v ! nat i)) (subject z)
          \<and> (\<forall>m. nat i < m \<longrightarrow> m < length v \<longrightarrow> \<not> kle (key (v ! m)) (subject z))
        \<or> i = 0 \<and> ci = 0 \<and> \<not> kle (key (v ! 0)) (subject z))"

lemma sorted_kle:
  assumes "table_ok key v" "a \<le> b" "b < length v"
  shows "kle (key (v ! a)) (key (v ! b))"
proof (cases "a = b")
  case False
  with assms show ?thesis using sorted_wrt_nth_less [of _ v a b] by (auto simp: table_ok_def)
qed simp

lemma above_all:
  assumes "table_ok key v" "a \<le> b" "b < length v" "\<not> kle (key (v ! a)) t"
  shows "\<not> kle (key (v ! b)) t"
  using sorted_kle [OF assms(1-3)] assms(4) kle_trans by blast

text \<open>The entry between the two ends shares at least the smaller counter with the subject.\<close>

lemma common_bound:
  assumes ok: "table_ok key v" and inv: "search_inv v z i j ci cj" and k: "i \<le> k" "k < j"
  shows "0 \<le> min ci cj" "min ci cj \<le> int (lcp (key (v ! nat k)) (subject z))"
proof -
  show "0 \<le> min ci cj" using inv by (auto simp: search_inv_def)
  show "min ci cj \<le> int (lcp (key (v ! nat k)) (subject z))"
  proof (cases "j = int (length v) \<or> i = 0 \<and> ci = 0")
    case True
    then have "min ci cj \<le> 0" using inv by (auto simp: search_inv_def)
    then show ?thesis by linarith
  next
    case False
    then have c: "ci = int (lcp (key (v ! nat i)) (subject z))" "cj = int (lcp (key (v ! nat j)) (subject z))"
      and j: "j < int (length v)" using inv by (auto simp: search_inv_def)
    have "nat i \<le> nat k" "nat k \<le> nat j" "nat j < length v" "nat k < length v"
      using j k inv by (auto simp: search_inv_def)
    with ok have "kle (key (v ! nat i)) (key (v ! nat k))" "kle (key (v ! nat k)) (key (v ! nat j))"
      using sorted_kle by blast+
    from lcp_between [OF this, of "subject z"] show ?thesis by (simp add: c min_def split: if_splits)
  qed
qed

lemma bsearch_step:
  assumes "arr_get v k = Some w" "k = i + (j - i) div 2" "cmp z w (min ci cj) = Some (d, n)"
  shows "among_bsearch (cmp z) v i j ci cj fk =
    (if d < 0
     then if k - i \<le> 1 \<and> (0 < i \<or> k = i \<or> fk) then Some (i, ci)
          else among_bsearch (cmp z) v i k ci n (fk \<or> k - i \<le> 1)
     else if j - k \<le> 1 \<and> (0 < k \<or> j = k \<or> fk) then Some (k, n)
          else among_bsearch (cmp z) v k j n cj (fk \<or> j - k \<le> 1))"
proof -
  have m: "(if ci < cj then ci else cj) = min ci cj" by simp
  have k: "i + drop_bit 1 (j - i) = k" by (simp add: assms(2) drop_bit_eq_div)
  show ?thesis
    by (subst among_bsearch.simps, unfold Let_def k m assms(1,3) option.case prod.case) simp
qed

lemma found_above:
  assumes ok: "table_ok key v" and up: "0 \<le> i" "i < int (length v)"
    and fi: "kle (key (v ! nat i)) (subject z)" "ci = int (lcp (key (v ! nat i)) (subject z))"
    and nxt: "i + 1 < int (length v) \<longrightarrow> \<not> kle (key (v ! nat (i + 1))) (subject z)"
  shows "found v z i ci"
proof -
  have "\<not> kle (key (v ! m)) (subject z)" if "nat i < m" "m < length v" for m
    using above_all [OF ok _ that(2), of "nat (i + 1)" "subject z"] nxt that up by auto
  with up fi show ?thesis by (simp add: found_def)
qed

lemma bsearch_found:
  assumes ok: "table_ok key v" and rd: "ready z" and inv: "search_inv v z i j ci cj"
    and fk: "fk \<longrightarrow> j - i \<le> 1"
  shows "\<exists>i' ci'. among_bsearch (cmp z) v i j ci cj fk = Some (i', ci') \<and> found v z i' ci'"
  using inv fk
proof (induction "2 * nat (j - i) + (if fk then 0 else 1)" arbitrary: i j ci cj fk rule: less_induct)
  case less
  have ij: "0 \<le> i" "i < j" "j \<le> int (length v)" using less.prems by (auto simp: search_inv_def)
  define k where "k = i + (j - i) div 2"
  have k: "i \<le> k" "k < j" "j - i \<ge> 2 \<longrightarrow> i < k" using ij by (auto simp: k_def)
  let ?w = "v ! nat k"
  let ?n = "int (lcp (key ?w) (subject z))"
  have get: "arr_get v k = Some ?w" using k ij by simp
  have "?w \<in> set v" using k ij by (intro nth_mem) auto
  then have sz: "s_size ?w = int (length (s_sym ?w))" using ok by (auto simp: table_ok_def list_all_iff)
  obtain d where cmpk: "cmp z ?w (min ci cj) = Some (d, ?n)" and d: "d < 0 \<longleftrightarrow> \<not> kle (key ?w) (subject z)"
    using cmp [OF rd sz common_bound [OF ok less.prems(1) k(1,2)]] by blast
  note step = bsearch_step [where fk = fk, OF get k_def cmpk]
  show ?case
  proof (cases "d < 0")
    case True
    show ?thesis
    proof (cases "k - i \<le> 1 \<and> (0 < i \<or> k = i \<or> fk)")
      case stop: True
      have "found v z i ci"
      proof (cases "k = i")
        case True
        with d \<open>d < 0\<close> less.prems(1) show ?thesis by (auto simp: search_inv_def found_def)
      next
        case False
        then have "k = i + 1" "0 < i" using stop k less.prems(2) by auto
        with d \<open>d < 0\<close> less.prems(1) show ?thesis
          by (intro found_above [OF ok]) (auto simp: search_inv_def)
      qed
      with stop True step show ?thesis by simp
    next
      case False
      then have "i < k" using k by auto
      moreover have "search_inv v z i k ci ?n"
        using less.prems(1) k \<open>i < k\<close> d True by (auto simp: search_inv_def)
      ultimately have IH: "\<exists>i' ci'. among_bsearch (cmp z) v i k ci ?n (fk \<or> k - i \<le> 1) = Some (i', ci') \<and> found v z i' ci'"
        using k less.prems(2) by (intro less.hyps) auto
      show ?thesis using IH by (simp only: step True False if_True if_False)
    qed
  next
    case False
    then have kle: "kle (key ?w) (subject z)" using d by simp
    show ?thesis
    proof (cases "j - k \<le> 1 \<and> (0 < k \<or> j = k \<or> fk)")
      case stop: True
      then have "j = k + 1" using k by linarith
      then have "found v z k ?n"
        using less.prems(1) kle k ij by (intro found_above [OF ok]) (auto simp: search_inv_def)
      with stop False step show ?thesis by simp
    next
      case more: False
      have "search_inv v z k j ?n cj"
        using less.prems(1) k kle by (auto simp: search_inv_def)
      then have IH: "\<exists>i' ci'. among_bsearch (cmp z) v k j ?n cj (fk \<or> j - k \<le> 1) = Some (i', ci') \<and> found v z i' ci'"
        using k more less.prems(2) by (intro less.hyps) auto
      show ?thesis using IH by (simp only: step False more if_False)
    qed
  qed
qed

end

context among_order
begin

lemma table_size: "table_ok key v \<Longrightarrow> w \<in> set v \<Longrightarrow> s_size w = int (length (key w))"
  by (auto simp: table_ok_def list_all_iff length_key)

lemma table_inj:
  assumes "table_ok key v" "w \<in> set v" "w' \<in> set v" "key w = key w'"
  shows "w = w'"
proof -
  obtain a b where ab: "a < length v" "b < length v" "w = v ! a" "w' = v ! b"
    using assms(2,3) by (metis in_set_conv_nth)
  have "key (v ! a) \<noteq> key (v ! b)" if "a < b" "b < length v" for a b
    using assms(1) sorted_wrt_nth_less [OF _ that, of "\<lambda>a b. kle (key a) (key b) \<and> key a \<noteq> key b"]
    by (auto simp: table_ok_def)
  with ab assms(4) show ?thesis by (metis linorder_neqE_nat)
qed

lemma table_link:
  assumes ok: "table_ok key v" and k: "k < length v" and w: "w \<in> set v" "strict_prefix (key w) (key (v ! k))"
  shows "0 \<le> substring_i (v ! k)" "prefix (key w) (key (v ! nat (substring_i (v ! k))))"
proof -
  have link: "link_ok key v k" using ok k by (auto simp: table_ok_def list_all_iff)
  then show m: "0 \<le> substring_i (v ! k)"
    using w by (auto simp: link_ok_def Let_def list_all_iff)
  have "strict_prefix (key (v ! nat (substring_i (v ! k)))) (key (v ! k))"
    "length (key w) \<le> length (key (v ! nat (substring_i (v ! k))))"
    using link w m by (auto simp: link_ok_def Let_def list_all_iff)
  with w(2) show "prefix (key w) (key (v ! nat (substring_i (v ! k))))"
    by (meson prefix_length_prefix strict_prefix_def)
qed

text \<open>The walk from entry \<open>k\<close> tries the entries that \<open>k\<close>'s key and the subject both start with, the
  longest first.\<close>

lemma walk_spec:
  assumes ok: "table_ok key v" and k: "k < length v"
    and ci: "\<And>w. w \<in> set v \<Longrightarrow> prefix (key w) (key (v ! k)) \<Longrightarrow> s_size w \<le> ci \<longleftrightarrow> prefix (key w) t"
  shows "among_walk pos v (int k) ci z =
    among_spec pos (filter (\<lambda>w. prefix (key w) (key (v ! k)) \<and> prefix (key w) t) v) z"
  using k ci
proof (induction k arbitrary: z rule: less_induct)
  case (less k)
  let ?w = "v ! k"
  let ?ws = "\<lambda>k. filter (\<lambda>w. prefix (key w) (key (v ! k)) \<and> prefix (key w) t) v"
  let ?rest = "filter (\<lambda>w. strict_prefix (key w) (key ?w) \<and> prefix (key w) t) v"
  have mem: "?w \<in> set v" using less.prems(1) by simp
  have get: "arr_get v (int k) = Some ?w" using less.prems(1) by simp
  have fits: "s_size ?w \<le> ci \<longleftrightarrow> prefix (key ?w) t" using less.prems(2) [OF mem] by simp
  have rest: "(if substring_i ?w < 0 then Some (0, z) else among_walk pos v (substring_i ?w) ci z) = among_spec pos ?rest z" for z
  proof (cases "substring_i ?w < 0")
    case True
    then have "?rest = []"
      using table_link(1) [OF ok less.prems(1)] by (force simp: filter_empty_conv)
    with True show ?thesis by (simp only: if_True among_spec_Nil)
  next
    case link: False
    define m where "m = nat (substring_i ?w)"
    have lk: "m < k" "strict_prefix (key (v ! m)) (key ?w)"
      using ok less.prems(1) link by (auto simp: table_ok_def list_all_iff link_ok_def Let_def m_def)
    have "?rest = ?ws m"
      using table_link(2) [OF ok less.prems(1)] lk(2)
      by (intro filter_cong) (auto simp: m_def dest: prefix_order.le_less_trans)
    moreover have "among_walk pos v (int m) ci z = among_spec pos (?ws m) z"
      using lk less.prems by (intro less.IH) (auto dest: prefix_order.trans [OF _ strict_prefix_def [THEN iffD1, THEN conjunct1]])
    ultimately show ?thesis using link by (simp add: m_def)
  qed
  show ?case
  proof (cases "prefix (key ?w) t")
    case True
    have less_iff: "s_size w < s_size ?w \<longleftrightarrow> strict_prefix (key w) (key ?w)"
      if "w \<in> set v" "prefix (key w) (key ?w)" for w
    proof (cases "w = ?w")
      case False
      then have "strict_prefix (key w) (key ?w)"
        using that table_inj [OF ok that(1) mem] by (auto simp: strict_prefix_def)
      with prefix_length_less [OF this] ok mem that show ?thesis by (simp add: table_size)
    qed simp
    have "longest (?ws k) = Some ?w"
      using True mem table_inj [OF ok] less_iff by (intro longest_unique) (auto simp: strict_prefix_def)
    moreover have "filter (\<lambda>w. s_size w < s_size ?w) (?ws k) = ?rest"
      unfolding filter_filter using less_iff by (intro filter_cong) (auto simp: strict_prefix_def)
    ultimately show ?thesis using True fits get rest
      by (subst among_walk.simps, subst among_spec.simps) (auto simp: Let_def simp del: filter_filter split: option.split)
  next
    case False
    then have "?ws k = ?rest" by (intro filter_cong) (auto simp: strict_prefix_def)
    with False fits get rest show ?thesis by (subst among_walk.simps) simp
  qed
qed

theorem search_spec:
  assumes ok: "table_ok key v" and rd: "ready z"
  shows "(case among_bsearch (cmp z) v 0 (int (length v)) 0 0 False of None \<Rightarrow> None
          | Some (i, ci) \<Rightarrow> among_walk pos v i ci z) =
    among_spec pos (filter (\<lambda>w. prefix (key w) (subject z)) v) z"
proof -
  have "search_inv v z 0 (int (length v)) 0 0" using ok by (simp add: search_inv_def table_ok_def)
  from bsearch_found [OF ok rd this, of False] obtain i ci where
    bs: "among_bsearch (cmp z) v 0 (int (length v)) 0 0 False = Some (i, ci)" and fd: "found v z i ci" by auto
  let ?t = "subject z"
  define k where "k = nat i"
  have k: "k < length v" "i = int k" using fd unfolding found_def k_def by linarith+
  have below: "prefix (key w) ?t \<longrightarrow> prefix (key w) (key (v ! k))" if wv: "w \<in> set v" for w
  proof
    assume p: "prefix (key w) ?t"
    obtain m where m: "m < length v" "w = v ! m" using wv by (metis in_set_conv_nth)
    have kt: "kle (key w) ?t" using p by (rule prefix_kle)
    then have nz: "kle (key (v ! 0)) ?t" using m sorted_kle [OF ok, of 0 m] kle_trans by blast
    then have fk: "kle (key (v ! k)) ?t" and up: "\<forall>m. k < m \<longrightarrow> m < length v \<longrightarrow> \<not> kle (key (v ! m)) ?t"
      using fd unfolding found_def k_def by blast+
    have "\<not> k < m" using up kt m by blast
    then have "kle (key w) (key (v ! k))" using sorted_kle [OF ok _ k(1)] m by simp
    then show "prefix (key w) (key (v ! k))" by (rule prefix_between [OF p _ fk])
  qed
  have fits: "s_size w \<le> ci \<longleftrightarrow> prefix (key w) ?t" if w: "w \<in> set v" "prefix (key w) (key (v ! k))" for w
  proof (cases "kle (key (v ! k)) ?t")
    case True
    then have "ci = int (lcp (key (v ! k)) ?t)" using fd by (auto simp: found_def k_def)
    moreover have "length (key w) \<le> lcp (key (v ! k)) ?t \<longleftrightarrow> prefix (key w) ?t"
      using w(2) by (auto simp: le_lcp_iff prefix_def) (metis append_take_drop_id)
    ultimately show ?thesis using table_size [OF ok w(1)] by simp
  next
    case False
    then have z: "k = 0" "ci = 0" "\<not> kle (key (v ! 0)) ?t" using fd by (auto simp: found_def k_def)
    obtain m where m: "m < length v" "w = v ! m" using w(1) by (metis in_set_conv_nth)
    have "\<not> kle (key w) ?t" using above_all [OF ok _ m(1) z(3)] m by simp
    then have "key w \<noteq> []" "\<not> prefix (key w) ?t" using prefix_kle by auto
    with z(2) table_size [OF ok w(1)] show ?thesis by simp
  qed
  have "filter (\<lambda>w. prefix (key w) (key (v ! k)) \<and> prefix (key w) ?t) v = filter (\<lambda>w. prefix (key w) ?t) v"
    using below by (intro filter_cong) auto
  with walk_spec [OF ok k(1) fits, where pos = pos and z = z] bs k(2) show ?thesis by simp
qed

end

subsection \<open>Both directions are instances\<close>

text \<open>The four situations of the inner loop at position \<open>n\<close>, where the first \<open>n\<close> symbols agree.\<close>

lemma lcp_key_end: "n \<le> lcp xs t \<Longrightarrow> n = length xs \<Longrightarrow> lcp xs t = n \<and> kle xs t"
  using lcp_le(1) [of xs t] by (auto simp: kle_iff_lcp)

lemma lcp_text_end:
  "n \<le> lcp xs t \<Longrightarrow> n < length xs \<Longrightarrow> n = length t \<Longrightarrow> lcp xs t = n \<and> \<not> kle xs t"
  using lcp_le(2) [of xs t] by (auto simp: kle_iff_lcp)

lemma lcp_differ:
  assumes "n \<le> lcp xs t" "n < length xs" "n < length t" "xs ! n \<noteq> t ! n"
  shows "lcp xs t = n" "byte (t ! n) - byte (xs ! n) < 0 \<longleftrightarrow> \<not> kle xs t"
proof -
  show n: "lcp xs t = n" using assms lcp_nth [of n xs t] by (metis le_neq_implies_less)
  have "byte (xs ! n) < byte (t ! n) \<or> byte (t ! n) < byte (xs ! n)"
    using assms(4) by (metis linorder_neqE of_char_eq_iff)
  then show "byte (t ! n) - byte (xs ! n) < 0 \<longleftrightarrow> \<not> kle xs t"
    using assms n by (auto simp: kle_iff_lcp)
qed

lemma lcp_agree:
  assumes "n \<le> lcp xs t" "n < length xs" "n < length t" "xs ! n = t ! n"
  shows "Suc n \<le> lcp xs t"
  using assms by (simp add: le_lcp_iff take_Suc_conv_app_nth)

definition cmp_ok :: "symbol list \<Rightarrow> symbol list \<Rightarrow> (int \<times> int) option \<Rightarrow> bool" where
  "cmp_ok xs t r \<longleftrightarrow> (\<exists>d. r = Some (d, int (lcp xs t)) \<and> (d < 0 \<longleftrightarrow> \<not> kle xs t))"

lemma among_cmp_ok:
  assumes sz: "s_size w = int (length (s_sym w))" and cl: "0 \<le> c" "c \<le> l" "l \<le> int (length p)"
    and t: "t = take (nat (l - c)) (drop (nat c) p)"
    and n: "n \<le> lcp (s_sym w) t"
  shows "cmp_ok (s_sym w) t (among_cmp p c l w (int n) (int n))"
  using n
proof (induction "length (s_sym w) - n" arbitrary: n rule: less_induct)
  case less
  have lent: "int (length t) = l - c" using cl by (simp add: t min_def) linarith
  show ?case
  proof (cases "n = length (s_sym w)")
    case True
    with lcp_key_end [OF less.prems True] sz show ?thesis
      by (subst among_cmp.simps) (simp add: cmp_ok_def)
  next
    case False
    then have lt: "n < length (s_sym w)" using less.prems lcp_le(1) [of "s_sym w" t] by linarith
    show ?thesis
    proof (cases "n = length t")
      case True
      then have "c + int n = l" using lent by simp
      with lcp_text_end [OF less.prems lt True] sz lt show ?thesis
        by (subst among_cmp.simps) (simp add: cmp_ok_def)
    next
      case False
      then have nt: "n < length t" using less.prems lcp_le(2) [of "s_sym w" t] by linarith
      then have nl: "c + int n \<noteq> l" "c + int n < int (length p)" using lent cl by linarith+
      have a: "arr_get p (c + int n) = Some (t ! n)"
        using nt nl cl by (simp add: t nat_add_distrib)
      have b: "arr_get (s_sym w) (int n) = Some (s_sym w ! n)" using lt by simp
      have step: "among_cmp p c l w (int n) (int n) =
        (if byte (t ! n) - byte (s_sym w ! n) \<noteq> 0 then Some (byte (t ! n) - byte (s_sym w ! n), int n)
         else among_cmp p c l w (int (Suc n)) (int (Suc n)))"
        using lt nl a b sz by (subst among_cmp.simps) (simp add: add.commute)
      show ?thesis
      proof (cases "s_sym w ! n = t ! n")
        case True
        then show ?thesis
          using less.hyps [of "Suc n"] lcp_agree [OF less.prems lt nt True] lt step by simp
      next
        case False
        then show ?thesis using lcp_differ [OF less.prems lt nt False] step by (simp add: cmp_ok_def)
      qed
    qed
  qed
qed

lemma among_cmp_b_ok:
  assumes sz: "s_size w = int (length (s_sym w))" and cl: "0 \<le> lb" "lb \<le> c" "c \<le> int (length p)"
    and t: "t = rev (take (nat (c - lb)) (drop (nat lb) p))"
    and n: "n \<le> lcp (rev (s_sym w)) t"
  shows "cmp_ok (rev (s_sym w)) t (among_cmp_b p c lb w (s_size w - 1 - int n) (int n))"
  using n
proof (induction "length (s_sym w) - n" arbitrary: n rule: less_induct)
  case less
  let ?k = "rev (s_sym w)"
  have lent: "int (length t) = c - lb" using cl by (simp add: t min_def) linarith
  show ?case
  proof (cases "n = length ?k")
    case True
    with lcp_key_end [OF less.prems True] sz show ?thesis
      by (subst among_cmp_b.simps) (simp add: cmp_ok_def)
  next
    case False
    then have lt: "n < length ?k" using less.prems lcp_le(1) [of ?k t] by linarith
    show ?thesis
    proof (cases "n = length t")
      case True
      then have "c - int n = lb" using lent by simp
      with lcp_text_end [OF less.prems lt True] sz lt show ?thesis
        by (subst among_cmp_b.simps) (simp add: cmp_ok_def)
    next
      case False
      then have nt: "n < length t" using less.prems lcp_le(2) [of ?k t] by linarith
      then have nl: "c - int n \<noteq> lb" "0 \<le> c - 1 - int n" "c - 1 - int n < int (length p)" using lent cl by linarith+
      have a: "arr_get p (c - 1 - int n) = Some (t ! n)"
      proof -
        have "t ! n = p ! (nat lb + (nat (c - lb) - Suc n))"
        proof -
          let ?u = "take (nat (c - lb)) (drop (nat lb) p)"
          have u: "length ?u = nat (c - lb)" using cl by (simp add: min_def) linarith
          have "t ! n = ?u ! (nat (c - lb) - Suc n)"
            using nt u by (simp add: t rev_nth)
          moreover have "nat (c - lb) - Suc n < length ?u" using nt u unfolding t length_rev by linarith
          moreover have "nat lb \<le> length p" using cl by linarith
          ultimately show ?thesis by simp
        qed
        moreover have "nat (c - 1 - int n) = nat lb + (nat (c - lb) - Suc n)"
          using nt lent cl by linarith
        ultimately show ?thesis using nl by simp
      qed
      have b: "arr_get (s_sym w) (s_size w - 1 - int n) = Some (?k ! n)"
      proof -
        have "nat (int (length (s_sym w)) - 1 - int n) = length (s_sym w) - Suc n" by linarith
        then show ?thesis using lt sz by (simp add: rev_nth)
      qed
      have step: "among_cmp_b p c lb w (s_size w - 1 - int n) (int n) =
        (if byte (t ! n) - byte (?k ! n) \<noteq> 0 then Some (byte (t ! n) - byte (?k ! n), int n)
         else among_cmp_b p c lb w (s_size w - 1 - int (Suc n)) (int (Suc n)))"
        using lt nl a b sz by (subst among_cmp_b.simps) (simp add: algebra_simps)
      show ?thesis
      proof (cases "?k ! n = t ! n")
        case True
        then show ?thesis
          using less.hyps [of "Suc n"] lcp_agree [OF less.prems lt nt True] lt step by simp
      next
        case False
        then show ?thesis using lcp_differ [OF less.prems lt nt False] step by (simp add: cmp_ok_def)
      qed
    qed
  qed
qed

definition ahead :: "SN_env \<Rightarrow> symbol list" where
  "ahead z = drop (nat (z_c z)) (content z)"

definition behind :: "SN_env \<Rightarrow> symbol list" where
  "behind z = drop (nat (z_lb z)) (take (nat (z_c z)) (content z))"

definition fwd_ready :: "SN_env \<Rightarrow> bool" where
  "fwd_ready z \<longleftrightarrow> wf_env z \<and> 0 \<le> z_c z \<and> z_c z \<le> z_l z"

definition bwd_ready :: "SN_env \<Rightarrow> bool" where
  "bwd_ready z \<longleftrightarrow> wf_env z \<and> 0 \<le> z_lb z \<and> z_lb z \<le> z_c z \<and> z_c z \<le> z_l z"

interpretation fwd: among_order s_sym cmp_fwd ahead fwd_ready
proof
  fix z and w :: among and n :: int
  assume rd: "fwd_ready z" and sz: "s_size w = int (length (s_sym w))"
    and n: "0 \<le> n" "n \<le> int (lcp (s_sym w) (ahead z))"
  obtain b where b: "z_p z = Some b" "z_l z < int (length (bytes b))" "content z = take (nat (z_l z)) (bytes b)"
    using rd by (auto simp: fwd_ready_def elim!: wf_envE)
  have "ahead z = take (nat (z_l z - z_c z)) (drop (nat (z_c z)) (bytes b))"
    using rd b(3) by (simp add: ahead_def fwd_ready_def drop_take nat_diff_distrib)
  from among_cmp_ok [OF sz _ _ _ this, of "nat n"] rd b n
  show "\<exists>d. cmp_fwd z w n = Some (d, int (lcp (s_sym w) (ahead z))) \<and> (d < 0) = (\<not> kle (s_sym w) (ahead z))"
    by (simp add: cmp_ok_def cmp_fwd_def fwd_ready_def)
qed simp

interpretation bwd: among_order "\<lambda>w. rev (s_sym w)" cmp_bwd "\<lambda>z. rev (behind z)" bwd_ready
proof
  fix z and w :: among and n :: int
  assume rd: "bwd_ready z" and sz: "s_size w = int (length (s_sym w))"
    and n: "0 \<le> n" "n \<le> int (lcp (rev (s_sym w)) (rev (behind z)))"
  obtain b where b: "z_p z = Some b" "z_l z < int (length (bytes b))" "content z = take (nat (z_l z)) (bytes b)"
    using rd by (auto simp: bwd_ready_def elim!: wf_envE)
  have "rev (behind z) = rev (take (nat (z_c z - z_lb z)) (drop (nat (z_lb z)) (bytes b)))"
    using rd b(3) by (simp add: behind_def bwd_ready_def drop_take nat_diff_distrib min_absorb1 nat_mono)
  from among_cmp_b_ok [OF sz _ _ _ this, of "nat n"] rd b n
  show "\<exists>d. cmp_bwd z w n = Some (d, int (lcp (rev (s_sym w)) (rev (behind z)))) \<and>
      (d < 0) = (\<not> kle (rev (s_sym w)) (rev (behind z)))"
    by (simp add: cmp_ok_def cmp_bwd_def bwd_ready_def)
qed simp

theorem find_among_spec:
  assumes "table_ok s_sym v" "fwd_ready z"
  shows "find_among v (int (length v)) z =
    among_spec (\<lambda>w. z_c z + s_size w) (filter (\<lambda>w. prefix (s_sym w) (ahead z)) v) z"
  using fwd.search_spec [OF assms, of "\<lambda>w. z_c z + s_size w"]
  by (auto simp: find_among_def split: option.splits bind_splits)

theorem find_among_b_spec:
  assumes "table_ok (\<lambda>w. rev (s_sym w)) v" "bwd_ready z"
  shows "find_among_b v (int (length v)) z =
    among_spec (\<lambda>w. z_c z - s_size w) (filter (\<lambda>w. suffix (s_sym w) (behind z)) v) z"
  using bwd.search_spec [OF assms, of "\<lambda>w. z_c z - s_size w"]
  by (auto simp: find_among_b_def suffix_to_prefix split: option.splits bind_splits)

end
