(* ===== verification/Runtime_Rules.thy ===== *)
theory Runtime_Rules
  imports Among
begin

text \<open>
  The contract of every runtime operation as a rule for weakest preconditions, in the form the
  proofs of the stemmers use: preconditions on the positions of the environment, and for each way
  the operation can end what it leaves.
\<close>

subsection \<open>Statements\<close>

lemma wp_If [simp]: "wp (if b then x else y) Q z \<longleftrightarrow> (if b then wp x Q z else wp y Q z)"
  by simp

lemma wp_set [simp]:
  "wp (set_c e) Q z \<longleftrightarrow> Q Next (z\<lparr>z_c := e z\<rparr>)" "wp (set_lb e) Q z \<longleftrightarrow> Q Next (z\<lparr>z_lb := e z\<rparr>)"
  "wp (set_bra e) Q z \<longleftrightarrow> Q Next (z\<lparr>z_bra := e z\<rparr>)" "wp (set_ket e) Q z \<longleftrightarrow> Q Next (z\<lparr>z_ket := e z\<rparr>)"
  unfolding set_c_def set_lb_def set_bra_def set_ket_def by simp_all

lemma wp_set_I [wp_intro]:
  "0 \<le> i \<Longrightarrow> i < int (length (z_I z)) \<Longrightarrow> Q Next (z\<lparr>z_I := (z_I z)[nat i := e z]\<rparr>) \<Longrightarrow> wp (set_I i e) Q z"
  by (simp add: wp_def set_I_def)

lemma wp_set_B [wp_intro]:
  "0 \<le> i \<Longrightarrow> i < int (length (z_B z)) \<Longrightarrow> Q Next (z\<lparr>z_B := (z_B z)[nat i := v]\<rparr>) \<Longrightarrow> wp (set_B i v) Q z"
  by (simp add: wp_def set_B_def)

lemma wp_set_c_I [wp_intro]:
  "0 \<le> i \<Longrightarrow> i < int (length (z_I z)) \<Longrightarrow> Q Next (z\<lparr>z_c := z_I z ! nat i\<rparr>) \<Longrightarrow> wp (set_c_I i) Q z"
  by (simp add: wp_def set_c_I_def I_at_def)

text \<open>How the calling statements go on from the result of the call.\<close>

definition check_k :: "(c_ctl \<Rightarrow> SN_env \<Rightarrow> bool) \<Rightarrow> int \<Rightarrow> SN_env \<Rightarrow> bool" where
  "check_k Q r z \<longleftrightarrow> (if r < 0 then Q (Return r) z else Q Next z)"

definition routine_k :: "sn_cmd \<Rightarrow> (c_ctl \<Rightarrow> SN_env \<Rightarrow> bool) \<Rightarrow> int \<Rightarrow> SN_env \<Rightarrow> bool" where
  "routine_k x Q r z \<longleftrightarrow> (if r = 0 then wp x Q z else if r < 0 then Q (Return r) z else Q Next z)"

definition unless_k :: "sn_cmd \<Rightarrow> (c_ctl \<Rightarrow> SN_env \<Rightarrow> bool) \<Rightarrow> int \<Rightarrow> SN_env \<Rightarrow> bool" where
  "unless_k x Q r z \<longleftrightarrow> (if r = 0 then wp x Q z else Q Next z)"

definition when_true_k :: "sn_cmd \<Rightarrow> (c_ctl \<Rightarrow> SN_env \<Rightarrow> bool) \<Rightarrow> int \<Rightarrow> SN_env \<Rightarrow> bool" where
  "when_true_k x Q r z \<longleftrightarrow> (if r \<noteq> 0 then wp x Q z else Q Next z)"

definition when_neg_k :: "sn_cmd \<Rightarrow> (c_ctl \<Rightarrow> SN_env \<Rightarrow> bool) \<Rightarrow> int \<Rightarrow> SN_env \<Rightarrow> bool" where
  "when_neg_k x Q r z \<longleftrightarrow> (if r < 0 then wp x Q z else Q Next z)"

definition move_k :: "(int \<Rightarrow> int \<Rightarrow> int) \<Rightarrow> sn_cmd \<Rightarrow> (c_ctl \<Rightarrow> SN_env \<Rightarrow> bool) \<Rightarrow> int \<Rightarrow> SN_env \<Rightarrow> bool" where
  "move_k g x Q r z \<longleftrightarrow> (if r < 0 then wp x Q z else Q Next (z\<lparr>z_c := g (z_c z) r\<rparr>))"

definition keep_c_k :: "int \<Rightarrow> (c_ctl \<Rightarrow> SN_env \<Rightarrow> bool) \<Rightarrow> int \<Rightarrow> SN_env \<Rightarrow> bool" where
  "keep_c_k c Q r z \<longleftrightarrow> (if r < 0 then Q (Return r) (z\<lparr>z_c := c\<rparr>) else Q Next (z\<lparr>z_c := c\<rparr>))"

lemmas call_k_defs [simp] = check_k_def routine_k_def unless_k_def when_true_k_def when_neg_k_def
  move_k_def keep_c_k_def

lemma wp_calls [simp]:
  "wp (check f) Q z \<longleftrightarrow> wpf f (check_k Q) z"
  "wp (routine f x) Q z \<longleftrightarrow> wpf f (routine_k x Q) z"
  "wp (unless f x) Q z \<longleftrightarrow> wpf f (unless_k x Q) z"
  "wp (when_true f x) Q z \<longleftrightarrow> wpf f (when_true_k x Q) z"
  "wp (when_neg f x) Q z \<longleftrightarrow> wpf f (when_neg_k x Q) z"
  "wp (advance f x) Q z \<longleftrightarrow> wpf f (move_k (+) x Q) z"
  "wp (retreat f x) Q z \<longleftrightarrow> wpf f (move_k (-) x Q) z"
  "wp (move_to f x) Q z \<longleftrightarrow> wpf f (move_k (\<lambda>_ r. r) x Q) z"
  "wp (check_keep_c f) Q z \<longleftrightarrow> wpf f (keep_c_k (z_c z) Q) z"
  unfolding check_def routine_def unless_def when_true_def when_neg_def advance_def retreat_def
    move_to_def check_keep_c_def wp_call wp_let
  by (auto simp: wpf_def)

lemma wp_if_test [simp]: "wp (c_if (test b) a) Q z \<longleftrightarrow> (if b z then wp a Q z else Q Next z)"
  by (auto simp: wp_def c_if_def test_def)

lemma wp_if_I [simp]:
  "0 \<le> i \<Longrightarrow> i < int (length (z_I z)) \<Longrightarrow>
   wp (c_if (on_I i f) a) Q z \<longleftrightarrow> (if f z (z_I z ! nat i) then wp a Q z else Q Next z)"
  by (auto simp: wp_def c_if_def on_I_def I_at_def)

lemma wp_if_B [simp]:
  "0 \<le> i \<Longrightarrow> i < int (length (z_B z)) \<Longrightarrow>
   wp (c_if (on_B i f) a) Q z \<longleftrightarrow> (if f (z_B z ! nat i) then wp a Q z else Q Next z)"
  by (auto simp: wp_def c_if_def on_B_def B_at_def)

text \<open>The guards in front of a table search: the byte they read lies inside the text.\<close>

lemma tail_guard_Some:
  "wf_env z \<Longrightarrow> 0 \<le> z_lb z \<Longrightarrow> z_c z \<le> z_l z \<Longrightarrow> 0 \<le> n \<Longrightarrow>
   tail_guard n P z = Some (z_c z - n \<le> z_lb z \<or> P (byte (content z ! nat (z_c z - 1))))"
  by (simp add: tail_guard_def p_at_content)

lemma head_guard_Some:
  "wf_env z \<Longrightarrow> 0 \<le> z_c z \<Longrightarrow> 0 \<le> n \<Longrightarrow>
   head_guard n P z = Some (z_c z + n \<ge> z_l z \<or> P (byte (content z ! nat (z_c z + n))))"
  by (simp add: head_guard_def p_at_content)

lemma wp_tail_guard [wp_intro]:
  assumes "wf_env z" "0 \<le> z_lb z" "z_c z \<le> z_l z" "0 \<le> n" "wp a Q z" "z_lb z + n < z_c z \<Longrightarrow> Q Next z"
  shows "wp (c_if (tail_guard n P) a) Q z"
  using assms by (auto simp: wp_def c_if_def tail_guard_Some)

lemma wp_head_guard [wp_intro]:
  assumes "wf_env z" "0 \<le> z_c z" "0 \<le> n" "wp a Q z" "z_c z + n < z_l z \<Longrightarrow> Q Next z"
  shows "wp (c_if (head_guard n P) a) Q z"
  using assms by (auto simp: wp_def c_if_def head_guard_Some)

lemma wpf_or_else [wp_intro]:
  assumes "wf_env z" "0 \<le> z_lb z" "z_c z \<le> z_l z" "0 \<le> n" "Q v z" "wpf f Q z"
  shows "wpf (or_else (tail_guard n P) v f) Q z"
  using assms by (simp add: wpf_def or_else_def tail_guard_Some)

lemma wpf_or_else_head [wp_intro]:
  assumes "wf_env z" "0 \<le> z_c z" "0 \<le> n" "Q v z" "wpf f Q z"
  shows "wpf (or_else (head_guard n P) v f) Q z"
  using assms by (simp add: wpf_def or_else_def head_guard_Some)

lemma wpf_insert_s_at [simp]:
  "wpf (insert_s_at bra ket n str) Q z \<longleftrightarrow> wpf (insert_s (bra z) (ket z) n str) Q z"
  by (simp add: wpf_def insert_s_at_def)

subsection \<open>Characters\<close>

lemma skip_cont_range:
  assumes "0 \<le> c" "c \<le> l" "l \<le> int (length p)"
  shows "\<exists>c'. skip_cont p c l = Some c' \<and> c \<le> c' \<and> c' \<le> l"
  using assms
proof (induction p c l rule: skip_cont.induct)
  case (1 p c l)
  show ?case
  proof (cases "c < l \<and> \<not> (byte (p ! nat c) \<ge> 0xC0 \<or> byte (p ! nat c) < 0x80)")
    case True
    with "1.prems" have "\<exists>c'. skip_cont p (c + 1) l = Some c' \<and> c + 1 \<le> c' \<and> c' \<le> l"
      by (intro "1.IH") auto
    with True "1.prems" show ?thesis by (subst skip_cont.simps) auto
  next
    case False
    with "1.prems" show ?thesis by (subst skip_cont.simps) auto
  qed
qed

lemma skip_cont_b_range:
  assumes "0 \<le> lb" "lb \<le> c" "c < int (length p)"
  shows "\<exists>c'. skip_cont_b p c lb = Some c' \<and> lb \<le> c' \<and> c' \<le> c"
  using assms
proof (induction p c lb rule: skip_cont_b.induct)
  case (1 p c lb)
  show ?case
  proof (cases "lb < c \<and> \<not> byte (p ! nat c) \<ge> 0xC0")
    case True
    with "1.prems" have "\<exists>c'. skip_cont_b p (c - 1) lb = Some c' \<and> lb \<le> c' \<and> c' \<le> c - 1"
      by (intro "1.IH") auto
    with True "1.prems" show ?thesis by (subst skip_cont_b.simps) auto
  next
    case False
    with "1.prems" show ?thesis by (subst skip_cont_b.simps) auto
  qed
qed

lemma skip_fwd_range:
  assumes "0 \<le> c" "c \<le> l" "l \<le> int (length p)"
  shows "\<exists>r. skip_fwd p c l n = Some r \<and> (r = - 1 \<or> c + int n \<le> r \<and> r \<le> l)"
  using assms
proof (induction p c l n rule: skip_fwd.induct)
  case (2 p c l n)
  show ?case
  proof (cases "c < l")
    case True
    let ?next = "if byte (p ! nat c) \<ge> 0xC0 then skip_cont p (c + 1) l else Some (c + 1)"
    obtain c' where c': "?next = Some c'" "c + 1 \<le> c'" "c' \<le> l"
      using skip_cont_range [of "c + 1" l p] True "2.prems" by (cases "byte (p ! nat c) \<ge> 0xC0") auto
    have get: "arr_get p c = Some (p ! nat c)" using True "2.prems" by simp
    have "\<exists>r. skip_fwd p c' l n = Some r \<and> (r = - 1 \<or> c' + int n \<le> r \<and> r \<le> l)"
      using "2.IH" [OF _ get c'(1)] True "2.prems" c' by auto
    with True c' get show ?thesis by (auto split: if_splits)
  next
    case False
    with "2.prems" show ?thesis by simp
  qed
qed simp

lemma skip_bwd_range:
  assumes "0 \<le> lb" "lb \<le> c" "c \<le> int (length p)"
  shows "\<exists>r. skip_bwd p c lb n = Some r \<and> (r = - 1 \<or> lb \<le> r \<and> r \<le> c - int n)"
  using assms
proof (induction p c lb n rule: skip_bwd.induct)
  case (2 p c lb n)
  show ?case
  proof (cases "lb < c")
    case True
    let ?next = "if byte (p ! nat (c - 1)) \<ge> 0x80 then skip_cont_b p (c - 1) lb else Some (c - 1)"
    obtain c' where c': "?next = Some c'" "lb \<le> c'" "c' \<le> c - 1"
      using skip_cont_b_range [of lb "c - 1" p] True "2.prems" by (cases "byte (p ! nat (c - 1)) \<ge> 0x80") auto
    have get: "arr_get p (c - 1) = Some (p ! nat (c - 1))" using True "2.prems" by simp
    have "\<exists>r. skip_bwd p c' lb n = Some r \<and> (r = - 1 \<or> lb \<le> r \<and> r \<le> c' - int n)"
      using "2.IH" [OF _ get c'(1)] True "2.prems" c' by auto
    with True c' get show ?thesis by (auto split: if_splits)
  next
    case False
    with "2.prems" show ?thesis by simp
  qed
qed simp

lemma skip_utf8_fwd_wp [wp_intro]:
  assumes "0 \<le> n" "wf_env z" "0 \<le> z_c z" "z_c z \<le> z_l z"
    and "Q (- 1) z" and "\<And>r. z_c z + n \<le> r \<Longrightarrow> r \<le> z_l z \<Longrightarrow> Q r z"
  shows "wpf (skip_utf8_z lb z_l n) Q z"
proof -
  obtain b where b: "z_p z = Some b" "z_l z < int (length (bytes b))"
    using assms(2) by (rule wf_envE)
  obtain r where "skip_fwd (bytes b) (z_c z) (z_l z) (nat n) = Some r" "r = - 1 \<or> z_c z + n \<le> r \<and> r \<le> z_l z"
    using skip_fwd_range [of "z_c z" "z_l z" "bytes b" "nat n"] assms b by auto
  with b assms show ?thesis by (auto simp: wpf_def skip_utf8_z_def skip_utf8_def)
qed

lemma skip_utf8_bwd_wp [wp_intro]:
  assumes "n < 0" "wf_env z" "0 \<le> z_lb z" "z_lb z \<le> z_c z" "z_c z \<le> z_l z"
    and "Q (- 1) z" and "\<And>r. z_lb z \<le> r \<Longrightarrow> r \<le> z_c z + n \<Longrightarrow> Q r z"
  shows "wpf (skip_utf8_z z_lb l n) Q z"
proof -
  obtain b where b: "z_p z = Some b" "z_l z < int (length (bytes b))"
    using assms(2) by (rule wf_envE)
  obtain r where "skip_bwd (bytes b) (z_c z) (z_lb z) (nat (- n)) = Some r" "r = - 1 \<or> z_lb z \<le> r \<and> r \<le> z_c z + n"
    using skip_bwd_range [of "z_lb z" "z_c z" "bytes b" "nat (- n)"] assms b by auto
  with b assms show ?thesis by (auto simp: wpf_def skip_utf8_z_def skip_utf8_def)
qed

subsection \<open>Groupings\<close>

text \<open>A bit map that covers the range it is asked about.\<close>

definition covers :: "int list \<Rightarrow> int \<Rightarrow> int \<Rightarrow> bool" where
  "covers grp mn mx \<longleftrightarrow> mx - mn < 8 * int (length grp)"

lemma outside_Some:
  assumes "covers grp mn mx"
  shows "\<exists>b. outside grp mn mx ch = Some b"
proof (cases "ch > mx \<or> ch - mn < 0")
  case False
  then have "0 \<le> (ch - mn) div 8" "(ch - mn) div 8 < int (length grp)"
    using assms by (auto simp: covers_def)
  with False show ?thesis by (simp add: outside_def drop_bit_eq_div)
qed (auto simp: outside_def)

lemma get_utf8_Some:
  assumes "0 \<le> c" "c \<le> l" "l \<le> int (length p)"
  shows "\<exists>w ch. get_utf8 p c l = Some (w, ch)"
  using assms by (simp add: get_utf8_def)

lemma get_b_utf8_Some:
  assumes "0 \<le> lb" "lb \<le> c" "c \<le> int (length p)"
  shows "\<exists>w ch. get_b_utf8 p c lb = Some (w, ch)"
  using assms by (simp add: get_b_utf8_def)

lemma grouping_fwd_range:
  assumes "0 \<le> c" "c \<le> l" "l \<le> int (length p)" "covers grp mn mx"
  shows "\<exists>r c'. grouping_fwd inside p grp mn mx repeat c l = Some (r, c') \<and> c \<le> c' \<and> c' \<le> l
    \<and> (r = - 1 \<or> 0 \<le> r \<and> r \<le> l - c') \<and> (r = 0 \<longrightarrow> c < c') \<and> (repeat \<noteq> 0 \<longrightarrow> r \<noteq> 0)"
  using assms(1,2)
proof (induction "nat (l - c)" arbitrary: c rule: less_induct)
  case less
  obtain w ch out where get: "get_utf8 p c l = Some (w, ch)" and out: "outside grp mn mx ch = Some out"
    using get_utf8_Some [OF less.prems assms(3)] outside_Some [OF assms(4)] by metis
  have w: "w = 0 \<and> l \<le> c \<or> 1 \<le> w \<and> w \<le> 3 \<and> c + w \<le> l" using get by (rule get_utf8_range)
  show ?case
  proof (cases "w = 0 \<or> out = inside \<or> repeat = 0")
    case True
    with get out w less.prems show ?thesis by (subst grouping_fwd.simps) auto
  next
    case False
    have "\<exists>r c'. grouping_fwd inside p grp mn mx repeat (c + w) l = Some (r, c') \<and> c + w \<le> c' \<and> c' \<le> l
      \<and> (r = - 1 \<or> 0 \<le> r \<and> r \<le> l - c') \<and> (r = 0 \<longrightarrow> c + w < c') \<and> (repeat \<noteq> 0 \<longrightarrow> r \<noteq> 0)"
      using False w less.prems by (intro less.hyps) auto
    with get out False w show ?thesis by (subst grouping_fwd.simps) auto
  qed
qed

lemma grouping_bwd_range:
  assumes "0 \<le> lb" "lb \<le> c" "c \<le> int (length p)" "covers grp mn mx"
  shows "\<exists>r c'. grouping_bwd inside p grp mn mx repeat c lb = Some (r, c') \<and> lb \<le> c' \<and> c' \<le> c
    \<and> (r = - 1 \<or> 0 \<le> r \<and> r \<le> c' - lb) \<and> (r = 0 \<longrightarrow> c' < c) \<and> (repeat \<noteq> 0 \<longrightarrow> r \<noteq> 0)"
  using assms(2,3)
proof (induction "nat (c - lb)" arbitrary: c rule: less_induct)
  case less
  obtain w ch out where get: "get_b_utf8 p c lb = Some (w, ch)" and out: "outside grp mn mx ch = Some out"
    using get_b_utf8_Some [OF assms(1) less.prems] outside_Some [OF assms(4)] by metis
  have w: "w = 0 \<and> c \<le> lb \<or> 1 \<le> w \<and> w \<le> 3 \<and> lb \<le> c - w" using get by (rule get_b_utf8_range)
  show ?case
  proof (cases "w = 0 \<or> out = inside \<or> repeat = 0")
    case True
    with get out w less.prems show ?thesis by (subst grouping_bwd.simps) auto
  next
    case False
    have "\<exists>r c'. grouping_bwd inside p grp mn mx repeat (c - w) lb = Some (r, c') \<and> lb \<le> c' \<and> c' \<le> c - w
      \<and> (r = - 1 \<or> 0 \<le> r \<and> r \<le> c' - lb) \<and> (r = 0 \<longrightarrow> c' < c - w) \<and> (repeat \<noteq> 0 \<longrightarrow> r \<noteq> 0)"
      using False w less.prems by (intro less.hyps) auto
    with get out False w show ?thesis by (subst grouping_bwd.simps) auto
  qed
qed

lemma grouping_U_wp [wp_intro]:
  assumes "wf_env z" "0 \<le> z_c z" "z_c z \<le> z_l z" "covers grp mn mx"
    and Q: "\<And>r c'. z_c z \<le> c' \<Longrightarrow> c' \<le> z_l z \<Longrightarrow> r = - 1 \<or> 0 \<le> r \<and> r \<le> z_l z - c' \<Longrightarrow> r = 0 \<longrightarrow> z_c z < c'
      \<Longrightarrow> repeat \<noteq> 0 \<longrightarrow> r \<noteq> 0 \<Longrightarrow> Q r (z\<lparr>z_c := c'\<rparr>)"
  shows "wpf (in_grouping_U grp mn mx repeat) Q z" "wpf (out_grouping_U grp mn mx repeat) Q z"
proof -
  obtain b where b: "z_p z = Some b" "z_l z < int (length (bytes b))" using assms(1) by (rule wf_envE)
  have *: "\<exists>r c'. grouping_fwd inside (bytes b) grp mn mx repeat (z_c z) (z_l z) = Some (r, c')
    \<and> Q r (z\<lparr>z_c := c'\<rparr>)" for inside
    using grouping_fwd_range [of "z_c z" "z_l z" "bytes b" grp mn mx inside repeat] assms(2-4) b Q by fastforce
  show "wpf (in_grouping_U grp mn mx repeat) Q z" "wpf (out_grouping_U grp mn mx repeat) Q z"
    using * [of True] * [of False] b(1)
    by (auto simp: wpf_def in_grouping_U_def out_grouping_U_def)
qed

lemma grouping_b_U_wp [wp_intro]:
  assumes "wf_env z" "0 \<le> z_lb z" "z_lb z \<le> z_c z" "z_c z \<le> z_l z" "covers grp mn mx"
    and Q: "\<And>r c'. z_lb z \<le> c' \<Longrightarrow> c' \<le> z_c z \<Longrightarrow> r = - 1 \<or> 0 \<le> r \<and> r \<le> c' - z_lb z \<Longrightarrow> r = 0 \<longrightarrow> c' < z_c z
      \<Longrightarrow> repeat \<noteq> 0 \<longrightarrow> r \<noteq> 0 \<Longrightarrow> Q r (z\<lparr>z_c := c'\<rparr>)"
  shows "wpf (in_grouping_b_U grp mn mx repeat) Q z" "wpf (out_grouping_b_U grp mn mx repeat) Q z"
proof -
  obtain b where b: "z_p z = Some b" "z_l z < int (length (bytes b))" using assms(1) by (rule wf_envE)
  have *: "\<exists>r c'. grouping_bwd inside (bytes b) grp mn mx repeat (z_c z) (z_lb z) = Some (r, c')
    \<and> Q r (z\<lparr>z_c := c'\<rparr>)" for inside
    using grouping_bwd_range [of "z_lb z" "z_c z" "bytes b" grp mn mx inside repeat] assms(2-5) b Q by fastforce
  show "wpf (in_grouping_b_U grp mn mx repeat) Q z" "wpf (out_grouping_b_U grp mn mx repeat) Q z"
    using * [of True] * [of False] b(1)
    by (auto simp: wpf_def in_grouping_b_U_def out_grouping_b_U_def)
qed

subsection \<open>String tests\<close>

lemma eq_s_wp [wp_intro]:
  assumes "wf_env z" "0 \<le> z_c z" "z_c z \<le> z_l z" "n = int (length str)"
    and "Q 0 z"
    and "z_c z + n \<le> z_l z \<Longrightarrow> prefix str (ahead z) \<Longrightarrow> Q 1 (z\<lparr>z_c := z_c z + n\<rparr>)"
  shows "wpf (eq_s n str) Q z"
proof -
  obtain b where b: "z_p z = Some b" "z_l z < int (length (bytes b))" "content z = take (nat (z_l z)) (bytes b)"
    using assms(1) by (rule wf_envE)
  show ?thesis
  proof (cases "z_l z - z_c z < n")
    case False
    have "prefix str (ahead z)" if "take (length str) (drop (nat (z_c z)) (bytes b)) = str"
    proof -
      have "take (length str) (ahead z) = str"
        using that False assms(2-4) b(3) by (simp add: ahead_def drop_take min_absorb1)
      then show ?thesis by (metis take_is_prefix)
    qed
    with False assms b show ?thesis by (auto simp: wpf_def eq_s_def)
  qed (use assms in \<open>simp add: wpf_def eq_s_def\<close>)
qed

lemma eq_s_b_wp [wp_intro]:
  assumes "wf_env z" "0 \<le> z_lb z" "z_lb z \<le> z_c z" "z_c z \<le> z_l z" "n = int (length str)"
    and "Q 0 z"
    and "z_lb z \<le> z_c z - n \<Longrightarrow> suffix str (behind z) \<Longrightarrow> Q 1 (z\<lparr>z_c := z_c z - n\<rparr>)"
  shows "wpf (eq_s_b n str) Q z"
proof -
  obtain b where b: "z_p z = Some b" "z_l z < int (length (bytes b))" "content z = take (nat (z_l z)) (bytes b)"
    using assms(1) by (rule wf_envE)
  show ?thesis
  proof (cases "z_c z - z_lb z < n")
    case False
    have "suffix str (behind z)" if eq: "take (length str) (drop (nat (z_c z - n)) (bytes b)) = str"
    proof -
      have "drop (nat (z_c z - n) - nat (z_lb z)) (behind z) = take (length str) (drop (nat (z_c z - n)) (bytes b))"
        using False assms(2-5) b(3) by (simp add: behind_def drop_take min_absorb1 nat_mono nat_diff_distrib)
      then show ?thesis using eq by (metis suffix_drop)
    qed
    with False assms b show ?thesis by (auto simp: wpf_def eq_s_b_def)
  qed (use assms in \<open>simp add: wpf_def eq_s_b_def\<close>)
qed

subsection \<open>Tables\<close>

definition table_f :: "among list \<Rightarrow> bool" where
  "table_f v \<longleftrightarrow> table_ok s_sym v \<and> plain v"

definition table_b :: "among list \<Rightarrow> bool" where
  "table_b v \<longleftrightarrow> table_ok (\<lambda>w. rev (s_sym w)) v \<and> plain v"

lemma find_among_longest:
  assumes "table_f v" "fwd_ready z"
  shows "find_among v (int (length v)) z =
    (case longest (filter (\<lambda>w. prefix (s_sym w) (ahead z)) v) of
       None \<Rightarrow> Some (0, z) | Some w \<Rightarrow> Some (result w, z\<lparr>z_c := z_c z + s_size w\<rparr>))"
  using assms by (simp add: table_f_def find_among_spec among_spec_plain)

lemma find_among_b_longest:
  assumes "table_b v" "bwd_ready z"
  shows "find_among_b v (int (length v)) z =
    (case longest (filter (\<lambda>w. suffix (s_sym w) (behind z)) v) of
       None \<Rightarrow> Some (0, z) | Some w \<Rightarrow> Some (result w, z\<lparr>z_c := z_c z - s_size w\<rparr>))"
  using assms by (simp add: table_b_def find_among_b_spec among_spec_plain)

lemma find_among_b_wp [wp_intro]:
  assumes "table_b v" "n = int (length v)" "wf_env z" "0 \<le> z_lb z" "z_lb z \<le> z_c z" "z_c z \<le> z_l z"
    and none: "Q 0 z"
    and hit: "\<And>w. w \<in> set v \<Longrightarrow> s_size w = int (length (s_sym w)) \<Longrightarrow> suffix (s_sym w) (behind z)
      \<Longrightarrow> z_lb z \<le> z_c z - s_size w \<Longrightarrow> 0 \<le> s_size w \<Longrightarrow> Q (result w) (z\<lparr>z_c := z_c z - s_size w\<rparr>)"
  shows "wpf (find_among_b v n) Q z"
proof -
  have rd: "bwd_ready z" using assms by (simp add: bwd_ready_def)
  have len: "int (length (behind z)) = z_c z - z_lb z"
    using length_content [OF assms(3)] assms(4-6) unfolding behind_def length_drop length_take by linarith
  show ?thesis
  proof (cases "longest (filter (\<lambda>w. suffix (s_sym w) (behind z)) v)")
    case None
    with find_among_b_longest [OF assms(1) rd] assms(2) none show ?thesis by (simp add: wpf_def)
  next
    case (Some w)
    then have w: "w \<in> set v" "suffix (s_sym w) (behind z)" by (auto dest: longest_Some)
    then have "s_size w = int (length (s_sym w))" using assms(1) by (auto simp: table_b_def table_f_def table_ok_def list_all_iff)
    moreover have "length (s_sym w) \<le> length (behind z)" using w(2) by (rule suffix_length_le)
    ultimately show ?thesis
      using find_among_b_longest [OF assms(1) rd] assms(2) Some hit [OF w(1) _ w(2)] len
      by (simp add: wpf_def)
  qed
qed

lemma find_among_wp [wp_intro]:
  assumes "table_f v" "n = int (length v)" "wf_env z" "0 \<le> z_c z" "z_c z \<le> z_l z"
    and none: "Q 0 z"
    and hit: "\<And>w. w \<in> set v \<Longrightarrow> s_size w = int (length (s_sym w)) \<Longrightarrow> prefix (s_sym w) (ahead z)
      \<Longrightarrow> z_c z + s_size w \<le> z_l z \<Longrightarrow> 0 \<le> s_size w \<Longrightarrow> Q (result w) (z\<lparr>z_c := z_c z + s_size w\<rparr>)"
  shows "wpf (find_among v n) Q z"
proof -
  have rd: "fwd_ready z" using assms by (simp add: fwd_ready_def)
  have len: "int (length (ahead z)) = z_l z - z_c z"
    using length_content [OF assms(3)] assms(4,5) unfolding ahead_def length_drop by linarith
  show ?thesis
  proof (cases "longest (filter (\<lambda>w. prefix (s_sym w) (ahead z)) v)")
    case None
    with find_among_longest [OF assms(1) rd] assms(2) none show ?thesis by (simp add: wpf_def)
  next
    case (Some w)
    then have w: "w \<in> set v" "prefix (s_sym w) (ahead z)" by (auto dest: longest_Some)
    then have "s_size w = int (length (s_sym w))" using assms(1) by (auto simp: table_b_def table_f_def table_ok_def list_all_iff)
    moreover have "length (s_sym w) \<le> length (ahead z)" using w(2) by (rule prefix_length_le)
    ultimately show ?thesis
      using find_among_longest [OF assms(1) rd] assms(2) Some hit [OF w(1) _ w(2)] len
      by (simp add: wpf_def)
  qed
qed

subsection \<open>Slices\<close>

text \<open>What a successful edit leaves of the environment.\<close>

definition edited :: "int \<Rightarrow> int \<Rightarrow> symbol list \<Rightarrow> SN_env \<Rightarrow> SN_env \<Rightarrow> bool" where
  "edited bra ket str z z' \<longleftrightarrow> wf_env z'
     \<and> content z' = take (nat bra) (content z) @ str @ drop (nat ket) (content z)
     \<and> z_l z' = z_l z + (int (length str) - (ket - bra))
     \<and> z_c z' = moved_c bra ket (int (length str) - (ket - bra)) (z_c z)
     \<and> z_lb z' = z_lb z \<and> z_S z' = z_S z \<and> z_I z' = z_I z \<and> z_B z' = z_B z \<and> z_fresh z' = z_fresh z
     \<and> free z \<le> free z' \<and> failing (z_faults z') \<le> failing (z_faults z)"

lemma replace_s_cases:
  assumes "wf_env z" "0 \<le> bra" "bra \<le> ket" "ket \<le> z_l z" "n = int (length str)"
  obtains (ok) z' where "replace_s bra ket n str z = Some ((0, n - (ket - bra)), z')"
      "edited bra ket str z z'" "z_bra z' = z_bra z" "z_ket z' = z_ket z"
    | (fail) z' where "replace_s bra ket n str z = Some ((- 1, 0), z')" "lost z z'" "0 < failing (z_faults z)" "free z < z_l z + (n - (ket - bra))"
proof -
  obtain p where p: "z_p z = Some p" using assms(1) by (rule wf_envE)
  have ed: "edited bra ket str z (replaced bra ket str z b fs)"
    if "wf_env (replaced bra ket str z b fs)"
      "content (replaced bra ket str z b fs) = take (nat bra) (content z) @ str @ drop (nat ket) (content z)"
      "SIZE b = SIZE p + (int (length str) - (ket - bra))" "CAPACITY p \<le> CAPACITY b"
      "failing fs \<le> failing (z_faults z)" for b fs
    using that p by (simp add: edited_def) (simp add: replaced_def free_def)
  have sel: "z_bra (replaced bra ket str z b fs) = z_bra z" "z_ket (replaced bra ket str z b fs) = z_ket z" for b fs
    by (simp_all add: replaced_def)
  show thesis
  proof (cases "n = ket - bra")
    case True
    obtain b where "replace_s bra ket n str z = Some ((0, 0), replaced bra ket str z b (z_faults z))"
      "wf_env (replaced bra ket str z b (z_faults z))" "SIZE b = SIZE p" "CAPACITY b = CAPACITY p"
      "content (replaced bra ket str z b (z_faults z)) = take (nat bra) (content z) @ str @ drop (nat ket) (content z)"
      using replace_s_no_shift [OF p assms(1,2,4,5) True] by blast
    with True assms(5) show thesis using that(1) [OF _ ed sel] by simp
  next
    case False
    from replace_s_shift [OF p assms(1,2,3,4,5) False] show thesis
      using that(1) [OF _ ed sel] that(2) assms(5) by blast
  qed
qed

text \<open>An edit for which the buffer has room leaves the allocator alone.\<close>

lemma replace_s_fits:
  assumes "wf_env z" "0 \<le> bra" "bra \<le> ket" "ket \<le> z_l z" "n = int (length str)"
    and room: "z_l z + (n - (ket - bra)) \<le> free z"
  obtains z' where "replace_s bra ket n str z = Some ((0, n - (ket - bra)), z')"
      "edited bra ket str z z'" "z_bra z' = z_bra z" "z_ket z' = z_ket z"
      "z_faults z' = z_faults z" "free z' = free z"
proof -
  obtain p where p: "z_p z = Some p" using assms(1) by (rule wf_envE)
  note result = that
  have same: thesis
    if "replace_s bra ket n str z = Some ((0, n - (ket - bra)), replaced bra ket str z b (z_faults z))"
      "wf_env (replaced bra ket str z b (z_faults z))" "SIZE b = SIZE p + (n - (ket - bra))" "CAPACITY b = CAPACITY p"
      "content (replaced bra ket str z b (z_faults z)) = take (nat bra) (content z) @ str @ drop (nat ket) (content z)"
    for b
  proof (rule result [OF that(1)])
    show "free (replaced bra ket str z b (z_faults z)) = free z"
      using that(3,4) p assms(5) by (simp add: replaced_def free_def)
    then show "edited bra ket str z (replaced bra ket str z b (z_faults z))"
      using that(2,5) by (simp add: edited_def) (simp add: replaced_def)
  qed (simp_all add: replaced_def)
  show thesis
  proof (cases "n = ket - bra")
    case True
    obtain b where "replace_s bra ket n str z = Some ((0, 0), replaced bra ket str z b (z_faults z))"
      "wf_env (replaced bra ket str z b (z_faults z))" "SIZE b = SIZE p" "CAPACITY b = CAPACITY p"
      "content (replaced bra ket str z b (z_faults z)) = take (nat bra) (content z) @ str @ drop (nat ket) (content z)"
      using replace_s_no_shift [OF p assms(1,2,4,5) True] by blast
    with True show thesis by (intro same) simp_all
  next
    case False
    from replace_s_shift [OF p assms(1,2,3,4,5) False] show thesis
    proof (elim disjE exE conjE)
      fix b fs assume r: "replace_s bra ket n str z = Some ((0, n - (ket - bra)), replaced bra ket str z b fs)"
        "SIZE b = SIZE p + (n - (ket - bra))" "wf_env (replaced bra ket str z b fs)"
        "content (replaced bra ket str z b fs) = take (nat bra) (content z) @ str @ drop (nat ket) (content z)"
        "z_l z + (n - (ket - bra)) \<le> free z \<longrightarrow> CAPACITY b = CAPACITY p \<and> fs = z_faults z"
      then have "CAPACITY b = CAPACITY p" "fs = z_faults z" using room by simp_all
      with r show thesis by (intro same) simp_all
    qed (use room in simp)
  qed
qed

lemma slice_check_ok: "wf_env z \<Longrightarrow> 0 \<le> z_bra z \<Longrightarrow> z_bra z \<le> z_ket z \<Longrightarrow> z_ket z \<le> z_l z \<Longrightarrow> slice_check z = 0"
  by (auto simp: slice_check_def elim: wf_envE)

lemma slice_from_s_wp [wp_intro]:
  assumes "wf_env z" "0 \<le> z_bra z" "z_bra z \<le> z_ket z" "z_ket z \<le> z_l z" "n = int (length str)"
    and "\<And>z'. edited (z_bra z) (z_ket z) str z z' \<Longrightarrow> z_bra z' = z_bra z \<Longrightarrow> z_ket z' = z_ket z \<Longrightarrow> Q 0 z'"
    and "\<And>z'. lost z z' \<Longrightarrow> 0 < failing (z_faults z) \<Longrightarrow> free z < z_l z + (n - (z_ket z - z_bra z)) \<Longrightarrow> Q (- 1) z'"
  shows "wpf (slice_from_s n str) Q z"
proof (cases rule: replace_s_cases [OF assms(1-5), case_names ok fail])
  case (ok z')
  with assms(6) [OF ok(2-4)] slice_check_ok [OF assms(1-4)] show ?thesis
    by (simp add: wpf_def slice_from_s_def)
next
  case (fail z')
  with assms(7) [OF fail(2-4)] slice_check_ok [OF assms(1-4)] show ?thesis
    by (simp add: wpf_def slice_from_s_def)
qed

lemma slice_from_s_fits:
  assumes "wf_env z" "0 \<le> z_bra z" "z_bra z \<le> z_ket z" "z_ket z \<le> z_l z" "n = int (length str)"
    "z_l z + (n - (z_ket z - z_bra z)) \<le> free z"
    and "\<And>z'. edited (z_bra z) (z_ket z) str z z' \<Longrightarrow> z_bra z' = z_bra z \<Longrightarrow> z_ket z' = z_ket z \<Longrightarrow>
      z_faults z' = z_faults z \<Longrightarrow> free z' = free z \<Longrightarrow> Q 0 z'"
  shows "wpf (slice_from_s n str) Q z"
  by (rule replace_s_fits [OF assms(1-6)])
    (use assms(7) slice_check_ok [OF assms(1-4)] in \<open>simp add: wpf_def slice_from_s_def\<close>)

lemma slice_del_wp [wp_intro]:
  assumes "wf_env z" "0 \<le> z_bra z" "z_bra z \<le> z_ket z" "z_ket z \<le> z_l z"
    and "\<And>z'. edited (z_bra z) (z_ket z) [] z z' \<Longrightarrow> z_bra z' = z_bra z \<Longrightarrow> z_ket z' = z_ket z \<Longrightarrow> Q 0 z'"
    and "\<And>z'. lost z z' \<Longrightarrow> 0 < failing (z_faults z) \<Longrightarrow> free z < z_l z - (z_ket z - z_bra z) \<Longrightarrow> Q (- 1) z'"
  shows "wpf slice_del Q z"
  unfolding slice_del_def using assms by (intro slice_from_s_wp) auto

lemma insert_s_wp [wp_intro]:
  assumes "wf_env z" "0 \<le> bra" "bra \<le> ket" "ket \<le> z_l z" "n = int (length str)"
    and "\<And>z'. edited bra ket str z z' \<Longrightarrow>
      z_bra z' = (if bra \<le> z_bra z then z_bra z + (n - (ket - bra)) else z_bra z) \<Longrightarrow>
      z_ket z' = (if bra \<le> z_ket z then z_ket z + (n - (ket - bra)) else z_ket z) \<Longrightarrow> Q 0 z'"
    and "\<And>z'. lost z z' \<Longrightarrow> 0 < failing (z_faults z) \<Longrightarrow> free z < z_l z + (n - (ket - bra)) \<Longrightarrow> Q (- 1) z'"
  shows "wpf (insert_s bra ket n str) Q z"
proof (cases rule: replace_s_cases [OF assms(1-5), case_names ok fail])
  case (ok z')
  let ?z = "z'\<lparr>z_bra := (if bra \<le> z_bra z' then z_bra z' + (n - (ket - bra)) else z_bra z'),
      z_ket := (if bra \<le> z_ket z' then z_ket z' + (n - (ket - bra)) else z_ket z')\<rparr>"
  have "edited bra ket str z ?z" using ok(2) by (simp add: edited_def)
  with assms(6) [of ?z] ok show ?thesis by (simp add: wpf_def insert_s_def cong: if_cong)
next
  case (fail z')
  with assms(7) [OF fail(2-4)] show ?thesis by (simp add: wpf_def insert_s_def)
qed

subsection \<open>String variables\<close>

lemma copy_to_cases:
  assumes "wf_env z" "wf_buf p" "0 \<le> from" "0 \<le> len" "from + len \<le> z_l z"
  obtains (ok) q fs where "copy_to from len p z = Some (Some q, z\<lparr>z_faults := fs\<rparr>)" "wf_buf q" "SIZE q = len"
      "take (nat len) (bytes q) = take (nat len) (drop (nat from) (content z))" "failing fs \<le> failing (z_faults z)"
    | (fail) fs where "copy_to from len p z = Some (None, z\<lparr>z_faults := fs\<rparr>)" "0 < failing (z_faults z)"
proof -
  note copied = that(1) and failed = that(2)
  obtain t where t: "z_p z = Some t" "wf_buf t" "z_l z < int (length (bytes t))" "content z = take (nat (z_l z)) (bytes t)"
    using assms(1) by (rule wf_envE)
  have src: "take (nat len) (drop (nat from) (content z)) = take (nat len) (drop (nat from) (bytes t))"
  proof -
    have "nat len \<le> nat (z_l z) - nat from" using assms(3-5) by linarith
    then show ?thesis by (simp add: t(4) drop_take)
  qed
  have ok: thesis if q: "room p len q" "failing fs \<le> failing (z_faults z)"
    and run: "(if CAPACITY p < len then increase_size p len z else (Some p, z)) = (Some q, z\<lparr>z_faults := fs\<rparr>)" for q fs
  proof (rule copied)
    let ?src = "take (nat len) (drop (nat from) (bytes t))"
    let ?q = "q\<lparr>bytes := ?src @ drop (nat len) (bytes q), SIZE := len\<rparr>"
    have len: "length ?src = nat len" using assms(3-5) t(3) by simp
    show "copy_to from len p z = Some (Some ?q, z\<lparr>z_faults := fs\<rparr>)"
      using run t(1,3) q(1) assms(3-5) len by (simp add: copy_to_def room_def)
    have "int (nat len + (length (bytes q) - nat len)) = CAPACITY q + 1"
      using q(1) assms(4) unfolding room_def by linarith
    then show "wf_buf ?q" "SIZE ?q = len" using q(1) assms(4) len by (simp_all add: wf_buf_def room_def)
    show "take (nat len) (bytes ?q) = take (nat len) (drop (nat from) (content z))"
      using len src by simp
  qed (rule q(2))
  show thesis
  proof (cases "CAPACITY p < len")
    case True
    show thesis
    proof (cases rule: increase_size_cases [OF assms(2) True, of z, case_names ok fail])
      case (fail fs)
      with True show thesis by (intro failed [of fs]) (simp_all add: copy_to_def)
    qed (use True ok in auto)
  next
    case False
    then show thesis using ok [of p "z_faults z"] assms(2) by (simp add: room_refl)
  qed
qed

lemma wp_if_S_null [simp]:
  "0 \<le> i \<Longrightarrow> i < int (length (z_S z)) \<Longrightarrow>
   wp (c_if (S_null i) a) Q z \<longleftrightarrow> (if z_S z ! nat i = None then wp a Q z else Q Next z)"
  by (auto simp: wp_def c_if_def S_null_def)

lemma set_S_slice_to_wp:
  assumes "wf_env z" "0 \<le> z_bra z" "z_bra z \<le> z_ket z" "z_ket z \<le> z_l z" "0 \<le> i" "i < int (length (z_S z))"
    "z_S z ! nat i = Some p" "wf_buf p"
    and "\<And>q fs. wf_buf q \<Longrightarrow> SIZE q = z_ket z - z_bra z \<Longrightarrow> failing fs \<le> failing (z_faults z) \<Longrightarrow>
      take (nat (SIZE q)) (bytes q) = take (nat (SIZE q)) (drop (nat (z_bra z)) (content z)) \<Longrightarrow>
      Q Next (z\<lparr>z_faults := fs, z_S := (z_S z)[nat i := Some q]\<rparr>)"
    and "\<And>fs. 0 < failing (z_faults z) \<Longrightarrow> Q Next (z\<lparr>z_faults := fs, z_S := (z_S z)[nat i := None]\<rparr>)"
  shows "wp (set_S_slice_to i) Q z"
proof -
  have len: "0 \<le> z_ket z - z_bra z" "z_bra z + (z_ket z - z_bra z) \<le> z_l z" using assms(3,4) by simp_all
  have run: "set_S_slice_to i z = (case copy_to (z_bra z) (z_ket z - z_bra z) p z of None \<Rightarrow> None
      | Some (q, z1) \<Rightarrow> do { xs \<leftarrow> arr_set (z_S z1) i q; Some (Next, z1\<lparr>z_S := xs\<rparr>) })"
    using assms(5-7) slice_check_ok [OF assms(1-4)]
    by (simp add: set_S_slice_to_def slice_to_def split: option.split)
  show ?thesis
  proof (rule copy_to_cases [OF assms(1,8,2) len])
    fix q fs assume *: "copy_to (z_bra z) (z_ket z - z_bra z) p z = Some (Some q, z\<lparr>z_faults := fs\<rparr>)" "wf_buf q"
      "SIZE q = z_ket z - z_bra z" "take (nat (z_ket z - z_bra z)) (bytes q) =
        take (nat (z_ket z - z_bra z)) (drop (nat (z_bra z)) (content z))" "failing fs \<le> failing (z_faults z)"
    with assms(9) [of q fs] run assms(5,6) show ?thesis by (simp add: wp_def)
  next
    fix fs assume "copy_to (z_bra z) (z_ket z - z_bra z) p z = Some (None, z\<lparr>z_faults := fs\<rparr>)" "0 < failing (z_faults z)"
    with assms(10) [of fs] run assms(5,6) show ?thesis by (simp add: wp_def)
  qed
qed

lemma eq_s_b_take:
  assumes "0 \<le> n" "n \<le> int (length str)"
  shows "eq_s_b n str z = eq_s_b n (take (nat n) str) z"
  using assms by (simp add: eq_s_b_def)

lemma eq_v_b_S_wp:
  assumes "wf_env z" "0 \<le> z_lb z" "z_lb z \<le> z_c z" "z_c z \<le> z_l z" "0 \<le> i" "i < int (length (z_S z))"
    "z_S z ! nat i = Some v" "wf_buf v"
    and "Q 0 z" and "z_lb z \<le> z_c z - SIZE v \<Longrightarrow> Q 1 (z\<lparr>z_c := z_c z - SIZE v\<rparr>)"
  shows "wpf (eq_v_b_S i) Q z"
proof -
  have sz: "0 \<le> SIZE v" "SIZE v \<le> int (length (bytes v))" using assms(8) by (simp_all add: wf_buf_def)
  then have n: "SIZE v = int (length (take (nat (SIZE v)) (bytes v)))" by simp
  have "wpf (eq_s_b (SIZE v) (take (nat (SIZE v)) (bytes v))) Q z"
    using assms(9,10) by (intro eq_s_b_wp [OF assms(1-4) n]) auto
  then show ?thesis
    using assms(5-7) eq_s_b_take [OF sz, of z] by (simp add: wpf_def eq_v_b_S_def eq_v_b_def)
qed

lemma wp_set_I_I [wp_intro]:
  "0 \<le> i \<Longrightarrow> i < int (length (z_I z)) \<Longrightarrow> 0 \<le> j \<Longrightarrow> j < int (length (z_I z)) \<Longrightarrow>
   Q Next (z\<lparr>z_I := (z_I z)[nat i := z_I z ! nat j]\<rparr>) \<Longrightarrow> wp (set_I_I i j) Q z"
  by (simp add: wp_def set_I_I_def set_I_def I_at_def)

lemma wp_if_II [simp]:
  "0 \<le> i \<Longrightarrow> i < int (length (z_I z)) \<Longrightarrow> 0 \<le> j \<Longrightarrow> j < int (length (z_I z)) \<Longrightarrow>
   wp (c_if (on_II i j f) a) Q z \<longleftrightarrow> (if f (z_I z ! nat i) (z_I z ! nat j) then wp a Q z else Q Next z)"
  by (auto simp: wp_def c_if_def on_II_def I_at_def)

end
