(* ===== verification/Among_Check.thy ===== *)
theory Among_Check
  imports Among
begin

text \<open>
  A test of search tables that is linear in their length, and its soundness: a table that passes it
  is well formed. It walks the table once with the stack of the entries that are prefixes of the
  entry before.
\<close>

definition kless :: "symbol list \<Rightarrow> symbol list \<Rightarrow> bool" where
  "kless xs ys \<longleftrightarrow> kle xs ys \<and> xs \<noteq> ys"

fun links_ok :: "(among \<Rightarrow> symbol list) \<Rightarrow> int \<Rightarrow> (int \<times> symbol list) list \<Rightarrow> among list \<Rightarrow> bool" where
  "links_ok key k stack [] = True"
| "links_ok key k stack (w # ws) =
     (let st = filter (\<lambda>(j, x). prefix x (key w)) stack
      in substring_i w = (case st of [] \<Rightarrow> - 1 | (j, x) # _ \<Rightarrow> j)
         \<and> links_ok key (k + 1) ((k, key w) # st) ws)"

definition table_check :: "(among \<Rightarrow> symbol list) \<Rightarrow> among list \<Rightarrow> bool" where
  "table_check key v \<longleftrightarrow> v \<noteq> []
     \<and> list_all (\<lambda>w. s_size w = int (length (s_sym w))) v
     \<and> successively (\<lambda>a b. kless (key a) (key b)) v
     \<and> links_ok key 0 [] v"

lemma kless_trans: "kless xs ys \<Longrightarrow> kless ys zs \<Longrightarrow> kless xs zs"
  using kle_trans kle_antisym unfolding kless_def by blast

lemma sorted_keys:
  "successively (\<lambda>a b. kless (key a) (key b)) v \<Longrightarrow> sorted_wrt (\<lambda>a b. kless (key a) (key b)) v"
  using successively_iff_sorted_wrt_strong [of v "\<lambda>a b. kless (key a) (key b)"] kless_trans by blast

text \<open>The stack before entry \<open>k\<close>.\<close>

definition stack_ok :: "(among \<Rightarrow> symbol list) \<Rightarrow> among list \<Rightarrow> nat \<Rightarrow> (int \<times> symbol list) list \<Rightarrow> bool" where
  "stack_ok key v k stack \<longleftrightarrow>
     (\<forall>(j, x) \<in> set stack. 0 \<le> j \<and> nat j < k \<and> x = key (v ! nat j))
     \<and> sorted_wrt (\<lambda>(_, x) (_, y). length y \<le> length x) stack
     \<and> (\<forall>j < k. prefix (key (v ! j)) (key (v ! (k - 1))) \<longrightarrow> (int j, key (v ! j)) \<in> set stack)"

lemma stack_step:
  assumes srt: "sorted_wrt (\<lambda>a b. kless (key a) (key b)) v" and k: "k < length v"
    and stack: "stack_ok key v k stack" and st: "st = filter (\<lambda>(j, x). prefix x (key (v ! k))) stack"
  shows "stack_ok key v (Suc k) ((int k, key (v ! k)) # st)"
    and "\<And>j. j < k \<Longrightarrow> prefix (key (v ! j)) (key (v ! k)) \<Longrightarrow> (int j, key (v ! j)) \<in> set st"
proof -
  have le: "kle (key (v ! i)) (key (v ! j))" if "i \<le> j" "j < length v" for i j
    using that srt by (cases "i = j") (auto simp: sorted_wrt_iff_nth_less kless_def)
  show in_st: "(int j, key (v ! j)) \<in> set st" if j: "j < k" "prefix (key (v ! j)) (key (v ! k))" for j
  proof -
    have "prefix (key (v ! j)) (key (v ! (k - 1)))"
      using j k by (intro prefix_between [OF j(2)] le) auto
    with stack j show ?thesis by (auto simp: stack_ok_def st)
  qed
  have "sorted_wrt (\<lambda>(_, x) (_, y). length y \<le> length x) st"
    using stack unfolding st stack_ok_def by (intro sorted_wrt_filter) auto
  moreover have "\<forall>(j, x) \<in> set st. 0 \<le> j \<and> nat j < k \<and> x = key (v ! nat j) \<and> prefix x (key (v ! k))"
    using stack by (auto simp: st stack_ok_def)
  ultimately show "stack_ok key v (Suc k) ((int k, key (v ! k)) # st)"
    using in_st by (auto simp: stack_ok_def less_Suc_eq prefix_length_le dest!: prefix_length_le)
qed

lemma links_ok_sound:
  assumes srt: "sorted_wrt (\<lambda>a b. kless (key a) (key b)) v"
    and "links_ok key (int k) stack (drop k v)" "stack_ok key v k stack" "k \<le> i" "i < length v"
  shows "link_ok key v i"
  using assms(2-5)
proof (induction "length v - k" arbitrary: k stack)
  case (Suc n)
  let ?st = "filter (\<lambda>(j, x). prefix x (key (v ! k))) stack"
  have k: "k < length v" using Suc.prems by simp
  note step = stack_step [OF srt k Suc.prems(2) refl]
  have links: "substring_i (v ! k) = (case ?st of [] \<Rightarrow> - 1 | (j, x) # _ \<Rightarrow> j)"
    "links_ok key (int (Suc k)) ((int k, key (v ! k)) # ?st) (drop (Suc k) v)"
    using Suc.prems(1) Cons_nth_drop_Suc [OF k, symmetric] by (simp_all add: Let_def add.commute)
  show ?case
  proof (cases "i = k")
    case False
    with Suc.prems(3,4) Suc.hyps(2) links(2) step(1) show ?thesis by (intro Suc.hyps(1) [OF _ links(2) step(1)]) auto
  next
    case True
    have before: "j < k" if "strict_prefix (key (v ! j)) (key (v ! k))" "j < length v" for j
    proof (rule ccontr)
      assume "\<not> j < k"
      with srt that k have "k = j \<or> kless (key (v ! k)) (key (v ! j))"
        by (metis linorder_neqE_nat sorted_wrt_iff_nth_less)
      with that(1) show False
        using prefix_kle kle_antisym by (auto simp: kless_def strict_prefix_def)
    qed
    have keys: "key (v ! j) \<noteq> key (v ! k)" if "j < k" for j
      using srt k that by (auto simp: sorted_wrt_iff_nth_less kless_def)
    show ?thesis
    proof (cases ?st)
      case Nil
      have "\<not> strict_prefix (key w') (key (v ! k))" if "w' \<in> set v" for w'
        using that before step(2) Nil by (auto simp: in_set_conv_nth strict_prefix_def)
      with links(1) Nil True show ?thesis by (auto simp: link_ok_def Let_def list_all_iff)
    next
      case (Cons top rest)
      obtain m x where top: "top = (m, x)" by (cases top)
      have m: "0 \<le> m" "nat m < k" "x = key (v ! nat m)" "prefix x (key (v ! k))"
        using Suc.prems(2) arg_cong [OF Cons, of set] top by (auto simp: stack_ok_def)
      have "length (key w') \<le> length x" if w': "w' \<in> set v" "strict_prefix (key w') (key (v ! k))" for w'
      proof -
        obtain j where j: "j < length v" "w' = v ! j" using w'(1) by (auto simp: in_set_conv_nth)
        with w'(2) before step(2) have "(int j, key w') \<in> set ?st" by (auto simp: strict_prefix_def)
        moreover have "sorted_wrt (\<lambda>(_, x) (_, y). length y \<le> length x) ?st"
          using Suc.prems(2) unfolding stack_ok_def by (intro sorted_wrt_filter) auto
        ultimately show ?thesis using Cons top by auto
      qed
      with links(1) Cons top True m keys show ?thesis
        by (auto simp: link_ok_def Let_def list_all_iff strict_prefix_def)
    qed
  qed
qed simp

lemma table_check_sound:
  assumes "table_check key v"
  shows "table_ok key v"
proof -
  have srt: "sorted_wrt (\<lambda>a b. kless (key a) (key b)) v"
    using assms sorted_keys by (auto simp: table_check_def)
  have "link_ok key v i" if "i < length v" for i
    using links_ok_sound [OF srt, of 0 "[]" i] assms that by (simp add: table_check_def stack_ok_def)
  with assms srt show ?thesis by (simp add: table_ok_def table_check_def kless_def list_all_iff)
qed

end
