(* ===== verification/Stem_Rules.thy ===== *)
theory Stem_Rules
  imports Runtime_Rules Among_Check
begin

text \<open>
  What the routines of a stemmer promise each other, and the rules with which their bodies are
  executed symbolically. A routine works in a window of the text: the limits and the cursor are in
  order and the buffer is well formed. It leaves such a window with a text that is not longer; so the
  buffer never has to grow, and no step of it can fail.
\<close>

named_theorems win_intro \<open>rules that execute a test or a move inside a window of the text\<close>
named_theorems safe_intro \<open>rules that execute an edit inside a window of the text\<close>

definition in_window :: "SN_env \<Rightarrow> bool" where
  "in_window z \<longleftrightarrow> wf_env z \<and> 0 \<le> z_lb z \<and> z_lb z \<le> z_c z \<and> z_c z \<le> z_l z
     \<and> z_l z \<le> free z"

text \<open>\<open>kept z z'\<close>: \<open>z'\<close> has the window of \<open>z\<close>, with a cursor in it, and the same variables.\<close>

definition kept :: "SN_env \<Rightarrow> SN_env \<Rightarrow> bool" where
  "kept z z' \<longleftrightarrow> wf_env z' \<and> z_lb z' = z_lb z \<and> z_lb z \<le> z_c z' \<and> z_c z' \<le> z_l z'
     \<and> z_S z' = z_S z \<and> z_I z' = z_I z \<and> z_B z' = z_B z \<and> free z' = free z
     \<and> z_faults z' = z_faults z \<and> z_fresh z' = z_fresh z"

text \<open>Well-formedness and room, as functions of the buffer and the limit.\<close>

definition wf_text :: "sbuf option \<Rightarrow> int \<Rightarrow> bool" where
  "wf_text p l \<longleftrightarrow> (case p of None \<Rightarrow> False | Some b \<Rightarrow> wf_buf b \<and> 0 \<le> l \<and> l \<le> SIZE b)"

definition room_text :: "sbuf option \<Rightarrow> int \<Rightarrow> int" where
  "room_text p l = (case p of None \<Rightarrow> 0 | Some b \<Rightarrow> CAPACITY b - SIZE b + l)"

lemma text_upd [simp]:
  "wf_env (z\<lparr>z_p := p\<rparr>) = wf_text p (z_l z)" "wf_env (z\<lparr>z_l := l\<rparr>) = wf_text (z_p z) l"
  "free (z\<lparr>z_p := p\<rparr>) = room_text p (z_l z)" "free (z\<lparr>z_l := l\<rparr>) = room_text (z_p z) l"
  by (simp_all add: wf_env_def wf_text_def free_def room_text_def split: option.splits)

text \<open>So \<open>z'\<close> is \<open>z\<close> with another text, cursor, limit and slice. The rules for edits and calls give the
  new environment in this form.\<close>

lemma kept_upd:
  assumes "kept z z'"
  obtains p c l b k where "z' = z\<lparr>z_p := p, z_c := c, z_l := l, z_bra := b, z_ket := k\<rparr>"
    "wf_text p l" "room_text p l = free z" "z_lb z \<le> c" "c \<le> l"
proof -
  have eq: "z' = z\<lparr>z_p := z_p z', z_c := z_c z', z_l := z_l z', z_bra := z_bra z', z_ket := z_ket z'\<rparr>"
    using assms by (cases z, cases z') (simp add: kept_def)
  have "wf_text (z_p z') (z_l z') = wf_env z'" "room_text (z_p z') (z_l z') = free z'"
    by (simp_all add: wf_env_def wf_text_def free_def room_text_def)
  with assms show thesis by (intro that [OF eq]) (simp_all add: kept_def)
qed

text \<open>Memory may run out: some of the coming allocations fails.\<close>

definition oom :: "SN_env \<Rightarrow> bool" where
  "oom z \<longleftrightarrow> 0 < failing (z_faults z)"

text \<open>The contract of a routine that returns \<open>r\<close>.\<close>

definition stepped :: "SN_env \<Rightarrow> int \<Rightarrow> SN_env \<Rightarrow> bool" where
  "stepped z r z' \<longleftrightarrow> 0 \<le> r \<and> kept z z' \<and> z_l z' \<le> z_l z"


lemma stepped_wp:
  assumes "wpf f (stepped z) z"
    and "\<And>r p c l b k. 0 \<le> r \<Longrightarrow> wf_text p l \<Longrightarrow> room_text p l = free z \<Longrightarrow>
      z_lb z \<le> c \<Longrightarrow> c \<le> l \<Longrightarrow> l \<le> z_l z \<Longrightarrow> Q r (z\<lparr>z_p := p, z_c := c, z_l := l, z_bra := b, z_ket := k\<rparr>)"
  shows "wpf f Q z"
  using assms(1) by (rule wpf_mono) (auto simp: stepped_def elim!: kept_upd intro!: assms(2))

text \<open>The contract of a routine that works behind the cursor: what follows the cursor only grows.\<close>

definition backed :: "SN_env \<Rightarrow> int \<Rightarrow> SN_env \<Rightarrow> bool" where
  "backed z r z' \<longleftrightarrow> stepped z r z' \<and> z_l z - z_c z \<le> z_l z' - z_c z'"

lemma backed_wp:
  assumes "wpf f (backed z) z"
    and "\<And>r p c l b k. 0 \<le> r \<Longrightarrow> wf_text p l \<Longrightarrow> room_text p l = free z \<Longrightarrow> z_lb z \<le> c \<Longrightarrow> c \<le> l \<Longrightarrow> l \<le> z_l z \<Longrightarrow>
      z_l z - z_c z \<le> l - c \<Longrightarrow> Q r (z\<lparr>z_p := p, z_c := c, z_l := l, z_bra := b, z_ket := k\<rparr>)"
  shows "wpf f Q z"
  using assms(1) by (rule wpf_mono) (auto simp: backed_def stepped_def elim!: kept_upd intro!: assms(2))

text \<open>The contract of a routine that only cuts the end of the text off.\<close>

definition trimmed :: "SN_env \<Rightarrow> int \<Rightarrow> SN_env \<Rightarrow> bool" where
  "trimmed z r z' \<longleftrightarrow> 0 \<le> r \<and> kept z z' \<and> z_l z' \<le> z_l z
     \<and> content z' = take (nat (z_l z')) (content z)"

lemma trimmed_wp:
  assumes "wpf f (trimmed z) z"
    and "\<And>r z'. 0 \<le> r \<Longrightarrow> kept z z' \<Longrightarrow> z_l z' \<le> z_l z \<Longrightarrow> content z' = take (nat (z_l z')) (content z) \<Longrightarrow> Q r z'"
  shows "wpf f Q z"
  using assms(1) by (rule wpf_mono) (auto simp: trimmed_def assms(2))

lemmas step_defs = stepped_def trimmed_def kept_def oom_def in_window_def

text \<open>The contract of a test that only moves the cursor back.\<close>

definition looked :: "SN_env \<Rightarrow> int \<Rightarrow> SN_env \<Rightarrow> bool" where
  "looked z r z' \<longleftrightarrow> 0 \<le> r \<and> (\<exists>c'. z' = z\<lparr>z_c := c'\<rparr> \<and> z_lb z \<le> c' \<and> c' \<le> z_c z)"

lemma lookedI: "0 \<le> r \<Longrightarrow> z_lb z \<le> c' \<Longrightarrow> c' \<le> z_c z \<Longrightarrow> looked z r (z\<lparr>z_c := c'\<rparr>)"
  by (auto simp: looked_def)

lemma looked_refl: "0 \<le> r \<Longrightarrow> z_lb z \<le> z_c z \<Longrightarrow> looked z r z"
  unfolding looked_def by (intro conjI exI [of _ "z_c z"]) auto

lemma looked_wp:
  assumes "wpf f (looked z) z"
    and "\<And>r c'. 0 \<le> r \<Longrightarrow> z_lb z \<le> c' \<Longrightarrow> c' \<le> z_c z \<Longrightarrow> Q r (z\<lparr>z_c := c'\<rparr>)"
  shows "wpf f Q z"
  using assms(1) by (rule wpf_mono) (auto simp: looked_def assms(2))

text \<open>
  Statements up to a label that only look: what follows the label starts from one state, however
  many jumps lead there.
\<close>

definition look_k :: "nat \<Rightarrow> SN_env \<Rightarrow> (c_ctl \<Rightarrow> SN_env \<Rightarrow> bool) \<Rightarrow> c_ctl \<Rightarrow> SN_env \<Rightarrow> bool" where
  "look_k n z Q k z' \<longleftrightarrow> (if k = Next \<or> k = Goto n
     then z' = z\<lparr>z_c := z_c z'\<rparr> \<and> z_lb z \<le> z_c z' \<and> z_c z' \<le> z_c z else Q k z')"

lemma look_k_simps [simp]:
  "look_k n z Q Next z' \<longleftrightarrow> z' = z\<lparr>z_c := z_c z'\<rparr> \<and> z_lb z \<le> z_c z' \<and> z_c z' \<le> z_c z"
  "look_k n z Q (Goto m) z' \<longleftrightarrow> (if m = n then z' = z\<lparr>z_c := z_c z'\<rparr> \<and> z_lb z \<le> z_c z' \<and> z_c z' \<le> z_c z else Q (Goto m) z')"
  "look_k n z Q (Return r) z' \<longleftrightarrow> Q (Return r) z'" "look_k n z Q Break z' \<longleftrightarrow> Q Break z'"
  "look_k n z Q Continue z' \<longleftrightarrow> Q Continue z'"
  by (simp_all add: look_k_def)

lemma wp_upto_look:
  assumes "wp (c_block as) (look_k n z Q) z"
    and "\<And>c'. z_lb z \<le> c' \<Longrightarrow> c' \<le> z_c z \<Longrightarrow> Q Next (z\<lparr>z_c := c'\<rparr>)"
  shows "wp (c_upto n as) Q z"
  unfolding wp_upto using assms(1)
proof (rule wp_mono)
  fix k z' assume "look_k n z Q k z'"
  then show "upto_k n Q k z'" using assms(2) [of "z_c z'"] by (auto simp: look_k_def upto_k_def split: if_splits)
qed

lemma take_l_content [simp]: "wf_env z \<Longrightarrow> take (nat (z_l z)) (content z) = content z"
  using length_content [of z] by (intro take_all) linarith

text \<open>The same for statements that work behind the cursor, or behind \<^verbatim>\<open>ket\<close>: at least \<open>d\<close> bytes follow
  the cursor.\<close>

definition back_k :: "nat \<Rightarrow> int \<Rightarrow> SN_env \<Rightarrow> (c_ctl \<Rightarrow> SN_env \<Rightarrow> bool) \<Rightarrow> c_ctl \<Rightarrow> SN_env \<Rightarrow> bool" where
  "back_k n d z Q k z' \<longleftrightarrow> (if k = Next \<or> k = Goto n
     then kept z z' \<and> z_l z' \<le> z_l z \<and> d \<le> z_l z' - z_c z' else Q k z')"

lemma back_k_simps [simp]:
  "back_k n d z Q Next z' \<longleftrightarrow> kept z z' \<and> z_l z' \<le> z_l z \<and> d \<le> z_l z' - z_c z'"
  "back_k n d z Q (Goto m) z' \<longleftrightarrow> (if m = n then kept z z' \<and> z_l z' \<le> z_l z \<and> d \<le> z_l z' - z_c z' else Q (Goto m) z')"
  "back_k n d z Q (Return r) z' \<longleftrightarrow> Q (Return r) z'" "back_k n d z Q Break z' \<longleftrightarrow> Q Break z'"
  "back_k n d z Q Continue z' \<longleftrightarrow> Q Continue z'"
  by (simp_all add: back_k_def)

lemma wp_upto_by:
  assumes "wp (c_block as) (back_k n d z Q) z"
    and "\<And>p c l b k. wf_text p l \<Longrightarrow> room_text p l = free z \<Longrightarrow> z_lb z \<le> c \<Longrightarrow> c \<le> l \<Longrightarrow> l \<le> z_l z \<Longrightarrow>
      d \<le> l - c \<Longrightarrow> Q Next (z\<lparr>z_p := p, z_c := c, z_l := l, z_bra := b, z_ket := k\<rparr>)"
  shows "wp (c_upto n as) Q z"
  unfolding wp_upto using assms(1)
proof (rule wp_mono)
  fix k z' assume *: "back_k n d z Q k z'"
  show "upto_k n Q k z'"
  proof (cases "k = Next \<or> k = Goto n")
    case True
    with * have "kept z z'" and l: "z_l z' \<le> z_l z" "d \<le> z_l z' - z_c z'" by (auto simp: back_k_def)
    then have "Q Next z'" by (elim kept_upd) (auto intro!: assms(2))
    with True show ?thesis by (auto simp: upto_k_def)
  next
    case False
    with * show ?thesis by (auto simp: back_k_def upto_k_def)
  qed
qed

lemmas wp_upto_back = wp_upto_by [where d = "z_l z - z_c z" and z = z for z]
lemmas wp_upto_ket = wp_upto_by [where d = "z_l z - z_ket z" and z = z for z]

subsection \<open>Edits inside the window\<close>

lemma edited_kept:
  assumes "edited bra ket str z z'" "wf_env z" "0 \<le> z_lb z" "z_lb z \<le> z_c z" "z_c z \<le> z_l z"
    "z_lb z \<le> bra" "bra \<le> ket" "ket \<le> z_l z" "z_faults z' = z_faults z" "free z' = free z"
  shows "kept z z'"
  using assms by (auto simp: edited_def kept_def moved_c_def)

lemma slice_from_s_safe [safe_intro]:
  assumes "wf_env z" "0 \<le> z_lb z" "z_lb z \<le> z_c z" "z_c z \<le> z_l z"
    "z_lb z \<le> z_bra z" "z_bra z \<le> z_ket z" "z_ket z \<le> z_l z" "n = int (length str)"
    "z_l z + (n - (z_ket z - z_bra z)) \<le> free z"
    and "\<And>p c l. l + z_ket z = z_l z + n + z_bra z \<Longrightarrow> wf_text p l \<Longrightarrow>
      room_text p l = free z \<Longrightarrow> z_lb z \<le> c \<Longrightarrow> c \<le> l \<Longrightarrow> Q 0 (z\<lparr>z_p := p, z_c := c, z_l := l\<rparr>)"
  shows "wpf (slice_from_s n str) Q z"
proof (rule slice_from_s_fits)
  fix z' assume ed: "edited (z_bra z) (z_ket z) str z z'" "z_bra z' = z_bra z" "z_ket z' = z_ket z"
    and eq: "z_faults z' = z_faults z" "free z' = free z"
  have "kept z z'" using edited_kept [OF ed(1)] eq assms(1-7) by simp
  then obtain p c l where z': "z' = z\<lparr>z_p := p, z_c := c, z_l := l, z_bra := z_bra z', z_ket := z_ket z'\<rparr>"
    and *: "wf_text p l" "room_text p l = free z" "z_lb z \<le> c" "c \<le> l"
    by (elim kept_upd) auto
  have "z_l z' = l" by (subst z') simp
  with ed(1) assms(8) have "l + z_ket z = z_l z + n + z_bra z" by (simp add: edited_def)
  moreover have "z' = z\<lparr>z_p := p, z_c := c, z_l := l\<rparr>" using z' ed(2,3) by (cases z) simp
  ultimately show "Q 0 z'" using assms(10) [OF _ *] by simp
qed (use assms in auto)

lemma slice_del_safe [safe_intro]:
  assumes "wf_env z" "0 \<le> z_lb z" "z_lb z \<le> z_c z" "z_c z \<le> z_l z"
    "z_lb z \<le> z_bra z" "z_bra z \<le> z_ket z" "z_ket z \<le> z_l z"
    and "\<And>p c l. l + z_ket z = z_l z + z_bra z \<Longrightarrow> wf_text p l \<Longrightarrow>
      room_text p l = free z \<Longrightarrow> z_lb z \<le> c \<Longrightarrow> c \<le> l \<Longrightarrow> Q 0 (z\<lparr>z_p := p, z_c := c, z_l := l\<rparr>)"
  shows "wpf slice_del Q z"
  unfolding slice_del_def using assms l_le_free [OF assms(1)] by (intro slice_from_s_safe) auto

text \<open>A deletion in front of the cursor leaves the cursor alone.\<close>

lemma slice_del_back:
  assumes "wf_env z" "0 \<le> z_lb z" "z_lb z \<le> z_c z" "z_bra z = z_c z" "z_c z \<le> z_ket z" "z_ket z \<le> z_l z"
    and "\<And>p l. l + z_ket z = z_l z + z_c z \<Longrightarrow> wf_text p l \<Longrightarrow> room_text p l = free z \<Longrightarrow> z_c z \<le> l \<Longrightarrow>
      Q 0 (z\<lparr>z_p := p, z_l := l\<rparr>)"
  shows "wpf slice_del Q z"
  unfolding slice_del_def
proof (rule slice_from_s_fits)
  fix z' assume ed: "edited (z_bra z) (z_ket z) [] z z'" "z_bra z' = z_bra z" "z_ket z' = z_ket z"
    and eq: "z_faults z' = z_faults z" "free z' = free z"
  have kept: "kept z z'" using edited_kept [OF ed(1)] eq assms(1-6) by simp
  then obtain p l where z': "z' = z\<lparr>z_p := p, z_c := z_c z', z_l := l, z_bra := z_bra z', z_ket := z_ket z'\<rparr>"
    and *: "wf_text p l" "room_text p l = free z"
    by (elim kept_upd) auto
  have l: "z_l z' = l" by (subst z') simp
  have "z_c z' = z_c z" "l + z_ket z = z_l z + z_c z"
    using ed(1) assms(4,5) l by (auto simp: edited_def moved_c_def)
  moreover from this kept l have "z_c z \<le> l" by (simp add: kept_def)
  moreover have "z' = z\<lparr>z_p := p, z_l := l\<rparr>" using z' ed(2,3) \<open>z_c z' = z_c z\<close> by (cases z) simp
  ultimately show "Q 0 z'" using assms(7) [OF _ *] by simp
qed (use assms l_le_free [OF assms(1)] in auto)

lemma insert_s_safe [safe_intro]:
  assumes "wf_env z" "0 \<le> z_lb z" "z_lb z \<le> z_c z" "z_c z \<le> z_l z"
    "z_lb z \<le> bra" "bra \<le> ket" "ket \<le> z_l z" "n = int (length str)"
    "z_l z + (n - (ket - bra)) \<le> free z"
    and "\<And>p c l b k. l + ket = z_l z + n + bra \<Longrightarrow> wf_text p l \<Longrightarrow> room_text p l = free z \<Longrightarrow> z_lb z \<le> c \<Longrightarrow> c \<le> l \<Longrightarrow>
      Q 0 (z\<lparr>z_p := p, z_c := c, z_l := l, z_bra := b, z_ket := k\<rparr>)"
  shows "wpf (insert_s bra ket n str) Q z"
proof (rule replace_s_fits [OF assms(1) _ assms(6-9)])
  fix z1 assume run: "replace_s bra ket n str z = Some ((0, n - (ket - bra)), z1)"
    and ed: "edited bra ket str z z1" "z_faults z1 = z_faults z" "free z1 = free z"
  let ?z = "z1\<lparr>z_bra := (if bra \<le> z_bra z1 then z_bra z1 + (n - (ket - bra)) else z_bra z1),
      z_ket := (if bra \<le> z_ket z1 then z_ket z1 + (n - (ket - bra)) else z_ket z1)\<rparr>"
  have "kept z z1" using edited_kept [OF ed(1)] ed(2,3) assms(1-7) by simp
  then have "kept z ?z" by (simp add: kept_def)
  then obtain p c l b k where z': "?z = z\<lparr>z_p := p, z_c := c, z_l := l, z_bra := b, z_ket := k\<rparr>"
    and *: "wf_text p l" "room_text p l = free z" "z_lb z \<le> c" "c \<le> l" by (rule kept_upd)
  have "z_l z1 = l" using arg_cong [OF z', of z_l] by simp
  with ed(1) assms(8) have "l + ket = z_l z + n + bra" by (simp add: edited_def)
  from assms(10) [OF this *] have "Q 0 ?z" by (simp only: z')
  with run show ?thesis by (simp add: wpf_def insert_s_def cong: if_cong)
qed (use assms in auto)

text \<open>Deleting the slice at the end of the text leaves a prefix of it.\<close>

lemma slice_del_end_wp:
  assumes "wf_env z" "0 \<le> z_lb z" "z_lb z \<le> z_c z" "z_c z \<le> z_l z"
    "z_lb z \<le> z_bra z" "z_bra z \<le> z_ket z" "z_ket z = z_l z"
    and "\<And>z'. kept z z' \<Longrightarrow> z_l z' = z_bra z \<Longrightarrow> z_c z' = min (z_c z) (z_bra z)
      \<Longrightarrow> content z' = take (nat (z_bra z)) (content z) \<Longrightarrow> Q 0 z'"
  shows "wpf slice_del Q z"
  unfolding slice_del_def
proof (rule slice_from_s_fits)
  fix z' assume ed: "edited (z_bra z) (z_ket z) [] z z'" "z_faults z' = z_faults z" "free z' = free z"
  have "kept z z'" using edited_kept [OF ed(1)] ed(2,3) assms(1-7) by simp
  moreover have "nat (z_ket z) = length (content z)"
    using length_content [OF assms(1)] assms(7) by linarith
  ultimately show "Q 0 z'" using ed(1) assms(4,6,7)
    by (intro assms(8)) (auto simp: edited_def moved_c_def)
qed (use assms l_le_free [OF assms(1)] in auto)

subsection \<open>Tests inside the window\<close>

text \<open>The least size of the entries of a table that carry a result: 0 when there is none.\<close>

definition least :: "among list \<Rightarrow> int \<Rightarrow> int" where
  "least v r = (case map s_size (filter (\<lambda>w. result w = r) v) of [] \<Rightarrow> 0 | x # xs \<Rightarrow> fold min xs x)"

lemma fold_min_le: "fold min xs (x :: int) \<le> x" "y \<in> set xs \<Longrightarrow> fold min xs x \<le> y"
  by (induction xs arbitrary: x) (simp, simp, metis fold_simps(2) min.bounded_iff,
    metis fold_simps(2) min.bounded_iff set_ConsD)

lemma least_le:
  assumes "w \<in> set v"
  shows "least v (result w) \<le> s_size w"
proof -
  have "s_size w \<in> set (map s_size (filter (\<lambda>u. result u = result w) v))"
    using assms by auto
  then show ?thesis
    by (cases "map s_size (filter (\<lambda>u. result u = result w) v)") (auto simp: least_def fold_min_le)
qed

lemma table_sound:
  "table_check (\<lambda>w. rev (s_sym w)) v \<Longrightarrow> plain v \<Longrightarrow> table_b v"
  "table_check s_sym v \<Longrightarrow> plain v \<Longrightarrow> table_f v"
  by (simp_all add: table_b_def table_f_def table_check_sound)

definition has :: "among list \<Rightarrow> int \<Rightarrow> bool" where
  "has v r \<longleftrightarrow> r \<in> set (map result v)"

lemma has_result: "w \<in> set v \<Longrightarrow> has v (result w)"
  by (simp add: has_def)

lemma find_among_b_safe [win_intro]:
  assumes "table_b v" "n = int (length v)" "wf_env z" "0 \<le> z_lb z" "z_lb z \<le> z_c z" "z_c z \<le> z_l z"
    and "Q 0 z"
    and "\<And>r k. 0 \<le> k \<Longrightarrow> has v r \<Longrightarrow> least v r \<le> k \<Longrightarrow> z_lb z \<le> z_c z - k \<Longrightarrow> Q r (z\<lparr>z_c := z_c z - k\<rparr>)"
  shows "wpf (find_among_b v n) Q z"
  using assms(7,8) least_le has_result by (intro find_among_b_wp [OF assms(1-6)]) blast+

text \<open>A table whose entries have tests of their own: they look at the text and may move the cursor,
  and the search may leave it moved even when it finds nothing.\<close>

lemma find_among_b_tests:
  assumes tab: "table_ok (\<lambda>w. rev (s_sym w)) v" "n = int (length v)"
    and win: "wf_env z" "0 \<le> z_lb z" "z_lb z \<le> z_c z" "z_c z \<le> z_l z" "z_l z \<le> free z"
    and test: "\<And>w f z'. w \<in> set v \<Longrightarrow> among_fun w = Some f \<Longrightarrow> in_window z' \<Longrightarrow> wpf f (looked z') z'"
    and none: "\<And>c'. z_lb z \<le> c' \<Longrightarrow> c' \<le> z_c z \<Longrightarrow> Q 0 (z\<lparr>z_c := c'\<rparr>)"
    and hit: "\<And>r k. 0 \<le> k \<Longrightarrow> has v r \<Longrightarrow> least v r \<le> k \<Longrightarrow> z_lb z \<le> z_c z - k \<Longrightarrow> Q r (z\<lparr>z_c := z_c z - k\<rparr>)"
  shows "wpf (find_among_b v n) Q z"
proof -
  let ?pos = "\<lambda>w. z_c z - s_size w"
  have size: "0 \<le> s_size w \<and> z_lb z \<le> ?pos w" if "w \<in> set v" "suffix (s_sym w) (behind z)" for w
  proof -
    have "int (length (behind z)) = z_c z - z_lb z"
      using length_content [OF win(1)] win(2-4) unfolding behind_def length_drop length_take by linarith
    with that tab(1) suffix_length_le [OF that(2)] show ?thesis by (auto simp: table_ok_def list_all_iff)
  qed
  have spec: "\<exists>r z'. among_spec ?pos ws (z\<lparr>z_c := c'\<rparr>) = Some (r, z') \<and> Q r z'"
    if "set ws \<subseteq> {w \<in> set v. suffix (s_sym w) (behind z)}" "z_lb z \<le> c'" "c' \<le> z_c z" for ws c'
    using that
  proof (induction "length ws" arbitrary: ws c' rule: less_induct)
    case less
    show ?case
    proof (cases "longest ws")
      case None
      with less.prems none show ?thesis by (simp add: among_spec.simps)
    next
      case (Some w)
      then have w: "w \<in> set ws" by (auto dest: longest_Some)
      with less.prems(1) have wv: "w \<in> set v" "0 \<le> s_size w" "z_lb z \<le> ?pos w" using size by auto
      then have Qw: "Q (result w) (z\<lparr>z_c := ?pos w\<rparr>)" using has_result least_le by (intro hit) auto
      show ?thesis
      proof (cases "among_fun w")
        case None
        with Some Qw show ?thesis by (subst among_spec.simps) (simp add: Let_def)
      next
        case f: (Some f)
        have "wpf f (looked (z\<lparr>z_c := ?pos w\<rparr>)) (z\<lparr>z_c := ?pos w\<rparr>)"
          using win wv by (intro test [OF wv(1) f]) (simp add: in_window_def)
        then obtain r c2 where "f (z\<lparr>z_c := ?pos w\<rparr>) = Some (r, z\<lparr>z_c := c2\<rparr>)"
          by (auto simp: wpf_def looked_def)
        moreover have "\<exists>r z'. among_spec ?pos (filter (\<lambda>w'. s_size w' < s_size w) ws) (z\<lparr>z_c := ?pos w\<rparr>) = Some (r, z') \<and> Q r z'"
          using w wv less.prems by (intro less.hyps length_filter_less) auto
        ultimately show ?thesis using Some f Qw by (subst among_spec.simps) (simp add: Let_def)
      qed
    qed
  qed
  have "bwd_ready z" using win by (simp add: bwd_ready_def)
  with spec [of "filter (\<lambda>w. suffix (s_sym w) (behind z)) v" "z_c z"] win(3) tab show ?thesis
    by (auto simp: wpf_def find_among_b_spec)
qed

lemma find_among_safe [win_intro]:
  assumes "table_f v" "n = int (length v)" "wf_env z" "0 \<le> z_c z" "z_c z \<le> z_l z"
    and "Q 0 z"
    and "\<And>r k. 0 \<le> k \<Longrightarrow> has v r \<Longrightarrow> least v r \<le> k \<Longrightarrow> z_c z + k \<le> z_l z \<Longrightarrow> Q r (z\<lparr>z_c := z_c z + k\<rparr>)"
  shows "wpf (find_among v n) Q z"
  using assms(6,7) least_le has_result by (intro find_among_wp [OF assms(1-5)]) blast+

lemma eq_s_b_safe [win_intro]:
  assumes "wf_env z" "0 \<le> z_lb z" "z_lb z \<le> z_c z" "z_c z \<le> z_l z" "n = int (length str)"
    and "Q 0 z" and "z_lb z \<le> z_c z - n \<Longrightarrow> Q 1 (z\<lparr>z_c := z_c z - n\<rparr>)"
  shows "wpf (eq_s_b n str) Q z"
  using assms by (intro eq_s_b_wp) auto

lemma eq_s_safe [win_intro]:
  assumes "wf_env z" "0 \<le> z_c z" "z_c z \<le> z_l z" "n = int (length str)"
    and "Q 0 z" and "z_c z + n \<le> z_l z \<Longrightarrow> take (length str) (drop (nat (z_c z)) (content z)) = str
      \<Longrightarrow> Q 1 (z\<lparr>z_c := z_c z + n\<rparr>)"
  shows "wpf (eq_s n str) Q z"
  using assms by (intro eq_s_wp) (auto simp: ahead_def prefix_def)

lemma grouping_b_U_safe [win_intro]:
  assumes "wf_env z" "0 \<le> z_lb z" "z_lb z \<le> z_c z" "z_c z \<le> z_l z" "covers grp mn mx"
    and Q: "\<And>r c'. z_lb z \<le> c' \<Longrightarrow> c' \<le> z_c z \<Longrightarrow> - 1 \<le> r \<Longrightarrow> r \<le> c' - z_lb z \<Longrightarrow> Q r (z\<lparr>z_c := c'\<rparr>)"
  shows "wpf (in_grouping_b_U grp mn mx repeat) Q z" "wpf (out_grouping_b_U grp mn mx repeat) Q z"
  using assms by (intro grouping_b_U_wp; fastforce)+

lemma grouping_U_safe [win_intro]:
  assumes "wf_env z" "0 \<le> z_c z" "z_c z \<le> z_l z" "covers grp mn mx"
    and Q: "\<And>r c'. z_c z \<le> c' \<Longrightarrow> c' \<le> z_l z \<Longrightarrow> - 1 \<le> r \<Longrightarrow> r \<le> z_l z - c' \<Longrightarrow> Q r (z\<lparr>z_c := c'\<rparr>)"
  shows "wpf (in_grouping_U grp mn mx repeat) Q z" "wpf (out_grouping_U grp mn mx repeat) Q z"
  using assms by (intro grouping_U_wp; fastforce)+

lemmas safe_rules [win_intro] = wp_set_I wp_set_I_I wp_set_B wp_set_c_I wp_tail_guard wp_head_guard wpf_or_else wpf_or_else_head
  skip_utf8_bwd_wp [of "- 1"] skip_utf8_bwd_wp [of "- numeral w" for w]
  skip_utf8_fwd_wp [of 1] skip_utf8_fwd_wp [of "numeral w" for w]

subsection \<open>Attempts\<close>

lemma wp_try_b:
  assumes "in_window z" "z_c z = z_l z" "wpf f (stepped z) z"
    and ok: "\<And>z'. kept z z' \<Longrightarrow> z_l z' \<le> z_l z \<Longrightarrow> z_c z' = z_l z' \<Longrightarrow> Q Next z'"
  shows "wp (try_b n f) Q z"
  unfolding try_b_def wp_let wp_block_Cons wp_upto wp_calls
proof (rule wpf_mono [OF assms(3)])
  fix r z' assume "stepped z r z'"
  then have *: "0 \<le> r" "kept z z'" "z_l z' \<le> z_l z" by (simp_all add: stepped_def)
  then have "Q Next (z'\<lparr>z_c := z_l z'\<rparr>)" by (intro ok) (auto simp: kept_def)
  with * assms(2) show "routine_k (c_goto n) (block_k [] (upto_k n
      (block_k [set_c (\<lambda>za. z_l za - (z_l z - z_c z))] Q))) r z'" by simp
qed

subsection \<open>Loops\<close>

text \<open>
  A loop that only moves the cursor forward and sets the slice. The invariant of such a search:
  the environment is the one it started with but for these three positions.
\<close>

definition moved :: "SN_env \<Rightarrow> SN_env \<Rightarrow> bool" where
  "moved z z' \<longleftrightarrow> z_p z' = z_p z \<and> z_l z' = z_l z \<and> z_lb z' = z_lb z \<and> z_S z' = z_S z \<and> z_I z' = z_I z
     \<and> z_B z' = z_B z \<and> z_faults z' = z_faults z \<and> z_fresh z' = z_fresh z"

lemma moved_refl [simp]: "moved z z"
  by (simp add: moved_def)

lemma moved_iff:
  "moved z z' \<longleftrightarrow> z_p z' = z_p z \<and> z_l z' = z_l z \<and> z_lb z' = z_lb z \<and> z_S z' = z_S z \<and> z_I z' = z_I z
     \<and> z_B z' = z_B z \<and> z_faults z' = z_faults z \<and> z_fresh z' = z_fresh z
     \<and> wf_env z' = wf_env z \<and> content z' = content z \<and> free z' = free z"
  by (auto simp: moved_def wf_env_def content_def free_def split: option.splits)

text \<open>The same for statements that look forward.\<close>

definition fwd_k :: "nat \<Rightarrow> SN_env \<Rightarrow> (c_ctl \<Rightarrow> SN_env \<Rightarrow> bool) \<Rightarrow> c_ctl \<Rightarrow> SN_env \<Rightarrow> bool" where
  "fwd_k n z Q k z' \<longleftrightarrow> (if k = Next \<or> k = Goto n
     then moved z z' \<and> z_c z \<le> z_c z' \<and> z_c z' \<le> z_l z else Q k z')"

lemma fwd_k_simps [simp]:
  "fwd_k n z Q Next z' \<longleftrightarrow> moved z z' \<and> z_c z \<le> z_c z' \<and> z_c z' \<le> z_l z"
  "fwd_k n z Q (Goto m) z' \<longleftrightarrow> (if m = n then moved z z' \<and> z_c z \<le> z_c z' \<and> z_c z' \<le> z_l z else Q (Goto m) z')"
  "fwd_k n z Q (Return r) z' \<longleftrightarrow> Q (Return r) z'" "fwd_k n z Q Break z' \<longleftrightarrow> Q Break z'"
  "fwd_k n z Q Continue z' \<longleftrightarrow> Q Continue z'"
  by (simp_all add: fwd_k_def)

lemma wp_upto_fwd:
  assumes "wp (c_block as) (fwd_k n z Q) z"
    and "\<And>c b k. z_c z \<le> c \<Longrightarrow> c \<le> z_l z \<Longrightarrow> Q Next (z\<lparr>z_c := c, z_bra := b, z_ket := k\<rparr>)"
  shows "wp (c_upto n as) Q z"
  unfolding wp_upto using assms(1)
proof (rule wp_mono)
  fix k z' assume *: "fwd_k n z Q k z'"
  show "upto_k n Q k z'"
  proof (cases "k = Next \<or> k = Goto n")
    case True
    with * have m: "moved z z'" "z_c z \<le> z_c z'" "z_c z' \<le> z_l z" by (auto simp: fwd_k_def)
    then have "z' = z\<lparr>z_c := z_c z', z_bra := z_bra z', z_ket := z_ket z'\<rparr>"
      by (cases z, cases z') (simp add: moved_def)
    then have "Q Next z'" using assms(2) [OF m(2,3)] by metis
    with True show ?thesis by (auto simp: upto_k_def)
  next
    case False
    with * show ?thesis by (auto simp: fwd_k_def upto_k_def)
  qed
qed

lemmas wp_upto_step = wp_upto_by [where d = 0]
lemmas wp_upto_plain = wp_upto [THEN iffD2]

text \<open>The labels of the first part of \<^verbatim>\<open>r_mark_regions\<close> in the Romance languages.\<close>

lemmas region_labels = wp_upto_plain [where n = 0] wp_upto_fwd [where n = "Suc 0"] wp_upto_fwd [where n = 2]
  wp_upto_fwd [where n = 3] wp_upto_fwd [where n = 4] wp_upto_fwd [where n = 5] wp_upto_fwd [where n = 6]

lemma wp_search:
  assumes "z_c z \<le> z_l z"
    and body: "\<And>z1. moved z z1 \<Longrightarrow> z_c z \<le> z_c z1 \<Longrightarrow> z_c z1 \<le> z_l z \<Longrightarrow>
      wp a (loop_k (\<lambda>z'. moved z z' \<and> z_c z1 < z_c z' \<and> z_c z' \<le> z_l z) Q) z1"
  shows "wp (c_while1 a) Q z"
proof (rule wp_while1 [where f = "\<lambda>z'. nat (z_l z - z_c z')"
      and P = "\<lambda>z'. moved z z' \<and> z_c z \<le> z_c z' \<and> z_c z' \<le> z_l z"])
  fix z1 assume z1: "moved z z1 \<and> z_c z \<le> z_c z1 \<and> z_c z1 \<le> z_l z"
  then have "wp a (loop_k (\<lambda>z'. moved z z' \<and> z_c z1 < z_c z' \<and> z_c z' \<le> z_l z) Q) z1"
    by (intro body) auto
  then show "wp a (loop_k (\<lambda>z'. (moved z z' \<and> z_c z \<le> z_c z' \<and> z_c z' \<le> z_l z)
      \<and> nat (z_l z - z_c z') < nat (z_l z - z_c z1)) Q) z1"
    by (rule wp_mono, elim loop_k_mono) (use z1 in auto)
qed (use assms(1) in simp)

text \<open>Overwriting one byte by another leaves one occurrence less of the old one.\<close>

lemma count_overwrite:
  assumes "nat b < length xs" "xs ! nat b = x" "x \<noteq> y"
  shows "count_list (take (nat b) xs @ y # drop (nat b + 1) xs) x < count_list xs x"
proof -
  have "count_list xs x = count_list (take (nat b) xs @ x # drop (Suc (nat b)) xs) x"
    using assms(1,2) by (metis id_take_nth_drop)
  with assms(3) show ?thesis by simp
qed

lemma slice_overwrite_wp:
  assumes "wf_env z" "0 \<le> z_lb z" "z_lb z \<le> z_c z" "z_c z \<le> z_l z" "z_lb z \<le> z_bra z"
    "z_ket z = z_bra z + 1" "z_ket z \<le> z_l z" "take 1 (drop (nat (z_bra z)) (content z)) = [x]" "x \<noteq> y"
    and "\<And>z'. kept z z' \<Longrightarrow> z_l z' = z_l z \<Longrightarrow> z_c z' = z_c z
      \<Longrightarrow> count_list (content z') x < count_list (content z) x \<Longrightarrow> Q 0 z'"
  shows "wpf (slice_from_s 1 [y]) Q z"
proof (rule slice_from_s_fits)
  fix z' assume ed: "edited (z_bra z) (z_ket z) [y] z z'" and eq: "z_faults z' = z_faults z" "free z' = free z"
  have b: "nat (z_bra z) < length (content z)" "nat (z_ket z) = nat (z_bra z) + 1"
    using length_content [OF assms(1)] assms(2,5,6,7) by linarith+
  with assms(8) have "content z ! nat (z_bra z) = x"
    by (simp add: take_Suc_conv_app_nth hd_drop_conv_nth take_Suc)
  from count_overwrite [OF b(1) this assms(9)] ed b(2)
  have "count_list (content z') x < count_list (content z) x" by (simp add: edited_def)
  moreover have "kept z z'"
    using edited_kept [OF ed] eq assms(1-7) by simp
  ultimately show "Q 0 z'" using ed assms(6,10) by (simp add: edited_def moved_c_def)
qed (use assms l_le_free [OF assms(1)] in auto)

text \<open>As \<^const>\<open>kept\<close>, for code that sets Boolean variables too.\<close>

definition kept_B :: "SN_env \<Rightarrow> SN_env \<Rightarrow> bool" where
  "kept_B z z' \<longleftrightarrow> kept (z\<lparr>z_B := z_B z'\<rparr>) z' \<and> length (z_B z') = length (z_B z)"

text \<open>
  A statement that looks for a byte \<open>x\<close> from the cursor on, leaves the slice around it, or jumps to
  the label \<open>n\<close> when there is none; and the loop that overwrites every byte it finds.
\<close>

definition sought :: "SN_env \<Rightarrow> nat \<Rightarrow> symbol \<Rightarrow> c_ctl \<Rightarrow> SN_env \<Rightarrow> bool" where
  "sought z n x k z' \<longleftrightarrow> moved z z' \<and> z_c z \<le> z_c z' \<and> z_c z' \<le> z_l z \<and> (k = Goto n \<or> k = Next
     \<and> z_c z' \<le> z_bra z' \<and> z_ket z' = z_bra z' + 1 \<and> z_ket z' \<le> z_l z
     \<and> take 1 (drop (nat (z_bra z')) (content z)) = [x])"

definition seeks :: "sn_cmd \<Rightarrow> nat \<Rightarrow> symbol \<Rightarrow> bool" where
  "seeks a n x \<longleftrightarrow> (\<forall>z. wf_env z \<longrightarrow> 0 \<le> z_c z \<longrightarrow> z_c z \<le> z_l z \<longrightarrow> wp a (sought z n x) z)"

lemma seeks_wp:
  assumes "seeks a n x" "wf_env z" "0 \<le> z_c z" "z_c z \<le> z_l z"
    and "\<And>z'. moved z z' \<Longrightarrow> z_c z \<le> z_c z' \<Longrightarrow> z_c z' \<le> z_bra z' \<Longrightarrow> z_ket z' = z_bra z' + 1 \<Longrightarrow> z_ket z' \<le> z_l z
      \<Longrightarrow> take 1 (drop (nat (z_bra z')) (content z)) = [x] \<Longrightarrow> Q Next z'"
    and "\<And>z'. moved z z' \<Longrightarrow> z_c z \<le> z_c z' \<Longrightarrow> z_c z' \<le> z_l z \<Longrightarrow> Q (Goto n) z'"
  shows "wp a Q z"
proof (rule wp_mono)
  show "wp a (sought z n x) z" using assms(1-4) by (simp add: seeks_def)
qed (auto simp: sought_def assms(5,6))

lemma overwrite_loop_wp:
  assumes "seeks a n x" "x \<noteq> y" "in_window z"
    and "\<And>z'. kept z z' \<Longrightarrow> z_l z' = z_l z \<Longrightarrow> Q Next z'"
  shows "wp (c_while1 (c_block [c_let z_c (\<lambda>c. c_block [
      c_upto n [a, check (slice_from_s 1 [y]), c_continue], set_c (\<lambda>_. c), c_break])])) Q z"
proof (rule wp_while1 [where f = "\<lambda>z. count_list (content z) x" and P = "\<lambda>z'. kept z z' \<and> z_l z' = z_l z"])
  show "kept z z \<and> z_l z = z_l z" using assms(3) by (simp add: step_defs)
qed (use assms(2-) in \<open>auto intro!: seeks_wp [OF assms(1)] slice_overwrite_wp [where x = x]
      simp: step_defs moved_iff\<close>)

text \<open>The same loop, remembering in a Boolean variable that there was such a byte.\<close>

lemma overwrite_loop_B_wp:
  assumes "seeks a n x" "x \<noteq> y" "in_window z" "0 \<le> i" "i < int (length (z_B z))"
    and "\<And>z'. kept_B z z' \<Longrightarrow> z_l z' = z_l z \<Longrightarrow> Q Next z'"
  shows "wp (c_while1 (c_block [c_let z_c (\<lambda>c. c_block [
      c_upto n [a, check (slice_from_s 1 [y]), set_B i 1, c_continue], set_c (\<lambda>_. c), c_break])])) Q z"
proof (rule wp_while1 [where f = "\<lambda>z. count_list (content z) x" and P = "\<lambda>z'. kept_B z z' \<and> z_l z' = z_l z"])
  show "kept_B z z \<and> z_l z = z_l z" using assms(3) by (simp add: step_defs kept_B_def)
qed (use assms(2-) in \<open>auto intro!: seeks_wp [OF assms(1)] slice_overwrite_wp [where x = x] wp_set_B
      simp: step_defs kept_B_def moved_iff\<close>)

text \<open>
  A loop each of whose rounds brings the cursor nearer to the limit.
\<close>

lemma wp_repeat:
  assumes "in_window z"
    and body: "\<And>z1. kept z z1 \<Longrightarrow> z_l z1 \<le> z_l z \<Longrightarrow>
      wp a (loop_k (\<lambda>z'. kept z z' \<and> z_l z' \<le> z_l z \<and> z_l z' - z_c z' < z_l z1 - z_c z1) Q) z1"
  shows "wp (c_while1 a) Q z"
proof (rule wp_while1 [where f = "\<lambda>z'. nat (z_l z' - z_c z')" and P = "\<lambda>z'. kept z z' \<and> z_l z' \<le> z_l z"])
  fix z1 assume z1: "kept z z1 \<and> z_l z1 \<le> z_l z"
  then have "wp a (loop_k (\<lambda>z'. kept z z' \<and> z_l z' \<le> z_l z \<and> z_l z' - z_c z' < z_l z1 - z_c z1) Q) z1"
    by (intro body) auto
  then show "wp a (loop_k (\<lambda>z'. (kept z z' \<and> z_l z' \<le> z_l z)
      \<and> nat (z_l z' - z_c z') < nat (z_l z1 - z_c z1)) Q) z1"
    by (rule wp_mono, elim loop_k_mono) (auto simp: kept_def)
qed (use assms(1) in \<open>simp add: step_defs\<close>)

text \<open>The edit of such a round: the cursor stands behind the slice and moves with the text.\<close>

lemma slice_from_s_fwd:
  assumes "wf_env z" "0 \<le> z_lb z" "z_lb z \<le> z_c z" "z_c z \<le> z_l z"
    "z_lb z \<le> z_bra z" "z_bra z \<le> z_ket z" "z_ket z \<le> z_c z" "n = int (length str)" "n \<le> z_ket z - z_bra z"
    and "\<And>z'. kept z z' \<Longrightarrow> z_l z' = z_l z + (n - (z_ket z - z_bra z)) \<Longrightarrow>
      z_c z' = z_c z + (n - (z_ket z - z_bra z)) \<Longrightarrow> z_bra z' = z_bra z \<Longrightarrow> z_ket z' = z_ket z \<Longrightarrow> Q 0 z'"
  shows "wpf (slice_from_s n str) Q z"
proof (rule slice_from_s_fits)
  fix z' assume ed: "edited (z_bra z) (z_ket z) str z z'" "z_bra z' = z_bra z" "z_ket z' = z_ket z"
    and eq: "z_faults z' = z_faults z" "free z' = free z"
  have "kept z z'" using edited_kept [OF ed(1)] eq assms(1-7) by simp
  with ed assms(7-9) show "Q 0 z'" by (intro assms(10)) (auto simp: edited_def moved_c_def)
qed (use assms l_le_free [OF assms(1)] in auto)

text \<open>
  Loops that rewrite one byte per round and restore the cursor: \<open>weight P xs\<close> is the number of
  bytes still to be rewritten.
\<close>

definition weight :: "(symbol \<Rightarrow> bool) \<Rightarrow> symbol list \<Rightarrow> nat" where
  "weight P xs = length (filter P xs)"

lemma weight_overwrite:
  assumes "b < length xs" "P (xs ! b)" "\<not> P y"
  shows "weight P (take b xs @ y # drop (Suc b) xs) < weight P xs"
proof -
  have "weight P xs = weight P (take b xs @ xs ! b # drop (Suc b) xs)"
    using assms(1) by (metis id_take_nth_drop)
  with assms(2,3) show ?thesis by (simp add: weight_def)
qed

lemma slice_rewrite_wp:
  assumes "wf_env z" "0 \<le> z_lb z" "z_lb z \<le> z_c z" "z_c z \<le> z_l z" "z_lb z \<le> z_bra z"
    "z_ket z = z_bra z + 1" "z_ket z \<le> z_l z" "filter P (take (Suc 0) (drop (nat (z_bra z)) (content z))) \<noteq> []"
    "length str = 1" "filter P str = []"
    and "\<And>z'. kept z z' \<Longrightarrow> z_l z' = z_l z \<Longrightarrow> z_c z' = z_c z
      \<Longrightarrow> weight P (content z') < weight P (content z) \<Longrightarrow> Q 0 z'"
  shows "wpf (slice_from_s 1 str) Q z"
proof (rule slice_from_s_fits)
  fix z' assume ed: "edited (z_bra z) (z_ket z) str z z'" and eq: "z_faults z' = z_faults z" "free z' = free z"
  obtain y where y: "str = [y]" "\<not> P y"
    using assms(9,10) by (cases str) (auto split: if_splits)
  have b: "nat (z_bra z) < length (content z)" "nat (z_ket z) = Suc (nat (z_bra z))"
    using length_content [OF assms(1)] assms(2,5,6,7) by linarith+
  with assms(8) have "P (content z ! nat (z_bra z))"
    by (auto simp: take_Suc_conv_app_nth hd_drop_conv_nth take_Suc split: if_splits)
  from weight_overwrite [OF b(1) this y(2)] ed b(2)
  have "weight P (content z') < weight P (content z)" by (simp add: edited_def y(1))
  moreover have "kept z z'"
    using edited_kept [OF ed] eq assms(1-7) by simp
  ultimately show "Q 0 z'" using ed assms(6,11) by (simp add: edited_def moved_c_def y(1))
qed (use assms l_le_free [OF assms(1)] in auto)

definition rewrote :: "SN_env \<Rightarrow> nat \<Rightarrow> (symbol \<Rightarrow> bool) \<Rightarrow> c_ctl \<Rightarrow> SN_env \<Rightarrow> bool" where
  "rewrote z n P k z' \<longleftrightarrow> kept z z' \<and> z_l z' = z_l z
     \<and> (k = Goto n \<or> k = Next \<and> weight P (content z') < weight P (content z))"

definition rewriting :: "sn_cmd \<Rightarrow> nat \<Rightarrow> (symbol \<Rightarrow> bool) \<Rightarrow> bool" where
  "rewriting a n P \<longleftrightarrow> (\<forall>z. in_window z \<longrightarrow> wp a (rewrote z n P) z)"

lemma rewriting_wp:
  assumes "rewriting a n P" "in_window z"
    and "\<And>z'. kept z z' \<Longrightarrow> z_l z' = z_l z \<Longrightarrow> weight P (content z') < weight P (content z) \<Longrightarrow> Q Next z'"
    and "\<And>z'. kept z z' \<Longrightarrow> z_l z' = z_l z \<Longrightarrow> Q (Goto n) z'"
  shows "wp a Q z"
proof (rule wp_mono)
  show "wp a (rewrote z n P) z" using assms(1,2) by (simp add: rewriting_def)
qed (auto simp: rewrote_def assms(3,4))

lemma rewrite_loop_wp:
  assumes "rewriting a n P" "in_window z"
    and "\<And>z'. kept z z' \<Longrightarrow> z_l z' = z_l z \<Longrightarrow> Q Next z'"
  shows "wp (c_while1 (c_block [c_let z_c (\<lambda>c. c_block [
      c_upto n [a, c_continue], set_c (\<lambda>_. c), c_break])])) Q z"
proof (rule wp_while1 [where f = "\<lambda>z. weight P (content z)" and P = "\<lambda>z'. kept z z' \<and> z_l z' = z_l z"])
  show "kept z z \<and> z_l z = z_l z" using assms(2) by (simp add: step_defs)
qed (use assms(2-) in \<open>auto intro!: rewriting_wp [OF assms(1)] simp: step_defs\<close>)

subsection \<open>The stages of a stemmer\<close>

text \<open>
  Between its stages a stemmer keeps the text in a well-formed buffer, from position 0, not longer
  than it was, and the number of its variables.
\<close>

definition strs_ok :: "sbuf option list \<Rightarrow> bool" where
  "strs_ok xs \<longleftrightarrow> list_all (\<lambda>x. case x of None \<Rightarrow> False | Some b \<Rightarrow> wf_buf b) xs"

lemma strs_ok_Nil [simp]: "strs_ok []"
  by (simp add: strs_ok_def)

definition fits :: "SN_env \<Rightarrow> SN_env \<Rightarrow> bool" where
  "fits z z' \<longleftrightarrow> in_window z' \<and> z_lb z' = 0 \<and> z_l z' \<le> z_l z
     \<and> strs_ok (z_S z') \<and> length (z_S z') = length (z_S z)
     \<and> length (z_I z') = length (z_I z) \<and> length (z_B z') = length (z_B z)
     \<and> free z \<le> free z' \<and> failing (z_faults z') \<le> failing (z_faults z)"

definition fitted :: "SN_env \<Rightarrow> int \<Rightarrow> SN_env \<Rightarrow> bool" where
  "fitted z r z' \<longleftrightarrow> 0 \<le> r \<and> fits z z'"

text \<open>The same for a stemmer that may need memory for its string variables.\<close>

definition stemmed :: "SN_env \<Rightarrow> int \<Rightarrow> SN_env \<Rightarrow> bool" where
  "stemmed z r z' \<longleftrightarrow> (if r < 0 then oom z else fits z z')"

lemma fitted_stemmed: "fitted z r z' \<Longrightarrow> stemmed z r z'"
  by (simp add: fitted_def stemmed_def)

text \<open>
  A block is cut into stages: the first \<open>n\<close> statements end with \<open>J\<close> in front of the others, or leave
  the block.
\<close>

definition cut_k :: "(SN_env \<Rightarrow> bool) \<Rightarrow> (c_ctl \<Rightarrow> SN_env \<Rightarrow> bool) \<Rightarrow> c_ctl \<Rightarrow> SN_env \<Rightarrow> bool" where
  "cut_k J Q k z \<longleftrightarrow> (if k = Next then J z else Q k z)"

lemma cut_k_simps [simp]:
  "cut_k J Q Next z \<longleftrightarrow> J z" "cut_k J Q (Return r) z \<longleftrightarrow> Q (Return r) z"
  "cut_k J Q (Goto n) z \<longleftrightarrow> Q (Goto n) z" "cut_k J Q Break z \<longleftrightarrow> Q Break z"
  "cut_k J Q Continue z \<longleftrightarrow> Q Continue z"
  by (simp_all add: cut_k_def)

lemma wp_block_append: "wp (c_block (as @ bs)) Q z \<longleftrightarrow> wp (c_block as) (block_k bs Q) z"
proof (induction as arbitrary: z)
  case (Cons a as)
  have "block_k (as @ bs) Q k z' = block_k as (block_k bs Q) k z'" for k z'
    using Cons.IH by (simp add: block_k_def)
  then show ?case unfolding append_Cons wp_block_Cons by (simp add: wp_def)
qed (simp only: append_Nil wp_block_Nil block_k_def, simp)

lemma wp_cut:
  assumes "take n as = as1" "drop n as = as2" "wp (c_block as1) (cut_k J Q) z"
    and "\<And>z'. J z' \<Longrightarrow> wp (c_block as2) Q z'"
  shows "wp (c_block as) Q z"
proof -
  have "wp (c_block as1) (block_k as2 Q) z"
    using assms(3) by (rule wp_mono) (simp add: cut_k_def block_k_def assms(4) split: if_splits)
  moreover have "as = as1 @ as2" using assms(1,2) append_take_drop_id by metis
  ultimately show ?thesis by (simp only: wp_block_append)
qed

text \<open>The next stage, from what the last one has left.\<close>

lemma wp_stage:
  assumes "J z" "take n as = as1" "drop n as = as2" "\<And>z'. J z' \<Longrightarrow> wp (c_block as1) (cut_k J' Q) z'"
    and "\<And>z'. J' z' \<Longrightarrow> wp (c_block as2) Q z'"
  shows "wp (c_block as) Q z"
  using assms(4) [OF assms(1)] assms(5) by (rule wp_cut [OF assms(2,3)])

text \<open>
  The invariant of a run of backward attempts: the cursor is at the end before each of them, and
  the marks satisfy \<open>P\<close>.
\<close>

definition at_end :: "(int list \<Rightarrow> bool) \<Rightarrow> SN_env \<Rightarrow> SN_env \<Rightarrow> bool" where
  "at_end P orig z \<longleftrightarrow> fits orig z \<and> z_c z = z_l z \<and> P (z_I z)"

abbreviation any_marks :: "int list \<Rightarrow> bool" where
  "any_marks \<equiv> \<lambda>_. True"

lemma wp_try_at_end:
  assumes "at_end P orig z"
    and step: "in_window z \<Longrightarrow> z_c z = z_l z \<Longrightarrow> z_lb z = 0 \<Longrightarrow> P (z_I z) \<Longrightarrow>
      length (z_I z) = length (z_I orig) \<Longrightarrow> length (z_B z) = length (z_B orig) \<Longrightarrow> wpf f (stepped z) z"
    and "\<And>z'. at_end P orig z' \<Longrightarrow> Q Next z'"
  shows "wp (try_b n f) Q z"
proof (rule wp_try_b)
  show "wpf f (stepped z) z" using assms(1) by (intro step) (simp_all add: at_end_def fits_def)
qed (use assms in \<open>auto simp: at_end_def fits_def step_defs\<close>)

text \<open>As \<^const>\<open>stepped\<close>, for a routine that sets Boolean variables too, and an attempt at one.\<close>

definition stepped_B :: "SN_env \<Rightarrow> int \<Rightarrow> SN_env \<Rightarrow> bool" where
  "stepped_B z r z' \<longleftrightarrow> 0 \<le> r \<and> kept_B z z' \<and> z_l z' \<le> z_l z"

lemma stepped_B_wp:
  assumes "wpf f (stepped_B z) z"
    and "\<And>r p c l b k B. 0 \<le> r \<Longrightarrow> wf_text p l \<Longrightarrow> room_text p l = free z \<Longrightarrow>
      z_lb z \<le> c \<Longrightarrow> c \<le> l \<Longrightarrow> l \<le> z_l z \<Longrightarrow> length B = length (z_B z) \<Longrightarrow>
      Q r (z\<lparr>z_B := B, z_p := p, z_c := c, z_l := l, z_bra := b, z_ket := k\<rparr>)"
  shows "wpf f Q z"
  using assms(1)
proof (rule wpf_mono)
  fix r z' assume *: "stepped_B z r z'"
  then have "kept (z\<lparr>z_B := z_B z'\<rparr>) z'" by (simp add: stepped_B_def kept_B_def)
  then obtain p c l b k where z': "z' = z\<lparr>z_B := z_B z', z_p := p, z_c := c, z_l := l, z_bra := b, z_ket := k\<rparr>"
    and p: "wf_text p l" "room_text p l = free z" "z_lb z \<le> c" "c \<le> l" by (rule kept_upd) simp_all
  have "z_l z' = l" by (subst z') simp
  with * have "Q r (z\<lparr>z_B := z_B z', z_p := p, z_c := c, z_l := l, z_bra := b, z_ket := k\<rparr>)"
    by (intro assms(2) p) (auto simp: stepped_B_def kept_B_def)
  with z' show "Q r z'" by metis
qed

lemma wp_try_end:
  assumes "z_c z = z_l z" "wpf f (\<lambda>r z'. 0 \<le> r \<and> Q Next (z'\<lparr>z_c := z_l z'\<rparr>)) z"
  shows "wp (try_b n f) Q z"
  unfolding try_b_def wp_let wp_block_Cons wp_upto wp_calls
  using assms(2) by (rule wpf_mono) (use assms(1) in auto)

subsection \<open>Marking regions\<close>

text \<open>\<open>z'\<close> differs from \<open>z\<close> in the integer variables and the slice only.\<close>

definition marked :: "SN_env \<Rightarrow> SN_env \<Rightarrow> bool" where
  "marked z z' \<longleftrightarrow> moved (z\<lparr>z_I := z_I z'\<rparr>) z' \<and> z_c z' = z_c z \<and> length (z_I z') = length (z_I z)"

lemma marked_iff:
  "marked z z' \<longleftrightarrow> z_p z' = z_p z \<and> z_l z' = z_l z \<and> z_lb z' = z_lb z \<and> z_S z' = z_S z
     \<and> z_B z' = z_B z \<and> z_faults z' = z_faults z \<and> z_fresh z' = z_fresh z
     \<and> wf_env z' = wf_env z \<and> content z' = content z \<and> free z' = free z
     \<and> z_c z' = z_c z \<and> length (z_I z') = length (z_I z)"
  by (auto simp: marked_def moved_iff)

text \<open>The continuation of an attempt that restores the cursor.\<close>

lemma wp_try_f [simp]:
  "wp (try_f n f) Q z \<longleftrightarrow> wpf f (\<lambda>r z'. if r < 0 then Q (Return r) z' else Q Next (z'\<lparr>z_c := z_c z\<rparr>)) z"
  unfolding try_f_def by (auto simp: wpf_def)

lemma wp_try_trim:
  assumes "in_window z" "z_c z = z_l z" "wpf f (trimmed z) z"
    and ok: "\<And>z'. kept z z' \<Longrightarrow> z_l z' \<le> z_l z \<Longrightarrow> z_c z' = z_l z' \<Longrightarrow>
      content z' = take (nat (z_l z')) (content z) \<Longrightarrow> Q Next z'"
  shows "wp (try_b n f) Q z"
  unfolding try_b_def wp_let wp_block_Cons wp_upto wp_calls
proof (rule trimmed_wp [OF assms(3)])
  fix r :: int and z'
  assume *: "0 \<le> r" "kept z z'" "z_l z' \<le> z_l z" "content z' = take (nat (z_l z')) (content z)"
  then have "Q Next (z'\<lparr>z_c := z_l z'\<rparr>)" by (intro ok) (auto simp: kept_def)
  with * assms(2) show "routine_k (c_goto n) (block_k [] (upto_k n
      (block_k [set_c (\<lambda>za. z_l za - (z_l z - z_c z))] Q))) r z'" by simp
qed

subsection \<open>Routines with string variables\<close>

text \<open>As \<^const>\<open>stepped\<close>, for a routine that overwrites string variables.\<close>

definition stepped_S :: "SN_env \<Rightarrow> int \<Rightarrow> SN_env \<Rightarrow> bool" where
  "stepped_S z r z' \<longleftrightarrow> (if r < 0 then oom z else kept (z\<lparr>z_S := z_S z', z_faults := z_faults z'\<rparr>) z' \<and> z_l z' \<le> z_l z
     \<and> failing (z_faults z') \<le> failing (z_faults z)
     \<and> strs_ok (z_S z') \<and> length (z_S z') = length (z_S z))"

lemma strs_okD: "strs_ok xs \<Longrightarrow> i < length xs \<Longrightarrow> \<exists>b. xs ! i = Some b \<and> wf_buf b"
  by (auto simp: strs_ok_def list_all_length split: option.splits)

lemma strs_ok_update [simp]: "strs_ok xs \<Longrightarrow> wf_buf b \<Longrightarrow> strs_ok (xs[i := Some b])"
  by (auto simp: strs_ok_def list_all_iff dest!: set_update_subset_insert [THEN subsetD])

lemma set_S_slice_to_safe:
  assumes "wf_env z" "0 \<le> z_bra z" "z_bra z \<le> z_ket z" "z_ket z \<le> z_l z" "0 \<le> i" "i < int (length (z_S z))"
    "strs_ok (z_S z)"
    and "\<And>q fs. wf_buf q \<Longrightarrow> failing fs \<le> failing (z_faults z) \<Longrightarrow>
      Q Next (z\<lparr>z_faults := fs, z_S := (z_S z)[nat i := Some q]\<rparr>)"
    and "\<And>fs. oom z \<Longrightarrow> Q Next (z\<lparr>z_faults := fs, z_S := (z_S z)[nat i := None]\<rparr>)"
  shows "wp (set_S_slice_to i) Q z"
proof -
  obtain b where "z_S z ! nat i = Some b" "wf_buf b" using strs_okD [OF assms(7), of "nat i"] assms(5,6) by (auto simp: nat_less_iff)
  then show ?thesis using assms(8,9) by (intro set_S_slice_to_wp [OF assms(1-6)]) (auto simp: oom_def)
qed

lemma eq_v_b_S_safe:
  assumes "wf_env z" "0 \<le> z_lb z" "z_lb z \<le> z_c z" "z_c z \<le> z_l z" "0 \<le> i" "i < int (length (z_S z))"
    "strs_ok (z_S z)"
    and "Q 0 z" and "\<And>k. 0 \<le> k \<Longrightarrow> z_lb z \<le> z_c z - k \<Longrightarrow> Q 1 (z\<lparr>z_c := z_c z - k\<rparr>)"
  shows "wpf (eq_v_b_S i) Q z"
proof -
  obtain b where b: "z_S z ! nat i = Some b" "wf_buf b" using strs_okD [OF assms(7), of "nat i"] assms(5,6) by (auto simp: nat_less_iff)
  then have "0 \<le> SIZE b" by (simp add: wf_buf_def)
  with b assms(8,9) show ?thesis by (intro eq_v_b_S_wp [OF assms(1-6)]) auto
qed

lemma wp_try_at_end_S:
  assumes "at_end P orig z"
    and step: "in_window z \<Longrightarrow> z_c z = z_l z \<Longrightarrow> z_lb z = 0 \<Longrightarrow> P (z_I z) \<Longrightarrow> strs_ok (z_S z) \<Longrightarrow>
      length (z_S z) = length (z_S orig) \<Longrightarrow> length (z_I z) = length (z_I orig) \<Longrightarrow> wpf f (stepped_S z) z"
    and ok: "\<And>z'. at_end P orig z' \<Longrightarrow> Q Next z'"
    and err: "\<And>r z'. r < 0 \<Longrightarrow> oom orig \<Longrightarrow> Q (Return r) z'"
  shows "wp (try_b n f) Q z"
  unfolding try_b_def wp_let wp_block_Cons wp_upto wp_calls
proof (rule wpf_mono)
  show "wpf f (stepped_S z) z" using assms(1) by (intro step) (simp_all add: at_end_def fits_def)
next
  fix r z' assume st: "stepped_S z r z'"
  show "routine_k (c_goto n) (block_k [] (upto_k n
      (block_k [set_c (\<lambda>za. z_l za - (z_l z - z_c z))] Q))) r z'"
  proof (cases "r < 0")
    case True
    with st assms(1) have "oom orig" by (simp add: stepped_S_def oom_def at_end_def fits_def)
    with True show ?thesis by (simp add: err)
  next
    case False
    with st assms(1) have "at_end P orig (z'\<lparr>z_c := z_l z'\<rparr>)"
      by (auto simp: stepped_S_def at_end_def fits_def step_defs)
    then have "Q Next (z'\<lparr>z_c := z_l z'\<rparr>)" by (rule ok)
    with False assms(1) show ?thesis by (simp add: at_end_def)
  qed
qed

end
