(* ===== verification/Api.thy ===== *)
theory Api
  imports Stem_Rules
begin

text \<open>
  The environment's life (\<^verbatim>\<open>runtime/api.c\<close>): creation, disposal and the start of a run on a new
  word. Creation and disposal go through every place where memory may be missing.
\<close>

subsection \<open>Disposal\<close>

text \<open>
  \<^verbatim>\<open>SN_close_env\<close> leaves nothing behind; what can go wrong is the read of a string variable that
  was never allocated. The loop over them:
\<close>

fun lose_strings :: "nat \<Rightarrow> nat \<Rightarrow> SN_env \<Rightarrow> unit option" where
  "lose_strings i 0 z = Some ()"
| "lose_strings i (Suc n) z = do { _ \<leftarrow> arr_get (z_S z) (int i); lose_strings (Suc i) n z }"

definition SN_close_env :: "SN_env option \<Rightarrow> int \<Rightarrow> unit option" where
  "SN_close_env z S_size = (case z of None \<Rightarrow> Some ()
     | Some z \<Rightarrow> if S_size \<noteq> 0 then lose_strings 0 (nat S_size) z else Some ())"

subsection \<open>Creation\<close>

text \<open>
  The structure as \<^verbatim>\<open>calloc\<close> leaves it; its arrays are null until they are allocated, and a null
  array has no elements. The allocator's future (\<open>fs\<close>, \<open>fresh\<close>) comes with it.
\<close>

definition zeroed :: "bool list \<Rightarrow> (nat \<Rightarrow> symbol) \<Rightarrow> SN_env" where
  "zeroed fs fresh = \<lparr>z_p = None, z_c = 0, z_l = 0, z_lb = 0, z_bra = 0, z_ket = 0,
     z_S = [], z_I = [], z_B = [], z_faults = fs, z_fresh = fresh\<rparr>"

fun create_strings :: "nat \<Rightarrow> nat \<Rightarrow> SN_env \<Rightarrow> bool \<times> SN_env" where
  "create_strings i 0 z = (True, z)"
| "create_strings i (Suc n) z =
     (let (s, z) = create_s z; z = z\<lparr>z_S := (z_S z)[i := s]\<rparr>
      in if s = None then (False, z) else create_strings (Suc i) n z)"

definition alloc_S :: "int \<Rightarrow> SN_env \<Rightarrow> bool \<times> SN_env" where
  "alloc_S S_size z =
     (if S_size \<noteq> 0 then
        let (ok, z) = alloc_ok z
        in if \<not> ok then (False, z) else create_strings 0 (nat S_size) (z\<lparr>z_S := replicate (nat S_size) None\<rparr>)
      else (True, z))"

definition alloc_I :: "int \<Rightarrow> SN_env \<Rightarrow> bool \<times> SN_env" where
  "alloc_I I_size z =
     (if I_size \<noteq> 0 then
        let (ok, z) = alloc_ok z in if \<not> ok then (False, z) else (True, z\<lparr>z_I := replicate (nat I_size) 0\<rparr>)
      else (True, z))"

definition alloc_B :: "int \<Rightarrow> SN_env \<Rightarrow> bool \<times> SN_env" where
  "alloc_B B_size z =
     (if B_size \<noteq> 0 then
        let (ok, z) = alloc_ok z in if \<not> ok then (False, z) else (True, z\<lparr>z_B := replicate (nat B_size) 0\<rparr>)
      else (True, z))"

text \<open>
  The result is the new environment, or null, with the allocator's remaining future; the
  \<^verbatim>\<open>error:\<close> label closes the half-made environment.
\<close>

definition SN_create_env ::
    "int \<Rightarrow> int \<Rightarrow> int \<Rightarrow> bool list \<Rightarrow> (nat \<Rightarrow> symbol) \<Rightarrow> (SN_env option \<times> bool list) option" where
  "SN_create_env S_size I_size B_size fs fresh =
     (let error = (\<lambda>z. do { _ \<leftarrow> SN_close_env (Some z) S_size; Some (None, z_faults z) });
          (ok, z) = alloc_ok (zeroed fs fresh)
      in if \<not> ok then Some (None, z_faults z)
      else let (p, z) = create_s z; z = z\<lparr>z_p := p\<rparr>
      in if p = None then error z
      else let (ok, z) = alloc_S S_size z
      in if \<not> ok then error z
      else let (ok, z) = alloc_I I_size z
      in if \<not> ok then error z
      else let (ok, z) = alloc_B B_size z
      in if \<not> ok then error z
      else Some (Some z, z_faults z))"

subsection \<open>A new word\<close>

definition SN_set_current :: "int \<Rightarrow> symbol list \<Rightarrow> sn_func" where
  "SN_set_current n s z = do {
     ((err, _), z) \<leftarrow> replace_s 0 (z_l z) n s z;
     Some (err, z\<lparr>z_c := 0\<rparr>) }"

subsection \<open>What creation gives\<close>

definition made :: "int \<Rightarrow> int \<Rightarrow> int \<Rightarrow> SN_env \<Rightarrow> bool" where
  "made nS nI nB z \<longleftrightarrow> wf_env z \<and> z_l z = 0 \<and> z_c z = 0 \<and> z_lb z = 0 \<and> strs_ok (z_S z)
     \<and> int (length (z_S z)) = nS \<and> z_I z = replicate (nat nI) 0 \<and> z_B z = replicate (nat nB) 0"

lemma create_s_cases:
  obtains (ok) b fs where "create_s z = (Some b, z\<lparr>z_faults := fs\<rparr>)" "wf_buf b" "SIZE b = 1"
      "failing fs \<le> failing (z_faults z)"
    | (fail) fs where "create_s z = (None, z\<lparr>z_faults := fs\<rparr>)" "0 < failing (z_faults z)"
proof (cases z rule: alloc_ok_cases)
  case (ok fs)
  let ?b = "\<lparr>bytes = map (z_fresh z) [0..<2], SIZE = 1, CAPACITY = 1\<rparr>"
  have "create_s z = (Some ?b, z\<lparr>z_faults := fs\<rparr>)" using ok by (simp add: create_s_def CREATE_SIZE_def)
  moreover have "wf_buf ?b" "SIZE ?b = 1" by (simp_all add: wf_buf_def)
  ultimately show thesis using ok(2) that(1) by blast
next
  case (fail fs)
  then show thesis by (intro that(2) [of fs]) (simp_all add: create_s_def)
qed

lemma create_strings_cases:
  assumes "i + n = length (z_S z)" "strs_ok (take i (z_S z))"
  obtains (ok) xs fs where "create_strings i n z = (True, z\<lparr>z_S := xs, z_faults := fs\<rparr>)" "strs_ok xs"
      "length xs = length (z_S z)" "failing fs \<le> failing (z_faults z)"
    | (fail) xs fs where "create_strings i n z = (False, z\<lparr>z_S := xs, z_faults := fs\<rparr>)"
      "length xs = length (z_S z)" "0 < failing (z_faults z)"
  using assms
proof (induction n arbitrary: i z thesis)
  case 0
  then show ?case by (intro "0.prems"(1) [where xs = "z_S z" and fs = "z_faults z"]) simp_all
next
  case (Suc n)
  show ?case
  proof (cases z rule: create_s_cases)
    case (ok b fs)
    let ?z = "z\<lparr>z_faults := fs, z_S := (z_S z)[i := Some b]\<rparr>"
    have "strs_ok (take (Suc i) (z_S ?z))"
      using Suc.prems(3,4) ok(2) by (simp add: take_Suc_conv_app_nth strs_ok_def)
    then show ?thesis
    proof (rule Suc.IH [rotated 3])
      show "Suc i + n = length (z_S ?z)" using Suc.prems(3) by simp
    next
      fix xs fs' assume "create_strings (Suc i) n ?z = (True, ?z\<lparr>z_S := xs, z_faults := fs'\<rparr>)" "strs_ok xs"
        "length xs = length (z_S ?z)" "failing fs' \<le> failing (z_faults ?z)"
      with ok show ?thesis by (intro Suc.prems(1) [where xs = xs and fs = fs']) (simp_all add: Let_def)
    next
      fix xs fs' assume "create_strings (Suc i) n ?z = (False, ?z\<lparr>z_S := xs, z_faults := fs'\<rparr>)"
        "length xs = length (z_S ?z)" "0 < failing (z_faults ?z)"
      with ok show ?thesis by (intro Suc.prems(2) [where xs = xs and fs = fs']) (simp_all add: Let_def)
    qed
  next
    case (fail fs)
    then show ?thesis by (intro Suc.prems(2) [where xs = "(z_S z)[i := None]" and fs = fs]) (simp_all add: Let_def)
  qed
qed

lemma alloc_S_cases:
  assumes "0 \<le> n" "z_S z = []"
  obtains (ok) xs fs where "alloc_S n z = (True, z\<lparr>z_S := xs, z_faults := fs\<rparr>)" "strs_ok xs"
      "int (length xs) = n" "failing fs \<le> failing (z_faults z)"
    | (fail) xs fs where "alloc_S n z = (False, z\<lparr>z_S := xs, z_faults := fs\<rparr>)" "0 < failing (z_faults z)" "n \<noteq> 0"
proof (cases "n = 0")
  case True
  with assms show thesis by (intro that(1) [where xs = "[]" and fs = "z_faults z"]) (simp_all add: alloc_S_def strs_ok_def)
next
  case False
  show thesis
  proof (cases z rule: alloc_ok_cases)
    case (ok fs)
    let ?z = "z\<lparr>z_faults := fs, z_S := replicate (nat n) None\<rparr>"
    show thesis
    proof (rule create_strings_cases [of 0 "nat n" ?z])
      fix xs fs' assume "create_strings 0 (nat n) ?z = (True, ?z\<lparr>z_S := xs, z_faults := fs'\<rparr>)" "strs_ok xs"
        "length xs = length (z_S ?z)" "failing fs' \<le> failing (z_faults ?z)"
      with ok False assms show thesis by (intro that(1) [where xs = xs and fs = fs']) (simp_all add: alloc_S_def Let_def)
    next
      fix xs fs' assume "create_strings 0 (nat n) ?z = (False, ?z\<lparr>z_S := xs, z_faults := fs'\<rparr>)"
        "length xs = length (z_S ?z)" "0 < failing (z_faults ?z)"
      with ok False show thesis by (intro that(2) [where xs = xs and fs = fs']) (simp_all add: alloc_S_def Let_def)
    qed (simp_all add: strs_ok_def)
  next
    case (fail fs)
    with False show thesis by (intro that(2) [where xs = "z_S z" and fs = fs]) (cases z, simp_all add: alloc_S_def Let_def)
  qed
qed

lemma alloc_I_cases:
  obtains (ok) fs where "alloc_I nI z = (True, z\<lparr>z_I := (if nI = 0 then z_I z else replicate (nat nI) 0), z_faults := fs\<rparr>)"
      "failing fs \<le> failing (z_faults z)"
    | (fail) fs where "alloc_I nI z = (False, z\<lparr>z_faults := fs\<rparr>)" "0 < failing (z_faults z)"
proof (cases "nI = 0")
  case True
  then show thesis by (intro that(1) [of "z_faults z"]) (simp_all add: alloc_I_def)
next
  case False
  show thesis
  proof (cases z rule: alloc_ok_cases)
    case (ok fs)
    with False show thesis by (intro that(1) [of fs]) (simp_all add: alloc_I_def)
  next
    case (fail fs)
    with False show thesis by (intro that(2) [of fs]) (simp_all add: alloc_I_def)
  qed
qed

lemma alloc_B_cases:
  obtains (ok) fs where "alloc_B nB z = (True, z\<lparr>z_B := (if nB = 0 then z_B z else replicate (nat nB) 0), z_faults := fs\<rparr>)"
      "failing fs \<le> failing (z_faults z)"
    | (fail) fs where "alloc_B nB z = (False, z\<lparr>z_faults := fs\<rparr>)" "0 < failing (z_faults z)"
proof (cases "nB = 0")
  case True
  then show thesis by (intro that(1) [of "z_faults z"]) (simp_all add: alloc_B_def)
next
  case False
  show thesis
  proof (cases z rule: alloc_ok_cases)
    case (ok fs)
    with False show thesis by (intro that(1) [of fs]) (simp_all add: alloc_B_def)
  next
    case (fail fs)
    with False show thesis by (intro that(2) [of fs]) (simp_all add: alloc_B_def)
  qed
qed

text \<open>
  The error path closes the environment: a null, or, when there are string variables and their
  array was never made, undefined behaviour.
\<close>

lemma close_error:
  obtains (null) "do { _ \<leftarrow> SN_close_env (Some z) n; Some (None :: SN_env option, z_faults z) } = Some (None, z_faults z)"
    | (ub) "do { _ \<leftarrow> SN_close_env (Some z) n; Some (None :: SN_env option, z_faults z) } = None" "n \<noteq> 0"
  by (cases "SN_close_env (Some z) n") (auto simp: SN_close_env_def split: if_splits)

lemma SN_create_env_cases:
  assumes "0 \<le> nS"
  obtains (ok) z where "SN_create_env nS nI nB fs fresh = Some (Some z, z_faults z)" "made nS nI nB z"
      "failing (z_faults z) \<le> failing fs"
    | (null) fs' where "SN_create_env nS nI nB fs fresh = Some (None, fs')" "0 < failing fs"
    | (ub) "SN_create_env nS nI nB fs fresh = None" "nS \<noteq> 0" "0 < failing fs"
proof -
  let ?err = "\<lambda>z. do { _ \<leftarrow> SN_close_env (Some z) nS; Some (None :: SN_env option, z_faults z) }"
  have stop: thesis if "SN_create_env nS nI nB fs fresh = ?err z" "0 < failing fs" for z
    using that by (cases rule: close_error [of z nS]) (auto intro: null ub)
  show thesis
  proof (cases "zeroed fs fresh" rule: alloc_ok_cases)
    case (fail fs1)
    then show thesis by (intro null [of "z_faults (zeroed fs fresh\<lparr>z_faults := fs1\<rparr>)"])
      (simp_all add: SN_create_env_def zeroed_def)
  next
    case a: (ok fs1)
    let ?z1 = "zeroed fs fresh\<lparr>z_faults := fs1\<rparr>"
    have f1: "failing fs1 \<le> failing fs" using a(2) by (simp add: zeroed_def)
    show thesis
    proof (cases ?z1 rule: create_s_cases)
      case (fail fs2)
      with a f1 show thesis
        by (intro stop [of "?z1\<lparr>z_faults := fs2, z_p := None\<rparr>"]) (auto simp: SN_create_env_def)
    next
      case b: (ok buf fs2)
      let ?z2 = "?z1\<lparr>z_faults := fs2, z_p := Some buf\<rparr>"
      show thesis
      proof (cases rule: alloc_S_cases [of nS ?z2, case_names null_n empty ok fail])
        case (fail xs fs3)
        with a b f1 show thesis
          by (intro stop [of "?z2\<lparr>z_S := xs, z_faults := fs3\<rparr>"]) (auto simp: SN_create_env_def)
      next
        case c: (ok xs fs3)
        let ?z3 = "?z2\<lparr>z_S := xs, z_faults := fs3\<rparr>"
        show thesis
        proof (cases nI ?z3 rule: alloc_I_cases)
          case (fail fs4)
          with a b c f1 show thesis
            by (intro stop [of "?z3\<lparr>z_faults := fs4\<rparr>"]) (auto simp: SN_create_env_def)
        next
          case d: (ok fs4)
          let ?z4 = "?z3\<lparr>z_I := (if nI = 0 then z_I ?z3 else replicate (nat nI) 0), z_faults := fs4\<rparr>"
          show thesis
          proof (cases nB ?z4 rule: alloc_B_cases)
            case (fail fs5)
            with a b c d f1 show thesis
              by (intro stop [of "?z4\<lparr>z_faults := fs5\<rparr>"]) (auto simp: SN_create_env_def)
          next
            case e: (ok fs5)
            let ?z5 = "?z4\<lparr>z_B := (if nB = 0 then z_B ?z4 else replicate (nat nB) 0), z_faults := fs5\<rparr>"
            have "SN_create_env nS nI nB fs fresh = Some (Some ?z5, z_faults ?z5)"
              using a(1) b(1) c(1) d(1) e(1) by (simp add: SN_create_env_def)
            moreover have "made nS nI nB ?z5"
              using b c by (simp add: made_def wf_env_def zeroed_def)
            moreover have "failing (z_faults ?z5) \<le> failing fs"
              using f1 b(4) c(4) d(2) e(2) by simp
            ultimately show thesis by (rule ok)
          qed
        qed
      qed (use assms in \<open>simp_all add: zeroed_def\<close>)
    qed
  qed
qed

subsection \<open>What the start of a run gives\<close>

text \<open>
  An environment that can take a new word: its buffer is well formed, or it is missing and the text
  is empty.
\<close>

definition usable :: "SN_env \<Rightarrow> bool" where
  "usable z \<longleftrightarrow> wf_env z \<or> z_p z = None \<and> z_l z = 0"

lemma replace_s_null:
  assumes "z_p z = None" "create_s z = (Some b, z\<lparr>z_faults := fs\<rparr>)"
  shows "replace_s bra ket n s z = replace_s bra ket n s (z\<lparr>z_p := Some b, z_faults := fs\<rparr>)"
  using assms unfolding replace_s_def by (cases z) simp

lemma SN_set_current_wf:
  assumes "wf_env z" "n = int (length s)"
  obtains (ok) z' where "SN_set_current n s z = Some (0, z')" "wf_env z'" "content z' = s" "z_l z' = n" "z_c z' = 0"
      "z_lb z' = z_lb z" "z_S z' = z_S z" "z_I z' = z_I z" "z_B z' = z_B z" "failing (z_faults z') \<le> failing (z_faults z)"
    | (fail) z' where "SN_set_current n s z = Some (- 1, z')" "lost z z'" "0 < failing (z_faults z)"
proof -
  have l: "0 \<le> z_l z" using assms(1) by (auto elim: wf_envE)
  show thesis
  proof (cases rule: replace_s_cases [OF assms(1) order_refl l order_refl assms(2), case_names ok fail])
    case (ok z')
    have "nat (z_l z) = length (content z)" using length_content [OF assms(1)] by linarith
    with ok assms(2) show thesis
      by (intro that(1) [of "z'\<lparr>z_c := 0\<rparr>"]) (simp_all add: SN_set_current_def edited_def)
  next
    case (fail z')
    then show thesis by (intro that(2) [of "z'\<lparr>z_c := 0\<rparr>"]) (simp_all add: SN_set_current_def lost_def)
  qed
qed

lemma SN_set_current_cases:
  assumes "usable z" "n = int (length s)"
  obtains (ok) z' where "SN_set_current n s z = Some (0, z')" "wf_env z'" "content z' = s" "z_l z' = n" "z_c z' = 0"
      "z_lb z' = z_lb z" "z_S z' = z_S z" "z_I z' = z_I z" "z_B z' = z_B z" "failing (z_faults z') \<le> failing (z_faults z)"
    | (fail) z' where "SN_set_current n s z = Some (- 1, z')" "lost z z'" "0 < failing (z_faults z)"
proof (cases "wf_env z")
  case True
  then show thesis using assms(2) that by (rule SN_set_current_wf)
next
  case False
  then have null: "z_p z = None" "z_l z = 0" using assms(1) by (simp_all add: usable_def)
  show thesis
  proof (cases z rule: create_s_cases)
    case (ok b fs)
    let ?z = "z\<lparr>z_p := Some b, z_faults := fs\<rparr>"
    have wf: "wf_env ?z" using ok(2,3) null(2) by (simp add: wf_env_def)
    have eq: "SN_set_current n s z = SN_set_current n s ?z"
      using replace_s_null [OF null(1) ok(1)] by (simp add: SN_set_current_def)
    show thesis
      by (rule SN_set_current_wf [OF wf assms(2)]) (use ok(4) that in \<open>auto simp: eq lost_def\<close>)
  next
    case (fail fs)
    with null show thesis
      by (intro that(2) [of "z\<lparr>z_faults := fs, z_p := None, z_c := 0\<rparr>"])
        (simp_all add: SN_set_current_def replace_s_def lost_def)
  qed
qed

end
