(* ===== verification/Libstemmer.thy ===== *)
theory Libstemmer
  imports Api
begin

text \<open>
  The library's interface (\<^verbatim>\<open>libstemmer/libstemmer_utf8.c\<close>): a stemmer object bundles the three
  functions of a language with an environment. The locale \<open>stemmer\<close> is the contract a language
  owes to this module; under it a stemmer object serves any sequence of words.
\<close>

type_synonym env_create = "bool list \<Rightarrow> (nat \<Rightarrow> symbol) \<Rightarrow> (SN_env option \<times> bool list) option"
type_synonym env_close = "SN_env option \<Rightarrow> unit option"

record sb_stemmer =
  sb_create :: env_create
  sb_close :: "env_close option"
  sb_stem :: sn_func
  sb_env :: "SN_env option"

text \<open>
  \<^verbatim>\<open>sb_stemmer_stem\<close>: the result is the pointer to the environment's text, null on failure, with
  the object it leaves; no result when the environment is null or when the terminating zero would
  be written outside the buffer.
\<close>

definition sb_stemmer_stem ::
    "sb_stemmer \<Rightarrow> symbol list \<Rightarrow> int \<Rightarrow> (sbuf option \<times> sb_stemmer) option" where
  "sb_stemmer_stem stemmer word n = do {
     env \<leftarrow> sb_env stemmer;
     (err, env) \<leftarrow> SN_set_current n word env;
     if err \<noteq> 0 then Some (None, stemmer\<lparr>sb_env := Some (env\<lparr>z_l := 0\<rparr>)\<rparr>)
     else do {
       (ret, env) \<leftarrow> sb_stem stemmer env;
       if ret < 0 then Some (None, stemmer\<lparr>sb_env := Some env\<rparr>)
       else do {
         p \<leftarrow> z_p env;
         bs \<leftarrow> arr_set (bytes p) (z_l env) (CHR 0x00);
         let p = p\<lparr>bytes := bs\<rparr>;
         Some (Some p, stemmer\<lparr>sb_env := Some (env\<lparr>z_p := Some p\<rparr>)\<rparr>) } } }"

definition sb_stemmer_length :: "sb_stemmer \<Rightarrow> int option" where
  "sb_stemmer_length stemmer = map_option z_l (sb_env stemmer)"

text \<open>
  \<^verbatim>\<open>sb_stemmer_delete\<close>: the object is gone (\<^const>\<open>None\<close> inside), unless its \<^verbatim>\<open>close\<close> is null
  already.
\<close>

definition sb_stemmer_delete :: "sb_stemmer option \<Rightarrow> sb_stemmer option option" where
  "sb_stemmer_delete stemmer = (case stemmer of None \<Rightarrow> Some None
     | Some s \<Rightarrow> (case sb_close s of None \<Rightarrow> Some (Some s)
         | Some cl \<Rightarrow> do { _ \<leftarrow> cl (sb_env s); Some None }))"

text \<open>The words of a text, one after the other through the same object; the stems it hands out.\<close>

fun stem_words :: "sb_stemmer \<Rightarrow> symbol list list \<Rightarrow> (symbol list option list \<times> sb_stemmer) option" where
  "stem_words s [] = Some ([], s)"
| "stem_words s (w # ws) = do {
     (p, s) \<leftarrow> sb_stemmer_stem s w (int (length w));
     n \<leftarrow> sb_stemmer_length s;
     let out = map_option (\<lambda>p. take (nat n) (bytes p)) p;
     (outs, s) \<leftarrow> stem_words s ws;
     Some (out # outs, s) }"

subsection \<open>The contract of a language\<close>

text \<open>
  An environment a stemmer can work on, with \<open>nS\<close> strings, \<open>nI\<close> integers and \<open>nB\<close> booleans, and one
  that can take a new word: the latter may have lost its buffer.
\<close>

definition ready :: "int \<Rightarrow> int \<Rightarrow> int \<Rightarrow> SN_env \<Rightarrow> bool" where
  "ready nS nI nB z \<longleftrightarrow> wf_env z \<and> z_lb z = 0 \<and> strs_ok (z_S z) \<and> int (length (z_S z)) = nS
     \<and> int (length (z_I z)) = nI \<and> int (length (z_B z)) = nB"

definition alive :: "int \<Rightarrow> int \<Rightarrow> int \<Rightarrow> SN_env \<Rightarrow> bool" where
  "alive nS nI nB z \<longleftrightarrow> usable z \<and> z_lb z = 0 \<and> strs_ok (z_S z) \<and> int (length (z_S z)) = nS
     \<and> int (length (z_I z)) = nI \<and> int (length (z_B z)) = nB"

lemma ready_alive: "ready nS nI nB z \<Longrightarrow> alive nS nI nB z"
  by (simp add: ready_def alive_def usable_def)

text \<open>How a stemmer leaves the environment: as \<^const>\<open>fits\<close>, but the text may be \<open>g\<close> bytes longer.\<close>

definition grown :: "int \<Rightarrow> SN_env \<Rightarrow> SN_env \<Rightarrow> bool" where
  "grown g z z' \<longleftrightarrow> wf_env z' \<and> z_lb z' = 0 \<and> z_l z' \<le> z_l z + g
     \<and> strs_ok (z_S z') \<and> length (z_S z') = length (z_S z)
     \<and> length (z_I z') = length (z_I z) \<and> length (z_B z') = length (z_B z)
     \<and> failing (z_faults z') \<le> failing (z_faults z)"

lemma fits_grown: "fits z z' \<Longrightarrow> 0 \<le> g \<Longrightarrow> grown g z z'"
  by (simp add: fits_def grown_def in_window_def)

text \<open>What a caller can rely on after a successful call.\<close>

definition served :: "int \<Rightarrow> int \<Rightarrow> int \<Rightarrow> int \<Rightarrow> sbuf \<Rightarrow> SN_env \<Rightarrow> bool" where
  "served nS nI nB n p z \<longleftrightarrow> ready nS nI nB z \<and> z_p z = Some p \<and> 0 \<le> z_l z \<and> z_l z \<le> n
     \<and> z_l z < int (length (bytes p)) \<and> bytes p ! nat (z_l z) = CHR 0x00"

text \<open>The zero written behind the text keeps the environment well formed.\<close>

lemma terminated_served:
  assumes "grown g z z'" "ready nS nI nB z" "z_l z + g = n" "z_p z' = Some b"
    and p: "p = b\<lparr>bytes := (bytes b)[nat (z_l z') := CHR 0x00]\<rparr>"
  shows "arr_set (bytes b) (z_l z') (CHR 0x00) = Some (bytes p)"
    and "served nS nI nB n p (z'\<lparr>z_p := Some p\<rparr>)"
proof -
  have b: "wf_buf b" "0 \<le> z_l z'" "z_l z' \<le> SIZE b" "z_l z' < int (length (bytes b))"
    using assms(1,4) by (auto simp: grown_def elim!: wf_envE)
  then have "nat (z_l z') < length (bytes b)" by simp
  with b assms show "arr_set (bytes b) (z_l z') (CHR 0x00) = Some (bytes p)"
    "served nS nI nB n p (z'\<lparr>z_p := Some p\<rparr>)"
    by (simp_all add: served_def ready_def grown_def wf_env_def wf_buf_def)
qed

locale stemmer =
  fixes stem :: sn_func and nS nI nB g :: int
  assumes nonneg: "0 \<le> nS" "0 \<le> nI" "0 \<le> nB" "0 \<le> g"
    and stems: "in_window z \<Longrightarrow> z_c z = 0 \<Longrightarrow> z_lb z = 0 \<Longrightarrow> strs_ok (z_S z) \<Longrightarrow> int (length (z_S z)) = nS
      \<Longrightarrow> int (length (z_I z)) = nI \<Longrightarrow> int (length (z_B z)) = nB
      \<Longrightarrow> wpf stem (\<lambda>r z'. if r < 0 then oom z else grown g z z') z"
begin

lemma made_ready: "made nS nI nB z \<Longrightarrow> ready nS nI nB z"
  using nonneg by (simp add: made_def ready_def)

lemma run:
  assumes "ready nS nI nB z" "z_c z = 0"
  obtains r z' where "stem z = Some (r, z')" "if r < 0 then oom z else grown g z z'"
proof -
  have "in_window z" using assms l_le_free by (auto simp: ready_def in_window_def elim!: wf_envE)
  then have "wpf stem (\<lambda>r z'. if r < 0 then oom z else grown g z z') z"
    using assms by (intro stems) (simp_all add: ready_def)
  then show thesis using that by (auto simp: wpf_def)
qed

lemma run_outcome:
  assumes "ready nS nI nB z" "z_c z = 0"
  shows "\<exists>r z'. stem z = Some (r, z') \<and> (if r < 0 then 0 < failing (z_faults z)
    else ready nS nI nB z' \<and> int (length (content z')) \<le> int (length (content z)) + g)"
  by (rule run [OF assms]) (use assms(1) in \<open>auto simp: grown_def ready_def oom_def\<close>)

lemma stem_call:
  assumes "sb_stem s = stem" "sb_env s = Some z" "alive nS nI nB z" "n = int (length w)"
  obtains (ok) p z' where "sb_stemmer_stem s w n = Some (Some p, s\<lparr>sb_env := Some z'\<rparr>)"
      "served nS nI nB (n + g) p z'" "failing (z_faults z') \<le> failing (z_faults z)"
    | (refused) z' where "sb_stemmer_stem s w n = Some (None, s\<lparr>sb_env := Some z'\<rparr>)"
      "0 < failing (z_faults z)" "alive nS nI nB z'"
    | (broken) z1 r z' where "sb_stemmer_stem s w n = Some (None, s\<lparr>sb_env := Some z'\<rparr>)"
      "0 < failing (z_faults z)" "ready nS nI nB z1" "z_c z1 = 0" "stem z1 = Some (r, z')" "r < 0"
proof -
  have us: "usable z" using assms(3) by (simp add: alive_def)
  show thesis
  proof (cases rule: SN_set_current_cases [OF us assms(4), case_names ok fail])
    case z1: (ok z1)
    then have rd: "ready nS nI nB z1" using assms(3) by (simp add: ready_def alive_def)
    obtain r z2 where run: "stem z1 = Some (r, z2)" and st: "if r < 0 then oom z1 else grown g z1 z2"
      using run [OF rd z1(5)] by blast
    show thesis
    proof (cases "r < 0")
      case True
      show thesis
        by (rule broken [OF _ _ rd z1(5) run True])
          (use True run st z1 assms(1,2) in \<open>simp_all add: sb_stemmer_stem_def oom_def\<close>)
    next
      case False
      with st have fit: "grown g z1 z2" by simp
      then obtain b where b: "z_p z2 = Some b" by (auto simp: grown_def elim: wf_envE)
      note t = terminated_served [OF fit rd _ b refl, of "n + g"]
      show thesis
        by (rule ok [OF _ t(2)])
          (use fit z1 run False b assms(1,2) t(1) in \<open>simp_all add: sb_stemmer_stem_def Let_def grown_def\<close>)
    qed
  next
    case (fail z1)
    then have "alive nS nI nB (z1\<lparr>z_l := 0\<rparr>)" using assms(3) by (simp add: alive_def lost_def usable_def)
    with fail assms(2) show thesis
      by (intro refused [of "z1\<lparr>z_l := 0\<rparr>"]) (simp_all add: sb_stemmer_stem_def)
  qed
qed

text \<open>With enough memory every word gets its stem, however many words there are.\<close>

lemma stem_words_total:
  assumes "sb_stem s = stem" "sb_env s = Some z" "ready nS nI nB z" "failing (z_faults z) = 0"
  shows "\<exists>outs z'. stem_words s ws = Some (map Some outs, s\<lparr>sb_env := Some z'\<rparr>)
    \<and> list_all2 (\<lambda>out w. int (length out) \<le> int (length w) + g) outs ws \<and> ready nS nI nB z'"
  using assms
proof (induction ws arbitrary: s z)
  case Nil
  then show ?case by (cases s) auto
next
  case (Cons w ws)
  show ?case
  proof (cases rule: stem_call [OF Cons.prems(1,2) ready_alive [OF Cons.prems(3)] refl, of w, case_names ok refused broken])
    case (ok p z1)
    then obtain outs z2 where rest: "stem_words (s\<lparr>sb_env := Some z1\<rparr>) ws = Some (map Some outs, s\<lparr>sb_env := Some z2\<rparr>)"
      "list_all2 (\<lambda>out w. int (length out) \<le> int (length w) + g) outs ws" "ready nS nI nB z2"
      using Cons.IH [of "s\<lparr>sb_env := Some z1\<rparr>" z1] Cons.prems(1,4) by (auto simp: served_def)
    let ?out = "take (nat (z_l z1)) (bytes p)"
    have "int (length ?out) \<le> int (length w) + g" using ok(2) by (auto simp: served_def)
    with ok(1) rest show ?thesis
      by (intro exI [of _ "?out # outs"] exI [of _ z2]) (simp add: sb_stemmer_length_def)
  qed (use Cons.prems(4) in simp_all)
qed

end

text \<open>
  A stemmer whose failures leave an environment that can take the next word: an object of it
  survives every failed allocation.
\<close>

locale resilient_stemmer = stemmer +
  assumes survives: "ready nS nI nB z \<Longrightarrow> z_c z = 0 \<Longrightarrow> stem z = Some (r, z') \<Longrightarrow> r < 0 \<Longrightarrow> alive nS nI nB z'"
begin

lemma stem_words_resilient:
  assumes "sb_stem s = stem" "sb_env s = Some z" "alive nS nI nB z"
  shows "\<exists>outs z'. stem_words s ws = Some (outs, s\<lparr>sb_env := Some z'\<rparr>) \<and> alive nS nI nB z'
    \<and> list_all2 (\<lambda>out w. case out of None \<Rightarrow> True | Some x \<Rightarrow> int (length x) \<le> int (length w) + g) outs ws"
  using assms
proof (induction ws arbitrary: s z)
  case Nil
  then show ?case by (cases s) auto
next
  case (Cons w ws)
  have next_word: ?case
    if one: "sb_stemmer_stem s w (int (length w)) = Some (p, s\<lparr>sb_env := Some z1\<rparr>)" and z1: "alive nS nI nB z1"
    and out: "\<And>b. p = Some b \<Longrightarrow> int (length (take (nat (z_l z1)) (bytes b))) \<le> int (length w) + g" for p z1
  proof -
    obtain outs z2 where rest: "stem_words (s\<lparr>sb_env := Some z1\<rparr>) ws = Some (outs, s\<lparr>sb_env := Some z2\<rparr>)" "alive nS nI nB z2"
      "list_all2 (\<lambda>out w. case out of None \<Rightarrow> True | Some x \<Rightarrow> int (length x) \<le> int (length w) + g) outs ws"
      using Cons.IH [of "s\<lparr>sb_env := Some z1\<rparr>" z1] z1 Cons.prems(1) by auto
    with one out show ?thesis
      by (intro exI [of _ "map_option (\<lambda>b. take (nat (z_l z1)) (bytes b)) p # outs"] exI [of _ z2])
        (simp add: sb_stemmer_length_def split: option.split)
  qed
  show ?case
  proof (cases rule: stem_call [OF Cons.prems refl, of w, case_names ok refused broken])
    case (ok p z1)
    then show ?thesis by (intro next_word [of "Some p" z1]) (auto simp: served_def ready_alive)
  next
    case (refused z1)
    then show ?thesis by (intro next_word [of None z1]) simp_all
  next
    case (broken z0 r z1)
    then show ?thesis using survives [of z0] by (intro next_word [of None z1]) simp_all
  qed
qed

end

text \<open>
  A language whose stemmer never lengthens the text and keeps no strings never needs memory: it
  cannot fail.
\<close>

locale steady_stemmer =
  fixes stem :: sn_func and nI nB :: int
  assumes sizes: "0 \<le> nI" "0 \<le> nB"
    and fits: "in_window z \<Longrightarrow> z_c z = 0 \<Longrightarrow> z_S z = [] \<Longrightarrow> int (length (z_I z)) = nI
      \<Longrightarrow> int (length (z_B z)) = nB \<Longrightarrow> wpf stem (fitted z) z"
begin

lemma steady_run:
  assumes "ready 0 nI nB z" "z_c z = 0"
  shows "\<exists>r z'. stem z = Some (r, z') \<and> 0 \<le> r \<and> ready 0 nI nB z' \<and> length (content z') \<le> length (content z)"
proof -
  have "in_window z" using assms l_le_free by (auto simp: ready_def in_window_def elim!: wf_envE)
  then have "wpf stem (fitted z) z" using assms by (intro fits) (simp_all add: ready_def)
  moreover have "length (content z') \<le> length (content z)" if "fits z z'" for z'
  proof -
    have "int (length (content z')) \<le> int (length (content z))"
      using that assms(1) by (simp add: fits_def ready_def in_window_def)
    then show ?thesis by simp
  qed
  ultimately show ?thesis using assms(1) by (auto simp: wpf_def fitted_def ready_def fits_def in_window_def)
qed

end

sublocale steady_stemmer \<subseteq> resilient_stemmer stem 0 nI nB 0
proof unfold_locales
  fix z assume "in_window z" "z_c z = 0" "strs_ok (z_S z)" "int (length (z_S z)) = 0"
    "int (length (z_I z)) = nI" "int (length (z_B z)) = nB"
  then show "wpf stem (\<lambda>r z'. if r < 0 then oom z else grown 0 z z') z"
    by (intro wpf_mono [OF fits]) (auto simp: fitted_def fits_grown)
qed (use sizes steady_run in force)+

end
