(* ===== verification/Porter.thy ===== *)
theory Porter
  imports Libstemmer
begin

text \<open>
  The Porter stemmer (\<^verbatim>\<open>src_c/stem_UTF_8_porter.c\<close>): its search tables, character groups and
  strings, its routines statement by statement, and the entry points. Every routine keeps the window of the
  text and does not lengthen it, every loop ends, and the stemmer meets the contract of a language.
\<close>

subsection \<open>Tables\<close>

definition a_0_porter :: "among list" where
  "a_0_porter = [
    amg 1 ''s'' (- 1) 3,
    amg 3 ''ies'' 0 2,
    amg 4 ''sses'' 0 1,
    amg 2 ''ss'' 0 (- 1)]"

definition a_1_porter :: "among list" where
  "a_1_porter = [
    amg 0 [] (- 1) 3,
    amg 2 ''bb'' 0 2,
    amg 2 ''dd'' 0 2,
    amg 2 ''ff'' 0 2,
    amg 2 ''gg'' 0 2,
    amg 2 ''bl'' 0 1,
    amg 2 ''mm'' 0 2,
    amg 2 ''nn'' 0 2,
    amg 2 ''pp'' 0 2,
    amg 2 ''rr'' 0 2,
    amg 2 ''at'' 0 1,
    amg 2 ''tt'' 0 2,
    amg 2 ''iz'' 0 1]"

definition a_2_porter :: "among list" where
  "a_2_porter = [
    amg 2 ''ed'' (- 1) 2,
    amg 3 ''eed'' 0 1,
    amg 3 ''ing'' (- 1) 2]"

definition a_3_porter :: "among list" where
  "a_3_porter = [
    amg 4 ''anci'' (- 1) 3,
    amg 4 ''enci'' (- 1) 2,
    amg 4 ''abli'' (- 1) 4,
    amg 3 ''eli'' (- 1) 6,
    amg 4 ''alli'' (- 1) 9,
    amg 5 ''ousli'' (- 1) 12,
    amg 5 ''entli'' (- 1) 5,
    amg 5 ''aliti'' (- 1) 10,
    amg 6 ''biliti'' (- 1) 14,
    amg 5 ''iviti'' (- 1) 13,
    amg 6 ''tional'' (- 1) 1,
    amg 7 ''ational'' 10 8,
    amg 5 ''alism'' (- 1) 10,
    amg 5 ''ation'' (- 1) 8,
    amg 7 ''ization'' 13 7,
    amg 4 ''izer'' (- 1) 7,
    amg 4 ''ator'' (- 1) 8,
    amg 7 ''iveness'' (- 1) 13,
    amg 7 ''fulness'' (- 1) 11,
    amg 7 ''ousness'' (- 1) 12]"

definition a_4_porter :: "among list" where
  "a_4_porter = [
    amg 5 ''icate'' (- 1) 2,
    amg 5 ''ative'' (- 1) 3,
    amg 5 ''alize'' (- 1) 1,
    amg 5 ''iciti'' (- 1) 2,
    amg 4 ''ical'' (- 1) 2,
    amg 3 ''ful'' (- 1) 3,
    amg 4 ''ness'' (- 1) 3]"

definition a_5_porter :: "among list" where
  "a_5_porter = [
    amg 2 ''ic'' (- 1) 1,
    amg 4 ''ance'' (- 1) 1,
    amg 4 ''ence'' (- 1) 1,
    amg 4 ''able'' (- 1) 1,
    amg 4 ''ible'' (- 1) 1,
    amg 3 ''ate'' (- 1) 1,
    amg 3 ''ive'' (- 1) 1,
    amg 3 ''ize'' (- 1) 1,
    amg 3 ''iti'' (- 1) 1,
    amg 2 ''al'' (- 1) 1,
    amg 3 ''ism'' (- 1) 1,
    amg 3 ''ion'' (- 1) 2,
    amg 2 ''er'' (- 1) 1,
    amg 3 ''ous'' (- 1) 1,
    amg 3 ''ant'' (- 1) 1,
    amg 3 ''ent'' (- 1) 1,
    amg 4 ''ment'' 15 1,
    amg 5 ''ement'' 16 1,
    amg 2 ''ou'' (- 1) 1]"

definition g_v_porter :: "int list" where
  "g_v_porter = [17, 65, 16, 1]"

definition g_v_WXY_porter :: "int list" where
  "g_v_WXY_porter = [1, 17, 65, 208, 1]"

subsection \<open>Strings\<close>

definition s_0_porter :: "symbol list" where
  "s_0_porter = ''ss''"

definition s_1_porter :: "symbol list" where
  "s_1_porter = ''i''"

definition s_2_porter :: "symbol list" where
  "s_2_porter = ''ee''"

definition s_3_porter :: "symbol list" where
  "s_3_porter = ''e''"

definition s_4_porter :: "symbol list" where
  "s_4_porter = ''e''"

definition s_5_porter :: "symbol list" where
  "s_5_porter = ''y''"

definition s_6_porter :: "symbol list" where
  "s_6_porter = ''Y''"

definition s_7_porter :: "symbol list" where
  "s_7_porter = ''i''"

definition s_8_porter :: "symbol list" where
  "s_8_porter = ''tion''"

definition s_9_porter :: "symbol list" where
  "s_9_porter = ''ence''"

definition s_10_porter :: "symbol list" where
  "s_10_porter = ''ance''"

definition s_11_porter :: "symbol list" where
  "s_11_porter = ''able''"

definition s_12_porter :: "symbol list" where
  "s_12_porter = ''ent''"

definition s_13_porter :: "symbol list" where
  "s_13_porter = ''e''"

definition s_14_porter :: "symbol list" where
  "s_14_porter = ''ize''"

definition s_15_porter :: "symbol list" where
  "s_15_porter = ''ate''"

definition s_16_porter :: "symbol list" where
  "s_16_porter = ''al''"

definition s_17_porter :: "symbol list" where
  "s_17_porter = ''al''"

definition s_18_porter :: "symbol list" where
  "s_18_porter = ''ful''"

definition s_19_porter :: "symbol list" where
  "s_19_porter = ''ous''"

definition s_20_porter :: "symbol list" where
  "s_20_porter = ''ive''"

definition s_21_porter :: "symbol list" where
  "s_21_porter = ''ble''"

definition s_22_porter :: "symbol list" where
  "s_22_porter = ''al''"

definition s_23_porter :: "symbol list" where
  "s_23_porter = ''ic''"

definition s_24_porter :: "symbol list" where
  "s_24_porter = ''s''"

definition s_25_porter :: "symbol list" where
  "s_25_porter = ''t''"

definition s_26_porter :: "symbol list" where
  "s_26_porter = ''e''"

definition s_27_porter :: "symbol list" where
  "s_27_porter = ''l''"

definition s_28_porter :: "symbol list" where
  "s_28_porter = ''l''"

definition s_29_porter :: "symbol list" where
  "s_29_porter = ''y''"

definition s_30_porter :: "symbol list" where
  "s_30_porter = ''Y''"

definition s_31_porter :: "symbol list" where
  "s_31_porter = ''y''"

definition s_32_porter :: "symbol list" where
  "s_32_porter = ''Y''"

definition s_33_porter :: "symbol list" where
  "s_33_porter = ''Y''"

definition s_34_porter :: "symbol list" where
  "s_34_porter = ''y''"

subsection \<open>Code\<close>

definition r_shortv_porter :: "sn_func" where
  "r_shortv_porter = c_fun [
    when_true (out_grouping_b_U g_v_WXY_porter 89 121 0) (c_return 0),
    when_true (in_grouping_b_U g_v_porter 97 121 0) (c_return 0),
    when_true (out_grouping_b_U g_v_porter 97 121 0) (c_return 0),
    c_return 1]"

definition r_R1_porter :: "sn_func" where
  "r_R1_porter = c_fun [
    c_if (on_I 0 (\<lambda>z i. \<not> i \<le> z_c z)) (c_return 0),
    c_return 1]"

definition r_R2_porter :: "sn_func" where
  "r_R2_porter = c_fun [
    c_if (on_I 1 (\<lambda>z i. \<not> i \<le> z_c z)) (c_return 0),
    c_return 1]"

definition r_Step_1a_porter :: "sn_func" where
  "r_Step_1a_porter = c_fun [
    set_ket z_c,
    c_if (tail_guard 0 (\<lambda>ch. ch \<noteq> 115)) (c_return 0),
    c_call (find_among_b a_0_porter 4) (\<lambda>among_var. c_block [
      c_if (test (\<lambda>_. among_var = 0)) (c_return 0),
      set_bra z_c,
      c_switch among_var [
        (0, c_block [
          c_return 0]),
        (1, c_block [
          check (slice_from_s 2 s_0_porter),
          c_break]),
        (2, c_block [
          check (slice_from_s 1 s_1_porter),
          c_break]),
        (3, c_block [
          check slice_del,
          c_break])],
      c_return 1])]"

definition r_Step_1b_porter :: "sn_func" where
  "r_Step_1b_porter = c_fun [
    set_ket z_c,
    c_if (tail_guard 1 (\<lambda>ch. ch \<noteq> 100 \<and> ch \<noteq> 103)) (c_return 0),
    c_call (find_among_b a_2_porter 3) (\<lambda>among_var. c_block [
      c_if (test (\<lambda>_. among_var = 0)) (c_return 0),
      set_bra z_c,
      c_switch among_var [
        (0, c_block [
          c_return 0]),
        (1, c_block [
          routine r_R1_porter (c_return 0),
          check (slice_from_s 2 s_2_porter),
          c_break]),
        (2, c_block [
          c_let (\<lambda>z. z_l z - z_c z) (\<lambda>m_test. c_block [
            retreat (out_grouping_b_U g_v_porter 97 121 1) (c_return 0),
            set_c (\<lambda>z. z_l z - m_test)]),
          check slice_del,
          c_let (\<lambda>z. z_l z - z_c z) (\<lambda>m_test. c_block [
            c_call (or_else (tail_guard 1 (not_in_mask 3 68514004)) 3 (find_among_b a_1_porter 13)) (\<lambda>among_var. c_block [
              c_if (test (\<lambda>_. among_var = 0)) (c_return 0),
              set_c (\<lambda>z. z_l z - m_test),
              c_switch among_var [
                (0, c_block [
                  c_return 0]),
                (1, c_block [
                  check_keep_c (insert_s_at z_c z_c 1 s_3_porter),
                  c_break]),
                (2, c_block [
                  set_ket z_c,
                  move_to (skip_utf8_z z_lb (\<lambda>_. 0) (- 1)) (c_return 0),
                  set_bra z_c,
                  check slice_del,
                  c_break]),
                (3, c_block [
                  c_if (on_I 0 (\<lambda>z i. z_c z \<noteq> i)) (c_return 0),
                  c_let (\<lambda>z. z_l z - z_c z) (\<lambda>m_test. c_block [
                    routine r_shortv_porter (c_return 0),
                    set_c (\<lambda>z. z_l z - m_test)]),
                  check_keep_c (insert_s_at z_c z_c 1 s_4_porter),
                  c_break])],
              c_break])])])],
      c_return 1])]"

definition r_Step_1c_porter :: "sn_func" where
  "r_Step_1c_porter = c_fun [
    set_ket z_c,
    c_upto 0 [
      c_let (\<lambda>z. z_l z - z_c z) (\<lambda>m1. c_block [
        c_upto 1 [
          unless (eq_s_b 1 s_5_porter) (c_goto 1),
          c_goto 0],
        set_c (\<lambda>z. z_l z - m1),
        unless (eq_s_b 1 s_6_porter) (c_return 0)])],
    set_bra z_c,
    retreat (out_grouping_b_U g_v_porter 97 121 1) (c_return 0),
    check (slice_from_s 1 s_7_porter),
    c_return 1]"

definition r_Step_2_porter :: "sn_func" where
  "r_Step_2_porter = c_fun [
    set_ket z_c,
    c_if (tail_guard 2 (not_in_mask 3 815616)) (c_return 0),
    c_call (find_among_b a_3_porter 20) (\<lambda>among_var. c_block [
      c_if (test (\<lambda>_. among_var = 0)) (c_return 0),
      set_bra z_c,
      routine r_R1_porter (c_return 0),
      c_switch among_var [
        (0, c_block [
          c_return 0]),
        (1, c_block [
          check (slice_from_s 4 s_8_porter),
          c_break]),
        (2, c_block [
          check (slice_from_s 4 s_9_porter),
          c_break]),
        (3, c_block [
          check (slice_from_s 4 s_10_porter),
          c_break]),
        (4, c_block [
          check (slice_from_s 4 s_11_porter),
          c_break]),
        (5, c_block [
          check (slice_from_s 3 s_12_porter),
          c_break]),
        (6, c_block [
          check (slice_from_s 1 s_13_porter),
          c_break]),
        (7, c_block [
          check (slice_from_s 3 s_14_porter),
          c_break]),
        (8, c_block [
          check (slice_from_s 3 s_15_porter),
          c_break]),
        (9, c_block [
          check (slice_from_s 2 s_16_porter),
          c_break]),
        (10, c_block [
          check (slice_from_s 2 s_17_porter),
          c_break]),
        (11, c_block [
          check (slice_from_s 3 s_18_porter),
          c_break]),
        (12, c_block [
          check (slice_from_s 3 s_19_porter),
          c_break]),
        (13, c_block [
          check (slice_from_s 3 s_20_porter),
          c_break]),
        (14, c_block [
          check (slice_from_s 3 s_21_porter),
          c_break])],
      c_return 1])]"

definition r_Step_3_porter :: "sn_func" where
  "r_Step_3_porter = c_fun [
    set_ket z_c,
    c_if (tail_guard 2 (not_in_mask 3 528928)) (c_return 0),
    c_call (find_among_b a_4_porter 7) (\<lambda>among_var. c_block [
      c_if (test (\<lambda>_. among_var = 0)) (c_return 0),
      set_bra z_c,
      routine r_R1_porter (c_return 0),
      c_switch among_var [
        (0, c_block [
          c_return 0]),
        (1, c_block [
          check (slice_from_s 2 s_22_porter),
          c_break]),
        (2, c_block [
          check (slice_from_s 2 s_23_porter),
          c_break]),
        (3, c_block [
          check slice_del,
          c_break])],
      c_return 1])]"

definition r_Step_4_porter :: "sn_func" where
  "r_Step_4_porter = c_fun [
    set_ket z_c,
    c_if (tail_guard 1 (not_in_mask 3 3961384)) (c_return 0),
    c_call (find_among_b a_5_porter 19) (\<lambda>among_var. c_block [
      c_if (test (\<lambda>_. among_var = 0)) (c_return 0),
      set_bra z_c,
      routine r_R2_porter (c_return 0),
      c_switch among_var [
        (0, c_block [
          c_return 0]),
        (1, c_block [
          check slice_del,
          c_break]),
        (2, c_block [
          c_upto 0 [
            c_let (\<lambda>z. z_l z - z_c z) (\<lambda>m1. c_block [
              c_upto 1 [
                unless (eq_s_b 1 s_24_porter) (c_goto 1),
                c_goto 0],
              set_c (\<lambda>z. z_l z - m1),
              unless (eq_s_b 1 s_25_porter) (c_return 0)])],
          check slice_del,
          c_break])],
      c_return 1])]"

definition r_Step_5a_porter :: "sn_func" where
  "r_Step_5a_porter = c_fun [
    set_ket z_c,
    unless (eq_s_b 1 s_26_porter) (c_return 0),
    set_bra z_c,
    c_upto 0 [
      c_let (\<lambda>z. z_l z - z_c z) (\<lambda>m1. c_block [
        c_upto 1 [
          routine r_R2_porter (c_goto 1),
          c_goto 0],
        set_c (\<lambda>z. z_l z - m1),
        routine r_R1_porter (c_return 0),
        c_let (\<lambda>z. z_l z - z_c z) (\<lambda>m2. c_block [
          c_upto 2 [
            routine r_shortv_porter (c_goto 2),
            c_return 0],
          set_c (\<lambda>z. z_l z - m2)])])],
    check slice_del,
    c_return 1]"

definition r_Step_5b_porter :: "sn_func" where
  "r_Step_5b_porter = c_fun [
    set_ket z_c,
    unless (eq_s_b 1 s_27_porter) (c_return 0),
    set_bra z_c,
    routine r_R2_porter (c_return 0),
    unless (eq_s_b 1 s_28_porter) (c_return 0),
    check slice_del,
    c_return 1]"

definition porter_UTF_8_stem_while1 :: "sn_cmd" where
  "porter_UTF_8_stem_while1 = c_while1 (c_block [
      c_let z_c (\<lambda>c4. c_block [
        c_upto 3 [
          when_true (in_grouping_U g_v_porter 97 121 0) (c_goto 3),
          set_bra z_c,
          unless (eq_s 1 s_31_porter) (c_goto 3),
          set_ket z_c,
          set_c (\<lambda>_. c4),
          c_break],
        set_c (\<lambda>_. c4),
        move_to (skip_utf8_z (\<lambda>_. 0) z_l 1) (c_goto 2)])])"

definition porter_UTF_8_stem_while2 :: "sn_cmd" where
  "porter_UTF_8_stem_while2 = c_while1 (c_block [
      c_let z_c (\<lambda>c3. c_block [
        c_upto 2 [
          porter_UTF_8_stem_while1,
          check (slice_from_s 1 s_32_porter),
          set_B 0 1,
          c_continue],
        set_c (\<lambda>_. c3),
        c_break])])"

definition porter_UTF_8_stem_while3 :: "sn_cmd" where
  "porter_UTF_8_stem_while3 = c_while1 (c_block [
      c_let z_c (\<lambda>c16. c_block [
        set_bra z_c,
        c_upto 15 [
          unless (eq_s 1 s_33_porter) (c_goto 15),
          set_ket z_c,
          set_c (\<lambda>_. c16),
          c_break],
        set_c (\<lambda>_. c16),
        move_to (skip_utf8_z (\<lambda>_. 0) z_l 1) (c_goto 14)])])"

definition porter_UTF_8_stem_while4 :: "sn_cmd" where
  "porter_UTF_8_stem_while4 = c_while1 (c_block [
      c_let z_c (\<lambda>c15. c_block [
        c_upto 14 [
          porter_UTF_8_stem_while3,
          check (slice_from_s 1 s_34_porter),
          c_continue],
        set_c (\<lambda>_. c15),
        c_break])])"

definition porter_UTF_8_stem :: "sn_func" where
  "porter_UTF_8_stem = c_fun [
    set_B 0 0,
    c_let z_c (\<lambda>c1. c_block [
      set_bra z_c,
      c_upto 0 [
        unless (eq_s 1 s_29_porter) (c_goto 0),
        set_ket z_c,
        check (slice_from_s 1 s_30_porter),
        set_B 0 1],
      set_c (\<lambda>_. c1)]),
    c_let z_c (\<lambda>c2. c_block [
      porter_UTF_8_stem_while2,
      set_c (\<lambda>_. c2)]),
    set_I 0 z_l,
    set_I 1 z_l,
    c_let z_c (\<lambda>c5. c_block [
      c_upto 4 [
        advance (out_grouping_U g_v_porter 97 121 1) (c_goto 4),
        advance (in_grouping_U g_v_porter 97 121 1) (c_goto 4),
        set_I 0 z_c,
        advance (out_grouping_U g_v_porter 97 121 1) (c_goto 4),
        advance (in_grouping_U g_v_porter 97 121 1) (c_goto 4),
        set_I 1 z_c],
      set_c (\<lambda>_. c5)]),
    set_lb z_c,
    set_c z_l,
    try_b 5 r_Step_1a_porter,
    try_b 6 r_Step_1b_porter,
    try_b 7 r_Step_1c_porter,
    try_b 8 r_Step_2_porter,
    try_b 9 r_Step_3_porter,
    try_b 10 r_Step_4_porter,
    try_b 11 r_Step_5a_porter,
    try_b 12 r_Step_5b_porter,
    set_c z_lb,
    c_let z_c (\<lambda>c14. c_block [
      c_upto 13 [
        c_if (on_B 0 (\<lambda>v. v = 0)) (c_goto 13),
        porter_UTF_8_stem_while4],
      set_c (\<lambda>_. c14)]),
    c_return 1]"

definition porter_UTF_8_create_env :: "env_create" where
  "porter_UTF_8_create_env = SN_create_env 0 2 1"

definition porter_UTF_8_close_env :: "env_close" where
  "porter_UTF_8_close_env z = SN_close_env z 0"

subsection \<open>Facts on the tables\<close>

lemma tables_porter [simp]:
  "table_b a_0_porter" "table_b a_1_porter" "table_b a_2_porter" "table_b a_3_porter"
  "table_b a_4_porter" "table_b a_5_porter"
  by (rule table_sound, code_simp, code_simp)+

lemma length_tables_porter [simp]:
  "length a_0_porter = 4" "length a_1_porter = 13" "length a_2_porter = 3"
  "length a_3_porter = 20" "length a_4_porter = 7" "length a_5_porter = 19"
  by code_simp+

lemma least_porter [simp]:
  "least a_0_porter 1 = 4" "least a_0_porter 2 = 3" "least a_0_porter 3 = 1"
  "least a_1_porter 1 = 2" "least a_1_porter 2 = 2" "least a_1_porter 3 = 0"
  "least a_2_porter 1 = 3" "least a_2_porter 2 = 2" "least a_3_porter 1 = 6"
  "least a_3_porter 10 = 5" "least a_3_porter 11 = 7" "least a_3_porter 12 = 5"
  "least a_3_porter 13 = 5" "least a_3_porter 14 = 6" "least a_3_porter 2 = 4"
  "least a_3_porter 3 = 4" "least a_3_porter 4 = 4" "least a_3_porter 5 = 5"
  "least a_3_porter 6 = 3" "least a_3_porter 7 = 4" "least a_3_porter 8 = 4"
  "least a_3_porter 9 = 4" "least a_4_porter 1 = 5" "least a_4_porter 2 = 4"
  "least a_4_porter 3 = 3" "least a_5_porter 1 = 2" "least a_5_porter 2 = 3"
  by code_simp+

lemma lengths_porter [simp]:
  "length s_0_porter = 2" "length s_1_porter = 1" "length s_2_porter = 2" "length s_3_porter = 1"
  "length s_4_porter = 1" "length s_5_porter = 1" "length s_6_porter = 1" "length s_7_porter = 1"
  "length s_8_porter = 4" "length s_9_porter = 4" "length s_10_porter = 4"
  "length s_11_porter = 4" "length s_12_porter = 3" "length s_13_porter = 1"
  "length s_14_porter = 3" "length s_15_porter = 3" "length s_16_porter = 2"
  "length s_17_porter = 2" "length s_18_porter = 3" "length s_19_porter = 3"
  "length s_20_porter = 3" "length s_21_porter = 3" "length s_22_porter = 2"
  "length s_23_porter = 2" "length s_24_porter = 1" "length s_25_porter = 1"
  "length s_26_porter = 1" "length s_27_porter = 1" "length s_28_porter = 1"
  "length s_29_porter = 1" "length s_30_porter = 1" "length s_31_porter = 1"
  "length s_32_porter = 1" "length s_33_porter = 1" "length s_34_porter = 1"
  by code_simp+

lemma covers_porter [simp]:
  "covers g_v_WXY_porter 89 121" "covers g_v_porter 97 121"
  by code_simp+

subsection \<open>Routines\<close>

lemma r_shortv_porter_looks:
  assumes "in_window z"
  shows "wpf r_shortv_porter (looked z) z"
  using assms unfolding r_shortv_porter_def in_window_def
  by (auto intro!: win_intro safe_intro lookedI)

lemma r_R1_porter_wp [simp]:
  "length (z_I z) = 2 \<Longrightarrow> wpf r_R1_porter Q z \<longleftrightarrow> Q (if z_I z ! 0 \<le> z_c z then 1 else 0) z"
  unfolding r_R1_porter_def by simp

lemma r_R2_porter_wp [simp]:
  "length (z_I z) = 2 \<Longrightarrow> wpf r_R2_porter Q z \<longleftrightarrow> Q (if z_I z ! 1 \<le> z_c z then 1 else 0) z"
  unfolding r_R2_porter_def by simp

lemmas r_shortv_porter_safe [win_intro] = looked_wp [OF r_shortv_porter_looks]

lemma r_Step_1a_porter_steps:
  assumes "in_window z"
  shows "wpf r_Step_1a_porter (stepped z) z"
  using assms unfolding r_Step_1a_porter_def in_window_def
  by (auto intro!: win_intro safe_intro simp: step_defs)

lemma r_Step_1b_porter_steps:
  assumes "in_window z" "length (z_I z) = 2"
  shows "wpf r_Step_1b_porter (stepped z) z"
  using assms unfolding r_Step_1b_porter_def in_window_def
  by (auto intro!: win_intro safe_intro simp: step_defs)

lemma r_Step_1c_porter_steps:
  assumes "in_window z"
  shows "wpf r_Step_1c_porter (stepped z) z"
  using assms unfolding r_Step_1c_porter_def in_window_def
  by (auto intro!: win_intro safe_intro simp: step_defs)

lemma r_Step_2_porter_steps:
  assumes "in_window z" "length (z_I z) = 2"
  shows "wpf r_Step_2_porter (stepped z) z"
  using assms unfolding r_Step_2_porter_def in_window_def
  by (auto intro!: win_intro safe_intro simp: step_defs)

lemma r_Step_3_porter_steps:
  assumes "in_window z" "length (z_I z) = 2"
  shows "wpf r_Step_3_porter (stepped z) z"
  using assms unfolding r_Step_3_porter_def in_window_def
  by (auto intro!: win_intro safe_intro simp: step_defs)

lemma r_Step_4_porter_steps:
  assumes "in_window z" "length (z_I z) = 2"
  shows "wpf r_Step_4_porter (stepped z) z"
  using assms unfolding r_Step_4_porter_def in_window_def
  by (auto intro!: win_intro safe_intro simp: step_defs)

lemma r_Step_5a_porter_steps:
  assumes "in_window z" "length (z_I z) = 2"
  shows "wpf r_Step_5a_porter (stepped z) z"
  using assms unfolding r_Step_5a_porter_def in_window_def
  by (auto intro!: win_intro safe_intro simp: step_defs)

lemma r_Step_5b_porter_steps:
  assumes "in_window z" "length (z_I z) = 2"
  shows "wpf r_Step_5b_porter (stepped z) z"
  using assms unfolding r_Step_5b_porter_def in_window_def
  by (auto intro!: win_intro safe_intro simp: step_defs)

lemmas porter_routine_steps = r_Step_1a_porter_steps r_Step_1b_porter_steps r_Step_1c_porter_steps
  r_Step_2_porter_steps r_Step_3_porter_steps r_Step_4_porter_steps r_Step_5a_porter_steps r_Step_5b_porter_steps

subsection \<open>Loops\<close>

lemma porter_while1_seeks: "seeks porter_UTF_8_stem_while1 2 (CHR ''y'')"
  unfolding seeks_def porter_UTF_8_stem_while1_def
  by (intro allI impI, rule wp_search) (auto intro!: win_intro simp: sought_def moved_iff s_31_porter_def)

lemma porter_while3_seeks: "seeks porter_UTF_8_stem_while3 14 (CHR ''Y'')"
  unfolding seeks_def porter_UTF_8_stem_while3_def
  by (intro allI impI, rule wp_search) (auto intro!: win_intro simp: sought_def moved_iff s_33_porter_def)

lemmas porter_while2_wp = overwrite_loop_B_wp [OF porter_while1_seeks, of "CHR ''Y''" _ 0,
  folded s_32_porter_def, folded porter_UTF_8_stem_while2_def]

lemmas porter_while4_wp = overwrite_loop_wp [OF porter_while3_seeks, of "CHR ''y''",
  folded s_34_porter_def, folded porter_UTF_8_stem_while4_def]

subsection \<open>The stemmer\<close>

lemma porter_stem_steps:
  assumes "in_window z" "z_c z = 0" "strs_ok (z_S z)" "length (z_I z) = 2" "length (z_B z) = 1"
  shows "wpf porter_UTF_8_stem (fitted z) z"
  unfolding porter_UTF_8_stem_def wpf_fun
  apply (rule wp_cut [where n = 3 and J = "\<lambda>z'. fits z z' \<and> z_c z' = 0"], simp, simp)
  subgoal using assms by (auto intro!: win_intro safe_intro porter_while2_wp simp: fitted_def step_defs kept_B_def fits_def)
   apply (erule wp_stage [where n = 5 and J' = "at_end any_marks z"], simp, simp)
  subgoal using assms by (auto intro!: win_intro safe_intro simp: fitted_def step_defs fits_def at_end_def)
    apply (erule wp_stage [where n = 8 and J' = "at_end any_marks z"], simp, simp)
  subgoal using assms by (auto intro!: wp_try_at_end [where orig = z and P = any_marks] porter_routine_steps simp: fitted_def)
  subgoal using assms by (auto intro!: win_intro safe_intro porter_while4_wp simp: step_defs fits_def at_end_def fitted_def)
  done

interpretation porter: steady_stemmer porter_UTF_8_stem 2 1
  by unfold_locales (auto intro!: wpf_mono [OF porter_stem_steps])

end
