(* ===== verification/English.thy ===== *)
theory English
  imports Libstemmer
begin

text \<open>
  The English stemmer (\<^verbatim>\<open>src_c/stem_UTF_8_english.c\<close>): its search tables, character groups and
  strings, its routines statement by statement, and the entry points. Every routine keeps the window of the
  text and does not lengthen it, every loop ends, and the stemmer meets the contract of a language.
\<close>

subsection \<open>Tables\<close>

definition a_0_english :: "among list" where
  "a_0_english = [
    amg 5 ''arsen'' (- 1) (- 1),
    amg 6 ''commun'' (- 1) (- 1),
    amg 5 ''gener'' (- 1) (- 1)]"

definition a_1_english :: "among list" where
  "a_1_english = [
    amg 1 [CHR 0x27] (- 1) 1,
    amg 3 [CHR 0x27, CHR ''s'', CHR 0x27] 0 1,
    amg 2 [CHR 0x27, CHR ''s''] (- 1) 1]"

definition a_2_english :: "among list" where
  "a_2_english = [
    amg 3 ''ied'' (- 1) 2,
    amg 1 ''s'' (- 1) 3,
    amg 3 ''ies'' 1 2,
    amg 4 ''sses'' 1 1,
    amg 2 ''ss'' 1 (- 1),
    amg 2 ''us'' 1 (- 1)]"

definition a_3_english :: "among list" where
  "a_3_english = [
    amg 0 [] (- 1) 3,
    amg 2 ''bb'' 0 2,
    amg 2 ''dd'' 0 2,
    amg 2 ''ff'' 0 2,
    amg 2 ''gg'' 0 2,
    amg 2 ''bl'' 0 1,
    amg 2 ''mm'' 0 2,
    amg 2 ''nn'' 0 2,
    amg 2 ''pp'' 0 2,
    amg 2 ''rr'' 0 2,
    amg 2 ''at'' 0 1,
    amg 2 ''tt'' 0 2,
    amg 2 ''iz'' 0 1]"

definition a_4_english :: "among list" where
  "a_4_english = [
    amg 2 ''ed'' (- 1) 2,
    amg 3 ''eed'' 0 1,
    amg 3 ''ing'' (- 1) 2,
    amg 4 ''edly'' (- 1) 2,
    amg 5 ''eedly'' 3 1,
    amg 5 ''ingly'' (- 1) 2]"

definition a_5_english :: "among list" where
  "a_5_english = [
    amg 4 ''anci'' (- 1) 3,
    amg 4 ''enci'' (- 1) 2,
    amg 3 ''ogi'' (- 1) 13,
    amg 2 ''li'' (- 1) 16,
    amg 3 ''bli'' 3 12,
    amg 4 ''abli'' 4 4,
    amg 4 ''alli'' 3 8,
    amg 5 ''fulli'' 3 14,
    amg 6 ''lessli'' 3 15,
    amg 5 ''ousli'' 3 10,
    amg 5 ''entli'' 3 5,
    amg 5 ''aliti'' (- 1) 8,
    amg 6 ''biliti'' (- 1) 12,
    amg 5 ''iviti'' (- 1) 11,
    amg 6 ''tional'' (- 1) 1,
    amg 7 ''ational'' 14 7,
    amg 5 ''alism'' (- 1) 8,
    amg 5 ''ation'' (- 1) 7,
    amg 7 ''ization'' 17 6,
    amg 4 ''izer'' (- 1) 6,
    amg 4 ''ator'' (- 1) 7,
    amg 7 ''iveness'' (- 1) 11,
    amg 7 ''fulness'' (- 1) 9,
    amg 7 ''ousness'' (- 1) 10]"

definition a_6_english :: "among list" where
  "a_6_english = [
    amg 5 ''icate'' (- 1) 4,
    amg 5 ''ative'' (- 1) 6,
    amg 5 ''alize'' (- 1) 3,
    amg 5 ''iciti'' (- 1) 4,
    amg 4 ''ical'' (- 1) 4,
    amg 6 ''tional'' (- 1) 1,
    amg 7 ''ational'' 5 2,
    amg 3 ''ful'' (- 1) 5,
    amg 4 ''ness'' (- 1) 5]"

definition a_7_english :: "among list" where
  "a_7_english = [
    amg 2 ''ic'' (- 1) 1,
    amg 4 ''ance'' (- 1) 1,
    amg 4 ''ence'' (- 1) 1,
    amg 4 ''able'' (- 1) 1,
    amg 4 ''ible'' (- 1) 1,
    amg 3 ''ate'' (- 1) 1,
    amg 3 ''ive'' (- 1) 1,
    amg 3 ''ize'' (- 1) 1,
    amg 3 ''iti'' (- 1) 1,
    amg 2 ''al'' (- 1) 1,
    amg 3 ''ism'' (- 1) 1,
    amg 3 ''ion'' (- 1) 2,
    amg 2 ''er'' (- 1) 1,
    amg 3 ''ous'' (- 1) 1,
    amg 3 ''ant'' (- 1) 1,
    amg 3 ''ent'' (- 1) 1,
    amg 4 ''ment'' 15 1,
    amg 5 ''ement'' 16 1]"

definition a_8_english :: "among list" where
  "a_8_english = [
    amg 1 ''e'' (- 1) 1,
    amg 1 ''l'' (- 1) 2]"

definition a_9_english :: "among list" where
  "a_9_english = [
    amg 7 ''succeed'' (- 1) (- 1),
    amg 7 ''proceed'' (- 1) (- 1),
    amg 6 ''exceed'' (- 1) (- 1),
    amg 7 ''canning'' (- 1) (- 1),
    amg 6 ''inning'' (- 1) (- 1),
    amg 7 ''earring'' (- 1) (- 1),
    amg 7 ''herring'' (- 1) (- 1),
    amg 6 ''outing'' (- 1) (- 1)]"

definition a_10_english :: "among list" where
  "a_10_english = [
    amg 5 ''andes'' (- 1) (- 1),
    amg 5 ''atlas'' (- 1) (- 1),
    amg 4 ''bias'' (- 1) (- 1),
    amg 6 ''cosmos'' (- 1) (- 1),
    amg 5 ''dying'' (- 1) 3,
    amg 5 ''early'' (- 1) 9,
    amg 6 ''gently'' (- 1) 7,
    amg 4 ''howe'' (- 1) (- 1),
    amg 4 ''idly'' (- 1) 6,
    amg 5 ''lying'' (- 1) 4,
    amg 4 ''news'' (- 1) (- 1),
    amg 4 ''only'' (- 1) 10,
    amg 6 ''singly'' (- 1) 11,
    amg 5 ''skies'' (- 1) 2,
    amg 4 ''skis'' (- 1) 1,
    amg 3 ''sky'' (- 1) (- 1),
    amg 5 ''tying'' (- 1) 5,
    amg 4 ''ugly'' (- 1) 8]"

definition g_v_english :: "int list" where
  "g_v_english = [17, 65, 16, 1]"

definition g_v_WXY_english :: "int list" where
  "g_v_WXY_english = [1, 17, 65, 208, 1]"

definition g_valid_LI_english :: "int list" where
  "g_valid_LI_english = [55, 141, 2]"

subsection \<open>Strings\<close>

definition s_0_english :: "symbol list" where
  "s_0_english = [CHR 0x27]"

definition s_1_english :: "symbol list" where
  "s_1_english = ''y''"

definition s_2_english :: "symbol list" where
  "s_2_english = ''Y''"

definition s_3_english :: "symbol list" where
  "s_3_english = ''y''"

definition s_4_english :: "symbol list" where
  "s_4_english = ''Y''"

definition s_5_english :: "symbol list" where
  "s_5_english = ''ss''"

definition s_6_english :: "symbol list" where
  "s_6_english = ''i''"

definition s_7_english :: "symbol list" where
  "s_7_english = ''ie''"

definition s_8_english :: "symbol list" where
  "s_8_english = ''ee''"

definition s_9_english :: "symbol list" where
  "s_9_english = ''e''"

definition s_10_english :: "symbol list" where
  "s_10_english = ''e''"

definition s_11_english :: "symbol list" where
  "s_11_english = ''y''"

definition s_12_english :: "symbol list" where
  "s_12_english = ''Y''"

definition s_13_english :: "symbol list" where
  "s_13_english = ''i''"

definition s_14_english :: "symbol list" where
  "s_14_english = ''tion''"

definition s_15_english :: "symbol list" where
  "s_15_english = ''ence''"

definition s_16_english :: "symbol list" where
  "s_16_english = ''ance''"

definition s_17_english :: "symbol list" where
  "s_17_english = ''able''"

definition s_18_english :: "symbol list" where
  "s_18_english = ''ent''"

definition s_19_english :: "symbol list" where
  "s_19_english = ''ize''"

definition s_20_english :: "symbol list" where
  "s_20_english = ''ate''"

definition s_21_english :: "symbol list" where
  "s_21_english = ''al''"

definition s_22_english :: "symbol list" where
  "s_22_english = ''ful''"

definition s_23_english :: "symbol list" where
  "s_23_english = ''ous''"

definition s_24_english :: "symbol list" where
  "s_24_english = ''ive''"

definition s_25_english :: "symbol list" where
  "s_25_english = ''ble''"

definition s_26_english :: "symbol list" where
  "s_26_english = ''l''"

definition s_27_english :: "symbol list" where
  "s_27_english = ''og''"

definition s_28_english :: "symbol list" where
  "s_28_english = ''ful''"

definition s_29_english :: "symbol list" where
  "s_29_english = ''less''"

definition s_30_english :: "symbol list" where
  "s_30_english = ''tion''"

definition s_31_english :: "symbol list" where
  "s_31_english = ''ate''"

definition s_32_english :: "symbol list" where
  "s_32_english = ''al''"

definition s_33_english :: "symbol list" where
  "s_33_english = ''ic''"

definition s_34_english :: "symbol list" where
  "s_34_english = ''s''"

definition s_35_english :: "symbol list" where
  "s_35_english = ''t''"

definition s_36_english :: "symbol list" where
  "s_36_english = ''l''"

definition s_37_english :: "symbol list" where
  "s_37_english = ''ski''"

definition s_38_english :: "symbol list" where
  "s_38_english = ''sky''"

definition s_39_english :: "symbol list" where
  "s_39_english = ''die''"

definition s_40_english :: "symbol list" where
  "s_40_english = ''lie''"

definition s_41_english :: "symbol list" where
  "s_41_english = ''tie''"

definition s_42_english :: "symbol list" where
  "s_42_english = ''idl''"

definition s_43_english :: "symbol list" where
  "s_43_english = ''gentl''"

definition s_44_english :: "symbol list" where
  "s_44_english = ''ugli''"

definition s_45_english :: "symbol list" where
  "s_45_english = ''earli''"

definition s_46_english :: "symbol list" where
  "s_46_english = ''onli''"

definition s_47_english :: "symbol list" where
  "s_47_english = ''singl''"

definition s_48_english :: "symbol list" where
  "s_48_english = ''Y''"

definition s_49_english :: "symbol list" where
  "s_49_english = ''y''"

subsection \<open>Code\<close>

definition r_prelude_english_while1 :: "sn_cmd" where
  "r_prelude_english_while1 = c_while1 (c_block [
      c_let z_c (\<lambda>c5. c_block [
        c_upto 4 [
          when_true (in_grouping_U g_v_english 97 121 0) (c_goto 4),
          set_bra z_c,
          unless (eq_s 1 s_3_english) (c_goto 4),
          set_ket z_c,
          set_c (\<lambda>_. c5),
          c_break],
        set_c (\<lambda>_. c5),
        move_to (skip_utf8_z (\<lambda>_. 0) z_l 1) (c_goto 3)])])"

definition r_prelude_english_while2 :: "sn_cmd" where
  "r_prelude_english_while2 = c_while1 (c_block [
      c_let z_c (\<lambda>c4. c_block [
        c_upto 3 [
          r_prelude_english_while1,
          check (slice_from_s 1 s_4_english),
          set_B 0 1,
          c_continue],
        set_c (\<lambda>_. c4),
        c_break])])"

definition r_prelude_english :: "sn_func" where
  "r_prelude_english = c_fun [
    set_B 0 0,
    c_let z_c (\<lambda>c1. c_block [
      set_bra z_c,
      c_upto 0 [
        unless (eq_s 1 s_0_english) (c_goto 0),
        set_ket z_c,
        check slice_del],
      set_c (\<lambda>_. c1)]),
    c_let z_c (\<lambda>c2. c_block [
      set_bra z_c,
      c_upto 1 [
        unless (eq_s 1 s_1_english) (c_goto 1),
        set_ket z_c,
        check (slice_from_s 1 s_2_english),
        set_B 0 1],
      set_c (\<lambda>_. c2)]),
    c_let z_c (\<lambda>c3. c_block [
      r_prelude_english_while2,
      set_c (\<lambda>_. c3)]),
    c_return 1]"

definition r_mark_regions_english :: "sn_func" where
  "r_mark_regions_english = c_fun [
    set_I 0 z_l,
    set_I 1 z_l,
    c_let z_c (\<lambda>c1. c_block [
      c_upto 0 [
        c_upto 1 [
          c_let z_c (\<lambda>c2. c_block [
            c_upto 2 [
              c_if (head_guard 4 (not_in_mask 3 2375680)) (c_goto 2),
              unless (find_among a_0_english 3) (c_goto 2),
              c_goto 1],
            set_c (\<lambda>_. c2),
            advance (out_grouping_U g_v_english 97 121 1) (c_goto 0),
            advance (in_grouping_U g_v_english 97 121 1) (c_goto 0)])],
        set_I 0 z_c,
        advance (out_grouping_U g_v_english 97 121 1) (c_goto 0),
        advance (in_grouping_U g_v_english 97 121 1) (c_goto 0),
        set_I 1 z_c],
      set_c (\<lambda>_. c1)]),
    c_return 1]"

definition r_shortv_english :: "sn_func" where
  "r_shortv_english = c_fun [
    c_upto 0 [
      c_let (\<lambda>z. z_l z - z_c z) (\<lambda>m1. c_block [
        c_upto 1 [
          when_true (out_grouping_b_U g_v_WXY_english 89 121 0) (c_goto 1),
          when_true (in_grouping_b_U g_v_english 97 121 0) (c_goto 1),
          when_true (out_grouping_b_U g_v_english 97 121 0) (c_goto 1),
          c_goto 0],
        set_c (\<lambda>z. z_l z - m1),
        when_true (out_grouping_b_U g_v_english 97 121 0) (c_return 0),
        when_true (in_grouping_b_U g_v_english 97 121 0) (c_return 0),
        c_if (test (\<lambda>z. z_c z > z_lb z)) (c_return 0)])],
    c_return 1]"

definition r_R1_english :: "sn_func" where
  "r_R1_english = c_fun [
    c_if (on_I 0 (\<lambda>z i. \<not> i \<le> z_c z)) (c_return 0),
    c_return 1]"

definition r_R2_english :: "sn_func" where
  "r_R2_english = c_fun [
    c_if (on_I 1 (\<lambda>z i. \<not> i \<le> z_c z)) (c_return 0),
    c_return 1]"

definition r_Step_1a_english :: "sn_func" where
  "r_Step_1a_english = c_fun [
    c_let (\<lambda>z. z_l z - z_c z) (\<lambda>m_keep. c_block [
      set_ket z_c,
      c_upto 0 [
        c_if (tail_guard 0 (\<lambda>ch. ch \<noteq> 39 \<and> ch \<noteq> 115)) (
          c_block [
            set_c (\<lambda>z. z_l z - m_keep),
            c_goto 0]),
        c_call (find_among_b a_1_english 3) (\<lambda>among_var. c_block [
          c_if (test (\<lambda>_. among_var = 0)) (
            c_block [
              set_c (\<lambda>z. z_l z - m_keep),
              c_goto 0]),
          set_bra z_c,
          c_switch among_var [
            (0, c_block [
              c_block [
                set_c (\<lambda>z. z_l z - m_keep),
                c_goto 0]]),
            (1, c_block [
              check slice_del,
              c_break])]])]]),
    set_ket z_c,
    c_if (tail_guard 0 (\<lambda>ch. ch \<noteq> 100 \<and> ch \<noteq> 115)) (c_return 0),
    c_call (find_among_b a_2_english 6) (\<lambda>among_var. c_block [
      c_if (test (\<lambda>_. among_var = 0)) (c_return 0),
      set_bra z_c,
      c_switch among_var [
        (0, c_block [
          c_return 0]),
        (1, c_block [
          check (slice_from_s 2 s_5_english),
          c_break]),
        (2, c_block [
          c_upto 1 [
            c_let (\<lambda>z. z_l z - z_c z) (\<lambda>m1. c_block [
              c_upto 2 [
                move_to (skip_utf8_z z_lb z_l (- 2)) (c_goto 2),
                check (slice_from_s 1 s_6_english),
                c_goto 1],
              set_c (\<lambda>z. z_l z - m1),
              check (slice_from_s 2 s_7_english)])],
          c_break]),
        (3, c_block [
          move_to (skip_utf8_z z_lb (\<lambda>_. 0) (- 1)) (c_return 0),
          retreat (out_grouping_b_U g_v_english 97 121 1) (c_return 0),
          check slice_del,
          c_break])],
      c_return 1])]"

definition r_Step_1b_english :: "sn_func" where
  "r_Step_1b_english = c_fun [
    set_ket z_c,
    c_if (tail_guard 1 (not_in_mask 3 33554576)) (c_return 0),
    c_call (find_among_b a_4_english 6) (\<lambda>among_var. c_block [
      c_if (test (\<lambda>_. among_var = 0)) (c_return 0),
      set_bra z_c,
      c_switch among_var [
        (0, c_block [
          c_return 0]),
        (1, c_block [
          routine r_R1_english (c_return 0),
          check (slice_from_s 2 s_8_english),
          c_break]),
        (2, c_block [
          c_let (\<lambda>z. z_l z - z_c z) (\<lambda>m_test. c_block [
            retreat (out_grouping_b_U g_v_english 97 121 1) (c_return 0),
            set_c (\<lambda>z. z_l z - m_test)]),
          check slice_del,
          c_let (\<lambda>z. z_l z - z_c z) (\<lambda>m_test. c_block [
            c_call (or_else (tail_guard 1 (not_in_mask 3 68514004)) 3 (find_among_b a_3_english 13)) (\<lambda>among_var. c_block [
              c_if (test (\<lambda>_. among_var = 0)) (c_return 0),
              set_c (\<lambda>z. z_l z - m_test),
              c_switch among_var [
                (0, c_block [
                  c_return 0]),
                (1, c_block [
                  check_keep_c (insert_s_at z_c z_c 1 s_9_english),
                  c_break]),
                (2, c_block [
                  set_ket z_c,
                  move_to (skip_utf8_z z_lb (\<lambda>_. 0) (- 1)) (c_return 0),
                  set_bra z_c,
                  check slice_del,
                  c_break]),
                (3, c_block [
                  c_if (on_I 0 (\<lambda>z i. z_c z \<noteq> i)) (c_return 0),
                  c_let (\<lambda>z. z_l z - z_c z) (\<lambda>m_test. c_block [
                    routine r_shortv_english (c_return 0),
                    set_c (\<lambda>z. z_l z - m_test)]),
                  check_keep_c (insert_s_at z_c z_c 1 s_10_english),
                  c_break])],
              c_break])])])],
      c_return 1])]"

definition r_Step_1c_english :: "sn_func" where
  "r_Step_1c_english = c_fun [
    set_ket z_c,
    c_upto 0 [
      c_let (\<lambda>z. z_l z - z_c z) (\<lambda>m1. c_block [
        c_upto 1 [
          unless (eq_s_b 1 s_11_english) (c_goto 1),
          c_goto 0],
        set_c (\<lambda>z. z_l z - m1),
        unless (eq_s_b 1 s_12_english) (c_return 0)])],
    set_bra z_c,
    when_true (out_grouping_b_U g_v_english 97 121 0) (c_return 0),
    c_let (\<lambda>z. z_l z - z_c z) (\<lambda>m2. c_block [
      c_upto 2 [
        c_if (test (\<lambda>z. z_c z > z_lb z)) (c_goto 2),
        c_return 0],
      set_c (\<lambda>z. z_l z - m2)]),
    check (slice_from_s 1 s_13_english),
    c_return 1]"

definition r_Step_2_english :: "sn_func" where
  "r_Step_2_english = c_fun [
    set_ket z_c,
    c_if (tail_guard 1 (not_in_mask 3 815616)) (c_return 0),
    c_call (find_among_b a_5_english 24) (\<lambda>among_var. c_block [
      c_if (test (\<lambda>_. among_var = 0)) (c_return 0),
      set_bra z_c,
      routine r_R1_english (c_return 0),
      c_switch among_var [
        (0, c_block [
          c_return 0]),
        (1, c_block [
          check (slice_from_s 4 s_14_english),
          c_break]),
        (2, c_block [
          check (slice_from_s 4 s_15_english),
          c_break]),
        (3, c_block [
          check (slice_from_s 4 s_16_english),
          c_break]),
        (4, c_block [
          check (slice_from_s 4 s_17_english),
          c_break]),
        (5, c_block [
          check (slice_from_s 3 s_18_english),
          c_break]),
        (6, c_block [
          check (slice_from_s 3 s_19_english),
          c_break]),
        (7, c_block [
          check (slice_from_s 3 s_20_english),
          c_break]),
        (8, c_block [
          check (slice_from_s 2 s_21_english),
          c_break]),
        (9, c_block [
          check (slice_from_s 3 s_22_english),
          c_break]),
        (10, c_block [
          check (slice_from_s 3 s_23_english),
          c_break]),
        (11, c_block [
          check (slice_from_s 3 s_24_english),
          c_break]),
        (12, c_block [
          check (slice_from_s 3 s_25_english),
          c_break]),
        (13, c_block [
          unless (eq_s_b 1 s_26_english) (c_return 0),
          check (slice_from_s 2 s_27_english),
          c_break]),
        (14, c_block [
          check (slice_from_s 3 s_28_english),
          c_break]),
        (15, c_block [
          check (slice_from_s 4 s_29_english),
          c_break]),
        (16, c_block [
          when_true (in_grouping_b_U g_valid_LI_english 99 116 0) (c_return 0),
          check slice_del,
          c_break])],
      c_return 1])]"

definition r_Step_3_english :: "sn_func" where
  "r_Step_3_english = c_fun [
    set_ket z_c,
    c_if (tail_guard 2 (not_in_mask 3 528928)) (c_return 0),
    c_call (find_among_b a_6_english 9) (\<lambda>among_var. c_block [
      c_if (test (\<lambda>_. among_var = 0)) (c_return 0),
      set_bra z_c,
      routine r_R1_english (c_return 0),
      c_switch among_var [
        (0, c_block [
          c_return 0]),
        (1, c_block [
          check (slice_from_s 4 s_30_english),
          c_break]),
        (2, c_block [
          check (slice_from_s 3 s_31_english),
          c_break]),
        (3, c_block [
          check (slice_from_s 2 s_32_english),
          c_break]),
        (4, c_block [
          check (slice_from_s 2 s_33_english),
          c_break]),
        (5, c_block [
          check slice_del,
          c_break]),
        (6, c_block [
          routine r_R2_english (c_return 0),
          check slice_del,
          c_break])],
      c_return 1])]"

definition r_Step_4_english :: "sn_func" where
  "r_Step_4_english = c_fun [
    set_ket z_c,
    c_if (tail_guard 1 (not_in_mask 3 1864232)) (c_return 0),
    c_call (find_among_b a_7_english 18) (\<lambda>among_var. c_block [
      c_if (test (\<lambda>_. among_var = 0)) (c_return 0),
      set_bra z_c,
      routine r_R2_english (c_return 0),
      c_switch among_var [
        (0, c_block [
          c_return 0]),
        (1, c_block [
          check slice_del,
          c_break]),
        (2, c_block [
          c_upto 0 [
            c_let (\<lambda>z. z_l z - z_c z) (\<lambda>m1. c_block [
              c_upto 1 [
                unless (eq_s_b 1 s_34_english) (c_goto 1),
                c_goto 0],
              set_c (\<lambda>z. z_l z - m1),
              unless (eq_s_b 1 s_35_english) (c_return 0)])],
          check slice_del,
          c_break])],
      c_return 1])]"

definition r_Step_5_english :: "sn_func" where
  "r_Step_5_english = c_fun [
    set_ket z_c,
    c_if (tail_guard 0 (\<lambda>ch. ch \<noteq> 101 \<and> ch \<noteq> 108)) (c_return 0),
    c_call (find_among_b a_8_english 2) (\<lambda>among_var. c_block [
      c_if (test (\<lambda>_. among_var = 0)) (c_return 0),
      set_bra z_c,
      c_switch among_var [
        (0, c_block [
          c_return 0]),
        (1, c_block [
          c_upto 0 [
            c_let (\<lambda>z. z_l z - z_c z) (\<lambda>m1. c_block [
              c_upto 1 [
                routine r_R2_english (c_goto 1),
                c_goto 0],
              set_c (\<lambda>z. z_l z - m1),
              routine r_R1_english (c_return 0),
              c_let (\<lambda>z. z_l z - z_c z) (\<lambda>m2. c_block [
                c_upto 2 [
                  routine r_shortv_english (c_goto 2),
                  c_return 0],
                set_c (\<lambda>z. z_l z - m2)])])],
          check slice_del,
          c_break]),
        (2, c_block [
          routine r_R2_english (c_return 0),
          unless (eq_s_b 1 s_36_english) (c_return 0),
          check slice_del,
          c_break])],
      c_return 1])]"

definition r_exception2_english :: "sn_func" where
  "r_exception2_english = c_fun [
    set_ket z_c,
    c_if (tail_guard 5 (\<lambda>ch. ch \<noteq> 100 \<and> ch \<noteq> 103)) (c_return 0),
    unless (find_among_b a_9_english 8) (c_return 0),
    set_bra z_c,
    c_if (test (\<lambda>z. z_c z > z_lb z)) (c_return 0),
    c_return 1]"

definition r_exception1_english :: "sn_func" where
  "r_exception1_english = c_fun [
    set_bra z_c,
    c_if (head_guard 2 (not_in_mask 3 42750482)) (c_return 0),
    c_call (find_among a_10_english 18) (\<lambda>among_var. c_block [
      c_if (test (\<lambda>_. among_var = 0)) (c_return 0),
      set_ket z_c,
      c_if (test (\<lambda>z. z_c z < z_l z)) (c_return 0),
      c_switch among_var [
        (0, c_block [
          c_return 0]),
        (1, c_block [
          check (slice_from_s 3 s_37_english),
          c_break]),
        (2, c_block [
          check (slice_from_s 3 s_38_english),
          c_break]),
        (3, c_block [
          check (slice_from_s 3 s_39_english),
          c_break]),
        (4, c_block [
          check (slice_from_s 3 s_40_english),
          c_break]),
        (5, c_block [
          check (slice_from_s 3 s_41_english),
          c_break]),
        (6, c_block [
          check (slice_from_s 3 s_42_english),
          c_break]),
        (7, c_block [
          check (slice_from_s 5 s_43_english),
          c_break]),
        (8, c_block [
          check (slice_from_s 4 s_44_english),
          c_break]),
        (9, c_block [
          check (slice_from_s 5 s_45_english),
          c_break]),
        (10, c_block [
          check (slice_from_s 4 s_46_english),
          c_break]),
        (11, c_block [
          check (slice_from_s 5 s_47_english),
          c_break])],
      c_return 1])]"

definition r_postlude_english_while1 :: "sn_cmd" where
  "r_postlude_english_while1 = c_while1 (c_block [
      c_let z_c (\<lambda>c2. c_block [
        set_bra z_c,
        c_upto 1 [
          unless (eq_s 1 s_48_english) (c_goto 1),
          set_ket z_c,
          set_c (\<lambda>_. c2),
          c_break],
        set_c (\<lambda>_. c2),
        move_to (skip_utf8_z (\<lambda>_. 0) z_l 1) (c_goto 0)])])"

definition r_postlude_english_while2 :: "sn_cmd" where
  "r_postlude_english_while2 = c_while1 (c_block [
      c_let z_c (\<lambda>c1. c_block [
        c_upto 0 [
          r_postlude_english_while1,
          check (slice_from_s 1 s_49_english),
          c_continue],
        set_c (\<lambda>_. c1),
        c_break])])"

definition r_postlude_english :: "sn_func" where
  "r_postlude_english = c_fun [
    c_if (on_B 0 (\<lambda>v. v = 0)) (c_return 0),
    r_postlude_english_while2,
    c_return 1]"

definition english_UTF_8_stem_steps :: "sn_cmd" where
  "english_UTF_8_stem_steps = c_let (\<lambda>z. z_l z - z_c z) (\<lambda>m6. c_block [
      c_upto 8 [
        routine r_exception2_english (c_goto 8),
        c_goto 7],
      set_c (\<lambda>z. z_l z - m6),
      try_b 9 r_Step_1b_english,
      try_b 10 r_Step_1c_english,
      try_b 11 r_Step_2_english,
      try_b 12 r_Step_3_english,
      try_b 13 r_Step_4_english,
      try_b 14 r_Step_5_english])"

definition english_UTF_8_stem :: "sn_func" where
  "english_UTF_8_stem = c_fun [
    c_upto 0 [
      c_let z_c (\<lambda>c1. c_block [
        c_upto 1 [
          routine r_exception1_english (c_goto 1),
          c_goto 0],
        set_c (\<lambda>_. c1),
        c_upto 2 [
          c_let z_c (\<lambda>c2. c_block [
            c_upto 3 [
              move_to (skip_utf8_z (\<lambda>_. 0) z_l 3) (c_goto 3),
              c_goto 2],
            set_c (\<lambda>_. c2)]),
          c_goto 0],
        set_c (\<lambda>_. c1),
        try_f 4 r_prelude_english,
        try_f 5 r_mark_regions_english,
        set_lb z_c,
        set_c z_l,
        try_b 6 r_Step_1a_english,
        c_upto 7 [
          english_UTF_8_stem_steps],
        set_c z_lb,
        try_f 15 r_postlude_english])],
    c_return 1]"

definition english_UTF_8_create_env :: "env_create" where
  "english_UTF_8_create_env = SN_create_env 0 2 1"

definition english_UTF_8_close_env :: "env_close" where
  "english_UTF_8_close_env z = SN_close_env z 0"

subsection \<open>Facts on the tables\<close>

lemma tables_english [simp]:
  "table_f a_0_english" "table_b a_1_english" "table_b a_2_english" "table_b a_3_english"
  "table_b a_4_english" "table_b a_5_english" "table_b a_6_english" "table_b a_7_english"
  "table_b a_8_english" "table_b a_9_english" "table_f a_10_english"
  by (rule table_sound, code_simp, code_simp)+

lemma length_tables_english [simp]:
  "length a_0_english = 3" "length a_1_english = 3" "length a_2_english = 6"
  "length a_3_english = 13" "length a_4_english = 6" "length a_5_english = 24"
  "length a_6_english = 9" "length a_7_english = 18" "length a_8_english = 2"
  "length a_9_english = 8" "length a_10_english = 18"
  by code_simp+

lemma least_english [simp]:
  "least a_1_english 1 = 1" "least a_2_english 1 = 4" "least a_2_english 2 = 3"
  "least a_2_english 3 = 1" "least a_3_english 1 = 2" "least a_3_english 2 = 2"
  "least a_3_english 3 = 0" "least a_4_english 1 = 3" "least a_4_english 2 = 2"
  "least a_5_english 1 = 6" "least a_5_english 10 = 5" "least a_5_english 11 = 5"
  "least a_5_english 12 = 3" "least a_5_english 13 = 3" "least a_5_english 14 = 5"
  "least a_5_english 15 = 6" "least a_5_english 16 = 2" "least a_5_english 2 = 4"
  "least a_5_english 3 = 4" "least a_5_english 4 = 4" "least a_5_english 5 = 5"
  "least a_5_english 6 = 4" "least a_5_english 7 = 4" "least a_5_english 8 = 4"
  "least a_5_english 9 = 7" "least a_6_english 1 = 6" "least a_6_english 2 = 7"
  "least a_6_english 3 = 5" "least a_6_english 4 = 4" "least a_6_english 5 = 3"
  "least a_6_english 6 = 5" "least a_7_english 1 = 2" "least a_7_english 2 = 3"
  "least a_8_english 1 = 1" "least a_8_english 2 = 1" "least a_10_english 1 = 4"
  "least a_10_english 10 = 4" "least a_10_english 11 = 6" "least a_10_english 2 = 5"
  "least a_10_english 3 = 5" "least a_10_english 4 = 5" "least a_10_english 5 = 5"
  "least a_10_english 6 = 4" "least a_10_english 7 = 6" "least a_10_english 8 = 4"
  "least a_10_english 9 = 5"
  by code_simp+

lemma lengths_english [simp]:
  "length s_0_english = 1" "length s_1_english = 1" "length s_2_english = 1"
  "length s_3_english = 1" "length s_4_english = 1" "length s_5_english = 2"
  "length s_6_english = 1" "length s_7_english = 2" "length s_8_english = 2"
  "length s_9_english = 1" "length s_10_english = 1" "length s_11_english = 1"
  "length s_12_english = 1" "length s_13_english = 1" "length s_14_english = 4"
  "length s_15_english = 4" "length s_16_english = 4" "length s_17_english = 4"
  "length s_18_english = 3" "length s_19_english = 3" "length s_20_english = 3"
  "length s_21_english = 2" "length s_22_english = 3" "length s_23_english = 3"
  "length s_24_english = 3" "length s_25_english = 3" "length s_26_english = 1"
  "length s_27_english = 2" "length s_28_english = 3" "length s_29_english = 4"
  "length s_30_english = 4" "length s_31_english = 3" "length s_32_english = 2"
  "length s_33_english = 2" "length s_34_english = 1" "length s_35_english = 1"
  "length s_36_english = 1" "length s_37_english = 3" "length s_38_english = 3"
  "length s_39_english = 3" "length s_40_english = 3" "length s_41_english = 3"
  "length s_42_english = 3" "length s_43_english = 5" "length s_44_english = 4"
  "length s_45_english = 5" "length s_46_english = 4" "length s_47_english = 5"
  "length s_48_english = 1" "length s_49_english = 1"
  by code_simp+

lemma covers_english [simp]:
  "covers g_v_WXY_english 89 121" "covers g_v_english 97 121" "covers g_valid_LI_english 99 116"
  by code_simp+

subsection \<open>Routines\<close>

lemma r_shortv_english_looks:
  assumes "in_window z"
  shows "wpf r_shortv_english (looked z) z"
  using assms unfolding r_shortv_english_def in_window_def
  by (auto intro!: win_intro lookedI)

lemma r_R1_english_wp [simp]:
  "length (z_I z) = 2 \<Longrightarrow> wpf r_R1_english Q z \<longleftrightarrow> Q (if z_I z ! 0 \<le> z_c z then 1 else 0) z"
  unfolding r_R1_english_def by simp

lemma r_R2_english_wp [simp]:
  "length (z_I z) = 2 \<Longrightarrow> wpf r_R2_english Q z \<longleftrightarrow> Q (if z_I z ! 1 \<le> z_c z then 1 else 0) z"
  unfolding r_R2_english_def by simp

lemmas r_shortv_english_safe [win_intro] = looked_wp [OF r_shortv_english_looks]

lemma r_Step_1a_english_steps:
  assumes "in_window z" "length (z_I z) = 2"
  shows "wpf r_Step_1a_english (stepped z) z"
  using assms unfolding r_Step_1a_english_def in_window_def
  by (auto intro!: win_intro safe_intro simp: step_defs)

lemma r_Step_1b_english_steps:
  assumes "in_window z" "length (z_I z) = 2"
  shows "wpf r_Step_1b_english (stepped z) z"
  using assms unfolding r_Step_1b_english_def in_window_def
  by (auto intro!: win_intro safe_intro simp: step_defs)

lemma r_Step_1c_english_steps:
  assumes "in_window z" "length (z_I z) = 2"
  shows "wpf r_Step_1c_english (stepped z) z"
  using assms unfolding r_Step_1c_english_def in_window_def
  by (auto intro!: win_intro safe_intro simp: step_defs)

lemma r_Step_2_english_steps:
  assumes "in_window z" "length (z_I z) = 2"
  shows "wpf r_Step_2_english (stepped z) z"
  using assms unfolding r_Step_2_english_def in_window_def
  by (auto intro!: win_intro safe_intro simp: step_defs)

lemma r_Step_3_english_steps:
  assumes "in_window z" "length (z_I z) = 2"
  shows "wpf r_Step_3_english (stepped z) z"
  using assms unfolding r_Step_3_english_def in_window_def
  by (auto intro!: win_intro safe_intro simp: step_defs)

lemma r_Step_4_english_steps:
  assumes "in_window z" "length (z_I z) = 2"
  shows "wpf r_Step_4_english (stepped z) z"
  using assms unfolding r_Step_4_english_def in_window_def
  by (auto intro!: win_intro safe_intro simp: step_defs)

lemma r_Step_5_english_steps:
  assumes "in_window z" "length (z_I z) = 2"
  shows "wpf r_Step_5_english (stepped z) z"
  using assms unfolding r_Step_5_english_def in_window_def
  by (auto intro!: win_intro safe_intro simp: step_defs)

lemma r_exception2_english_steps:
  assumes "in_window z" "length (z_I z) = 2"
  shows "wpf r_exception2_english (stepped z) z"
  using assms unfolding r_exception2_english_def in_window_def
  by (auto intro!: win_intro safe_intro simp: step_defs)

lemma r_exception1_english_steps:
  assumes "in_window z" "length (z_I z) = 2"
  shows "wpf r_exception1_english (stepped z) z"
  using assms unfolding r_exception1_english_def in_window_def
  by (auto intro!: win_intro safe_intro simp: step_defs)

lemmas english_routine_steps = r_Step_1a_english_steps r_Step_1b_english_steps r_Step_1c_english_steps
  r_Step_2_english_steps r_Step_3_english_steps r_Step_4_english_steps r_Step_5_english_steps

subsection \<open>Loops\<close>

lemma prelude_while1_english_seeks: "seeks r_prelude_english_while1 3 (CHR ''y'')"
  unfolding seeks_def r_prelude_english_while1_def
  by (intro allI impI, rule wp_search) (auto intro!: win_intro simp: sought_def moved_iff s_3_english_def)

lemma postlude_while1_english_seeks: "seeks r_postlude_english_while1 0 (CHR ''Y'')"
  unfolding seeks_def r_postlude_english_while1_def
  by (intro allI impI, rule wp_search) (auto intro!: win_intro simp: sought_def moved_iff s_48_english_def)

lemmas prelude_while2_english_wp = overwrite_loop_B_wp [OF prelude_while1_english_seeks, of "CHR ''Y''" _ 0,
  folded s_4_english_def, folded r_prelude_english_while2_def]

lemmas postlude_while2_english_wp = overwrite_loop_wp [OF postlude_while1_english_seeks, of "CHR ''y''",
  folded s_49_english_def, folded r_postlude_english_while2_def]

lemma r_prelude_english_wp:
  assumes "in_window z" "length (z_B z) = 1"
    and "\<And>z'. kept_B z z' \<Longrightarrow> z_l z' \<le> z_l z \<Longrightarrow> Q 1 z'"
  shows "wpf r_prelude_english Q z"
  using assms unfolding r_prelude_english_def in_window_def
  by (auto intro!: win_intro safe_intro prelude_while2_english_wp simp: step_defs kept_B_def)

lemma r_mark_regions_english_wp:
  assumes "in_window z" "length (z_I z) = 2" "\<And>z'. marked z z' \<Longrightarrow> Q 1 z'"
  shows "wpf r_mark_regions_english Q z"
  using assms unfolding r_mark_regions_english_def in_window_def
  by (auto intro!: win_intro simp: marked_iff)

lemma r_postlude_english_steps:
  assumes "in_window z" "length (z_B z) = 1"
  shows "wpf r_postlude_english (stepped z) z"
  using assms unfolding r_postlude_english_def in_window_def
  by (auto intro!: postlude_while2_english_wp simp: step_defs)

subsection \<open>The stemmer\<close>

lemma english_steps_wp:
  assumes "at_end any_marks z z1" "length (z_I z) = 2"
    and "\<And>z'. fits z z' \<Longrightarrow> Q Next z'" "\<And>z'. fits z z' \<Longrightarrow> Q (Goto 7) z'"
  shows "wp english_UTF_8_stem_steps Q z1"
  unfolding english_UTF_8_stem_steps_def
  apply (subst wp_let)
  apply (rule wp_cut [where n = 2 and J = "at_end any_marks z"], simp, simp)
  subgoal using assms by (auto intro!: stepped_wp [OF r_exception2_english_steps]
      simp: step_defs fits_def at_end_def)
  subgoal using assms(2-)
    by (auto intro!: wp_try_at_end [where orig = z and P = any_marks] english_routine_steps simp: at_end_def)
  done

lemma english_stem_steps:
  assumes "in_window z" "z_c z = 0" "strs_ok (z_S z)" "length (z_I z) = 2" "length (z_B z) = 1"
  shows "wpf english_UTF_8_stem (fitted z) z"
  unfolding english_UTF_8_stem_def wpf_fun
  apply (subst wp_block_Cons, subst wp_upto, subst wp_block_Cons, subst wp_let)
  apply (rule wp_cut [where n = 5 and J = "\<lambda>z'. fits z z' \<and> z_c z' = 0"], simp, simp)
  subgoal using assms by (auto intro!: win_intro stepped_wp [OF r_exception1_english_steps] r_prelude_english_wp
      simp: fitted_def step_defs kept_B_def fits_def)
  apply (erule wp_stage [where n = 3 and J' = "at_end any_marks z"], simp, simp)
  subgoal using assms by (auto intro!: r_mark_regions_english_wp
      simp: fitted_def step_defs fits_def at_end_def marked_iff)
  apply (erule wp_stage [where n = 1 and J' = "at_end any_marks z"], simp, simp)
  subgoal using assms by (auto intro!: wp_try_at_end [where orig = z and P = any_marks] english_routine_steps simp: fitted_def)
  apply (erule wp_stage [where n = 1 and J' = "fits z"], simp, simp)
  subgoal using assms by (auto intro!: english_steps_wp simp: fitted_def)
  subgoal using assms by (auto intro!: stepped_wp [OF r_postlude_english_steps]
     simp: step_defs fits_def at_end_def fitted_def)
  done

interpretation english: steady_stemmer english_UTF_8_stem 2 1
  by unfold_locales (auto intro!: wpf_mono [OF english_stem_steps])

end
