(* ===== verification/Russian.thy ===== *)
theory Russian
  imports Libstemmer
begin

text \<open>
  The Russian stemmer (\<^verbatim>\<open>src_c/stem_UTF_8_russian.c\<close>): its search tables, character groups and
  strings, its routines statement by statement, and the entry points. Every routine only cuts the end of the
  text off, so the stem is a prefix of the word; the stemmer meets the contract of a language.
\<close>

subsection \<open>Tables\<close>

definition a_0_russian :: "among list" where
  "a_0_russian = [
    amg 10 [CHR 0xD0, CHR 0xB2, CHR 0xD1, CHR 0x88, CHR 0xD0, CHR 0xB8, CHR 0xD1, CHR 0x81, CHR 0xD1, CHR 0x8C] (- 1) 1,
    amg 12 [CHR 0xD1, CHR 0x8B, CHR 0xD0, CHR 0xB2, CHR 0xD1, CHR 0x88, CHR 0xD0, CHR 0xB8, CHR 0xD1, CHR 0x81, CHR 0xD1, CHR 0x8C] 0 2,
    amg 12 [CHR 0xD0, CHR 0xB8, CHR 0xD0, CHR 0xB2, CHR 0xD1, CHR 0x88, CHR 0xD0, CHR 0xB8, CHR 0xD1, CHR 0x81, CHR 0xD1, CHR 0x8C] 0 2,
    amg 2 [CHR 0xD0, CHR 0xB2] (- 1) 1,
    amg 4 [CHR 0xD1, CHR 0x8B, CHR 0xD0, CHR 0xB2] 3 2,
    amg 4 [CHR 0xD0, CHR 0xB8, CHR 0xD0, CHR 0xB2] 3 2,
    amg 6 [CHR 0xD0, CHR 0xB2, CHR 0xD1, CHR 0x88, CHR 0xD0, CHR 0xB8] (- 1) 1,
    amg 8 [CHR 0xD1, CHR 0x8B, CHR 0xD0, CHR 0xB2, CHR 0xD1, CHR 0x88, CHR 0xD0, CHR 0xB8] 6 2,
    amg 8 [CHR 0xD0, CHR 0xB8, CHR 0xD0, CHR 0xB2, CHR 0xD1, CHR 0x88, CHR 0xD0, CHR 0xB8] 6 2]"

definition a_1_russian :: "among list" where
  "a_1_russian = [
    amg 6 [CHR 0xD0, CHR 0xB5, CHR 0xD0, CHR 0xBC, CHR 0xD1, CHR 0x83] (- 1) 1,
    amg 6 [CHR 0xD0, CHR 0xBE, CHR 0xD0, CHR 0xBC, CHR 0xD1, CHR 0x83] (- 1) 1,
    amg 4 [CHR 0xD1, CHR 0x8B, CHR 0xD1, CHR 0x85] (- 1) 1,
    amg 4 [CHR 0xD0, CHR 0xB8, CHR 0xD1, CHR 0x85] (- 1) 1,
    amg 4 [CHR 0xD1, CHR 0x83, CHR 0xD1, CHR 0x8E] (- 1) 1,
    amg 4 [CHR 0xD1, CHR 0x8E, CHR 0xD1, CHR 0x8E] (- 1) 1,
    amg 4 [CHR 0xD0, CHR 0xB5, CHR 0xD1, CHR 0x8E] (- 1) 1,
    amg 4 [CHR 0xD0, CHR 0xBE, CHR 0xD1, CHR 0x8E] (- 1) 1,
    amg 4 [CHR 0xD1, CHR 0x8F, CHR 0xD1, CHR 0x8F] (- 1) 1,
    amg 4 [CHR 0xD0, CHR 0xB0, CHR 0xD1, CHR 0x8F] (- 1) 1,
    amg 4 [CHR 0xD1, CHR 0x8B, CHR 0xD0, CHR 0xB5] (- 1) 1,
    amg 4 [CHR 0xD0, CHR 0xB5, CHR 0xD0, CHR 0xB5] (- 1) 1,
    amg 4 [CHR 0xD0, CHR 0xB8, CHR 0xD0, CHR 0xB5] (- 1) 1,
    amg 4 [CHR 0xD0, CHR 0xBE, CHR 0xD0, CHR 0xB5] (- 1) 1,
    amg 6 [CHR 0xD1, CHR 0x8B, CHR 0xD0, CHR 0xBC, CHR 0xD0, CHR 0xB8] (- 1) 1,
    amg 6 [CHR 0xD0, CHR 0xB8, CHR 0xD0, CHR 0xBC, CHR 0xD0, CHR 0xB8] (- 1) 1,
    amg 4 [CHR 0xD1, CHR 0x8B, CHR 0xD0, CHR 0xB9] (- 1) 1,
    amg 4 [CHR 0xD0, CHR 0xB5, CHR 0xD0, CHR 0xB9] (- 1) 1,
    amg 4 [CHR 0xD0, CHR 0xB8, CHR 0xD0, CHR 0xB9] (- 1) 1,
    amg 4 [CHR 0xD0, CHR 0xBE, CHR 0xD0, CHR 0xB9] (- 1) 1,
    amg 4 [CHR 0xD1, CHR 0x8B, CHR 0xD0, CHR 0xBC] (- 1) 1,
    amg 4 [CHR 0xD0, CHR 0xB5, CHR 0xD0, CHR 0xBC] (- 1) 1,
    amg 4 [CHR 0xD0, CHR 0xB8, CHR 0xD0, CHR 0xBC] (- 1) 1,
    amg 4 [CHR 0xD0, CHR 0xBE, CHR 0xD0, CHR 0xBC] (- 1) 1,
    amg 6 [CHR 0xD0, CHR 0xB5, CHR 0xD0, CHR 0xB3, CHR 0xD0, CHR 0xBE] (- 1) 1,
    amg 6 [CHR 0xD0, CHR 0xBE, CHR 0xD0, CHR 0xB3, CHR 0xD0, CHR 0xBE] (- 1) 1]"

definition a_2_russian :: "among list" where
  "a_2_russian = [
    amg 4 [CHR 0xD0, CHR 0xB2, CHR 0xD1, CHR 0x88] (- 1) 1,
    amg 6 [CHR 0xD1, CHR 0x8B, CHR 0xD0, CHR 0xB2, CHR 0xD1, CHR 0x88] 0 2,
    amg 6 [CHR 0xD0, CHR 0xB8, CHR 0xD0, CHR 0xB2, CHR 0xD1, CHR 0x88] 0 2,
    amg 2 [CHR 0xD1, CHR 0x89] (- 1) 1,
    amg 4 [CHR 0xD1, CHR 0x8E, CHR 0xD1, CHR 0x89] 3 1,
    amg 6 [CHR 0xD1, CHR 0x83, CHR 0xD1, CHR 0x8E, CHR 0xD1, CHR 0x89] 4 2,
    amg 4 [CHR 0xD0, CHR 0xB5, CHR 0xD0, CHR 0xBC] (- 1) 1,
    amg 4 [CHR 0xD0, CHR 0xBD, CHR 0xD0, CHR 0xBD] (- 1) 1]"

definition a_3_russian :: "among list" where
  "a_3_russian = [
    amg 4 [CHR 0xD1, CHR 0x81, CHR 0xD1, CHR 0x8C] (- 1) 1,
    amg 4 [CHR 0xD1, CHR 0x81, CHR 0xD1, CHR 0x8F] (- 1) 1]"

definition a_4_russian :: "among list" where
  "a_4_russian = [
    amg 4 [CHR 0xD1, CHR 0x8B, CHR 0xD1, CHR 0x82] (- 1) 2,
    amg 4 [CHR 0xD1, CHR 0x8E, CHR 0xD1, CHR 0x82] (- 1) 1,
    amg 6 [CHR 0xD1, CHR 0x83, CHR 0xD1, CHR 0x8E, CHR 0xD1, CHR 0x82] 1 2,
    amg 4 [CHR 0xD1, CHR 0x8F, CHR 0xD1, CHR 0x82] (- 1) 2,
    amg 4 [CHR 0xD0, CHR 0xB5, CHR 0xD1, CHR 0x82] (- 1) 1,
    amg 6 [CHR 0xD1, CHR 0x83, CHR 0xD0, CHR 0xB5, CHR 0xD1, CHR 0x82] 4 2,
    amg 4 [CHR 0xD0, CHR 0xB8, CHR 0xD1, CHR 0x82] (- 1) 2,
    amg 4 [CHR 0xD0, CHR 0xBD, CHR 0xD1, CHR 0x8B] (- 1) 1,
    amg 6 [CHR 0xD0, CHR 0xB5, CHR 0xD0, CHR 0xBD, CHR 0xD1, CHR 0x8B] 7 2,
    amg 4 [CHR 0xD1, CHR 0x82, CHR 0xD1, CHR 0x8C] (- 1) 1,
    amg 6 [CHR 0xD1, CHR 0x8B, CHR 0xD1, CHR 0x82, CHR 0xD1, CHR 0x8C] 9 2,
    amg 6 [CHR 0xD0, CHR 0xB8, CHR 0xD1, CHR 0x82, CHR 0xD1, CHR 0x8C] 9 2,
    amg 6 [CHR 0xD0, CHR 0xB5, CHR 0xD1, CHR 0x88, CHR 0xD1, CHR 0x8C] (- 1) 1,
    amg 6 [CHR 0xD0, CHR 0xB8, CHR 0xD1, CHR 0x88, CHR 0xD1, CHR 0x8C] (- 1) 2,
    amg 2 [CHR 0xD1, CHR 0x8E] (- 1) 2,
    amg 4 [CHR 0xD1, CHR 0x83, CHR 0xD1, CHR 0x8E] 14 2,
    amg 4 [CHR 0xD0, CHR 0xBB, CHR 0xD0, CHR 0xB0] (- 1) 1,
    amg 6 [CHR 0xD1, CHR 0x8B, CHR 0xD0, CHR 0xBB, CHR 0xD0, CHR 0xB0] 16 2,
    amg 6 [CHR 0xD0, CHR 0xB8, CHR 0xD0, CHR 0xBB, CHR 0xD0, CHR 0xB0] 16 2,
    amg 4 [CHR 0xD0, CHR 0xBD, CHR 0xD0, CHR 0xB0] (- 1) 1,
    amg 6 [CHR 0xD0, CHR 0xB5, CHR 0xD0, CHR 0xBD, CHR 0xD0, CHR 0xB0] 19 2,
    amg 6 [CHR 0xD0, CHR 0xB5, CHR 0xD1, CHR 0x82, CHR 0xD0, CHR 0xB5] (- 1) 1,
    amg 6 [CHR 0xD0, CHR 0xB8, CHR 0xD1, CHR 0x82, CHR 0xD0, CHR 0xB5] (- 1) 2,
    amg 6 [CHR 0xD0, CHR 0xB9, CHR 0xD1, CHR 0x82, CHR 0xD0, CHR 0xB5] (- 1) 1,
    amg 8 [CHR 0xD1, CHR 0x83, CHR 0xD0, CHR 0xB9, CHR 0xD1, CHR 0x82, CHR 0xD0, CHR 0xB5] 23 2,
    amg 8 [CHR 0xD0, CHR 0xB5, CHR 0xD0, CHR 0xB9, CHR 0xD1, CHR 0x82, CHR 0xD0, CHR 0xB5] 23 2,
    amg 4 [CHR 0xD0, CHR 0xBB, CHR 0xD0, CHR 0xB8] (- 1) 1,
    amg 6 [CHR 0xD1, CHR 0x8B, CHR 0xD0, CHR 0xBB, CHR 0xD0, CHR 0xB8] 26 2,
    amg 6 [CHR 0xD0, CHR 0xB8, CHR 0xD0, CHR 0xBB, CHR 0xD0, CHR 0xB8] 26 2,
    amg 2 [CHR 0xD0, CHR 0xB9] (- 1) 1,
    amg 4 [CHR 0xD1, CHR 0x83, CHR 0xD0, CHR 0xB9] 29 2,
    amg 4 [CHR 0xD0, CHR 0xB5, CHR 0xD0, CHR 0xB9] 29 2,
    amg 2 [CHR 0xD0, CHR 0xBB] (- 1) 1,
    amg 4 [CHR 0xD1, CHR 0x8B, CHR 0xD0, CHR 0xBB] 32 2,
    amg 4 [CHR 0xD0, CHR 0xB8, CHR 0xD0, CHR 0xBB] 32 2,
    amg 4 [CHR 0xD1, CHR 0x8B, CHR 0xD0, CHR 0xBC] (- 1) 2,
    amg 4 [CHR 0xD0, CHR 0xB5, CHR 0xD0, CHR 0xBC] (- 1) 1,
    amg 4 [CHR 0xD0, CHR 0xB8, CHR 0xD0, CHR 0xBC] (- 1) 2,
    amg 2 [CHR 0xD0, CHR 0xBD] (- 1) 1,
    amg 4 [CHR 0xD0, CHR 0xB5, CHR 0xD0, CHR 0xBD] 38 2,
    amg 4 [CHR 0xD0, CHR 0xBB, CHR 0xD0, CHR 0xBE] (- 1) 1,
    amg 6 [CHR 0xD1, CHR 0x8B, CHR 0xD0, CHR 0xBB, CHR 0xD0, CHR 0xBE] 40 2,
    amg 6 [CHR 0xD0, CHR 0xB8, CHR 0xD0, CHR 0xBB, CHR 0xD0, CHR 0xBE] 40 2,
    amg 4 [CHR 0xD0, CHR 0xBD, CHR 0xD0, CHR 0xBE] (- 1) 1,
    amg 6 [CHR 0xD0, CHR 0xB5, CHR 0xD0, CHR 0xBD, CHR 0xD0, CHR 0xBE] 43 2,
    amg 6 [CHR 0xD0, CHR 0xBD, CHR 0xD0, CHR 0xBD, CHR 0xD0, CHR 0xBE] 43 1]"

definition a_5_russian :: "among list" where
  "a_5_russian = [
    amg 2 [CHR 0xD1, CHR 0x83] (- 1) 1,
    amg 4 [CHR 0xD1, CHR 0x8F, CHR 0xD1, CHR 0x85] (- 1) 1,
    amg 6 [CHR 0xD0, CHR 0xB8, CHR 0xD1, CHR 0x8F, CHR 0xD1, CHR 0x85] 1 1,
    amg 4 [CHR 0xD0, CHR 0xB0, CHR 0xD1, CHR 0x85] (- 1) 1,
    amg 2 [CHR 0xD1, CHR 0x8B] (- 1) 1,
    amg 2 [CHR 0xD1, CHR 0x8C] (- 1) 1,
    amg 2 [CHR 0xD1, CHR 0x8E] (- 1) 1,
    amg 4 [CHR 0xD1, CHR 0x8C, CHR 0xD1, CHR 0x8E] 6 1,
    amg 4 [CHR 0xD0, CHR 0xB8, CHR 0xD1, CHR 0x8E] 6 1,
    amg 2 [CHR 0xD1, CHR 0x8F] (- 1) 1,
    amg 4 [CHR 0xD1, CHR 0x8C, CHR 0xD1, CHR 0x8F] 9 1,
    amg 4 [CHR 0xD0, CHR 0xB8, CHR 0xD1, CHR 0x8F] 9 1,
    amg 2 [CHR 0xD0, CHR 0xB0] (- 1) 1,
    amg 4 [CHR 0xD0, CHR 0xB5, CHR 0xD0, CHR 0xB2] (- 1) 1,
    amg 4 [CHR 0xD0, CHR 0xBE, CHR 0xD0, CHR 0xB2] (- 1) 1,
    amg 2 [CHR 0xD0, CHR 0xB5] (- 1) 1,
    amg 4 [CHR 0xD1, CHR 0x8C, CHR 0xD0, CHR 0xB5] 15 1,
    amg 4 [CHR 0xD0, CHR 0xB8, CHR 0xD0, CHR 0xB5] 15 1,
    amg 2 [CHR 0xD0, CHR 0xB8] (- 1) 1,
    amg 4 [CHR 0xD0, CHR 0xB5, CHR 0xD0, CHR 0xB8] 18 1,
    amg 4 [CHR 0xD0, CHR 0xB8, CHR 0xD0, CHR 0xB8] 18 1,
    amg 6 [CHR 0xD1, CHR 0x8F, CHR 0xD0, CHR 0xBC, CHR 0xD0, CHR 0xB8] 18 1,
    amg 8 [CHR 0xD0, CHR 0xB8, CHR 0xD1, CHR 0x8F, CHR 0xD0, CHR 0xBC, CHR 0xD0, CHR 0xB8] 21 1,
    amg 6 [CHR 0xD0, CHR 0xB0, CHR 0xD0, CHR 0xBC, CHR 0xD0, CHR 0xB8] 18 1,
    amg 2 [CHR 0xD0, CHR 0xB9] (- 1) 1,
    amg 4 [CHR 0xD0, CHR 0xB5, CHR 0xD0, CHR 0xB9] 24 1,
    amg 6 [CHR 0xD0, CHR 0xB8, CHR 0xD0, CHR 0xB5, CHR 0xD0, CHR 0xB9] 25 1,
    amg 4 [CHR 0xD0, CHR 0xB8, CHR 0xD0, CHR 0xB9] 24 1,
    amg 4 [CHR 0xD0, CHR 0xBE, CHR 0xD0, CHR 0xB9] 24 1,
    amg 4 [CHR 0xD1, CHR 0x8F, CHR 0xD0, CHR 0xBC] (- 1) 1,
    amg 6 [CHR 0xD0, CHR 0xB8, CHR 0xD1, CHR 0x8F, CHR 0xD0, CHR 0xBC] 29 1,
    amg 4 [CHR 0xD0, CHR 0xB0, CHR 0xD0, CHR 0xBC] (- 1) 1,
    amg 4 [CHR 0xD0, CHR 0xB5, CHR 0xD0, CHR 0xBC] (- 1) 1,
    amg 6 [CHR 0xD0, CHR 0xB8, CHR 0xD0, CHR 0xB5, CHR 0xD0, CHR 0xBC] 32 1,
    amg 4 [CHR 0xD0, CHR 0xBE, CHR 0xD0, CHR 0xBC] (- 1) 1,
    amg 2 [CHR 0xD0, CHR 0xBE] (- 1) 1]"

definition a_6_russian :: "among list" where
  "a_6_russian = [
    amg 6 [CHR 0xD0, CHR 0xBE, CHR 0xD1, CHR 0x81, CHR 0xD1, CHR 0x82] (- 1) 1,
    amg 8 [CHR 0xD0, CHR 0xBE, CHR 0xD1, CHR 0x81, CHR 0xD1, CHR 0x82, CHR 0xD1, CHR 0x8C] (- 1) 1]"

definition a_7_russian :: "among list" where
  "a_7_russian = [
    amg 6 [CHR 0xD0, CHR 0xB5, CHR 0xD0, CHR 0xB9, CHR 0xD1, CHR 0x88] (- 1) 1,
    amg 2 [CHR 0xD1, CHR 0x8C] (- 1) 3,
    amg 8 [CHR 0xD0, CHR 0xB5, CHR 0xD0, CHR 0xB9, CHR 0xD1, CHR 0x88, CHR 0xD0, CHR 0xB5] (- 1) 1,
    amg 2 [CHR 0xD0, CHR 0xBD] (- 1) 2]"

definition g_v_russian :: "int list" where
  "g_v_russian = [33, 65, 8, 232]"

subsection \<open>Strings\<close>

definition s_0_russian :: "symbol list" where
  "s_0_russian = [CHR 0xD0, CHR 0xB0]"

definition s_1_russian :: "symbol list" where
  "s_1_russian = [CHR 0xD1, CHR 0x8F]"

definition s_2_russian :: "symbol list" where
  "s_2_russian = [CHR 0xD0, CHR 0xB0]"

definition s_3_russian :: "symbol list" where
  "s_3_russian = [CHR 0xD1, CHR 0x8F]"

definition s_4_russian :: "symbol list" where
  "s_4_russian = [CHR 0xD0, CHR 0xB0]"

definition s_5_russian :: "symbol list" where
  "s_5_russian = [CHR 0xD1, CHR 0x8F]"

definition s_6_russian :: "symbol list" where
  "s_6_russian = [CHR 0xD0, CHR 0xBD]"

definition s_7_russian :: "symbol list" where
  "s_7_russian = [CHR 0xD0, CHR 0xBD]"

definition s_8_russian :: "symbol list" where
  "s_8_russian = [CHR 0xD0, CHR 0xBD]"

definition s_9_russian :: "symbol list" where
  "s_9_russian = [CHR 0xD0, CHR 0xB8]"

subsection \<open>Code\<close>

definition r_mark_regions_russian :: "sn_func" where
  "r_mark_regions_russian = c_fun [
    set_I 0 z_l,
    set_I 1 z_l,
    c_let z_c (\<lambda>c1. c_block [
      c_upto 0 [
        advance (out_grouping_U g_v_russian 1072 1103 1) (c_goto 0),
        set_I 0 z_c,
        advance (in_grouping_U g_v_russian 1072 1103 1) (c_goto 0),
        advance (out_grouping_U g_v_russian 1072 1103 1) (c_goto 0),
        advance (in_grouping_U g_v_russian 1072 1103 1) (c_goto 0),
        set_I 1 z_c],
      set_c (\<lambda>_. c1)]),
    c_return 1]"

definition r_R2_russian :: "sn_func" where
  "r_R2_russian = c_fun [
    c_if (on_I 1 (\<lambda>z i. \<not> i \<le> z_c z)) (c_return 0),
    c_return 1]"

definition r_perfective_gerund_russian :: "sn_func" where
  "r_perfective_gerund_russian = c_fun [
    set_ket z_c,
    c_call (find_among_b a_0_russian 9) (\<lambda>among_var. c_block [
      c_if (test (\<lambda>_. among_var = 0)) (c_return 0),
      set_bra z_c,
      c_switch among_var [
        (0, c_block [
          c_return 0]),
        (1, c_block [
          c_upto 0 [
            c_let (\<lambda>z. z_l z - z_c z) (\<lambda>m1. c_block [
              c_upto 1 [
                unless (eq_s_b 2 s_0_russian) (c_goto 1),
                c_goto 0],
              set_c (\<lambda>z. z_l z - m1),
              unless (eq_s_b 2 s_1_russian) (c_return 0)])],
          check slice_del,
          c_break]),
        (2, c_block [
          check slice_del,
          c_break])],
      c_return 1])]"

definition r_adjective_russian :: "sn_func" where
  "r_adjective_russian = c_fun [
    set_ket z_c,
    c_call (find_among_b a_1_russian 26) (\<lambda>among_var. c_block [
      c_if (test (\<lambda>_. among_var = 0)) (c_return 0),
      set_bra z_c,
      c_switch among_var [
        (0, c_block [
          c_return 0]),
        (1, c_block [
          check slice_del,
          c_break])],
      c_return 1])]"

definition r_adjectival_russian :: "sn_func" where
  "r_adjectival_russian = c_fun [
    routine r_adjective_russian (c_return 0),
    c_let (\<lambda>z. z_l z - z_c z) (\<lambda>m_keep. c_block [
      set_ket z_c,
      c_call (find_among_b a_2_russian 8) (\<lambda>among_var. c_block [
        c_upto 0 [
          c_if (test (\<lambda>_. among_var = 0)) (
            c_block [
              set_c (\<lambda>z. z_l z - m_keep),
              c_goto 0]),
          set_bra z_c,
          c_switch among_var [
            (0, c_block [
              c_block [
                set_c (\<lambda>z. z_l z - m_keep),
                c_goto 0]]),
            (1, c_block [
              c_upto 1 [
                c_let (\<lambda>z. z_l z - z_c z) (\<lambda>m1. c_block [
                  c_upto 2 [
                    unless (eq_s_b 2 s_2_russian) (c_goto 2),
                    c_goto 1],
                  set_c (\<lambda>z. z_l z - m1),
                  unless (eq_s_b 2 s_3_russian) (
                    c_block [
                      set_c (\<lambda>z. z_l z - m_keep),
                      c_goto 0])])],
              check slice_del,
              c_break]),
            (2, c_block [
              check slice_del,
              c_break])]]])]),
    c_return 1]"

definition r_reflexive_russian :: "sn_func" where
  "r_reflexive_russian = c_fun [
    set_ket z_c,
    c_if (tail_guard 3 (\<lambda>ch. ch \<noteq> 140 \<and> ch \<noteq> 143)) (c_return 0),
    c_call (find_among_b a_3_russian 2) (\<lambda>among_var. c_block [
      c_if (test (\<lambda>_. among_var = 0)) (c_return 0),
      set_bra z_c,
      c_switch among_var [
        (0, c_block [
          c_return 0]),
        (1, c_block [
          check slice_del,
          c_break])],
      c_return 1])]"

definition r_verb_russian :: "sn_func" where
  "r_verb_russian = c_fun [
    set_ket z_c,
    c_call (find_among_b a_4_russian 46) (\<lambda>among_var. c_block [
      c_if (test (\<lambda>_. among_var = 0)) (c_return 0),
      set_bra z_c,
      c_switch among_var [
        (0, c_block [
          c_return 0]),
        (1, c_block [
          c_upto 0 [
            c_let (\<lambda>z. z_l z - z_c z) (\<lambda>m1. c_block [
              c_upto 1 [
                unless (eq_s_b 2 s_4_russian) (c_goto 1),
                c_goto 0],
              set_c (\<lambda>z. z_l z - m1),
              unless (eq_s_b 2 s_5_russian) (c_return 0)])],
          check slice_del,
          c_break]),
        (2, c_block [
          check slice_del,
          c_break])],
      c_return 1])]"

definition r_noun_russian :: "sn_func" where
  "r_noun_russian = c_fun [
    set_ket z_c,
    c_call (find_among_b a_5_russian 36) (\<lambda>among_var. c_block [
      c_if (test (\<lambda>_. among_var = 0)) (c_return 0),
      set_bra z_c,
      c_switch among_var [
        (0, c_block [
          c_return 0]),
        (1, c_block [
          check slice_del,
          c_break])],
      c_return 1])]"

definition r_derivational_russian :: "sn_func" where
  "r_derivational_russian = c_fun [
    set_ket z_c,
    c_if (tail_guard 5 (\<lambda>ch. ch \<noteq> 130 \<and> ch \<noteq> 140)) (c_return 0),
    c_call (find_among_b a_6_russian 2) (\<lambda>among_var. c_block [
      c_if (test (\<lambda>_. among_var = 0)) (c_return 0),
      set_bra z_c,
      routine r_R2_russian (c_return 0),
      c_switch among_var [
        (0, c_block [
          c_return 0]),
        (1, c_block [
          check slice_del,
          c_break])],
      c_return 1])]"

definition r_tidy_up_russian :: "sn_func" where
  "r_tidy_up_russian = c_fun [
    set_ket z_c,
    c_call (find_among_b a_7_russian 4) (\<lambda>among_var. c_block [
      c_if (test (\<lambda>_. among_var = 0)) (c_return 0),
      set_bra z_c,
      c_switch among_var [
        (0, c_block [
          c_return 0]),
        (1, c_block [
          check slice_del,
          set_ket z_c,
          unless (eq_s_b 2 s_6_russian) (c_return 0),
          set_bra z_c,
          unless (eq_s_b 2 s_7_russian) (c_return 0),
          check slice_del,
          c_break]),
        (2, c_block [
          unless (eq_s_b 2 s_8_russian) (c_return 0),
          check slice_del,
          c_break]),
        (3, c_block [
          check slice_del,
          c_break])],
      c_return 1])]"

definition russian_UTF_8_stem_endings :: "sn_cmd" where
  "russian_UTF_8_stem_endings = c_let (\<lambda>z. z_l z - z_c z) (\<lambda>m3. c_block [
      c_upto 1 [
        c_upto 2 [
          c_let (\<lambda>z. z_l z - z_c z) (\<lambda>m4. c_block [
            c_upto 3 [
              routine r_perfective_gerund_russian (c_goto 3),
              c_goto 2],
            set_c (\<lambda>z. z_l z - m4),
            c_let (\<lambda>z. z_l z - z_c z) (\<lambda>m_keep. c_block [
              c_upto 4 [
                routine r_reflexive_russian (
                  c_block [
                    set_c (\<lambda>z. z_l z - m_keep),
                    c_goto 4])]]),
            c_upto 5 [
              c_let (\<lambda>z. z_l z - z_c z) (\<lambda>m5. c_block [
                c_upto 6 [
                  routine r_adjectival_russian (c_goto 6),
                  c_goto 5],
                set_c (\<lambda>z. z_l z - m5),
                c_upto 7 [
                  routine r_verb_russian (c_goto 7),
                  c_goto 5],
                set_c (\<lambda>z. z_l z - m5),
                routine r_noun_russian (c_goto 1)])]])]],
      set_c (\<lambda>z. z_l z - m3)])"

definition russian_UTF_8_stem_drop_i :: "sn_cmd" where
  "russian_UTF_8_stem_drop_i = c_let (\<lambda>z. z_l z - z_c z) (\<lambda>m_keep. c_block [
      set_ket z_c,
      c_upto 8 [
        unless (eq_s_b 2 s_9_russian) (
          c_block [
            set_c (\<lambda>z. z_l z - m_keep),
            c_goto 8]),
        set_bra z_c,
        check slice_del]])"

definition russian_UTF_8_stem :: "sn_func" where
  "russian_UTF_8_stem = c_fun [
    try_f 0 r_mark_regions_russian,
    set_lb z_c,
    set_c z_l,
    c_let (\<lambda>z. z_l z - z_c z) (\<lambda>m2. c_block [
      c_if (on_I 0 (\<lambda>z i. z_c z < i)) (c_return 0),
      set_c_I 0,
      c_let z_lb (\<lambda>mlimit. c_block [
        set_lb z_c,
        set_c (\<lambda>z. z_l z - m2),
        russian_UTF_8_stem_endings,
        russian_UTF_8_stem_drop_i,
        try_b 9 r_derivational_russian,
        try_b 10 r_tidy_up_russian,
        set_lb (\<lambda>_. mlimit)])]),
    set_c z_lb,
    c_return 1]"

definition russian_UTF_8_create_env :: "env_create" where
  "russian_UTF_8_create_env = SN_create_env 0 2 0"

definition russian_UTF_8_close_env :: "env_close" where
  "russian_UTF_8_close_env z = SN_close_env z 0"

subsection \<open>Facts on the tables\<close>

lemma tables_russian [simp]:
  "table_b a_0_russian" "table_b a_1_russian" "table_b a_2_russian" "table_b a_3_russian"
  "table_b a_4_russian" "table_b a_5_russian" "table_b a_6_russian" "table_b a_7_russian"
  by (rule table_sound, code_simp, code_simp)+

lemma length_tables_russian [simp]:
  "length a_0_russian = 9" "length a_1_russian = 26" "length a_2_russian = 8"
  "length a_3_russian = 2" "length a_4_russian = 46" "length a_5_russian = 36"
  "length a_6_russian = 2" "length a_7_russian = 4"
  by code_simp+

lemma least_russian [simp]:
  "least a_0_russian 1 = 2" "least a_0_russian 2 = 4" "least a_1_russian 1 = 4"
  "least a_2_russian 1 = 2" "least a_2_russian 2 = 6" "least a_3_russian 1 = 4"
  "least a_4_russian 1 = 2" "least a_4_russian 2 = 2" "least a_5_russian 1 = 2"
  "least a_6_russian 1 = 6" "least a_7_russian 1 = 6" "least a_7_russian 2 = 2"
  "least a_7_russian 3 = 2"
  by code_simp+

lemma lengths_russian [simp]:
  "length s_0_russian = 2" "length s_1_russian = 2" "length s_2_russian = 2"
  "length s_3_russian = 2" "length s_4_russian = 2" "length s_5_russian = 2"
  "length s_6_russian = 2" "length s_7_russian = 2" "length s_8_russian = 2"
  "length s_9_russian = 2"
  by code_simp+

lemma covers_russian [simp]:
  "covers g_v_russian 1072 1103"
  by code_simp+

subsection \<open>Routines\<close>

text \<open>Every routine only cuts the end of the text off.\<close>

lemma r_R2_russian_wp [simp]:
  "length (z_I z) = 2 \<Longrightarrow> wpf r_R2_russian Q z \<longleftrightarrow> Q (if z_I z ! 1 \<le> z_c z then 1 else 0) z"
  unfolding r_R2_russian_def by simp

lemma r_perfective_gerund_russian_trims:
  assumes "in_window z" "z_c z = z_l z"
  shows "wpf r_perfective_gerund_russian (trimmed z) z"
  using assms unfolding r_perfective_gerund_russian_def in_window_def
  by (auto intro!: win_intro slice_del_end_wp simp: step_defs)

lemma has_adjective_russian [simp]: "has a_1_russian r \<longleftrightarrow> r = 1"
  by (simp add: has_def a_1_russian_def)

lemma r_adjective_russian_wp [win_intro]:
  assumes "in_window z" "z_c z = z_l z"
    and "\<And>z'. kept z z' \<Longrightarrow> z_l z' = z_l z \<Longrightarrow> content z' = content z \<Longrightarrow> Q 0 z'"
    and "\<And>r z'. 0 < r \<Longrightarrow> kept z z' \<Longrightarrow> z_c z' = z_l z' \<Longrightarrow> z_l z' \<le> z_l z
      \<Longrightarrow> content z' = take (nat (z_l z')) (content z) \<Longrightarrow> Q r z'"
  shows "wpf r_adjective_russian Q z"
  using assms unfolding r_adjective_russian_def in_window_def
  by (auto intro!: win_intro slice_del_end_wp simp: step_defs)

lemma r_adjectival_russian_trims:
  assumes "in_window z" "z_c z = z_l z"
  shows "wpf r_adjectival_russian (trimmed z) z"
  using assms unfolding r_adjectival_russian_def in_window_def
  by (auto intro!: win_intro slice_del_end_wp simp: step_defs)

lemma has_reflexive_russian [simp]: "has a_3_russian r \<longleftrightarrow> r = 1"
  by (simp add: has_def a_3_russian_def)

lemma r_reflexive_russian_wp:
  assumes "in_window z" "z_c z = z_l z"
    and "\<And>z'. kept z z' \<Longrightarrow> z_l z' = z_l z \<Longrightarrow> content z' = content z \<Longrightarrow> Q 0 z'"
    and "\<And>r z'. 0 < r \<Longrightarrow> kept z z' \<Longrightarrow> z_c z' = z_l z' \<Longrightarrow> z_l z' \<le> z_l z
      \<Longrightarrow> content z' = take (nat (z_l z')) (content z) \<Longrightarrow> Q r z'"
  shows "wpf r_reflexive_russian Q z"
  using assms unfolding r_reflexive_russian_def in_window_def
  by (auto intro!: win_intro slice_del_end_wp simp: step_defs)

lemma r_verb_russian_trims:
  assumes "in_window z" "z_c z = z_l z"
  shows "wpf r_verb_russian (trimmed z) z"
  using assms unfolding r_verb_russian_def in_window_def
  by (auto intro!: win_intro slice_del_end_wp simp: step_defs)

lemma r_noun_russian_trims:
  assumes "in_window z" "z_c z = z_l z"
  shows "wpf r_noun_russian (trimmed z) z"
  using assms unfolding r_noun_russian_def in_window_def
  by (auto intro!: win_intro slice_del_end_wp simp: step_defs)

lemma r_derivational_russian_trims:
  assumes "in_window z" "z_c z = z_l z" "length (z_I z) = 2"
  shows "wpf r_derivational_russian (trimmed z) z"
  using assms unfolding r_derivational_russian_def in_window_def
  by (auto intro!: win_intro slice_del_end_wp simp: step_defs)

lemma r_tidy_up_russian_trims:
  assumes "in_window z" "z_c z = z_l z"
  shows "wpf r_tidy_up_russian (trimmed z) z"
  using assms unfolding r_tidy_up_russian_def in_window_def
  by (auto intro!: win_intro slice_del_end_wp simp: step_defs)

lemma r_mark_regions_russian_wp:
  assumes "in_window z" "length (z_I z) = 2"
    and "\<And>z'. marked z z' \<Longrightarrow> z_c z \<le> z_I z' ! 0 \<Longrightarrow> z_I z' ! 0 \<le> z_l z \<Longrightarrow> Q 1 z'"
  shows "wpf r_mark_regions_russian Q z"
  using assms unfolding r_mark_regions_russian_def in_window_def
  by (auto intro!: win_intro simp: marked_iff)

subsection \<open>The stemmer\<close>

lemma russian_endings_wp:
  assumes "in_window z" "z_c z = z_l z"
    and "\<And>z'. kept z z' \<Longrightarrow> z_l z' \<le> z_l z \<Longrightarrow> z_c z' = z_l z' \<Longrightarrow>
      content z' = take (nat (z_l z')) (content z) \<Longrightarrow> Q Next z'"
  shows "wp russian_UTF_8_stem_endings Q z"
  using assms unfolding russian_UTF_8_stem_endings_def in_window_def
  by (auto intro!: r_reflexive_russian_wp trimmed_wp [OF r_perfective_gerund_russian_trims]
      trimmed_wp [OF r_adjectival_russian_trims] trimmed_wp [OF r_verb_russian_trims]
      trimmed_wp [OF r_noun_russian_trims] simp: step_defs)

lemma russian_drop_i_wp:
  assumes "in_window z" "z_c z = z_l z"
    and "\<And>z'. kept z z' \<Longrightarrow> z_l z' \<le> z_l z \<Longrightarrow> z_c z' = z_l z' \<Longrightarrow>
      content z' = take (nat (z_l z')) (content z) \<Longrightarrow> Q Next z'"
  shows "wp russian_UTF_8_stem_drop_i Q z"
  using assms unfolding russian_UTF_8_stem_drop_i_def in_window_def
  by (auto intro!: win_intro slice_del_end_wp simp: step_defs)

lemma russian_stem_trims:
  assumes "in_window z" "z_c z = 0" "strs_ok (z_S z)" "length (z_I z) = 2"
  shows "wpf russian_UTF_8_stem (\<lambda>r z'. fitted z r z'
    \<and> (0 \<le> r \<longrightarrow> content z' = take (nat (z_l z')) (content z))) z"
  unfolding russian_UTF_8_stem_def wpf_fun
  apply (rule wp_cut [where n = 3 and J = "\<lambda>z'. at_end any_marks z z' \<and> content z' = content z
      \<and> 0 \<le> z_I z' ! 0 \<and> z_I z' ! 0 \<le> z_l z'"], simp, simp)
  subgoal using assms
    by (auto intro!: win_intro r_mark_regions_russian_wp simp: fitted_def step_defs fits_def at_end_def marked_iff)
  subgoal using assms
    by (auto intro!: wp_set_c_I wp_try_trim russian_endings_wp russian_drop_i_wp r_derivational_russian_trims
      r_tidy_up_russian_trims simp: step_defs fits_def at_end_def fitted_def)
  done

interpretation russian: steady_stemmer russian_UTF_8_stem 2 0
  by unfold_locales (auto intro!: wpf_mono [OF russian_stem_trims])

end
