(* ===== verification/Swedish.thy ===== *)
theory Swedish
  imports Libstemmer
begin

text \<open>
  The Swedish stemmer (\<^verbatim>\<open>src_c/stem_UTF_8_swedish.c\<close>): its search tables, character groups and
  strings, its routines statement by statement, and the entry points. Every routine works behind the mark
  that the first one sets, and the stemmer meets the contract of a language.
\<close>

subsection \<open>Tables\<close>

definition a_0_swedish :: "among list" where
  "a_0_swedish = [
    amg 1 ''a'' (- 1) 1,
    amg 4 ''arna'' 0 1,
    amg 4 ''erna'' 0 1,
    amg 7 ''heterna'' 2 1,
    amg 4 ''orna'' 0 1,
    amg 2 ''ad'' (- 1) 1,
    amg 1 ''e'' (- 1) 1,
    amg 3 ''ade'' 6 1,
    amg 4 ''ande'' 6 1,
    amg 4 ''arne'' 6 1,
    amg 3 ''are'' 6 1,
    amg 4 ''aste'' 6 1,
    amg 2 ''en'' (- 1) 1,
    amg 5 ''anden'' 12 1,
    amg 4 ''aren'' 12 1,
    amg 5 ''heten'' 12 1,
    amg 3 ''ern'' (- 1) 1,
    amg 2 ''ar'' (- 1) 1,
    amg 2 ''er'' (- 1) 1,
    amg 5 ''heter'' 18 1,
    amg 2 ''or'' (- 1) 1,
    amg 1 ''s'' (- 1) 2,
    amg 2 ''as'' 21 1,
    amg 5 ''arnas'' 22 1,
    amg 5 ''ernas'' 22 1,
    amg 5 ''ornas'' 22 1,
    amg 2 ''es'' 21 1,
    amg 4 ''ades'' 26 1,
    amg 5 ''andes'' 26 1,
    amg 3 ''ens'' 21 1,
    amg 5 ''arens'' 29 1,
    amg 6 ''hetens'' 29 1,
    amg 4 ''erns'' 21 1,
    amg 2 ''at'' (- 1) 1,
    amg 5 ''andet'' (- 1) 1,
    amg 3 ''het'' (- 1) 1,
    amg 3 ''ast'' (- 1) 1]"

definition a_1_swedish :: "among list" where
  "a_1_swedish = [
    amg 2 ''dd'' (- 1) (- 1),
    amg 2 ''gd'' (- 1) (- 1),
    amg 2 ''nn'' (- 1) (- 1),
    amg 2 ''dt'' (- 1) (- 1),
    amg 2 ''gt'' (- 1) (- 1),
    amg 2 ''kt'' (- 1) (- 1),
    amg 2 ''tt'' (- 1) (- 1)]"

definition a_2_swedish :: "among list" where
  "a_2_swedish = [
    amg 2 ''ig'' (- 1) 1,
    amg 3 ''lig'' 0 1,
    amg 3 ''els'' (- 1) 1,
    amg 5 ''fullt'' (- 1) 3,
    amg 5 [CHR ''l'', CHR 0xC3, CHR 0xB6, CHR ''s'', CHR ''t''] (- 1) 2]"

definition g_v_swedish :: "int list" where
  "g_v_swedish = [17, 65, 16, 1, 0, 0, 0, 0, 0, 0, 0, 0, 0, 0, 0, 0, 24, 0, 32]"

definition g_s_ending_swedish :: "int list" where
  "g_s_ending_swedish = [119, 127, 149]"

subsection \<open>Strings\<close>

definition s_0_swedish :: "symbol list" where
  "s_0_swedish = [CHR ''l'', CHR 0xC3, CHR 0xB6, CHR ''s'']"

definition s_1_swedish :: "symbol list" where
  "s_1_swedish = ''full''"

subsection \<open>Code\<close>

definition r_mark_regions_swedish :: "sn_func" where
  "r_mark_regions_swedish = c_fun [
    set_I 0 z_l,
    c_let z_c (\<lambda>c_test. c_block [
      move_to (skip_utf8_z (\<lambda>_. 0) z_l 3) (c_return 0),
      set_I 1 z_c,
      set_c (\<lambda>_. c_test)]),
    when_neg (out_grouping_U g_v_swedish 97 246 1) (c_return 0),
    advance (in_grouping_U g_v_swedish 97 246 1) (c_return 0),
    set_I 0 z_c,
    c_upto 0 [
      c_if (on_II 0 1 (\<lambda>i j. \<not> i < j)) (c_goto 0),
      set_I_I 0 1],
    c_return 1]"

definition r_main_suffix_swedish :: "sn_func" where
  "r_main_suffix_swedish = c_fun [
    c_let (\<lambda>z. z_l z - z_c z) (\<lambda>m1. c_block [
      c_if (on_I 0 (\<lambda>z i. z_c z < i)) (c_return 0),
      set_c_I 0,
      c_let z_lb (\<lambda>mlimit. c_block [
        set_lb z_c,
        set_c (\<lambda>z. z_l z - m1),
        set_ket z_c,
        c_if (tail_guard 0 (not_in_mask 3 1851442)) (
          c_block [
            set_lb (\<lambda>_. mlimit),
            c_return 0]),
        c_call (find_among_b a_0_swedish 37) (\<lambda>among_var. c_block [
          c_if (test (\<lambda>_. among_var = 0)) (
            c_block [
              set_lb (\<lambda>_. mlimit),
              c_return 0]),
          set_bra z_c,
          set_lb (\<lambda>_. mlimit),
          c_switch among_var [
            (0, c_block [
              c_return 0]),
            (1, c_block [
              check slice_del,
              c_break]),
            (2, c_block [
              when_true (in_grouping_b_U g_s_ending_swedish 98 121 0) (c_return 0),
              check slice_del,
              c_break])],
          c_return 1])])])]"

definition r_consonant_pair_swedish :: "sn_func" where
  "r_consonant_pair_swedish = c_fun [
    c_let (\<lambda>z. z_l z - z_c z) (\<lambda>m1. c_block [
      c_if (on_I 0 (\<lambda>z i. z_c z < i)) (c_return 0),
      set_c_I 0,
      c_let z_lb (\<lambda>mlimit. c_block [
        set_lb z_c,
        set_c (\<lambda>z. z_l z - m1),
        c_let (\<lambda>z. z_l z - z_c z) (\<lambda>m2. c_block [
          c_if (tail_guard 1 (not_in_mask 3 1064976)) (
            c_block [
              set_lb (\<lambda>_. mlimit),
              c_return 0]),
          unless (find_among_b a_1_swedish 7) (
            c_block [
              set_lb (\<lambda>_. mlimit),
              c_return 0]),
          set_c (\<lambda>z. z_l z - m2),
          set_ket z_c,
          move_to (skip_utf8_z z_lb (\<lambda>_. 0) (- 1)) (
            c_block [
              set_lb (\<lambda>_. mlimit),
              c_return 0]),
          set_bra z_c,
          check slice_del]),
        set_lb (\<lambda>_. mlimit)])]),
    c_return 1]"

definition r_other_suffix_swedish :: "sn_func" where
  "r_other_suffix_swedish = c_fun [
    c_let (\<lambda>z. z_l z - z_c z) (\<lambda>m1. c_block [
      c_if (on_I 0 (\<lambda>z i. z_c z < i)) (c_return 0),
      set_c_I 0,
      c_let z_lb (\<lambda>mlimit. c_block [
        set_lb z_c,
        set_c (\<lambda>z. z_l z - m1),
        set_ket z_c,
        c_if (tail_guard 1 (not_in_mask 3 1572992)) (
          c_block [
            set_lb (\<lambda>_. mlimit),
            c_return 0]),
        c_call (find_among_b a_2_swedish 5) (\<lambda>among_var. c_block [
          c_if (test (\<lambda>_. among_var = 0)) (
            c_block [
              set_lb (\<lambda>_. mlimit),
              c_return 0]),
          set_bra z_c,
          c_switch among_var [
            (0, c_block [
              c_block [
                set_lb (\<lambda>_. mlimit),
                c_return 0]]),
            (1, c_block [
              check slice_del,
              c_break]),
            (2, c_block [
              check (slice_from_s 4 s_0_swedish),
              c_break]),
            (3, c_block [
              check (slice_from_s 4 s_1_swedish),
              c_break])],
          set_lb (\<lambda>_. mlimit),
          c_return 1])])])]"

definition swedish_UTF_8_stem :: "sn_func" where
  "swedish_UTF_8_stem = c_fun [
    try_f 0 r_mark_regions_swedish,
    set_lb z_c,
    set_c z_l,
    try_b 1 r_main_suffix_swedish,
    try_b 2 r_consonant_pair_swedish,
    try_b 3 r_other_suffix_swedish,
    set_c z_lb,
    c_return 1]"

definition swedish_UTF_8_create_env :: "env_create" where
  "swedish_UTF_8_create_env = SN_create_env 0 2 0"

definition swedish_UTF_8_close_env :: "env_close" where
  "swedish_UTF_8_close_env z = SN_close_env z 0"

subsection \<open>Facts on the tables\<close>

lemma tables_swedish [simp]:
  "table_b a_0_swedish" "table_b a_1_swedish" "table_b a_2_swedish"
  by (rule table_sound, code_simp, code_simp)+

lemma length_tables_swedish [simp]:
  "length a_0_swedish = 37" "length a_1_swedish = 7" "length a_2_swedish = 5"
  by code_simp+

lemma least_swedish [simp]:
  "least a_0_swedish 1 = 1" "least a_0_swedish 2 = 1" "least a_2_swedish 1 = 2"
  "least a_2_swedish 2 = 5" "least a_2_swedish 3 = 5"
  by code_simp+

lemma lengths_swedish [simp]:
  "length s_0_swedish = 4" "length s_1_swedish = 4"
  by code_simp+

lemma covers_swedish [simp]:
  "covers g_s_ending_swedish 98 121" "covers g_v_swedish 97 246"
  by code_simp+

subsection \<open>Routines\<close>

text \<open>The routines work behind the mark \<^verbatim>\<open>p1\<close>, which lies in the window.\<close>

lemma r_mark_regions_swedish_wp:
  assumes "in_window z" "length (z_I z) = 2"
    and "\<And>r z'. 0 \<le> r \<Longrightarrow> marked (z\<lparr>z_c := z_c z'\<rparr>) z' \<Longrightarrow> z_c z \<le> z_c z' \<Longrightarrow> z_c z' \<le> z_l z \<Longrightarrow>
      0 \<le> z_I z' ! 0 \<Longrightarrow> z_I z' ! 0 \<le> z_l z \<Longrightarrow> Q r z'"
  shows "wpf r_mark_regions_swedish Q z"
  using assms unfolding r_mark_regions_swedish_def in_window_def
  by (auto intro!: win_intro simp: marked_iff)

lemma r_main_suffix_swedish_steps:
  assumes "in_window z" "z_c z = z_l z" "length (z_I z) = 2" "z_lb z \<le> z_I z ! 0"
  shows "wpf r_main_suffix_swedish (stepped z) z"
  using assms unfolding r_main_suffix_swedish_def in_window_def
  by (auto intro!: win_intro safe_intro simp: step_defs)

lemma r_consonant_pair_swedish_steps:
  assumes "in_window z" "z_c z = z_l z" "length (z_I z) = 2" "z_lb z \<le> z_I z ! 0"
  shows "wpf r_consonant_pair_swedish (stepped z) z"
  using assms unfolding r_consonant_pair_swedish_def in_window_def
  by (auto intro!: win_intro safe_intro simp: step_defs)

lemma r_other_suffix_swedish_steps:
  assumes "in_window z" "z_c z = z_l z" "length (z_I z) = 2" "z_lb z \<le> z_I z ! 0"
  shows "wpf r_other_suffix_swedish (stepped z) z"
  using assms unfolding r_other_suffix_swedish_def in_window_def
  by (auto intro!: win_intro safe_intro simp: step_defs)

lemmas swedish_routine_steps = r_main_suffix_swedish_steps r_consonant_pair_swedish_steps r_other_suffix_swedish_steps

lemma swedish_stem_steps:
  assumes "in_window z" "z_c z = 0" "strs_ok (z_S z)" "length (z_I z) = 2"
  shows "wpf swedish_UTF_8_stem (fitted z) z"
  unfolding swedish_UTF_8_stem_def wpf_fun
  apply (rule wp_cut [where n = 3 and J = "at_end (\<lambda>I. 0 \<le> I ! 0) z"], simp, simp)
  subgoal using assms by (auto intro!: r_mark_regions_swedish_wp
      simp: fitted_def step_defs fits_def at_end_def marked_iff)
  apply (erule wp_stage [where n = 3 and J' = "at_end (\<lambda>I. 0 \<le> I ! 0) z"], simp, simp)
  subgoal using assms by (auto intro!: wp_try_at_end [where orig = z and P = "\<lambda>I. 0 \<le> I ! 0"]
      swedish_routine_steps simp: fitted_def)
  subgoal using assms by (auto simp: step_defs fits_def at_end_def fitted_def)
  done

interpretation swedish: steady_stemmer swedish_UTF_8_stem 2 0
  by unfold_locales (auto intro!: wpf_mono [OF swedish_stem_steps])

end
