(* ===== verification/Norwegian.thy ===== *)
theory Norwegian
  imports Libstemmer
begin

text \<open>
  The Norwegian stemmer (\<^verbatim>\<open>src_c/stem_UTF_8_norwegian.c\<close>): its search tables, character groups and
  strings, its routines statement by statement, and the entry points. Every routine works behind the mark
  that the first one sets, and the stemmer meets the contract of a language.
\<close>

subsection \<open>Tables\<close>

definition a_0_norwegian :: "among list" where
  "a_0_norwegian = [
    amg 1 ''a'' (- 1) 1,
    amg 1 ''e'' (- 1) 1,
    amg 3 ''ede'' 1 1,
    amg 4 ''ande'' 1 1,
    amg 4 ''ende'' 1 1,
    amg 3 ''ane'' 1 1,
    amg 3 ''ene'' 1 1,
    amg 6 ''hetene'' 6 1,
    amg 4 ''erte'' 1 3,
    amg 2 ''en'' (- 1) 1,
    amg 5 ''heten'' 9 1,
    amg 2 ''ar'' (- 1) 1,
    amg 2 ''er'' (- 1) 1,
    amg 5 ''heter'' 12 1,
    amg 1 ''s'' (- 1) 2,
    amg 2 ''as'' 14 1,
    amg 2 ''es'' 14 1,
    amg 4 ''edes'' 16 1,
    amg 5 ''endes'' 16 1,
    amg 4 ''enes'' 16 1,
    amg 7 ''hetenes'' 19 1,
    amg 3 ''ens'' 14 1,
    amg 6 ''hetens'' 21 1,
    amg 3 ''ers'' 14 1,
    amg 3 ''ets'' 14 1,
    amg 2 ''et'' (- 1) 1,
    amg 3 ''het'' 25 1,
    amg 3 ''ert'' (- 1) 3,
    amg 3 ''ast'' (- 1) 1]"

definition a_1_norwegian :: "among list" where
  "a_1_norwegian = [
    amg 2 ''dt'' (- 1) (- 1),
    amg 2 ''vt'' (- 1) (- 1)]"

definition a_2_norwegian :: "among list" where
  "a_2_norwegian = [
    amg 3 ''leg'' (- 1) 1,
    amg 4 ''eleg'' 0 1,
    amg 2 ''ig'' (- 1) 1,
    amg 3 ''eig'' 2 1,
    amg 3 ''lig'' 2 1,
    amg 4 ''elig'' 4 1,
    amg 3 ''els'' (- 1) 1,
    amg 3 ''lov'' (- 1) 1,
    amg 4 ''elov'' 7 1,
    amg 4 ''slov'' 7 1,
    amg 7 ''hetslov'' 9 1]"

definition g_v_norwegian :: "int list" where
  "g_v_norwegian = [17, 65, 16, 1, 0, 0, 0, 0, 0, 0, 0, 0, 0, 0, 0, 0, 48, 0, 128]"

definition g_s_ending_norwegian :: "int list" where
  "g_s_ending_norwegian = [119, 125, 149, 1]"

subsection \<open>Strings\<close>

definition s_0_norwegian :: "symbol list" where
  "s_0_norwegian = ''k''"

definition s_1_norwegian :: "symbol list" where
  "s_1_norwegian = ''er''"

subsection \<open>Code\<close>

definition r_mark_regions_norwegian :: "sn_func" where
  "r_mark_regions_norwegian = c_fun [
    set_I 0 z_l,
    c_let z_c (\<lambda>c_test. c_block [
      move_to (skip_utf8_z (\<lambda>_. 0) z_l 3) (c_return 0),
      set_I 1 z_c,
      set_c (\<lambda>_. c_test)]),
    when_neg (out_grouping_U g_v_norwegian 97 248 1) (c_return 0),
    advance (in_grouping_U g_v_norwegian 97 248 1) (c_return 0),
    set_I 0 z_c,
    c_upto 0 [
      c_if (on_II 0 1 (\<lambda>i j. \<not> i < j)) (c_goto 0),
      set_I_I 0 1],
    c_return 1]"

definition r_main_suffix_norwegian :: "sn_func" where
  "r_main_suffix_norwegian = c_fun [
    c_let (\<lambda>z. z_l z - z_c z) (\<lambda>m1. c_block [
      c_if (on_I 0 (\<lambda>z i. z_c z < i)) (c_return 0),
      set_c_I 0,
      c_let z_lb (\<lambda>mlimit. c_block [
        set_lb z_c,
        set_c (\<lambda>z. z_l z - m1),
        set_ket z_c,
        c_if (tail_guard 0 (not_in_mask 3 1851426)) (
          c_block [
            set_lb (\<lambda>_. mlimit),
            c_return 0]),
        c_call (find_among_b a_0_norwegian 29) (\<lambda>among_var. c_block [
          c_if (test (\<lambda>_. among_var = 0)) (
            c_block [
              set_lb (\<lambda>_. mlimit),
              c_return 0]),
          set_bra z_c,
          set_lb (\<lambda>_. mlimit),
          c_switch among_var [
            (0, c_block [
              c_return 0]),
            (1, c_block [
              check slice_del,
              c_break]),
            (2, c_block [
              c_upto 0 [
                c_let (\<lambda>z. z_l z - z_c z) (\<lambda>m2. c_block [
                  c_upto 1 [
                    when_true (in_grouping_b_U g_s_ending_norwegian 98 122 0) (c_goto 1),
                    c_goto 0],
                  set_c (\<lambda>z. z_l z - m2),
                  unless (eq_s_b 1 s_0_norwegian) (c_return 0),
                  when_true (out_grouping_b_U g_v_norwegian 97 248 0) (c_return 0)])],
              check slice_del,
              c_break]),
            (3, c_block [
              check (slice_from_s 2 s_1_norwegian),
              c_break])],
          c_return 1])])])]"

definition r_consonant_pair_norwegian :: "sn_func" where
  "r_consonant_pair_norwegian = c_fun [
    c_let (\<lambda>z. z_l z - z_c z) (\<lambda>m_test. c_block [
      c_let (\<lambda>z. z_l z - z_c z) (\<lambda>m1. c_block [
        c_if (on_I 0 (\<lambda>z i. z_c z < i)) (c_return 0),
        set_c_I 0,
        c_let z_lb (\<lambda>mlimit. c_block [
          set_lb z_c,
          set_c (\<lambda>z. z_l z - m1),
          set_ket z_c,
          c_if (tail_guard 1 (\<lambda>ch. ch \<noteq> 116)) (
            c_block [
              set_lb (\<lambda>_. mlimit),
              c_return 0]),
          unless (find_among_b a_1_norwegian 2) (
            c_block [
              set_lb (\<lambda>_. mlimit),
              c_return 0]),
          set_bra z_c,
          set_lb (\<lambda>_. mlimit)])]),
      set_c (\<lambda>z. z_l z - m_test)]),
    move_to (skip_utf8_z z_lb (\<lambda>_. 0) (- 1)) (c_return 0),
    set_bra z_c,
    check slice_del,
    c_return 1]"

definition r_other_suffix_norwegian :: "sn_func" where
  "r_other_suffix_norwegian = c_fun [
    c_let (\<lambda>z. z_l z - z_c z) (\<lambda>m1. c_block [
      c_if (on_I 0 (\<lambda>z i. z_c z < i)) (c_return 0),
      set_c_I 0,
      c_let z_lb (\<lambda>mlimit. c_block [
        set_lb z_c,
        set_c (\<lambda>z. z_l z - m1),
        set_ket z_c,
        c_if (tail_guard 1 (not_in_mask 3 4718720)) (
          c_block [
            set_lb (\<lambda>_. mlimit),
            c_return 0]),
        c_call (find_among_b a_2_norwegian 11) (\<lambda>among_var. c_block [
          c_if (test (\<lambda>_. among_var = 0)) (
            c_block [
              set_lb (\<lambda>_. mlimit),
              c_return 0]),
          set_bra z_c,
          set_lb (\<lambda>_. mlimit),
          c_switch among_var [
            (0, c_block [
              c_return 0]),
            (1, c_block [
              check slice_del,
              c_break])],
          c_return 1])])])]"

definition norwegian_UTF_8_stem :: "sn_func" where
  "norwegian_UTF_8_stem = c_fun [
    try_f 0 r_mark_regions_norwegian,
    set_lb z_c,
    set_c z_l,
    try_b 1 r_main_suffix_norwegian,
    try_b 2 r_consonant_pair_norwegian,
    try_b 3 r_other_suffix_norwegian,
    set_c z_lb,
    c_return 1]"

definition norwegian_UTF_8_create_env :: "env_create" where
  "norwegian_UTF_8_create_env = SN_create_env 0 2 0"

definition norwegian_UTF_8_close_env :: "env_close" where
  "norwegian_UTF_8_close_env z = SN_close_env z 0"

subsection \<open>Facts on the tables\<close>

lemma tables_norwegian [simp]:
  "table_b a_0_norwegian" "table_b a_1_norwegian" "table_b a_2_norwegian"
  by (rule table_sound, code_simp, code_simp)+

lemma length_tables_norwegian [simp]:
  "length a_0_norwegian = 29" "length a_1_norwegian = 2" "length a_2_norwegian = 11"
  by code_simp+

lemma least_norwegian [simp]:
  "least a_0_norwegian 1 = 1" "least a_0_norwegian 2 = 1" "least a_0_norwegian 3 = 3"
  "least a_2_norwegian 1 = 2"
  by code_simp+

lemma lengths_norwegian [simp]:
  "length s_0_norwegian = 1" "length s_1_norwegian = 2"
  by code_simp+

lemma covers_norwegian [simp]:
  "covers g_s_ending_norwegian 98 122" "covers g_v_norwegian 97 248"
  by code_simp+

subsection \<open>Routines\<close>

text \<open>The routines work behind the mark \<^verbatim>\<open>p1\<close>, which lies in the window.\<close>

lemma r_mark_regions_norwegian_wp:
  assumes "in_window z" "length (z_I z) = 2"
    and "\<And>r z'. 0 \<le> r \<Longrightarrow> marked (z\<lparr>z_c := z_c z'\<rparr>) z' \<Longrightarrow> z_c z \<le> z_c z' \<Longrightarrow> z_c z' \<le> z_l z \<Longrightarrow>
      0 \<le> z_I z' ! 0 \<Longrightarrow> z_I z' ! 0 \<le> z_l z \<Longrightarrow> Q r z'"
  shows "wpf r_mark_regions_norwegian Q z"
  using assms unfolding r_mark_regions_norwegian_def in_window_def
  by (auto intro!: win_intro simp: marked_iff)

lemma r_main_suffix_norwegian_steps:
  assumes "in_window z" "z_c z = z_l z" "length (z_I z) = 2" "z_lb z \<le> z_I z ! 0"
  shows "wpf r_main_suffix_norwegian (stepped z) z"
  using assms unfolding r_main_suffix_norwegian_def in_window_def
  by (auto intro!: win_intro safe_intro simp: step_defs)

lemma r_consonant_pair_norwegian_steps:
  assumes "in_window z" "z_c z = z_l z" "length (z_I z) = 2" "z_lb z \<le> z_I z ! 0"
  shows "wpf r_consonant_pair_norwegian (stepped z) z"
  using assms unfolding r_consonant_pair_norwegian_def in_window_def
  by (auto intro!: win_intro safe_intro simp: step_defs)

lemma r_other_suffix_norwegian_steps:
  assumes "in_window z" "z_c z = z_l z" "length (z_I z) = 2" "z_lb z \<le> z_I z ! 0"
  shows "wpf r_other_suffix_norwegian (stepped z) z"
  using assms unfolding r_other_suffix_norwegian_def in_window_def
  by (auto intro!: win_intro safe_intro simp: step_defs)

lemmas norwegian_routine_steps = r_main_suffix_norwegian_steps r_consonant_pair_norwegian_steps r_other_suffix_norwegian_steps

lemma norwegian_stem_steps:
  assumes "in_window z" "z_c z = 0" "strs_ok (z_S z)" "length (z_I z) = 2"
  shows "wpf norwegian_UTF_8_stem (fitted z) z"
  unfolding norwegian_UTF_8_stem_def wpf_fun
  apply (rule wp_cut [where n = 3 and J = "at_end (\<lambda>I. 0 \<le> I ! 0) z"], simp, simp)
  subgoal using assms by (auto intro!: r_mark_regions_norwegian_wp
      simp: fitted_def step_defs fits_def at_end_def marked_iff)
  apply (erule wp_stage [where n = 3 and J' = "at_end (\<lambda>I. 0 \<le> I ! 0) z"], simp, simp)
  subgoal using assms by (auto intro!: wp_try_at_end [where orig = z and P = "\<lambda>I. 0 \<le> I ! 0"]
      norwegian_routine_steps simp: fitted_def)
  subgoal using assms by (auto simp: step_defs fits_def at_end_def fitted_def)
  done

interpretation norwegian: steady_stemmer norwegian_UTF_8_stem 2 0
  by unfold_locales (auto intro!: wpf_mono [OF norwegian_stem_steps])

end
