(* ===== verification/Danish.thy ===== *)
theory Danish
  imports Libstemmer
begin

text \<open>
  The Danish stemmer (\<^verbatim>\<open>src_c/stem_UTF_8_danish.c\<close>): its search tables, character groups and
  strings, its routines statement by statement, and the entry points. Every routine works behind the mark
  that the first one sets, one of them with a string variable, and the stemmer meets the contract
  of a language.
\<close>

subsection \<open>Tables\<close>

definition a_0_danish :: "among list" where
  "a_0_danish = [
    amg 3 ''hed'' (- 1) 1,
    amg 5 ''ethed'' 0 1,
    amg 4 ''ered'' (- 1) 1,
    amg 1 ''e'' (- 1) 1,
    amg 5 ''erede'' 3 1,
    amg 4 ''ende'' 3 1,
    amg 6 ''erende'' 5 1,
    amg 3 ''ene'' 3 1,
    amg 4 ''erne'' 3 1,
    amg 3 ''ere'' 3 1,
    amg 2 ''en'' (- 1) 1,
    amg 5 ''heden'' 10 1,
    amg 4 ''eren'' 10 1,
    amg 2 ''er'' (- 1) 1,
    amg 5 ''heder'' 13 1,
    amg 4 ''erer'' 13 1,
    amg 1 ''s'' (- 1) 2,
    amg 4 ''heds'' 16 1,
    amg 2 ''es'' 16 1,
    amg 5 ''endes'' 18 1,
    amg 7 ''erendes'' 19 1,
    amg 4 ''enes'' 18 1,
    amg 5 ''ernes'' 18 1,
    amg 4 ''eres'' 18 1,
    amg 3 ''ens'' 16 1,
    amg 6 ''hedens'' 24 1,
    amg 5 ''erens'' 24 1,
    amg 3 ''ers'' 16 1,
    amg 3 ''ets'' 16 1,
    amg 5 ''erets'' 28 1,
    amg 2 ''et'' (- 1) 1,
    amg 4 ''eret'' 30 1]"

definition a_1_danish :: "among list" where
  "a_1_danish = [
    amg 2 ''gd'' (- 1) (- 1),
    amg 2 ''dt'' (- 1) (- 1),
    amg 2 ''gt'' (- 1) (- 1),
    amg 2 ''kt'' (- 1) (- 1)]"

definition a_2_danish :: "among list" where
  "a_2_danish = [
    amg 2 ''ig'' (- 1) 1,
    amg 3 ''lig'' 0 1,
    amg 4 ''elig'' 1 1,
    amg 3 ''els'' (- 1) 1,
    amg 5 [CHR ''l'', CHR 0xC3, CHR 0xB8, CHR ''s'', CHR ''t''] (- 1) 2]"

definition g_v_danish :: "int list" where
  "g_v_danish = [17, 65, 16, 1, 0, 0, 0, 0, 0, 0, 0, 0, 0, 0, 0, 0, 48, 0, 128]"

definition g_s_ending_danish :: "int list" where
  "g_s_ending_danish = [239, 254, 42, 3, 0, 0, 0, 0, 0, 0, 0, 0, 0, 0, 0, 0, 16]"

subsection \<open>Strings\<close>

definition s_0_danish :: "symbol list" where
  "s_0_danish = ''st''"

definition s_1_danish :: "symbol list" where
  "s_1_danish = ''ig''"

definition s_2_danish :: "symbol list" where
  "s_2_danish = [CHR ''l'', CHR 0xC3, CHR 0xB8, CHR ''s'']"

subsection \<open>Code\<close>

definition r_mark_regions_danish :: "sn_func" where
  "r_mark_regions_danish = c_fun [
    set_I 0 z_l,
    c_let z_c (\<lambda>c_test. c_block [
      move_to (skip_utf8_z (\<lambda>_. 0) z_l 3) (c_return 0),
      set_I 1 z_c,
      set_c (\<lambda>_. c_test)]),
    when_neg (out_grouping_U g_v_danish 97 248 1) (c_return 0),
    advance (in_grouping_U g_v_danish 97 248 1) (c_return 0),
    set_I 0 z_c,
    c_upto 0 [
      c_if (on_II 0 1 (\<lambda>i j. \<not> i < j)) (c_goto 0),
      set_I_I 0 1],
    c_return 1]"

definition r_main_suffix_danish :: "sn_func" where
  "r_main_suffix_danish = c_fun [
    c_let (\<lambda>z. z_l z - z_c z) (\<lambda>m1. c_block [
      c_if (on_I 0 (\<lambda>z i. z_c z < i)) (c_return 0),
      set_c_I 0,
      c_let z_lb (\<lambda>mlimit. c_block [
        set_lb z_c,
        set_c (\<lambda>z. z_l z - m1),
        set_ket z_c,
        c_if (tail_guard 0 (not_in_mask 3 1851440)) (
          c_block [
            set_lb (\<lambda>_. mlimit),
            c_return 0]),
        c_call (find_among_b a_0_danish 32) (\<lambda>among_var. c_block [
          c_if (test (\<lambda>_. among_var = 0)) (
            c_block [
              set_lb (\<lambda>_. mlimit),
              c_return 0]),
          set_bra z_c,
          set_lb (\<lambda>_. mlimit),
          c_switch among_var [
            (0, c_block [
              c_return 0]),
            (1, c_block [
              check slice_del,
              c_break]),
            (2, c_block [
              when_true (in_grouping_b_U g_s_ending_danish 97 229 0) (c_return 0),
              check slice_del,
              c_break])],
          c_return 1])])])]"

definition r_consonant_pair_danish :: "sn_func" where
  "r_consonant_pair_danish = c_fun [
    c_let (\<lambda>z. z_l z - z_c z) (\<lambda>m_test. c_block [
      c_let (\<lambda>z. z_l z - z_c z) (\<lambda>m1. c_block [
        c_if (on_I 0 (\<lambda>z i. z_c z < i)) (c_return 0),
        set_c_I 0,
        c_let z_lb (\<lambda>mlimit. c_block [
          set_lb z_c,
          set_c (\<lambda>z. z_l z - m1),
          set_ket z_c,
          c_if (tail_guard 1 (\<lambda>ch. ch \<noteq> 100 \<and> ch \<noteq> 116)) (
            c_block [
              set_lb (\<lambda>_. mlimit),
              c_return 0]),
          unless (find_among_b a_1_danish 4) (
            c_block [
              set_lb (\<lambda>_. mlimit),
              c_return 0]),
          set_bra z_c,
          set_lb (\<lambda>_. mlimit)])]),
      set_c (\<lambda>z. z_l z - m_test)]),
    move_to (skip_utf8_z z_lb (\<lambda>_. 0) (- 1)) (c_return 0),
    set_bra z_c,
    check slice_del,
    c_return 1]"

definition r_other_suffix_danish :: "sn_func" where
  "r_other_suffix_danish = c_fun [
    c_let (\<lambda>z. z_l z - z_c z) (\<lambda>m1. c_block [
      set_ket z_c,
      c_upto 0 [
        unless (eq_s_b 2 s_0_danish) (c_goto 0),
        set_bra z_c,
        unless (eq_s_b 2 s_1_danish) (c_goto 0),
        check slice_del],
      set_c (\<lambda>z. z_l z - m1)]),
    c_let (\<lambda>z. z_l z - z_c z) (\<lambda>m2. c_block [
      c_if (on_I 0 (\<lambda>z i. z_c z < i)) (c_return 0),
      set_c_I 0,
      c_let z_lb (\<lambda>mlimit. c_block [
        set_lb z_c,
        set_c (\<lambda>z. z_l z - m2),
        set_ket z_c,
        c_if (tail_guard 1 (not_in_mask 3 1572992)) (
          c_block [
            set_lb (\<lambda>_. mlimit),
            c_return 0]),
        c_call (find_among_b a_2_danish 5) (\<lambda>among_var. c_block [
          c_if (test (\<lambda>_. among_var = 0)) (
            c_block [
              set_lb (\<lambda>_. mlimit),
              c_return 0]),
          set_bra z_c,
          set_lb (\<lambda>_. mlimit),
          c_switch among_var [
            (0, c_block [
              c_return 0]),
            (1, c_block [
              check slice_del,
              try_b 1 r_consonant_pair_danish,
              c_break]),
            (2, c_block [
              check (slice_from_s 4 s_2_danish),
              c_break])],
          c_return 1])])])]"

definition r_undouble_danish :: "sn_func" where
  "r_undouble_danish = c_fun [
    c_let (\<lambda>z. z_l z - z_c z) (\<lambda>m1. c_block [
      c_if (on_I 0 (\<lambda>z i. z_c z < i)) (c_return 0),
      set_c_I 0,
      c_let z_lb (\<lambda>mlimit. c_block [
        set_lb z_c,
        set_c (\<lambda>z. z_l z - m1),
        set_ket z_c,
        when_true (out_grouping_b_U g_v_danish 97 248 0) (
          c_block [
            set_lb (\<lambda>_. mlimit),
            c_return 0]),
        set_bra z_c,
        set_S_slice_to 0,
        c_if (S_null 0) (c_return (- 1)),
        set_lb (\<lambda>_. mlimit)])]),
    unless (eq_v_b_S 0) (c_return 0),
    check slice_del,
    c_return 1]"

definition danish_UTF_8_stem :: "sn_func" where
  "danish_UTF_8_stem = c_fun [
    try_f 0 r_mark_regions_danish,
    set_lb z_c,
    set_c z_l,
    try_b 1 r_main_suffix_danish,
    try_b 2 r_consonant_pair_danish,
    try_b 3 r_other_suffix_danish,
    try_b 4 r_undouble_danish,
    set_c z_lb,
    c_return 1]"

definition danish_UTF_8_create_env :: "env_create" where
  "danish_UTF_8_create_env = SN_create_env 1 2 0"

definition danish_UTF_8_close_env :: "env_close" where
  "danish_UTF_8_close_env z = SN_close_env z 1"

subsection \<open>Facts on the tables\<close>

lemma tables_danish [simp]:
  "table_b a_0_danish" "table_b a_1_danish" "table_b a_2_danish"
  by (rule table_sound, code_simp, code_simp)+

lemma length_tables_danish [simp]:
  "length a_0_danish = 32" "length a_1_danish = 4" "length a_2_danish = 5"
  by code_simp+

lemma least_danish [simp]:
  "least a_0_danish 1 = 1" "least a_0_danish 2 = 1" "least a_2_danish 1 = 2"
  "least a_2_danish 2 = 5"
  by code_simp+

lemma lengths_danish [simp]:
  "length s_0_danish = 2" "length s_1_danish = 2" "length s_2_danish = 4"
  by code_simp+

lemma covers_danish [simp]:
  "covers g_s_ending_danish 97 229" "covers g_v_danish 97 248"
  by code_simp+

subsection \<open>Routines\<close>

text \<open>The routines work behind the mark \<^verbatim>\<open>p1\<close>, which lies in the window.\<close>

lemma r_mark_regions_danish_wp:
  assumes "in_window z" "length (z_I z) = 2"
    and "\<And>r z'. 0 \<le> r \<Longrightarrow> marked (z\<lparr>z_c := z_c z'\<rparr>) z' \<Longrightarrow> z_c z \<le> z_c z' \<Longrightarrow> z_c z' \<le> z_l z \<Longrightarrow>
      0 \<le> z_I z' ! 0 \<Longrightarrow> z_I z' ! 0 \<le> z_l z \<Longrightarrow> Q r z'"
  shows "wpf r_mark_regions_danish Q z"
  using assms unfolding r_mark_regions_danish_def in_window_def
  by (auto intro!: win_intro simp: marked_iff)

lemma r_main_suffix_danish_steps:
  assumes "in_window z" "z_c z = z_l z" "length (z_I z) = 2" "z_lb z \<le> z_I z ! 0"
  shows "wpf r_main_suffix_danish (stepped z) z"
  using assms unfolding r_main_suffix_danish_def in_window_def
  by (auto intro!: win_intro safe_intro simp: step_defs)

lemma r_consonant_pair_danish_steps:
  assumes "in_window z" "z_c z = z_l z" "length (z_I z) = 2" "z_lb z \<le> z_I z ! 0"
  shows "wpf r_consonant_pair_danish (stepped z) z"
  using assms unfolding r_consonant_pair_danish_def in_window_def
  by (auto intro!: win_intro safe_intro simp: step_defs)

lemma r_other_suffix_danish_steps:
  assumes "in_window z" "z_c z = z_l z" "length (z_I z) = 2" "z_lb z \<le> z_I z ! 0"
  shows "wpf r_other_suffix_danish (stepped z) z"
  using assms unfolding r_other_suffix_danish_def in_window_def
  by (auto intro!: win_intro slice_del_end_wp slice_from_s_safe wp_try_b r_consonant_pair_danish_steps wp_upto_back [where n = 0]
      simp: step_defs simp del: wp_upto)

lemma r_undouble_danish_steps:
  assumes "in_window z" "z_c z = z_l z" "length (z_I z) = 2" "z_lb z \<le> z_I z ! 0" "strs_ok (z_S z)" "length (z_S z) = 1"
  shows "wpf r_undouble_danish (stepped_S z) z"
  using assms unfolding r_undouble_danish_def in_window_def
  by (auto intro!: win_intro safe_intro set_S_slice_to_safe eq_v_b_S_safe simp: step_defs stepped_S_def)

lemmas danish_routine_steps = r_main_suffix_danish_steps r_consonant_pair_danish_steps r_other_suffix_danish_steps

lemma danish_stem_steps:
  assumes "in_window z" "z_c z = 0" "strs_ok (z_S z)" "length (z_S z) = 1" "length (z_I z) = 2"
  shows "wpf danish_UTF_8_stem (stemmed z) z"
  unfolding danish_UTF_8_stem_def wpf_fun
  apply (rule wp_cut [where n = 3 and J = "at_end (\<lambda>I. 0 \<le> I ! 0) z"], simp, simp)
  subgoal using assms by (auto intro!: r_mark_regions_danish_wp
      simp: stemmed_def step_defs fits_def at_end_def marked_iff)
  apply (erule wp_stage [where n = 3 and J' = "at_end (\<lambda>I. 0 \<le> I ! 0) z"], simp, simp)
  subgoal using assms by (auto intro!: wp_try_at_end [where orig = z and P = "\<lambda>I. 0 \<le> I ! 0"]
      danish_routine_steps simp: stemmed_def)
  apply (erule wp_stage [where n = 1 and J' = "at_end (\<lambda>I. 0 \<le> I ! 0) z"], simp, simp)
  subgoal using assms by (auto intro!: wp_try_at_end_S [where orig = z and P = "\<lambda>I. 0 \<le> I ! 0"]
      r_undouble_danish_steps simp: stemmed_def)
  subgoal using assms by (auto simp: step_defs fits_def at_end_def stemmed_def)
  done

interpretation danish: stemmer danish_UTF_8_stem 1 2 0 0
  by unfold_locales (auto intro!: wpf_mono [OF danish_stem_steps] fits_grown simp: stemmed_def)

end
