(* ===== verification/German.thy ===== *)
theory German
  imports Libstemmer
begin

text \<open>
  The German stemmer (\<^verbatim>\<open>src_c/stem_UTF_8_german.c\<close>), statement by statement. Its prelude writes the
  letter eszett as \<open>ss\<close> and protects the vowels u and y between vowels by capitals, its postlude
  undoes that and removes the umlauts. The lemmas show that every loop ends, that no access leaves
  the buffer, and that the text never grows: the stemmer is a \<open>steady_stemmer\<close>.
\<close>

subsection \<open>Tables\<close>

definition a_0_german :: "among list" where
  "a_0_german = [
    amg 0 [] (- 1) 6,
    amg 1 ''U'' 0 2,
    amg 1 ''Y'' 0 1,
    amg 2 [CHR 0xC3, CHR 0xA4] 0 3,
    amg 2 [CHR 0xC3, CHR 0xB6] 0 4,
    amg 2 [CHR 0xC3, CHR 0xBC] 0 5]"

definition a_1_german :: "among list" where
  "a_1_german = [
    amg 1 ''e'' (- 1) 1,
    amg 2 ''em'' (- 1) 1,
    amg 2 ''en'' (- 1) 1,
    amg 3 ''ern'' (- 1) 1,
    amg 2 ''er'' (- 1) 1,
    amg 1 ''s'' (- 1) 2,
    amg 2 ''es'' 5 1]"

definition a_2_german :: "among list" where
  "a_2_german = [
    amg 2 ''en'' (- 1) 1,
    amg 2 ''er'' (- 1) 1,
    amg 2 ''st'' (- 1) 2,
    amg 3 ''est'' 2 1]"

definition a_3_german :: "among list" where
  "a_3_german = [
    amg 2 ''ig'' (- 1) 1,
    amg 4 ''lich'' (- 1) 1]"

definition a_4_german :: "among list" where
  "a_4_german = [
    amg 3 ''end'' (- 1) 1,
    amg 2 ''ig'' (- 1) 2,
    amg 3 ''ung'' (- 1) 1,
    amg 4 ''lich'' (- 1) 3,
    amg 4 ''isch'' (- 1) 2,
    amg 2 ''ik'' (- 1) 2,
    amg 4 ''heit'' (- 1) 3,
    amg 4 ''keit'' (- 1) 4]"

definition g_v_german :: "int list" where
  "g_v_german = [17, 65, 16, 1, 0, 0, 0, 0, 0, 0, 0, 0, 0, 0, 0, 0, 8, 0, 32, 8]"

definition g_s_ending_german :: "int list" where
  "g_s_ending_german = [117, 30, 5]"

definition g_st_ending_german :: "int list" where
  "g_st_ending_german = [117, 30, 4]"

subsection \<open>Strings\<close>

definition s_0_german :: "symbol list" where
  "s_0_german = [CHR 0xC3, CHR 0x9F]"

definition s_1_german :: "symbol list" where
  "s_1_german = ''ss''"

definition s_2_german :: "symbol list" where
  "s_2_german = ''u''"

definition s_3_german :: "symbol list" where
  "s_3_german = ''U''"

definition s_4_german :: "symbol list" where
  "s_4_german = ''y''"

definition s_5_german :: "symbol list" where
  "s_5_german = ''Y''"

definition s_6_german :: "symbol list" where
  "s_6_german = ''y''"

definition s_7_german :: "symbol list" where
  "s_7_german = ''u''"

definition s_8_german :: "symbol list" where
  "s_8_german = ''a''"

definition s_9_german :: "symbol list" where
  "s_9_german = ''o''"

definition s_10_german :: "symbol list" where
  "s_10_german = ''u''"

definition s_11_german :: "symbol list" where
  "s_11_german = ''ig''"

definition s_12_german :: "symbol list" where
  "s_12_german = ''e''"

definition s_13_german :: "symbol list" where
  "s_13_german = ''e''"

definition s_14_german :: "symbol list" where
  "s_14_german = ''er''"

definition s_15_german :: "symbol list" where
  "s_15_german = ''en''"

subsection \<open>Code\<close>

definition r_prelude_german_while1 :: "sn_cmd" where
  "r_prelude_german_while1 = c_while1 (c_block [
      c_let z_c (\<lambda>c1. c_block [
        c_upto 0 [
          c_upto 1 [
            c_let z_c (\<lambda>c2. c_block [
              set_bra z_c,
              c_upto 2 [
                unless (eq_s 2 s_0_german) (c_goto 2),
                set_ket z_c,
                check (slice_from_s 2 s_1_german),
                c_goto 1],
              set_c (\<lambda>_. c2),
              move_to (skip_utf8_z (\<lambda>_. 0) z_l 1) (c_goto 0)])],
          c_continue],
        set_c (\<lambda>_. c1),
        c_break])])"

definition r_prelude_german_while2 :: "sn_cmd" where
  "r_prelude_german_while2 = c_while1 (c_block [
      c_let z_c (\<lambda>c4. c_block [
        c_upto 4 [
          when_true (in_grouping_U g_v_german 97 252 0) (c_goto 4),
          set_bra z_c,
          c_upto 5 [
            c_let z_c (\<lambda>c5. c_block [
              c_upto 6 [
                unless (eq_s 1 s_2_german) (c_goto 6),
                set_ket z_c,
                when_true (in_grouping_U g_v_german 97 252 0) (c_goto 6),
                check (slice_from_s 1 s_3_german),
                c_goto 5],
              set_c (\<lambda>_. c5),
              unless (eq_s 1 s_4_german) (c_goto 4),
              set_ket z_c,
              when_true (in_grouping_U g_v_german 97 252 0) (c_goto 4),
              check (slice_from_s 1 s_5_german)])],
          set_c (\<lambda>_. c4),
          c_break],
        set_c (\<lambda>_. c4),
        move_to (skip_utf8_z (\<lambda>_. 0) z_l 1) (c_goto 3)])])"

definition r_prelude_german_while3 :: "sn_cmd" where
  "r_prelude_german_while3 = c_while1 (c_block [
      c_let z_c (\<lambda>c3. c_block [
        c_upto 3 [
          r_prelude_german_while2,
          c_continue],
        set_c (\<lambda>_. c3),
        c_break])])"

definition r_prelude_german :: "sn_func" where
  "r_prelude_german = c_fun [
    c_let z_c (\<lambda>c_test. c_block [
      r_prelude_german_while1,
      set_c (\<lambda>_. c_test)]),
    r_prelude_german_while3,
    c_return 1]"

definition r_mark_regions_german :: "sn_func" where
  "r_mark_regions_german = c_fun [
    set_I 0 z_l,
    set_I 1 z_l,
    c_let z_c (\<lambda>c_test. c_block [
      move_to (skip_utf8_z (\<lambda>_. 0) z_l 3) (c_return 0),
      set_I 2 z_c,
      set_c (\<lambda>_. c_test)]),
    advance (out_grouping_U g_v_german 97 252 1) (c_return 0),
    advance (in_grouping_U g_v_german 97 252 1) (c_return 0),
    set_I 0 z_c,
    c_upto 0 [
      c_if (on_II 0 2 (\<lambda>i j. \<not> i < j)) (c_goto 0),
      set_I_I 0 2],
    advance (out_grouping_U g_v_german 97 252 1) (c_return 0),
    advance (in_grouping_U g_v_german 97 252 1) (c_return 0),
    set_I 1 z_c,
    c_return 1]"

definition r_postlude_german_while1 :: "sn_cmd" where
  "r_postlude_german_while1 = c_while1 (c_block [
      c_let z_c (\<lambda>c1. c_block [
        set_bra z_c,
        c_call (find_among a_0_german 6) (\<lambda>among_var. c_block [
          c_upto 0 [
            c_if (test (\<lambda>_. among_var = 0)) (c_goto 0),
            set_ket z_c,
            c_switch among_var [
              (0, c_block [
                c_goto 0]),
              (1, c_block [
                check (slice_from_s 1 s_6_german),
                c_break]),
              (2, c_block [
                check (slice_from_s 1 s_7_german),
                c_break]),
              (3, c_block [
                check (slice_from_s 1 s_8_german),
                c_break]),
              (4, c_block [
                check (slice_from_s 1 s_9_german),
                c_break]),
              (5, c_block [
                check (slice_from_s 1 s_10_german),
                c_break]),
              (6, c_block [
                move_to (skip_utf8_z (\<lambda>_. 0) z_l 1) (c_goto 0),
                c_break])],
            c_continue],
          set_c (\<lambda>_. c1),
          c_break])])])"

definition r_postlude_german :: "sn_func" where
  "r_postlude_german = c_fun [
    r_postlude_german_while1,
    c_return 1]"

definition r_R1_german :: "sn_func" where
  "r_R1_german = c_fun [
    c_if (on_I 0 (\<lambda>z i. \<not> i \<le> z_c z)) (c_return 0),
    c_return 1]"

definition r_R2_german :: "sn_func" where
  "r_R2_german = c_fun [
    c_if (on_I 1 (\<lambda>z i. \<not> i \<le> z_c z)) (c_return 0),
    c_return 1]"

definition r_standard_suffix_german :: "sn_func" where
  "r_standard_suffix_german = c_fun [
    c_let (\<lambda>z. z_l z - z_c z) (\<lambda>m1. c_block [
      set_ket z_c,
      c_upto 0 [
        c_if (tail_guard 0 (not_in_mask 3 811040)) (c_goto 0),
        c_call (find_among_b a_1_german 7) (\<lambda>among_var. c_block [
          c_if (test (\<lambda>_. among_var = 0)) (c_goto 0),
          set_bra z_c,
          routine r_R1_german (c_goto 0),
          c_switch among_var [
            (0, c_block [
              c_goto 0]),
            (1, c_block [
              check slice_del,
              c_break]),
            (2, c_block [
              when_true (in_grouping_b_U g_s_ending_german 98 116 0) (c_goto 0),
              check slice_del,
              c_break])]])],
      set_c (\<lambda>z. z_l z - m1)]),
    c_let (\<lambda>z. z_l z - z_c z) (\<lambda>m2. c_block [
      set_ket z_c,
      c_upto 1 [
        c_if (tail_guard 1 (not_in_mask 3 1327104)) (c_goto 1),
        c_call (find_among_b a_2_german 4) (\<lambda>among_var. c_block [
          c_if (test (\<lambda>_. among_var = 0)) (c_goto 1),
          set_bra z_c,
          routine r_R1_german (c_goto 1),
          c_switch among_var [
            (0, c_block [
              c_goto 1]),
            (1, c_block [
              check slice_del,
              c_break]),
            (2, c_block [
              when_true (in_grouping_b_U g_st_ending_german 98 116 0) (c_goto 1),
              move_to (skip_utf8_z z_lb z_l (- 3)) (c_goto 1),
              check slice_del,
              c_break])]])],
      set_c (\<lambda>z. z_l z - m2)]),
    c_let (\<lambda>z. z_l z - z_c z) (\<lambda>m3. c_block [
      set_ket z_c,
      c_upto 2 [
        c_if (tail_guard 1 (not_in_mask 3 1051024)) (c_goto 2),
        c_call (find_among_b a_4_german 8) (\<lambda>among_var. c_block [
          c_if (test (\<lambda>_. among_var = 0)) (c_goto 2),
          set_bra z_c,
          routine r_R2_german (c_goto 2),
          c_switch among_var [
            (0, c_block [
              c_goto 2]),
            (1, c_block [
              check slice_del,
              c_let (\<lambda>z. z_l z - z_c z) (\<lambda>m_keep. c_block [
                set_ket z_c,
                c_upto 3 [
                  unless (eq_s_b 2 s_11_german) (
                    c_block [
                      set_c (\<lambda>z. z_l z - m_keep),
                      c_goto 3]),
                  set_bra z_c,
                  c_let (\<lambda>z. z_l z - z_c z) (\<lambda>m4. c_block [
                    c_upto 4 [
                      unless (eq_s_b 1 s_12_german) (c_goto 4),
                      c_block [
                        set_c (\<lambda>z. z_l z - m_keep),
                        c_goto 3]],
                    set_c (\<lambda>z. z_l z - m4)]),
                  routine r_R2_german (
                    c_block [
                      set_c (\<lambda>z. z_l z - m_keep),
                      c_goto 3]),
                  check slice_del]]),
              c_break]),
            (2, c_block [
              c_let (\<lambda>z. z_l z - z_c z) (\<lambda>m5. c_block [
                c_upto 5 [
                  unless (eq_s_b 1 s_13_german) (c_goto 5),
                  c_goto 2],
                set_c (\<lambda>z. z_l z - m5)]),
              check slice_del,
              c_break]),
            (3, c_block [
              check slice_del,
              c_let (\<lambda>z. z_l z - z_c z) (\<lambda>m_keep. c_block [
                set_ket z_c,
                c_upto 6 [
                  c_upto 7 [
                    c_let (\<lambda>z. z_l z - z_c z) (\<lambda>m6. c_block [
                      c_upto 8 [
                        unless (eq_s_b 2 s_14_german) (c_goto 8),
                        c_goto 7],
                      set_c (\<lambda>z. z_l z - m6),
                      unless (eq_s_b 2 s_15_german) (
                        c_block [
                          set_c (\<lambda>z. z_l z - m_keep),
                          c_goto 6])])],
                  set_bra z_c,
                  routine r_R1_german (
                    c_block [
                      set_c (\<lambda>z. z_l z - m_keep),
                      c_goto 6]),
                  check slice_del]]),
              c_break]),
            (4, c_block [
              check slice_del,
              c_let (\<lambda>z. z_l z - z_c z) (\<lambda>m_keep. c_block [
                set_ket z_c,
                c_upto 9 [
                  c_if (tail_guard 1 (\<lambda>ch. ch \<noteq> 103 \<and> ch \<noteq> 104)) (
                    c_block [
                      set_c (\<lambda>z. z_l z - m_keep),
                      c_goto 9]),
                  c_call (find_among_b a_3_german 2) (\<lambda>among_var. c_block [
                    c_if (test (\<lambda>_. among_var = 0)) (
                      c_block [
                        set_c (\<lambda>z. z_l z - m_keep),
                        c_goto 9]),
                    set_bra z_c,
                    routine r_R2_german (
                      c_block [
                        set_c (\<lambda>z. z_l z - m_keep),
                        c_goto 9]),
                    c_switch among_var [
                      (0, c_block [
                        c_block [
                          set_c (\<lambda>z. z_l z - m_keep),
                          c_goto 9]]),
                      (1, c_block [
                        check slice_del,
                        c_break])]])]]),
              c_break])]])],
      set_c (\<lambda>z. z_l z - m3)]),
    c_return 1]"

definition german_UTF_8_stem :: "sn_func" where
  "german_UTF_8_stem = c_fun [
    try_f 0 r_prelude_german,
    try_f 1 r_mark_regions_german,
    set_lb z_c,
    set_c z_l,
    try_b 2 r_standard_suffix_german,
    set_c z_lb,
    try_f 3 r_postlude_german,
    c_return 1]"

definition german_UTF_8_create_env :: "env_create" where
  "german_UTF_8_create_env = SN_create_env 0 3 0"

definition german_UTF_8_close_env :: "env_close" where
  "german_UTF_8_close_env z = SN_close_env z 0"

subsection \<open>Facts on the tables\<close>

lemma tables_german [simp]:
  "table_f a_0_german" "table_b a_1_german" "table_b a_2_german" "table_b a_3_german"
  "table_b a_4_german"
  by (rule table_sound, code_simp, code_simp)+

lemma length_tables_german [simp]:
  "length a_0_german = 6" "length a_1_german = 7" "length a_2_german = 4" "length a_3_german = 2"
  "length a_4_german = 8"
  by code_simp+

lemma least_german [simp]:
  "least a_0_german 1 = 1" "least a_0_german 2 = 1" "least a_0_german 3 = 2"
  "least a_0_german 4 = 2" "least a_0_german 5 = 2" "least a_0_german 6 = 0"
  "least a_1_german 1 = 1" "least a_1_german 2 = 1" "least a_2_german 1 = 2"
  "least a_2_german 2 = 2" "least a_3_german 1 = 2" "least a_4_german 1 = 3"
  "least a_4_german 2 = 2" "least a_4_german 3 = 4" "least a_4_german 4 = 4"
  by code_simp+

lemma has_german [simp]:
  "has a_0_german r \<longleftrightarrow> r = 1 \<or> r = 2 \<or> r = 3 \<or> r = 4 \<or> r = 5 \<or> r = 6"
  by (auto simp: has_def a_0_german_def)

lemma lengths_german [simp]:
  "length s_0_german = 2" "length s_1_german = 2" "length s_2_german = 1" "length s_3_german = 1"
  "length s_4_german = 1" "length s_5_german = 1" "length s_6_german = 1" "length s_7_german = 1"
  "length s_8_german = 1" "length s_9_german = 1" "length s_10_german = 1"
  "length s_11_german = 2" "length s_12_german = 1" "length s_13_german = 1"
  "length s_14_german = 2" "length s_15_german = 2"
  by code_simp+

lemma covers_german [simp]:
  "covers g_s_ending_german 98 116" "covers g_st_ending_german 98 116" "covers g_v_german 97 252"
  by code_simp+

subsection \<open>Loops\<close>

lemma prelude_while1_german_wp:
  assumes "in_window z" "\<And>z'. kept z z' \<Longrightarrow> z_l z' \<le> z_l z \<Longrightarrow> Q Next z'"
  shows "wp r_prelude_german_while1 Q z"
  using assms unfolding r_prelude_german_while1_def
  by (intro wp_repeat) (auto intro!: win_intro slice_from_s_fwd simp: step_defs)

lemma prelude_while2_german: "rewriting r_prelude_german_while2 3 (\<lambda>b. b = CHR ''u'' \<or> b = CHR ''y'')"
  unfolding rewriting_def r_prelude_german_while2_def
  by (intro allI impI, rule wp_search) (auto intro!: win_intro slice_rewrite_wp [where P = "\<lambda>b. b = CHR ''u'' \<or> b = CHR ''y''"]
    simp: rewrote_def step_defs moved_iff s_2_german_def s_3_german_def s_4_german_def s_5_german_def)

lemmas prelude_while3_german_wp =
  rewrite_loop_wp [OF prelude_while2_german, folded r_prelude_german_while3_def]

lemma postlude_while1_german_wp:
  assumes "in_window z" "\<And>z'. kept z z' \<Longrightarrow> z_l z' \<le> z_l z \<Longrightarrow> Q Next z'"
  shows "wp r_postlude_german_while1 Q z"
  using assms unfolding r_postlude_german_while1_def
  by (intro wp_repeat) (auto intro!: win_intro slice_from_s_fwd simp: step_defs)

subsection \<open>Routines\<close>

lemma r_prelude_german_wp:
  assumes "in_window z" "z_c z = z_lb z" "\<And>z'. kept z z' \<Longrightarrow> z_l z' \<le> z_l z \<Longrightarrow> Q 1 z'"
  shows "wpf r_prelude_german Q z"
  using assms unfolding r_prelude_german_def
  by (auto intro!: prelude_while1_german_wp prelude_while3_german_wp simp: step_defs)

lemma r_mark_regions_german_wp:
  assumes "in_window z" "length (z_I z) = 3" "\<And>r z'. 0 \<le> r \<Longrightarrow> marked z (z'\<lparr>z_c := z_c z\<rparr>) \<Longrightarrow> Q r z'"
  shows "wpf r_mark_regions_german Q z"
  using assms unfolding r_mark_regions_german_def in_window_def
  by (auto intro!: win_intro simp: marked_iff)

lemma r_R1_german_wp [simp]:
  "length (z_I z) = 3 \<Longrightarrow> wpf r_R1_german Q z \<longleftrightarrow> Q (if z_I z ! 0 \<le> z_c z then 1 else 0) z"
  unfolding r_R1_german_def by simp

lemma r_R2_german_wp [simp]:
  "length (z_I z) = 3 \<Longrightarrow> wpf r_R2_german Q z \<longleftrightarrow> Q (if z_I z ! 1 \<le> z_c z then 1 else 0) z"
  unfolding r_R2_german_def by simp

lemma r_standard_suffix_german_steps:
  assumes "in_window z" "z_c z = z_l z" "length (z_I z) = 3"
  shows "wpf r_standard_suffix_german (stepped z) z"
  unfolding r_standard_suffix_german_def wpf_fun
  apply (rule wp_cut [where n = 1 and J = "\<lambda>z'. stepped z 0 z' \<and> z_c z' = z_l z'"], simp, simp)
  subgoal using assms by (auto intro!: win_intro safe_intro wp_upto_step simp: step_defs simp del: wp_upto)
  apply (erule wp_stage [where n = 1 and J' = "\<lambda>z'. stepped z 0 z' \<and> z_c z' = z_l z'"], simp, simp)
  subgoal using assms by (auto intro!: win_intro safe_intro simp: step_defs)
  subgoal using assms by (auto intro!: win_intro safe_intro wp_upto_step [where n = 2] wp_upto_step [where n = 3] wp_upto_look [where n = 4] wp_upto_look [where n = 5]
      wp_upto_step [where n = 6] wp_upto_look [where n = 7] wp_upto_look [where n = 8] wp_upto_step [where n = 9]
      simp: step_defs simp del: wp_upto)
  done

lemma r_postlude_german_steps:
  assumes "in_window z"
  shows "wpf r_postlude_german (stepped z) z"
  using assms unfolding r_postlude_german_def
  by (auto intro!: postlude_while1_german_wp simp: step_defs)

subsection \<open>The stemmer\<close>

lemma german_stem_steps:
  assumes "in_window z" "z_c z = 0" "strs_ok (z_S z)" "length (z_I z) = 3"
  shows "wpf german_UTF_8_stem (fitted z) z"
  unfolding german_UTF_8_stem_def wpf_fun
  apply (rule wp_cut [where n = 1 and J = "\<lambda>z'. fits z z' \<and> z_c z' = 0"], simp, simp)
  subgoal using assms by (auto intro!: r_prelude_german_wp simp: step_defs fits_def)
  apply (erule wp_stage [where n = 3 and J' = "at_end any_marks z"], simp, simp)
  subgoal using assms by (auto intro!: r_mark_regions_german_wp simp: step_defs fits_def at_end_def marked_iff)
  apply (erule wp_stage [where n = 1 and J' = "at_end any_marks z"], simp, simp)
  subgoal using assms by (auto intro!: wp_try_at_end [where orig = z and P = any_marks] r_standard_suffix_german_steps)
  subgoal using assms by (auto intro!: stepped_wp [OF r_postlude_german_steps] simp: step_defs fits_def at_end_def fitted_def)
  done

interpretation german: steady_stemmer german_UTF_8_stem 3 0
  by unfold_locales (auto intro!: wpf_mono [OF german_stem_steps])

end
