(* ===== verification/Dutch.thy ===== *)
theory Dutch
  imports Libstemmer
begin

text \<open>
  The Dutch stemmer (\<^verbatim>\<open>src_c/stem_UTF_8_dutch.c\<close>), statement by statement. The prelude removes
  accents and protects i and y by capitals; a Boolean variable remembers whether an ending e was
  found. The lemmas show that the stemmer is a \<open>steady_stemmer\<close>.
\<close>

subsection \<open>Tables\<close>

definition a_0_dutch :: "among list" where
  "a_0_dutch = [
    amg 0 [] (- 1) 6,
    amg 2 [CHR 0xC3, CHR 0xA1] 0 1,
    amg 2 [CHR 0xC3, CHR 0xA4] 0 1,
    amg 2 [CHR 0xC3, CHR 0xA9] 0 2,
    amg 2 [CHR 0xC3, CHR 0xAB] 0 2,
    amg 2 [CHR 0xC3, CHR 0xAD] 0 3,
    amg 2 [CHR 0xC3, CHR 0xAF] 0 3,
    amg 2 [CHR 0xC3, CHR 0xB3] 0 4,
    amg 2 [CHR 0xC3, CHR 0xB6] 0 4,
    amg 2 [CHR 0xC3, CHR 0xBA] 0 5,
    amg 2 [CHR 0xC3, CHR 0xBC] 0 5]"

definition a_1_dutch :: "among list" where
  "a_1_dutch = [
    amg 0 [] (- 1) 3,
    amg 1 ''I'' 0 2,
    amg 1 ''Y'' 0 1]"

definition a_2_dutch :: "among list" where
  "a_2_dutch = [
    amg 2 ''dd'' (- 1) (- 1),
    amg 2 ''kk'' (- 1) (- 1),
    amg 2 ''tt'' (- 1) (- 1)]"

definition a_3_dutch :: "among list" where
  "a_3_dutch = [
    amg 3 ''ene'' (- 1) 2,
    amg 2 ''se'' (- 1) 3,
    amg 2 ''en'' (- 1) 2,
    amg 5 ''heden'' 2 1,
    amg 1 ''s'' (- 1) 3]"

definition a_4_dutch :: "among list" where
  "a_4_dutch = [
    amg 3 ''end'' (- 1) 1,
    amg 2 ''ig'' (- 1) 2,
    amg 3 ''ing'' (- 1) 1,
    amg 4 ''lijk'' (- 1) 3,
    amg 4 ''baar'' (- 1) 4,
    amg 3 ''bar'' (- 1) 5]"

definition a_5_dutch :: "among list" where
  "a_5_dutch = [
    amg 2 ''aa'' (- 1) (- 1),
    amg 2 ''ee'' (- 1) (- 1),
    amg 2 ''oo'' (- 1) (- 1),
    amg 2 ''uu'' (- 1) (- 1)]"

definition g_v_dutch :: "int list" where
  "g_v_dutch = [17, 65, 16, 1, 0, 0, 0, 0, 0, 0, 0, 0, 0, 0, 0, 0, 128]"

definition g_v_I_dutch :: "int list" where
  "g_v_I_dutch = [1, 0, 0, 17, 65, 16, 1, 0, 0, 0, 0, 0, 0, 0, 0, 0, 0, 0, 0, 128]"

definition g_v_j_dutch :: "int list" where
  "g_v_j_dutch = [17, 67, 16, 1, 0, 0, 0, 0, 0, 0, 0, 0, 0, 0, 0, 0, 128]"

subsection \<open>Strings\<close>

definition s_0_dutch :: "symbol list" where
  "s_0_dutch = ''a''"

definition s_1_dutch :: "symbol list" where
  "s_1_dutch = ''e''"

definition s_2_dutch :: "symbol list" where
  "s_2_dutch = ''i''"

definition s_3_dutch :: "symbol list" where
  "s_3_dutch = ''o''"

definition s_4_dutch :: "symbol list" where
  "s_4_dutch = ''u''"

definition s_5_dutch :: "symbol list" where
  "s_5_dutch = ''y''"

definition s_6_dutch :: "symbol list" where
  "s_6_dutch = ''Y''"

definition s_7_dutch :: "symbol list" where
  "s_7_dutch = ''i''"

definition s_8_dutch :: "symbol list" where
  "s_8_dutch = ''I''"

definition s_9_dutch :: "symbol list" where
  "s_9_dutch = ''y''"

definition s_10_dutch :: "symbol list" where
  "s_10_dutch = ''Y''"

definition s_11_dutch :: "symbol list" where
  "s_11_dutch = ''y''"

definition s_12_dutch :: "symbol list" where
  "s_12_dutch = ''i''"

definition s_13_dutch :: "symbol list" where
  "s_13_dutch = ''e''"

definition s_14_dutch :: "symbol list" where
  "s_14_dutch = ''gem''"

definition s_15_dutch :: "symbol list" where
  "s_15_dutch = ''heid''"

definition s_16_dutch :: "symbol list" where
  "s_16_dutch = ''heid''"

definition s_17_dutch :: "symbol list" where
  "s_17_dutch = ''c''"

definition s_18_dutch :: "symbol list" where
  "s_18_dutch = ''en''"

definition s_19_dutch :: "symbol list" where
  "s_19_dutch = ''ig''"

definition s_20_dutch :: "symbol list" where
  "s_20_dutch = ''e''"

definition s_21_dutch :: "symbol list" where
  "s_21_dutch = ''e''"

subsection \<open>Code\<close>

definition r_prelude_dutch_while1 :: "sn_cmd" where
  "r_prelude_dutch_while1 = c_while1 (c_block [
      c_let z_c (\<lambda>c1. c_block [
        set_bra z_c,
        c_call (or_else (head_guard 1 (not_in_mask 5 340306450)) 6 (find_among a_0_dutch 11)) (\<lambda>among_var. c_block [
          c_upto 0 [
            c_if (test (\<lambda>_. among_var = 0)) (c_goto 0),
            set_ket z_c,
            c_switch among_var [
              (0, c_block [
                c_goto 0]),
              (1, c_block [
                check (slice_from_s 1 s_0_dutch),
                c_break]),
              (2, c_block [
                check (slice_from_s 1 s_1_dutch),
                c_break]),
              (3, c_block [
                check (slice_from_s 1 s_2_dutch),
                c_break]),
              (4, c_block [
                check (slice_from_s 1 s_3_dutch),
                c_break]),
              (5, c_block [
                check (slice_from_s 1 s_4_dutch),
                c_break]),
              (6, c_block [
                move_to (skip_utf8_z (\<lambda>_. 0) z_l 1) (c_goto 0),
                c_break])],
            c_continue],
          set_c (\<lambda>_. c1),
          c_break])])])"

definition r_prelude_dutch_while2 :: "sn_cmd" where
  "r_prelude_dutch_while2 = c_while1 (c_block [
      c_let z_c (\<lambda>c3. c_block [
        c_upto 3 [
          when_true (in_grouping_U g_v_dutch 97 232 0) (c_goto 3),
          set_bra z_c,
          c_upto 4 [
            c_let z_c (\<lambda>c4. c_block [
              c_upto 5 [
                unless (eq_s 1 s_7_dutch) (c_goto 5),
                set_ket z_c,
                when_true (in_grouping_U g_v_dutch 97 232 0) (c_goto 5),
                check (slice_from_s 1 s_8_dutch),
                c_goto 4],
              set_c (\<lambda>_. c4),
              unless (eq_s 1 s_9_dutch) (c_goto 3),
              set_ket z_c,
              check (slice_from_s 1 s_10_dutch)])],
          set_c (\<lambda>_. c3),
          c_break],
        set_c (\<lambda>_. c3),
        move_to (skip_utf8_z (\<lambda>_. 0) z_l 1) (c_goto 2)])])"

definition r_prelude_dutch_while3 :: "sn_cmd" where
  "r_prelude_dutch_while3 = c_while1 (c_block [
      c_let z_c (\<lambda>c2. c_block [
        c_upto 2 [
          r_prelude_dutch_while2,
          c_continue],
        set_c (\<lambda>_. c2),
        c_break])])"

definition r_prelude_dutch :: "sn_func" where
  "r_prelude_dutch = c_fun [
    c_let z_c (\<lambda>c_test. c_block [
      r_prelude_dutch_while1,
      set_c (\<lambda>_. c_test)]),
    c_let z_c (\<lambda>c_keep. c_block [
      set_bra z_c,
      c_upto 1 [
        unless (eq_s 1 s_5_dutch) (
          c_block [
            set_c (\<lambda>_. c_keep),
            c_goto 1]),
        set_ket z_c,
        check (slice_from_s 1 s_6_dutch)]]),
    r_prelude_dutch_while3,
    c_return 1]"

definition r_mark_regions_dutch :: "sn_func" where
  "r_mark_regions_dutch = c_fun [
    set_I 0 z_l,
    set_I 1 z_l,
    advance (out_grouping_U g_v_dutch 97 232 1) (c_return 0),
    advance (in_grouping_U g_v_dutch 97 232 1) (c_return 0),
    set_I 0 z_c,
    c_upto 0 [
      c_if (on_I 0 (\<lambda>z i. \<not> i < 3)) (c_goto 0),
      set_I 0 (\<lambda>_. 3)],
    advance (out_grouping_U g_v_dutch 97 232 1) (c_return 0),
    advance (in_grouping_U g_v_dutch 97 232 1) (c_return 0),
    set_I 1 z_c,
    c_return 1]"

definition r_postlude_dutch_while1 :: "sn_cmd" where
  "r_postlude_dutch_while1 = c_while1 (c_block [
      c_let z_c (\<lambda>c1. c_block [
        set_bra z_c,
        c_call (or_else (head_guard 0 (\<lambda>ch. ch \<noteq> 73 \<and> ch \<noteq> 89)) 3 (find_among a_1_dutch 3)) (\<lambda>among_var. c_block [
          c_upto 0 [
            c_if (test (\<lambda>_. among_var = 0)) (c_goto 0),
            set_ket z_c,
            c_switch among_var [
              (0, c_block [
                c_goto 0]),
              (1, c_block [
                check (slice_from_s 1 s_11_dutch),
                c_break]),
              (2, c_block [
                check (slice_from_s 1 s_12_dutch),
                c_break]),
              (3, c_block [
                move_to (skip_utf8_z (\<lambda>_. 0) z_l 1) (c_goto 0),
                c_break])],
            c_continue],
          set_c (\<lambda>_. c1),
          c_break])])])"

definition r_postlude_dutch :: "sn_func" where
  "r_postlude_dutch = c_fun [
    r_postlude_dutch_while1,
    c_return 1]"

definition r_R1_dutch :: "sn_func" where
  "r_R1_dutch = c_fun [
    c_if (on_I 0 (\<lambda>z i. \<not> i \<le> z_c z)) (c_return 0),
    c_return 1]"

definition r_R2_dutch :: "sn_func" where
  "r_R2_dutch = c_fun [
    c_if (on_I 1 (\<lambda>z i. \<not> i \<le> z_c z)) (c_return 0),
    c_return 1]"

definition r_undouble_dutch :: "sn_func" where
  "r_undouble_dutch = c_fun [
    c_let (\<lambda>z. z_l z - z_c z) (\<lambda>m_test. c_block [
      c_if (tail_guard 1 (not_in_mask 3 1050640)) (c_return 0),
      unless (find_among_b a_2_dutch 3) (c_return 0),
      set_c (\<lambda>z. z_l z - m_test)]),
    set_ket z_c,
    move_to (skip_utf8_z z_lb (\<lambda>_. 0) (- 1)) (c_return 0),
    set_bra z_c,
    check slice_del,
    c_return 1]"

definition r_e_ending_dutch :: "sn_func" where
  "r_e_ending_dutch = c_fun [
    set_B 0 0,
    set_ket z_c,
    unless (eq_s_b 1 s_13_dutch) (c_return 0),
    set_bra z_c,
    routine r_R1_dutch (c_return 0),
    c_let (\<lambda>z. z_l z - z_c z) (\<lambda>m_test. c_block [
      when_true (out_grouping_b_U g_v_dutch 97 232 0) (c_return 0),
      set_c (\<lambda>z. z_l z - m_test)]),
    check slice_del,
    set_B 0 1,
    routine r_undouble_dutch (c_return 0),
    c_return 1]"

definition r_en_ending_dutch :: "sn_func" where
  "r_en_ending_dutch = c_fun [
    routine r_R1_dutch (c_return 0),
    c_let (\<lambda>z. z_l z - z_c z) (\<lambda>m1. c_block [
      when_true (out_grouping_b_U g_v_dutch 97 232 0) (c_return 0),
      set_c (\<lambda>z. z_l z - m1),
      c_let (\<lambda>z. z_l z - z_c z) (\<lambda>m2. c_block [
        c_upto 0 [
          unless (eq_s_b 3 s_14_dutch) (c_goto 0),
          c_return 0],
        set_c (\<lambda>z. z_l z - m2)])]),
    check slice_del,
    routine r_undouble_dutch (c_return 0),
    c_return 1]"

definition r_standard_suffix_dutch_or_undouble :: "sn_cmd" where
  "r_standard_suffix_dutch_or_undouble = c_let (\<lambda>z. z_l z - z_c z) (\<lambda>m6. c_block [
      set_ket z_c,
      c_upto 6 [
        unless (eq_s_b 2 s_19_dutch) (c_goto 6),
        set_bra z_c,
        routine r_R2_dutch (c_goto 6),
        c_let (\<lambda>z. z_l z - z_c z) (\<lambda>m7. c_block [
          c_upto 7 [
            unless (eq_s_b 1 s_20_dutch) (c_goto 7),
            c_goto 6],
          set_c (\<lambda>z. z_l z - m7)]),
        check slice_del,
        c_goto 5],
      set_c (\<lambda>z. z_l z - m6),
      routine r_undouble_dutch (c_goto 4)])"

definition r_standard_suffix_dutch :: "sn_func" where
  "r_standard_suffix_dutch = c_fun [
    c_let (\<lambda>z. z_l z - z_c z) (\<lambda>m1. c_block [
      set_ket z_c,
      c_upto 0 [
        c_if (tail_guard 0 (not_in_mask 3 540704)) (c_goto 0),
        c_call (find_among_b a_3_dutch 5) (\<lambda>among_var. c_block [
          c_if (test (\<lambda>_. among_var = 0)) (c_goto 0),
          set_bra z_c,
          c_switch among_var [
            (0, c_block [
              c_goto 0]),
            (1, c_block [
              routine r_R1_dutch (c_goto 0),
              check (slice_from_s 4 s_15_dutch),
              c_break]),
            (2, c_block [
              routine r_en_ending_dutch (c_goto 0),
              c_break]),
            (3, c_block [
              routine r_R1_dutch (c_goto 0),
              when_true (out_grouping_b_U g_v_j_dutch 97 232 0) (c_goto 0),
              check slice_del,
              c_break])]])],
      set_c (\<lambda>z. z_l z - m1)]),
    try_b 1 r_e_ending_dutch,
    c_let (\<lambda>z. z_l z - z_c z) (\<lambda>m3. c_block [
      set_ket z_c,
      c_upto 2 [
        unless (eq_s_b 4 s_16_dutch) (c_goto 2),
        set_bra z_c,
        routine r_R2_dutch (c_goto 2),
        c_let (\<lambda>z. z_l z - z_c z) (\<lambda>m4. c_block [
          c_upto 3 [
            unless (eq_s_b 1 s_17_dutch) (c_goto 3),
            c_goto 2],
          set_c (\<lambda>z. z_l z - m4)]),
        check slice_del,
        set_ket z_c,
        unless (eq_s_b 2 s_18_dutch) (c_goto 2),
        set_bra z_c,
        routine r_en_ending_dutch (c_goto 2)],
      set_c (\<lambda>z. z_l z - m3)]),
    c_let (\<lambda>z. z_l z - z_c z) (\<lambda>m5. c_block [
      set_ket z_c,
      c_upto 4 [
        c_if (tail_guard 1 (not_in_mask 3 264336)) (c_goto 4),
        c_call (find_among_b a_4_dutch 6) (\<lambda>among_var. c_block [
          c_if (test (\<lambda>_. among_var = 0)) (c_goto 4),
          set_bra z_c,
          c_switch among_var [
            (0, c_block [
              c_goto 4]),
            (1, c_block [
              routine r_R2_dutch (c_goto 4),
              check slice_del,
              c_upto 5 [
                r_standard_suffix_dutch_or_undouble],
              c_break]),
            (2, c_block [
              routine r_R2_dutch (c_goto 4),
              c_let (\<lambda>z. z_l z - z_c z) (\<lambda>m8. c_block [
                c_upto 8 [
                  unless (eq_s_b 1 s_21_dutch) (c_goto 8),
                  c_goto 4],
                set_c (\<lambda>z. z_l z - m8)]),
              check slice_del,
              c_break]),
            (3, c_block [
              routine r_R2_dutch (c_goto 4),
              check slice_del,
              routine r_e_ending_dutch (c_goto 4),
              c_break]),
            (4, c_block [
              routine r_R2_dutch (c_goto 4),
              check slice_del,
              c_break]),
            (5, c_block [
              routine r_R2_dutch (c_goto 4),
              c_if (on_B 0 (\<lambda>v. v = 0)) (c_goto 4),
              check slice_del,
              c_break])]])],
      set_c (\<lambda>z. z_l z - m5)]),
    c_let (\<lambda>z. z_l z - z_c z) (\<lambda>m9. c_block [
      c_upto 9 [
        when_true (out_grouping_b_U g_v_I_dutch 73 232 0) (c_goto 9),
        c_let (\<lambda>z. z_l z - z_c z) (\<lambda>m_test. c_block [
          c_if (tail_guard 1 (not_in_mask 3 2129954)) (c_goto 9),
          unless (find_among_b a_5_dutch 4) (c_goto 9),
          when_true (out_grouping_b_U g_v_dutch 97 232 0) (c_goto 9),
          set_c (\<lambda>z. z_l z - m_test)]),
        set_ket z_c,
        move_to (skip_utf8_z z_lb (\<lambda>_. 0) (- 1)) (c_goto 9),
        set_bra z_c,
        check slice_del],
      set_c (\<lambda>z. z_l z - m9)]),
    c_return 1]"

definition dutch_UTF_8_stem :: "sn_func" where
  "dutch_UTF_8_stem = c_fun [
    try_f 0 r_prelude_dutch,
    try_f 1 r_mark_regions_dutch,
    set_lb z_c,
    set_c z_l,
    try_b 2 r_standard_suffix_dutch,
    set_c z_lb,
    try_f 3 r_postlude_dutch,
    c_return 1]"

definition dutch_UTF_8_create_env :: "env_create" where
  "dutch_UTF_8_create_env = SN_create_env 0 2 1"

definition dutch_UTF_8_close_env :: "env_close" where
  "dutch_UTF_8_close_env z = SN_close_env z 0"

subsection \<open>Facts on the tables\<close>

lemma tables_dutch [simp]:
  "table_f a_0_dutch" "table_f a_1_dutch" "table_b a_2_dutch" "table_b a_3_dutch"
  "table_b a_4_dutch" "table_b a_5_dutch"
  by (rule table_sound, code_simp, code_simp)+

lemma length_tables_dutch [simp]:
  "length a_0_dutch = 11" "length a_1_dutch = 3" "length a_2_dutch = 3" "length a_3_dutch = 5"
  "length a_4_dutch = 6" "length a_5_dutch = 4"
  by code_simp+

lemma least_dutch [simp]:
  "least a_0_dutch 1 = 2" "least a_0_dutch 2 = 2" "least a_0_dutch 3 = 2" "least a_0_dutch 4 = 2"
  "least a_0_dutch 5 = 2" "least a_0_dutch 6 = 0" "least a_1_dutch 1 = 1" "least a_1_dutch 2 = 1"
  "least a_1_dutch 3 = 0" "least a_2_dutch (- 1) = 2" "least a_3_dutch 1 = 5"
  "least a_3_dutch 2 = 2" "least a_3_dutch 3 = 1" "least a_4_dutch 1 = 3" "least a_4_dutch 2 = 2"
  "least a_4_dutch 3 = 4" "least a_4_dutch 4 = 4" "least a_4_dutch 5 = 3"
  "least a_5_dutch (- 1) = 2"
  by code_simp+

lemma has_dutch [simp]:
  "has a_0_dutch r \<longleftrightarrow> r = 1 \<or> r = 2 \<or> r = 3 \<or> r = 4 \<or> r = 5 \<or> r = 6"
  "has a_1_dutch r \<longleftrightarrow> r = 1 \<or> r = 2 \<or> r = 3"
  "has a_2_dutch r \<longleftrightarrow> r = (- 1)"
  "has a_5_dutch r \<longleftrightarrow> r = (- 1)"
  by (auto simp: has_def a_0_dutch_def a_1_dutch_def a_2_dutch_def a_5_dutch_def)

lemma lengths_dutch [simp]:
  "length s_0_dutch = 1" "length s_1_dutch = 1" "length s_2_dutch = 1" "length s_3_dutch = 1"
  "length s_4_dutch = 1" "length s_5_dutch = 1" "length s_6_dutch = 1" "length s_7_dutch = 1"
  "length s_8_dutch = 1" "length s_9_dutch = 1" "length s_10_dutch = 1" "length s_11_dutch = 1"
  "length s_12_dutch = 1" "length s_13_dutch = 1" "length s_14_dutch = 3" "length s_15_dutch = 4"
  "length s_16_dutch = 4" "length s_17_dutch = 1" "length s_18_dutch = 2" "length s_19_dutch = 2"
  "length s_20_dutch = 1" "length s_21_dutch = 1"
  by code_simp+

lemma covers_dutch [simp]:
  "covers g_v_I_dutch 73 232" "covers g_v_dutch 97 232" "covers g_v_j_dutch 97 232"
  by code_simp+

subsection \<open>Loops\<close>

lemma prelude_while1_dutch_wp:
  assumes "in_window z" "\<And>z'. kept z z' \<Longrightarrow> z_l z' \<le> z_l z \<Longrightarrow> Q Next z'"
  shows "wp r_prelude_dutch_while1 Q z"
  using assms unfolding r_prelude_dutch_while1_def
  by (intro wp_repeat) (auto intro!: win_intro slice_from_s_fwd simp: step_defs)

lemma prelude_while2_dutch: "rewriting r_prelude_dutch_while2 2 (\<lambda>b. b = CHR ''i'' \<or> b = CHR ''y'')"
  unfolding rewriting_def r_prelude_dutch_while2_def
  by (intro allI impI, rule wp_search) (auto intro!: win_intro slice_rewrite_wp [where P = "\<lambda>b. b = CHR ''i'' \<or> b = CHR ''y''"]
    simp: rewrote_def step_defs moved_iff s_7_dutch_def s_8_dutch_def s_9_dutch_def s_10_dutch_def)

lemmas prelude_while3_dutch_wp =
  rewrite_loop_wp [OF prelude_while2_dutch, folded r_prelude_dutch_while3_def]

lemma postlude_while1_dutch_wp:
  assumes "in_window z" "\<And>z'. kept z z' \<Longrightarrow> z_l z' \<le> z_l z \<Longrightarrow> Q Next z'"
  shows "wp r_postlude_dutch_while1 Q z"
  using assms unfolding r_postlude_dutch_while1_def
  by (intro wp_repeat) (auto intro!: win_intro slice_from_s_fwd simp: step_defs)

subsection \<open>Routines\<close>

lemma r_prelude_dutch_wp:
  assumes "in_window z" "z_c z = z_lb z" "\<And>z'. kept z z' \<Longrightarrow> z_l z' \<le> z_l z \<Longrightarrow> Q 1 z'"
  shows "wpf r_prelude_dutch Q z"
  using assms unfolding r_prelude_dutch_def
  by (auto intro!: prelude_while1_dutch_wp prelude_while3_dutch_wp win_intro safe_intro simp: step_defs)

lemma r_mark_regions_dutch_wp:
  assumes "in_window z" "length (z_I z) = 2" "\<And>r z'. 0 \<le> r \<Longrightarrow> marked z (z'\<lparr>z_c := z_c z\<rparr>) \<Longrightarrow> Q r z'"
  shows "wpf r_mark_regions_dutch Q z"
  using assms unfolding r_mark_regions_dutch_def in_window_def
  by (auto intro!: win_intro simp: marked_iff)

lemma r_R1_dutch_wp [simp]:
  "length (z_I z) = 2 \<Longrightarrow> wpf r_R1_dutch Q z \<longleftrightarrow> Q (if z_I z ! 0 \<le> z_c z then 1 else 0) z"
  unfolding r_R1_dutch_def by simp

lemma r_R2_dutch_wp [simp]:
  "length (z_I z) = 2 \<Longrightarrow> wpf r_R2_dutch Q z \<longleftrightarrow> Q (if z_I z ! 1 \<le> z_c z then 1 else 0) z"
  unfolding r_R2_dutch_def by simp

lemma r_undouble_dutch_steps:
  assumes "in_window z" "length (z_I z) = 2"
  shows "wpf r_undouble_dutch (stepped z) z"
  using assms unfolding r_undouble_dutch_def in_window_def
  by (auto intro!: win_intro safe_intro simp: step_defs)

lemma r_e_ending_dutch_steps:
  assumes "in_window z" "length (z_B z) = 1" "length (z_I z) = 2"
  shows "wpf r_e_ending_dutch (stepped_B z) z"
  using assms unfolding r_e_ending_dutch_def in_window_def
  by (auto intro!: stepped_wp [OF r_undouble_dutch_steps] win_intro safe_intro simp: step_defs stepped_B_def kept_B_def)

lemma r_en_ending_dutch_steps:
  assumes "in_window z" "z_lb z \<le> z_bra z" "z_bra z \<le> z_ket z" "z_ket z \<le> z_l z" "length (z_I z) = 2"
  shows "wpf r_en_ending_dutch (stepped z) z"
  using assms unfolding r_en_ending_dutch_def in_window_def
  by (auto intro!: stepped_wp [OF r_undouble_dutch_steps] win_intro safe_intro simp: step_defs)

lemma or_undouble_dutch_wp:
  assumes "in_window z" "length (z_I z) = 2"
    and "\<And>k z'. kept z z' \<Longrightarrow> z_l z' \<le> z_l z \<Longrightarrow> k = Next \<or> k = Goto 5 \<or> k = Goto 4 \<Longrightarrow> Q k z'"
  shows "wp r_standard_suffix_dutch_or_undouble Q z"
  using assms unfolding r_standard_suffix_dutch_or_undouble_def
  by (auto intro!: win_intro safe_intro stepped_wp [OF r_undouble_dutch_steps] simp: step_defs)

lemma r_standard_suffix_dutch_steps:
  assumes "in_window z" "z_c z = z_l z" "length (z_B z) = 1" "length (z_I z) = 2"
  shows "wpf r_standard_suffix_dutch (stepped_B z) z"
  unfolding r_standard_suffix_dutch_def wpf_fun
  apply (rule wp_cut [where n = 1 and J = "\<lambda>z'. stepped_B z 0 z' \<and> z_c z' = z_l z'"], simp, simp)
  subgoal using assms by (auto intro!: win_intro safe_intro stepped_wp [OF r_en_ending_dutch_steps] wp_upto_step [where n = 0]
      simp: step_defs stepped_B_def kept_B_def simp del: wp_upto)
  apply (erule wp_stage [where n = 1 and J' = "\<lambda>z'. stepped_B z 0 z' \<and> z_c z' = z_l z'"], simp, simp)
  subgoal using assms by (auto intro!: wp_try_end stepped_B_wp [OF r_e_ending_dutch_steps]
      simp: step_defs stepped_B_def kept_B_def)
  apply (erule wp_stage [where n = 1 and J' = "\<lambda>z'. stepped_B z 0 z' \<and> z_c z' = z_l z'"], simp, simp)
  subgoal using assms by (auto intro!: win_intro safe_intro stepped_wp [OF r_en_ending_dutch_steps]
      wp_upto_step [where n = 2] wp_upto_look [where n = 3] simp: step_defs stepped_B_def kept_B_def simp del: wp_upto)
  apply (erule wp_stage [where n = 1 and J' = "\<lambda>z'. stepped_B z 0 z' \<and> z_c z' = z_l z'"], simp, simp)
  subgoal using assms by (auto intro!: win_intro safe_intro stepped_B_wp [OF r_e_ending_dutch_steps]
      or_undouble_dutch_wp simp: step_defs stepped_B_def kept_B_def)
  subgoal using assms by (auto intro!: win_intro safe_intro simp: step_defs stepped_B_def kept_B_def)
  done

lemma r_postlude_dutch_steps:
  assumes "in_window z"
  shows "wpf r_postlude_dutch (stepped z) z"
  using assms unfolding r_postlude_dutch_def
  by (auto intro!: postlude_while1_dutch_wp simp: step_defs)

subsection \<open>The stemmer\<close>

lemma dutch_stem_steps:
  assumes "in_window z" "z_c z = 0" "strs_ok (z_S z)" "length (z_I z) = 2" "length (z_B z) = 1"
  shows "wpf dutch_UTF_8_stem (fitted z) z"
  unfolding dutch_UTF_8_stem_def wpf_fun
  apply (rule wp_cut [where n = 1 and J = "\<lambda>z'. fits z z' \<and> z_c z' = 0"], simp, simp)
  subgoal using assms by (auto intro!: r_prelude_dutch_wp simp: step_defs fits_def)
  apply (erule wp_stage [where n = 3 and J' = "at_end any_marks z"], simp, simp)
  subgoal using assms by (auto intro!: r_mark_regions_dutch_wp simp: step_defs fits_def at_end_def marked_iff)
  apply (erule wp_stage [where n = 1 and J' = "at_end any_marks z"], simp, simp)
  subgoal using assms by (auto intro!: wp_try_end stepped_B_wp [OF r_standard_suffix_dutch_steps] simp: step_defs kept_B_def fits_def at_end_def)
  subgoal using assms by (auto intro!: stepped_wp [OF r_postlude_dutch_steps] simp: step_defs fits_def at_end_def fitted_def)
  done

interpretation dutch: steady_stemmer dutch_UTF_8_stem 2 1
  by unfold_locales (auto intro!: wpf_mono [OF dutch_stem_steps])

end
