(* ===== verification/Italian.thy ===== *)
theory Italian
  imports Libstemmer
begin

text \<open>
  The Italian stemmer (\<^verbatim>\<open>src_c/stem_UTF_8_italian.c\<close>), statement by statement, with the proof that it
  is a \<open>steady_stemmer\<close>. Its verb endings are searched with the backward limit moved to the start
  of the region RV and put back afterwards.
\<close>

subsection \<open>Tables\<close>

definition a_0_italian :: "among list" where
  "a_0_italian = [
    amg 0 [] (- 1) 7,
    amg 2 ''qu'' 0 6,
    amg 2 [CHR 0xC3, CHR 0xA1] 0 1,
    amg 2 [CHR 0xC3, CHR 0xA9] 0 2,
    amg 2 [CHR 0xC3, CHR 0xAD] 0 3,
    amg 2 [CHR 0xC3, CHR 0xB3] 0 4,
    amg 2 [CHR 0xC3, CHR 0xBA] 0 5]"

definition a_1_italian :: "among list" where
  "a_1_italian = [
    amg 0 [] (- 1) 3,
    amg 1 ''I'' 0 1,
    amg 1 ''U'' 0 2]"

definition a_2_italian :: "among list" where
  "a_2_italian = [
    amg 2 ''la'' (- 1) (- 1),
    amg 4 ''cela'' 0 (- 1),
    amg 6 ''gliela'' 0 (- 1),
    amg 4 ''mela'' 0 (- 1),
    amg 4 ''tela'' 0 (- 1),
    amg 4 ''vela'' 0 (- 1),
    amg 2 ''le'' (- 1) (- 1),
    amg 4 ''cele'' 6 (- 1),
    amg 6 ''gliele'' 6 (- 1),
    amg 4 ''mele'' 6 (- 1),
    amg 4 ''tele'' 6 (- 1),
    amg 4 ''vele'' 6 (- 1),
    amg 2 ''ne'' (- 1) (- 1),
    amg 4 ''cene'' 12 (- 1),
    amg 6 ''gliene'' 12 (- 1),
    amg 4 ''mene'' 12 (- 1),
    amg 4 ''sene'' 12 (- 1),
    amg 4 ''tene'' 12 (- 1),
    amg 4 ''vene'' 12 (- 1),
    amg 2 ''ci'' (- 1) (- 1),
    amg 2 ''li'' (- 1) (- 1),
    amg 4 ''celi'' 20 (- 1),
    amg 6 ''glieli'' 20 (- 1),
    amg 4 ''meli'' 20 (- 1),
    amg 4 ''teli'' 20 (- 1),
    amg 4 ''veli'' 20 (- 1),
    amg 3 ''gli'' 20 (- 1),
    amg 2 ''mi'' (- 1) (- 1),
    amg 2 ''si'' (- 1) (- 1),
    amg 2 ''ti'' (- 1) (- 1),
    amg 2 ''vi'' (- 1) (- 1),
    amg 2 ''lo'' (- 1) (- 1),
    amg 4 ''celo'' 31 (- 1),
    amg 6 ''glielo'' 31 (- 1),
    amg 4 ''melo'' 31 (- 1),
    amg 4 ''telo'' 31 (- 1),
    amg 4 ''velo'' 31 (- 1)]"

definition a_3_italian :: "among list" where
  "a_3_italian = [
    amg 4 ''ando'' (- 1) 1,
    amg 4 ''endo'' (- 1) 1,
    amg 2 ''ar'' (- 1) 2,
    amg 2 ''er'' (- 1) 2,
    amg 2 ''ir'' (- 1) 2]"

definition a_4_italian :: "among list" where
  "a_4_italian = [
    amg 2 ''ic'' (- 1) (- 1),
    amg 4 ''abil'' (- 1) (- 1),
    amg 2 ''os'' (- 1) (- 1),
    amg 2 ''iv'' (- 1) 1]"

definition a_5_italian :: "among list" where
  "a_5_italian = [
    amg 2 ''ic'' (- 1) 1,
    amg 4 ''abil'' (- 1) 1,
    amg 2 ''iv'' (- 1) 1]"

definition a_6_italian :: "among list" where
  "a_6_italian = [
    amg 3 ''ica'' (- 1) 1,
    amg 5 ''logia'' (- 1) 3,
    amg 3 ''osa'' (- 1) 1,
    amg 4 ''ista'' (- 1) 1,
    amg 3 ''iva'' (- 1) 9,
    amg 4 ''anza'' (- 1) 1,
    amg 4 ''enza'' (- 1) 5,
    amg 3 ''ice'' (- 1) 1,
    amg 6 ''atrice'' 7 1,
    amg 4 ''iche'' (- 1) 1,
    amg 5 ''logie'' (- 1) 3,
    amg 5 ''abile'' (- 1) 1,
    amg 5 ''ibile'' (- 1) 1,
    amg 6 ''usione'' (- 1) 4,
    amg 6 ''azione'' (- 1) 2,
    amg 6 ''uzione'' (- 1) 4,
    amg 5 ''atore'' (- 1) 2,
    amg 3 ''ose'' (- 1) 1,
    amg 4 ''ante'' (- 1) 1,
    amg 5 ''mente'' (- 1) 1,
    amg 6 ''amente'' 19 7,
    amg 4 ''iste'' (- 1) 1,
    amg 3 ''ive'' (- 1) 9,
    amg 4 ''anze'' (- 1) 1,
    amg 4 ''enze'' (- 1) 5,
    amg 3 ''ici'' (- 1) 1,
    amg 6 ''atrici'' 25 1,
    amg 4 ''ichi'' (- 1) 1,
    amg 5 ''abili'' (- 1) 1,
    amg 5 ''ibili'' (- 1) 1,
    amg 4 ''ismi'' (- 1) 1,
    amg 6 ''usioni'' (- 1) 4,
    amg 6 ''azioni'' (- 1) 2,
    amg 6 ''uzioni'' (- 1) 4,
    amg 5 ''atori'' (- 1) 2,
    amg 3 ''osi'' (- 1) 1,
    amg 4 ''anti'' (- 1) 1,
    amg 6 ''amenti'' (- 1) 6,
    amg 6 ''imenti'' (- 1) 6,
    amg 4 ''isti'' (- 1) 1,
    amg 3 ''ivi'' (- 1) 9,
    amg 3 ''ico'' (- 1) 1,
    amg 4 ''ismo'' (- 1) 1,
    amg 3 ''oso'' (- 1) 1,
    amg 6 ''amento'' (- 1) 6,
    amg 6 ''imento'' (- 1) 6,
    amg 3 ''ivo'' (- 1) 9,
    amg 4 [CHR ''i'', CHR ''t'', CHR 0xC3, CHR 0xA0] (- 1) 8,
    amg 5 [CHR ''i'', CHR ''s'', CHR ''t'', CHR 0xC3, CHR 0xA0] (- 1) 1,
    amg 5 [CHR ''i'', CHR ''s'', CHR ''t'', CHR 0xC3, CHR 0xA8] (- 1) 1,
    amg 5 [CHR ''i'', CHR ''s'', CHR ''t'', CHR 0xC3, CHR 0xAC] (- 1) 1]"

definition a_7_italian :: "among list" where
  "a_7_italian = [
    amg 4 ''isca'' (- 1) 1,
    amg 4 ''enda'' (- 1) 1,
    amg 3 ''ata'' (- 1) 1,
    amg 3 ''ita'' (- 1) 1,
    amg 3 ''uta'' (- 1) 1,
    amg 3 ''ava'' (- 1) 1,
    amg 3 ''eva'' (- 1) 1,
    amg 3 ''iva'' (- 1) 1,
    amg 6 ''erebbe'' (- 1) 1,
    amg 6 ''irebbe'' (- 1) 1,
    amg 4 ''isce'' (- 1) 1,
    amg 4 ''ende'' (- 1) 1,
    amg 3 ''are'' (- 1) 1,
    amg 3 ''ere'' (- 1) 1,
    amg 3 ''ire'' (- 1) 1,
    amg 4 ''asse'' (- 1) 1,
    amg 3 ''ate'' (- 1) 1,
    amg 5 ''avate'' 16 1,
    amg 5 ''evate'' 16 1,
    amg 5 ''ivate'' 16 1,
    amg 3 ''ete'' (- 1) 1,
    amg 5 ''erete'' 20 1,
    amg 5 ''irete'' 20 1,
    amg 3 ''ite'' (- 1) 1,
    amg 6 ''ereste'' (- 1) 1,
    amg 6 ''ireste'' (- 1) 1,
    amg 3 ''ute'' (- 1) 1,
    amg 4 ''erai'' (- 1) 1,
    amg 4 ''irai'' (- 1) 1,
    amg 4 ''isci'' (- 1) 1,
    amg 4 ''endi'' (- 1) 1,
    amg 4 ''erei'' (- 1) 1,
    amg 4 ''irei'' (- 1) 1,
    amg 4 ''assi'' (- 1) 1,
    amg 3 ''ati'' (- 1) 1,
    amg 3 ''iti'' (- 1) 1,
    amg 6 ''eresti'' (- 1) 1,
    amg 6 ''iresti'' (- 1) 1,
    amg 3 ''uti'' (- 1) 1,
    amg 3 ''avi'' (- 1) 1,
    amg 3 ''evi'' (- 1) 1,
    amg 3 ''ivi'' (- 1) 1,
    amg 4 ''isco'' (- 1) 1,
    amg 4 ''ando'' (- 1) 1,
    amg 4 ''endo'' (- 1) 1,
    amg 4 ''Yamo'' (- 1) 1,
    amg 4 ''iamo'' (- 1) 1,
    amg 5 ''avamo'' (- 1) 1,
    amg 5 ''evamo'' (- 1) 1,
    amg 5 ''ivamo'' (- 1) 1,
    amg 5 ''eremo'' (- 1) 1,
    amg 5 ''iremo'' (- 1) 1,
    amg 6 ''assimo'' (- 1) 1,
    amg 4 ''ammo'' (- 1) 1,
    amg 4 ''emmo'' (- 1) 1,
    amg 6 ''eremmo'' 54 1,
    amg 6 ''iremmo'' 54 1,
    amg 4 ''immo'' (- 1) 1,
    amg 3 ''ano'' (- 1) 1,
    amg 6 ''iscano'' 58 1,
    amg 5 ''avano'' 58 1,
    amg 5 ''evano'' 58 1,
    amg 5 ''ivano'' 58 1,
    amg 6 ''eranno'' (- 1) 1,
    amg 6 ''iranno'' (- 1) 1,
    amg 3 ''ono'' (- 1) 1,
    amg 6 ''iscono'' 65 1,
    amg 5 ''arono'' 65 1,
    amg 5 ''erono'' 65 1,
    amg 5 ''irono'' 65 1,
    amg 8 ''erebbero'' (- 1) 1,
    amg 8 ''irebbero'' (- 1) 1,
    amg 6 ''assero'' (- 1) 1,
    amg 6 ''essero'' (- 1) 1,
    amg 6 ''issero'' (- 1) 1,
    amg 3 ''ato'' (- 1) 1,
    amg 3 ''ito'' (- 1) 1,
    amg 3 ''uto'' (- 1) 1,
    amg 3 ''avo'' (- 1) 1,
    amg 3 ''evo'' (- 1) 1,
    amg 3 ''ivo'' (- 1) 1,
    amg 2 ''ar'' (- 1) 1,
    amg 2 ''ir'' (- 1) 1,
    amg 4 [CHR ''e'', CHR ''r'', CHR 0xC3, CHR 0xA0] (- 1) 1,
    amg 4 [CHR ''i'', CHR ''r'', CHR 0xC3, CHR 0xA0] (- 1) 1,
    amg 4 [CHR ''e'', CHR ''r'', CHR 0xC3, CHR 0xB2] (- 1) 1,
    amg 4 [CHR ''i'', CHR ''r'', CHR 0xC3, CHR 0xB2] (- 1) 1]"

definition g_v_italian :: "int list" where
  "g_v_italian = [17, 65, 16, 0, 0, 0, 0, 0, 0, 0, 0, 0, 0, 0, 0, 128, 128, 8, 2, 1]"

definition g_AEIO_italian :: "int list" where
  "g_AEIO_italian = [17, 65, 0, 0, 0, 0, 0, 0, 0, 0, 0, 0, 0, 0, 0, 128, 128, 8, 2]"

definition g_CG_italian :: "int list" where
  "g_CG_italian = [17]"

subsection \<open>Strings\<close>

definition s_0_italian :: "symbol list" where
  "s_0_italian = [CHR 0xC3, CHR 0xA0]"

definition s_1_italian :: "symbol list" where
  "s_1_italian = [CHR 0xC3, CHR 0xA8]"

definition s_2_italian :: "symbol list" where
  "s_2_italian = [CHR 0xC3, CHR 0xAC]"

definition s_3_italian :: "symbol list" where
  "s_3_italian = [CHR 0xC3, CHR 0xB2]"

definition s_4_italian :: "symbol list" where
  "s_4_italian = [CHR 0xC3, CHR 0xB9]"

definition s_5_italian :: "symbol list" where
  "s_5_italian = ''qU''"

definition s_6_italian :: "symbol list" where
  "s_6_italian = ''u''"

definition s_7_italian :: "symbol list" where
  "s_7_italian = ''U''"

definition s_8_italian :: "symbol list" where
  "s_8_italian = ''i''"

definition s_9_italian :: "symbol list" where
  "s_9_italian = ''I''"

definition s_10_italian :: "symbol list" where
  "s_10_italian = ''i''"

definition s_11_italian :: "symbol list" where
  "s_11_italian = ''u''"

definition s_12_italian :: "symbol list" where
  "s_12_italian = ''e''"

definition s_13_italian :: "symbol list" where
  "s_13_italian = ''ic''"

definition s_14_italian :: "symbol list" where
  "s_14_italian = ''log''"

definition s_15_italian :: "symbol list" where
  "s_15_italian = ''u''"

definition s_16_italian :: "symbol list" where
  "s_16_italian = ''ente''"

definition s_17_italian :: "symbol list" where
  "s_17_italian = ''at''"

definition s_18_italian :: "symbol list" where
  "s_18_italian = ''at''"

definition s_19_italian :: "symbol list" where
  "s_19_italian = ''ic''"

definition s_20_italian :: "symbol list" where
  "s_20_italian = ''i''"

definition s_21_italian :: "symbol list" where
  "s_21_italian = ''h''"

subsection \<open>Code\<close>

definition r_prelude_italian_while1 :: "sn_cmd" where
  "r_prelude_italian_while1 = c_while1 (c_block [
      c_let z_c (\<lambda>c1. c_block [
        set_bra z_c,
        c_call (find_among a_0_italian 7) (\<lambda>among_var. c_block [
          c_upto 0 [
            c_if (test (\<lambda>_. among_var = 0)) (c_goto 0),
            set_ket z_c,
            c_switch among_var [
              (0, c_block [
                c_goto 0]),
              (1, c_block [
                check (slice_from_s 2 s_0_italian),
                c_break]),
              (2, c_block [
                check (slice_from_s 2 s_1_italian),
                c_break]),
              (3, c_block [
                check (slice_from_s 2 s_2_italian),
                c_break]),
              (4, c_block [
                check (slice_from_s 2 s_3_italian),
                c_break]),
              (5, c_block [
                check (slice_from_s 2 s_4_italian),
                c_break]),
              (6, c_block [
                check (slice_from_s 2 s_5_italian),
                c_break]),
              (7, c_block [
                move_to (skip_utf8_z (\<lambda>_. 0) z_l 1) (c_goto 0),
                c_break])],
            c_continue],
          set_c (\<lambda>_. c1),
          c_break])])])"

definition r_prelude_italian_while2 :: "sn_cmd" where
  "r_prelude_italian_while2 = c_while1 (c_block [
      c_let z_c (\<lambda>c3. c_block [
        c_upto 2 [
          when_true (in_grouping_U g_v_italian 97 249 0) (c_goto 2),
          set_bra z_c,
          c_upto 3 [
            c_let z_c (\<lambda>c4. c_block [
              c_upto 4 [
                unless (eq_s 1 s_6_italian) (c_goto 4),
                set_ket z_c,
                when_true (in_grouping_U g_v_italian 97 249 0) (c_goto 4),
                check (slice_from_s 1 s_7_italian),
                c_goto 3],
              set_c (\<lambda>_. c4),
              unless (eq_s 1 s_8_italian) (c_goto 2),
              set_ket z_c,
              when_true (in_grouping_U g_v_italian 97 249 0) (c_goto 2),
              check (slice_from_s 1 s_9_italian)])],
          set_c (\<lambda>_. c3),
          c_break],
        set_c (\<lambda>_. c3),
        move_to (skip_utf8_z (\<lambda>_. 0) z_l 1) (c_goto 1)])])"

definition r_prelude_italian_while3 :: "sn_cmd" where
  "r_prelude_italian_while3 = c_while1 (c_block [
      c_let z_c (\<lambda>c2. c_block [
        c_upto 1 [
          r_prelude_italian_while2,
          c_continue],
        set_c (\<lambda>_. c2),
        c_break])])"

definition r_prelude_italian :: "sn_func" where
  "r_prelude_italian = c_fun [
    c_let z_c (\<lambda>c_test. c_block [
      r_prelude_italian_while1,
      set_c (\<lambda>_. c_test)]),
    r_prelude_italian_while3,
    c_return 1]"

definition r_mark_regions_italian :: "sn_func" where
  "r_mark_regions_italian = c_fun [
    set_I 0 z_l,
    set_I 1 z_l,
    set_I 2 z_l,
    c_let z_c (\<lambda>c1. c_block [
      c_upto 0 [
        c_upto 1 [
          c_let z_c (\<lambda>c2. c_block [
            c_upto 2 [
              when_true (in_grouping_U g_v_italian 97 249 0) (c_goto 2),
              c_upto 3 [
                c_let z_c (\<lambda>c3. c_block [
                  c_upto 4 [
                    when_true (out_grouping_U g_v_italian 97 249 0) (c_goto 4),
                    advance (out_grouping_U g_v_italian 97 249 1) (c_goto 4),
                    c_goto 3],
                  set_c (\<lambda>_. c3),
                  when_true (in_grouping_U g_v_italian 97 249 0) (c_goto 2),
                  advance (in_grouping_U g_v_italian 97 249 1) (c_goto 2)])],
              c_goto 1],
            set_c (\<lambda>_. c2),
            when_true (out_grouping_U g_v_italian 97 249 0) (c_goto 0),
            c_upto 5 [
              c_let z_c (\<lambda>c4. c_block [
                c_upto 6 [
                  when_true (out_grouping_U g_v_italian 97 249 0) (c_goto 6),
                  advance (out_grouping_U g_v_italian 97 249 1) (c_goto 6),
                  c_goto 5],
                set_c (\<lambda>_. c4),
                when_true (in_grouping_U g_v_italian 97 249 0) (c_goto 0),
                move_to (skip_utf8_z (\<lambda>_. 0) z_l 1) (c_goto 0)])]])],
        set_I 0 z_c],
      set_c (\<lambda>_. c1)]),
    c_let z_c (\<lambda>c5. c_block [
      c_upto 7 [
        advance (out_grouping_U g_v_italian 97 249 1) (c_goto 7),
        advance (in_grouping_U g_v_italian 97 249 1) (c_goto 7),
        set_I 1 z_c,
        advance (out_grouping_U g_v_italian 97 249 1) (c_goto 7),
        advance (in_grouping_U g_v_italian 97 249 1) (c_goto 7),
        set_I 2 z_c],
      set_c (\<lambda>_. c5)]),
    c_return 1]"

definition r_postlude_italian_while1 :: "sn_cmd" where
  "r_postlude_italian_while1 = c_while1 (c_block [
      c_let z_c (\<lambda>c1. c_block [
        set_bra z_c,
        c_call (or_else (head_guard 0 (\<lambda>ch. ch \<noteq> 73 \<and> ch \<noteq> 85)) 3 (find_among a_1_italian 3)) (\<lambda>among_var. c_block [
          c_upto 0 [
            c_if (test (\<lambda>_. among_var = 0)) (c_goto 0),
            set_ket z_c,
            c_switch among_var [
              (0, c_block [
                c_goto 0]),
              (1, c_block [
                check (slice_from_s 1 s_10_italian),
                c_break]),
              (2, c_block [
                check (slice_from_s 1 s_11_italian),
                c_break]),
              (3, c_block [
                move_to (skip_utf8_z (\<lambda>_. 0) z_l 1) (c_goto 0),
                c_break])],
            c_continue],
          set_c (\<lambda>_. c1),
          c_break])])])"

definition r_postlude_italian :: "sn_func" where
  "r_postlude_italian = c_fun [
    r_postlude_italian_while1,
    c_return 1]"

definition r_RV_italian :: "sn_func" where
  "r_RV_italian = c_fun [
    c_if (on_I 0 (\<lambda>z i. \<not> i \<le> z_c z)) (c_return 0),
    c_return 1]"

definition r_R1_italian :: "sn_func" where
  "r_R1_italian = c_fun [
    c_if (on_I 1 (\<lambda>z i. \<not> i \<le> z_c z)) (c_return 0),
    c_return 1]"

definition r_R2_italian :: "sn_func" where
  "r_R2_italian = c_fun [
    c_if (on_I 2 (\<lambda>z i. \<not> i \<le> z_c z)) (c_return 0),
    c_return 1]"

definition r_attached_pronoun_italian :: "sn_func" where
  "r_attached_pronoun_italian = c_fun [
    set_ket z_c,
    c_if (tail_guard 1 (not_in_mask 3 33314)) (c_return 0),
    unless (find_among_b a_2_italian 37) (c_return 0),
    set_bra z_c,
    c_if (tail_guard 1 (\<lambda>ch. ch \<noteq> 111 \<and> ch \<noteq> 114)) (c_return 0),
    c_call (find_among_b a_3_italian 5) (\<lambda>among_var. c_block [
      c_if (test (\<lambda>_. among_var = 0)) (c_return 0),
      routine r_RV_italian (c_return 0),
      c_switch among_var [
        (0, c_block [
          c_return 0]),
        (1, c_block [
          check slice_del,
          c_break]),
        (2, c_block [
          check (slice_from_s 1 s_12_italian),
          c_break])],
      c_return 1])]"

definition r_standard_suffix_italian :: "sn_func" where
  "r_standard_suffix_italian = c_fun [
    set_ket z_c,
    c_call (find_among_b a_6_italian 51) (\<lambda>among_var. c_block [
      c_if (test (\<lambda>_. among_var = 0)) (c_return 0),
      set_bra z_c,
      c_switch among_var [
        (0, c_block [
          c_return 0]),
        (1, c_block [
          routine r_R2_italian (c_return 0),
          check slice_del,
          c_break]),
        (2, c_block [
          routine r_R2_italian (c_return 0),
          check slice_del,
          c_let (\<lambda>z. z_l z - z_c z) (\<lambda>m_keep. c_block [
            set_ket z_c,
            c_upto 0 [
              unless (eq_s_b 2 s_13_italian) (
                c_block [
                  set_c (\<lambda>z. z_l z - m_keep),
                  c_goto 0]),
              set_bra z_c,
              routine r_R2_italian (
                c_block [
                  set_c (\<lambda>z. z_l z - m_keep),
                  c_goto 0]),
              check slice_del]]),
          c_break]),
        (3, c_block [
          routine r_R2_italian (c_return 0),
          check (slice_from_s 3 s_14_italian),
          c_break]),
        (4, c_block [
          routine r_R2_italian (c_return 0),
          check (slice_from_s 1 s_15_italian),
          c_break]),
        (5, c_block [
          routine r_R2_italian (c_return 0),
          check (slice_from_s 4 s_16_italian),
          c_break]),
        (6, c_block [
          routine r_RV_italian (c_return 0),
          check slice_del,
          c_break]),
        (7, c_block [
          routine r_R1_italian (c_return 0),
          check slice_del,
          c_let (\<lambda>z. z_l z - z_c z) (\<lambda>m_keep. c_block [
            set_ket z_c,
            c_upto 1 [
              c_if (tail_guard 1 (not_in_mask 3 4722696)) (
                c_block [
                  set_c (\<lambda>z. z_l z - m_keep),
                  c_goto 1]),
              c_call (find_among_b a_4_italian 4) (\<lambda>among_var. c_block [
                c_if (test (\<lambda>_. among_var = 0)) (
                  c_block [
                    set_c (\<lambda>z. z_l z - m_keep),
                    c_goto 1]),
                set_bra z_c,
                routine r_R2_italian (
                  c_block [
                    set_c (\<lambda>z. z_l z - m_keep),
                    c_goto 1]),
                check slice_del,
                c_switch among_var [
                  (0, c_block [
                    c_block [
                      set_c (\<lambda>z. z_l z - m_keep),
                      c_goto 1]]),
                  (1, c_block [
                    set_ket z_c,
                    unless (eq_s_b 2 s_17_italian) (
                      c_block [
                        set_c (\<lambda>z. z_l z - m_keep),
                        c_goto 1]),
                    set_bra z_c,
                    routine r_R2_italian (
                      c_block [
                        set_c (\<lambda>z. z_l z - m_keep),
                        c_goto 1]),
                    check slice_del,
                    c_break])]])]]),
          c_break]),
        (8, c_block [
          routine r_R2_italian (c_return 0),
          check slice_del,
          c_let (\<lambda>z. z_l z - z_c z) (\<lambda>m_keep. c_block [
            set_ket z_c,
            c_upto 2 [
              c_if (tail_guard 1 (not_in_mask 3 4198408)) (
                c_block [
                  set_c (\<lambda>z. z_l z - m_keep),
                  c_goto 2]),
              c_call (find_among_b a_5_italian 3) (\<lambda>among_var. c_block [
                c_if (test (\<lambda>_. among_var = 0)) (
                  c_block [
                    set_c (\<lambda>z. z_l z - m_keep),
                    c_goto 2]),
                set_bra z_c,
                c_switch among_var [
                  (0, c_block [
                    c_block [
                      set_c (\<lambda>z. z_l z - m_keep),
                      c_goto 2]]),
                  (1, c_block [
                    routine r_R2_italian (
                      c_block [
                        set_c (\<lambda>z. z_l z - m_keep),
                        c_goto 2]),
                    check slice_del,
                    c_break])]])]]),
          c_break]),
        (9, c_block [
          routine r_R2_italian (c_return 0),
          check slice_del,
          c_let (\<lambda>z. z_l z - z_c z) (\<lambda>m_keep. c_block [
            set_ket z_c,
            c_upto 3 [
              unless (eq_s_b 2 s_18_italian) (
                c_block [
                  set_c (\<lambda>z. z_l z - m_keep),
                  c_goto 3]),
              set_bra z_c,
              routine r_R2_italian (
                c_block [
                  set_c (\<lambda>z. z_l z - m_keep),
                  c_goto 3]),
              check slice_del,
              set_ket z_c,
              unless (eq_s_b 2 s_19_italian) (
                c_block [
                  set_c (\<lambda>z. z_l z - m_keep),
                  c_goto 3]),
              set_bra z_c,
              routine r_R2_italian (
                c_block [
                  set_c (\<lambda>z. z_l z - m_keep),
                  c_goto 3]),
              check slice_del]]),
          c_break])],
      c_return 1])]"

definition r_verb_suffix_italian :: "sn_func" where
  "r_verb_suffix_italian = c_fun [
    c_let (\<lambda>z. z_l z - z_c z) (\<lambda>m1. c_block [
      c_if (on_I 0 (\<lambda>z i. z_c z < i)) (c_return 0),
      set_c_I 0,
      c_let z_lb (\<lambda>mlimit. c_block [
        set_lb z_c,
        set_c (\<lambda>z. z_l z - m1),
        set_ket z_c,
        c_call (find_among_b a_7_italian 87) (\<lambda>among_var. c_block [
          c_if (test (\<lambda>_. among_var = 0)) (
            c_block [
              set_lb (\<lambda>_. mlimit),
              c_return 0]),
          set_bra z_c,
          c_switch among_var [
            (0, c_block [
              c_block [
                set_lb (\<lambda>_. mlimit),
                c_return 0]]),
            (1, c_block [
              check slice_del,
              c_break])],
          set_lb (\<lambda>_. mlimit),
          c_return 1])])])]"

definition r_vowel_suffix_italian :: "sn_func" where
  "r_vowel_suffix_italian = c_fun [
    c_let (\<lambda>z. z_l z - z_c z) (\<lambda>m_keep. c_block [
      set_ket z_c,
      c_upto 0 [
        when_true (in_grouping_b_U g_AEIO_italian 97 242 0) (
          c_block [
            set_c (\<lambda>z. z_l z - m_keep),
            c_goto 0]),
        set_bra z_c,
        routine r_RV_italian (
          c_block [
            set_c (\<lambda>z. z_l z - m_keep),
            c_goto 0]),
        check slice_del,
        set_ket z_c,
        unless (eq_s_b 1 s_20_italian) (
          c_block [
            set_c (\<lambda>z. z_l z - m_keep),
            c_goto 0]),
        set_bra z_c,
        routine r_RV_italian (
          c_block [
            set_c (\<lambda>z. z_l z - m_keep),
            c_goto 0]),
        check slice_del]]),
    c_let (\<lambda>z. z_l z - z_c z) (\<lambda>m_keep. c_block [
      set_ket z_c,
      c_upto 1 [
        unless (eq_s_b 1 s_21_italian) (
          c_block [
            set_c (\<lambda>z. z_l z - m_keep),
            c_goto 1]),
        set_bra z_c,
        when_true (in_grouping_b_U g_CG_italian 99 103 0) (
          c_block [
            set_c (\<lambda>z. z_l z - m_keep),
            c_goto 1]),
        routine r_RV_italian (
          c_block [
            set_c (\<lambda>z. z_l z - m_keep),
            c_goto 1]),
        check slice_del]]),
    c_return 1]"

definition italian_UTF_8_stem :: "sn_func" where
  "italian_UTF_8_stem = c_fun [
    try_f 0 r_prelude_italian,
    try_f 1 r_mark_regions_italian,
    set_lb z_c,
    set_c z_l,
    try_b 2 r_attached_pronoun_italian,
    c_let (\<lambda>z. z_l z - z_c z) (\<lambda>m4. c_block [
      c_upto 3 [
        c_upto 4 [
          c_let (\<lambda>z. z_l z - z_c z) (\<lambda>m5. c_block [
            c_upto 5 [
              routine r_standard_suffix_italian (c_goto 5),
              c_goto 4],
            set_c (\<lambda>z. z_l z - m5),
            routine r_verb_suffix_italian (c_goto 3)])]],
      set_c (\<lambda>z. z_l z - m4)]),
    try_b 6 r_vowel_suffix_italian,
    set_c z_lb,
    try_f 7 r_postlude_italian,
    c_return 1]"

definition italian_UTF_8_create_env :: "env_create" where
  "italian_UTF_8_create_env = SN_create_env 0 3 0"

definition italian_UTF_8_close_env :: "env_close" where
  "italian_UTF_8_close_env z = SN_close_env z 0"

subsection \<open>Facts on the tables\<close>

lemma tables_italian [simp]:
  "table_f a_0_italian" "table_f a_1_italian" "table_b a_2_italian" "table_b a_3_italian"
  "table_b a_4_italian" "table_b a_5_italian" "table_b a_6_italian" "table_b a_7_italian"
  by (rule table_sound, code_simp, code_simp)+

lemma length_tables_italian [simp]:
  "length a_0_italian = 7" "length a_1_italian = 3" "length a_2_italian = 37"
  "length a_3_italian = 5" "length a_4_italian = 4" "length a_5_italian = 3"
  "length a_6_italian = 51" "length a_7_italian = 87"
  by code_simp+

lemma least_italian [simp]:
  "least a_0_italian 1 = 2" "least a_0_italian 2 = 2" "least a_0_italian 3 = 2"
  "least a_0_italian 4 = 2" "least a_0_italian 5 = 2" "least a_0_italian 6 = 2"
  "least a_0_italian 7 = 0" "least a_1_italian 1 = 1" "least a_1_italian 2 = 1"
  "least a_1_italian 3 = 0" "least a_2_italian (- 1) = 2" "least a_3_italian 1 = 4"
  "least a_3_italian 2 = 2" "least a_4_italian (- 1) = 2" "least a_4_italian 1 = 2"
  "least a_5_italian 1 = 2" "least a_6_italian 1 = 3" "least a_6_italian 2 = 5"
  "least a_6_italian 3 = 5" "least a_6_italian 4 = 6" "least a_6_italian 5 = 4"
  "least a_6_italian 6 = 6" "least a_6_italian 7 = 6" "least a_6_italian 8 = 4"
  "least a_6_italian 9 = 3" "least a_7_italian 1 = 2"
  by code_simp+

lemma has_italian [simp]:
  "has a_0_italian r \<longleftrightarrow> r = 1 \<or> r = 2 \<or> r = 3 \<or> r = 4 \<or> r = 5 \<or> r = 6 \<or> r = 7"
  "has a_1_italian r \<longleftrightarrow> r = 1 \<or> r = 2 \<or> r = 3"
  "has a_2_italian r \<longleftrightarrow> r = (- 1)"
  by (auto simp: has_def a_0_italian_def a_1_italian_def a_2_italian_def)

lemma lengths_italian [simp]:
  "length s_0_italian = 2" "length s_1_italian = 2" "length s_2_italian = 2"
  "length s_3_italian = 2" "length s_4_italian = 2" "length s_5_italian = 2"
  "length s_6_italian = 1" "length s_7_italian = 1" "length s_8_italian = 1"
  "length s_9_italian = 1" "length s_10_italian = 1" "length s_11_italian = 1"
  "length s_12_italian = 1" "length s_13_italian = 2" "length s_14_italian = 3"
  "length s_15_italian = 1" "length s_16_italian = 4" "length s_17_italian = 2"
  "length s_18_italian = 2" "length s_19_italian = 2" "length s_20_italian = 1"
  "length s_21_italian = 1"
  by code_simp+

lemma covers_italian [simp]:
  "covers g_AEIO_italian 97 242" "covers g_CG_italian 99 103" "covers g_v_italian 97 249"
  by code_simp+

subsection \<open>Loops\<close>

lemma prelude_while1_italian_wp:
  assumes "in_window z" "\<And>z'. kept z z' \<Longrightarrow> z_l z' \<le> z_l z \<Longrightarrow> Q Next z'"
  shows "wp r_prelude_italian_while1 Q z"
  using assms unfolding r_prelude_italian_while1_def
  by (intro wp_repeat) (auto intro!: win_intro slice_from_s_fwd simp: step_defs)

lemma prelude_while2_italian: "rewriting r_prelude_italian_while2 1 (\<lambda>b. b = CHR ''u'' \<or> b = CHR ''i'')"
  unfolding rewriting_def r_prelude_italian_while2_def
  by (intro allI impI, rule wp_search) (auto intro!: win_intro slice_rewrite_wp [where P = "\<lambda>b. b = CHR ''u'' \<or> b = CHR ''i''"]
    simp: rewrote_def step_defs moved_iff s_6_italian_def s_7_italian_def s_8_italian_def s_9_italian_def)

lemmas prelude_while3_italian_wp =
  rewrite_loop_wp [OF prelude_while2_italian, folded r_prelude_italian_while3_def]

lemma postlude_while1_italian_wp:
  assumes "in_window z" "\<And>z'. kept z z' \<Longrightarrow> z_l z' \<le> z_l z \<Longrightarrow> Q Next z'"
  shows "wp r_postlude_italian_while1 Q z"
  using assms unfolding r_postlude_italian_while1_def
  by (intro wp_repeat) (auto intro!: win_intro slice_from_s_fwd simp: step_defs)

subsection \<open>Routines\<close>

lemma r_prelude_italian_wp:
  assumes "in_window z" "z_c z = z_lb z" "\<And>z'. kept z z' \<Longrightarrow> z_l z' \<le> z_l z \<Longrightarrow> Q 1 z'"
  shows "wpf r_prelude_italian Q z"
  using assms unfolding r_prelude_italian_def
  by (auto intro!: prelude_while1_italian_wp prelude_while3_italian_wp simp: step_defs)

lemma r_mark_regions_italian_wp:
  assumes "in_window z" "length (z_I z) = 3"
    and "\<And>z'. marked z z' \<Longrightarrow> 0 \<le> z_I z' ! 0 \<Longrightarrow> Q 1 z'"
  shows "wpf r_mark_regions_italian Q z"
  unfolding r_mark_regions_italian_def wpf_fun
  apply (rule wp_cut [where n = 4 and J = "\<lambda>z'. marked z z' \<and> 0 \<le> z_I z' ! 0"], simp, simp)
  subgoal using assms(1,2) by (auto intro!: win_intro region_labels simp: marked_iff moved_iff in_window_def simp del: wp_upto)
  subgoal using assms by (auto intro!: win_intro simp: marked_iff in_window_def)
  done

lemma r_RV_italian_wp [simp]:
  "length (z_I z) = 3 \<Longrightarrow> wpf r_RV_italian Q z \<longleftrightarrow> Q (if z_I z ! 0 \<le> z_c z then 1 else 0) z"
  unfolding r_RV_italian_def by simp

lemma r_R1_italian_wp [simp]:
  "length (z_I z) = 3 \<Longrightarrow> wpf r_R1_italian Q z \<longleftrightarrow> Q (if z_I z ! 1 \<le> z_c z then 1 else 0) z"
  unfolding r_R1_italian_def by simp

lemma r_R2_italian_wp [simp]:
  "length (z_I z) = 3 \<Longrightarrow> wpf r_R2_italian Q z \<longleftrightarrow> Q (if z_I z ! 2 \<le> z_c z then 1 else 0) z"
  unfolding r_R2_italian_def by simp

lemma r_attached_pronoun_italian_steps:
  assumes "in_window z" "length (z_I z) = 3"
  shows "wpf r_attached_pronoun_italian (stepped z) z"
  using assms unfolding r_attached_pronoun_italian_def in_window_def
  by (auto intro!: win_intro safe_intro simp: step_defs)

lemma r_standard_suffix_italian_steps:
  assumes "in_window z" "length (z_I z) = 3"
  shows "wpf r_standard_suffix_italian (stepped z) z"
  using assms unfolding r_standard_suffix_italian_def in_window_def
  by (auto intro!: win_intro safe_intro wp_upto_step [where n = 0] wp_upto_step [where n = "Suc 0"] wp_upto_step [where n = 2] wp_upto_step [where n =
      3]
      simp: step_defs simp del: wp_upto)

lemma r_verb_suffix_italian_steps:
  assumes "in_window z" "0 \<le> z_I z ! 0" "z_lb z = 0" "length (z_I z) = 3"
  shows "wpf r_verb_suffix_italian (stepped z) z"
  using assms unfolding r_verb_suffix_italian_def in_window_def
  by (auto intro!: win_intro safe_intro simp: step_defs)

lemma r_vowel_suffix_italian_steps:
  assumes "in_window z" "length (z_I z) = 3"
  shows "wpf r_vowel_suffix_italian (stepped z) z"
  unfolding r_vowel_suffix_italian_def wpf_fun
  apply (rule wp_cut [where n = 1 and J = "stepped z 0"], simp, simp)
  subgoal using assms by (auto intro!: win_intro safe_intro simp: step_defs)
  subgoal using assms by (auto intro!: win_intro safe_intro simp: step_defs)
  done

lemma r_postlude_italian_steps:
  assumes "in_window z"
  shows "wpf r_postlude_italian (stepped z) z"
  using assms unfolding r_postlude_italian_def
  by (auto intro!: postlude_while1_italian_wp simp: step_defs)

subsection \<open>The stemmer\<close>

lemma italian_stem_steps:
  assumes "in_window z" "z_c z = 0" "strs_ok (z_S z)" "length (z_I z) = 3"
  shows "wpf italian_UTF_8_stem (fitted z) z"
  unfolding italian_UTF_8_stem_def wpf_fun
  apply (rule wp_cut [where n = 1 and J = "\<lambda>z'. fits z z' \<and> z_c z' = 0"], simp, simp)
  subgoal using assms by (auto intro!: r_prelude_italian_wp simp: step_defs fits_def)
  apply (erule wp_stage [where n = 3 and J' = "at_end (\<lambda>I. 0 \<le> I ! 0) z"], simp, simp)
  subgoal using assms by (auto intro!: r_mark_regions_italian_wp simp: step_defs fits_def at_end_def marked_iff)
  apply (erule wp_stage [where n = 1 and J' = "at_end (\<lambda>I. 0 \<le> I ! 0) z"], simp, simp)
  subgoal using assms by (auto intro!: wp_try_at_end [where orig = z and P = "\<lambda>I. 0 \<le> I ! 0"] r_attached_pronoun_italian_steps)
  apply (erule wp_stage [where n = 1 and J' = "at_end (\<lambda>I. 0 \<le> I ! 0) z"], simp, simp)
  subgoal using assms by (auto intro!: stepped_wp [OF r_standard_suffix_italian_steps]
      stepped_wp [OF r_verb_suffix_italian_steps] wp_upto_step simp: step_defs fits_def at_end_def simp del: wp_upto)
  apply (erule wp_stage [where n = 1 and J' = "at_end (\<lambda>I. 0 \<le> I ! 0) z"], simp, simp)
  subgoal using assms by (auto intro!: wp_try_at_end [where orig = z and P = "\<lambda>I. 0 \<le> I ! 0"] r_vowel_suffix_italian_steps)
  subgoal using assms by (auto intro!: stepped_wp [OF r_postlude_italian_steps] simp: step_defs fits_def at_end_def fitted_def)
  done

interpretation italian: steady_stemmer italian_UTF_8_stem 3 0
  by unfold_locales (auto intro!: wpf_mono [OF italian_stem_steps])

end
