(* ===== verification/Spanish.thy ===== *)
theory Spanish
  imports Libstemmer
begin

text \<open>
  The Spanish stemmer (\<^verbatim>\<open>src_c/stem_UTF_8_spanish.c\<close>), statement by statement, with the proof that it
  is a \<open>steady_stemmer\<close>.
\<close>

subsection \<open>Tables\<close>

definition a_0_spanish :: "among list" where
  "a_0_spanish = [
    amg 0 [] (- 1) 6,
    amg 2 [CHR 0xC3, CHR 0xA1] 0 1,
    amg 2 [CHR 0xC3, CHR 0xA9] 0 2,
    amg 2 [CHR 0xC3, CHR 0xAD] 0 3,
    amg 2 [CHR 0xC3, CHR 0xB3] 0 4,
    amg 2 [CHR 0xC3, CHR 0xBA] 0 5]"

definition a_1_spanish :: "among list" where
  "a_1_spanish = [
    amg 2 ''la'' (- 1) (- 1),
    amg 4 ''sela'' 0 (- 1),
    amg 2 ''le'' (- 1) (- 1),
    amg 2 ''me'' (- 1) (- 1),
    amg 2 ''se'' (- 1) (- 1),
    amg 2 ''lo'' (- 1) (- 1),
    amg 4 ''selo'' 5 (- 1),
    amg 3 ''las'' (- 1) (- 1),
    amg 5 ''selas'' 7 (- 1),
    amg 3 ''les'' (- 1) (- 1),
    amg 3 ''los'' (- 1) (- 1),
    amg 5 ''selos'' 10 (- 1),
    amg 3 ''nos'' (- 1) (- 1)]"

definition a_2_spanish :: "among list" where
  "a_2_spanish = [
    amg 4 ''ando'' (- 1) 6,
    amg 5 ''iendo'' (- 1) 6,
    amg 5 ''yendo'' (- 1) 7,
    amg 5 [CHR 0xC3, CHR 0xA1, CHR ''n'', CHR ''d'', CHR ''o''] (- 1) 2,
    amg 6 [CHR ''i'', CHR 0xC3, CHR 0xA9, CHR ''n'', CHR ''d'', CHR ''o''] (- 1) 1,
    amg 2 ''ar'' (- 1) 6,
    amg 2 ''er'' (- 1) 6,
    amg 2 ''ir'' (- 1) 6,
    amg 3 [CHR 0xC3, CHR 0xA1, CHR ''r''] (- 1) 3,
    amg 3 [CHR 0xC3, CHR 0xA9, CHR ''r''] (- 1) 4,
    amg 3 [CHR 0xC3, CHR 0xAD, CHR ''r''] (- 1) 5]"

definition a_3_spanish :: "among list" where
  "a_3_spanish = [
    amg 2 ''ic'' (- 1) (- 1),
    amg 2 ''ad'' (- 1) (- 1),
    amg 2 ''os'' (- 1) (- 1),
    amg 2 ''iv'' (- 1) 1]"

definition a_4_spanish :: "among list" where
  "a_4_spanish = [
    amg 4 ''able'' (- 1) 1,
    amg 4 ''ible'' (- 1) 1,
    amg 4 ''ante'' (- 1) 1]"

definition a_5_spanish :: "among list" where
  "a_5_spanish = [
    amg 2 ''ic'' (- 1) 1,
    amg 4 ''abil'' (- 1) 1,
    amg 2 ''iv'' (- 1) 1]"

definition a_6_spanish :: "among list" where
  "a_6_spanish = [
    amg 3 ''ica'' (- 1) 1,
    amg 5 ''ancia'' (- 1) 2,
    amg 5 ''encia'' (- 1) 5,
    amg 5 ''adora'' (- 1) 2,
    amg 3 ''osa'' (- 1) 1,
    amg 4 ''ista'' (- 1) 1,
    amg 3 ''iva'' (- 1) 9,
    amg 4 ''anza'' (- 1) 1,
    amg 6 [CHR ''l'', CHR ''o'', CHR ''g'', CHR 0xC3, CHR 0xAD, CHR ''a''] (- 1) 3,
    amg 4 ''idad'' (- 1) 8,
    amg 4 ''able'' (- 1) 1,
    amg 4 ''ible'' (- 1) 1,
    amg 4 ''ante'' (- 1) 2,
    amg 5 ''mente'' (- 1) 7,
    amg 6 ''amente'' 13 6,
    amg 6 [CHR ''a'', CHR ''c'', CHR ''i'', CHR 0xC3, CHR 0xB3, CHR ''n''] (- 1) 2,
    amg 6 [CHR ''u'', CHR ''c'', CHR ''i'', CHR 0xC3, CHR 0xB3, CHR ''n''] (- 1) 4,
    amg 3 ''ico'' (- 1) 1,
    amg 4 ''ismo'' (- 1) 1,
    amg 3 ''oso'' (- 1) 1,
    amg 7 ''amiento'' (- 1) 1,
    amg 7 ''imiento'' (- 1) 1,
    amg 3 ''ivo'' (- 1) 9,
    amg 4 ''ador'' (- 1) 2,
    amg 4 ''icas'' (- 1) 1,
    amg 6 ''ancias'' (- 1) 2,
    amg 6 ''encias'' (- 1) 5,
    amg 6 ''adoras'' (- 1) 2,
    amg 4 ''osas'' (- 1) 1,
    amg 5 ''istas'' (- 1) 1,
    amg 4 ''ivas'' (- 1) 9,
    amg 5 ''anzas'' (- 1) 1,
    amg 7 [CHR ''l'', CHR ''o'', CHR ''g'', CHR 0xC3, CHR 0xAD, CHR ''a'', CHR ''s''] (- 1) 3,
    amg 6 ''idades'' (- 1) 8,
    amg 5 ''ables'' (- 1) 1,
    amg 5 ''ibles'' (- 1) 1,
    amg 7 ''aciones'' (- 1) 2,
    amg 7 ''uciones'' (- 1) 4,
    amg 6 ''adores'' (- 1) 2,
    amg 5 ''antes'' (- 1) 2,
    amg 4 ''icos'' (- 1) 1,
    amg 5 ''ismos'' (- 1) 1,
    amg 4 ''osos'' (- 1) 1,
    amg 8 ''amientos'' (- 1) 1,
    amg 8 ''imientos'' (- 1) 1,
    amg 4 ''ivos'' (- 1) 9]"

definition a_7_spanish :: "among list" where
  "a_7_spanish = [
    amg 2 ''ya'' (- 1) 1,
    amg 2 ''ye'' (- 1) 1,
    amg 3 ''yan'' (- 1) 1,
    amg 3 ''yen'' (- 1) 1,
    amg 5 ''yeron'' (- 1) 1,
    amg 5 ''yendo'' (- 1) 1,
    amg 2 ''yo'' (- 1) 1,
    amg 3 ''yas'' (- 1) 1,
    amg 3 ''yes'' (- 1) 1,
    amg 4 ''yais'' (- 1) 1,
    amg 5 ''yamos'' (- 1) 1,
    amg 3 [CHR ''y'', CHR 0xC3, CHR 0xB3] (- 1) 1]"

definition a_8_spanish :: "among list" where
  "a_8_spanish = [
    amg 3 ''aba'' (- 1) 2,
    amg 3 ''ada'' (- 1) 2,
    amg 3 ''ida'' (- 1) 2,
    amg 3 ''ara'' (- 1) 2,
    amg 4 ''iera'' (- 1) 2,
    amg 3 [CHR 0xC3, CHR 0xAD, CHR ''a''] (- 1) 2,
    amg 5 [CHR ''a'', CHR ''r'', CHR 0xC3, CHR 0xAD, CHR ''a''] 5 2,
    amg 5 [CHR ''e'', CHR ''r'', CHR 0xC3, CHR 0xAD, CHR ''a''] 5 2,
    amg 5 [CHR ''i'', CHR ''r'', CHR 0xC3, CHR 0xAD, CHR ''a''] 5 2,
    amg 2 ''ad'' (- 1) 2,
    amg 2 ''ed'' (- 1) 2,
    amg 2 ''id'' (- 1) 2,
    amg 3 ''ase'' (- 1) 2,
    amg 4 ''iese'' (- 1) 2,
    amg 4 ''aste'' (- 1) 2,
    amg 4 ''iste'' (- 1) 2,
    amg 2 ''an'' (- 1) 2,
    amg 4 ''aban'' 16 2,
    amg 4 ''aran'' 16 2,
    amg 5 ''ieran'' 16 2,
    amg 4 [CHR 0xC3, CHR 0xAD, CHR ''a'', CHR ''n''] 16 2,
    amg 6 [CHR ''a'', CHR ''r'', CHR 0xC3, CHR 0xAD, CHR ''a'', CHR ''n''] 20 2,
    amg 6 [CHR ''e'', CHR ''r'', CHR 0xC3, CHR 0xAD, CHR ''a'', CHR ''n''] 20 2,
    amg 6 [CHR ''i'', CHR ''r'', CHR 0xC3, CHR 0xAD, CHR ''a'', CHR ''n''] 20 2,
    amg 2 ''en'' (- 1) 1,
    amg 4 ''asen'' 24 2,
    amg 5 ''iesen'' 24 2,
    amg 4 ''aron'' (- 1) 2,
    amg 5 ''ieron'' (- 1) 2,
    amg 5 [CHR ''a'', CHR ''r'', CHR 0xC3, CHR 0xA1, CHR ''n''] (- 1) 2,
    amg 5 [CHR ''e'', CHR ''r'', CHR 0xC3, CHR 0xA1, CHR ''n''] (- 1) 2,
    amg 5 [CHR ''i'', CHR ''r'', CHR 0xC3, CHR 0xA1, CHR ''n''] (- 1) 2,
    amg 3 ''ado'' (- 1) 2,
    amg 3 ''ido'' (- 1) 2,
    amg 4 ''ando'' (- 1) 2,
    amg 5 ''iendo'' (- 1) 2,
    amg 2 ''ar'' (- 1) 2,
    amg 2 ''er'' (- 1) 2,
    amg 2 ''ir'' (- 1) 2,
    amg 2 ''as'' (- 1) 2,
    amg 4 ''abas'' 39 2,
    amg 4 ''adas'' 39 2,
    amg 4 ''idas'' 39 2,
    amg 4 ''aras'' 39 2,
    amg 5 ''ieras'' 39 2,
    amg 4 [CHR 0xC3, CHR 0xAD, CHR ''a'', CHR ''s''] 39 2,
    amg 6 [CHR ''a'', CHR ''r'', CHR 0xC3, CHR 0xAD, CHR ''a'', CHR ''s''] 45 2,
    amg 6 [CHR ''e'', CHR ''r'', CHR 0xC3, CHR 0xAD, CHR ''a'', CHR ''s''] 45 2,
    amg 6 [CHR ''i'', CHR ''r'', CHR 0xC3, CHR 0xAD, CHR ''a'', CHR ''s''] 45 2,
    amg 2 ''es'' (- 1) 1,
    amg 4 ''ases'' 49 2,
    amg 5 ''ieses'' 49 2,
    amg 5 ''abais'' (- 1) 2,
    amg 5 ''arais'' (- 1) 2,
    amg 6 ''ierais'' (- 1) 2,
    amg 5 [CHR 0xC3, CHR 0xAD, CHR ''a'', CHR ''i'', CHR ''s''] (- 1) 2,
    amg 7 [CHR ''a'', CHR ''r'', CHR 0xC3, CHR 0xAD, CHR ''a'', CHR ''i'', CHR ''s''] 55 2,
    amg 7 [CHR ''e'', CHR ''r'', CHR 0xC3, CHR 0xAD, CHR ''a'', CHR ''i'', CHR ''s''] 55 2,
    amg 7 [CHR ''i'', CHR ''r'', CHR 0xC3, CHR 0xAD, CHR ''a'', CHR ''i'', CHR ''s''] 55 2,
    amg 5 ''aseis'' (- 1) 2,
    amg 6 ''ieseis'' (- 1) 2,
    amg 6 ''asteis'' (- 1) 2,
    amg 6 ''isteis'' (- 1) 2,
    amg 4 [CHR 0xC3, CHR 0xA1, CHR ''i'', CHR ''s''] (- 1) 2,
    amg 4 [CHR 0xC3, CHR 0xA9, CHR ''i'', CHR ''s''] (- 1) 1,
    amg 6 [CHR ''a'', CHR ''r'', CHR 0xC3, CHR 0xA9, CHR ''i'', CHR ''s''] 64 2,
    amg 6 [CHR ''e'', CHR ''r'', CHR 0xC3, CHR 0xA9, CHR ''i'', CHR ''s''] 64 2,
    amg 6 [CHR ''i'', CHR ''r'', CHR 0xC3, CHR 0xA9, CHR ''i'', CHR ''s''] 64 2,
    amg 4 ''ados'' (- 1) 2,
    amg 4 ''idos'' (- 1) 2,
    amg 4 ''amos'' (- 1) 2,
    amg 7 [CHR 0xC3, CHR 0xA1, CHR ''b'', CHR ''a'', CHR ''m'', CHR ''o'', CHR ''s''] 70 2,
    amg 7 [CHR 0xC3, CHR 0xA1, CHR ''r'', CHR ''a'', CHR ''m'', CHR ''o'', CHR ''s''] 70 2,
    amg 8 [CHR ''i'', CHR 0xC3, CHR 0xA9, CHR ''r'', CHR ''a'', CHR ''m'', CHR ''o'', CHR ''s''] 70 2,
    amg 6 [CHR 0xC3, CHR 0xAD, CHR ''a'', CHR ''m'', CHR ''o'', CHR ''s''] 70 2,
    amg 8 [CHR ''a'', CHR ''r'', CHR 0xC3, CHR 0xAD, CHR ''a'', CHR ''m'', CHR ''o'', CHR ''s''] 74 2,
    amg 8 [CHR ''e'', CHR ''r'', CHR 0xC3, CHR 0xAD, CHR ''a'', CHR ''m'', CHR ''o'', CHR ''s''] 74 2,
    amg 8 [CHR ''i'', CHR ''r'', CHR 0xC3, CHR 0xAD, CHR ''a'', CHR ''m'', CHR ''o'', CHR ''s''] 74 2,
    amg 4 ''emos'' (- 1) 1,
    amg 6 ''aremos'' 78 2,
    amg 6 ''eremos'' 78 2,
    amg 6 ''iremos'' 78 2,
    amg 7 [CHR 0xC3, CHR 0xA1, CHR ''s'', CHR ''e'', CHR ''m'', CHR ''o'', CHR ''s''] 78 2,
    amg 8 [CHR ''i'', CHR 0xC3, CHR 0xA9, CHR ''s'', CHR ''e'', CHR ''m'', CHR ''o'', CHR ''s''] 78 2,
    amg 4 ''imos'' (- 1) 2,
    amg 5 [CHR ''a'', CHR ''r'', CHR 0xC3, CHR 0xA1, CHR ''s''] (- 1) 2,
    amg 5 [CHR ''e'', CHR ''r'', CHR 0xC3, CHR 0xA1, CHR ''s''] (- 1) 2,
    amg 5 [CHR ''i'', CHR ''r'', CHR 0xC3, CHR 0xA1, CHR ''s''] (- 1) 2,
    amg 3 [CHR 0xC3, CHR 0xAD, CHR ''s''] (- 1) 2,
    amg 4 [CHR ''a'', CHR ''r'', CHR 0xC3, CHR 0xA1] (- 1) 2,
    amg 4 [CHR ''e'', CHR ''r'', CHR 0xC3, CHR 0xA1] (- 1) 2,
    amg 4 [CHR ''i'', CHR ''r'', CHR 0xC3, CHR 0xA1] (- 1) 2,
    amg 4 [CHR ''a'', CHR ''r'', CHR 0xC3, CHR 0xA9] (- 1) 2,
    amg 4 [CHR ''e'', CHR ''r'', CHR 0xC3, CHR 0xA9] (- 1) 2,
    amg 4 [CHR ''i'', CHR ''r'', CHR 0xC3, CHR 0xA9] (- 1) 2,
    amg 3 [CHR ''i'', CHR 0xC3, CHR 0xB3] (- 1) 2]"

definition a_9_spanish :: "among list" where
  "a_9_spanish = [
    amg 1 ''a'' (- 1) 1,
    amg 1 ''e'' (- 1) 2,
    amg 1 ''o'' (- 1) 1,
    amg 2 ''os'' (- 1) 1,
    amg 2 [CHR 0xC3, CHR 0xA1] (- 1) 1,
    amg 2 [CHR 0xC3, CHR 0xA9] (- 1) 2,
    amg 2 [CHR 0xC3, CHR 0xAD] (- 1) 1,
    amg 2 [CHR 0xC3, CHR 0xB3] (- 1) 1]"

definition g_v_spanish :: "int list" where
  "g_v_spanish = [17, 65, 16, 0, 0, 0, 0, 0, 0, 0, 0, 0, 0, 0, 0, 0, 1, 17, 4, 10]"

subsection \<open>Strings\<close>

definition s_0_spanish :: "symbol list" where
  "s_0_spanish = ''a''"

definition s_1_spanish :: "symbol list" where
  "s_1_spanish = ''e''"

definition s_2_spanish :: "symbol list" where
  "s_2_spanish = ''i''"

definition s_3_spanish :: "symbol list" where
  "s_3_spanish = ''o''"

definition s_4_spanish :: "symbol list" where
  "s_4_spanish = ''u''"

definition s_5_spanish :: "symbol list" where
  "s_5_spanish = ''iendo''"

definition s_6_spanish :: "symbol list" where
  "s_6_spanish = ''ando''"

definition s_7_spanish :: "symbol list" where
  "s_7_spanish = ''ar''"

definition s_8_spanish :: "symbol list" where
  "s_8_spanish = ''er''"

definition s_9_spanish :: "symbol list" where
  "s_9_spanish = ''ir''"

definition s_10_spanish :: "symbol list" where
  "s_10_spanish = ''u''"

definition s_11_spanish :: "symbol list" where
  "s_11_spanish = ''ic''"

definition s_12_spanish :: "symbol list" where
  "s_12_spanish = ''log''"

definition s_13_spanish :: "symbol list" where
  "s_13_spanish = ''u''"

definition s_14_spanish :: "symbol list" where
  "s_14_spanish = ''ente''"

definition s_15_spanish :: "symbol list" where
  "s_15_spanish = ''at''"

definition s_16_spanish :: "symbol list" where
  "s_16_spanish = ''at''"

definition s_17_spanish :: "symbol list" where
  "s_17_spanish = ''u''"

definition s_18_spanish :: "symbol list" where
  "s_18_spanish = ''u''"

definition s_19_spanish :: "symbol list" where
  "s_19_spanish = ''g''"

definition s_20_spanish :: "symbol list" where
  "s_20_spanish = ''u''"

definition s_21_spanish :: "symbol list" where
  "s_21_spanish = ''g''"

subsection \<open>Code\<close>

definition r_mark_regions_spanish :: "sn_func" where
  "r_mark_regions_spanish = c_fun [
    set_I 0 z_l,
    set_I 1 z_l,
    set_I 2 z_l,
    c_let z_c (\<lambda>c1. c_block [
      c_upto 0 [
        c_upto 1 [
          c_let z_c (\<lambda>c2. c_block [
            c_upto 2 [
              when_true (in_grouping_U g_v_spanish 97 252 0) (c_goto 2),
              c_upto 3 [
                c_let z_c (\<lambda>c3. c_block [
                  c_upto 4 [
                    when_true (out_grouping_U g_v_spanish 97 252 0) (c_goto 4),
                    advance (out_grouping_U g_v_spanish 97 252 1) (c_goto 4),
                    c_goto 3],
                  set_c (\<lambda>_. c3),
                  when_true (in_grouping_U g_v_spanish 97 252 0) (c_goto 2),
                  advance (in_grouping_U g_v_spanish 97 252 1) (c_goto 2)])],
              c_goto 1],
            set_c (\<lambda>_. c2),
            when_true (out_grouping_U g_v_spanish 97 252 0) (c_goto 0),
            c_upto 5 [
              c_let z_c (\<lambda>c4. c_block [
                c_upto 6 [
                  when_true (out_grouping_U g_v_spanish 97 252 0) (c_goto 6),
                  advance (out_grouping_U g_v_spanish 97 252 1) (c_goto 6),
                  c_goto 5],
                set_c (\<lambda>_. c4),
                when_true (in_grouping_U g_v_spanish 97 252 0) (c_goto 0),
                move_to (skip_utf8_z (\<lambda>_. 0) z_l 1) (c_goto 0)])]])],
        set_I 0 z_c],
      set_c (\<lambda>_. c1)]),
    c_let z_c (\<lambda>c5. c_block [
      c_upto 7 [
        advance (out_grouping_U g_v_spanish 97 252 1) (c_goto 7),
        advance (in_grouping_U g_v_spanish 97 252 1) (c_goto 7),
        set_I 1 z_c,
        advance (out_grouping_U g_v_spanish 97 252 1) (c_goto 7),
        advance (in_grouping_U g_v_spanish 97 252 1) (c_goto 7),
        set_I 2 z_c],
      set_c (\<lambda>_. c5)]),
    c_return 1]"

definition r_postlude_spanish_while1 :: "sn_cmd" where
  "r_postlude_spanish_while1 = c_while1 (c_block [
      c_let z_c (\<lambda>c1. c_block [
        set_bra z_c,
        c_call (or_else (head_guard 1 (not_in_mask 5 67641858)) 6 (find_among a_0_spanish 6)) (\<lambda>among_var. c_block [
          c_upto 0 [
            c_if (test (\<lambda>_. among_var = 0)) (c_goto 0),
            set_ket z_c,
            c_switch among_var [
              (0, c_block [
                c_goto 0]),
              (1, c_block [
                check (slice_from_s 1 s_0_spanish),
                c_break]),
              (2, c_block [
                check (slice_from_s 1 s_1_spanish),
                c_break]),
              (3, c_block [
                check (slice_from_s 1 s_2_spanish),
                c_break]),
              (4, c_block [
                check (slice_from_s 1 s_3_spanish),
                c_break]),
              (5, c_block [
                check (slice_from_s 1 s_4_spanish),
                c_break]),
              (6, c_block [
                move_to (skip_utf8_z (\<lambda>_. 0) z_l 1) (c_goto 0),
                c_break])],
            c_continue],
          set_c (\<lambda>_. c1),
          c_break])])])"

definition r_postlude_spanish :: "sn_func" where
  "r_postlude_spanish = c_fun [
    r_postlude_spanish_while1,
    c_return 1]"

definition r_RV_spanish :: "sn_func" where
  "r_RV_spanish = c_fun [
    c_if (on_I 0 (\<lambda>z i. \<not> i \<le> z_c z)) (c_return 0),
    c_return 1]"

definition r_R1_spanish :: "sn_func" where
  "r_R1_spanish = c_fun [
    c_if (on_I 1 (\<lambda>z i. \<not> i \<le> z_c z)) (c_return 0),
    c_return 1]"

definition r_R2_spanish :: "sn_func" where
  "r_R2_spanish = c_fun [
    c_if (on_I 2 (\<lambda>z i. \<not> i \<le> z_c z)) (c_return 0),
    c_return 1]"

definition r_attached_pronoun_spanish :: "sn_func" where
  "r_attached_pronoun_spanish = c_fun [
    set_ket z_c,
    c_if (tail_guard 1 (not_in_mask 3 557090)) (c_return 0),
    unless (find_among_b a_1_spanish 13) (c_return 0),
    set_bra z_c,
    c_if (tail_guard 1 (\<lambda>ch. ch \<noteq> 111 \<and> ch \<noteq> 114)) (c_return 0),
    c_call (find_among_b a_2_spanish 11) (\<lambda>among_var. c_block [
      c_if (test (\<lambda>_. among_var = 0)) (c_return 0),
      routine r_RV_spanish (c_return 0),
      c_switch among_var [
        (0, c_block [
          c_return 0]),
        (1, c_block [
          set_bra z_c,
          check (slice_from_s 5 s_5_spanish),
          c_break]),
        (2, c_block [
          set_bra z_c,
          check (slice_from_s 4 s_6_spanish),
          c_break]),
        (3, c_block [
          set_bra z_c,
          check (slice_from_s 2 s_7_spanish),
          c_break]),
        (4, c_block [
          set_bra z_c,
          check (slice_from_s 2 s_8_spanish),
          c_break]),
        (5, c_block [
          set_bra z_c,
          check (slice_from_s 2 s_9_spanish),
          c_break]),
        (6, c_block [
          check slice_del,
          c_break]),
        (7, c_block [
          unless (eq_s_b 1 s_10_spanish) (c_return 0),
          check slice_del,
          c_break])],
      c_return 1])]"

definition r_standard_suffix_spanish :: "sn_func" where
  "r_standard_suffix_spanish = c_fun [
    set_ket z_c,
    c_if (tail_guard 2 (not_in_mask 3 835634)) (c_return 0),
    c_call (find_among_b a_6_spanish 46) (\<lambda>among_var. c_block [
      c_if (test (\<lambda>_. among_var = 0)) (c_return 0),
      set_bra z_c,
      c_switch among_var [
        (0, c_block [
          c_return 0]),
        (1, c_block [
          routine r_R2_spanish (c_return 0),
          check slice_del,
          c_break]),
        (2, c_block [
          routine r_R2_spanish (c_return 0),
          check slice_del,
          c_let (\<lambda>z. z_l z - z_c z) (\<lambda>m_keep. c_block [
            set_ket z_c,
            c_upto 0 [
              unless (eq_s_b 2 s_11_spanish) (
                c_block [
                  set_c (\<lambda>z. z_l z - m_keep),
                  c_goto 0]),
              set_bra z_c,
              routine r_R2_spanish (
                c_block [
                  set_c (\<lambda>z. z_l z - m_keep),
                  c_goto 0]),
              check slice_del]]),
          c_break]),
        (3, c_block [
          routine r_R2_spanish (c_return 0),
          check (slice_from_s 3 s_12_spanish),
          c_break]),
        (4, c_block [
          routine r_R2_spanish (c_return 0),
          check (slice_from_s 1 s_13_spanish),
          c_break]),
        (5, c_block [
          routine r_R2_spanish (c_return 0),
          check (slice_from_s 4 s_14_spanish),
          c_break]),
        (6, c_block [
          routine r_R1_spanish (c_return 0),
          check slice_del,
          c_let (\<lambda>z. z_l z - z_c z) (\<lambda>m_keep. c_block [
            set_ket z_c,
            c_upto 1 [
              c_if (tail_guard 1 (not_in_mask 3 4718616)) (
                c_block [
                  set_c (\<lambda>z. z_l z - m_keep),
                  c_goto 1]),
              c_call (find_among_b a_3_spanish 4) (\<lambda>among_var. c_block [
                c_if (test (\<lambda>_. among_var = 0)) (
                  c_block [
                    set_c (\<lambda>z. z_l z - m_keep),
                    c_goto 1]),
                set_bra z_c,
                routine r_R2_spanish (
                  c_block [
                    set_c (\<lambda>z. z_l z - m_keep),
                    c_goto 1]),
                check slice_del,
                c_switch among_var [
                  (0, c_block [
                    c_block [
                      set_c (\<lambda>z. z_l z - m_keep),
                      c_goto 1]]),
                  (1, c_block [
                    set_ket z_c,
                    unless (eq_s_b 2 s_15_spanish) (
                      c_block [
                        set_c (\<lambda>z. z_l z - m_keep),
                        c_goto 1]),
                    set_bra z_c,
                    routine r_R2_spanish (
                      c_block [
                        set_c (\<lambda>z. z_l z - m_keep),
                        c_goto 1]),
                    check slice_del,
                    c_break])]])]]),
          c_break]),
        (7, c_block [
          routine r_R2_spanish (c_return 0),
          check slice_del,
          c_let (\<lambda>z. z_l z - z_c z) (\<lambda>m_keep. c_block [
            set_ket z_c,
            c_upto 2 [
              c_if (tail_guard 3 (\<lambda>ch. ch \<noteq> 101)) (
                c_block [
                  set_c (\<lambda>z. z_l z - m_keep),
                  c_goto 2]),
              c_call (find_among_b a_4_spanish 3) (\<lambda>among_var. c_block [
                c_if (test (\<lambda>_. among_var = 0)) (
                  c_block [
                    set_c (\<lambda>z. z_l z - m_keep),
                    c_goto 2]),
                set_bra z_c,
                c_switch among_var [
                  (0, c_block [
                    c_block [
                      set_c (\<lambda>z. z_l z - m_keep),
                      c_goto 2]]),
                  (1, c_block [
                    routine r_R2_spanish (
                      c_block [
                        set_c (\<lambda>z. z_l z - m_keep),
                        c_goto 2]),
                    check slice_del,
                    c_break])]])]]),
          c_break]),
        (8, c_block [
          routine r_R2_spanish (c_return 0),
          check slice_del,
          c_let (\<lambda>z. z_l z - z_c z) (\<lambda>m_keep. c_block [
            set_ket z_c,
            c_upto 3 [
              c_if (tail_guard 1 (not_in_mask 3 4198408)) (
                c_block [
                  set_c (\<lambda>z. z_l z - m_keep),
                  c_goto 3]),
              c_call (find_among_b a_5_spanish 3) (\<lambda>among_var. c_block [
                c_if (test (\<lambda>_. among_var = 0)) (
                  c_block [
                    set_c (\<lambda>z. z_l z - m_keep),
                    c_goto 3]),
                set_bra z_c,
                c_switch among_var [
                  (0, c_block [
                    c_block [
                      set_c (\<lambda>z. z_l z - m_keep),
                      c_goto 3]]),
                  (1, c_block [
                    routine r_R2_spanish (
                      c_block [
                        set_c (\<lambda>z. z_l z - m_keep),
                        c_goto 3]),
                    check slice_del,
                    c_break])]])]]),
          c_break]),
        (9, c_block [
          routine r_R2_spanish (c_return 0),
          check slice_del,
          c_let (\<lambda>z. z_l z - z_c z) (\<lambda>m_keep. c_block [
            set_ket z_c,
            c_upto 4 [
              unless (eq_s_b 2 s_16_spanish) (
                c_block [
                  set_c (\<lambda>z. z_l z - m_keep),
                  c_goto 4]),
              set_bra z_c,
              routine r_R2_spanish (
                c_block [
                  set_c (\<lambda>z. z_l z - m_keep),
                  c_goto 4]),
              check slice_del]]),
          c_break])],
      c_return 1])]"

definition r_y_verb_suffix_spanish :: "sn_func" where
  "r_y_verb_suffix_spanish = c_fun [
    c_let (\<lambda>z. z_l z - z_c z) (\<lambda>m1. c_block [
      c_if (on_I 0 (\<lambda>z i. z_c z < i)) (c_return 0),
      set_c_I 0,
      c_let z_lb (\<lambda>mlimit. c_block [
        set_lb z_c,
        set_c (\<lambda>z. z_l z - m1),
        set_ket z_c,
        c_call (find_among_b a_7_spanish 12) (\<lambda>among_var. c_block [
          c_if (test (\<lambda>_. among_var = 0)) (
            c_block [
              set_lb (\<lambda>_. mlimit),
              c_return 0]),
          set_bra z_c,
          set_lb (\<lambda>_. mlimit),
          c_switch among_var [
            (0, c_block [
              c_return 0]),
            (1, c_block [
              unless (eq_s_b 1 s_17_spanish) (c_return 0),
              check slice_del,
              c_break])],
          c_return 1])])])]"

definition r_verb_suffix_spanish :: "sn_func" where
  "r_verb_suffix_spanish = c_fun [
    c_let (\<lambda>z. z_l z - z_c z) (\<lambda>m1. c_block [
      c_if (on_I 0 (\<lambda>z i. z_c z < i)) (c_return 0),
      set_c_I 0,
      c_let z_lb (\<lambda>mlimit. c_block [
        set_lb z_c,
        set_c (\<lambda>z. z_l z - m1),
        set_ket z_c,
        c_call (find_among_b a_8_spanish 96) (\<lambda>among_var. c_block [
          c_if (test (\<lambda>_. among_var = 0)) (
            c_block [
              set_lb (\<lambda>_. mlimit),
              c_return 0]),
          set_bra z_c,
          set_lb (\<lambda>_. mlimit),
          c_switch among_var [
            (0, c_block [
              c_return 0]),
            (1, c_block [
              c_let (\<lambda>z. z_l z - z_c z) (\<lambda>m_keep. c_block [
                c_upto 0 [
                  unless (eq_s_b 1 s_18_spanish) (
                    c_block [
                      set_c (\<lambda>z. z_l z - m_keep),
                      c_goto 0]),
                  c_let (\<lambda>z. z_l z - z_c z) (\<lambda>m_test. c_block [
                    unless (eq_s_b 1 s_19_spanish) (
                      c_block [
                        set_c (\<lambda>z. z_l z - m_keep),
                        c_goto 0]),
                    set_c (\<lambda>z. z_l z - m_test)])]]),
              set_bra z_c,
              check slice_del,
              c_break]),
            (2, c_block [
              check slice_del,
              c_break])],
          c_return 1])])])]"

definition r_residual_suffix_spanish :: "sn_func" where
  "r_residual_suffix_spanish = c_fun [
    set_ket z_c,
    c_call (find_among_b a_9_spanish 8) (\<lambda>among_var. c_block [
      c_if (test (\<lambda>_. among_var = 0)) (c_return 0),
      set_bra z_c,
      c_switch among_var [
        (0, c_block [
          c_return 0]),
        (1, c_block [
          routine r_RV_spanish (c_return 0),
          check slice_del,
          c_break]),
        (2, c_block [
          routine r_RV_spanish (c_return 0),
          check slice_del,
          c_let (\<lambda>z. z_l z - z_c z) (\<lambda>m_keep. c_block [
            set_ket z_c,
            c_upto 0 [
              unless (eq_s_b 1 s_20_spanish) (
                c_block [
                  set_c (\<lambda>z. z_l z - m_keep),
                  c_goto 0]),
              set_bra z_c,
              c_let (\<lambda>z. z_l z - z_c z) (\<lambda>m_test. c_block [
                unless (eq_s_b 1 s_21_spanish) (
                  c_block [
                    set_c (\<lambda>z. z_l z - m_keep),
                    c_goto 0]),
                set_c (\<lambda>z. z_l z - m_test)]),
              routine r_RV_spanish (
                c_block [
                  set_c (\<lambda>z. z_l z - m_keep),
                  c_goto 0]),
              check slice_del]]),
          c_break])],
      c_return 1])]"

definition spanish_UTF_8_stem :: "sn_func" where
  "spanish_UTF_8_stem = c_fun [
    try_f 0 r_mark_regions_spanish,
    set_lb z_c,
    set_c z_l,
    try_b 1 r_attached_pronoun_spanish,
    c_let (\<lambda>z. z_l z - z_c z) (\<lambda>m3. c_block [
      c_upto 2 [
        c_upto 3 [
          c_let (\<lambda>z. z_l z - z_c z) (\<lambda>m4. c_block [
            c_upto 4 [
              routine r_standard_suffix_spanish (c_goto 4),
              c_goto 3],
            set_c (\<lambda>z. z_l z - m4),
            c_upto 5 [
              routine r_y_verb_suffix_spanish (c_goto 5),
              c_goto 3],
            set_c (\<lambda>z. z_l z - m4),
            routine r_verb_suffix_spanish (c_goto 2)])]],
      set_c (\<lambda>z. z_l z - m3)]),
    try_b 6 r_residual_suffix_spanish,
    set_c z_lb,
    try_f 7 r_postlude_spanish,
    c_return 1]"

definition spanish_UTF_8_create_env :: "env_create" where
  "spanish_UTF_8_create_env = SN_create_env 0 3 0"

definition spanish_UTF_8_close_env :: "env_close" where
  "spanish_UTF_8_close_env z = SN_close_env z 0"

subsection \<open>Facts on the tables\<close>

lemma tables_spanish [simp]:
  "table_f a_0_spanish" "table_b a_1_spanish" "table_b a_2_spanish" "table_b a_3_spanish"
  "table_b a_4_spanish" "table_b a_5_spanish" "table_b a_6_spanish" "table_b a_7_spanish"
  "table_b a_8_spanish" "table_b a_9_spanish"
  by (rule table_sound, code_simp, code_simp)+

lemma length_tables_spanish [simp]:
  "length a_0_spanish = 6" "length a_1_spanish = 13" "length a_2_spanish = 11"
  "length a_3_spanish = 4" "length a_4_spanish = 3" "length a_5_spanish = 3"
  "length a_6_spanish = 46" "length a_7_spanish = 12" "length a_8_spanish = 96"
  "length a_9_spanish = 8"
  by code_simp+

lemma least_spanish [simp]:
  "least a_0_spanish 1 = 2" "least a_0_spanish 2 = 2" "least a_0_spanish 3 = 2"
  "least a_0_spanish 4 = 2" "least a_0_spanish 5 = 2" "least a_0_spanish 6 = 0"
  "least a_1_spanish (- 1) = 2" "least a_2_spanish 1 = 6" "least a_2_spanish 2 = 5"
  "least a_2_spanish 3 = 3" "least a_2_spanish 4 = 3" "least a_2_spanish 5 = 3"
  "least a_2_spanish 6 = 2" "least a_2_spanish 7 = 5" "least a_3_spanish (- 1) = 2"
  "least a_3_spanish 1 = 2" "least a_4_spanish 1 = 4" "least a_5_spanish 1 = 2"
  "least a_6_spanish 1 = 3" "least a_6_spanish 2 = 4" "least a_6_spanish 3 = 6"
  "least a_6_spanish 4 = 6" "least a_6_spanish 5 = 5" "least a_6_spanish 6 = 6"
  "least a_6_spanish 7 = 5" "least a_6_spanish 8 = 4" "least a_6_spanish 9 = 3"
  "least a_7_spanish 1 = 2" "least a_8_spanish 1 = 2" "least a_8_spanish 2 = 2"
  "least a_9_spanish 1 = 1" "least a_9_spanish 2 = 1"
  by code_simp+

lemma has_spanish [simp]:
  "has a_0_spanish r \<longleftrightarrow> r = 1 \<or> r = 2 \<or> r = 3 \<or> r = 4 \<or> r = 5 \<or> r = 6"
  "has a_1_spanish r \<longleftrightarrow> r = (- 1)"
  by (auto simp: has_def a_0_spanish_def a_1_spanish_def)

lemma lengths_spanish [simp]:
  "length s_0_spanish = 1" "length s_1_spanish = 1" "length s_2_spanish = 1"
  "length s_3_spanish = 1" "length s_4_spanish = 1" "length s_5_spanish = 5"
  "length s_6_spanish = 4" "length s_7_spanish = 2" "length s_8_spanish = 2"
  "length s_9_spanish = 2" "length s_10_spanish = 1" "length s_11_spanish = 2"
  "length s_12_spanish = 3" "length s_13_spanish = 1" "length s_14_spanish = 4"
  "length s_15_spanish = 2" "length s_16_spanish = 2" "length s_17_spanish = 1"
  "length s_18_spanish = 1" "length s_19_spanish = 1" "length s_20_spanish = 1"
  "length s_21_spanish = 1"
  by code_simp+

lemma covers_spanish [simp]:
  "covers g_v_spanish 97 252"
  by code_simp+

subsection \<open>Loops\<close>

lemma postlude_while1_spanish_wp:
  assumes "in_window z" "\<And>z'. kept z z' \<Longrightarrow> z_l z' \<le> z_l z \<Longrightarrow> Q Next z'"
  shows "wp r_postlude_spanish_while1 Q z"
  using assms unfolding r_postlude_spanish_while1_def
  by (intro wp_repeat) (auto intro!: win_intro slice_from_s_fwd simp: step_defs)

subsection \<open>Routines\<close>

lemma r_mark_regions_spanish_wp:
  assumes "in_window z" "length (z_I z) = 3"
    and "\<And>z'. marked z z' \<Longrightarrow> 0 \<le> z_I z' ! 0 \<Longrightarrow> Q 1 z'"
  shows "wpf r_mark_regions_spanish Q z"
  unfolding r_mark_regions_spanish_def wpf_fun
  apply (rule wp_cut [where n = 4 and J = "\<lambda>z'. marked z z' \<and> 0 \<le> z_I z' ! 0"], simp, simp)
  subgoal using assms(1,2) by (auto intro!: win_intro region_labels simp: marked_iff moved_iff in_window_def simp del: wp_upto)
  subgoal using assms by (auto intro!: win_intro simp: marked_iff in_window_def)
  done

lemma r_RV_spanish_wp [simp]:
  "length (z_I z) = 3 \<Longrightarrow> wpf r_RV_spanish Q z \<longleftrightarrow> Q (if z_I z ! 0 \<le> z_c z then 1 else 0) z"
  unfolding r_RV_spanish_def by simp

lemma r_R1_spanish_wp [simp]:
  "length (z_I z) = 3 \<Longrightarrow> wpf r_R1_spanish Q z \<longleftrightarrow> Q (if z_I z ! 1 \<le> z_c z then 1 else 0) z"
  unfolding r_R1_spanish_def by simp

lemma r_R2_spanish_wp [simp]:
  "length (z_I z) = 3 \<Longrightarrow> wpf r_R2_spanish Q z \<longleftrightarrow> Q (if z_I z ! 2 \<le> z_c z then 1 else 0) z"
  unfolding r_R2_spanish_def by simp

lemma r_attached_pronoun_spanish_steps:
  assumes "in_window z" "length (z_I z) = 3"
  shows "wpf r_attached_pronoun_spanish (stepped z) z"
  using assms unfolding r_attached_pronoun_spanish_def in_window_def
  by (auto intro!: win_intro safe_intro simp: step_defs)

lemma r_standard_suffix_spanish_steps:
  assumes "in_window z" "length (z_I z) = 3"
  shows "wpf r_standard_suffix_spanish (stepped z) z"
  using assms unfolding r_standard_suffix_spanish_def in_window_def
  by (auto intro!: win_intro safe_intro wp_upto_step [where n = 0] wp_upto_step [where n = "Suc 0"] wp_upto_step [where n = 2] wp_upto_step [where n =
      3] wp_upto_step [where n = 4]
      simp: step_defs simp del: wp_upto)

lemma r_y_verb_suffix_spanish_steps:
  assumes "in_window z" "0 \<le> z_I z ! 0" "z_lb z = 0" "length (z_I z) = 3"
  shows "wpf r_y_verb_suffix_spanish (stepped z) z"
  using assms unfolding r_y_verb_suffix_spanish_def in_window_def
  by (auto intro!: win_intro safe_intro simp: step_defs)

lemma r_verb_suffix_spanish_steps:
  assumes "in_window z" "0 \<le> z_I z ! 0" "z_lb z = 0" "length (z_I z) = 3"
  shows "wpf r_verb_suffix_spanish (stepped z) z"
  using assms unfolding r_verb_suffix_spanish_def in_window_def
  by (auto intro!: win_intro safe_intro simp: step_defs)

lemma r_residual_suffix_spanish_steps:
  assumes "in_window z" "length (z_I z) = 3"
  shows "wpf r_residual_suffix_spanish (stepped z) z"
  using assms unfolding r_residual_suffix_spanish_def in_window_def
  by (auto intro!: win_intro safe_intro simp: step_defs)

lemma r_postlude_spanish_steps:
  assumes "in_window z"
  shows "wpf r_postlude_spanish (stepped z) z"
  using assms unfolding r_postlude_spanish_def
  by (auto intro!: postlude_while1_spanish_wp simp: step_defs)

subsection \<open>The stemmer\<close>

lemma spanish_stem_steps:
  assumes "in_window z" "z_c z = 0" "strs_ok (z_S z)" "length (z_I z) = 3"
  shows "wpf spanish_UTF_8_stem (fitted z) z"
  unfolding spanish_UTF_8_stem_def wpf_fun
  apply (rule wp_cut [where n = 3 and J = "at_end (\<lambda>I. 0 \<le> I ! 0) z"], simp, simp)
  subgoal using assms by (auto intro!: r_mark_regions_spanish_wp simp: step_defs fits_def at_end_def marked_iff)
  apply (erule wp_stage [where n = 1 and J' = "at_end (\<lambda>I. 0 \<le> I ! 0) z"], simp, simp)
  subgoal using assms by (auto intro!: wp_try_at_end [where orig = z and P = "\<lambda>I. 0 \<le> I ! 0"] r_attached_pronoun_spanish_steps)
  apply (erule wp_stage [where n = 1 and J' = "at_end (\<lambda>I. 0 \<le> I ! 0) z"], simp, simp)
  subgoal using assms by (auto intro!: stepped_wp [OF r_standard_suffix_spanish_steps]
      stepped_wp [OF r_y_verb_suffix_spanish_steps] stepped_wp [OF r_verb_suffix_spanish_steps]
      simp: step_defs fits_def at_end_def)
  apply (erule wp_stage [where n = 1 and J' = "at_end (\<lambda>I. 0 \<le> I ! 0) z"], simp, simp)
  subgoal using assms by (auto intro!: wp_try_at_end [where orig = z and P = "\<lambda>I. 0 \<le> I ! 0"] r_residual_suffix_spanish_steps)
  subgoal using assms by (auto intro!: stepped_wp [OF r_postlude_spanish_steps] simp: step_defs fits_def at_end_def fitted_def)
  done

interpretation spanish: steady_stemmer spanish_UTF_8_stem 3 0
  by unfold_locales (auto intro!: wpf_mono [OF spanish_stem_steps])

end
