(* ===== verification/Portuguese.thy ===== *)
theory Portuguese
  imports Libstemmer
begin

text \<open>
  The Portuguese stemmer (\<^verbatim>\<open>src_c/stem_UTF_8_portuguese.c\<close>), statement by statement, with the proof that
  it is a \<open>steady_stemmer\<close>. Its prelude writes a nasal vowel as the vowel and a tilde, which takes
  the same number of bytes.
\<close>

subsection \<open>Tables\<close>

definition a_0_portuguese :: "among list" where
  "a_0_portuguese = [
    amg 0 [] (- 1) 3,
    amg 2 [CHR 0xC3, CHR 0xA3] 0 1,
    amg 2 [CHR 0xC3, CHR 0xB5] 0 2]"

definition a_1_portuguese :: "among list" where
  "a_1_portuguese = [
    amg 0 [] (- 1) 3,
    amg 2 ''a~'' 0 1,
    amg 2 ''o~'' 0 2]"

definition a_2_portuguese :: "among list" where
  "a_2_portuguese = [
    amg 2 ''ic'' (- 1) (- 1),
    amg 2 ''ad'' (- 1) (- 1),
    amg 2 ''os'' (- 1) (- 1),
    amg 2 ''iv'' (- 1) 1]"

definition a_3_portuguese :: "among list" where
  "a_3_portuguese = [
    amg 4 ''ante'' (- 1) 1,
    amg 4 ''avel'' (- 1) 1,
    amg 5 [CHR 0xC3, CHR 0xAD, CHR ''v'', CHR ''e'', CHR ''l''] (- 1) 1]"

definition a_4_portuguese :: "among list" where
  "a_4_portuguese = [
    amg 2 ''ic'' (- 1) 1,
    amg 4 ''abil'' (- 1) 1,
    amg 2 ''iv'' (- 1) 1]"

definition a_5_portuguese :: "among list" where
  "a_5_portuguese = [
    amg 3 ''ica'' (- 1) 1,
    amg 6 [CHR 0xC3, CHR 0xA2, CHR ''n'', CHR ''c'', CHR ''i'', CHR ''a''] (- 1) 1,
    amg 6 [CHR 0xC3, CHR 0xAA, CHR ''n'', CHR ''c'', CHR ''i'', CHR ''a''] (- 1) 4,
    amg 3 ''ira'' (- 1) 9,
    amg 5 ''adora'' (- 1) 1,
    amg 3 ''osa'' (- 1) 1,
    amg 4 ''ista'' (- 1) 1,
    amg 3 ''iva'' (- 1) 8,
    amg 3 ''eza'' (- 1) 1,
    amg 6 [CHR ''l'', CHR ''o'', CHR ''g'', CHR 0xC3, CHR 0xAD, CHR ''a''] (- 1) 2,
    amg 5 ''idade'' (- 1) 7,
    amg 4 ''ante'' (- 1) 1,
    amg 5 ''mente'' (- 1) 6,
    amg 6 ''amente'' 12 5,
    amg 5 [CHR 0xC3, CHR 0xA1, CHR ''v'', CHR ''e'', CHR ''l''] (- 1) 1,
    amg 5 [CHR 0xC3, CHR 0xAD, CHR ''v'', CHR ''e'', CHR ''l''] (- 1) 1,
    amg 6 [CHR ''u'', CHR ''c'', CHR ''i'', CHR 0xC3, CHR 0xB3, CHR ''n''] (- 1) 3,
    amg 3 ''ico'' (- 1) 1,
    amg 4 ''ismo'' (- 1) 1,
    amg 3 ''oso'' (- 1) 1,
    amg 6 ''amento'' (- 1) 1,
    amg 6 ''imento'' (- 1) 1,
    amg 3 ''ivo'' (- 1) 8,
    amg 6 [CHR ''a'', CHR 0xC3, CHR 0xA7, CHR ''a'', CHR ''~'', CHR ''o''] (- 1) 1,
    amg 4 ''ador'' (- 1) 1,
    amg 4 ''icas'' (- 1) 1,
    amg 7 [CHR 0xC3, CHR 0xAA, CHR ''n'', CHR ''c'', CHR ''i'', CHR ''a'', CHR ''s''] (- 1) 4,
    amg 4 ''iras'' (- 1) 9,
    amg 6 ''adoras'' (- 1) 1,
    amg 4 ''osas'' (- 1) 1,
    amg 5 ''istas'' (- 1) 1,
    amg 4 ''ivas'' (- 1) 8,
    amg 4 ''ezas'' (- 1) 1,
    amg 7 [CHR ''l'', CHR ''o'', CHR ''g'', CHR 0xC3, CHR 0xAD, CHR ''a'', CHR ''s''] (- 1) 2,
    amg 6 ''idades'' (- 1) 7,
    amg 7 ''uciones'' (- 1) 3,
    amg 6 ''adores'' (- 1) 1,
    amg 5 ''antes'' (- 1) 1,
    amg 7 [CHR ''a'', CHR 0xC3, CHR 0xA7, CHR ''o'', CHR ''~'', CHR ''e'', CHR ''s''] (- 1) 1,
    amg 4 ''icos'' (- 1) 1,
    amg 5 ''ismos'' (- 1) 1,
    amg 4 ''osos'' (- 1) 1,
    amg 7 ''amentos'' (- 1) 1,
    amg 7 ''imentos'' (- 1) 1,
    amg 4 ''ivos'' (- 1) 8]"

definition a_6_portuguese :: "among list" where
  "a_6_portuguese = [
    amg 3 ''ada'' (- 1) 1,
    amg 3 ''ida'' (- 1) 1,
    amg 2 ''ia'' (- 1) 1,
    amg 4 ''aria'' 2 1,
    amg 4 ''eria'' 2 1,
    amg 4 ''iria'' 2 1,
    amg 3 ''ara'' (- 1) 1,
    amg 3 ''era'' (- 1) 1,
    amg 3 ''ira'' (- 1) 1,
    amg 3 ''ava'' (- 1) 1,
    amg 4 ''asse'' (- 1) 1,
    amg 4 ''esse'' (- 1) 1,
    amg 4 ''isse'' (- 1) 1,
    amg 4 ''aste'' (- 1) 1,
    amg 4 ''este'' (- 1) 1,
    amg 4 ''iste'' (- 1) 1,
    amg 2 ''ei'' (- 1) 1,
    amg 4 ''arei'' 16 1,
    amg 4 ''erei'' 16 1,
    amg 4 ''irei'' 16 1,
    amg 2 ''am'' (- 1) 1,
    amg 3 ''iam'' 20 1,
    amg 5 ''ariam'' 21 1,
    amg 5 ''eriam'' 21 1,
    amg 5 ''iriam'' 21 1,
    amg 4 ''aram'' 20 1,
    amg 4 ''eram'' 20 1,
    amg 4 ''iram'' 20 1,
    amg 4 ''avam'' 20 1,
    amg 2 ''em'' (- 1) 1,
    amg 4 ''arem'' 29 1,
    amg 4 ''erem'' 29 1,
    amg 4 ''irem'' 29 1,
    amg 5 ''assem'' 29 1,
    amg 5 ''essem'' 29 1,
    amg 5 ''issem'' 29 1,
    amg 3 ''ado'' (- 1) 1,
    amg 3 ''ido'' (- 1) 1,
    amg 4 ''ando'' (- 1) 1,
    amg 4 ''endo'' (- 1) 1,
    amg 4 ''indo'' (- 1) 1,
    amg 5 ''ara~o'' (- 1) 1,
    amg 5 ''era~o'' (- 1) 1,
    amg 5 ''ira~o'' (- 1) 1,
    amg 2 ''ar'' (- 1) 1,
    amg 2 ''er'' (- 1) 1,
    amg 2 ''ir'' (- 1) 1,
    amg 2 ''as'' (- 1) 1,
    amg 4 ''adas'' 47 1,
    amg 4 ''idas'' 47 1,
    amg 3 ''ias'' 47 1,
    amg 5 ''arias'' 50 1,
    amg 5 ''erias'' 50 1,
    amg 5 ''irias'' 50 1,
    amg 4 ''aras'' 47 1,
    amg 4 ''eras'' 47 1,
    amg 4 ''iras'' 47 1,
    amg 4 ''avas'' 47 1,
    amg 2 ''es'' (- 1) 1,
    amg 5 ''ardes'' 58 1,
    amg 5 ''erdes'' 58 1,
    amg 5 ''irdes'' 58 1,
    amg 4 ''ares'' 58 1,
    amg 4 ''eres'' 58 1,
    amg 4 ''ires'' 58 1,
    amg 5 ''asses'' 58 1,
    amg 5 ''esses'' 58 1,
    amg 5 ''isses'' 58 1,
    amg 5 ''astes'' 58 1,
    amg 5 ''estes'' 58 1,
    amg 5 ''istes'' 58 1,
    amg 2 ''is'' (- 1) 1,
    amg 3 ''ais'' 71 1,
    amg 3 ''eis'' 71 1,
    amg 5 ''areis'' 73 1,
    amg 5 ''ereis'' 73 1,
    amg 5 ''ireis'' 73 1,
    amg 6 [CHR 0xC3, CHR 0xA1, CHR ''r'', CHR ''e'', CHR ''i'', CHR ''s''] 73 1,
    amg 6 [CHR 0xC3, CHR 0xA9, CHR ''r'', CHR ''e'', CHR ''i'', CHR ''s''] 73 1,
    amg 6 [CHR 0xC3, CHR 0xAD, CHR ''r'', CHR ''e'', CHR ''i'', CHR ''s''] 73 1,
    amg 7 [CHR 0xC3, CHR 0xA1, CHR ''s'', CHR ''s'', CHR ''e'', CHR ''i'', CHR ''s''] 73 1,
    amg 7 [CHR 0xC3, CHR 0xA9, CHR ''s'', CHR ''s'', CHR ''e'', CHR ''i'', CHR ''s''] 73 1,
    amg 7 [CHR 0xC3, CHR 0xAD, CHR ''s'', CHR ''s'', CHR ''e'', CHR ''i'', CHR ''s''] 73 1,
    amg 6 [CHR 0xC3, CHR 0xA1, CHR ''v'', CHR ''e'', CHR ''i'', CHR ''s''] 73 1,
    amg 5 [CHR 0xC3, CHR 0xAD, CHR ''e'', CHR ''i'', CHR ''s''] 73 1,
    amg 7 [CHR ''a'', CHR ''r'', CHR 0xC3, CHR 0xAD, CHR ''e'', CHR ''i'', CHR ''s''] 84 1,
    amg 7 [CHR ''e'', CHR ''r'', CHR 0xC3, CHR 0xAD, CHR ''e'', CHR ''i'', CHR ''s''] 84 1,
    amg 7 [CHR ''i'', CHR ''r'', CHR 0xC3, CHR 0xAD, CHR ''e'', CHR ''i'', CHR ''s''] 84 1,
    amg 4 ''ados'' (- 1) 1,
    amg 4 ''idos'' (- 1) 1,
    amg 4 ''amos'' (- 1) 1,
    amg 7 [CHR 0xC3, CHR 0xA1, CHR ''r'', CHR ''a'', CHR ''m'', CHR ''o'', CHR ''s''] 90 1,
    amg 7 [CHR 0xC3, CHR 0xA9, CHR ''r'', CHR ''a'', CHR ''m'', CHR ''o'', CHR ''s''] 90 1,
    amg 7 [CHR 0xC3, CHR 0xAD, CHR ''r'', CHR ''a'', CHR ''m'', CHR ''o'', CHR ''s''] 90 1,
    amg 7 [CHR 0xC3, CHR 0xA1, CHR ''v'', CHR ''a'', CHR ''m'', CHR ''o'', CHR ''s''] 90 1,
    amg 6 [CHR 0xC3, CHR 0xAD, CHR ''a'', CHR ''m'', CHR ''o'', CHR ''s''] 90 1,
    amg 8 [CHR ''a'', CHR ''r'', CHR 0xC3, CHR 0xAD, CHR ''a'', CHR ''m'', CHR ''o'', CHR ''s''] 95 1,
    amg 8 [CHR ''e'', CHR ''r'', CHR 0xC3, CHR 0xAD, CHR ''a'', CHR ''m'', CHR ''o'', CHR ''s''] 95 1,
    amg 8 [CHR ''i'', CHR ''r'', CHR 0xC3, CHR 0xAD, CHR ''a'', CHR ''m'', CHR ''o'', CHR ''s''] 95 1,
    amg 4 ''emos'' (- 1) 1,
    amg 6 ''aremos'' 99 1,
    amg 6 ''eremos'' 99 1,
    amg 6 ''iremos'' 99 1,
    amg 8 [CHR 0xC3, CHR 0xA1, CHR ''s'', CHR ''s'', CHR ''e'', CHR ''m'', CHR ''o'', CHR ''s''] 99 1,
    amg 8 [CHR 0xC3, CHR 0xAA, CHR ''s'', CHR ''s'', CHR ''e'', CHR ''m'', CHR ''o'', CHR ''s''] 99 1,
    amg 8 [CHR 0xC3, CHR 0xAD, CHR ''s'', CHR ''s'', CHR ''e'', CHR ''m'', CHR ''o'', CHR ''s''] 99 1,
    amg 4 ''imos'' (- 1) 1,
    amg 5 ''armos'' (- 1) 1,
    amg 5 ''ermos'' (- 1) 1,
    amg 5 ''irmos'' (- 1) 1,
    amg 5 [CHR 0xC3, CHR 0xA1, CHR ''m'', CHR ''o'', CHR ''s''] (- 1) 1,
    amg 5 [CHR ''a'', CHR ''r'', CHR 0xC3, CHR 0xA1, CHR ''s''] (- 1) 1,
    amg 5 [CHR ''e'', CHR ''r'', CHR 0xC3, CHR 0xA1, CHR ''s''] (- 1) 1,
    amg 5 [CHR ''i'', CHR ''r'', CHR 0xC3, CHR 0xA1, CHR ''s''] (- 1) 1,
    amg 2 ''eu'' (- 1) 1,
    amg 2 ''iu'' (- 1) 1,
    amg 2 ''ou'' (- 1) 1,
    amg 4 [CHR ''a'', CHR ''r'', CHR 0xC3, CHR 0xA1] (- 1) 1,
    amg 4 [CHR ''e'', CHR ''r'', CHR 0xC3, CHR 0xA1] (- 1) 1,
    amg 4 [CHR ''i'', CHR ''r'', CHR 0xC3, CHR 0xA1] (- 1) 1]"

definition a_7_portuguese :: "among list" where
  "a_7_portuguese = [
    amg 1 ''a'' (- 1) 1,
    amg 1 ''i'' (- 1) 1,
    amg 1 ''o'' (- 1) 1,
    amg 2 ''os'' (- 1) 1,
    amg 2 [CHR 0xC3, CHR 0xA1] (- 1) 1,
    amg 2 [CHR 0xC3, CHR 0xAD] (- 1) 1,
    amg 2 [CHR 0xC3, CHR 0xB3] (- 1) 1]"

definition a_8_portuguese :: "among list" where
  "a_8_portuguese = [
    amg 1 ''e'' (- 1) 1,
    amg 2 [CHR 0xC3, CHR 0xA7] (- 1) 2,
    amg 2 [CHR 0xC3, CHR 0xA9] (- 1) 1,
    amg 2 [CHR 0xC3, CHR 0xAA] (- 1) 1]"

definition g_v_portuguese :: "int list" where
  "g_v_portuguese = [17, 65, 16, 0, 0, 0, 0, 0, 0, 0, 0, 0, 0, 0, 0, 0, 3, 19, 12, 2]"

subsection \<open>Strings\<close>

definition s_0_portuguese :: "symbol list" where
  "s_0_portuguese = ''a~''"

definition s_1_portuguese :: "symbol list" where
  "s_1_portuguese = ''o~''"

definition s_2_portuguese :: "symbol list" where
  "s_2_portuguese = [CHR 0xC3, CHR 0xA3]"

definition s_3_portuguese :: "symbol list" where
  "s_3_portuguese = [CHR 0xC3, CHR 0xB5]"

definition s_4_portuguese :: "symbol list" where
  "s_4_portuguese = ''log''"

definition s_5_portuguese :: "symbol list" where
  "s_5_portuguese = ''u''"

definition s_6_portuguese :: "symbol list" where
  "s_6_portuguese = ''ente''"

definition s_7_portuguese :: "symbol list" where
  "s_7_portuguese = ''at''"

definition s_8_portuguese :: "symbol list" where
  "s_8_portuguese = ''at''"

definition s_9_portuguese :: "symbol list" where
  "s_9_portuguese = ''e''"

definition s_10_portuguese :: "symbol list" where
  "s_10_portuguese = ''ir''"

definition s_11_portuguese :: "symbol list" where
  "s_11_portuguese = ''u''"

definition s_12_portuguese :: "symbol list" where
  "s_12_portuguese = ''g''"

definition s_13_portuguese :: "symbol list" where
  "s_13_portuguese = ''i''"

definition s_14_portuguese :: "symbol list" where
  "s_14_portuguese = ''c''"

definition s_15_portuguese :: "symbol list" where
  "s_15_portuguese = ''c''"

definition s_16_portuguese :: "symbol list" where
  "s_16_portuguese = ''i''"

definition s_17_portuguese :: "symbol list" where
  "s_17_portuguese = ''c''"

subsection \<open>Code\<close>

definition r_prelude_portuguese_while1 :: "sn_cmd" where
  "r_prelude_portuguese_while1 = c_while1 (c_block [
      c_let z_c (\<lambda>c1. c_block [
        set_bra z_c,
        c_call (or_else (head_guard 1 (\<lambda>ch. ch \<noteq> 163 \<and> ch \<noteq> 181)) 3 (find_among a_0_portuguese 3)) (\<lambda>among_var. c_block [
          c_upto 0 [
            c_if (test (\<lambda>_. among_var = 0)) (c_goto 0),
            set_ket z_c,
            c_switch among_var [
              (0, c_block [
                c_goto 0]),
              (1, c_block [
                check (slice_from_s 2 s_0_portuguese),
                c_break]),
              (2, c_block [
                check (slice_from_s 2 s_1_portuguese),
                c_break]),
              (3, c_block [
                move_to (skip_utf8_z (\<lambda>_. 0) z_l 1) (c_goto 0),
                c_break])],
            c_continue],
          set_c (\<lambda>_. c1),
          c_break])])])"

definition r_prelude_portuguese :: "sn_func" where
  "r_prelude_portuguese = c_fun [
    r_prelude_portuguese_while1,
    c_return 1]"

definition r_mark_regions_portuguese :: "sn_func" where
  "r_mark_regions_portuguese = c_fun [
    set_I 0 z_l,
    set_I 1 z_l,
    set_I 2 z_l,
    c_let z_c (\<lambda>c1. c_block [
      c_upto 0 [
        c_upto 1 [
          c_let z_c (\<lambda>c2. c_block [
            c_upto 2 [
              when_true (in_grouping_U g_v_portuguese 97 250 0) (c_goto 2),
              c_upto 3 [
                c_let z_c (\<lambda>c3. c_block [
                  c_upto 4 [
                    when_true (out_grouping_U g_v_portuguese 97 250 0) (c_goto 4),
                    advance (out_grouping_U g_v_portuguese 97 250 1) (c_goto 4),
                    c_goto 3],
                  set_c (\<lambda>_. c3),
                  when_true (in_grouping_U g_v_portuguese 97 250 0) (c_goto 2),
                  advance (in_grouping_U g_v_portuguese 97 250 1) (c_goto 2)])],
              c_goto 1],
            set_c (\<lambda>_. c2),
            when_true (out_grouping_U g_v_portuguese 97 250 0) (c_goto 0),
            c_upto 5 [
              c_let z_c (\<lambda>c4. c_block [
                c_upto 6 [
                  when_true (out_grouping_U g_v_portuguese 97 250 0) (c_goto 6),
                  advance (out_grouping_U g_v_portuguese 97 250 1) (c_goto 6),
                  c_goto 5],
                set_c (\<lambda>_. c4),
                when_true (in_grouping_U g_v_portuguese 97 250 0) (c_goto 0),
                move_to (skip_utf8_z (\<lambda>_. 0) z_l 1) (c_goto 0)])]])],
        set_I 0 z_c],
      set_c (\<lambda>_. c1)]),
    c_let z_c (\<lambda>c5. c_block [
      c_upto 7 [
        advance (out_grouping_U g_v_portuguese 97 250 1) (c_goto 7),
        advance (in_grouping_U g_v_portuguese 97 250 1) (c_goto 7),
        set_I 1 z_c,
        advance (out_grouping_U g_v_portuguese 97 250 1) (c_goto 7),
        advance (in_grouping_U g_v_portuguese 97 250 1) (c_goto 7),
        set_I 2 z_c],
      set_c (\<lambda>_. c5)]),
    c_return 1]"

definition r_postlude_portuguese_while1 :: "sn_cmd" where
  "r_postlude_portuguese_while1 = c_while1 (c_block [
      c_let z_c (\<lambda>c1. c_block [
        set_bra z_c,
        c_call (or_else (head_guard 1 (\<lambda>ch. ch \<noteq> 126)) 3 (find_among a_1_portuguese 3)) (\<lambda>among_var. c_block [
          c_upto 0 [
            c_if (test (\<lambda>_. among_var = 0)) (c_goto 0),
            set_ket z_c,
            c_switch among_var [
              (0, c_block [
                c_goto 0]),
              (1, c_block [
                check (slice_from_s 2 s_2_portuguese),
                c_break]),
              (2, c_block [
                check (slice_from_s 2 s_3_portuguese),
                c_break]),
              (3, c_block [
                move_to (skip_utf8_z (\<lambda>_. 0) z_l 1) (c_goto 0),
                c_break])],
            c_continue],
          set_c (\<lambda>_. c1),
          c_break])])])"

definition r_postlude_portuguese :: "sn_func" where
  "r_postlude_portuguese = c_fun [
    r_postlude_portuguese_while1,
    c_return 1]"

definition r_RV_portuguese :: "sn_func" where
  "r_RV_portuguese = c_fun [
    c_if (on_I 0 (\<lambda>z i. \<not> i \<le> z_c z)) (c_return 0),
    c_return 1]"

definition r_R1_portuguese :: "sn_func" where
  "r_R1_portuguese = c_fun [
    c_if (on_I 1 (\<lambda>z i. \<not> i \<le> z_c z)) (c_return 0),
    c_return 1]"

definition r_R2_portuguese :: "sn_func" where
  "r_R2_portuguese = c_fun [
    c_if (on_I 2 (\<lambda>z i. \<not> i \<le> z_c z)) (c_return 0),
    c_return 1]"

definition r_standard_suffix_portuguese :: "sn_func" where
  "r_standard_suffix_portuguese = c_fun [
    set_ket z_c,
    c_if (tail_guard 2 (not_in_mask 3 839714)) (c_return 0),
    c_call (find_among_b a_5_portuguese 45) (\<lambda>among_var. c_block [
      c_if (test (\<lambda>_. among_var = 0)) (c_return 0),
      set_bra z_c,
      c_switch among_var [
        (0, c_block [
          c_return 0]),
        (1, c_block [
          routine r_R2_portuguese (c_return 0),
          check slice_del,
          c_break]),
        (2, c_block [
          routine r_R2_portuguese (c_return 0),
          check (slice_from_s 3 s_4_portuguese),
          c_break]),
        (3, c_block [
          routine r_R2_portuguese (c_return 0),
          check (slice_from_s 1 s_5_portuguese),
          c_break]),
        (4, c_block [
          routine r_R2_portuguese (c_return 0),
          check (slice_from_s 4 s_6_portuguese),
          c_break]),
        (5, c_block [
          routine r_R1_portuguese (c_return 0),
          check slice_del,
          c_let (\<lambda>z. z_l z - z_c z) (\<lambda>m_keep. c_block [
            set_ket z_c,
            c_upto 0 [
              c_if (tail_guard 1 (not_in_mask 3 4718616)) (
                c_block [
                  set_c (\<lambda>z. z_l z - m_keep),
                  c_goto 0]),
              c_call (find_among_b a_2_portuguese 4) (\<lambda>among_var. c_block [
                c_if (test (\<lambda>_. among_var = 0)) (
                  c_block [
                    set_c (\<lambda>z. z_l z - m_keep),
                    c_goto 0]),
                set_bra z_c,
                routine r_R2_portuguese (
                  c_block [
                    set_c (\<lambda>z. z_l z - m_keep),
                    c_goto 0]),
                check slice_del,
                c_switch among_var [
                  (0, c_block [
                    c_block [
                      set_c (\<lambda>z. z_l z - m_keep),
                      c_goto 0]]),
                  (1, c_block [
                    set_ket z_c,
                    unless (eq_s_b 2 s_7_portuguese) (
                      c_block [
                        set_c (\<lambda>z. z_l z - m_keep),
                        c_goto 0]),
                    set_bra z_c,
                    routine r_R2_portuguese (
                      c_block [
                        set_c (\<lambda>z. z_l z - m_keep),
                        c_goto 0]),
                    check slice_del,
                    c_break])]])]]),
          c_break]),
        (6, c_block [
          routine r_R2_portuguese (c_return 0),
          check slice_del,
          c_let (\<lambda>z. z_l z - z_c z) (\<lambda>m_keep. c_block [
            set_ket z_c,
            c_upto 1 [
              c_if (tail_guard 3 (\<lambda>ch. ch \<noteq> 101 \<and> ch \<noteq> 108)) (
                c_block [
                  set_c (\<lambda>z. z_l z - m_keep),
                  c_goto 1]),
              c_call (find_among_b a_3_portuguese 3) (\<lambda>among_var. c_block [
                c_if (test (\<lambda>_. among_var = 0)) (
                  c_block [
                    set_c (\<lambda>z. z_l z - m_keep),
                    c_goto 1]),
                set_bra z_c,
                c_switch among_var [
                  (0, c_block [
                    c_block [
                      set_c (\<lambda>z. z_l z - m_keep),
                      c_goto 1]]),
                  (1, c_block [
                    routine r_R2_portuguese (
                      c_block [
                        set_c (\<lambda>z. z_l z - m_keep),
                        c_goto 1]),
                    check slice_del,
                    c_break])]])]]),
          c_break]),
        (7, c_block [
          routine r_R2_portuguese (c_return 0),
          check slice_del,
          c_let (\<lambda>z. z_l z - z_c z) (\<lambda>m_keep. c_block [
            set_ket z_c,
            c_upto 2 [
              c_if (tail_guard 1 (not_in_mask 3 4198408)) (
                c_block [
                  set_c (\<lambda>z. z_l z - m_keep),
                  c_goto 2]),
              c_call (find_among_b a_4_portuguese 3) (\<lambda>among_var. c_block [
                c_if (test (\<lambda>_. among_var = 0)) (
                  c_block [
                    set_c (\<lambda>z. z_l z - m_keep),
                    c_goto 2]),
                set_bra z_c,
                c_switch among_var [
                  (0, c_block [
                    c_block [
                      set_c (\<lambda>z. z_l z - m_keep),
                      c_goto 2]]),
                  (1, c_block [
                    routine r_R2_portuguese (
                      c_block [
                        set_c (\<lambda>z. z_l z - m_keep),
                        c_goto 2]),
                    check slice_del,
                    c_break])]])]]),
          c_break]),
        (8, c_block [
          routine r_R2_portuguese (c_return 0),
          check slice_del,
          c_let (\<lambda>z. z_l z - z_c z) (\<lambda>m_keep. c_block [
            set_ket z_c,
            c_upto 3 [
              unless (eq_s_b 2 s_8_portuguese) (
                c_block [
                  set_c (\<lambda>z. z_l z - m_keep),
                  c_goto 3]),
              set_bra z_c,
              routine r_R2_portuguese (
                c_block [
                  set_c (\<lambda>z. z_l z - m_keep),
                  c_goto 3]),
              check slice_del]]),
          c_break]),
        (9, c_block [
          routine r_RV_portuguese (c_return 0),
          unless (eq_s_b 1 s_9_portuguese) (c_return 0),
          check (slice_from_s 2 s_10_portuguese),
          c_break])],
      c_return 1])]"

definition r_verb_suffix_portuguese :: "sn_func" where
  "r_verb_suffix_portuguese = c_fun [
    c_let (\<lambda>z. z_l z - z_c z) (\<lambda>m1. c_block [
      c_if (on_I 0 (\<lambda>z i. z_c z < i)) (c_return 0),
      set_c_I 0,
      c_let z_lb (\<lambda>mlimit. c_block [
        set_lb z_c,
        set_c (\<lambda>z. z_l z - m1),
        set_ket z_c,
        c_call (find_among_b a_6_portuguese 120) (\<lambda>among_var. c_block [
          c_if (test (\<lambda>_. among_var = 0)) (
            c_block [
              set_lb (\<lambda>_. mlimit),
              c_return 0]),
          set_bra z_c,
          c_switch among_var [
            (0, c_block [
              c_block [
                set_lb (\<lambda>_. mlimit),
                c_return 0]]),
            (1, c_block [
              check slice_del,
              c_break])],
          set_lb (\<lambda>_. mlimit),
          c_return 1])])])]"

definition r_residual_suffix_portuguese :: "sn_func" where
  "r_residual_suffix_portuguese = c_fun [
    set_ket z_c,
    c_call (find_among_b a_7_portuguese 7) (\<lambda>among_var. c_block [
      c_if (test (\<lambda>_. among_var = 0)) (c_return 0),
      set_bra z_c,
      c_switch among_var [
        (0, c_block [
          c_return 0]),
        (1, c_block [
          routine r_RV_portuguese (c_return 0),
          check slice_del,
          c_break])],
      c_return 1])]"

definition r_residual_form_portuguese :: "sn_func" where
  "r_residual_form_portuguese = c_fun [
    set_ket z_c,
    c_call (find_among_b a_8_portuguese 4) (\<lambda>among_var. c_block [
      c_if (test (\<lambda>_. among_var = 0)) (c_return 0),
      set_bra z_c,
      c_switch among_var [
        (0, c_block [
          c_return 0]),
        (1, c_block [
          routine r_RV_portuguese (c_return 0),
          check slice_del,
          set_ket z_c,
          c_upto 0 [
            c_let (\<lambda>z. z_l z - z_c z) (\<lambda>m1. c_block [
              c_upto 1 [
                unless (eq_s_b 1 s_11_portuguese) (c_goto 1),
                set_bra z_c,
                c_let (\<lambda>z. z_l z - z_c z) (\<lambda>m_test. c_block [
                  unless (eq_s_b 1 s_12_portuguese) (c_goto 1),
                  set_c (\<lambda>z. z_l z - m_test)]),
                c_goto 0],
              set_c (\<lambda>z. z_l z - m1),
              unless (eq_s_b 1 s_13_portuguese) (c_return 0),
              set_bra z_c,
              c_let (\<lambda>z. z_l z - z_c z) (\<lambda>m_test. c_block [
                unless (eq_s_b 1 s_14_portuguese) (c_return 0),
                set_c (\<lambda>z. z_l z - m_test)])])],
          routine r_RV_portuguese (c_return 0),
          check slice_del,
          c_break]),
        (2, c_block [
          check (slice_from_s 1 s_15_portuguese),
          c_break])],
      c_return 1])]"

definition portuguese_UTF_8_stem :: "sn_func" where
  "portuguese_UTF_8_stem = c_fun [
    try_f 0 r_prelude_portuguese,
    try_f 1 r_mark_regions_portuguese,
    set_lb z_c,
    set_c z_l,
    c_let (\<lambda>z. z_l z - z_c z) (\<lambda>m3. c_block [
      c_upto 2 [
        c_upto 3 [
          c_let (\<lambda>z. z_l z - z_c z) (\<lambda>m4. c_block [
            c_upto 4 [
              c_let (\<lambda>z. z_l z - z_c z) (\<lambda>m5. c_block [
                c_upto 5 [
                  c_let (\<lambda>z. z_l z - z_c z) (\<lambda>m6. c_block [
                    c_upto 6 [
                      routine r_standard_suffix_portuguese (c_goto 6),
                      c_goto 5],
                    set_c (\<lambda>z. z_l z - m6),
                    routine r_verb_suffix_portuguese (c_goto 4)])],
                set_c (\<lambda>z. z_l z - m5),
                c_let (\<lambda>z. z_l z - z_c z) (\<lambda>m7. c_block [
                  set_ket z_c,
                  c_upto 7 [
                    unless (eq_s_b 1 s_16_portuguese) (c_goto 7),
                    set_bra z_c,
                    c_let (\<lambda>z. z_l z - z_c z) (\<lambda>m_test. c_block [
                      unless (eq_s_b 1 s_17_portuguese) (c_goto 7),
                      set_c (\<lambda>z. z_l z - m_test)]),
                    routine r_RV_portuguese (c_goto 7),
                    check slice_del],
                  set_c (\<lambda>z. z_l z - m7)])]),
              c_goto 3],
            set_c (\<lambda>z. z_l z - m4),
            routine r_residual_suffix_portuguese (c_goto 2)])]],
      set_c (\<lambda>z. z_l z - m3)]),
    try_b 8 r_residual_form_portuguese,
    set_c z_lb,
    try_f 9 r_postlude_portuguese,
    c_return 1]"

definition portuguese_UTF_8_create_env :: "env_create" where
  "portuguese_UTF_8_create_env = SN_create_env 0 3 0"

definition portuguese_UTF_8_close_env :: "env_close" where
  "portuguese_UTF_8_close_env z = SN_close_env z 0"

subsection \<open>Facts on the tables\<close>

lemma tables_portuguese [simp]:
  "table_f a_0_portuguese" "table_f a_1_portuguese" "table_b a_2_portuguese"
  "table_b a_3_portuguese" "table_b a_4_portuguese" "table_b a_5_portuguese"
  "table_b a_6_portuguese" "table_b a_7_portuguese" "table_b a_8_portuguese"
  by (rule table_sound, code_simp, code_simp)+

lemma length_tables_portuguese [simp]:
  "length a_0_portuguese = 3" "length a_1_portuguese = 3" "length a_2_portuguese = 4"
  "length a_3_portuguese = 3" "length a_4_portuguese = 3" "length a_5_portuguese = 45"
  "length a_6_portuguese = 120" "length a_7_portuguese = 7" "length a_8_portuguese = 4"
  by code_simp+

lemma least_portuguese [simp]:
  "least a_0_portuguese 1 = 2" "least a_0_portuguese 2 = 2" "least a_0_portuguese 3 = 0"
  "least a_1_portuguese 1 = 2" "least a_1_portuguese 2 = 2" "least a_1_portuguese 3 = 0"
  "least a_2_portuguese (- 1) = 2" "least a_2_portuguese 1 = 2" "least a_3_portuguese 1 = 4"
  "least a_4_portuguese 1 = 2" "least a_5_portuguese 1 = 3" "least a_5_portuguese 2 = 6"
  "least a_5_portuguese 3 = 6" "least a_5_portuguese 4 = 6" "least a_5_portuguese 5 = 6"
  "least a_5_portuguese 6 = 5" "least a_5_portuguese 7 = 5" "least a_5_portuguese 8 = 3"
  "least a_5_portuguese 9 = 3" "least a_6_portuguese 1 = 2" "least a_7_portuguese 1 = 1"
  "least a_8_portuguese 1 = 1" "least a_8_portuguese 2 = 2"
  by code_simp+

lemma has_portuguese [simp]:
  "has a_0_portuguese r \<longleftrightarrow> r = 1 \<or> r = 2 \<or> r = 3"
  "has a_1_portuguese r \<longleftrightarrow> r = 1 \<or> r = 2 \<or> r = 3"
  by (auto simp: has_def a_0_portuguese_def a_1_portuguese_def)

lemma lengths_portuguese [simp]:
  "length s_0_portuguese = 2" "length s_1_portuguese = 2" "length s_2_portuguese = 2"
  "length s_3_portuguese = 2" "length s_4_portuguese = 3" "length s_5_portuguese = 1"
  "length s_6_portuguese = 4" "length s_7_portuguese = 2" "length s_8_portuguese = 2"
  "length s_9_portuguese = 1" "length s_10_portuguese = 2" "length s_11_portuguese = 1"
  "length s_12_portuguese = 1" "length s_13_portuguese = 1" "length s_14_portuguese = 1"
  "length s_15_portuguese = 1" "length s_16_portuguese = 1" "length s_17_portuguese = 1"
  by code_simp+

lemma covers_portuguese [simp]:
  "covers g_v_portuguese 97 250"
  by code_simp+

subsection \<open>Loops\<close>

lemma prelude_while1_portuguese_wp:
  assumes "in_window z" "\<And>z'. kept z z' \<Longrightarrow> z_l z' \<le> z_l z \<Longrightarrow> Q Next z'"
  shows "wp r_prelude_portuguese_while1 Q z"
  using assms unfolding r_prelude_portuguese_while1_def
  by (intro wp_repeat) (auto intro!: win_intro slice_from_s_fwd simp: step_defs)

lemma postlude_while1_portuguese_wp:
  assumes "in_window z" "\<And>z'. kept z z' \<Longrightarrow> z_l z' \<le> z_l z \<Longrightarrow> Q Next z'"
  shows "wp r_postlude_portuguese_while1 Q z"
  using assms unfolding r_postlude_portuguese_while1_def
  by (intro wp_repeat) (auto intro!: win_intro slice_from_s_fwd simp: step_defs)

subsection \<open>Routines\<close>

lemma r_prelude_portuguese_wp:
  assumes "in_window z" "z_c z = z_lb z" "\<And>z'. kept z z' \<Longrightarrow> z_l z' \<le> z_l z \<Longrightarrow> Q 1 z'"
  shows "wpf r_prelude_portuguese Q z"
  using assms unfolding r_prelude_portuguese_def
  by (auto intro!: prelude_while1_portuguese_wp simp: step_defs)

lemma r_mark_regions_portuguese_wp:
  assumes "in_window z" "length (z_I z) = 3"
    and "\<And>z'. marked z z' \<Longrightarrow> 0 \<le> z_I z' ! 0 \<Longrightarrow> Q 1 z'"
  shows "wpf r_mark_regions_portuguese Q z"
  unfolding r_mark_regions_portuguese_def wpf_fun
  apply (rule wp_cut [where n = 4 and J = "\<lambda>z'. marked z z' \<and> 0 \<le> z_I z' ! 0"], simp, simp)
  subgoal using assms(1,2) by (auto intro!: win_intro region_labels simp: marked_iff moved_iff in_window_def simp del: wp_upto)
  subgoal using assms by (auto intro!: win_intro simp: marked_iff in_window_def)
  done

lemma r_RV_portuguese_wp [simp]:
  "length (z_I z) = 3 \<Longrightarrow> wpf r_RV_portuguese Q z \<longleftrightarrow> Q (if z_I z ! 0 \<le> z_c z then 1 else 0) z"
  unfolding r_RV_portuguese_def by simp

lemma r_R1_portuguese_wp [simp]:
  "length (z_I z) = 3 \<Longrightarrow> wpf r_R1_portuguese Q z \<longleftrightarrow> Q (if z_I z ! 1 \<le> z_c z then 1 else 0) z"
  unfolding r_R1_portuguese_def by simp

lemma r_R2_portuguese_wp [simp]:
  "length (z_I z) = 3 \<Longrightarrow> wpf r_R2_portuguese Q z \<longleftrightarrow> Q (if z_I z ! 2 \<le> z_c z then 1 else 0) z"
  unfolding r_R2_portuguese_def by simp

lemma r_standard_suffix_portuguese_steps:
  assumes "in_window z" "length (z_I z) = 3"
  shows "wpf r_standard_suffix_portuguese (stepped z) z"
  using assms unfolding r_standard_suffix_portuguese_def in_window_def
  by (auto intro!: win_intro safe_intro wp_upto_step [where n = 0] wp_upto_step [where n = "Suc 0"] wp_upto_step [where n = 2] wp_upto_step [where n =
      3]
      simp: step_defs simp del: wp_upto)

lemma r_verb_suffix_portuguese_steps:
  assumes "in_window z" "0 \<le> z_I z ! 0" "z_lb z = 0" "length (z_I z) = 3"
  shows "wpf r_verb_suffix_portuguese (stepped z) z"
  using assms unfolding r_verb_suffix_portuguese_def in_window_def
  by (auto intro!: win_intro safe_intro simp: step_defs)

lemma r_residual_suffix_portuguese_steps:
  assumes "in_window z" "length (z_I z) = 3"
  shows "wpf r_residual_suffix_portuguese (stepped z) z"
  using assms unfolding r_residual_suffix_portuguese_def in_window_def
  by (auto intro!: win_intro safe_intro simp: step_defs)

lemma r_residual_form_portuguese_steps:
  assumes "in_window z" "length (z_I z) = 3"
  shows "wpf r_residual_form_portuguese (stepped z) z"
  using assms unfolding r_residual_form_portuguese_def in_window_def
  by (auto intro!: win_intro safe_intro simp: step_defs)

lemma r_postlude_portuguese_steps:
  assumes "in_window z"
  shows "wpf r_postlude_portuguese (stepped z) z"
  using assms unfolding r_postlude_portuguese_def
  by (auto intro!: postlude_while1_portuguese_wp simp: step_defs)

subsection \<open>The stemmer\<close>

lemma portuguese_stem_steps:
  assumes "in_window z" "z_c z = 0" "strs_ok (z_S z)" "length (z_I z) = 3"
  shows "wpf portuguese_UTF_8_stem (fitted z) z"
  unfolding portuguese_UTF_8_stem_def wpf_fun
  apply (rule wp_cut [where n = 1 and J = "\<lambda>z'. fits z z' \<and> z_c z' = 0"], simp, simp)
  subgoal using assms by (auto intro!: r_prelude_portuguese_wp simp: step_defs fits_def)
  apply (erule wp_stage [where n = 3 and J' = "at_end (\<lambda>I. 0 \<le> I ! 0) z"], simp, simp)
  subgoal using assms by (auto intro!: r_mark_regions_portuguese_wp simp: step_defs fits_def at_end_def marked_iff)
  apply (erule wp_stage [where n = 1 and J' = "at_end (\<lambda>I. 0 \<le> I ! 0) z"], simp, simp)
  subgoal using assms by (auto intro!: win_intro safe_intro stepped_wp [OF r_standard_suffix_portuguese_steps]
      stepped_wp [OF r_verb_suffix_portuguese_steps] stepped_wp [OF r_residual_suffix_portuguese_steps]
      wp_upto_step simp: step_defs fits_def at_end_def simp del: wp_upto)
  apply (erule wp_stage [where n = 1 and J' = "at_end (\<lambda>I. 0 \<le> I ! 0) z"], simp, simp)
  subgoal using assms by (auto intro!: wp_try_at_end [where orig = z and P = "\<lambda>I. 0 \<le> I ! 0"] r_residual_form_portuguese_steps)
  subgoal using assms by (auto intro!: stepped_wp [OF r_postlude_portuguese_steps] simp: step_defs fits_def at_end_def fitted_def)
  done

interpretation portuguese: steady_stemmer portuguese_UTF_8_stem 3 0
  by unfold_locales (auto intro!: wpf_mono [OF portuguese_stem_steps])

end
