(* ===== verification/Romanian.thy ===== *)
theory Romanian
  imports Libstemmer
begin

text \<open>
  The Romanian stemmer (\<^verbatim>\<open>src_c/stem_UTF_8_romanian.c\<close>), statement by statement, with the proof that it
  is a \<open>steady_stemmer\<close>. The loop over combined suffixes ends because each of them is replaced by a
  shorter one.
\<close>

subsection \<open>Tables\<close>

definition a_0_romanian :: "among list" where
  "a_0_romanian = [
    amg 0 [] (- 1) 3,
    amg 1 ''I'' 0 1,
    amg 1 ''U'' 0 2]"

definition a_1_romanian :: "among list" where
  "a_1_romanian = [
    amg 2 ''ea'' (- 1) 3,
    amg 5 [CHR ''a'', CHR 0xC5, CHR 0xA3, CHR ''i'', CHR ''a''] (- 1) 7,
    amg 3 ''aua'' (- 1) 2,
    amg 3 ''iua'' (- 1) 4,
    amg 5 [CHR ''a'', CHR 0xC5, CHR 0xA3, CHR ''i'', CHR ''e''] (- 1) 7,
    amg 3 ''ele'' (- 1) 3,
    amg 3 ''ile'' (- 1) 5,
    amg 4 ''iile'' 6 4,
    amg 3 ''iei'' (- 1) 4,
    amg 4 ''atei'' (- 1) 6,
    amg 2 ''ii'' (- 1) 4,
    amg 4 ''ului'' (- 1) 1,
    amg 2 ''ul'' (- 1) 1,
    amg 4 ''elor'' (- 1) 3,
    amg 4 ''ilor'' (- 1) 4,
    amg 5 ''iilor'' 14 4]"

definition a_2_romanian :: "among list" where
  "a_2_romanian = [
    amg 5 ''icala'' (- 1) 4,
    amg 5 ''iciva'' (- 1) 4,
    amg 5 ''ativa'' (- 1) 5,
    amg 5 ''itiva'' (- 1) 6,
    amg 5 ''icale'' (- 1) 4,
    amg 7 [CHR ''a'', CHR 0xC5, CHR 0xA3, CHR ''i'', CHR ''u'', CHR ''n'', CHR ''e''] (- 1) 5,
    amg 7 [CHR ''i'', CHR 0xC5, CHR 0xA3, CHR ''i'', CHR ''u'', CHR ''n'', CHR ''e''] (- 1) 6,
    amg 6 ''atoare'' (- 1) 5,
    amg 6 ''itoare'' (- 1) 6,
    amg 7 [CHR 0xC4, CHR 0x83, CHR ''t'', CHR ''o'', CHR ''a'', CHR ''r'', CHR ''e''] (- 1) 5,
    amg 7 ''icitate'' (- 1) 4,
    amg 9 ''abilitate'' (- 1) 1,
    amg 9 ''ibilitate'' (- 1) 2,
    amg 7 ''ivitate'' (- 1) 3,
    amg 5 ''icive'' (- 1) 4,
    amg 5 ''ative'' (- 1) 5,
    amg 5 ''itive'' (- 1) 6,
    amg 5 ''icali'' (- 1) 4,
    amg 5 ''atori'' (- 1) 5,
    amg 7 ''icatori'' 18 4,
    amg 5 ''itori'' (- 1) 6,
    amg 6 [CHR 0xC4, CHR 0x83, CHR ''t'', CHR ''o'', CHR ''r'', CHR ''i''] (- 1) 5,
    amg 7 ''icitati'' (- 1) 4,
    amg 9 ''abilitati'' (- 1) 1,
    amg 7 ''ivitati'' (- 1) 3,
    amg 5 ''icivi'' (- 1) 4,
    amg 5 ''ativi'' (- 1) 5,
    amg 5 ''itivi'' (- 1) 6,
    amg 7 [CHR ''i'', CHR ''c'', CHR ''i'', CHR ''t'', CHR 0xC4, CHR 0x83, CHR ''i''] (- 1) 4,
    amg 9 [CHR ''a'', CHR ''b'', CHR ''i'', CHR ''l'', CHR ''i'', CHR ''t'', CHR 0xC4, CHR 0x83, CHR ''i''] (- 1) 1,
    amg 7 [CHR ''i'', CHR ''v'', CHR ''i'', CHR ''t'', CHR 0xC4, CHR 0x83, CHR ''i''] (- 1) 3,
    amg 9 [CHR ''i'', CHR ''c'', CHR ''i'', CHR ''t'', CHR 0xC4, CHR 0x83, CHR 0xC5, CHR 0xA3, CHR ''i''] (- 1) 4,
    amg 11 [CHR ''a'', CHR ''b'', CHR ''i'', CHR ''l'', CHR ''i'', CHR ''t'', CHR 0xC4, CHR 0x83, CHR 0xC5, CHR 0xA3, CHR ''i''] (- 1) 1,
    amg 9 [CHR ''i'', CHR ''v'', CHR ''i'', CHR ''t'', CHR 0xC4, CHR 0x83, CHR 0xC5, CHR 0xA3, CHR ''i''] (- 1) 3,
    amg 4 ''ical'' (- 1) 4,
    amg 4 ''ator'' (- 1) 5,
    amg 6 ''icator'' 35 4,
    amg 4 ''itor'' (- 1) 6,
    amg 5 [CHR 0xC4, CHR 0x83, CHR ''t'', CHR ''o'', CHR ''r''] (- 1) 5,
    amg 4 ''iciv'' (- 1) 4,
    amg 4 ''ativ'' (- 1) 5,
    amg 4 ''itiv'' (- 1) 6,
    amg 6 [CHR ''i'', CHR ''c'', CHR ''a'', CHR ''l'', CHR 0xC4, CHR 0x83] (- 1) 4,
    amg 6 [CHR ''i'', CHR ''c'', CHR ''i'', CHR ''v'', CHR 0xC4, CHR 0x83] (- 1) 4,
    amg 6 [CHR ''a'', CHR ''t'', CHR ''i'', CHR ''v'', CHR 0xC4, CHR 0x83] (- 1) 5,
    amg 6 [CHR ''i'', CHR ''t'', CHR ''i'', CHR ''v'', CHR 0xC4, CHR 0x83] (- 1) 6]"

definition a_3_romanian :: "among list" where
  "a_3_romanian = [
    amg 3 ''ica'' (- 1) 1,
    amg 5 ''abila'' (- 1) 1,
    amg 5 ''ibila'' (- 1) 1,
    amg 4 ''oasa'' (- 1) 1,
    amg 3 ''ata'' (- 1) 1,
    amg 3 ''ita'' (- 1) 1,
    amg 4 ''anta'' (- 1) 1,
    amg 4 ''ista'' (- 1) 3,
    amg 3 ''uta'' (- 1) 1,
    amg 3 ''iva'' (- 1) 1,
    amg 2 ''ic'' (- 1) 1,
    amg 3 ''ice'' (- 1) 1,
    amg 5 ''abile'' (- 1) 1,
    amg 5 ''ibile'' (- 1) 1,
    amg 4 ''isme'' (- 1) 3,
    amg 4 ''iune'' (- 1) 2,
    amg 4 ''oase'' (- 1) 1,
    amg 3 ''ate'' (- 1) 1,
    amg 5 ''itate'' 17 1,
    amg 3 ''ite'' (- 1) 1,
    amg 4 ''ante'' (- 1) 1,
    amg 4 ''iste'' (- 1) 3,
    amg 3 ''ute'' (- 1) 1,
    amg 3 ''ive'' (- 1) 1,
    amg 3 ''ici'' (- 1) 1,
    amg 5 ''abili'' (- 1) 1,
    amg 5 ''ibili'' (- 1) 1,
    amg 4 ''iuni'' (- 1) 2,
    amg 5 ''atori'' (- 1) 1,
    amg 3 ''osi'' (- 1) 1,
    amg 3 ''ati'' (- 1) 1,
    amg 5 ''itati'' 30 1,
    amg 3 ''iti'' (- 1) 1,
    amg 4 ''anti'' (- 1) 1,
    amg 4 ''isti'' (- 1) 3,
    amg 3 ''uti'' (- 1) 1,
    amg 5 [CHR ''i'', CHR 0xC5, CHR 0x9F, CHR ''t'', CHR ''i''] (- 1) 3,
    amg 3 ''ivi'' (- 1) 1,
    amg 5 [CHR ''i'', CHR ''t'', CHR 0xC4, CHR 0x83, CHR ''i''] (- 1) 1,
    amg 4 [CHR ''o'', CHR 0xC5, CHR 0x9F, CHR ''i''] (- 1) 1,
    amg 7 [CHR ''i'', CHR ''t'', CHR 0xC4, CHR 0x83, CHR 0xC5, CHR 0xA3, CHR ''i''] (- 1) 1,
    amg 4 ''abil'' (- 1) 1,
    amg 4 ''ibil'' (- 1) 1,
    amg 3 ''ism'' (- 1) 3,
    amg 4 ''ator'' (- 1) 1,
    amg 2 ''os'' (- 1) 1,
    amg 2 ''at'' (- 1) 1,
    amg 2 ''it'' (- 1) 1,
    amg 3 ''ant'' (- 1) 1,
    amg 3 ''ist'' (- 1) 3,
    amg 2 ''ut'' (- 1) 1,
    amg 2 ''iv'' (- 1) 1,
    amg 4 [CHR ''i'', CHR ''c'', CHR 0xC4, CHR 0x83] (- 1) 1,
    amg 6 [CHR ''a'', CHR ''b'', CHR ''i'', CHR ''l'', CHR 0xC4, CHR 0x83] (- 1) 1,
    amg 6 [CHR ''i'', CHR ''b'', CHR ''i'', CHR ''l'', CHR 0xC4, CHR 0x83] (- 1) 1,
    amg 5 [CHR ''o'', CHR ''a'', CHR ''s'', CHR 0xC4, CHR 0x83] (- 1) 1,
    amg 4 [CHR ''a'', CHR ''t'', CHR 0xC4, CHR 0x83] (- 1) 1,
    amg 4 [CHR ''i'', CHR ''t'', CHR 0xC4, CHR 0x83] (- 1) 1,
    amg 5 [CHR ''a'', CHR ''n'', CHR ''t'', CHR 0xC4, CHR 0x83] (- 1) 1,
    amg 5 [CHR ''i'', CHR ''s'', CHR ''t'', CHR 0xC4, CHR 0x83] (- 1) 3,
    amg 4 [CHR ''u'', CHR ''t'', CHR 0xC4, CHR 0x83] (- 1) 1,
    amg 4 [CHR ''i'', CHR ''v'', CHR 0xC4, CHR 0x83] (- 1) 1]"

definition a_4_romanian :: "among list" where
  "a_4_romanian = [
    amg 2 ''ea'' (- 1) 1,
    amg 2 ''ia'' (- 1) 1,
    amg 3 ''esc'' (- 1) 1,
    amg 4 [CHR 0xC4, CHR 0x83, CHR ''s'', CHR ''c''] (- 1) 1,
    amg 3 ''ind'' (- 1) 1,
    amg 4 [CHR 0xC3, CHR 0xA2, CHR ''n'', CHR ''d''] (- 1) 1,
    amg 3 ''are'' (- 1) 1,
    amg 3 ''ere'' (- 1) 1,
    amg 3 ''ire'' (- 1) 1,
    amg 4 [CHR 0xC3, CHR 0xA2, CHR ''r'', CHR ''e''] (- 1) 1,
    amg 2 ''se'' (- 1) 2,
    amg 3 ''ase'' 10 1,
    amg 4 ''sese'' 10 2,
    amg 3 ''ise'' 10 1,
    amg 3 ''use'' 10 1,
    amg 4 [CHR 0xC3, CHR 0xA2, CHR ''s'', CHR ''e''] 10 1,
    amg 5 [CHR ''e'', CHR 0xC5, CHR 0x9F, CHR ''t'', CHR ''e''] (- 1) 1,
    amg 6 [CHR 0xC4, CHR 0x83, CHR 0xC5, CHR 0x9F, CHR ''t'', CHR ''e''] (- 1) 1,
    amg 3 ''eze'' (- 1) 1,
    amg 2 ''ai'' (- 1) 1,
    amg 3 ''eai'' 19 1,
    amg 3 ''iai'' 19 1,
    amg 3 ''sei'' (- 1) 2,
    amg 5 [CHR ''e'', CHR 0xC5, CHR 0x9F, CHR ''t'', CHR ''i''] (- 1) 1,
    amg 6 [CHR 0xC4, CHR 0x83, CHR 0xC5, CHR 0x9F, CHR ''t'', CHR ''i''] (- 1) 1,
    amg 2 ''ui'' (- 1) 1,
    amg 3 ''ezi'' (- 1) 1,
    amg 4 [CHR ''a'', CHR 0xC5, CHR 0x9F, CHR ''i''] (- 1) 1,
    amg 5 [CHR ''s'', CHR ''e'', CHR 0xC5, CHR 0x9F, CHR ''i''] (- 1) 2,
    amg 6 [CHR ''a'', CHR ''s'', CHR ''e'', CHR 0xC5, CHR 0x9F, CHR ''i''] 28 1,
    amg 7 [CHR ''s'', CHR ''e'', CHR ''s'', CHR ''e'', CHR 0xC5, CHR 0x9F, CHR ''i''] 28 2,
    amg 6 [CHR ''i'', CHR ''s'', CHR ''e'', CHR 0xC5, CHR 0x9F, CHR ''i''] 28 1,
    amg 6 [CHR ''u'', CHR ''s'', CHR ''e'', CHR 0xC5, CHR 0x9F, CHR ''i''] 28 1,
    amg 7 [CHR 0xC3, CHR 0xA2, CHR ''s'', CHR ''e'', CHR 0xC5, CHR 0x9F, CHR ''i''] 28 1,
    amg 4 [CHR ''i'', CHR 0xC5, CHR 0x9F, CHR ''i''] (- 1) 1,
    amg 4 [CHR ''u'', CHR 0xC5, CHR 0x9F, CHR ''i''] (- 1) 1,
    amg 5 [CHR 0xC3, CHR 0xA2, CHR 0xC5, CHR 0x9F, CHR ''i''] (- 1) 1,
    amg 3 [CHR 0xC3, CHR 0xA2, CHR ''i''] (- 1) 1,
    amg 4 [CHR ''a'', CHR 0xC5, CHR 0xA3, CHR ''i''] (- 1) 2,
    amg 5 [CHR ''e'', CHR ''a'', CHR 0xC5, CHR 0xA3, CHR ''i''] 38 1,
    amg 5 [CHR ''i'', CHR ''a'', CHR 0xC5, CHR 0xA3, CHR ''i''] 38 1,
    amg 4 [CHR ''e'', CHR 0xC5, CHR 0xA3, CHR ''i''] (- 1) 2,
    amg 4 [CHR ''i'', CHR 0xC5, CHR 0xA3, CHR ''i''] (- 1) 2,
    amg 7 [CHR ''a'', CHR ''r'', CHR 0xC4, CHR 0x83, CHR 0xC5, CHR 0xA3, CHR ''i''] (- 1) 1,
    amg 8 [CHR ''s'', CHR ''e'', CHR ''r'', CHR 0xC4, CHR 0x83, CHR 0xC5, CHR 0xA3, CHR ''i''] (- 1) 2,
    amg 9 [CHR ''a'', CHR ''s'', CHR ''e'', CHR ''r'', CHR 0xC4, CHR 0x83, CHR 0xC5, CHR 0xA3, CHR ''i''] 44 1,
    amg 10 [CHR ''s'', CHR ''e'', CHR ''s'', CHR ''e'', CHR ''r'', CHR 0xC4, CHR 0x83, CHR 0xC5, CHR 0xA3, CHR ''i''] 44 2,
    amg 9 [CHR ''i'', CHR ''s'', CHR ''e'', CHR ''r'', CHR 0xC4, CHR 0x83, CHR 0xC5, CHR 0xA3, CHR ''i''] 44 1,
    amg 9 [CHR ''u'', CHR ''s'', CHR ''e'', CHR ''r'', CHR 0xC4, CHR 0x83, CHR 0xC5, CHR 0xA3, CHR ''i''] 44 1,
    amg 10 [CHR 0xC3, CHR 0xA2, CHR ''s'', CHR ''e'', CHR ''r'', CHR 0xC4, CHR 0x83, CHR 0xC5, CHR 0xA3, CHR ''i''] 44 1,
    amg 7 [CHR ''i'', CHR ''r'', CHR 0xC4, CHR 0x83, CHR 0xC5, CHR 0xA3, CHR ''i''] (- 1) 1,
    amg 7 [CHR ''u'', CHR ''r'', CHR 0xC4, CHR 0x83, CHR 0xC5, CHR 0xA3, CHR ''i''] (- 1) 1,
    amg 8 [CHR 0xC3, CHR 0xA2, CHR ''r'', CHR 0xC4, CHR 0x83, CHR 0xC5, CHR 0xA3, CHR ''i''] (- 1) 1,
    amg 5 [CHR 0xC3, CHR 0xA2, CHR 0xC5, CHR 0xA3, CHR ''i''] (- 1) 2,
    amg 2 ''am'' (- 1) 1,
    amg 3 ''eam'' 54 1,
    amg 3 ''iam'' 54 1,
    amg 2 ''em'' (- 1) 2,
    amg 4 ''asem'' 57 1,
    amg 5 ''sesem'' 57 2,
    amg 4 ''isem'' 57 1,
    amg 4 ''usem'' 57 1,
    amg 5 [CHR 0xC3, CHR 0xA2, CHR ''s'', CHR ''e'', CHR ''m''] 57 1,
    amg 2 ''im'' (- 1) 2,
    amg 3 [CHR 0xC4, CHR 0x83, CHR ''m''] (- 1) 2,
    amg 5 [CHR ''a'', CHR ''r'', CHR 0xC4, CHR 0x83, CHR ''m''] 64 1,
    amg 6 [CHR ''s'', CHR ''e'', CHR ''r'', CHR 0xC4, CHR 0x83, CHR ''m''] 64 2,
    amg 7 [CHR ''a'', CHR ''s'', CHR ''e'', CHR ''r'', CHR 0xC4, CHR 0x83, CHR ''m''] 66 1,
    amg 8 [CHR ''s'', CHR ''e'', CHR ''s'', CHR ''e'', CHR ''r'', CHR 0xC4, CHR 0x83, CHR ''m''] 66 2,
    amg 7 [CHR ''i'', CHR ''s'', CHR ''e'', CHR ''r'', CHR 0xC4, CHR 0x83, CHR ''m''] 66 1,
    amg 7 [CHR ''u'', CHR ''s'', CHR ''e'', CHR ''r'', CHR 0xC4, CHR 0x83, CHR ''m''] 66 1,
    amg 8 [CHR 0xC3, CHR 0xA2, CHR ''s'', CHR ''e'', CHR ''r'', CHR 0xC4, CHR 0x83, CHR ''m''] 66 1,
    amg 5 [CHR ''i'', CHR ''r'', CHR 0xC4, CHR 0x83, CHR ''m''] 64 1,
    amg 5 [CHR ''u'', CHR ''r'', CHR 0xC4, CHR 0x83, CHR ''m''] 64 1,
    amg 6 [CHR 0xC3, CHR 0xA2, CHR ''r'', CHR 0xC4, CHR 0x83, CHR ''m''] 64 1,
    amg 3 [CHR 0xC3, CHR 0xA2, CHR ''m''] (- 1) 2,
    amg 2 ''au'' (- 1) 1,
    amg 3 ''eau'' 76 1,
    amg 3 ''iau'' 76 1,
    amg 4 ''indu'' (- 1) 1,
    amg 5 [CHR 0xC3, CHR 0xA2, CHR ''n'', CHR ''d'', CHR ''u''] (- 1) 1,
    amg 2 ''ez'' (- 1) 1,
    amg 6 [CHR ''e'', CHR ''a'', CHR ''s'', CHR ''c'', CHR 0xC4, CHR 0x83] (- 1) 1,
    amg 4 [CHR ''a'', CHR ''r'', CHR 0xC4, CHR 0x83] (- 1) 1,
    amg 5 [CHR ''s'', CHR ''e'', CHR ''r'', CHR 0xC4, CHR 0x83] (- 1) 2,
    amg 6 [CHR ''a'', CHR ''s'', CHR ''e'', CHR ''r'', CHR 0xC4, CHR 0x83] 84 1,
    amg 7 [CHR ''s'', CHR ''e'', CHR ''s'', CHR ''e'', CHR ''r'', CHR 0xC4, CHR 0x83] 84 2,
    amg 6 [CHR ''i'', CHR ''s'', CHR ''e'', CHR ''r'', CHR 0xC4, CHR 0x83] 84 1,
    amg 6 [CHR ''u'', CHR ''s'', CHR ''e'', CHR ''r'', CHR 0xC4, CHR 0x83] 84 1,
    amg 7 [CHR 0xC3, CHR 0xA2, CHR ''s'', CHR ''e'', CHR ''r'', CHR 0xC4, CHR 0x83] 84 1,
    amg 4 [CHR ''i'', CHR ''r'', CHR 0xC4, CHR 0x83] (- 1) 1,
    amg 4 [CHR ''u'', CHR ''r'', CHR 0xC4, CHR 0x83] (- 1) 1,
    amg 5 [CHR 0xC3, CHR 0xA2, CHR ''r'', CHR 0xC4, CHR 0x83] (- 1) 1,
    amg 5 [CHR ''e'', CHR ''a'', CHR ''z'', CHR 0xC4, CHR 0x83] (- 1) 1]"

definition a_5_romanian :: "among list" where
  "a_5_romanian = [
    amg 1 ''a'' (- 1) 1,
    amg 1 ''e'' (- 1) 1,
    amg 2 ''ie'' 1 1,
    amg 1 ''i'' (- 1) 1,
    amg 2 [CHR 0xC4, CHR 0x83] (- 1) 1]"

definition g_v_romanian :: "int list" where
  "g_v_romanian = [17, 65, 16, 0, 0, 0, 0, 0, 0, 0, 0, 0, 0, 0, 0, 0, 2, 32, 0, 0, 4]"

subsection \<open>Strings\<close>

definition s_0_romanian :: "symbol list" where
  "s_0_romanian = ''u''"

definition s_1_romanian :: "symbol list" where
  "s_1_romanian = ''U''"

definition s_2_romanian :: "symbol list" where
  "s_2_romanian = ''i''"

definition s_3_romanian :: "symbol list" where
  "s_3_romanian = ''I''"

definition s_4_romanian :: "symbol list" where
  "s_4_romanian = ''i''"

definition s_5_romanian :: "symbol list" where
  "s_5_romanian = ''u''"

definition s_6_romanian :: "symbol list" where
  "s_6_romanian = ''a''"

definition s_7_romanian :: "symbol list" where
  "s_7_romanian = ''e''"

definition s_8_romanian :: "symbol list" where
  "s_8_romanian = ''i''"

definition s_9_romanian :: "symbol list" where
  "s_9_romanian = ''ab''"

definition s_10_romanian :: "symbol list" where
  "s_10_romanian = ''i''"

definition s_11_romanian :: "symbol list" where
  "s_11_romanian = ''at''"

definition s_12_romanian :: "symbol list" where
  "s_12_romanian = [CHR ''a'', CHR 0xC5, CHR 0xA3, CHR ''i'']"

definition s_13_romanian :: "symbol list" where
  "s_13_romanian = ''abil''"

definition s_14_romanian :: "symbol list" where
  "s_14_romanian = ''ibil''"

definition s_15_romanian :: "symbol list" where
  "s_15_romanian = ''iv''"

definition s_16_romanian :: "symbol list" where
  "s_16_romanian = ''ic''"

definition s_17_romanian :: "symbol list" where
  "s_17_romanian = ''at''"

definition s_18_romanian :: "symbol list" where
  "s_18_romanian = ''it''"

definition s_19_romanian :: "symbol list" where
  "s_19_romanian = [CHR 0xC5, CHR 0xA3]"

definition s_20_romanian :: "symbol list" where
  "s_20_romanian = ''t''"

definition s_21_romanian :: "symbol list" where
  "s_21_romanian = ''ist''"

definition s_22_romanian :: "symbol list" where
  "s_22_romanian = ''u''"

subsection \<open>Code\<close>

definition r_prelude_romanian_while1 :: "sn_cmd" where
  "r_prelude_romanian_while1 = c_while1 (c_block [
      c_let z_c (\<lambda>c2. c_block [
        c_upto 1 [
          when_true (in_grouping_U g_v_romanian 97 259 0) (c_goto 1),
          set_bra z_c,
          c_upto 2 [
            c_let z_c (\<lambda>c3. c_block [
              c_upto 3 [
                unless (eq_s 1 s_0_romanian) (c_goto 3),
                set_ket z_c,
                when_true (in_grouping_U g_v_romanian 97 259 0) (c_goto 3),
                check (slice_from_s 1 s_1_romanian),
                c_goto 2],
              set_c (\<lambda>_. c3),
              unless (eq_s 1 s_2_romanian) (c_goto 1),
              set_ket z_c,
              when_true (in_grouping_U g_v_romanian 97 259 0) (c_goto 1),
              check (slice_from_s 1 s_3_romanian)])],
          set_c (\<lambda>_. c2),
          c_break],
        set_c (\<lambda>_. c2),
        move_to (skip_utf8_z (\<lambda>_. 0) z_l 1) (c_goto 0)])])"

definition r_prelude_romanian_while2 :: "sn_cmd" where
  "r_prelude_romanian_while2 = c_while1 (c_block [
      c_let z_c (\<lambda>c1. c_block [
        c_upto 0 [
          r_prelude_romanian_while1,
          c_continue],
        set_c (\<lambda>_. c1),
        c_break])])"

definition r_prelude_romanian :: "sn_func" where
  "r_prelude_romanian = c_fun [
    r_prelude_romanian_while2,
    c_return 1]"

definition r_mark_regions_romanian :: "sn_func" where
  "r_mark_regions_romanian = c_fun [
    set_I 0 z_l,
    set_I 1 z_l,
    set_I 2 z_l,
    c_let z_c (\<lambda>c1. c_block [
      c_upto 0 [
        c_upto 1 [
          c_let z_c (\<lambda>c2. c_block [
            c_upto 2 [
              when_true (in_grouping_U g_v_romanian 97 259 0) (c_goto 2),
              c_upto 3 [
                c_let z_c (\<lambda>c3. c_block [
                  c_upto 4 [
                    when_true (out_grouping_U g_v_romanian 97 259 0) (c_goto 4),
                    advance (out_grouping_U g_v_romanian 97 259 1) (c_goto 4),
                    c_goto 3],
                  set_c (\<lambda>_. c3),
                  when_true (in_grouping_U g_v_romanian 97 259 0) (c_goto 2),
                  advance (in_grouping_U g_v_romanian 97 259 1) (c_goto 2)])],
              c_goto 1],
            set_c (\<lambda>_. c2),
            when_true (out_grouping_U g_v_romanian 97 259 0) (c_goto 0),
            c_upto 5 [
              c_let z_c (\<lambda>c4. c_block [
                c_upto 6 [
                  when_true (out_grouping_U g_v_romanian 97 259 0) (c_goto 6),
                  advance (out_grouping_U g_v_romanian 97 259 1) (c_goto 6),
                  c_goto 5],
                set_c (\<lambda>_. c4),
                when_true (in_grouping_U g_v_romanian 97 259 0) (c_goto 0),
                move_to (skip_utf8_z (\<lambda>_. 0) z_l 1) (c_goto 0)])]])],
        set_I 0 z_c],
      set_c (\<lambda>_. c1)]),
    c_let z_c (\<lambda>c5. c_block [
      c_upto 7 [
        advance (out_grouping_U g_v_romanian 97 259 1) (c_goto 7),
        advance (in_grouping_U g_v_romanian 97 259 1) (c_goto 7),
        set_I 1 z_c,
        advance (out_grouping_U g_v_romanian 97 259 1) (c_goto 7),
        advance (in_grouping_U g_v_romanian 97 259 1) (c_goto 7),
        set_I 2 z_c],
      set_c (\<lambda>_. c5)]),
    c_return 1]"

definition r_postlude_romanian_while1 :: "sn_cmd" where
  "r_postlude_romanian_while1 = c_while1 (c_block [
      c_let z_c (\<lambda>c1. c_block [
        set_bra z_c,
        c_call (or_else (head_guard 0 (\<lambda>ch. ch \<noteq> 73 \<and> ch \<noteq> 85)) 3 (find_among a_0_romanian 3)) (\<lambda>among_var. c_block [
          c_upto 0 [
            c_if (test (\<lambda>_. among_var = 0)) (c_goto 0),
            set_ket z_c,
            c_switch among_var [
              (0, c_block [
                c_goto 0]),
              (1, c_block [
                check (slice_from_s 1 s_4_romanian),
                c_break]),
              (2, c_block [
                check (slice_from_s 1 s_5_romanian),
                c_break]),
              (3, c_block [
                move_to (skip_utf8_z (\<lambda>_. 0) z_l 1) (c_goto 0),
                c_break])],
            c_continue],
          set_c (\<lambda>_. c1),
          c_break])])])"

definition r_postlude_romanian :: "sn_func" where
  "r_postlude_romanian = c_fun [
    r_postlude_romanian_while1,
    c_return 1]"

definition r_RV_romanian :: "sn_func" where
  "r_RV_romanian = c_fun [
    c_if (on_I 0 (\<lambda>z i. \<not> i \<le> z_c z)) (c_return 0),
    c_return 1]"

definition r_R1_romanian :: "sn_func" where
  "r_R1_romanian = c_fun [
    c_if (on_I 1 (\<lambda>z i. \<not> i \<le> z_c z)) (c_return 0),
    c_return 1]"

definition r_R2_romanian :: "sn_func" where
  "r_R2_romanian = c_fun [
    c_if (on_I 2 (\<lambda>z i. \<not> i \<le> z_c z)) (c_return 0),
    c_return 1]"

definition r_step_0_romanian :: "sn_func" where
  "r_step_0_romanian = c_fun [
    set_ket z_c,
    c_if (tail_guard 1 (not_in_mask 3 266786)) (c_return 0),
    c_call (find_among_b a_1_romanian 16) (\<lambda>among_var. c_block [
      c_if (test (\<lambda>_. among_var = 0)) (c_return 0),
      set_bra z_c,
      routine r_R1_romanian (c_return 0),
      c_switch among_var [
        (0, c_block [
          c_return 0]),
        (1, c_block [
          check slice_del,
          c_break]),
        (2, c_block [
          check (slice_from_s 1 s_6_romanian),
          c_break]),
        (3, c_block [
          check (slice_from_s 1 s_7_romanian),
          c_break]),
        (4, c_block [
          check (slice_from_s 1 s_8_romanian),
          c_break]),
        (5, c_block [
          c_let (\<lambda>z. z_l z - z_c z) (\<lambda>m1. c_block [
            c_upto 0 [
              unless (eq_s_b 2 s_9_romanian) (c_goto 0),
              c_return 0],
            set_c (\<lambda>z. z_l z - m1)]),
          check (slice_from_s 1 s_10_romanian),
          c_break]),
        (6, c_block [
          check (slice_from_s 2 s_11_romanian),
          c_break]),
        (7, c_block [
          check (slice_from_s 4 s_12_romanian),
          c_break])],
      c_return 1])]"

definition r_combo_suffix_romanian :: "sn_func" where
  "r_combo_suffix_romanian = c_fun [
    c_let (\<lambda>z. z_l z - z_c z) (\<lambda>m_test. c_block [
      set_ket z_c,
      c_call (find_among_b a_2_romanian 46) (\<lambda>among_var. c_block [
        c_if (test (\<lambda>_. among_var = 0)) (c_return 0),
        set_bra z_c,
        routine r_R1_romanian (c_return 0),
        c_switch among_var [
          (0, c_block [
            c_return 0]),
          (1, c_block [
            check (slice_from_s 4 s_13_romanian),
            c_break]),
          (2, c_block [
            check (slice_from_s 4 s_14_romanian),
            c_break]),
          (3, c_block [
            check (slice_from_s 2 s_15_romanian),
            c_break]),
          (4, c_block [
            check (slice_from_s 2 s_16_romanian),
            c_break]),
          (5, c_block [
            check (slice_from_s 2 s_17_romanian),
            c_break]),
          (6, c_block [
            check (slice_from_s 2 s_18_romanian),
            c_break])],
        set_B 0 1,
        set_c (\<lambda>z. z_l z - m_test),
        c_return 1])])]"

definition r_standard_suffix_romanian_while1 :: "sn_cmd" where
  "r_standard_suffix_romanian_while1 = c_while1 (c_block [
      c_let (\<lambda>z. z_l z - z_c z) (\<lambda>m1. c_block [
        c_upto 0 [
          routine r_combo_suffix_romanian (c_goto 0),
          c_continue],
        set_c (\<lambda>z. z_l z - m1),
        c_break])])"

definition r_standard_suffix_romanian :: "sn_func" where
  "r_standard_suffix_romanian = c_fun [
    set_B 0 0,
    r_standard_suffix_romanian_while1,
    set_ket z_c,
    c_call (find_among_b a_3_romanian 62) (\<lambda>among_var. c_block [
      c_if (test (\<lambda>_. among_var = 0)) (c_return 0),
      set_bra z_c,
      routine r_R2_romanian (c_return 0),
      c_switch among_var [
        (0, c_block [
          c_return 0]),
        (1, c_block [
          check slice_del,
          c_break]),
        (2, c_block [
          unless (eq_s_b 2 s_19_romanian) (c_return 0),
          set_bra z_c,
          check (slice_from_s 1 s_20_romanian),
          c_break]),
        (3, c_block [
          check (slice_from_s 3 s_21_romanian),
          c_break])],
      set_B 0 1,
      c_return 1])]"

definition r_verb_suffix_romanian :: "sn_func" where
  "r_verb_suffix_romanian = c_fun [
    c_let (\<lambda>z. z_l z - z_c z) (\<lambda>m1. c_block [
      c_if (on_I 0 (\<lambda>z i. z_c z < i)) (c_return 0),
      set_c_I 0,
      c_let z_lb (\<lambda>mlimit. c_block [
        set_lb z_c,
        set_c (\<lambda>z. z_l z - m1),
        set_ket z_c,
        c_call (find_among_b a_4_romanian 94) (\<lambda>among_var. c_block [
          c_if (test (\<lambda>_. among_var = 0)) (
            c_block [
              set_lb (\<lambda>_. mlimit),
              c_return 0]),
          set_bra z_c,
          c_switch among_var [
            (0, c_block [
              c_block [
                set_lb (\<lambda>_. mlimit),
                c_return 0]]),
            (1, c_block [
              c_upto 0 [
                c_let (\<lambda>z. z_l z - z_c z) (\<lambda>m2. c_block [
                  c_upto 1 [
                    when_true (out_grouping_b_U g_v_romanian 97 259 0) (c_goto 1),
                    c_goto 0],
                  set_c (\<lambda>z. z_l z - m2),
                  unless (eq_s_b 1 s_22_romanian) (
                    c_block [
                      set_lb (\<lambda>_. mlimit),
                      c_return 0])])],
              check slice_del,
              c_break]),
            (2, c_block [
              check slice_del,
              c_break])],
          set_lb (\<lambda>_. mlimit),
          c_return 1])])])]"

definition r_vowel_suffix_romanian :: "sn_func" where
  "r_vowel_suffix_romanian = c_fun [
    set_ket z_c,
    c_call (find_among_b a_5_romanian 5) (\<lambda>among_var. c_block [
      c_if (test (\<lambda>_. among_var = 0)) (c_return 0),
      set_bra z_c,
      routine r_RV_romanian (c_return 0),
      c_switch among_var [
        (0, c_block [
          c_return 0]),
        (1, c_block [
          check slice_del,
          c_break])],
      c_return 1])]"

definition romanian_UTF_8_stem :: "sn_func" where
  "romanian_UTF_8_stem = c_fun [
    try_f 0 r_prelude_romanian,
    try_f 1 r_mark_regions_romanian,
    set_lb z_c,
    set_c z_l,
    try_b 2 r_step_0_romanian,
    try_b 3 r_standard_suffix_romanian,
    c_let (\<lambda>z. z_l z - z_c z) (\<lambda>m5. c_block [
      c_upto 4 [
        c_upto 5 [
          c_let (\<lambda>z. z_l z - z_c z) (\<lambda>m6. c_block [
            c_upto 6 [
              c_if (on_B 0 (\<lambda>v. v = 0)) (c_goto 6),
              c_goto 5],
            set_c (\<lambda>z. z_l z - m6),
            routine r_verb_suffix_romanian (c_goto 4)])]],
      set_c (\<lambda>z. z_l z - m5)]),
    try_b 7 r_vowel_suffix_romanian,
    set_c z_lb,
    try_f 8 r_postlude_romanian,
    c_return 1]"

definition romanian_UTF_8_create_env :: "env_create" where
  "romanian_UTF_8_create_env = SN_create_env 0 3 1"

definition romanian_UTF_8_close_env :: "env_close" where
  "romanian_UTF_8_close_env z = SN_close_env z 0"

subsection \<open>Facts on the tables\<close>

lemma tables_romanian [simp]:
  "table_f a_0_romanian" "table_b a_1_romanian" "table_b a_2_romanian" "table_b a_3_romanian"
  "table_b a_4_romanian" "table_b a_5_romanian"
  by (rule table_sound, code_simp, code_simp)+

lemma length_tables_romanian [simp]:
  "length a_0_romanian = 3" "length a_1_romanian = 16" "length a_2_romanian = 46"
  "length a_3_romanian = 62" "length a_4_romanian = 94" "length a_5_romanian = 5"
  by code_simp+

lemma least_romanian [simp]:
  "least a_0_romanian 1 = 1" "least a_0_romanian 2 = 1" "least a_0_romanian 3 = 0"
  "least a_1_romanian 1 = 2" "least a_1_romanian 2 = 3" "least a_1_romanian 3 = 2"
  "least a_1_romanian 4 = 2" "least a_1_romanian 5 = 3" "least a_1_romanian 6 = 4"
  "least a_1_romanian 7 = 5" "least a_2_romanian 1 = 9" "least a_2_romanian 2 = 9"
  "least a_2_romanian 3 = 7" "least a_2_romanian 4 = 4" "least a_2_romanian 5 = 4"
  "least a_2_romanian 6 = 4" "least a_3_romanian 1 = 2" "least a_3_romanian 2 = 4"
  "least a_3_romanian 3 = 3" "least a_4_romanian 1 = 2" "least a_4_romanian 2 = 2"
  "least a_5_romanian 1 = 1"
  by code_simp+

lemma has_romanian [simp]:
  "has a_0_romanian r \<longleftrightarrow> r = 1 \<or> r = 2 \<or> r = 3"
  "has a_2_romanian r \<longleftrightarrow> r = 1 \<or> r = 2 \<or> r = 3 \<or> r = 4 \<or> r = 5 \<or> r = 6"
  by (auto simp: has_def a_0_romanian_def a_2_romanian_def)

lemma lengths_romanian [simp]:
  "length s_0_romanian = 1" "length s_1_romanian = 1" "length s_2_romanian = 1"
  "length s_3_romanian = 1" "length s_4_romanian = 1" "length s_5_romanian = 1"
  "length s_6_romanian = 1" "length s_7_romanian = 1" "length s_8_romanian = 1"
  "length s_9_romanian = 2" "length s_10_romanian = 1" "length s_11_romanian = 2"
  "length s_12_romanian = 4" "length s_13_romanian = 4" "length s_14_romanian = 4"
  "length s_15_romanian = 2" "length s_16_romanian = 2" "length s_17_romanian = 2"
  "length s_18_romanian = 2" "length s_19_romanian = 2" "length s_20_romanian = 1"
  "length s_21_romanian = 3" "length s_22_romanian = 1"
  by code_simp+

lemma covers_romanian [simp]:
  "covers g_v_romanian 97 259"
  by code_simp+

subsection \<open>Loops\<close>

lemma prelude_while1_romanian: "rewriting r_prelude_romanian_while1 0 (\<lambda>b. b = CHR ''u'' \<or> b = CHR ''i'')"
  unfolding rewriting_def r_prelude_romanian_while1_def
  by (intro allI impI, rule wp_search) (auto intro!: win_intro slice_rewrite_wp [where P = "\<lambda>b. b = CHR ''u'' \<or> b = CHR ''i''"]
    simp: rewrote_def step_defs moved_iff s_0_romanian_def s_1_romanian_def s_2_romanian_def s_3_romanian_def)

lemmas prelude_while2_romanian_wp =
  rewrite_loop_wp [OF prelude_while1_romanian, folded r_prelude_romanian_while2_def]

lemma postlude_while1_romanian_wp:
  assumes "in_window z" "\<And>z'. kept z z' \<Longrightarrow> z_l z' \<le> z_l z \<Longrightarrow> Q Next z'"
  shows "wp r_postlude_romanian_while1 Q z"
  using assms unfolding r_postlude_romanian_while1_def
  by (intro wp_repeat) (auto intro!: win_intro slice_from_s_fwd simp: step_defs)

subsection \<open>Routines\<close>

lemma r_prelude_romanian_wp:
  assumes "in_window z" "z_c z = z_lb z" "\<And>z'. kept z z' \<Longrightarrow> z_l z' \<le> z_l z \<Longrightarrow> Q 1 z'"
  shows "wpf r_prelude_romanian Q z"
  using assms unfolding r_prelude_romanian_def
  by (auto intro!: prelude_while2_romanian_wp simp: step_defs)

lemma r_mark_regions_romanian_wp:
  assumes "in_window z" "length (z_I z) = 3"
    and "\<And>z'. marked z z' \<Longrightarrow> 0 \<le> z_I z' ! 0 \<Longrightarrow> Q 1 z'"
  shows "wpf r_mark_regions_romanian Q z"
  unfolding r_mark_regions_romanian_def wpf_fun
  apply (rule wp_cut [where n = 4 and J = "\<lambda>z'. marked z z' \<and> 0 \<le> z_I z' ! 0"], simp, simp)
  subgoal using assms(1,2) by (auto intro!: win_intro region_labels simp: marked_iff moved_iff in_window_def simp del: wp_upto)
  subgoal using assms by (auto intro!: win_intro simp: marked_iff in_window_def)
  done

lemma r_RV_romanian_wp [simp]:
  "length (z_I z) = 3 \<Longrightarrow> wpf r_RV_romanian Q z \<longleftrightarrow> Q (if z_I z ! 0 \<le> z_c z then 1 else 0) z"
  unfolding r_RV_romanian_def by simp

lemma r_R1_romanian_wp [simp]:
  "length (z_I z) = 3 \<Longrightarrow> wpf r_R1_romanian Q z \<longleftrightarrow> Q (if z_I z ! 1 \<le> z_c z then 1 else 0) z"
  unfolding r_R1_romanian_def by simp

lemma r_R2_romanian_wp [simp]:
  "length (z_I z) = 3 \<Longrightarrow> wpf r_R2_romanian Q z \<longleftrightarrow> Q (if z_I z ! 2 \<le> z_c z then 1 else 0) z"
  unfolding r_R2_romanian_def by simp

lemma r_step_0_romanian_steps:
  assumes "in_window z" "length (z_I z) = 3"
  shows "wpf r_step_0_romanian (stepped z) z"
  using assms unfolding r_step_0_romanian_def in_window_def
  by (auto intro!: win_intro safe_intro simp: step_defs)

text \<open>A combined suffix that is found is replaced by a shorter one.\<close>

lemma r_combo_suffix_romanian_steps:
  assumes "in_window z" "length (z_B z) = 1" "length (z_I z) = 3"
  shows "wpf r_combo_suffix_romanian (\<lambda>r z'. stepped_B z r z' \<and> (if r = 0 then z_l z' = z_l z else z_l z' < z_l z)) z"
  using assms unfolding r_combo_suffix_romanian_def in_window_def
  by (auto intro!: win_intro safe_intro simp: step_defs stepped_B_def kept_B_def)

lemma standard_suffix_while1_romanian_wp:
  assumes "in_window z" "length (z_B z) = 1" "length (z_I z) = 3"
    and "\<And>z'. kept_B z z' \<Longrightarrow> z_l z' \<le> z_l z \<Longrightarrow> Q Next z'"
  shows "wp r_standard_suffix_romanian_while1 Q z"
  unfolding r_standard_suffix_romanian_while1_def
proof (rule wp_while1 [where f = "\<lambda>z. nat (z_l z)" and P = "\<lambda>z'. kept_B z z' \<and> z_l z' \<le> z_l z"])
  show "kept_B z z \<and> z_l z \<le> z_l z" using assms(1) by (simp add: step_defs kept_B_def)
qed (use assms in \<open>auto intro!: wpf_mono [OF r_combo_suffix_romanian_steps]
      simp: step_defs stepped_B_def kept_B_def\<close>)

lemma r_standard_suffix_romanian_steps:
  assumes "in_window z" "length (z_B z) = 1" "length (z_I z) = 3"
  shows "wpf r_standard_suffix_romanian (stepped_B z) z"
  using assms unfolding r_standard_suffix_romanian_def in_window_def
  by (auto intro!: standard_suffix_while1_romanian_wp win_intro safe_intro simp: step_defs stepped_B_def kept_B_def)

lemma r_verb_suffix_romanian_steps:
  assumes "in_window z" "0 \<le> z_I z ! 0" "z_lb z = 0" "length (z_I z) = 3"
  shows "wpf r_verb_suffix_romanian (stepped z) z"
  using assms unfolding r_verb_suffix_romanian_def in_window_def
  by (auto intro!: win_intro safe_intro simp: step_defs)

lemma r_vowel_suffix_romanian_steps:
  assumes "in_window z" "length (z_I z) = 3"
  shows "wpf r_vowel_suffix_romanian (stepped z) z"
  using assms unfolding r_vowel_suffix_romanian_def in_window_def
  by (auto intro!: win_intro safe_intro simp: step_defs)

lemma r_postlude_romanian_steps:
  assumes "in_window z"
  shows "wpf r_postlude_romanian (stepped z) z"
  using assms unfolding r_postlude_romanian_def
  by (auto intro!: postlude_while1_romanian_wp simp: step_defs)

subsection \<open>The stemmer\<close>

lemma romanian_stem_steps:
  assumes "in_window z" "z_c z = 0" "strs_ok (z_S z)" "length (z_I z) = 3" "length (z_B z) = 1"
  shows "wpf romanian_UTF_8_stem (fitted z) z"
  unfolding romanian_UTF_8_stem_def wpf_fun
  apply (rule wp_cut [where n = 1 and J = "\<lambda>z'. fits z z' \<and> z_c z' = 0"], simp, simp)
  subgoal using assms by (auto intro!: r_prelude_romanian_wp simp: step_defs fits_def)
  apply (erule wp_stage [where n = 3 and J' = "at_end (\<lambda>I. 0 \<le> I ! 0) z"], simp, simp)
  subgoal using assms by (auto intro!: r_mark_regions_romanian_wp simp: step_defs fits_def at_end_def marked_iff)
  apply (erule wp_stage [where n = 1 and J' = "at_end (\<lambda>I. 0 \<le> I ! 0) z"], simp, simp)
  subgoal using assms by (auto intro!: wp_try_at_end [where orig = z and P = "\<lambda>I. 0 \<le> I ! 0"] r_step_0_romanian_steps)
  apply (erule wp_stage [where n = 1 and J' = "at_end (\<lambda>I. 0 \<le> I ! 0) z"], simp, simp)
  subgoal using assms by (auto intro!: wp_try_end stepped_B_wp [OF r_standard_suffix_romanian_steps] simp: step_defs kept_B_def fits_def at_end_def)
  apply (erule wp_stage [where n = 1 and J' = "at_end (\<lambda>I. 0 \<le> I ! 0) z"], simp, simp)
  subgoal using assms by (auto intro!: stepped_wp [OF r_verb_suffix_romanian_steps] wp_upto_step simp: step_defs fits_def at_end_def simp del: wp_upto)
  apply (erule wp_stage [where n = 1 and J' = "at_end (\<lambda>I. 0 \<le> I ! 0) z"], simp, simp)
  subgoal using assms by (auto intro!: wp_try_at_end [where orig = z and P = "\<lambda>I. 0 \<le> I ! 0"] r_vowel_suffix_romanian_steps)
  subgoal using assms by (auto intro!: stepped_wp [OF r_postlude_romanian_steps] simp: step_defs fits_def at_end_def fitted_def)
  done

interpretation romanian: steady_stemmer romanian_UTF_8_stem 3 1
  by unfold_locales (auto intro!: wpf_mono [OF romanian_stem_steps])

end
