(* ===== verification/Hungarian.thy ===== *)
theory Hungarian
  imports Libstemmer
begin

text \<open>
  The Hungarian stemmer (\<^verbatim>\<open>src_c/stem_UTF_8_hungarian.c\<close>), statement by statement, with the proof that
  it is a \<open>steady_stemmer\<close>.
\<close>

subsection \<open>Tables\<close>

definition a_0_hungarian :: "among list" where
  "a_0_hungarian = [
    amg 2 ''cs'' (- 1) (- 1),
    amg 3 ''dzs'' (- 1) (- 1),
    amg 2 ''gy'' (- 1) (- 1),
    amg 2 ''ly'' (- 1) (- 1),
    amg 2 ''ny'' (- 1) (- 1),
    amg 2 ''sz'' (- 1) (- 1),
    amg 2 ''ty'' (- 1) (- 1),
    amg 2 ''zs'' (- 1) (- 1)]"

definition a_1_hungarian :: "among list" where
  "a_1_hungarian = [
    amg 2 [CHR 0xC3, CHR 0xA1] (- 1) 1,
    amg 2 [CHR 0xC3, CHR 0xA9] (- 1) 2]"

definition a_2_hungarian :: "among list" where
  "a_2_hungarian = [
    amg 2 ''bb'' (- 1) (- 1),
    amg 2 ''cc'' (- 1) (- 1),
    amg 2 ''dd'' (- 1) (- 1),
    amg 2 ''ff'' (- 1) (- 1),
    amg 2 ''gg'' (- 1) (- 1),
    amg 2 ''jj'' (- 1) (- 1),
    amg 2 ''kk'' (- 1) (- 1),
    amg 2 ''ll'' (- 1) (- 1),
    amg 2 ''mm'' (- 1) (- 1),
    amg 2 ''nn'' (- 1) (- 1),
    amg 2 ''pp'' (- 1) (- 1),
    amg 2 ''rr'' (- 1) (- 1),
    amg 3 ''ccs'' (- 1) (- 1),
    amg 2 ''ss'' (- 1) (- 1),
    amg 3 ''zzs'' (- 1) (- 1),
    amg 2 ''tt'' (- 1) (- 1),
    amg 2 ''vv'' (- 1) (- 1),
    amg 3 ''ggy'' (- 1) (- 1),
    amg 3 ''lly'' (- 1) (- 1),
    amg 3 ''nny'' (- 1) (- 1),
    amg 3 ''tty'' (- 1) (- 1),
    amg 3 ''ssz'' (- 1) (- 1),
    amg 2 ''zz'' (- 1) (- 1)]"

definition a_3_hungarian :: "among list" where
  "a_3_hungarian = [
    amg 2 ''al'' (- 1) 1,
    amg 2 ''el'' (- 1) 2]"

definition a_4_hungarian :: "among list" where
  "a_4_hungarian = [
    amg 2 ''ba'' (- 1) (- 1),
    amg 2 ''ra'' (- 1) (- 1),
    amg 2 ''be'' (- 1) (- 1),
    amg 2 ''re'' (- 1) (- 1),
    amg 2 ''ig'' (- 1) (- 1),
    amg 3 ''nak'' (- 1) (- 1),
    amg 3 ''nek'' (- 1) (- 1),
    amg 3 ''val'' (- 1) (- 1),
    amg 3 ''vel'' (- 1) (- 1),
    amg 2 ''ul'' (- 1) (- 1),
    amg 4 [CHR ''n'', CHR 0xC3, CHR 0xA1, CHR ''l''] (- 1) (- 1),
    amg 4 [CHR ''n'', CHR 0xC3, CHR 0xA9, CHR ''l''] (- 1) (- 1),
    amg 4 [CHR ''b'', CHR 0xC3, CHR 0xB3, CHR ''l''] (- 1) (- 1),
    amg 4 [CHR ''r'', CHR 0xC3, CHR 0xB3, CHR ''l''] (- 1) (- 1),
    amg 4 [CHR ''t'', CHR 0xC3, CHR 0xB3, CHR ''l''] (- 1) (- 1),
    amg 4 [CHR ''b'', CHR 0xC3, CHR 0xB5, CHR ''l''] (- 1) (- 1),
    amg 4 [CHR ''r'', CHR 0xC3, CHR 0xB5, CHR ''l''] (- 1) (- 1),
    amg 4 [CHR ''t'', CHR 0xC3, CHR 0xB5, CHR ''l''] (- 1) (- 1),
    amg 3 [CHR 0xC3, CHR 0xBC, CHR ''l''] (- 1) (- 1),
    amg 1 ''n'' (- 1) (- 1),
    amg 2 ''an'' 19 (- 1),
    amg 3 ''ban'' 20 (- 1),
    amg 2 ''en'' 19 (- 1),
    amg 3 ''ben'' 22 (- 1),
    amg 7 [CHR ''k'', CHR 0xC3, CHR 0xA9, CHR ''p'', CHR ''p'', CHR ''e'', CHR ''n''] 22 (- 1),
    amg 2 ''on'' 19 (- 1),
    amg 3 [CHR 0xC3, CHR 0xB6, CHR ''n''] 19 (- 1),
    amg 5 [CHR ''k'', CHR 0xC3, CHR 0xA9, CHR ''p'', CHR ''p''] (- 1) (- 1),
    amg 3 ''kor'' (- 1) (- 1),
    amg 1 ''t'' (- 1) (- 1),
    amg 2 ''at'' 29 (- 1),
    amg 2 ''et'' 29 (- 1),
    amg 5 [CHR ''k'', CHR 0xC3, CHR 0xA9, CHR ''n'', CHR ''t''] 29 (- 1),
    amg 7 [CHR ''a'', CHR ''n'', CHR ''k'', CHR 0xC3, CHR 0xA9, CHR ''n'', CHR ''t''] 32 (- 1),
    amg 7 [CHR ''e'', CHR ''n'', CHR ''k'', CHR 0xC3, CHR 0xA9, CHR ''n'', CHR ''t''] 32 (- 1),
    amg 7 [CHR ''o'', CHR ''n'', CHR ''k'', CHR 0xC3, CHR 0xA9, CHR ''n'', CHR ''t''] 32 (- 1),
    amg 2 ''ot'' 29 (- 1),
    amg 4 [CHR 0xC3, CHR 0xA9, CHR ''r'', CHR ''t''] 29 (- 1),
    amg 3 [CHR 0xC3, CHR 0xB6, CHR ''t''] 29 (- 1),
    amg 3 ''hez'' (- 1) (- 1),
    amg 3 ''hoz'' (- 1) (- 1),
    amg 4 [CHR ''h'', CHR 0xC3, CHR 0xB6, CHR ''z''] (- 1) (- 1),
    amg 3 [CHR ''v'', CHR 0xC3, CHR 0xA1] (- 1) (- 1),
    amg 3 [CHR ''v'', CHR 0xC3, CHR 0xA9] (- 1) (- 1)]"

definition a_5_hungarian :: "among list" where
  "a_5_hungarian = [
    amg 3 [CHR 0xC3, CHR 0xA1, CHR ''n''] (- 1) 2,
    amg 3 [CHR 0xC3, CHR 0xA9, CHR ''n''] (- 1) 1,
    amg 8 [CHR 0xC3, CHR 0xA1, CHR ''n'', CHR ''k'', CHR 0xC3, CHR 0xA9, CHR ''n'', CHR ''t''] (- 1) 3]"

definition a_6_hungarian :: "among list" where
  "a_6_hungarian = [
    amg 4 ''stul'' (- 1) 2,
    amg 5 ''astul'' 0 1,
    amg 6 [CHR 0xC3, CHR 0xA1, CHR ''s'', CHR ''t'', CHR ''u'', CHR ''l''] 0 3,
    amg 5 [CHR ''s'', CHR ''t'', CHR 0xC3, CHR 0xBC, CHR ''l''] (- 1) 2,
    amg 6 [CHR ''e'', CHR ''s'', CHR ''t'', CHR 0xC3, CHR 0xBC, CHR ''l''] 3 1,
    amg 7 [CHR 0xC3, CHR 0xA9, CHR ''s'', CHR ''t'', CHR 0xC3, CHR 0xBC, CHR ''l''] 3 4]"

definition a_7_hungarian :: "among list" where
  "a_7_hungarian = [
    amg 2 [CHR 0xC3, CHR 0xA1] (- 1) 1,
    amg 2 [CHR 0xC3, CHR 0xA9] (- 1) 2]"

definition a_8_hungarian :: "among list" where
  "a_8_hungarian = [
    amg 1 ''k'' (- 1) 7,
    amg 2 ''ak'' 0 4,
    amg 2 ''ek'' 0 6,
    amg 2 ''ok'' 0 5,
    amg 3 [CHR 0xC3, CHR 0xA1, CHR ''k''] 0 1,
    amg 3 [CHR 0xC3, CHR 0xA9, CHR ''k''] 0 2,
    amg 3 [CHR 0xC3, CHR 0xB6, CHR ''k''] 0 3]"

definition a_9_hungarian :: "among list" where
  "a_9_hungarian = [
    amg 3 [CHR 0xC3, CHR 0xA9, CHR ''i''] (- 1) 7,
    amg 5 [CHR 0xC3, CHR 0xA1, CHR 0xC3, CHR 0xA9, CHR ''i''] 0 6,
    amg 5 [CHR 0xC3, CHR 0xA9, CHR 0xC3, CHR 0xA9, CHR ''i''] 0 5,
    amg 2 [CHR 0xC3, CHR 0xA9] (- 1) 9,
    amg 3 [CHR ''k'', CHR 0xC3, CHR 0xA9] 3 4,
    amg 4 [CHR ''a'', CHR ''k'', CHR 0xC3, CHR 0xA9] 4 1,
    amg 4 [CHR ''e'', CHR ''k'', CHR 0xC3, CHR 0xA9] 4 1,
    amg 4 [CHR ''o'', CHR ''k'', CHR 0xC3, CHR 0xA9] 4 1,
    amg 5 [CHR 0xC3, CHR 0xA1, CHR ''k'', CHR 0xC3, CHR 0xA9] 4 3,
    amg 5 [CHR 0xC3, CHR 0xA9, CHR ''k'', CHR 0xC3, CHR 0xA9] 4 2,
    amg 5 [CHR 0xC3, CHR 0xB6, CHR ''k'', CHR 0xC3, CHR 0xA9] 4 1,
    amg 4 [CHR 0xC3, CHR 0xA9, CHR 0xC3, CHR 0xA9] 3 8]"

definition a_10_hungarian :: "among list" where
  "a_10_hungarian = [
    amg 1 ''a'' (- 1) 18,
    amg 2 ''ja'' 0 17,
    amg 1 ''d'' (- 1) 16,
    amg 2 ''ad'' 2 13,
    amg 2 ''ed'' 2 13,
    amg 2 ''od'' 2 13,
    amg 3 [CHR 0xC3, CHR 0xA1, CHR ''d''] 2 14,
    amg 3 [CHR 0xC3, CHR 0xA9, CHR ''d''] 2 15,
    amg 3 [CHR 0xC3, CHR 0xB6, CHR ''d''] 2 13,
    amg 1 ''e'' (- 1) 18,
    amg 2 ''je'' 9 17,
    amg 2 ''nk'' (- 1) 4,
    amg 3 ''unk'' 11 1,
    amg 4 [CHR 0xC3, CHR 0xA1, CHR ''n'', CHR ''k''] 11 2,
    amg 4 [CHR 0xC3, CHR 0xA9, CHR ''n'', CHR ''k''] 11 3,
    amg 4 [CHR 0xC3, CHR 0xBC, CHR ''n'', CHR ''k''] 11 1,
    amg 2 ''uk'' (- 1) 8,
    amg 3 ''juk'' 16 7,
    amg 5 [CHR 0xC3, CHR 0xA1, CHR ''j'', CHR ''u'', CHR ''k''] 17 5,
    amg 3 [CHR 0xC3, CHR 0xBC, CHR ''k''] (- 1) 8,
    amg 4 [CHR ''j'', CHR 0xC3, CHR 0xBC, CHR ''k''] 19 7,
    amg 6 [CHR 0xC3, CHR 0xA9, CHR ''j'', CHR 0xC3, CHR 0xBC, CHR ''k''] 20 6,
    amg 1 ''m'' (- 1) 12,
    amg 2 ''am'' 22 9,
    amg 2 ''em'' 22 9,
    amg 2 ''om'' 22 9,
    amg 3 [CHR 0xC3, CHR 0xA1, CHR ''m''] 22 10,
    amg 3 [CHR 0xC3, CHR 0xA9, CHR ''m''] 22 11,
    amg 1 ''o'' (- 1) 18,
    amg 2 [CHR 0xC3, CHR 0xA1] (- 1) 19,
    amg 2 [CHR 0xC3, CHR 0xA9] (- 1) 20]"

definition a_11_hungarian :: "among list" where
  "a_11_hungarian = [
    amg 2 ''id'' (- 1) 10,
    amg 3 ''aid'' 0 9,
    amg 4 ''jaid'' 1 6,
    amg 3 ''eid'' 0 9,
    amg 4 ''jeid'' 3 6,
    amg 4 [CHR 0xC3, CHR 0xA1, CHR ''i'', CHR ''d''] 0 7,
    amg 4 [CHR 0xC3, CHR 0xA9, CHR ''i'', CHR ''d''] 0 8,
    amg 1 ''i'' (- 1) 15,
    amg 2 ''ai'' 7 14,
    amg 3 ''jai'' 8 11,
    amg 2 ''ei'' 7 14,
    amg 3 ''jei'' 10 11,
    amg 3 [CHR 0xC3, CHR 0xA1, CHR ''i''] 7 12,
    amg 3 [CHR 0xC3, CHR 0xA9, CHR ''i''] 7 13,
    amg 4 ''itek'' (- 1) 24,
    amg 5 ''eitek'' 14 21,
    amg 6 ''jeitek'' 15 20,
    amg 6 [CHR 0xC3, CHR 0xA9, CHR ''i'', CHR ''t'', CHR ''e'', CHR ''k''] 14 23,
    amg 2 ''ik'' (- 1) 29,
    amg 3 ''aik'' 18 26,
    amg 4 ''jaik'' 19 25,
    amg 3 ''eik'' 18 26,
    amg 4 ''jeik'' 21 25,
    amg 4 [CHR 0xC3, CHR 0xA1, CHR ''i'', CHR ''k''] 18 27,
    amg 4 [CHR 0xC3, CHR 0xA9, CHR ''i'', CHR ''k''] 18 28,
    amg 3 ''ink'' (- 1) 20,
    amg 4 ''aink'' 25 17,
    amg 5 ''jaink'' 26 16,
    amg 4 ''eink'' 25 17,
    amg 5 ''jeink'' 28 16,
    amg 5 [CHR 0xC3, CHR 0xA1, CHR ''i'', CHR ''n'', CHR ''k''] 25 18,
    amg 5 [CHR 0xC3, CHR 0xA9, CHR ''i'', CHR ''n'', CHR ''k''] 25 19,
    amg 5 ''aitok'' (- 1) 21,
    amg 6 ''jaitok'' 32 20,
    amg 6 [CHR 0xC3, CHR 0xA1, CHR ''i'', CHR ''t'', CHR ''o'', CHR ''k''] (- 1) 22,
    amg 2 ''im'' (- 1) 5,
    amg 3 ''aim'' 35 4,
    amg 4 ''jaim'' 36 1,
    amg 3 ''eim'' 35 4,
    amg 4 ''jeim'' 38 1,
    amg 4 [CHR 0xC3, CHR 0xA1, CHR ''i'', CHR ''m''] 35 2,
    amg 4 [CHR 0xC3, CHR 0xA9, CHR ''i'', CHR ''m''] 35 3]"

definition g_v_hungarian :: "int list" where
  "g_v_hungarian = [17, 65, 16, 0, 0, 0, 0, 0, 0, 0, 0, 0, 0, 0, 0, 0, 1, 17, 52, 14]"

subsection \<open>Strings\<close>

definition s_0_hungarian :: "symbol list" where
  "s_0_hungarian = ''a''"

definition s_1_hungarian :: "symbol list" where
  "s_1_hungarian = ''e''"

definition s_2_hungarian :: "symbol list" where
  "s_2_hungarian = ''e''"

definition s_3_hungarian :: "symbol list" where
  "s_3_hungarian = ''a''"

definition s_4_hungarian :: "symbol list" where
  "s_4_hungarian = ''a''"

definition s_5_hungarian :: "symbol list" where
  "s_5_hungarian = ''a''"

definition s_6_hungarian :: "symbol list" where
  "s_6_hungarian = ''e''"

definition s_7_hungarian :: "symbol list" where
  "s_7_hungarian = ''a''"

definition s_8_hungarian :: "symbol list" where
  "s_8_hungarian = ''e''"

definition s_9_hungarian :: "symbol list" where
  "s_9_hungarian = ''e''"

definition s_10_hungarian :: "symbol list" where
  "s_10_hungarian = ''a''"

definition s_11_hungarian :: "symbol list" where
  "s_11_hungarian = ''e''"

definition s_12_hungarian :: "symbol list" where
  "s_12_hungarian = ''a''"

definition s_13_hungarian :: "symbol list" where
  "s_13_hungarian = ''e''"

definition s_14_hungarian :: "symbol list" where
  "s_14_hungarian = ''a''"

definition s_15_hungarian :: "symbol list" where
  "s_15_hungarian = ''e''"

definition s_16_hungarian :: "symbol list" where
  "s_16_hungarian = ''a''"

definition s_17_hungarian :: "symbol list" where
  "s_17_hungarian = ''e''"

definition s_18_hungarian :: "symbol list" where
  "s_18_hungarian = ''a''"

definition s_19_hungarian :: "symbol list" where
  "s_19_hungarian = ''e''"

definition s_20_hungarian :: "symbol list" where
  "s_20_hungarian = ''a''"

definition s_21_hungarian :: "symbol list" where
  "s_21_hungarian = ''e''"

definition s_22_hungarian :: "symbol list" where
  "s_22_hungarian = ''a''"

definition s_23_hungarian :: "symbol list" where
  "s_23_hungarian = ''e''"

definition s_24_hungarian :: "symbol list" where
  "s_24_hungarian = ''a''"

definition s_25_hungarian :: "symbol list" where
  "s_25_hungarian = ''e''"

definition s_26_hungarian :: "symbol list" where
  "s_26_hungarian = ''a''"

definition s_27_hungarian :: "symbol list" where
  "s_27_hungarian = ''e''"

definition s_28_hungarian :: "symbol list" where
  "s_28_hungarian = ''a''"

definition s_29_hungarian :: "symbol list" where
  "s_29_hungarian = ''e''"

definition s_30_hungarian :: "symbol list" where
  "s_30_hungarian = ''a''"

definition s_31_hungarian :: "symbol list" where
  "s_31_hungarian = ''e''"

definition s_32_hungarian :: "symbol list" where
  "s_32_hungarian = ''a''"

definition s_33_hungarian :: "symbol list" where
  "s_33_hungarian = ''e''"

definition s_34_hungarian :: "symbol list" where
  "s_34_hungarian = ''a''"

definition s_35_hungarian :: "symbol list" where
  "s_35_hungarian = ''e''"

subsection \<open>Code\<close>

definition r_mark_regions_hungarian :: "sn_func" where
  "r_mark_regions_hungarian = c_fun [
    set_I 0 z_l,
    c_upto 0 [
      c_let z_c (\<lambda>c1. c_block [
        c_upto 1 [
          when_true (in_grouping_U g_v_hungarian 97 252 0) (c_goto 1),
          when_neg (in_grouping_U g_v_hungarian 97 252 1) (c_goto 1),
          c_upto 2 [
            c_let z_c (\<lambda>c2. c_block [
              c_upto 3 [
                c_if (head_guard 1 (not_in_mask 3 101187584)) (c_goto 3),
                unless (find_among a_0_hungarian 8) (c_goto 3),
                c_goto 2],
              set_c (\<lambda>_. c2),
              move_to (skip_utf8_z (\<lambda>_. 0) z_l 1) (c_goto 1)])],
          set_I 0 z_c,
          c_goto 0],
        set_c (\<lambda>_. c1),
        when_true (out_grouping_U g_v_hungarian 97 252 0) (c_return 0),
        advance (out_grouping_U g_v_hungarian 97 252 1) (c_return 0),
        set_I 0 z_c])],
    c_return 1]"

definition r_R1_hungarian :: "sn_func" where
  "r_R1_hungarian = c_fun [
    c_if (on_I 0 (\<lambda>z i. \<not> i \<le> z_c z)) (c_return 0),
    c_return 1]"

definition r_v_ending_hungarian :: "sn_func" where
  "r_v_ending_hungarian = c_fun [
    set_ket z_c,
    c_if (tail_guard 1 (\<lambda>ch. ch \<noteq> 161 \<and> ch \<noteq> 169)) (c_return 0),
    c_call (find_among_b a_1_hungarian 2) (\<lambda>among_var. c_block [
      c_if (test (\<lambda>_. among_var = 0)) (c_return 0),
      set_bra z_c,
      routine r_R1_hungarian (c_return 0),
      c_switch among_var [
        (0, c_block [
          c_return 0]),
        (1, c_block [
          check (slice_from_s 1 s_0_hungarian),
          c_break]),
        (2, c_block [
          check (slice_from_s 1 s_1_hungarian),
          c_break])],
      c_return 1])]"

definition r_double_hungarian :: "sn_func" where
  "r_double_hungarian = c_fun [
    c_let (\<lambda>z. z_l z - z_c z) (\<lambda>m_test. c_block [
      c_if (tail_guard 1 (not_in_mask 3 106790108)) (c_return 0),
      unless (find_among_b a_2_hungarian 23) (c_return 0),
      set_c (\<lambda>z. z_l z - m_test)]),
    c_return 1]"

definition r_undouble_hungarian :: "sn_func" where
  "r_undouble_hungarian = c_fun [
    move_to (skip_utf8_z z_lb (\<lambda>_. 0) (- 1)) (c_return 0),
    set_ket z_c,
    move_to (skip_utf8_z z_lb z_l (- 1)) (c_return 0),
    set_bra z_c,
    check slice_del,
    c_return 1]"

definition r_instrum_hungarian :: "sn_func" where
  "r_instrum_hungarian = c_fun [
    set_ket z_c,
    c_if (tail_guard 1 (\<lambda>ch. ch \<noteq> 108)) (c_return 0),
    c_call (find_among_b a_3_hungarian 2) (\<lambda>among_var. c_block [
      c_if (test (\<lambda>_. among_var = 0)) (c_return 0),
      set_bra z_c,
      routine r_R1_hungarian (c_return 0),
      c_switch among_var [
        (0, c_block [
          c_return 0]),
        (1, c_block [
          routine r_double_hungarian (c_return 0),
          c_break]),
        (2, c_block [
          routine r_double_hungarian (c_return 0),
          c_break])],
      check slice_del,
      routine r_undouble_hungarian (c_return 0),
      c_return 1])]"

definition r_case_hungarian :: "sn_func" where
  "r_case_hungarian = c_fun [
    set_ket z_c,
    unless (find_among_b a_4_hungarian 44) (c_return 0),
    set_bra z_c,
    routine r_R1_hungarian (c_return 0),
    check slice_del,
    routine r_v_ending_hungarian (c_return 0),
    c_return 1]"

definition r_case_special_hungarian :: "sn_func" where
  "r_case_special_hungarian = c_fun [
    set_ket z_c,
    c_if (tail_guard 2 (\<lambda>ch. ch \<noteq> 110 \<and> ch \<noteq> 116)) (c_return 0),
    c_call (find_among_b a_5_hungarian 3) (\<lambda>among_var. c_block [
      c_if (test (\<lambda>_. among_var = 0)) (c_return 0),
      set_bra z_c,
      routine r_R1_hungarian (c_return 0),
      c_switch among_var [
        (0, c_block [
          c_return 0]),
        (1, c_block [
          check (slice_from_s 1 s_2_hungarian),
          c_break]),
        (2, c_block [
          check (slice_from_s 1 s_3_hungarian),
          c_break]),
        (3, c_block [
          check (slice_from_s 1 s_4_hungarian),
          c_break])],
      c_return 1])]"

definition r_case_other_hungarian :: "sn_func" where
  "r_case_other_hungarian = c_fun [
    set_ket z_c,
    c_if (tail_guard 3 (\<lambda>ch. ch \<noteq> 108)) (c_return 0),
    c_call (find_among_b a_6_hungarian 6) (\<lambda>among_var. c_block [
      c_if (test (\<lambda>_. among_var = 0)) (c_return 0),
      set_bra z_c,
      routine r_R1_hungarian (c_return 0),
      c_switch among_var [
        (0, c_block [
          c_return 0]),
        (1, c_block [
          check slice_del,
          c_break]),
        (2, c_block [
          check slice_del,
          c_break]),
        (3, c_block [
          check (slice_from_s 1 s_5_hungarian),
          c_break]),
        (4, c_block [
          check (slice_from_s 1 s_6_hungarian),
          c_break])],
      c_return 1])]"

definition r_factive_hungarian :: "sn_func" where
  "r_factive_hungarian = c_fun [
    set_ket z_c,
    c_if (tail_guard 1 (\<lambda>ch. ch \<noteq> 161 \<and> ch \<noteq> 169)) (c_return 0),
    c_call (find_among_b a_7_hungarian 2) (\<lambda>among_var. c_block [
      c_if (test (\<lambda>_. among_var = 0)) (c_return 0),
      set_bra z_c,
      routine r_R1_hungarian (c_return 0),
      c_switch among_var [
        (0, c_block [
          c_return 0]),
        (1, c_block [
          routine r_double_hungarian (c_return 0),
          c_break]),
        (2, c_block [
          routine r_double_hungarian (c_return 0),
          c_break])],
      check slice_del,
      routine r_undouble_hungarian (c_return 0),
      c_return 1])]"

definition r_plural_hungarian :: "sn_func" where
  "r_plural_hungarian = c_fun [
    set_ket z_c,
    c_if (tail_guard 0 (\<lambda>ch. ch \<noteq> 107)) (c_return 0),
    c_call (find_among_b a_8_hungarian 7) (\<lambda>among_var. c_block [
      c_if (test (\<lambda>_. among_var = 0)) (c_return 0),
      set_bra z_c,
      routine r_R1_hungarian (c_return 0),
      c_switch among_var [
        (0, c_block [
          c_return 0]),
        (1, c_block [
          check (slice_from_s 1 s_7_hungarian),
          c_break]),
        (2, c_block [
          check (slice_from_s 1 s_8_hungarian),
          c_break]),
        (3, c_block [
          check slice_del,
          c_break]),
        (4, c_block [
          check slice_del,
          c_break]),
        (5, c_block [
          check slice_del,
          c_break]),
        (6, c_block [
          check slice_del,
          c_break]),
        (7, c_block [
          check slice_del,
          c_break])],
      c_return 1])]"

definition r_owned_hungarian :: "sn_func" where
  "r_owned_hungarian = c_fun [
    set_ket z_c,
    c_if (tail_guard 1 (\<lambda>ch. ch \<noteq> 105 \<and> ch \<noteq> 169)) (c_return 0),
    c_call (find_among_b a_9_hungarian 12) (\<lambda>among_var. c_block [
      c_if (test (\<lambda>_. among_var = 0)) (c_return 0),
      set_bra z_c,
      routine r_R1_hungarian (c_return 0),
      c_switch among_var [
        (0, c_block [
          c_return 0]),
        (1, c_block [
          check slice_del,
          c_break]),
        (2, c_block [
          check (slice_from_s 1 s_9_hungarian),
          c_break]),
        (3, c_block [
          check (slice_from_s 1 s_10_hungarian),
          c_break]),
        (4, c_block [
          check slice_del,
          c_break]),
        (5, c_block [
          check (slice_from_s 1 s_11_hungarian),
          c_break]),
        (6, c_block [
          check (slice_from_s 1 s_12_hungarian),
          c_break]),
        (7, c_block [
          check slice_del,
          c_break]),
        (8, c_block [
          check (slice_from_s 1 s_13_hungarian),
          c_break]),
        (9, c_block [
          check slice_del,
          c_break])],
      c_return 1])]"

definition r_sing_owner_hungarian :: "sn_func" where
  "r_sing_owner_hungarian = c_fun [
    set_ket z_c,
    c_call (find_among_b a_10_hungarian 31) (\<lambda>among_var. c_block [
      c_if (test (\<lambda>_. among_var = 0)) (c_return 0),
      set_bra z_c,
      routine r_R1_hungarian (c_return 0),
      c_switch among_var [
        (0, c_block [
          c_return 0]),
        (1, c_block [
          check slice_del,
          c_break]),
        (2, c_block [
          check (slice_from_s 1 s_14_hungarian),
          c_break]),
        (3, c_block [
          check (slice_from_s 1 s_15_hungarian),
          c_break]),
        (4, c_block [
          check slice_del,
          c_break]),
        (5, c_block [
          check (slice_from_s 1 s_16_hungarian),
          c_break]),
        (6, c_block [
          check (slice_from_s 1 s_17_hungarian),
          c_break]),
        (7, c_block [
          check slice_del,
          c_break]),
        (8, c_block [
          check slice_del,
          c_break]),
        (9, c_block [
          check slice_del,
          c_break]),
        (10, c_block [
          check (slice_from_s 1 s_18_hungarian),
          c_break]),
        (11, c_block [
          check (slice_from_s 1 s_19_hungarian),
          c_break]),
        (12, c_block [
          check slice_del,
          c_break]),
        (13, c_block [
          check slice_del,
          c_break]),
        (14, c_block [
          check (slice_from_s 1 s_20_hungarian),
          c_break]),
        (15, c_block [
          check (slice_from_s 1 s_21_hungarian),
          c_break]),
        (16, c_block [
          check slice_del,
          c_break]),
        (17, c_block [
          check slice_del,
          c_break]),
        (18, c_block [
          check slice_del,
          c_break]),
        (19, c_block [
          check (slice_from_s 1 s_22_hungarian),
          c_break]),
        (20, c_block [
          check (slice_from_s 1 s_23_hungarian),
          c_break])],
      c_return 1])]"

definition r_plur_owner_hungarian :: "sn_func" where
  "r_plur_owner_hungarian = c_fun [
    set_ket z_c,
    c_if (tail_guard 0 (not_in_mask 3 10768)) (c_return 0),
    c_call (find_among_b a_11_hungarian 42) (\<lambda>among_var. c_block [
      c_if (test (\<lambda>_. among_var = 0)) (c_return 0),
      set_bra z_c,
      routine r_R1_hungarian (c_return 0),
      c_switch among_var [
        (0, c_block [
          c_return 0]),
        (1, c_block [
          check slice_del,
          c_break]),
        (2, c_block [
          check (slice_from_s 1 s_24_hungarian),
          c_break]),
        (3, c_block [
          check (slice_from_s 1 s_25_hungarian),
          c_break]),
        (4, c_block [
          check slice_del,
          c_break]),
        (5, c_block [
          check slice_del,
          c_break]),
        (6, c_block [
          check slice_del,
          c_break]),
        (7, c_block [
          check (slice_from_s 1 s_26_hungarian),
          c_break]),
        (8, c_block [
          check (slice_from_s 1 s_27_hungarian),
          c_break]),
        (9, c_block [
          check slice_del,
          c_break]),
        (10, c_block [
          check slice_del,
          c_break]),
        (11, c_block [
          check slice_del,
          c_break]),
        (12, c_block [
          check (slice_from_s 1 s_28_hungarian),
          c_break]),
        (13, c_block [
          check (slice_from_s 1 s_29_hungarian),
          c_break]),
        (14, c_block [
          check slice_del,
          c_break]),
        (15, c_block [
          check slice_del,
          c_break]),
        (16, c_block [
          check slice_del,
          c_break]),
        (17, c_block [
          check slice_del,
          c_break]),
        (18, c_block [
          check (slice_from_s 1 s_30_hungarian),
          c_break]),
        (19, c_block [
          check (slice_from_s 1 s_31_hungarian),
          c_break]),
        (20, c_block [
          check slice_del,
          c_break]),
        (21, c_block [
          check slice_del,
          c_break]),
        (22, c_block [
          check (slice_from_s 1 s_32_hungarian),
          c_break]),
        (23, c_block [
          check (slice_from_s 1 s_33_hungarian),
          c_break]),
        (24, c_block [
          check slice_del,
          c_break]),
        (25, c_block [
          check slice_del,
          c_break]),
        (26, c_block [
          check slice_del,
          c_break]),
        (27, c_block [
          check (slice_from_s 1 s_34_hungarian),
          c_break]),
        (28, c_block [
          check (slice_from_s 1 s_35_hungarian),
          c_break]),
        (29, c_block [
          check slice_del,
          c_break])],
      c_return 1])]"

definition hungarian_UTF_8_stem :: "sn_func" where
  "hungarian_UTF_8_stem = c_fun [
    try_f 0 r_mark_regions_hungarian,
    set_lb z_c,
    set_c z_l,
    try_b 1 r_instrum_hungarian,
    try_b 2 r_case_hungarian,
    try_b 3 r_case_special_hungarian,
    try_b 4 r_case_other_hungarian,
    try_b 5 r_factive_hungarian,
    try_b 6 r_owned_hungarian,
    try_b 7 r_sing_owner_hungarian,
    try_b 8 r_plur_owner_hungarian,
    try_b 9 r_plural_hungarian,
    set_c z_lb,
    c_return 1]"

definition hungarian_UTF_8_create_env :: "env_create" where
  "hungarian_UTF_8_create_env = SN_create_env 0 1 0"

definition hungarian_UTF_8_close_env :: "env_close" where
  "hungarian_UTF_8_close_env z = SN_close_env z 0"

subsection \<open>Facts on the tables\<close>

lemma tables_hungarian [simp]:
  "table_f a_0_hungarian" "table_b a_1_hungarian" "table_b a_2_hungarian" "table_b a_3_hungarian"
  "table_b a_4_hungarian" "table_b a_5_hungarian" "table_b a_6_hungarian" "table_b a_7_hungarian"
  "table_b a_8_hungarian" "table_b a_9_hungarian" "table_b a_10_hungarian"
  "table_b a_11_hungarian"
  by (rule table_sound, code_simp, code_simp)+

lemma length_tables_hungarian [simp]:
  "length a_0_hungarian = 8" "length a_1_hungarian = 2" "length a_2_hungarian = 23"
  "length a_3_hungarian = 2" "length a_4_hungarian = 44" "length a_5_hungarian = 3"
  "length a_6_hungarian = 6" "length a_7_hungarian = 2" "length a_8_hungarian = 7"
  "length a_9_hungarian = 12" "length a_10_hungarian = 31" "length a_11_hungarian = 42"
  by code_simp+

lemma least_hungarian [simp]:
  "least a_0_hungarian (- 1) = 2" "least a_1_hungarian 1 = 2" "least a_1_hungarian 2 = 2"
  "least a_2_hungarian (- 1) = 2" "least a_3_hungarian 1 = 2" "least a_3_hungarian 2 = 2"
  "least a_4_hungarian (- 1) = 1" "least a_5_hungarian 1 = 3" "least a_5_hungarian 2 = 3"
  "least a_5_hungarian 3 = 8" "least a_6_hungarian 1 = 5" "least a_6_hungarian 2 = 4"
  "least a_6_hungarian 3 = 6" "least a_6_hungarian 4 = 7" "least a_7_hungarian 1 = 2"
  "least a_7_hungarian 2 = 2" "least a_8_hungarian 1 = 3" "least a_8_hungarian 2 = 3"
  "least a_8_hungarian 3 = 3" "least a_8_hungarian 4 = 2" "least a_8_hungarian 5 = 2"
  "least a_8_hungarian 6 = 2" "least a_8_hungarian 7 = 1" "least a_9_hungarian 1 = 4"
  "least a_9_hungarian 2 = 5" "least a_9_hungarian 3 = 5" "least a_9_hungarian 4 = 3"
  "least a_9_hungarian 5 = 5" "least a_9_hungarian 6 = 5" "least a_9_hungarian 7 = 3"
  "least a_9_hungarian 8 = 4" "least a_9_hungarian 9 = 2" "least a_10_hungarian 1 = 3"
  "least a_10_hungarian 10 = 3" "least a_10_hungarian 11 = 3" "least a_10_hungarian 12 = 1"
  "least a_10_hungarian 13 = 2" "least a_10_hungarian 14 = 3" "least a_10_hungarian 15 = 3"
  "least a_10_hungarian 16 = 1" "least a_10_hungarian 17 = 2" "least a_10_hungarian 18 = 1"
  "least a_10_hungarian 19 = 2" "least a_10_hungarian 2 = 4" "least a_10_hungarian 20 = 2"
  "least a_10_hungarian 3 = 4" "least a_10_hungarian 4 = 2" "least a_10_hungarian 5 = 5"
  "least a_10_hungarian 6 = 6" "least a_10_hungarian 7 = 3" "least a_10_hungarian 8 = 2"
  "least a_10_hungarian 9 = 2" "least a_11_hungarian 1 = 4" "least a_11_hungarian 10 = 2"
  "least a_11_hungarian 11 = 3" "least a_11_hungarian 12 = 3" "least a_11_hungarian 13 = 3"
  "least a_11_hungarian 14 = 2" "least a_11_hungarian 15 = 1" "least a_11_hungarian 16 = 5"
  "least a_11_hungarian 17 = 4" "least a_11_hungarian 18 = 5" "least a_11_hungarian 19 = 5"
  "least a_11_hungarian 2 = 4" "least a_11_hungarian 20 = 3" "least a_11_hungarian 21 = 5"
  "least a_11_hungarian 22 = 6" "least a_11_hungarian 23 = 6" "least a_11_hungarian 24 = 4"
  "least a_11_hungarian 25 = 4" "least a_11_hungarian 26 = 3" "least a_11_hungarian 27 = 4"
  "least a_11_hungarian 28 = 4" "least a_11_hungarian 29 = 2" "least a_11_hungarian 3 = 4"
  "least a_11_hungarian 4 = 3" "least a_11_hungarian 5 = 2" "least a_11_hungarian 6 = 4"
  "least a_11_hungarian 7 = 4" "least a_11_hungarian 8 = 4" "least a_11_hungarian 9 = 3"
  by code_simp+

lemma has_hungarian [simp]:
  "has a_0_hungarian r \<longleftrightarrow> r = (- 1)"
  "has a_2_hungarian r \<longleftrightarrow> r = (- 1)"
  "has a_4_hungarian r \<longleftrightarrow> r = (- 1)"
  by (auto simp: has_def a_0_hungarian_def a_2_hungarian_def a_4_hungarian_def)

lemma lengths_hungarian [simp]:
  "length s_0_hungarian = 1" "length s_1_hungarian = 1" "length s_2_hungarian = 1"
  "length s_3_hungarian = 1" "length s_4_hungarian = 1" "length s_5_hungarian = 1"
  "length s_6_hungarian = 1" "length s_7_hungarian = 1" "length s_8_hungarian = 1"
  "length s_9_hungarian = 1" "length s_10_hungarian = 1" "length s_11_hungarian = 1"
  "length s_12_hungarian = 1" "length s_13_hungarian = 1" "length s_14_hungarian = 1"
  "length s_15_hungarian = 1" "length s_16_hungarian = 1" "length s_17_hungarian = 1"
  "length s_18_hungarian = 1" "length s_19_hungarian = 1" "length s_20_hungarian = 1"
  "length s_21_hungarian = 1" "length s_22_hungarian = 1" "length s_23_hungarian = 1"
  "length s_24_hungarian = 1" "length s_25_hungarian = 1" "length s_26_hungarian = 1"
  "length s_27_hungarian = 1" "length s_28_hungarian = 1" "length s_29_hungarian = 1"
  "length s_30_hungarian = 1" "length s_31_hungarian = 1" "length s_32_hungarian = 1"
  "length s_33_hungarian = 1" "length s_34_hungarian = 1" "length s_35_hungarian = 1"
  by code_simp+

lemma covers_hungarian [simp]:
  "covers g_v_hungarian 97 252"
  by code_simp+

subsection \<open>Routines\<close>

lemma r_mark_regions_hungarian_wp:
  assumes "in_window z" "length (z_I z) = 1" "\<And>r z'. 0 \<le> r \<Longrightarrow> marked z (z'\<lparr>z_c := z_c z\<rparr>) \<Longrightarrow> Q r z'"
  shows "wpf r_mark_regions_hungarian Q z"
  using assms unfolding r_mark_regions_hungarian_def in_window_def
  by (auto intro!: win_intro simp: marked_iff)

lemma r_R1_hungarian_wp [simp]:
  "length (z_I z) = 1 \<Longrightarrow> wpf r_R1_hungarian Q z \<longleftrightarrow> Q (if z_I z ! 0 \<le> z_c z then 1 else 0) z"
  unfolding r_R1_hungarian_def by simp

lemma r_double_hungarian_wp [win_intro]:
  assumes "wf_env z" "0 \<le> z_lb z" "z_lb z \<le> z_c z" "z_c z \<le> z_l z"
    and "Q 1 z" "\<And>c'. z_lb z \<le> c' \<Longrightarrow> c' \<le> z_c z \<Longrightarrow> Q 0 (z\<lparr>z_c := c'\<rparr>)"
  shows "wpf r_double_hungarian Q z"
  using assms(6) [of "z_c z"] assms unfolding r_double_hungarian_def
  by (auto intro!: win_intro)

lemma r_v_ending_hungarian_steps:
  assumes "in_window z" "length (z_I z) = 1"
  shows "wpf r_v_ending_hungarian (stepped z) z"
  using assms unfolding r_v_ending_hungarian_def in_window_def
  by (auto intro!: win_intro safe_intro simp: step_defs)

lemma r_undouble_hungarian_steps:
  assumes "in_window z" "length (z_I z) = 1"
  shows "wpf r_undouble_hungarian (stepped z) z"
  using assms unfolding r_undouble_hungarian_def in_window_def
  by (auto intro!: win_intro safe_intro simp: step_defs)

lemma r_instrum_hungarian_steps:
  assumes "in_window z" "length (z_I z) = 1"
  shows "wpf r_instrum_hungarian (stepped z) z"
  using assms unfolding r_instrum_hungarian_def in_window_def
  by (auto intro!: stepped_wp [OF r_undouble_hungarian_steps] win_intro safe_intro simp: step_defs)

lemma r_factive_hungarian_steps:
  assumes "in_window z" "length (z_I z) = 1"
  shows "wpf r_factive_hungarian (stepped z) z"
  using assms unfolding r_factive_hungarian_def in_window_def
  by (auto intro!: stepped_wp [OF r_undouble_hungarian_steps] win_intro safe_intro simp: step_defs)

lemma r_case_hungarian_steps:
  assumes "in_window z" "length (z_I z) = 1"
  shows "wpf r_case_hungarian (stepped z) z"
  using assms unfolding r_case_hungarian_def in_window_def
  by (auto intro!: stepped_wp [OF r_v_ending_hungarian_steps] win_intro safe_intro simp: step_defs)

lemma r_case_special_hungarian_steps:
  assumes "in_window z" "length (z_I z) = 1"
  shows "wpf r_case_special_hungarian (stepped z) z"
  using assms unfolding r_case_special_hungarian_def in_window_def
  by (auto intro!: win_intro safe_intro simp: step_defs)

lemma r_case_other_hungarian_steps:
  assumes "in_window z" "length (z_I z) = 1"
  shows "wpf r_case_other_hungarian (stepped z) z"
  using assms unfolding r_case_other_hungarian_def in_window_def
  by (auto intro!: win_intro safe_intro simp: step_defs)

lemma r_plural_hungarian_steps:
  assumes "in_window z" "length (z_I z) = 1"
  shows "wpf r_plural_hungarian (stepped z) z"
  using assms unfolding r_plural_hungarian_def in_window_def
  by (auto intro!: win_intro safe_intro simp: step_defs)

lemma r_owned_hungarian_steps:
  assumes "in_window z" "length (z_I z) = 1"
  shows "wpf r_owned_hungarian (stepped z) z"
  using assms unfolding r_owned_hungarian_def in_window_def
  by (auto intro!: win_intro safe_intro simp: step_defs)

lemma r_sing_owner_hungarian_steps:
  assumes "in_window z" "length (z_I z) = 1"
  shows "wpf r_sing_owner_hungarian (stepped z) z"
  using assms unfolding r_sing_owner_hungarian_def in_window_def
  by (auto intro!: win_intro safe_intro simp: step_defs)

lemma r_plur_owner_hungarian_steps:
  assumes "in_window z" "length (z_I z) = 1"
  shows "wpf r_plur_owner_hungarian (stepped z) z"
  using assms unfolding r_plur_owner_hungarian_def in_window_def
  by (auto intro!: win_intro safe_intro simp: step_defs)

lemmas hungarian_routine_steps = r_instrum_hungarian_steps r_case_hungarian_steps r_case_special_hungarian_steps r_case_other_hungarian_steps r_factive_hungarian_steps
  r_owned_hungarian_steps r_sing_owner_hungarian_steps r_plur_owner_hungarian_steps r_plural_hungarian_steps

subsection \<open>The stemmer\<close>

lemma hungarian_stem_steps:
  assumes "in_window z" "z_c z = 0" "strs_ok (z_S z)" "length (z_I z) = 1"
  shows "wpf hungarian_UTF_8_stem (fitted z) z"
  unfolding hungarian_UTF_8_stem_def wpf_fun
  apply (rule wp_cut [where n = 3 and J = "at_end any_marks z"], simp, simp)
  subgoal using assms by (auto intro!: r_mark_regions_hungarian_wp simp: step_defs fits_def at_end_def marked_iff)
  apply (erule wp_stage [where n = 9 and J' = "at_end any_marks z"], simp, simp)
  subgoal using assms by (auto intro!: wp_try_at_end [where orig = z and P = any_marks] hungarian_routine_steps)
  subgoal using assms by (auto simp: step_defs fits_def at_end_def fitted_def)
  done

interpretation hungarian: steady_stemmer hungarian_UTF_8_stem 1 0
  by unfold_locales (auto intro!: wpf_mono [OF hungarian_stem_steps])

end
