(* ===== verification/French.thy ===== *)
theory French
  imports Libstemmer
begin

text \<open>
  The French stemmer (\<^verbatim>\<open>src_c/stem_UTF_8_french.c\<close>), statement by statement, with the proof that it
  is a \<open>steady_stemmer\<close>. One of its steps writes three bytes over two, but only after longer endings
  have been deleted, so that the text still fits its buffer; one of its loops counts its rounds.
\<close>

subsection \<open>Tables\<close>

definition a_0_french :: "among list" where
  "a_0_french = [
    amg 3 ''col'' (- 1) (- 1),
    amg 3 ''par'' (- 1) (- 1),
    amg 3 ''tap'' (- 1) (- 1)]"

definition a_1_french :: "among list" where
  "a_1_french = [
    amg 0 [] (- 1) 4,
    amg 1 ''I'' 0 1,
    amg 1 ''U'' 0 2,
    amg 1 ''Y'' 0 3]"

definition a_2_french :: "among list" where
  "a_2_french = [
    amg 3 ''iqU'' (- 1) 3,
    amg 3 ''abl'' (- 1) 3,
    amg 4 [CHR ''I'', CHR 0xC3, CHR 0xA8, CHR ''r''] (- 1) 4,
    amg 4 [CHR ''i'', CHR 0xC3, CHR 0xA8, CHR ''r''] (- 1) 4,
    amg 3 ''eus'' (- 1) 2,
    amg 2 ''iv'' (- 1) 1]"

definition a_3_french :: "among list" where
  "a_3_french = [
    amg 2 ''ic'' (- 1) 2,
    amg 4 ''abil'' (- 1) 1,
    amg 2 ''iv'' (- 1) 3]"

definition a_4_french :: "among list" where
  "a_4_french = [
    amg 4 ''iqUe'' (- 1) 1,
    amg 6 ''atrice'' (- 1) 2,
    amg 4 ''ance'' (- 1) 1,
    amg 4 ''ence'' (- 1) 5,
    amg 5 ''logie'' (- 1) 3,
    amg 4 ''able'' (- 1) 1,
    amg 4 ''isme'' (- 1) 1,
    amg 4 ''euse'' (- 1) 11,
    amg 4 ''iste'' (- 1) 1,
    amg 3 ''ive'' (- 1) 8,
    amg 2 ''if'' (- 1) 8,
    amg 5 ''usion'' (- 1) 4,
    amg 5 ''ation'' (- 1) 2,
    amg 5 ''ution'' (- 1) 4,
    amg 5 ''ateur'' (- 1) 2,
    amg 5 ''iqUes'' (- 1) 1,
    amg 7 ''atrices'' (- 1) 2,
    amg 5 ''ances'' (- 1) 1,
    amg 5 ''ences'' (- 1) 5,
    amg 6 ''logies'' (- 1) 3,
    amg 5 ''ables'' (- 1) 1,
    amg 5 ''ismes'' (- 1) 1,
    amg 5 ''euses'' (- 1) 11,
    amg 5 ''istes'' (- 1) 1,
    amg 4 ''ives'' (- 1) 8,
    amg 3 ''ifs'' (- 1) 8,
    amg 6 ''usions'' (- 1) 4,
    amg 6 ''ations'' (- 1) 2,
    amg 6 ''utions'' (- 1) 4,
    amg 6 ''ateurs'' (- 1) 2,
    amg 5 ''ments'' (- 1) 15,
    amg 6 ''ements'' 30 6,
    amg 9 ''issements'' 31 12,
    amg 5 [CHR ''i'', CHR ''t'', CHR 0xC3, CHR 0xA9, CHR ''s''] (- 1) 7,
    amg 4 ''ment'' (- 1) 15,
    amg 5 ''ement'' 34 6,
    amg 8 ''issement'' 35 12,
    amg 6 ''amment'' 34 13,
    amg 6 ''emment'' 34 14,
    amg 3 ''aux'' (- 1) 10,
    amg 4 ''eaux'' 39 9,
    amg 3 ''eux'' (- 1) 1,
    amg 4 [CHR ''i'', CHR ''t'', CHR 0xC3, CHR 0xA9] (- 1) 7]"

definition a_5_french :: "among list" where
  "a_5_french = [
    amg 3 ''ira'' (- 1) 1,
    amg 2 ''ie'' (- 1) 1,
    amg 4 ''isse'' (- 1) 1,
    amg 7 ''issante'' (- 1) 1,
    amg 1 ''i'' (- 1) 1,
    amg 4 ''irai'' 4 1,
    amg 2 ''ir'' (- 1) 1,
    amg 4 ''iras'' (- 1) 1,
    amg 3 ''ies'' (- 1) 1,
    amg 5 [CHR 0xC3, CHR 0xAE, CHR ''m'', CHR ''e'', CHR ''s''] (- 1) 1,
    amg 5 ''isses'' (- 1) 1,
    amg 8 ''issantes'' (- 1) 1,
    amg 5 [CHR 0xC3, CHR 0xAE, CHR ''t'', CHR ''e'', CHR ''s''] (- 1) 1,
    amg 2 ''is'' (- 1) 1,
    amg 5 ''irais'' 13 1,
    amg 6 ''issais'' 13 1,
    amg 6 ''irions'' (- 1) 1,
    amg 7 ''issions'' (- 1) 1,
    amg 5 ''irons'' (- 1) 1,
    amg 6 ''issons'' (- 1) 1,
    amg 7 ''issants'' (- 1) 1,
    amg 2 ''it'' (- 1) 1,
    amg 5 ''irait'' 21 1,
    amg 6 ''issait'' 21 1,
    amg 6 ''issant'' (- 1) 1,
    amg 7 ''iraIent'' (- 1) 1,
    amg 8 ''issaIent'' (- 1) 1,
    amg 5 ''irent'' (- 1) 1,
    amg 6 ''issent'' (- 1) 1,
    amg 5 ''iront'' (- 1) 1,
    amg 3 [CHR 0xC3, CHR 0xAE, CHR ''t''] (- 1) 1,
    amg 5 ''iriez'' (- 1) 1,
    amg 6 ''issiez'' (- 1) 1,
    amg 4 ''irez'' (- 1) 1,
    amg 5 ''issez'' (- 1) 1]"

definition a_6_french :: "among list" where
  "a_6_french = [
    amg 1 ''a'' (- 1) 3,
    amg 3 ''era'' 0 2,
    amg 4 ''asse'' (- 1) 3,
    amg 4 ''ante'' (- 1) 3,
    amg 3 [CHR 0xC3, CHR 0xA9, CHR ''e''] (- 1) 2,
    amg 2 ''ai'' (- 1) 3,
    amg 4 ''erai'' 5 2,
    amg 2 ''er'' (- 1) 2,
    amg 2 ''as'' (- 1) 3,
    amg 4 ''eras'' 8 2,
    amg 5 [CHR 0xC3, CHR 0xA2, CHR ''m'', CHR ''e'', CHR ''s''] (- 1) 3,
    amg 5 ''asses'' (- 1) 3,
    amg 5 ''antes'' (- 1) 3,
    amg 5 [CHR 0xC3, CHR 0xA2, CHR ''t'', CHR ''e'', CHR ''s''] (- 1) 3,
    amg 4 [CHR 0xC3, CHR 0xA9, CHR ''e'', CHR ''s''] (- 1) 2,
    amg 3 ''ais'' (- 1) 3,
    amg 5 ''erais'' 15 2,
    amg 4 ''ions'' (- 1) 1,
    amg 6 ''erions'' 17 2,
    amg 7 ''assions'' 17 3,
    amg 5 ''erons'' (- 1) 2,
    amg 4 ''ants'' (- 1) 3,
    amg 3 [CHR 0xC3, CHR 0xA9, CHR ''s''] (- 1) 2,
    amg 3 ''ait'' (- 1) 3,
    amg 5 ''erait'' 23 2,
    amg 3 ''ant'' (- 1) 3,
    amg 5 ''aIent'' (- 1) 3,
    amg 7 ''eraIent'' 26 2,
    amg 6 [CHR 0xC3, CHR 0xA8, CHR ''r'', CHR ''e'', CHR ''n'', CHR ''t''] (- 1) 2,
    amg 6 ''assent'' (- 1) 3,
    amg 5 ''eront'' (- 1) 2,
    amg 3 [CHR 0xC3, CHR 0xA2, CHR ''t''] (- 1) 3,
    amg 2 ''ez'' (- 1) 2,
    amg 3 ''iez'' 32 2,
    amg 5 ''eriez'' 33 2,
    amg 6 ''assiez'' 33 3,
    amg 4 ''erez'' 32 2,
    amg 2 [CHR 0xC3, CHR 0xA9] (- 1) 2]"

definition a_7_french :: "among list" where
  "a_7_french = [
    amg 1 ''e'' (- 1) 3,
    amg 5 [CHR ''I'', CHR 0xC3, CHR 0xA8, CHR ''r'', CHR ''e''] 0 2,
    amg 5 [CHR ''i'', CHR 0xC3, CHR 0xA8, CHR ''r'', CHR ''e''] 0 2,
    amg 3 ''ion'' (- 1) 1,
    amg 3 ''Ier'' (- 1) 2,
    amg 3 ''ier'' (- 1) 2,
    amg 2 [CHR 0xC3, CHR 0xAB] (- 1) 4]"

definition a_8_french :: "among list" where
  "a_8_french = [
    amg 3 ''ell'' (- 1) (- 1),
    amg 4 ''eill'' (- 1) (- 1),
    amg 3 ''enn'' (- 1) (- 1),
    amg 3 ''onn'' (- 1) (- 1),
    amg 3 ''ett'' (- 1) (- 1)]"

definition g_v_french :: "int list" where
  "g_v_french = [17, 65, 16, 1, 0, 0, 0, 0, 0, 0, 0, 0, 0, 0, 0, 128, 130, 103, 8, 5]"

definition g_keep_with_s_french :: "int list" where
  "g_keep_with_s_french = [1, 65, 20, 0, 0, 0, 0, 0, 0, 0, 0, 0, 0, 0, 0, 0, 128]"

subsection \<open>Strings\<close>

definition s_0_french :: "symbol list" where
  "s_0_french = ''u''"

definition s_1_french :: "symbol list" where
  "s_1_french = ''U''"

definition s_2_french :: "symbol list" where
  "s_2_french = ''i''"

definition s_3_french :: "symbol list" where
  "s_3_french = ''I''"

definition s_4_french :: "symbol list" where
  "s_4_french = ''y''"

definition s_5_french :: "symbol list" where
  "s_5_french = ''Y''"

definition s_6_french :: "symbol list" where
  "s_6_french = ''y''"

definition s_7_french :: "symbol list" where
  "s_7_french = ''Y''"

definition s_8_french :: "symbol list" where
  "s_8_french = ''q''"

definition s_9_french :: "symbol list" where
  "s_9_french = ''u''"

definition s_10_french :: "symbol list" where
  "s_10_french = ''U''"

definition s_11_french :: "symbol list" where
  "s_11_french = ''i''"

definition s_12_french :: "symbol list" where
  "s_12_french = ''u''"

definition s_13_french :: "symbol list" where
  "s_13_french = ''y''"

definition s_14_french :: "symbol list" where
  "s_14_french = ''ic''"

definition s_15_french :: "symbol list" where
  "s_15_french = ''iqU''"

definition s_16_french :: "symbol list" where
  "s_16_french = ''log''"

definition s_17_french :: "symbol list" where
  "s_17_french = ''u''"

definition s_18_french :: "symbol list" where
  "s_18_french = ''ent''"

definition s_19_french :: "symbol list" where
  "s_19_french = ''at''"

definition s_20_french :: "symbol list" where
  "s_20_french = ''eux''"

definition s_21_french :: "symbol list" where
  "s_21_french = ''i''"

definition s_22_french :: "symbol list" where
  "s_22_french = ''abl''"

definition s_23_french :: "symbol list" where
  "s_23_french = ''iqU''"

definition s_24_french :: "symbol list" where
  "s_24_french = ''at''"

definition s_25_french :: "symbol list" where
  "s_25_french = ''ic''"

definition s_26_french :: "symbol list" where
  "s_26_french = ''iqU''"

definition s_27_french :: "symbol list" where
  "s_27_french = ''eau''"

definition s_28_french :: "symbol list" where
  "s_28_french = ''al''"

definition s_29_french :: "symbol list" where
  "s_29_french = ''eux''"

definition s_30_french :: "symbol list" where
  "s_30_french = ''ant''"

definition s_31_french :: "symbol list" where
  "s_31_french = ''ent''"

definition s_32_french :: "symbol list" where
  "s_32_french = ''e''"

definition s_33_french :: "symbol list" where
  "s_33_french = ''s''"

definition s_34_french :: "symbol list" where
  "s_34_french = ''s''"

definition s_35_french :: "symbol list" where
  "s_35_french = ''t''"

definition s_36_french :: "symbol list" where
  "s_36_french = ''i''"

definition s_37_french :: "symbol list" where
  "s_37_french = ''gu''"

definition s_38_french :: "symbol list" where
  "s_38_french = [CHR 0xC3, CHR 0xA9]"

definition s_39_french :: "symbol list" where
  "s_39_french = [CHR 0xC3, CHR 0xA8]"

definition s_40_french :: "symbol list" where
  "s_40_french = ''e''"

definition s_41_french :: "symbol list" where
  "s_41_french = ''Y''"

definition s_42_french :: "symbol list" where
  "s_42_french = ''i''"

definition s_43_french :: "symbol list" where
  "s_43_french = [CHR 0xC3, CHR 0xA7]"

definition s_44_french :: "symbol list" where
  "s_44_french = ''c''"

subsection \<open>Code\<close>

definition r_prelude_french_while1 :: "sn_cmd" where
  "r_prelude_french_while1 = c_while1 (c_block [
      c_let z_c (\<lambda>c2. c_block [
        c_upto 1 [
          c_upto 2 [
            c_let z_c (\<lambda>c3. c_block [
              c_upto 3 [
                when_true (in_grouping_U g_v_french 97 251 0) (c_goto 3),
                set_bra z_c,
                c_upto 4 [
                  c_let z_c (\<lambda>c4. c_block [
                    c_upto 5 [
                      unless (eq_s 1 s_0_french) (c_goto 5),
                      set_ket z_c,
                      when_true (in_grouping_U g_v_french 97 251 0) (c_goto 5),
                      check (slice_from_s 1 s_1_french),
                      c_goto 4],
                    set_c (\<lambda>_. c4),
                    c_upto 6 [
                      unless (eq_s 1 s_2_french) (c_goto 6),
                      set_ket z_c,
                      when_true (in_grouping_U g_v_french 97 251 0) (c_goto 6),
                      check (slice_from_s 1 s_3_french),
                      c_goto 4],
                    set_c (\<lambda>_. c4),
                    unless (eq_s 1 s_4_french) (c_goto 3),
                    set_ket z_c,
                    check (slice_from_s 1 s_5_french)])],
                c_goto 2],
              set_c (\<lambda>_. c3),
              set_bra z_c,
              c_upto 7 [
                unless (eq_s 1 s_6_french) (c_goto 7),
                set_ket z_c,
                when_true (in_grouping_U g_v_french 97 251 0) (c_goto 7),
                check (slice_from_s 1 s_7_french),
                c_goto 2],
              set_c (\<lambda>_. c3),
              unless (eq_s 1 s_8_french) (c_goto 1),
              set_bra z_c,
              unless (eq_s 1 s_9_french) (c_goto 1),
              set_ket z_c,
              check (slice_from_s 1 s_10_french)])],
          set_c (\<lambda>_. c2),
          c_break],
        set_c (\<lambda>_. c2),
        move_to (skip_utf8_z (\<lambda>_. 0) z_l 1) (c_goto 0)])])"

definition r_prelude_french_while2 :: "sn_cmd" where
  "r_prelude_french_while2 = c_while1 (c_block [
      c_let z_c (\<lambda>c1. c_block [
        c_upto 0 [
          r_prelude_french_while1,
          c_continue],
        set_c (\<lambda>_. c1),
        c_break])])"

definition r_prelude_french :: "sn_func" where
  "r_prelude_french = c_fun [
    r_prelude_french_while2,
    c_return 1]"

definition r_mark_regions_french :: "sn_func" where
  "r_mark_regions_french = c_fun [
    set_I 0 z_l,
    set_I 1 z_l,
    set_I 2 z_l,
    c_let z_c (\<lambda>c1. c_block [
      c_upto 0 [
        c_upto 1 [
          c_let z_c (\<lambda>c2. c_block [
            c_upto 2 [
              when_true (in_grouping_U g_v_french 97 251 0) (c_goto 2),
              when_true (in_grouping_U g_v_french 97 251 0) (c_goto 2),
              move_to (skip_utf8_z (\<lambda>_. 0) z_l 1) (c_goto 2),
              c_goto 1],
            set_c (\<lambda>_. c2),
            c_upto 3 [
              c_if (head_guard 2 (not_in_mask 3 331776)) (c_goto 3),
              unless (find_among a_0_french 3) (c_goto 3),
              c_goto 1],
            set_c (\<lambda>_. c2),
            move_to (skip_utf8_z (\<lambda>_. 0) z_l 1) (c_goto 0),
            advance (out_grouping_U g_v_french 97 251 1) (c_goto 0)])],
        set_I 0 z_c],
      set_c (\<lambda>_. c1)]),
    c_let z_c (\<lambda>c3. c_block [
      c_upto 4 [
        advance (out_grouping_U g_v_french 97 251 1) (c_goto 4),
        advance (in_grouping_U g_v_french 97 251 1) (c_goto 4),
        set_I 1 z_c,
        advance (out_grouping_U g_v_french 97 251 1) (c_goto 4),
        advance (in_grouping_U g_v_french 97 251 1) (c_goto 4),
        set_I 2 z_c],
      set_c (\<lambda>_. c3)]),
    c_return 1]"

definition r_postlude_french_while1 :: "sn_cmd" where
  "r_postlude_french_while1 = c_while1 (c_block [
      c_let z_c (\<lambda>c1. c_block [
        set_bra z_c,
        c_call (or_else (head_guard 0 (not_in_mask 2 35652096)) 4 (find_among a_1_french 4)) (\<lambda>among_var. c_block [
          c_upto 0 [
            c_if (test (\<lambda>_. among_var = 0)) (c_goto 0),
            set_ket z_c,
            c_switch among_var [
              (0, c_block [
                c_goto 0]),
              (1, c_block [
                check (slice_from_s 1 s_11_french),
                c_break]),
              (2, c_block [
                check (slice_from_s 1 s_12_french),
                c_break]),
              (3, c_block [
                check (slice_from_s 1 s_13_french),
                c_break]),
              (4, c_block [
                move_to (skip_utf8_z (\<lambda>_. 0) z_l 1) (c_goto 0),
                c_break])],
            c_continue],
          set_c (\<lambda>_. c1),
          c_break])])])"

definition r_postlude_french :: "sn_func" where
  "r_postlude_french = c_fun [
    r_postlude_french_while1,
    c_return 1]"

definition r_RV_french :: "sn_func" where
  "r_RV_french = c_fun [
    c_if (on_I 0 (\<lambda>z i. \<not> i \<le> z_c z)) (c_return 0),
    c_return 1]"

definition r_R1_french :: "sn_func" where
  "r_R1_french = c_fun [
    c_if (on_I 1 (\<lambda>z i. \<not> i \<le> z_c z)) (c_return 0),
    c_return 1]"

definition r_R2_french :: "sn_func" where
  "r_R2_french = c_fun [
    c_if (on_I 2 (\<lambda>z i. \<not> i \<le> z_c z)) (c_return 0),
    c_return 1]"

definition r_standard_suffix_french :: "sn_func" where
  "r_standard_suffix_french = c_fun [
    set_ket z_c,
    c_call (find_among_b a_4_french 43) (\<lambda>among_var. c_block [
      c_if (test (\<lambda>_. among_var = 0)) (c_return 0),
      set_bra z_c,
      c_switch among_var [
        (0, c_block [
          c_return 0]),
        (1, c_block [
          routine r_R2_french (c_return 0),
          check slice_del,
          c_break]),
        (2, c_block [
          routine r_R2_french (c_return 0),
          check slice_del,
          c_let (\<lambda>z. z_l z - z_c z) (\<lambda>m_keep. c_block [
            set_ket z_c,
            c_upto 0 [
              unless (eq_s_b 2 s_14_french) (
                c_block [
                  set_c (\<lambda>z. z_l z - m_keep),
                  c_goto 0]),
              set_bra z_c,
              c_upto 1 [
                c_let (\<lambda>z. z_l z - z_c z) (\<lambda>m1. c_block [
                  c_upto 2 [
                    routine r_R2_french (c_goto 2),
                    check slice_del,
                    c_goto 1],
                  set_c (\<lambda>z. z_l z - m1),
                  check (slice_from_s 3 s_15_french)])]]]),
          c_break]),
        (3, c_block [
          routine r_R2_french (c_return 0),
          check (slice_from_s 3 s_16_french),
          c_break]),
        (4, c_block [
          routine r_R2_french (c_return 0),
          check (slice_from_s 1 s_17_french),
          c_break]),
        (5, c_block [
          routine r_R2_french (c_return 0),
          check (slice_from_s 3 s_18_french),
          c_break]),
        (6, c_block [
          routine r_RV_french (c_return 0),
          check slice_del,
          c_let (\<lambda>z. z_l z - z_c z) (\<lambda>m_keep. c_block [
            set_ket z_c,
            c_call (find_among_b a_2_french 6) (\<lambda>among_var. c_block [
              c_upto 3 [
                c_if (test (\<lambda>_. among_var = 0)) (
                  c_block [
                    set_c (\<lambda>z. z_l z - m_keep),
                    c_goto 3]),
                set_bra z_c,
                c_switch among_var [
                  (0, c_block [
                    c_block [
                      set_c (\<lambda>z. z_l z - m_keep),
                      c_goto 3]]),
                  (1, c_block [
                    routine r_R2_french (
                      c_block [
                        set_c (\<lambda>z. z_l z - m_keep),
                        c_goto 3]),
                    check slice_del,
                    set_ket z_c,
                    unless (eq_s_b 2 s_19_french) (
                      c_block [
                        set_c (\<lambda>z. z_l z - m_keep),
                        c_goto 3]),
                    set_bra z_c,
                    routine r_R2_french (
                      c_block [
                        set_c (\<lambda>z. z_l z - m_keep),
                        c_goto 3]),
                    check slice_del,
                    c_break]),
                  (2, c_block [
                    c_upto 4 [
                      c_let (\<lambda>z. z_l z - z_c z) (\<lambda>m2. c_block [
                        c_upto 5 [
                          routine r_R2_french (c_goto 5),
                          check slice_del,
                          c_goto 4],
                        set_c (\<lambda>z. z_l z - m2),
                        routine r_R1_french (
                          c_block [
                            set_c (\<lambda>z. z_l z - m_keep),
                            c_goto 3]),
                        check (slice_from_s 3 s_20_french)])],
                    c_break]),
                  (3, c_block [
                    routine r_R2_french (
                      c_block [
                        set_c (\<lambda>z. z_l z - m_keep),
                        c_goto 3]),
                    check slice_del,
                    c_break]),
                  (4, c_block [
                    routine r_RV_french (
                      c_block [
                        set_c (\<lambda>z. z_l z - m_keep),
                        c_goto 3]),
                    check (slice_from_s 1 s_21_french),
                    c_break])]]])]),
          c_break]),
        (7, c_block [
          routine r_R2_french (c_return 0),
          check slice_del,
          c_let (\<lambda>z. z_l z - z_c z) (\<lambda>m_keep. c_block [
            set_ket z_c,
            c_upto 6 [
              c_if (tail_guard 1 (not_in_mask 3 4198408)) (
                c_block [
                  set_c (\<lambda>z. z_l z - m_keep),
                  c_goto 6]),
              c_call (find_among_b a_3_french 3) (\<lambda>among_var. c_block [
                c_if (test (\<lambda>_. among_var = 0)) (
                  c_block [
                    set_c (\<lambda>z. z_l z - m_keep),
                    c_goto 6]),
                set_bra z_c,
                c_switch among_var [
                  (0, c_block [
                    c_block [
                      set_c (\<lambda>z. z_l z - m_keep),
                      c_goto 6]]),
                  (1, c_block [
                    c_upto 7 [
                      c_let (\<lambda>z. z_l z - z_c z) (\<lambda>m3. c_block [
                        c_upto 8 [
                          routine r_R2_french (c_goto 8),
                          check slice_del,
                          c_goto 7],
                        set_c (\<lambda>z. z_l z - m3),
                        check (slice_from_s 3 s_22_french)])],
                    c_break]),
                  (2, c_block [
                    c_upto 9 [
                      c_let (\<lambda>z. z_l z - z_c z) (\<lambda>m4. c_block [
                        c_upto 10 [
                          routine r_R2_french (c_goto 10),
                          check slice_del,
                          c_goto 9],
                        set_c (\<lambda>z. z_l z - m4),
                        check (slice_from_s 3 s_23_french)])],
                    c_break]),
                  (3, c_block [
                    routine r_R2_french (
                      c_block [
                        set_c (\<lambda>z. z_l z - m_keep),
                        c_goto 6]),
                    check slice_del,
                    c_break])]])]]),
          c_break]),
        (8, c_block [
          routine r_R2_french (c_return 0),
          check slice_del,
          c_let (\<lambda>z. z_l z - z_c z) (\<lambda>m_keep. c_block [
            set_ket z_c,
            c_upto 11 [
              unless (eq_s_b 2 s_24_french) (
                c_block [
                  set_c (\<lambda>z. z_l z - m_keep),
                  c_goto 11]),
              set_bra z_c,
              routine r_R2_french (
                c_block [
                  set_c (\<lambda>z. z_l z - m_keep),
                  c_goto 11]),
              check slice_del,
              set_ket z_c,
              unless (eq_s_b 2 s_25_french) (
                c_block [
                  set_c (\<lambda>z. z_l z - m_keep),
                  c_goto 11]),
              set_bra z_c,
              c_upto 12 [
                c_let (\<lambda>z. z_l z - z_c z) (\<lambda>m5. c_block [
                  c_upto 13 [
                    routine r_R2_french (c_goto 13),
                    check slice_del,
                    c_goto 12],
                  set_c (\<lambda>z. z_l z - m5),
                  check (slice_from_s 3 s_26_french)])]]]),
          c_break]),
        (9, c_block [
          check (slice_from_s 3 s_27_french),
          c_break]),
        (10, c_block [
          routine r_R1_french (c_return 0),
          check (slice_from_s 2 s_28_french),
          c_break]),
        (11, c_block [
          c_upto 14 [
            c_let (\<lambda>z. z_l z - z_c z) (\<lambda>m6. c_block [
              c_upto 15 [
                routine r_R2_french (c_goto 15),
                check slice_del,
                c_goto 14],
              set_c (\<lambda>z. z_l z - m6),
              routine r_R1_french (c_return 0),
              check (slice_from_s 3 s_29_french)])],
          c_break]),
        (12, c_block [
          routine r_R1_french (c_return 0),
          when_true (out_grouping_b_U g_v_french 97 251 0) (c_return 0),
          check slice_del,
          c_break]),
        (13, c_block [
          routine r_RV_french (c_return 0),
          check (slice_from_s 3 s_30_french),
          c_return 0,
          c_break]),
        (14, c_block [
          routine r_RV_french (c_return 0),
          check (slice_from_s 3 s_31_french),
          c_return 0,
          c_break]),
        (15, c_block [
          c_let (\<lambda>z. z_l z - z_c z) (\<lambda>m_test. c_block [
            when_true (in_grouping_b_U g_v_french 97 251 0) (c_return 0),
            routine r_RV_french (c_return 0),
            set_c (\<lambda>z. z_l z - m_test)]),
          check slice_del,
          c_return 0,
          c_break])],
      c_return 1])]"

definition r_i_verb_suffix_french :: "sn_func" where
  "r_i_verb_suffix_french = c_fun [
    c_let (\<lambda>z. z_l z - z_c z) (\<lambda>m1. c_block [
      c_if (on_I 0 (\<lambda>z i. z_c z < i)) (c_return 0),
      set_c_I 0,
      c_let z_lb (\<lambda>mlimit. c_block [
        set_lb z_c,
        set_c (\<lambda>z. z_l z - m1),
        set_ket z_c,
        c_if (tail_guard 0 (not_in_mask 3 68944418)) (
          c_block [
            set_lb (\<lambda>_. mlimit),
            c_return 0]),
        c_call (find_among_b a_5_french 35) (\<lambda>among_var. c_block [
          c_if (test (\<lambda>_. among_var = 0)) (
            c_block [
              set_lb (\<lambda>_. mlimit),
              c_return 0]),
          set_bra z_c,
          c_switch among_var [
            (0, c_block [
              c_block [
                set_lb (\<lambda>_. mlimit),
                c_return 0]]),
            (1, c_block [
              when_true (out_grouping_b_U g_v_french 97 251 0) (
                c_block [
                  set_lb (\<lambda>_. mlimit),
                  c_return 0]),
              check slice_del,
              c_break])],
          set_lb (\<lambda>_. mlimit),
          c_return 1])])])]"

definition r_verb_suffix_french :: "sn_func" where
  "r_verb_suffix_french = c_fun [
    c_let (\<lambda>z. z_l z - z_c z) (\<lambda>m1. c_block [
      c_if (on_I 0 (\<lambda>z i. z_c z < i)) (c_return 0),
      set_c_I 0,
      c_let z_lb (\<lambda>mlimit. c_block [
        set_lb z_c,
        set_c (\<lambda>z. z_l z - m1),
        set_ket z_c,
        c_call (find_among_b a_6_french 38) (\<lambda>among_var. c_block [
          c_if (test (\<lambda>_. among_var = 0)) (
            c_block [
              set_lb (\<lambda>_. mlimit),
              c_return 0]),
          set_bra z_c,
          c_switch among_var [
            (0, c_block [
              c_block [
                set_lb (\<lambda>_. mlimit),
                c_return 0]]),
            (1, c_block [
              routine r_R2_french (
                c_block [
                  set_lb (\<lambda>_. mlimit),
                  c_return 0]),
              check slice_del,
              c_break]),
            (2, c_block [
              check slice_del,
              c_break]),
            (3, c_block [
              check slice_del,
              c_let (\<lambda>z. z_l z - z_c z) (\<lambda>m_keep. c_block [
                set_ket z_c,
                c_upto 0 [
                  unless (eq_s_b 1 s_32_french) (
                    c_block [
                      set_c (\<lambda>z. z_l z - m_keep),
                      c_goto 0]),
                  set_bra z_c,
                  check slice_del]]),
              c_break])],
          set_lb (\<lambda>_. mlimit),
          c_return 1])])])]"

definition r_residual_suffix_french :: "sn_func" where
  "r_residual_suffix_french = c_fun [
    c_let (\<lambda>z. z_l z - z_c z) (\<lambda>m_keep. c_block [
      set_ket z_c,
      c_upto 0 [
        unless (eq_s_b 1 s_33_french) (
          c_block [
            set_c (\<lambda>z. z_l z - m_keep),
            c_goto 0]),
        set_bra z_c,
        c_let (\<lambda>z. z_l z - z_c z) (\<lambda>m_test. c_block [
          when_true (out_grouping_b_U g_keep_with_s_french 97 232 0) (
            c_block [
              set_c (\<lambda>z. z_l z - m_keep),
              c_goto 0]),
          set_c (\<lambda>z. z_l z - m_test)]),
        check slice_del]]),
    c_let (\<lambda>z. z_l z - z_c z) (\<lambda>m1. c_block [
      c_if (on_I 0 (\<lambda>z i. z_c z < i)) (c_return 0),
      set_c_I 0,
      c_let z_lb (\<lambda>mlimit. c_block [
        set_lb z_c,
        set_c (\<lambda>z. z_l z - m1),
        set_ket z_c,
        c_call (find_among_b a_7_french 7) (\<lambda>among_var. c_block [
          c_if (test (\<lambda>_. among_var = 0)) (
            c_block [
              set_lb (\<lambda>_. mlimit),
              c_return 0]),
          set_bra z_c,
          c_switch among_var [
            (0, c_block [
              c_block [
                set_lb (\<lambda>_. mlimit),
                c_return 0]]),
            (1, c_block [
              routine r_R2_french (
                c_block [
                  set_lb (\<lambda>_. mlimit),
                  c_return 0]),
              c_upto 1 [
                c_let (\<lambda>z. z_l z - z_c z) (\<lambda>m2. c_block [
                  c_upto 2 [
                    unless (eq_s_b 1 s_34_french) (c_goto 2),
                    c_goto 1],
                  set_c (\<lambda>z. z_l z - m2),
                  unless (eq_s_b 1 s_35_french) (
                    c_block [
                      set_lb (\<lambda>_. mlimit),
                      c_return 0])])],
              check slice_del,
              c_break]),
            (2, c_block [
              check (slice_from_s 1 s_36_french),
              c_break]),
            (3, c_block [
              check slice_del,
              c_break]),
            (4, c_block [
              unless (eq_s_b 2 s_37_french) (
                c_block [
                  set_lb (\<lambda>_. mlimit),
                  c_return 0]),
              check slice_del,
              c_break])],
          set_lb (\<lambda>_. mlimit),
          c_return 1])])])]"

definition r_un_double_french :: "sn_func" where
  "r_un_double_french = c_fun [
    c_let (\<lambda>z. z_l z - z_c z) (\<lambda>m_test. c_block [
      c_if (tail_guard 2 (not_in_mask 3 1069056)) (c_return 0),
      unless (find_among_b a_8_french 5) (c_return 0),
      set_c (\<lambda>z. z_l z - m_test)]),
    set_ket z_c,
    move_to (skip_utf8_z z_lb (\<lambda>_. 0) (- 1)) (c_return 0),
    set_bra z_c,
    check slice_del,
    c_return 1]"

definition r_un_accent_french_round1 :: "sn_cmd" where
  "r_un_accent_french_round1 = c_block [
      c_upto 0 [
        when_true (out_grouping_b_U g_v_french 97 251 0) (c_goto 0),
        c_continue],
      c_break]"

definition r_un_accent_french :: "sn_func" where
  "r_un_accent_french = c_fun [
    c_atleast 1 r_un_accent_french_round1 (c_return 0),
    set_ket z_c,
    c_upto 1 [
      c_let (\<lambda>z. z_l z - z_c z) (\<lambda>m1. c_block [
        c_upto 2 [
          unless (eq_s_b 2 s_38_french) (c_goto 2),
          c_goto 1],
        set_c (\<lambda>z. z_l z - m1),
        unless (eq_s_b 2 s_39_french) (c_return 0)])],
    set_bra z_c,
    check (slice_from_s 1 s_40_french),
    c_return 1]"

definition french_UTF_8_stem :: "sn_func" where
  "french_UTF_8_stem = c_fun [
    try_f 0 r_prelude_french,
    try_f 1 r_mark_regions_french,
    set_lb z_c,
    set_c z_l,
    c_let (\<lambda>z. z_l z - z_c z) (\<lambda>m3. c_block [
      c_upto 2 [
        c_upto 3 [
          c_let (\<lambda>z. z_l z - z_c z) (\<lambda>m4. c_block [
            c_upto 4 [
              c_let (\<lambda>z. z_l z - z_c z) (\<lambda>m5. c_block [
                c_upto 5 [
                  c_let (\<lambda>z. z_l z - z_c z) (\<lambda>m6. c_block [
                    c_upto 6 [
                      routine r_standard_suffix_french (c_goto 6),
                      c_goto 5],
                    set_c (\<lambda>z. z_l z - m6),
                    c_upto 7 [
                      routine r_i_verb_suffix_french (c_goto 7),
                      c_goto 5],
                    set_c (\<lambda>z. z_l z - m6),
                    routine r_verb_suffix_french (c_goto 4)])],
                set_c (\<lambda>z. z_l z - m5),
                c_let (\<lambda>z. z_l z - z_c z) (\<lambda>m_keep. c_block [
                  set_ket z_c,
                  c_upto 8 [
                    c_upto 9 [
                      c_let (\<lambda>z. z_l z - z_c z) (\<lambda>m7. c_block [
                        c_upto 10 [
                          unless (eq_s_b 1 s_41_french) (c_goto 10),
                          set_bra z_c,
                          check (slice_from_s 1 s_42_french),
                          c_goto 9],
                        set_c (\<lambda>z. z_l z - m7),
                        unless (eq_s_b 2 s_43_french) (
                          c_block [
                            set_c (\<lambda>z. z_l z - m_keep),
                            c_goto 8]),
                        set_bra z_c,
                        check (slice_from_s 1 s_44_french)])]]])]),
              c_goto 3],
            set_c (\<lambda>z. z_l z - m4),
            routine r_residual_suffix_french (c_goto 2)])]],
      set_c (\<lambda>z. z_l z - m3)]),
    try_b 11 r_un_double_french,
    try_b 12 r_un_accent_french,
    set_c z_lb,
    try_f 13 r_postlude_french,
    c_return 1]"

definition french_UTF_8_create_env :: "env_create" where
  "french_UTF_8_create_env = SN_create_env 0 3 0"

definition french_UTF_8_close_env :: "env_close" where
  "french_UTF_8_close_env z = SN_close_env z 0"

subsection \<open>Facts on the tables\<close>

lemma tables_french [simp]:
  "table_f a_0_french" "table_f a_1_french" "table_b a_2_french" "table_b a_3_french"
  "table_b a_4_french" "table_b a_5_french" "table_b a_6_french" "table_b a_7_french"
  "table_b a_8_french"
  by (rule table_sound, code_simp, code_simp)+

lemma length_tables_french [simp]:
  "length a_0_french = 3" "length a_1_french = 4" "length a_2_french = 6" "length a_3_french = 3"
  "length a_4_french = 43" "length a_5_french = 35" "length a_6_french = 38"
  "length a_7_french = 7" "length a_8_french = 5"
  by code_simp+

lemma least_french [simp]:
  "least a_0_french (- 1) = 3" "least a_1_french 1 = 1" "least a_1_french 2 = 1"
  "least a_1_french 3 = 1" "least a_1_french 4 = 0" "least a_2_french 1 = 2"
  "least a_2_french 2 = 3" "least a_2_french 3 = 3" "least a_2_french 4 = 4"
  "least a_3_french 1 = 4" "least a_3_french 2 = 2" "least a_3_french 3 = 2"
  "least a_4_french 1 = 3" "least a_4_french 10 = 3" "least a_4_french 11 = 4"
  "least a_4_french 12 = 8" "least a_4_french 13 = 6" "least a_4_french 14 = 6"
  "least a_4_french 15 = 4" "least a_4_french 2 = 5" "least a_4_french 3 = 5"
  "least a_4_french 4 = 5" "least a_4_french 5 = 4" "least a_4_french 6 = 5"
  "least a_4_french 7 = 4" "least a_4_french 8 = 2" "least a_4_french 9 = 4"
  "least a_5_french 1 = 1" "least a_6_french 1 = 4" "least a_6_french 2 = 2"
  "least a_6_french 3 = 1" "least a_7_french 1 = 3" "least a_7_french 2 = 3"
  "least a_7_french 3 = 1" "least a_7_french 4 = 2" "least a_8_french (- 1) = 3"
  by code_simp+

lemma has_french [simp]:
  "has a_0_french r \<longleftrightarrow> r = (- 1)"
  "has a_1_french r \<longleftrightarrow> r = 1 \<or> r = 2 \<or> r = 3 \<or> r = 4"
  "has a_8_french r \<longleftrightarrow> r = (- 1)"
  by (auto simp: has_def a_0_french_def a_1_french_def a_8_french_def)

lemma lengths_french [simp]:
  "length s_0_french = 1" "length s_1_french = 1" "length s_2_french = 1" "length s_3_french = 1"
  "length s_4_french = 1" "length s_5_french = 1" "length s_6_french = 1" "length s_7_french = 1"
  "length s_8_french = 1" "length s_9_french = 1" "length s_10_french = 1"
  "length s_11_french = 1" "length s_12_french = 1" "length s_13_french = 1"
  "length s_14_french = 2" "length s_15_french = 3" "length s_16_french = 3"
  "length s_17_french = 1" "length s_18_french = 3" "length s_19_french = 2"
  "length s_20_french = 3" "length s_21_french = 1" "length s_22_french = 3"
  "length s_23_french = 3" "length s_24_french = 2" "length s_25_french = 2"
  "length s_26_french = 3" "length s_27_french = 3" "length s_28_french = 2"
  "length s_29_french = 3" "length s_30_french = 3" "length s_31_french = 3"
  "length s_32_french = 1" "length s_33_french = 1" "length s_34_french = 1"
  "length s_35_french = 1" "length s_36_french = 1" "length s_37_french = 2"
  "length s_38_french = 2" "length s_39_french = 2" "length s_40_french = 1"
  "length s_41_french = 1" "length s_42_french = 1" "length s_43_french = 2"
  "length s_44_french = 1"
  by code_simp+

lemma covers_french [simp]:
  "covers g_keep_with_s_french 97 232" "covers g_v_french 97 251"
  by code_simp+

subsection \<open>Loops\<close>

lemma prelude_while1_french: "rewriting r_prelude_french_while1 0 (\<lambda>b. b = CHR ''u'' \<or> b = CHR ''i'' \<or> b = CHR ''y'')"
  unfolding rewriting_def r_prelude_french_while1_def
  by (intro allI impI, rule wp_search) (auto intro!: win_intro slice_rewrite_wp [where P = "\<lambda>b. b = CHR ''u'' \<or> b = CHR ''i'' \<or> b = CHR ''y''"]
    wp_upto_fwd [where n = 1] wp_upto_fwd [where n = 3] wp_upto_plain [where n = 5] wp_upto_plain [where n = 6]
      wp_upto_fwd [where n = 7] wp_upto_plain [where n = 2] wp_upto_plain [where n = 4]
    simp: rewrote_def step_defs moved_iff s_0_french_def s_1_french_def s_2_french_def s_3_french_def s_4_french_def s_5_french_def s_6_french_def s_7_french_def s_8_french_def s_9_french_def s_10_french_def simp del: wp_upto)

lemmas prelude_while2_french_wp =
  rewrite_loop_wp [OF prelude_while1_french, folded r_prelude_french_while2_def]

lemma postlude_while1_french_wp:
  assumes "in_window z" "\<And>z'. kept z z' \<Longrightarrow> z_l z' \<le> z_l z \<Longrightarrow> Q Next z'"
  shows "wp r_postlude_french_while1 Q z"
  using assms unfolding r_postlude_french_while1_def
  by (intro wp_repeat) (auto intro!: win_intro slice_from_s_fwd simp: step_defs)

subsection \<open>Routines\<close>

lemma r_prelude_french_wp:
  assumes "in_window z" "z_c z = z_lb z" "\<And>z'. kept z z' \<Longrightarrow> z_l z' \<le> z_l z \<Longrightarrow> Q 1 z'"
  shows "wpf r_prelude_french Q z"
  using assms unfolding r_prelude_french_def
  by (auto intro!: prelude_while2_french_wp simp: step_defs)

lemma r_mark_regions_french_wp:
  assumes "in_window z" "length (z_I z) = 3"
    and "\<And>z'. marked z z' \<Longrightarrow> 0 \<le> z_I z' ! 0 \<Longrightarrow> Q 1 z'"
  shows "wpf r_mark_regions_french Q z"
  unfolding r_mark_regions_french_def wpf_fun
  apply (rule wp_cut [where n = 4 and J = "\<lambda>z'. marked z z' \<and> 0 \<le> z_I z' ! 0"], simp, simp)
  subgoal using assms(1,2) by (auto intro!: win_intro simp: marked_iff in_window_def)
  subgoal using assms by (auto intro!: win_intro simp: marked_iff in_window_def)
  done

lemma r_RV_french_wp [simp]:
  "length (z_I z) = 3 \<Longrightarrow> wpf r_RV_french Q z \<longleftrightarrow> Q (if z_I z ! 0 \<le> z_c z then 1 else 0) z"
  unfolding r_RV_french_def by simp

lemma r_R1_french_wp [simp]:
  "length (z_I z) = 3 \<Longrightarrow> wpf r_R1_french Q z \<longleftrightarrow> Q (if z_I z ! 1 \<le> z_c z then 1 else 0) z"
  unfolding r_R1_french_def by simp

lemma r_R2_french_wp [simp]:
  "length (z_I z) = 3 \<Longrightarrow> wpf r_R2_french Q z \<longleftrightarrow> Q (if z_I z ! 2 \<le> z_c z then 1 else 0) z"
  unfolding r_R2_french_def by simp

lemma r_standard_suffix_french_steps:
  assumes "in_window z" "length (z_I z) = 3"
  shows "wpf r_standard_suffix_french (stepped z) z"
  using assms unfolding r_standard_suffix_french_def in_window_def
  by (auto intro!: win_intro safe_intro wp_upto_plain [where n = 0] wp_upto_plain [where n = "Suc 0"] wp_upto_look [where n = 2] wp_upto_plain [where n =
      3] wp_upto_plain [where n = 4] wp_upto_look [where n = 5] wp_upto_plain [where n = 6] wp_upto_plain [where n = 7]
      wp_upto_look [where n = 8] wp_upto_plain [where n = 9] wp_upto_look [where n = 10] wp_upto_plain [where n = 11]
      wp_upto_plain [where n = 12] wp_upto_look [where n = 13] wp_upto_plain [where n = 14] wp_upto_look [where n =
      15]
      simp: step_defs simp del: wp_upto)

lemma r_i_verb_suffix_french_steps:
  assumes "in_window z" "0 \<le> z_I z ! 0" "z_lb z = 0" "length (z_I z) = 3"
  shows "wpf r_i_verb_suffix_french (stepped z) z"
  using assms unfolding r_i_verb_suffix_french_def in_window_def
  by (auto intro!: win_intro safe_intro simp: step_defs)

lemma r_verb_suffix_french_steps:
  assumes "in_window z" "0 \<le> z_I z ! 0" "z_lb z = 0" "length (z_I z) = 3"
  shows "wpf r_verb_suffix_french (stepped z) z"
  using assms unfolding r_verb_suffix_french_def in_window_def
  by (auto intro!: win_intro safe_intro simp: step_defs)

lemma r_residual_suffix_french_steps:
  assumes "in_window z" "0 \<le> z_I z ! 0" "z_lb z = 0" "length (z_I z) = 3"
  shows "wpf r_residual_suffix_french (stepped z) z"
  unfolding r_residual_suffix_french_def wpf_fun
  apply (rule wp_cut [where n = 1 and J = "stepped z 0"], simp, simp)
  subgoal using assms by (auto intro!: win_intro safe_intro simp: step_defs)
  subgoal using assms by (auto intro!: win_intro safe_intro simp: step_defs)
  done

lemma r_un_double_french_steps:
  assumes "in_window z" "length (z_I z) = 3"
  shows "wpf r_un_double_french (stepped z) z"
  using assms unfolding r_un_double_french_def in_window_def
  by (auto intro!: win_intro safe_intro simp: step_defs)

lemma un_accent_atleast_french_wp:
  assumes "in_window z"
    and "\<And>c'. z_lb z \<le> c' \<Longrightarrow> c' \<le> z_c z \<Longrightarrow> wp x Q (z\<lparr>z_c := c'\<rparr>)"
    and "\<And>c'. z_lb z \<le> c' \<Longrightarrow> c' \<le> z_c z \<Longrightarrow> Q Next (z\<lparr>z_c := c'\<rparr>)"
  shows "wp (c_atleast 1 r_un_accent_french_round1 x) Q z"
  unfolding r_un_accent_french_round1_def
proof (rule wp_atleast [where f = "\<lambda>z. nat (z_c z - z_lb z)"
      and P = "\<lambda>z'. z\<lparr>z_c := z_c z'\<rparr> = z' \<and> z_lb z \<le> z_c z' \<and> z_c z' \<le> z_c z"
      and R = "\<lambda>k z'. k = Next \<and> z\<lparr>z_c := z_c z'\<rparr> = z' \<and> z_lb z \<le> z_c z' \<and> z_c z' \<le> z_c z"])
  fix z1 assume *: "z\<lparr>z_c := z_c z1\<rparr> = z1 \<and> z_lb z \<le> z_c z1 \<and> z_c z1 \<le> z_c z"
  then obtain c where c: "z1 = z\<lparr>z_c := c\<rparr>" "z_lb z \<le> c" "c \<le> z_c z" by metis
  show "wp (c_block [c_upto 0 [when_true (out_grouping_b_U g_v_french 97 251 0) (c_goto 0), c_continue], c_break])
      (loop_k (\<lambda>z'. (z\<lparr>z_c := z_c z'\<rparr> = z' \<and> z_lb z \<le> z_c z' \<and> z_c z' \<le> z_c z)
          \<and> nat (z_c z' - z_lb z') < nat (z_c z1 - z_lb z1))
        (\<lambda>k z'. k = Next \<and> z\<lparr>z_c := z_c z'\<rparr> = z' \<and> z_lb z \<le> z_c z' \<and> z_c z' \<le> z_c z)) z1"
    unfolding c(1) using assms(1) c(2,3) by (auto intro!: grouping_b_U_wp simp: in_window_def split: if_splits)
next
  fix z1 assume "Next = Next \<and> z\<lparr>z_c := z_c z1\<rparr> = z1 \<and> z_lb z \<le> z_c z1 \<and> z_c z1 \<le> z_c z"
  then show "wp x Q z1" using assms(2) by metis
next
  fix z1 k assume "k = Next \<and> z\<lparr>z_c := z_c z1\<rparr> = z1 \<and> z_lb z \<le> z_c z1 \<and> z_c z1 \<le> z_c z"
  then show "Q k z1" using assms(3) by metis
qed (use assms(1) in \<open>simp add: in_window_def\<close>)

lemma r_un_accent_french_steps:
  assumes "in_window z" "length (z_I z) = 3"
  shows "wpf r_un_accent_french (stepped z) z"
  using assms unfolding r_un_accent_french_def in_window_def
  by (auto intro!: un_accent_atleast_french_wp win_intro safe_intro simp: step_defs)

lemma r_postlude_french_steps:
  assumes "in_window z"
  shows "wpf r_postlude_french (stepped z) z"
  using assms unfolding r_postlude_french_def
  by (auto intro!: postlude_while1_french_wp simp: step_defs)

subsection \<open>The stemmer\<close>

lemma french_stem_steps:
  assumes "in_window z" "z_c z = 0" "strs_ok (z_S z)" "length (z_I z) = 3"
  shows "wpf french_UTF_8_stem (fitted z) z"
  unfolding french_UTF_8_stem_def wpf_fun
  apply (rule wp_cut [where n = 1 and J = "\<lambda>z'. fits z z' \<and> z_c z' = 0"], simp, simp)
  subgoal using assms by (auto intro!: r_prelude_french_wp simp: step_defs fits_def)
  apply (erule wp_stage [where n = 3 and J' = "at_end (\<lambda>I. 0 \<le> I ! 0) z"], simp, simp)
  subgoal using assms by (auto intro!: r_mark_regions_french_wp simp: step_defs fits_def at_end_def marked_iff)
  apply (erule wp_stage [where n = 1 and J' = "at_end (\<lambda>I. 0 \<le> I ! 0) z"], simp, simp)
  subgoal using assms by (auto intro!: win_intro safe_intro stepped_wp [OF r_standard_suffix_french_steps]
      stepped_wp [OF r_i_verb_suffix_french_steps] stepped_wp [OF r_verb_suffix_french_steps]
      stepped_wp [OF r_residual_suffix_french_steps] wp_upto_step [where n = 2] wp_upto_step [where n = 3] wp_upto_step [where n = 4] wp_upto_step [where n = 5]
      wp_upto_step [where n = 6] wp_upto_step [where n = 7] wp_upto_step [where n = 8] wp_upto_step [where n = 9]
      wp_upto_look [where n = 10]
      simp: step_defs fits_def at_end_def simp del: wp_upto)
  apply (erule wp_stage [where n = 2 and J' = "at_end (\<lambda>I. 0 \<le> I ! 0) z"], simp, simp)
  subgoal using assms by (auto intro!: wp_try_at_end [where orig = z and P = "\<lambda>I. 0 \<le> I ! 0"] r_un_double_french_steps r_un_accent_french_steps)
  subgoal using assms by (auto intro!: stepped_wp [OF r_postlude_french_steps] simp: step_defs fits_def at_end_def fitted_def)
  done

interpretation french: steady_stemmer french_UTF_8_stem 3 0
  by unfold_locales (auto intro!: wpf_mono [OF french_stem_steps])

end
