(* ===== verification/Finnish.thy ===== *)
theory Finnish
  imports Libstemmer
begin

text \<open>
  The Finnish stemmer (\<^verbatim>\<open>src_c/stem_UTF_8_finnish.c\<close>): tables, code, and what its routines do. One of
  its search tables has entries with tests of their own (\<open>r_VI\<close> and \<open>r_LONG\<close>, which C declares
  before the table and defines after it), and the last routine keeps a string variable.
\<close>

subsection \<open>Tables\<close>

definition a_0_finnish :: "among list" where
  "a_0_finnish = [
    amg 2 ''pa'' (- 1) 1,
    amg 3 ''sti'' (- 1) 2,
    amg 4 ''kaan'' (- 1) 1,
    amg 3 ''han'' (- 1) 1,
    amg 3 ''kin'' (- 1) 1,
    amg 4 [CHR ''h'', CHR 0xC3, CHR 0xA4, CHR ''n''] (- 1) 1,
    amg 6 [CHR ''k'', CHR 0xC3, CHR 0xA4, CHR 0xC3, CHR 0xA4, CHR ''n''] (- 1) 1,
    amg 2 ''ko'' (- 1) 1,
    amg 3 [CHR ''p'', CHR 0xC3, CHR 0xA4] (- 1) 1,
    amg 3 [CHR ''k'', CHR 0xC3, CHR 0xB6] (- 1) 1]"

definition a_1_finnish :: "among list" where
  "a_1_finnish = [
    amg 3 ''lla'' (- 1) (- 1),
    amg 2 ''na'' (- 1) (- 1),
    amg 3 ''ssa'' (- 1) (- 1),
    amg 2 ''ta'' (- 1) (- 1),
    amg 3 ''lta'' 3 (- 1),
    amg 3 ''sta'' 3 (- 1)]"

definition a_2_finnish :: "among list" where
  "a_2_finnish = [
    amg 4 [CHR ''l'', CHR ''l'', CHR 0xC3, CHR 0xA4] (- 1) (- 1),
    amg 3 [CHR ''n'', CHR 0xC3, CHR 0xA4] (- 1) (- 1),
    amg 4 [CHR ''s'', CHR ''s'', CHR 0xC3, CHR 0xA4] (- 1) (- 1),
    amg 3 [CHR ''t'', CHR 0xC3, CHR 0xA4] (- 1) (- 1),
    amg 4 [CHR ''l'', CHR ''t'', CHR 0xC3, CHR 0xA4] 3 (- 1),
    amg 4 [CHR ''s'', CHR ''t'', CHR 0xC3, CHR 0xA4] 3 (- 1)]"

definition a_3_finnish :: "among list" where
  "a_3_finnish = [
    amg 3 ''lle'' (- 1) (- 1),
    amg 3 ''ine'' (- 1) (- 1)]"

definition a_4_finnish :: "among list" where
  "a_4_finnish = [
    amg 3 ''nsa'' (- 1) 3,
    amg 3 ''mme'' (- 1) 3,
    amg 3 ''nne'' (- 1) 3,
    amg 2 ''ni'' (- 1) 2,
    amg 2 ''si'' (- 1) 1,
    amg 2 ''an'' (- 1) 4,
    amg 2 ''en'' (- 1) 6,
    amg 3 [CHR 0xC3, CHR 0xA4, CHR ''n''] (- 1) 5,
    amg 4 [CHR ''n'', CHR ''s'', CHR 0xC3, CHR 0xA4] (- 1) 3]"

definition a_5_finnish :: "among list" where
  "a_5_finnish = [
    amg 2 ''aa'' (- 1) (- 1),
    amg 2 ''ee'' (- 1) (- 1),
    amg 2 ''ii'' (- 1) (- 1),
    amg 2 ''oo'' (- 1) (- 1),
    amg 2 ''uu'' (- 1) (- 1),
    amg 4 [CHR 0xC3, CHR 0xA4, CHR 0xC3, CHR 0xA4] (- 1) (- 1),
    amg 4 [CHR 0xC3, CHR 0xB6, CHR 0xC3, CHR 0xB6] (- 1) (- 1)]"

definition a_7_finnish :: "among list" where
  "a_7_finnish = [
    amg 3 ''eja'' (- 1) (- 1),
    amg 3 ''mma'' (- 1) 1,
    amg 4 ''imma'' 1 (- 1),
    amg 3 ''mpa'' (- 1) 1,
    amg 4 ''impa'' 3 (- 1),
    amg 3 ''mmi'' (- 1) 1,
    amg 4 ''immi'' 5 (- 1),
    amg 3 ''mpi'' (- 1) 1,
    amg 4 ''impi'' 7 (- 1),
    amg 4 [CHR ''e'', CHR ''j'', CHR 0xC3, CHR 0xA4] (- 1) (- 1),
    amg 4 [CHR ''m'', CHR ''m'', CHR 0xC3, CHR 0xA4] (- 1) 1,
    amg 5 [CHR ''i'', CHR ''m'', CHR ''m'', CHR 0xC3, CHR 0xA4] 10 (- 1),
    amg 4 [CHR ''m'', CHR ''p'', CHR 0xC3, CHR 0xA4] (- 1) 1,
    amg 5 [CHR ''i'', CHR ''m'', CHR ''p'', CHR 0xC3, CHR 0xA4] 12 (- 1)]"

definition a_8_finnish :: "among list" where
  "a_8_finnish = [
    amg 1 ''i'' (- 1) (- 1),
    amg 1 ''j'' (- 1) (- 1)]"

definition a_9_finnish :: "among list" where
  "a_9_finnish = [
    amg 3 ''mma'' (- 1) 1,
    amg 4 ''imma'' 0 (- 1)]"

definition g_AEI_finnish :: "int list" where
  "g_AEI_finnish = [17, 1, 0, 0, 0, 0, 0, 0, 0, 0, 0, 0, 0, 0, 0, 0, 8]"

definition g_V1_finnish :: "int list" where
  "g_V1_finnish = [17, 65, 16, 1, 0, 0, 0, 0, 0, 0, 0, 0, 0, 0, 0, 0, 8, 0, 32]"

definition g_V2_finnish :: "int list" where
  "g_V2_finnish = [17, 65, 16, 0, 0, 0, 0, 0, 0, 0, 0, 0, 0, 0, 0, 0, 8, 0, 32]"

definition g_particle_end_finnish :: "int list" where
  "g_particle_end_finnish = [17, 97, 24, 1, 0, 0, 0, 0, 0, 0, 0, 0, 0, 0, 0, 0, 8, 0, 32]"

subsection \<open>Strings\<close>

definition s_0_finnish :: "symbol list" where
  "s_0_finnish = ''k''"

definition s_1_finnish :: "symbol list" where
  "s_1_finnish = ''kse''"

definition s_2_finnish :: "symbol list" where
  "s_2_finnish = ''ksi''"

definition s_3_finnish :: "symbol list" where
  "s_3_finnish = ''i''"

definition s_4_finnish :: "symbol list" where
  "s_4_finnish = ''a''"

definition s_5_finnish :: "symbol list" where
  "s_5_finnish = ''e''"

definition s_6_finnish :: "symbol list" where
  "s_6_finnish = ''i''"

definition s_7_finnish :: "symbol list" where
  "s_7_finnish = ''o''"

definition s_8_finnish :: "symbol list" where
  "s_8_finnish = [CHR 0xC3, CHR 0xA4]"

definition s_9_finnish :: "symbol list" where
  "s_9_finnish = [CHR 0xC3, CHR 0xB6]"

definition s_10_finnish :: "symbol list" where
  "s_10_finnish = ''ie''"

definition s_11_finnish :: "symbol list" where
  "s_11_finnish = ''e''"

definition s_12_finnish :: "symbol list" where
  "s_12_finnish = ''po''"

definition s_13_finnish :: "symbol list" where
  "s_13_finnish = ''t''"

definition s_14_finnish :: "symbol list" where
  "s_14_finnish = ''po''"

definition s_15_finnish :: "symbol list" where
  "s_15_finnish = ''j''"

definition s_16_finnish :: "symbol list" where
  "s_16_finnish = ''o''"

definition s_17_finnish :: "symbol list" where
  "s_17_finnish = ''u''"

definition s_18_finnish :: "symbol list" where
  "s_18_finnish = ''o''"

definition s_19_finnish :: "symbol list" where
  "s_19_finnish = ''j''"

subsection \<open>Code\<close>

definition r_mark_regions_finnish :: "sn_func" where
  "r_mark_regions_finnish = c_fun [
    set_I 0 z_l,
    set_I 1 z_l,
    when_neg (out_grouping_U g_V1_finnish 97 246 1) (c_return 0),
    advance (in_grouping_U g_V1_finnish 97 246 1) (c_return 0),
    set_I 0 z_c,
    when_neg (out_grouping_U g_V1_finnish 97 246 1) (c_return 0),
    advance (in_grouping_U g_V1_finnish 97 246 1) (c_return 0),
    set_I 1 z_c,
    c_return 1]"

definition r_R2_finnish :: "sn_func" where
  "r_R2_finnish = c_fun [
    c_if (on_I 1 (\<lambda>z i. \<not> i \<le> z_c z)) (c_return 0),
    c_return 1]"

definition r_particle_etc_finnish :: "sn_func" where
  "r_particle_etc_finnish = c_fun [
    c_let (\<lambda>z. z_l z - z_c z) (\<lambda>m1. c_block [
      c_if (on_I 0 (\<lambda>z i. z_c z < i)) (c_return 0),
      set_c_I 0,
      c_let z_lb (\<lambda>mlimit. c_block [
        set_lb z_c,
        set_c (\<lambda>z. z_l z - m1),
        set_ket z_c,
        c_call (find_among_b a_0_finnish 10) (\<lambda>among_var. c_block [
          c_if (test (\<lambda>_. among_var = 0)) (
            c_block [
              set_lb (\<lambda>_. mlimit),
              c_return 0]),
          set_bra z_c,
          set_lb (\<lambda>_. mlimit),
          c_switch among_var [
            (0, c_block [
              c_return 0]),
            (1, c_block [
              when_true (in_grouping_b_U g_particle_end_finnish 97 246 0) (c_return 0),
              c_break]),
            (2, c_block [
              routine r_R2_finnish (c_return 0),
              c_break])],
          check slice_del,
          c_return 1])])])]"

definition r_possessive_finnish :: "sn_func" where
  "r_possessive_finnish = c_fun [
    c_let (\<lambda>z. z_l z - z_c z) (\<lambda>m1. c_block [
      c_if (on_I 0 (\<lambda>z i. z_c z < i)) (c_return 0),
      set_c_I 0,
      c_let z_lb (\<lambda>mlimit. c_block [
        set_lb z_c,
        set_c (\<lambda>z. z_l z - m1),
        set_ket z_c,
        c_call (find_among_b a_4_finnish 9) (\<lambda>among_var. c_block [
          c_if (test (\<lambda>_. among_var = 0)) (
            c_block [
              set_lb (\<lambda>_. mlimit),
              c_return 0]),
          set_bra z_c,
          set_lb (\<lambda>_. mlimit),
          c_switch among_var [
            (0, c_block [
              c_return 0]),
            (1, c_block [
              c_let (\<lambda>z. z_l z - z_c z) (\<lambda>m2. c_block [
                c_upto 0 [
                  unless (eq_s_b 1 s_0_finnish) (c_goto 0),
                  c_return 0],
                set_c (\<lambda>z. z_l z - m2)]),
              check slice_del,
              c_break]),
            (2, c_block [
              check slice_del,
              set_ket z_c,
              unless (eq_s_b 3 s_1_finnish) (c_return 0),
              set_bra z_c,
              check (slice_from_s 3 s_2_finnish),
              c_break]),
            (3, c_block [
              check slice_del,
              c_break]),
            (4, c_block [
              c_if (tail_guard 1 (\<lambda>ch. ch \<noteq> 97)) (c_return 0),
              unless (find_among_b a_1_finnish 6) (c_return 0),
              check slice_del,
              c_break]),
            (5, c_block [
              c_if (tail_guard 2 (\<lambda>ch. ch \<noteq> 164)) (c_return 0),
              unless (find_among_b a_2_finnish 6) (c_return 0),
              check slice_del,
              c_break]),
            (6, c_block [
              c_if (tail_guard 2 (\<lambda>ch. ch \<noteq> 101)) (c_return 0),
              unless (find_among_b a_3_finnish 2) (c_return 0),
              check slice_del,
              c_break])],
          c_return 1])])])]"

definition r_LONG_finnish :: "sn_func" where
  "r_LONG_finnish = c_fun [
    unless (find_among_b a_5_finnish 7) (c_return 0),
    c_return 1]"

definition r_VI_finnish :: "sn_func" where
  "r_VI_finnish = c_fun [
    unless (eq_s_b 1 s_3_finnish) (c_return 0),
    when_true (in_grouping_b_U g_V2_finnish 97 246 0) (c_return 0),
    c_return 1]"

definition a_6_finnish :: "among list" where
  "a_6_finnish = [
    amg 1 ''a'' (- 1) 8,
    amg 3 ''lla'' 0 (- 1),
    amg 2 ''na'' 0 (- 1),
    amg 3 ''ssa'' 0 (- 1),
    amg 2 ''ta'' 0 (- 1),
    amg 3 ''lta'' 4 (- 1),
    amg 3 ''sta'' 4 (- 1),
    amg 3 ''tta'' 4 9,
    amg 3 ''lle'' (- 1) (- 1),
    amg 3 ''ine'' (- 1) (- 1),
    amg 3 ''ksi'' (- 1) (- 1),
    amg 1 ''n'' (- 1) 7,
    amg 3 ''han'' 11 1,
    amg_fun 3 ''den'' 11 (- 1) r_VI_finnish,
    amg_fun 4 ''seen'' 11 (- 1) r_LONG_finnish,
    amg 3 ''hen'' 11 2,
    amg_fun 4 ''tten'' 11 (- 1) r_VI_finnish,
    amg 3 ''hin'' 11 3,
    amg_fun 4 ''siin'' 11 (- 1) r_VI_finnish,
    amg 3 ''hon'' 11 4,
    amg 4 [CHR ''h'', CHR 0xC3, CHR 0xA4, CHR ''n''] 11 5,
    amg 4 [CHR ''h'', CHR 0xC3, CHR 0xB6, CHR ''n''] 11 6,
    amg 2 [CHR 0xC3, CHR 0xA4] (- 1) 8,
    amg 4 [CHR ''l'', CHR ''l'', CHR 0xC3, CHR 0xA4] 22 (- 1),
    amg 3 [CHR ''n'', CHR 0xC3, CHR 0xA4] 22 (- 1),
    amg 4 [CHR ''s'', CHR ''s'', CHR 0xC3, CHR 0xA4] 22 (- 1),
    amg 3 [CHR ''t'', CHR 0xC3, CHR 0xA4] 22 (- 1),
    amg 4 [CHR ''l'', CHR ''t'', CHR 0xC3, CHR 0xA4] 26 (- 1),
    amg 4 [CHR ''s'', CHR ''t'', CHR 0xC3, CHR 0xA4] 26 (- 1),
    amg 4 [CHR ''t'', CHR ''t'', CHR 0xC3, CHR 0xA4] 26 9]"

definition r_case_ending_finnish :: "sn_func" where
  "r_case_ending_finnish = c_fun [
    c_let (\<lambda>z. z_l z - z_c z) (\<lambda>m1. c_block [
      c_if (on_I 0 (\<lambda>z i. z_c z < i)) (c_return 0),
      set_c_I 0,
      c_let z_lb (\<lambda>mlimit. c_block [
        set_lb z_c,
        set_c (\<lambda>z. z_l z - m1),
        set_ket z_c,
        c_call (find_among_b a_6_finnish 30) (\<lambda>among_var. c_block [
          c_if (test (\<lambda>_. among_var = 0)) (
            c_block [
              set_lb (\<lambda>_. mlimit),
              c_return 0]),
          set_bra z_c,
          set_lb (\<lambda>_. mlimit),
          c_switch among_var [
            (0, c_block [
              c_return 0]),
            (1, c_block [
              unless (eq_s_b 1 s_4_finnish) (c_return 0),
              c_break]),
            (2, c_block [
              unless (eq_s_b 1 s_5_finnish) (c_return 0),
              c_break]),
            (3, c_block [
              unless (eq_s_b 1 s_6_finnish) (c_return 0),
              c_break]),
            (4, c_block [
              unless (eq_s_b 1 s_7_finnish) (c_return 0),
              c_break]),
            (5, c_block [
              unless (eq_s_b 2 s_8_finnish) (c_return 0),
              c_break]),
            (6, c_block [
              unless (eq_s_b 2 s_9_finnish) (c_return 0),
              c_break]),
            (7, c_block [
              c_let (\<lambda>z. z_l z - z_c z) (\<lambda>m_keep. c_block [
                c_upto 0 [
                  c_let (\<lambda>z. z_l z - z_c z) (\<lambda>m2. c_block [
                    c_upto 1 [
                      c_let (\<lambda>z. z_l z - z_c z) (\<lambda>m3. c_block [
                        c_upto 2 [
                          routine r_LONG_finnish (c_goto 2),
                          c_goto 1],
                        set_c (\<lambda>z. z_l z - m3),
                        unless (eq_s_b 2 s_10_finnish) (
                          c_block [
                            set_c (\<lambda>z. z_l z - m_keep),
                            c_goto 0])])],
                    set_c (\<lambda>z. z_l z - m2),
                    move_to (skip_utf8_z z_lb (\<lambda>_. 0) (- 1)) (
                      c_block [
                        set_c (\<lambda>z. z_l z - m_keep),
                        c_goto 0])]),
                  set_bra z_c]]),
              c_break]),
            (8, c_block [
              when_true (in_grouping_b_U g_V1_finnish 97 246 0) (c_return 0),
              when_true (out_grouping_b_U g_V1_finnish 97 246 0) (c_return 0),
              c_break]),
            (9, c_block [
              unless (eq_s_b 1 s_11_finnish) (c_return 0),
              c_break])],
          check slice_del,
          set_B 0 1,
          c_return 1])])])]"

definition r_other_endings_finnish :: "sn_func" where
  "r_other_endings_finnish = c_fun [
    c_let (\<lambda>z. z_l z - z_c z) (\<lambda>m1. c_block [
      c_if (on_I 1 (\<lambda>z i. z_c z < i)) (c_return 0),
      set_c_I 1,
      c_let z_lb (\<lambda>mlimit. c_block [
        set_lb z_c,
        set_c (\<lambda>z. z_l z - m1),
        set_ket z_c,
        c_call (find_among_b a_7_finnish 14) (\<lambda>among_var. c_block [
          c_if (test (\<lambda>_. among_var = 0)) (
            c_block [
              set_lb (\<lambda>_. mlimit),
              c_return 0]),
          set_bra z_c,
          set_lb (\<lambda>_. mlimit),
          c_switch among_var [
            (0, c_block [
              c_return 0]),
            (1, c_block [
              c_let (\<lambda>z. z_l z - z_c z) (\<lambda>m2. c_block [
                c_upto 0 [
                  unless (eq_s_b 2 s_12_finnish) (c_goto 0),
                  c_return 0],
                set_c (\<lambda>z. z_l z - m2)]),
              c_break])],
          check slice_del,
          c_return 1])])])]"

definition r_i_plural_finnish :: "sn_func" where
  "r_i_plural_finnish = c_fun [
    c_let (\<lambda>z. z_l z - z_c z) (\<lambda>m1. c_block [
      c_if (on_I 0 (\<lambda>z i. z_c z < i)) (c_return 0),
      set_c_I 0,
      c_let z_lb (\<lambda>mlimit. c_block [
        set_lb z_c,
        set_c (\<lambda>z. z_l z - m1),
        set_ket z_c,
        c_if (tail_guard 0 (\<lambda>ch. ch \<noteq> 105 \<and> ch \<noteq> 106)) (
          c_block [
            set_lb (\<lambda>_. mlimit),
            c_return 0]),
        unless (find_among_b a_8_finnish 2) (
          c_block [
            set_lb (\<lambda>_. mlimit),
            c_return 0]),
        set_bra z_c,
        set_lb (\<lambda>_. mlimit)])]),
    check slice_del,
    c_return 1]"

definition r_t_plural_finnish :: "sn_func" where
  "r_t_plural_finnish = c_fun [
    c_let (\<lambda>z. z_l z - z_c z) (\<lambda>m1. c_block [
      c_if (on_I 0 (\<lambda>z i. z_c z < i)) (c_return 0),
      set_c_I 0,
      c_let z_lb (\<lambda>mlimit. c_block [
        set_lb z_c,
        set_c (\<lambda>z. z_l z - m1),
        set_ket z_c,
        unless (eq_s_b 1 s_13_finnish) (
          c_block [
            set_lb (\<lambda>_. mlimit),
            c_return 0]),
        set_bra z_c,
        c_let (\<lambda>z. z_l z - z_c z) (\<lambda>m_test. c_block [
          when_true (in_grouping_b_U g_V1_finnish 97 246 0) (
            c_block [
              set_lb (\<lambda>_. mlimit),
              c_return 0]),
          set_c (\<lambda>z. z_l z - m_test)]),
        check slice_del,
        set_lb (\<lambda>_. mlimit)])]),
    c_let (\<lambda>z. z_l z - z_c z) (\<lambda>m2. c_block [
      c_if (on_I 1 (\<lambda>z i. z_c z < i)) (c_return 0),
      set_c_I 1,
      c_let z_lb (\<lambda>mlimit. c_block [
        set_lb z_c,
        set_c (\<lambda>z. z_l z - m2),
        set_ket z_c,
        c_if (tail_guard 2 (\<lambda>ch. ch \<noteq> 97)) (
          c_block [
            set_lb (\<lambda>_. mlimit),
            c_return 0]),
        c_call (find_among_b a_9_finnish 2) (\<lambda>among_var. c_block [
          c_if (test (\<lambda>_. among_var = 0)) (
            c_block [
              set_lb (\<lambda>_. mlimit),
              c_return 0]),
          set_bra z_c,
          set_lb (\<lambda>_. mlimit),
          c_switch among_var [
            (0, c_block [
              c_return 0]),
            (1, c_block [
              c_let (\<lambda>z. z_l z - z_c z) (\<lambda>m3. c_block [
                c_upto 0 [
                  unless (eq_s_b 2 s_14_finnish) (c_goto 0),
                  c_return 0],
                set_c (\<lambda>z. z_l z - m3)]),
              c_break])],
          check slice_del,
          c_return 1])])])]"

definition r_tidy_finnish :: "sn_func" where
  "r_tidy_finnish = c_fun [
    c_let (\<lambda>z. z_l z - z_c z) (\<lambda>m1. c_block [
      c_if (on_I 0 (\<lambda>z i. z_c z < i)) (c_return 0),
      set_c_I 0,
      c_let z_lb (\<lambda>mlimit. c_block [
        set_lb z_c,
        set_c (\<lambda>z. z_l z - m1),
        c_let (\<lambda>z. z_l z - z_c z) (\<lambda>m2. c_block [
          c_upto 0 [
            c_let (\<lambda>z. z_l z - z_c z) (\<lambda>m3. c_block [
              routine r_LONG_finnish (c_goto 0),
              set_c (\<lambda>z. z_l z - m3),
              set_ket z_c,
              move_to (skip_utf8_z z_lb (\<lambda>_. 0) (- 1)) (c_goto 0),
              set_bra z_c,
              check slice_del])],
          set_c (\<lambda>z. z_l z - m2)]),
        c_let (\<lambda>z. z_l z - z_c z) (\<lambda>m4. c_block [
          set_ket z_c,
          c_upto 1 [
            when_true (in_grouping_b_U g_AEI_finnish 97 228 0) (c_goto 1),
            set_bra z_c,
            when_true (out_grouping_b_U g_V1_finnish 97 246 0) (c_goto 1),
            check slice_del],
          set_c (\<lambda>z. z_l z - m4)]),
        c_let (\<lambda>z. z_l z - z_c z) (\<lambda>m5. c_block [
          set_ket z_c,
          c_upto 2 [
            unless (eq_s_b 1 s_15_finnish) (c_goto 2),
            set_bra z_c,
            c_upto 3 [
              c_let (\<lambda>z. z_l z - z_c z) (\<lambda>m6. c_block [
                c_upto 4 [
                  unless (eq_s_b 1 s_16_finnish) (c_goto 4),
                  c_goto 3],
                set_c (\<lambda>z. z_l z - m6),
                unless (eq_s_b 1 s_17_finnish) (c_goto 2)])],
            check slice_del],
          set_c (\<lambda>z. z_l z - m5)]),
        c_let (\<lambda>z. z_l z - z_c z) (\<lambda>m7. c_block [
          set_ket z_c,
          c_upto 5 [
            unless (eq_s_b 1 s_18_finnish) (c_goto 5),
            set_bra z_c,
            unless (eq_s_b 1 s_19_finnish) (c_goto 5),
            check slice_del],
          set_c (\<lambda>z. z_l z - m7)]),
        set_lb (\<lambda>_. mlimit)])]),
    when_neg (in_grouping_b_U g_V1_finnish 97 246 1) (c_return 0),
    set_ket z_c,
    move_to (skip_utf8_z z_lb (\<lambda>_. 0) (- 1)) (c_return 0),
    set_bra z_c,
    set_S_slice_to 0,
    c_if (S_null 0) (c_return (- 1)),
    unless (eq_v_b_S 0) (c_return 0),
    check slice_del,
    c_return 1]"

definition finnish_UTF_8_stem :: "sn_func" where
  "finnish_UTF_8_stem = c_fun [
    try_f 0 r_mark_regions_finnish,
    set_B 0 0,
    set_lb z_c,
    set_c z_l,
    try_b 1 r_particle_etc_finnish,
    try_b 2 r_possessive_finnish,
    try_b 3 r_case_ending_finnish,
    try_b 4 r_other_endings_finnish,
    c_upto 5 [
      c_let (\<lambda>z. z_l z - z_c z) (\<lambda>m6. c_block [
        c_upto 6 [
          c_if (on_B 0 (\<lambda>v. v = 0)) (c_goto 6),
          try_b 7 r_i_plural_finnish,
          c_goto 5],
        set_c (\<lambda>z. z_l z - m6),
        try_b 8 r_t_plural_finnish])],
    try_b 9 r_tidy_finnish,
    set_c z_lb,
    c_return 1]"

definition finnish_UTF_8_create_env :: "env_create" where
  "finnish_UTF_8_create_env = SN_create_env 1 2 1"

definition finnish_UTF_8_close_env :: "env_close" where
  "finnish_UTF_8_close_env z = SN_close_env z 1"

subsection \<open>Facts on the tables\<close>

lemma tables_finnish [simp]:
  "table_b a_0_finnish" "table_b a_1_finnish" "table_b a_2_finnish" "table_b a_3_finnish"
  "table_b a_4_finnish" "table_b a_5_finnish" "table_b a_7_finnish" "table_b a_8_finnish"
  "table_b a_9_finnish"
  by (rule table_sound, code_simp, code_simp)+

lemma tests_finnish [simp]:
  "table_ok (\<lambda>w. rev (s_sym w)) a_6_finnish"
  by (rule table_check_sound, code_simp)

lemma length_tables_finnish [simp]:
  "length a_0_finnish = 10" "length a_1_finnish = 6" "length a_2_finnish = 6"
  "length a_3_finnish = 2" "length a_4_finnish = 9" "length a_5_finnish = 7"
  "length a_6_finnish = 30" "length a_7_finnish = 14" "length a_8_finnish = 2"
  "length a_9_finnish = 2"
  by code_simp+

lemma least_finnish [simp]:
  "least a_0_finnish 1 = 2" "least a_0_finnish 2 = 3" "least a_4_finnish 1 = 2"
  "least a_4_finnish 2 = 2" "least a_4_finnish 3 = 3" "least a_4_finnish 4 = 2"
  "least a_4_finnish 5 = 3" "least a_4_finnish 6 = 2" "least a_6_finnish 1 = 3"
  "least a_6_finnish 2 = 3" "least a_6_finnish 3 = 3" "least a_6_finnish 4 = 3"
  "least a_6_finnish 5 = 4" "least a_6_finnish 6 = 4" "least a_6_finnish 7 = 1"
  "least a_6_finnish 8 = 1" "least a_6_finnish 9 = 3" "least a_7_finnish 1 = 3"
  "least a_9_finnish 1 = 3"
  by code_simp+

lemma lengths_finnish [simp]:
  "length s_0_finnish = 1" "length s_1_finnish = 3" "length s_2_finnish = 3"
  "length s_3_finnish = 1" "length s_4_finnish = 1" "length s_5_finnish = 1"
  "length s_6_finnish = 1" "length s_7_finnish = 1" "length s_8_finnish = 2"
  "length s_9_finnish = 2" "length s_10_finnish = 2" "length s_11_finnish = 1"
  "length s_12_finnish = 2" "length s_13_finnish = 1" "length s_14_finnish = 2"
  "length s_15_finnish = 1" "length s_16_finnish = 1" "length s_17_finnish = 1"
  "length s_18_finnish = 1" "length s_19_finnish = 1"
  by code_simp+

lemma covers_finnish [simp]:
  "covers g_AEI_finnish 97 228" "covers g_V1_finnish 97 246" "covers g_V2_finnish 97 246"
  "covers g_particle_end_finnish 97 246"
  by code_simp+

subsection \<open>Routines\<close>

text \<open>The routines work behind the marks \<^verbatim>\<open>p1\<close> and \<^verbatim>\<open>p2\<close>.\<close>

definition marks_finnish :: "int list \<Rightarrow> bool" where
  "marks_finnish I \<longleftrightarrow> 0 \<le> I ! 0 \<and> 0 \<le> I ! 1"

lemma r_mark_regions_finnish_wp:
  assumes "in_window z" "length (z_I z) = 2"
    and "\<And>r z'. 0 \<le> r \<Longrightarrow> marked (z\<lparr>z_c := z_c z'\<rparr>) z' \<Longrightarrow> z_c z \<le> z_c z' \<Longrightarrow> z_c z' \<le> z_l z \<Longrightarrow>
      marks_finnish (z_I z') \<Longrightarrow> Q r z'"
  shows "wpf r_mark_regions_finnish Q z"
  using assms unfolding r_mark_regions_finnish_def in_window_def
  by (auto intro!: win_intro simp: marked_iff marks_finnish_def)

lemma r_R2_finnish_wp [simp]:
  "length (z_I z) = 2 \<Longrightarrow> wpf r_R2_finnish Q z \<longleftrightarrow> Q (if z_I z ! 1 \<le> z_c z then 1 else 0) z"
  unfolding r_R2_finnish_def by simp

lemma finnish_tests_look:
  assumes "in_window z"
  shows "wpf r_LONG_finnish (looked z) z" "wpf r_VI_finnish (looked z) z"
  using assms unfolding r_LONG_finnish_def r_VI_finnish_def in_window_def
  by (auto intro!: win_intro lookedI looked_refl)

lemmas r_LONG_finnish_wp = looked_wp [OF finnish_tests_look(1)]

lemma a_6_finnish_tests: "w \<in> set a_6_finnish \<Longrightarrow> among_fun w = Some f \<Longrightarrow> f = r_LONG_finnish \<or> f = r_VI_finnish"
  by (auto simp: a_6_finnish_def amg_def amg_fun_def)

lemma find_a_6_finnish:
  assumes "wf_env z" "0 \<le> z_lb z" "z_lb z \<le> z_c z" "z_c z \<le> z_l z" "z_l z \<le> free z"
    and "\<And>c'. z_lb z \<le> c' \<Longrightarrow> c' \<le> z_c z \<Longrightarrow> Q 0 (z\<lparr>z_c := c'\<rparr>)"
    and "\<And>r k. 0 \<le> k \<Longrightarrow> z_lb z \<le> z_c z - k \<Longrightarrow> Q r (z\<lparr>z_c := z_c z - k\<rparr>)"
  shows "wpf (find_among_b a_6_finnish 30) Q z"
proof (rule find_among_b_tests [OF tests_finnish])
  fix w f z' assume "w \<in> set a_6_finnish" "among_fun w = Some f" "in_window z'"
  then show "wpf f (looked z') z'" using a_6_finnish_tests finnish_tests_look by blast
qed (use assms in auto)

lemma r_particle_etc_finnish_steps:
  assumes "in_window z" "z_c z = z_l z" "length (z_I z) = 2" "z_lb z = 0" "marks_finnish (z_I z)"
  shows "wpf r_particle_etc_finnish (stepped z) z"
  using assms unfolding r_particle_etc_finnish_def in_window_def marks_finnish_def
  by (auto intro!: win_intro safe_intro simp: step_defs)

lemma r_possessive_finnish_steps:
  assumes "in_window z" "z_c z = z_l z" "length (z_I z) = 2" "z_lb z = 0" "marks_finnish (z_I z)"
  shows "wpf r_possessive_finnish (stepped z) z"
  using assms unfolding r_possessive_finnish_def in_window_def marks_finnish_def
  by (auto intro!: win_intro safe_intro simp: step_defs)

lemma r_case_ending_finnish_steps:
  assumes "in_window z" "z_c z = z_l z" "length (z_I z) = 2" "z_lb z = 0" "marks_finnish (z_I z)" "length (z_B z) = 1"
  shows "wpf r_case_ending_finnish (stepped_B z) z"
  using assms unfolding r_case_ending_finnish_def in_window_def marks_finnish_def
  by (auto intro!: find_a_6_finnish win_intro safe_intro r_LONG_finnish_wp simp: step_defs stepped_B_def kept_B_def)

lemma r_other_endings_finnish_steps:
  assumes "in_window z" "z_c z = z_l z" "length (z_I z) = 2" "z_lb z = 0" "marks_finnish (z_I z)"
  shows "wpf r_other_endings_finnish (stepped z) z"
  using assms unfolding r_other_endings_finnish_def in_window_def marks_finnish_def
  by (auto intro!: win_intro safe_intro simp: step_defs)

lemma r_i_plural_finnish_steps:
  assumes "in_window z" "z_c z = z_l z" "length (z_I z) = 2" "z_lb z = 0" "marks_finnish (z_I z)"
  shows "wpf r_i_plural_finnish (stepped z) z"
  using assms unfolding r_i_plural_finnish_def in_window_def marks_finnish_def
  by (auto intro!: win_intro safe_intro simp: step_defs)

lemma r_t_plural_finnish_steps:
  assumes "in_window z" "z_c z = z_l z" "length (z_I z) = 2" "z_lb z = 0" "marks_finnish (z_I z)"
  shows "wpf r_t_plural_finnish (stepped z) z"
  using assms unfolding r_t_plural_finnish_def in_window_def marks_finnish_def
  by (auto intro!: win_intro safe_intro simp: step_defs)

lemma r_tidy_finnish_steps:
  assumes "in_window z" "z_c z = z_l z" "length (z_I z) = 2" "z_lb z = 0" "marks_finnish (z_I z)"
    "strs_ok (z_S z)" "length (z_S z) = 1"
  shows "wpf r_tidy_finnish (stepped_S z) z"
  using assms unfolding r_tidy_finnish_def in_window_def marks_finnish_def
  by (auto intro!: win_intro safe_intro r_LONG_finnish_wp set_S_slice_to_safe eq_v_b_S_safe wp_upto_look [where n = 3]
      wp_upto_look [where n = 4] wp_upto_back [where n = 0] wp_upto_back [where n = "Suc 0"] wp_upto_back [where n = 2] wp_upto_back [where n = 5]
      simp: step_defs stepped_S_def simp del: wp_upto)

subsection \<open>The stemmer\<close>

lemmas finnish_routine_steps = r_particle_etc_finnish_steps r_possessive_finnish_steps
  r_other_endings_finnish_steps r_i_plural_finnish_steps r_t_plural_finnish_steps

lemma finnish_stem_steps:
  assumes "in_window z" "z_c z = 0" "strs_ok (z_S z)" "length (z_S z) = 1" "length (z_I z) = 2" "length (z_B z) = 1"
  shows "wpf finnish_UTF_8_stem (stemmed z) z"
  unfolding finnish_UTF_8_stem_def wpf_fun
  apply (rule wp_cut [where n = 4 and J = "at_end marks_finnish z"], simp, simp)
  subgoal using assms by (auto intro!: r_mark_regions_finnish_wp win_intro
      simp: stemmed_def step_defs fits_def at_end_def marked_iff)
  apply (erule wp_stage [where n = 2 and J' = "at_end marks_finnish z"], simp, simp)
  subgoal using assms by (auto intro!: wp_try_at_end [where orig = z and P = marks_finnish] finnish_routine_steps)
  apply (erule wp_stage [where n = 1 and J' = "at_end marks_finnish z"], simp, simp)
  subgoal using assms by (auto intro!: wp_try_end stepped_B_wp [OF r_case_ending_finnish_steps]
      simp: step_defs kept_B_def fits_def at_end_def)
  apply (erule wp_stage [where n = 1 and J' = "at_end marks_finnish z"], simp, simp)
  subgoal using assms by (auto intro!: wp_try_at_end [where orig = z and P = marks_finnish] finnish_routine_steps)
  apply (erule wp_stage [where n = 1 and J' = "at_end marks_finnish z"], simp, simp)
  subgoal for z' using assms
    by (auto intro!: wp_try_end stepped_wp [OF r_i_plural_finnish_steps] stepped_wp [OF r_t_plural_finnish_steps]
        simp: step_defs fits_def at_end_def)
  apply (erule wp_stage [where n = 1 and J' = "at_end marks_finnish z"], simp, simp)
  subgoal using assms by (auto intro!: wp_try_at_end_S [where orig = z and P = marks_finnish]
      r_tidy_finnish_steps simp: stemmed_def)
  subgoal using assms by (auto simp: step_defs fits_def at_end_def stemmed_def)
  done

interpretation finnish: stemmer finnish_UTF_8_stem 1 2 1 0
  by unfold_locales (auto intro!: wpf_mono [OF finnish_stem_steps] fits_grown simp: stemmed_def)

end
