(* ===== verification/Turkish.thy ===== *)
theory Turkish
  imports Libstemmer
begin

text \<open>
  The Turkish stemmer (\<^verbatim>\<open>src_c/stem_UTF_8_turkish.c\<close>): tables, code, and what its routines do. It
  peels suffixes off the end of the word, one routine of it calling itself, and may then lengthen the
  stem: it is the one language whose stemmer needs memory for its text.
\<close>

subsection \<open>Tables\<close>

definition a_0_turkish :: "among list" where
  "a_0_turkish = [
    amg 1 ''m'' (- 1) (- 1),
    amg 1 ''n'' (- 1) (- 1),
    amg 3 ''miz'' (- 1) (- 1),
    amg 3 ''niz'' (- 1) (- 1),
    amg 3 ''muz'' (- 1) (- 1),
    amg 3 ''nuz'' (- 1) (- 1),
    amg 4 [CHR ''m'', CHR 0xC4, CHR 0xB1, CHR ''z''] (- 1) (- 1),
    amg 4 [CHR ''n'', CHR 0xC4, CHR 0xB1, CHR ''z''] (- 1) (- 1),
    amg 4 [CHR ''m'', CHR 0xC3, CHR 0xBC, CHR ''z''] (- 1) (- 1),
    amg 4 [CHR ''n'', CHR 0xC3, CHR 0xBC, CHR ''z''] (- 1) (- 1)]"

definition a_1_turkish :: "among list" where
  "a_1_turkish = [
    amg 4 ''leri'' (- 1) (- 1),
    amg 5 [CHR ''l'', CHR ''a'', CHR ''r'', CHR 0xC4, CHR 0xB1] (- 1) (- 1)]"

definition a_2_turkish :: "among list" where
  "a_2_turkish = [
    amg 2 ''ni'' (- 1) (- 1),
    amg 2 ''nu'' (- 1) (- 1),
    amg 3 [CHR ''n'', CHR 0xC4, CHR 0xB1] (- 1) (- 1),
    amg 3 [CHR ''n'', CHR 0xC3, CHR 0xBC] (- 1) (- 1)]"

definition a_3_turkish :: "among list" where
  "a_3_turkish = [
    amg 2 ''in'' (- 1) (- 1),
    amg 2 ''un'' (- 1) (- 1),
    amg 3 [CHR 0xC4, CHR 0xB1, CHR ''n''] (- 1) (- 1),
    amg 3 [CHR 0xC3, CHR 0xBC, CHR ''n''] (- 1) (- 1)]"

definition a_4_turkish :: "among list" where
  "a_4_turkish = [
    amg 1 ''a'' (- 1) (- 1),
    amg 1 ''e'' (- 1) (- 1)]"

definition a_5_turkish :: "among list" where
  "a_5_turkish = [
    amg 2 ''na'' (- 1) (- 1),
    amg 2 ''ne'' (- 1) (- 1)]"

definition a_6_turkish :: "among list" where
  "a_6_turkish = [
    amg 2 ''da'' (- 1) (- 1),
    amg 2 ''ta'' (- 1) (- 1),
    amg 2 ''de'' (- 1) (- 1),
    amg 2 ''te'' (- 1) (- 1)]"

definition a_7_turkish :: "among list" where
  "a_7_turkish = [
    amg 3 ''nda'' (- 1) (- 1),
    amg 3 ''nde'' (- 1) (- 1)]"

definition a_8_turkish :: "among list" where
  "a_8_turkish = [
    amg 3 ''dan'' (- 1) (- 1),
    amg 3 ''tan'' (- 1) (- 1),
    amg 3 ''den'' (- 1) (- 1),
    amg 3 ''ten'' (- 1) (- 1)]"

definition a_9_turkish :: "among list" where
  "a_9_turkish = [
    amg 4 ''ndan'' (- 1) (- 1),
    amg 4 ''nden'' (- 1) (- 1)]"

definition a_10_turkish :: "among list" where
  "a_10_turkish = [
    amg 2 ''la'' (- 1) (- 1),
    amg 2 ''le'' (- 1) (- 1)]"

definition a_11_turkish :: "among list" where
  "a_11_turkish = [
    amg 2 ''ca'' (- 1) (- 1),
    amg 2 ''ce'' (- 1) (- 1)]"

definition a_12_turkish :: "among list" where
  "a_12_turkish = [
    amg 2 ''im'' (- 1) (- 1),
    amg 2 ''um'' (- 1) (- 1),
    amg 3 [CHR 0xC4, CHR 0xB1, CHR ''m''] (- 1) (- 1),
    amg 3 [CHR 0xC3, CHR 0xBC, CHR ''m''] (- 1) (- 1)]"

definition a_13_turkish :: "among list" where
  "a_13_turkish = [
    amg 3 ''sin'' (- 1) (- 1),
    amg 3 ''sun'' (- 1) (- 1),
    amg 4 [CHR ''s'', CHR 0xC4, CHR 0xB1, CHR ''n''] (- 1) (- 1),
    amg 4 [CHR ''s'', CHR 0xC3, CHR 0xBC, CHR ''n''] (- 1) (- 1)]"

definition a_14_turkish :: "among list" where
  "a_14_turkish = [
    amg 2 ''iz'' (- 1) (- 1),
    amg 2 ''uz'' (- 1) (- 1),
    amg 3 [CHR 0xC4, CHR 0xB1, CHR ''z''] (- 1) (- 1),
    amg 3 [CHR 0xC3, CHR 0xBC, CHR ''z''] (- 1) (- 1)]"

definition a_15_turkish :: "among list" where
  "a_15_turkish = [
    amg 5 ''siniz'' (- 1) (- 1),
    amg 5 ''sunuz'' (- 1) (- 1),
    amg 7 [CHR ''s'', CHR 0xC4, CHR 0xB1, CHR ''n'', CHR 0xC4, CHR 0xB1, CHR ''z''] (- 1) (- 1),
    amg 7 [CHR ''s'', CHR 0xC3, CHR 0xBC, CHR ''n'', CHR 0xC3, CHR 0xBC, CHR ''z''] (- 1) (- 1)]"

definition a_16_turkish :: "among list" where
  "a_16_turkish = [
    amg 3 ''lar'' (- 1) (- 1),
    amg 3 ''ler'' (- 1) (- 1)]"

definition a_17_turkish :: "among list" where
  "a_17_turkish = [
    amg 3 ''niz'' (- 1) (- 1),
    amg 3 ''nuz'' (- 1) (- 1),
    amg 4 [CHR ''n'', CHR 0xC4, CHR 0xB1, CHR ''z''] (- 1) (- 1),
    amg 4 [CHR ''n'', CHR 0xC3, CHR 0xBC, CHR ''z''] (- 1) (- 1)]"

definition a_18_turkish :: "among list" where
  "a_18_turkish = [
    amg 3 ''dir'' (- 1) (- 1),
    amg 3 ''tir'' (- 1) (- 1),
    amg 3 ''dur'' (- 1) (- 1),
    amg 3 ''tur'' (- 1) (- 1),
    amg 4 [CHR ''d'', CHR 0xC4, CHR 0xB1, CHR ''r''] (- 1) (- 1),
    amg 4 [CHR ''t'', CHR 0xC4, CHR 0xB1, CHR ''r''] (- 1) (- 1),
    amg 4 [CHR ''d'', CHR 0xC3, CHR 0xBC, CHR ''r''] (- 1) (- 1),
    amg 4 [CHR ''t'', CHR 0xC3, CHR 0xBC, CHR ''r''] (- 1) (- 1)]"

definition a_19_turkish :: "among list" where
  "a_19_turkish = [
    amg 7 [CHR ''c'', CHR ''a'', CHR ''s'', CHR 0xC4, CHR 0xB1, CHR ''n'', CHR ''a''] (- 1) (- 1),
    amg 6 ''cesine'' (- 1) (- 1)]"

definition a_20_turkish :: "among list" where
  "a_20_turkish = [
    amg 2 ''di'' (- 1) (- 1),
    amg 2 ''ti'' (- 1) (- 1),
    amg 3 ''dik'' (- 1) (- 1),
    amg 3 ''tik'' (- 1) (- 1),
    amg 3 ''duk'' (- 1) (- 1),
    amg 3 ''tuk'' (- 1) (- 1),
    amg 4 [CHR ''d'', CHR 0xC4, CHR 0xB1, CHR ''k''] (- 1) (- 1),
    amg 4 [CHR ''t'', CHR 0xC4, CHR 0xB1, CHR ''k''] (- 1) (- 1),
    amg 4 [CHR ''d'', CHR 0xC3, CHR 0xBC, CHR ''k''] (- 1) (- 1),
    amg 4 [CHR ''t'', CHR 0xC3, CHR 0xBC, CHR ''k''] (- 1) (- 1),
    amg 3 ''dim'' (- 1) (- 1),
    amg 3 ''tim'' (- 1) (- 1),
    amg 3 ''dum'' (- 1) (- 1),
    amg 3 ''tum'' (- 1) (- 1),
    amg 4 [CHR ''d'', CHR 0xC4, CHR 0xB1, CHR ''m''] (- 1) (- 1),
    amg 4 [CHR ''t'', CHR 0xC4, CHR 0xB1, CHR ''m''] (- 1) (- 1),
    amg 4 [CHR ''d'', CHR 0xC3, CHR 0xBC, CHR ''m''] (- 1) (- 1),
    amg 4 [CHR ''t'', CHR 0xC3, CHR 0xBC, CHR ''m''] (- 1) (- 1),
    amg 3 ''din'' (- 1) (- 1),
    amg 3 ''tin'' (- 1) (- 1),
    amg 3 ''dun'' (- 1) (- 1),
    amg 3 ''tun'' (- 1) (- 1),
    amg 4 [CHR ''d'', CHR 0xC4, CHR 0xB1, CHR ''n''] (- 1) (- 1),
    amg 4 [CHR ''t'', CHR 0xC4, CHR 0xB1, CHR ''n''] (- 1) (- 1),
    amg 4 [CHR ''d'', CHR 0xC3, CHR 0xBC, CHR ''n''] (- 1) (- 1),
    amg 4 [CHR ''t'', CHR 0xC3, CHR 0xBC, CHR ''n''] (- 1) (- 1),
    amg 2 ''du'' (- 1) (- 1),
    amg 2 ''tu'' (- 1) (- 1),
    amg 3 [CHR ''d'', CHR 0xC4, CHR 0xB1] (- 1) (- 1),
    amg 3 [CHR ''t'', CHR 0xC4, CHR 0xB1] (- 1) (- 1),
    amg 3 [CHR ''d'', CHR 0xC3, CHR 0xBC] (- 1) (- 1),
    amg 3 [CHR ''t'', CHR 0xC3, CHR 0xBC] (- 1) (- 1)]"

definition a_21_turkish :: "among list" where
  "a_21_turkish = [
    amg 2 ''sa'' (- 1) (- 1),
    amg 2 ''se'' (- 1) (- 1),
    amg 3 ''sak'' (- 1) (- 1),
    amg 3 ''sek'' (- 1) (- 1),
    amg 3 ''sam'' (- 1) (- 1),
    amg 3 ''sem'' (- 1) (- 1),
    amg 3 ''san'' (- 1) (- 1),
    amg 3 ''sen'' (- 1) (- 1)]"

definition a_22_turkish :: "among list" where
  "a_22_turkish = [
    amg 4 [CHR ''m'', CHR ''i'', CHR 0xC5, CHR 0x9F] (- 1) (- 1),
    amg 4 [CHR ''m'', CHR ''u'', CHR 0xC5, CHR 0x9F] (- 1) (- 1),
    amg 5 [CHR ''m'', CHR 0xC4, CHR 0xB1, CHR 0xC5, CHR 0x9F] (- 1) (- 1),
    amg 5 [CHR ''m'', CHR 0xC3, CHR 0xBC, CHR 0xC5, CHR 0x9F] (- 1) (- 1)]"

definition a_23_turkish :: "among list" where
  "a_23_turkish = [
    amg 1 ''b'' (- 1) 1,
    amg 1 ''c'' (- 1) 2,
    amg 1 ''d'' (- 1) 3,
    amg 2 [CHR 0xC4, CHR 0x9F] (- 1) 4]"

definition g_vowel_turkish :: "int list" where
  "g_vowel_turkish = [17, 65, 16, 0, 0, 0, 0, 0, 0, 0, 0, 0, 0, 0, 0, 0, 0, 0, 32, 8, 0, 0, 0, 0, 0, 0, 1]"

definition g_U_turkish :: "int list" where
  "g_U_turkish = [1, 16, 0, 0, 0, 0, 0, 0, 0, 0, 0, 0, 0, 0, 0, 0, 0, 0, 8, 0, 0, 0, 0, 0, 0, 1]"

definition g_vowel1_turkish :: "int list" where
  "g_vowel1_turkish = [1, 64, 16, 0, 0, 0, 0, 0, 0, 0, 0, 0, 0, 0, 0, 0, 0, 0, 0, 0, 0, 0, 0, 0, 0, 0, 1]"

definition g_vowel2_turkish :: "int list" where
  "g_vowel2_turkish = [17, 0, 0, 0, 0, 0, 0, 0, 0, 0, 0, 0, 0, 0, 0, 0, 0, 0, 130]"

definition g_vowel3_turkish :: "int list" where
  "g_vowel3_turkish = [1, 0, 0, 0, 0, 0, 0, 0, 0, 0, 0, 0, 0, 0, 0, 0, 0, 0, 0, 0, 0, 0, 0, 0, 0, 0, 1]"

definition g_vowel4_turkish :: "int list" where
  "g_vowel4_turkish = [17]"

definition g_vowel5_turkish :: "int list" where
  "g_vowel5_turkish = [65]"

definition g_vowel6_turkish :: "int list" where
  "g_vowel6_turkish = [65]"

subsection \<open>Strings\<close>

definition s_0_turkish :: "symbol list" where
  "s_0_turkish = ''a''"

definition s_1_turkish :: "symbol list" where
  "s_1_turkish = ''e''"

definition s_2_turkish :: "symbol list" where
  "s_2_turkish = [CHR 0xC4, CHR 0xB1]"

definition s_3_turkish :: "symbol list" where
  "s_3_turkish = ''i''"

definition s_4_turkish :: "symbol list" where
  "s_4_turkish = ''o''"

definition s_5_turkish :: "symbol list" where
  "s_5_turkish = [CHR 0xC3, CHR 0xB6]"

definition s_6_turkish :: "symbol list" where
  "s_6_turkish = ''u''"

definition s_7_turkish :: "symbol list" where
  "s_7_turkish = [CHR 0xC3, CHR 0xBC]"

definition s_8_turkish :: "symbol list" where
  "s_8_turkish = ''n''"

definition s_9_turkish :: "symbol list" where
  "s_9_turkish = ''n''"

definition s_10_turkish :: "symbol list" where
  "s_10_turkish = ''s''"

definition s_11_turkish :: "symbol list" where
  "s_11_turkish = ''s''"

definition s_12_turkish :: "symbol list" where
  "s_12_turkish = ''y''"

definition s_13_turkish :: "symbol list" where
  "s_13_turkish = ''y''"

definition s_14_turkish :: "symbol list" where
  "s_14_turkish = ''ki''"

definition s_15_turkish :: "symbol list" where
  "s_15_turkish = ''ken''"

definition s_16_turkish :: "symbol list" where
  "s_16_turkish = ''p''"

definition s_17_turkish :: "symbol list" where
  "s_17_turkish = [CHR 0xC3, CHR 0xA7]"

definition s_18_turkish :: "symbol list" where
  "s_18_turkish = ''t''"

definition s_19_turkish :: "symbol list" where
  "s_19_turkish = ''k''"

definition s_20_turkish :: "symbol list" where
  "s_20_turkish = ''d''"

definition s_21_turkish :: "symbol list" where
  "s_21_turkish = ''g''"

definition s_22_turkish :: "symbol list" where
  "s_22_turkish = ''a''"

definition s_23_turkish :: "symbol list" where
  "s_23_turkish = [CHR 0xC4, CHR 0xB1]"

definition s_24_turkish :: "symbol list" where
  "s_24_turkish = [CHR 0xC4, CHR 0xB1]"

definition s_25_turkish :: "symbol list" where
  "s_25_turkish = ''e''"

definition s_26_turkish :: "symbol list" where
  "s_26_turkish = ''i''"

definition s_27_turkish :: "symbol list" where
  "s_27_turkish = ''i''"

definition s_28_turkish :: "symbol list" where
  "s_28_turkish = ''o''"

definition s_29_turkish :: "symbol list" where
  "s_29_turkish = ''u''"

definition s_30_turkish :: "symbol list" where
  "s_30_turkish = ''u''"

definition s_31_turkish :: "symbol list" where
  "s_31_turkish = [CHR 0xC3, CHR 0xB6]"

definition s_32_turkish :: "symbol list" where
  "s_32_turkish = [CHR 0xC3, CHR 0xBC]"

definition s_33_turkish :: "symbol list" where
  "s_33_turkish = [CHR 0xC3, CHR 0xBC]"

definition s_34_turkish :: "symbol list" where
  "s_34_turkish = ''ad''"

definition s_35_turkish :: "symbol list" where
  "s_35_turkish = ''soyad''"

subsection \<open>Code\<close>

definition r_check_vowel_harmony_turkish :: "sn_func" where
  "r_check_vowel_harmony_turkish = c_fun [
    c_let (\<lambda>z. z_l z - z_c z) (\<lambda>m_test. c_block [
      when_neg (out_grouping_b_U g_vowel_turkish 97 305 1) (c_return 0),
      c_upto 0 [
        c_let (\<lambda>z. z_l z - z_c z) (\<lambda>m1. c_block [
          c_upto 1 [
            unless (eq_s_b 1 s_0_turkish) (c_goto 1),
            when_neg (out_grouping_b_U g_vowel1_turkish 97 305 1) (c_goto 1),
            c_goto 0],
          set_c (\<lambda>z. z_l z - m1),
          c_upto 2 [
            unless (eq_s_b 1 s_1_turkish) (c_goto 2),
            when_neg (out_grouping_b_U g_vowel2_turkish 101 252 1) (c_goto 2),
            c_goto 0],
          set_c (\<lambda>z. z_l z - m1),
          c_upto 3 [
            unless (eq_s_b 2 s_2_turkish) (c_goto 3),
            when_neg (out_grouping_b_U g_vowel3_turkish 97 305 1) (c_goto 3),
            c_goto 0],
          set_c (\<lambda>z. z_l z - m1),
          c_upto 4 [
            unless (eq_s_b 1 s_3_turkish) (c_goto 4),
            when_neg (out_grouping_b_U g_vowel4_turkish 101 105 1) (c_goto 4),
            c_goto 0],
          set_c (\<lambda>z. z_l z - m1),
          c_upto 5 [
            unless (eq_s_b 1 s_4_turkish) (c_goto 5),
            when_neg (out_grouping_b_U g_vowel5_turkish 111 117 1) (c_goto 5),
            c_goto 0],
          set_c (\<lambda>z. z_l z - m1),
          c_upto 6 [
            unless (eq_s_b 2 s_5_turkish) (c_goto 6),
            when_neg (out_grouping_b_U g_vowel6_turkish 246 252 1) (c_goto 6),
            c_goto 0],
          set_c (\<lambda>z. z_l z - m1),
          c_upto 7 [
            unless (eq_s_b 1 s_6_turkish) (c_goto 7),
            when_neg (out_grouping_b_U g_vowel5_turkish 111 117 1) (c_goto 7),
            c_goto 0],
          set_c (\<lambda>z. z_l z - m1),
          unless (eq_s_b 2 s_7_turkish) (c_return 0),
          when_neg (out_grouping_b_U g_vowel6_turkish 246 252 1) (c_return 0)])],
      set_c (\<lambda>z. z_l z - m_test)]),
    c_return 1]"

definition r_mark_suffix_with_optional_n_consonant_turkish :: "sn_func" where
  "r_mark_suffix_with_optional_n_consonant_turkish = c_fun [
    c_upto 0 [
      c_let (\<lambda>z. z_l z - z_c z) (\<lambda>m1. c_block [
        c_upto 1 [
          c_let (\<lambda>z. z_l z - z_c z) (\<lambda>m_test. c_block [
            unless (eq_s_b 1 s_8_turkish) (c_goto 1),
            set_c (\<lambda>z. z_l z - m_test)]),
          move_to (skip_utf8_z z_lb (\<lambda>_. 0) (- 1)) (c_goto 1),
          c_let (\<lambda>z. z_l z - z_c z) (\<lambda>m_test. c_block [
            when_true (in_grouping_b_U g_vowel_turkish 97 305 0) (c_goto 1),
            set_c (\<lambda>z. z_l z - m_test)]),
          c_goto 0],
        set_c (\<lambda>z. z_l z - m1),
        c_let (\<lambda>z. z_l z - z_c z) (\<lambda>m2. c_block [
          c_upto 2 [
            c_let (\<lambda>z. z_l z - z_c z) (\<lambda>m_test. c_block [
              unless (eq_s_b 1 s_9_turkish) (c_goto 2),
              set_c (\<lambda>z. z_l z - m_test)]),
            c_return 0],
          set_c (\<lambda>z. z_l z - m2)]),
        c_let (\<lambda>z. z_l z - z_c z) (\<lambda>m_test. c_block [
          move_to (skip_utf8_z z_lb (\<lambda>_. 0) (- 1)) (c_return 0),
          c_let (\<lambda>z. z_l z - z_c z) (\<lambda>m_test. c_block [
            when_true (in_grouping_b_U g_vowel_turkish 97 305 0) (c_return 0),
            set_c (\<lambda>z. z_l z - m_test)]),
          set_c (\<lambda>z. z_l z - m_test)])])],
    c_return 1]"

definition r_mark_suffix_with_optional_s_consonant_turkish :: "sn_func" where
  "r_mark_suffix_with_optional_s_consonant_turkish = c_fun [
    c_upto 0 [
      c_let (\<lambda>z. z_l z - z_c z) (\<lambda>m1. c_block [
        c_upto 1 [
          c_let (\<lambda>z. z_l z - z_c z) (\<lambda>m_test. c_block [
            unless (eq_s_b 1 s_10_turkish) (c_goto 1),
            set_c (\<lambda>z. z_l z - m_test)]),
          move_to (skip_utf8_z z_lb (\<lambda>_. 0) (- 1)) (c_goto 1),
          c_let (\<lambda>z. z_l z - z_c z) (\<lambda>m_test. c_block [
            when_true (in_grouping_b_U g_vowel_turkish 97 305 0) (c_goto 1),
            set_c (\<lambda>z. z_l z - m_test)]),
          c_goto 0],
        set_c (\<lambda>z. z_l z - m1),
        c_let (\<lambda>z. z_l z - z_c z) (\<lambda>m2. c_block [
          c_upto 2 [
            c_let (\<lambda>z. z_l z - z_c z) (\<lambda>m_test. c_block [
              unless (eq_s_b 1 s_11_turkish) (c_goto 2),
              set_c (\<lambda>z. z_l z - m_test)]),
            c_return 0],
          set_c (\<lambda>z. z_l z - m2)]),
        c_let (\<lambda>z. z_l z - z_c z) (\<lambda>m_test. c_block [
          move_to (skip_utf8_z z_lb (\<lambda>_. 0) (- 1)) (c_return 0),
          c_let (\<lambda>z. z_l z - z_c z) (\<lambda>m_test. c_block [
            when_true (in_grouping_b_U g_vowel_turkish 97 305 0) (c_return 0),
            set_c (\<lambda>z. z_l z - m_test)]),
          set_c (\<lambda>z. z_l z - m_test)])])],
    c_return 1]"

definition r_mark_suffix_with_optional_y_consonant_turkish :: "sn_func" where
  "r_mark_suffix_with_optional_y_consonant_turkish = c_fun [
    c_upto 0 [
      c_let (\<lambda>z. z_l z - z_c z) (\<lambda>m1. c_block [
        c_upto 1 [
          c_let (\<lambda>z. z_l z - z_c z) (\<lambda>m_test. c_block [
            unless (eq_s_b 1 s_12_turkish) (c_goto 1),
            set_c (\<lambda>z. z_l z - m_test)]),
          move_to (skip_utf8_z z_lb (\<lambda>_. 0) (- 1)) (c_goto 1),
          c_let (\<lambda>z. z_l z - z_c z) (\<lambda>m_test. c_block [
            when_true (in_grouping_b_U g_vowel_turkish 97 305 0) (c_goto 1),
            set_c (\<lambda>z. z_l z - m_test)]),
          c_goto 0],
        set_c (\<lambda>z. z_l z - m1),
        c_let (\<lambda>z. z_l z - z_c z) (\<lambda>m2. c_block [
          c_upto 2 [
            c_let (\<lambda>z. z_l z - z_c z) (\<lambda>m_test. c_block [
              unless (eq_s_b 1 s_13_turkish) (c_goto 2),
              set_c (\<lambda>z. z_l z - m_test)]),
            c_return 0],
          set_c (\<lambda>z. z_l z - m2)]),
        c_let (\<lambda>z. z_l z - z_c z) (\<lambda>m_test. c_block [
          move_to (skip_utf8_z z_lb (\<lambda>_. 0) (- 1)) (c_return 0),
          c_let (\<lambda>z. z_l z - z_c z) (\<lambda>m_test. c_block [
            when_true (in_grouping_b_U g_vowel_turkish 97 305 0) (c_return 0),
            set_c (\<lambda>z. z_l z - m_test)]),
          set_c (\<lambda>z. z_l z - m_test)])])],
    c_return 1]"

definition r_mark_suffix_with_optional_U_vowel_turkish :: "sn_func" where
  "r_mark_suffix_with_optional_U_vowel_turkish = c_fun [
    c_upto 0 [
      c_let (\<lambda>z. z_l z - z_c z) (\<lambda>m1. c_block [
        c_upto 1 [
          c_let (\<lambda>z. z_l z - z_c z) (\<lambda>m_test. c_block [
            when_true (in_grouping_b_U g_U_turkish 105 305 0) (c_goto 1),
            set_c (\<lambda>z. z_l z - m_test)]),
          move_to (skip_utf8_z z_lb (\<lambda>_. 0) (- 1)) (c_goto 1),
          c_let (\<lambda>z. z_l z - z_c z) (\<lambda>m_test. c_block [
            when_true (out_grouping_b_U g_vowel_turkish 97 305 0) (c_goto 1),
            set_c (\<lambda>z. z_l z - m_test)]),
          c_goto 0],
        set_c (\<lambda>z. z_l z - m1),
        c_let (\<lambda>z. z_l z - z_c z) (\<lambda>m2. c_block [
          c_upto 2 [
            c_let (\<lambda>z. z_l z - z_c z) (\<lambda>m_test. c_block [
              when_true (in_grouping_b_U g_U_turkish 105 305 0) (c_goto 2),
              set_c (\<lambda>z. z_l z - m_test)]),
            c_return 0],
          set_c (\<lambda>z. z_l z - m2)]),
        c_let (\<lambda>z. z_l z - z_c z) (\<lambda>m_test. c_block [
          move_to (skip_utf8_z z_lb (\<lambda>_. 0) (- 1)) (c_return 0),
          c_let (\<lambda>z. z_l z - z_c z) (\<lambda>m_test. c_block [
            when_true (out_grouping_b_U g_vowel_turkish 97 305 0) (c_return 0),
            set_c (\<lambda>z. z_l z - m_test)]),
          set_c (\<lambda>z. z_l z - m_test)])])],
    c_return 1]"

definition r_mark_possessives_turkish :: "sn_func" where
  "r_mark_possessives_turkish = c_fun [
    c_if (tail_guard 0 (not_in_mask 3 67133440)) (c_return 0),
    unless (find_among_b a_0_turkish 10) (c_return 0),
    routine r_mark_suffix_with_optional_U_vowel_turkish (c_return 0),
    c_return 1]"

definition r_mark_sU_turkish :: "sn_func" where
  "r_mark_sU_turkish = c_fun [
    routine r_check_vowel_harmony_turkish (c_return 0),
    when_true (in_grouping_b_U g_U_turkish 105 305 0) (c_return 0),
    routine r_mark_suffix_with_optional_s_consonant_turkish (c_return 0),
    c_return 1]"

definition r_mark_lArI_turkish :: "sn_func" where
  "r_mark_lArI_turkish = c_fun [
    c_if (tail_guard 3 (\<lambda>ch. ch \<noteq> 105 \<and> ch \<noteq> 177)) (c_return 0),
    unless (find_among_b a_1_turkish 2) (c_return 0),
    c_return 1]"

definition r_mark_yU_turkish :: "sn_func" where
  "r_mark_yU_turkish = c_fun [
    routine r_check_vowel_harmony_turkish (c_return 0),
    when_true (in_grouping_b_U g_U_turkish 105 305 0) (c_return 0),
    routine r_mark_suffix_with_optional_y_consonant_turkish (c_return 0),
    c_return 1]"

definition r_mark_nU_turkish :: "sn_func" where
  "r_mark_nU_turkish = c_fun [
    routine r_check_vowel_harmony_turkish (c_return 0),
    unless (find_among_b a_2_turkish 4) (c_return 0),
    c_return 1]"

definition r_mark_nUn_turkish :: "sn_func" where
  "r_mark_nUn_turkish = c_fun [
    routine r_check_vowel_harmony_turkish (c_return 0),
    c_if (tail_guard 1 (\<lambda>ch. ch \<noteq> 110)) (c_return 0),
    unless (find_among_b a_3_turkish 4) (c_return 0),
    routine r_mark_suffix_with_optional_n_consonant_turkish (c_return 0),
    c_return 1]"

definition r_mark_yA_turkish :: "sn_func" where
  "r_mark_yA_turkish = c_fun [
    routine r_check_vowel_harmony_turkish (c_return 0),
    c_if (tail_guard 0 (\<lambda>ch. ch \<noteq> 97 \<and> ch \<noteq> 101)) (c_return 0),
    unless (find_among_b a_4_turkish 2) (c_return 0),
    routine r_mark_suffix_with_optional_y_consonant_turkish (c_return 0),
    c_return 1]"

definition r_mark_nA_turkish :: "sn_func" where
  "r_mark_nA_turkish = c_fun [
    routine r_check_vowel_harmony_turkish (c_return 0),
    c_if (tail_guard 1 (\<lambda>ch. ch \<noteq> 97 \<and> ch \<noteq> 101)) (c_return 0),
    unless (find_among_b a_5_turkish 2) (c_return 0),
    c_return 1]"

definition r_mark_DA_turkish :: "sn_func" where
  "r_mark_DA_turkish = c_fun [
    routine r_check_vowel_harmony_turkish (c_return 0),
    c_if (tail_guard 1 (\<lambda>ch. ch \<noteq> 97 \<and> ch \<noteq> 101)) (c_return 0),
    unless (find_among_b a_6_turkish 4) (c_return 0),
    c_return 1]"

definition r_mark_ndA_turkish :: "sn_func" where
  "r_mark_ndA_turkish = c_fun [
    routine r_check_vowel_harmony_turkish (c_return 0),
    c_if (tail_guard 2 (\<lambda>ch. ch \<noteq> 97 \<and> ch \<noteq> 101)) (c_return 0),
    unless (find_among_b a_7_turkish 2) (c_return 0),
    c_return 1]"

definition r_mark_DAn_turkish :: "sn_func" where
  "r_mark_DAn_turkish = c_fun [
    routine r_check_vowel_harmony_turkish (c_return 0),
    c_if (tail_guard 2 (\<lambda>ch. ch \<noteq> 110)) (c_return 0),
    unless (find_among_b a_8_turkish 4) (c_return 0),
    c_return 1]"

definition r_mark_ndAn_turkish :: "sn_func" where
  "r_mark_ndAn_turkish = c_fun [
    routine r_check_vowel_harmony_turkish (c_return 0),
    c_if (tail_guard 3 (\<lambda>ch. ch \<noteq> 110)) (c_return 0),
    unless (find_among_b a_9_turkish 2) (c_return 0),
    c_return 1]"

definition r_mark_ylA_turkish :: "sn_func" where
  "r_mark_ylA_turkish = c_fun [
    routine r_check_vowel_harmony_turkish (c_return 0),
    c_if (tail_guard 1 (\<lambda>ch. ch \<noteq> 97 \<and> ch \<noteq> 101)) (c_return 0),
    unless (find_among_b a_10_turkish 2) (c_return 0),
    routine r_mark_suffix_with_optional_y_consonant_turkish (c_return 0),
    c_return 1]"

definition r_mark_ki_turkish :: "sn_func" where
  "r_mark_ki_turkish = c_fun [
    unless (eq_s_b 2 s_14_turkish) (c_return 0),
    c_return 1]"

definition r_mark_ncA_turkish :: "sn_func" where
  "r_mark_ncA_turkish = c_fun [
    routine r_check_vowel_harmony_turkish (c_return 0),
    c_if (tail_guard 1 (\<lambda>ch. ch \<noteq> 97 \<and> ch \<noteq> 101)) (c_return 0),
    unless (find_among_b a_11_turkish 2) (c_return 0),
    routine r_mark_suffix_with_optional_n_consonant_turkish (c_return 0),
    c_return 1]"

definition r_mark_yUm_turkish :: "sn_func" where
  "r_mark_yUm_turkish = c_fun [
    routine r_check_vowel_harmony_turkish (c_return 0),
    c_if (tail_guard 1 (\<lambda>ch. ch \<noteq> 109)) (c_return 0),
    unless (find_among_b a_12_turkish 4) (c_return 0),
    routine r_mark_suffix_with_optional_y_consonant_turkish (c_return 0),
    c_return 1]"

definition r_mark_sUn_turkish :: "sn_func" where
  "r_mark_sUn_turkish = c_fun [
    routine r_check_vowel_harmony_turkish (c_return 0),
    c_if (tail_guard 2 (\<lambda>ch. ch \<noteq> 110)) (c_return 0),
    unless (find_among_b a_13_turkish 4) (c_return 0),
    c_return 1]"

definition r_mark_yUz_turkish :: "sn_func" where
  "r_mark_yUz_turkish = c_fun [
    routine r_check_vowel_harmony_turkish (c_return 0),
    c_if (tail_guard 1 (\<lambda>ch. ch \<noteq> 122)) (c_return 0),
    unless (find_among_b a_14_turkish 4) (c_return 0),
    routine r_mark_suffix_with_optional_y_consonant_turkish (c_return 0),
    c_return 1]"

definition r_mark_sUnUz_turkish :: "sn_func" where
  "r_mark_sUnUz_turkish = c_fun [
    c_if (tail_guard 4 (\<lambda>ch. ch \<noteq> 122)) (c_return 0),
    unless (find_among_b a_15_turkish 4) (c_return 0),
    c_return 1]"

definition r_mark_lAr_turkish :: "sn_func" where
  "r_mark_lAr_turkish = c_fun [
    routine r_check_vowel_harmony_turkish (c_return 0),
    c_if (tail_guard 2 (\<lambda>ch. ch \<noteq> 114)) (c_return 0),
    unless (find_among_b a_16_turkish 2) (c_return 0),
    c_return 1]"

definition r_mark_nUz_turkish :: "sn_func" where
  "r_mark_nUz_turkish = c_fun [
    routine r_check_vowel_harmony_turkish (c_return 0),
    c_if (tail_guard 2 (\<lambda>ch. ch \<noteq> 122)) (c_return 0),
    unless (find_among_b a_17_turkish 4) (c_return 0),
    c_return 1]"

definition r_mark_DUr_turkish :: "sn_func" where
  "r_mark_DUr_turkish = c_fun [
    routine r_check_vowel_harmony_turkish (c_return 0),
    c_if (tail_guard 2 (\<lambda>ch. ch \<noteq> 114)) (c_return 0),
    unless (find_among_b a_18_turkish 8) (c_return 0),
    c_return 1]"

definition r_mark_cAsInA_turkish :: "sn_func" where
  "r_mark_cAsInA_turkish = c_fun [
    c_if (tail_guard 5 (\<lambda>ch. ch \<noteq> 97 \<and> ch \<noteq> 101)) (c_return 0),
    unless (find_among_b a_19_turkish 2) (c_return 0),
    c_return 1]"

definition r_mark_yDU_turkish :: "sn_func" where
  "r_mark_yDU_turkish = c_fun [
    routine r_check_vowel_harmony_turkish (c_return 0),
    unless (find_among_b a_20_turkish 32) (c_return 0),
    routine r_mark_suffix_with_optional_y_consonant_turkish (c_return 0),
    c_return 1]"

definition r_mark_ysA_turkish :: "sn_func" where
  "r_mark_ysA_turkish = c_fun [
    c_if (tail_guard 1 (not_in_mask 3 26658)) (c_return 0),
    unless (find_among_b a_21_turkish 8) (c_return 0),
    routine r_mark_suffix_with_optional_y_consonant_turkish (c_return 0),
    c_return 1]"

definition r_mark_ymUs__turkish :: "sn_func" where
  "r_mark_ymUs__turkish = c_fun [
    routine r_check_vowel_harmony_turkish (c_return 0),
    c_if (tail_guard 3 (\<lambda>ch. ch \<noteq> 159)) (c_return 0),
    unless (find_among_b a_22_turkish 4) (c_return 0),
    routine r_mark_suffix_with_optional_y_consonant_turkish (c_return 0),
    c_return 1]"

definition r_mark_yken_turkish :: "sn_func" where
  "r_mark_yken_turkish = c_fun [
    unless (eq_s_b 3 s_15_turkish) (c_return 0),
    routine r_mark_suffix_with_optional_y_consonant_turkish (c_return 0),
    c_return 1]"

definition r_stem_nominal_verb_suffixes_turkish :: "sn_func" where
  "r_stem_nominal_verb_suffixes_turkish = c_fun [
    set_ket z_c,
    set_B 0 1,
    c_upto 0 [
      c_let (\<lambda>z. z_l z - z_c z) (\<lambda>m1. c_block [
        c_upto 1 [
          c_upto 2 [
            c_let (\<lambda>z. z_l z - z_c z) (\<lambda>m2. c_block [
              c_upto 3 [
                routine r_mark_ymUs__turkish (c_goto 3),
                c_goto 2],
              set_c (\<lambda>z. z_l z - m2),
              c_upto 4 [
                routine r_mark_yDU_turkish (c_goto 4),
                c_goto 2],
              set_c (\<lambda>z. z_l z - m2),
              c_upto 5 [
                routine r_mark_ysA_turkish (c_goto 5),
                c_goto 2],
              set_c (\<lambda>z. z_l z - m2),
              routine r_mark_yken_turkish (c_goto 1)])],
          c_goto 0],
        set_c (\<lambda>z. z_l z - m1),
        c_upto 6 [
          routine r_mark_cAsInA_turkish (c_goto 6),
          c_upto 7 [
            c_let (\<lambda>z. z_l z - z_c z) (\<lambda>m3. c_block [
              c_upto 8 [
                routine r_mark_sUnUz_turkish (c_goto 8),
                c_goto 7],
              set_c (\<lambda>z. z_l z - m3),
              c_upto 9 [
                routine r_mark_lAr_turkish (c_goto 9),
                c_goto 7],
              set_c (\<lambda>z. z_l z - m3),
              c_upto 10 [
                routine r_mark_yUm_turkish (c_goto 10),
                c_goto 7],
              set_c (\<lambda>z. z_l z - m3),
              c_upto 11 [
                routine r_mark_sUn_turkish (c_goto 11),
                c_goto 7],
              set_c (\<lambda>z. z_l z - m3),
              c_upto 12 [
                routine r_mark_yUz_turkish (c_goto 12),
                c_goto 7],
              set_c (\<lambda>z. z_l z - m3)])],
          routine r_mark_ymUs__turkish (c_goto 6),
          c_goto 0],
        set_c (\<lambda>z. z_l z - m1),
        c_upto 13 [
          routine r_mark_lAr_turkish (c_goto 13),
          set_bra z_c,
          check slice_del,
          c_let (\<lambda>z. z_l z - z_c z) (\<lambda>m_keep. c_block [
            set_ket z_c,
            c_upto 14 [
              c_upto 15 [
                c_let (\<lambda>z. z_l z - z_c z) (\<lambda>m4. c_block [
                  c_upto 16 [
                    routine r_mark_DUr_turkish (c_goto 16),
                    c_goto 15],
                  set_c (\<lambda>z. z_l z - m4),
                  c_upto 17 [
                    routine r_mark_yDU_turkish (c_goto 17),
                    c_goto 15],
                  set_c (\<lambda>z. z_l z - m4),
                  c_upto 18 [
                    routine r_mark_ysA_turkish (c_goto 18),
                    c_goto 15],
                  set_c (\<lambda>z. z_l z - m4),
                  routine r_mark_ymUs__turkish (
                    c_block [
                      set_c (\<lambda>z. z_l z - m_keep),
                      c_goto 14])])]]]),
          set_B 0 0,
          c_goto 0],
        set_c (\<lambda>z. z_l z - m1),
        c_upto 19 [
          routine r_mark_nUz_turkish (c_goto 19),
          c_upto 20 [
            c_let (\<lambda>z. z_l z - z_c z) (\<lambda>m5. c_block [
              c_upto 21 [
                routine r_mark_yDU_turkish (c_goto 21),
                c_goto 20],
              set_c (\<lambda>z. z_l z - m5),
              routine r_mark_ysA_turkish (c_goto 19)])],
          c_goto 0],
        set_c (\<lambda>z. z_l z - m1),
        c_upto 22 [
          c_upto 23 [
            c_let (\<lambda>z. z_l z - z_c z) (\<lambda>m6. c_block [
              c_upto 24 [
                routine r_mark_sUnUz_turkish (c_goto 24),
                c_goto 23],
              set_c (\<lambda>z. z_l z - m6),
              c_upto 25 [
                routine r_mark_yUz_turkish (c_goto 25),
                c_goto 23],
              set_c (\<lambda>z. z_l z - m6),
              c_upto 26 [
                routine r_mark_sUn_turkish (c_goto 26),
                c_goto 23],
              set_c (\<lambda>z. z_l z - m6),
              routine r_mark_yUm_turkish (c_goto 22)])],
          set_bra z_c,
          check slice_del,
          c_let (\<lambda>z. z_l z - z_c z) (\<lambda>m_keep. c_block [
            set_ket z_c,
            c_upto 27 [
              routine r_mark_ymUs__turkish (
                c_block [
                  set_c (\<lambda>z. z_l z - m_keep),
                  c_goto 27])]]),
          c_goto 0],
        set_c (\<lambda>z. z_l z - m1),
        routine r_mark_DUr_turkish (c_return 0),
        set_bra z_c,
        check slice_del,
        c_let (\<lambda>z. z_l z - z_c z) (\<lambda>m_keep. c_block [
          set_ket z_c,
          c_upto 29 [
            c_let (\<lambda>z. z_l z - z_c z) (\<lambda>m7. c_block [
              c_upto 30 [
                routine r_mark_sUnUz_turkish (c_goto 30),
                c_goto 29],
              set_c (\<lambda>z. z_l z - m7),
              c_upto 31 [
                routine r_mark_lAr_turkish (c_goto 31),
                c_goto 29],
              set_c (\<lambda>z. z_l z - m7),
              c_upto 32 [
                routine r_mark_yUm_turkish (c_goto 32),
                c_goto 29],
              set_c (\<lambda>z. z_l z - m7),
              c_upto 33 [
                routine r_mark_sUn_turkish (c_goto 33),
                c_goto 29],
              set_c (\<lambda>z. z_l z - m7),
              c_upto 34 [
                routine r_mark_yUz_turkish (c_goto 34),
                c_goto 29],
              set_c (\<lambda>z. z_l z - m7)])],
          c_upto 28 [
            routine r_mark_ymUs__turkish (
              c_block [
                set_c (\<lambda>z. z_l z - m_keep),
                c_goto 28])]])])],
    set_bra z_c,
    check slice_del,
    c_return 1]"

partial_function (option) r_stem_suffix_chain_before_ki_turkish :: "sn_func" where
  "r_stem_suffix_chain_before_ki_turkish z = c_fun [
    set_ket z_c,
    routine r_mark_ki_turkish (c_return 0),
    c_upto 0 [
      c_let (\<lambda>z. z_l z - z_c z) (\<lambda>m1. c_block [
        c_upto 1 [
          routine r_mark_DA_turkish (c_goto 1),
          set_bra z_c,
          check slice_del,
          c_let (\<lambda>z. z_l z - z_c z) (\<lambda>m_keep. c_block [
            set_ket z_c,
            c_upto 2 [
              c_upto 3 [
                c_let (\<lambda>z. z_l z - z_c z) (\<lambda>m2. c_block [
                  c_upto 4 [
                    routine r_mark_lAr_turkish (c_goto 4),
                    set_bra z_c,
                    check slice_del,
                    c_let (\<lambda>z. z_l z - z_c z) (\<lambda>m_keep. c_block [
                      c_upto 5 [
                        routine r_stem_suffix_chain_before_ki_turkish (
                          c_block [
                            set_c (\<lambda>z. z_l z - m_keep),
                            c_goto 5])]]),
                    c_goto 3],
                  set_c (\<lambda>z. z_l z - m2),
                  routine r_mark_possessives_turkish (
                    c_block [
                      set_c (\<lambda>z. z_l z - m_keep),
                      c_goto 2]),
                  set_bra z_c,
                  check slice_del,
                  c_let (\<lambda>z. z_l z - z_c z) (\<lambda>m_keep. c_block [
                    set_ket z_c,
                    c_upto 6 [
                      routine r_mark_lAr_turkish (
                        c_block [
                          set_c (\<lambda>z. z_l z - m_keep),
                          c_goto 6]),
                      set_bra z_c,
                      check slice_del,
                      routine r_stem_suffix_chain_before_ki_turkish (
                        c_block [
                          set_c (\<lambda>z. z_l z - m_keep),
                          c_goto 6])]])])]]]),
          c_goto 0],
        set_c (\<lambda>z. z_l z - m1),
        c_upto 7 [
          routine r_mark_nUn_turkish (c_goto 7),
          set_bra z_c,
          check slice_del,
          c_let (\<lambda>z. z_l z - z_c z) (\<lambda>m_keep. c_block [
            set_ket z_c,
            c_upto 8 [
              c_upto 9 [
                c_let (\<lambda>z. z_l z - z_c z) (\<lambda>m3. c_block [
                  c_upto 10 [
                    routine r_mark_lArI_turkish (c_goto 10),
                    set_bra z_c,
                    check slice_del,
                    c_goto 9],
                  set_c (\<lambda>z. z_l z - m3),
                  set_ket z_c,
                  c_upto 11 [
                    c_upto 12 [
                      c_let (\<lambda>z. z_l z - z_c z) (\<lambda>m4. c_block [
                        c_upto 13 [
                          routine r_mark_possessives_turkish (c_goto 13),
                          c_goto 12],
                        set_c (\<lambda>z. z_l z - m4),
                        routine r_mark_sU_turkish (c_goto 11)])],
                    set_bra z_c,
                    check slice_del,
                    c_let (\<lambda>z. z_l z - z_c z) (\<lambda>m_keep. c_block [
                      set_ket z_c,
                      c_upto 14 [
                        routine r_mark_lAr_turkish (
                          c_block [
                            set_c (\<lambda>z. z_l z - m_keep),
                            c_goto 14]),
                        set_bra z_c,
                        check slice_del,
                        routine r_stem_suffix_chain_before_ki_turkish (
                          c_block [
                            set_c (\<lambda>z. z_l z - m_keep),
                            c_goto 14])]]),
                    c_goto 9],
                  set_c (\<lambda>z. z_l z - m3),
                  routine r_stem_suffix_chain_before_ki_turkish (
                    c_block [
                      set_c (\<lambda>z. z_l z - m_keep),
                      c_goto 8])])]]]),
          c_goto 0],
        set_c (\<lambda>z. z_l z - m1),
        routine r_mark_ndA_turkish (c_return 0),
        c_upto 15 [
          c_let (\<lambda>z. z_l z - z_c z) (\<lambda>m5. c_block [
            c_upto 16 [
              routine r_mark_lArI_turkish (c_goto 16),
              set_bra z_c,
              check slice_del,
              c_goto 15],
            set_c (\<lambda>z. z_l z - m5),
            c_upto 17 [
              routine r_mark_sU_turkish (c_goto 17),
              set_bra z_c,
              check slice_del,
              c_let (\<lambda>z. z_l z - z_c z) (\<lambda>m_keep. c_block [
                set_ket z_c,
                c_upto 18 [
                  routine r_mark_lAr_turkish (
                    c_block [
                      set_c (\<lambda>z. z_l z - m_keep),
                      c_goto 18]),
                  set_bra z_c,
                  check slice_del,
                  routine r_stem_suffix_chain_before_ki_turkish (
                    c_block [
                      set_c (\<lambda>z. z_l z - m_keep),
                      c_goto 18])]]),
              c_goto 15],
            set_c (\<lambda>z. z_l z - m5),
            routine r_stem_suffix_chain_before_ki_turkish (c_return 0)])]])],
    c_return 1] z"

declare r_stem_suffix_chain_before_ki_turkish.simps [code]

definition r_stem_noun_suffixes_turkish_try1 :: "sn_cmd" where
  "r_stem_noun_suffixes_turkish_try1 = c_let (\<lambda>z. z_l z - z_c z) (\<lambda>m_keep. c_block [
      c_upto 2 [
        routine r_stem_suffix_chain_before_ki_turkish (
          c_block [
            set_c (\<lambda>z. z_l z - m_keep),
            c_goto 2])]])"

definition r_stem_noun_suffixes_turkish_try3 :: "sn_cmd" where
  "r_stem_noun_suffixes_turkish_try3 = c_let (\<lambda>z. z_l z - z_c z) (\<lambda>m_keep. c_block [
      set_ket z_c,
      c_upto 10 [
        routine r_mark_lAr_turkish (
          c_block [
            set_c (\<lambda>z. z_l z - m_keep),
            c_goto 10]),
        set_bra z_c,
        check slice_del,
        routine r_stem_suffix_chain_before_ki_turkish (
          c_block [
            set_c (\<lambda>z. z_l z - m_keep),
            c_goto 10])]])"

definition r_stem_noun_suffixes_turkish_try2 :: "sn_cmd" where
  "r_stem_noun_suffixes_turkish_try2 = c_let (\<lambda>z. z_l z - z_c z) (\<lambda>m_keep. c_block [
      c_upto 4 [
        c_upto 5 [
          c_let (\<lambda>z. z_l z - z_c z) (\<lambda>m2. c_block [
            set_ket z_c,
            c_upto 6 [
              routine r_mark_lArI_turkish (c_goto 6),
              set_bra z_c,
              check slice_del,
              c_goto 5],
            set_c (\<lambda>z. z_l z - m2),
            set_ket z_c,
            c_upto 7 [
              c_upto 8 [
                c_let (\<lambda>z. z_l z - z_c z) (\<lambda>m3. c_block [
                  c_upto 9 [
                    routine r_mark_possessives_turkish (c_goto 9),
                    c_goto 8],
                  set_c (\<lambda>z. z_l z - m3),
                  routine r_mark_sU_turkish (c_goto 7)])],
              set_bra z_c,
              check slice_del,
              r_stem_noun_suffixes_turkish_try3,
              c_goto 5],
            set_c (\<lambda>z. z_l z - m2),
            set_ket z_c,
            routine r_mark_lAr_turkish (
              c_block [
                set_c (\<lambda>z. z_l z - m_keep),
                c_goto 4]),
            set_bra z_c,
            check slice_del,
            routine r_stem_suffix_chain_before_ki_turkish (
              c_block [
                set_c (\<lambda>z. z_l z - m_keep),
                c_goto 4])])]]])"

definition r_stem_noun_suffixes_turkish_try4 :: "sn_cmd" where
  "r_stem_noun_suffixes_turkish_try4 = c_let (\<lambda>z. z_l z - z_c z) (\<lambda>m_keep. c_block [
      set_ket z_c,
      c_upto 17 [
        routine r_mark_lAr_turkish (
          c_block [
            set_c (\<lambda>z. z_l z - m_keep),
            c_goto 17]),
        set_bra z_c,
        check slice_del,
        routine r_stem_suffix_chain_before_ki_turkish (
          c_block [
            set_c (\<lambda>z. z_l z - m_keep),
            c_goto 17])]])"

definition r_stem_noun_suffixes_turkish_or1 :: "sn_cmd" where
  "r_stem_noun_suffixes_turkish_or1 = c_let (\<lambda>z. z_l z - z_c z) (\<lambda>m5. c_block [
      c_upto 15 [
        routine r_mark_lArI_turkish (c_goto 15),
        set_bra z_c,
        check slice_del,
        c_goto 14],
      set_c (\<lambda>z. z_l z - m5),
      c_upto 16 [
        routine r_mark_sU_turkish (c_goto 16),
        set_bra z_c,
        check slice_del,
        r_stem_noun_suffixes_turkish_try4,
        c_goto 14],
      set_c (\<lambda>z. z_l z - m5),
      routine r_stem_suffix_chain_before_ki_turkish (c_goto 11)])"

definition r_stem_noun_suffixes_turkish_try5 :: "sn_cmd" where
  "r_stem_noun_suffixes_turkish_try5 = c_let (\<lambda>z. z_l z - z_c z) (\<lambda>m_keep. c_block [
      set_ket z_c,
      c_upto 23 [
        routine r_mark_lAr_turkish (
          c_block [
            set_c (\<lambda>z. z_l z - m_keep),
            c_goto 23]),
        set_bra z_c,
        check slice_del,
        routine r_stem_suffix_chain_before_ki_turkish (
          c_block [
            set_c (\<lambda>z. z_l z - m_keep),
            c_goto 23])]])"

definition r_stem_noun_suffixes_turkish_or2 :: "sn_cmd" where
  "r_stem_noun_suffixes_turkish_or2 = c_let (\<lambda>z. z_l z - z_c z) (\<lambda>m7. c_block [
      c_upto 22 [
        routine r_mark_sU_turkish (c_goto 22),
        set_bra z_c,
        check slice_del,
        r_stem_noun_suffixes_turkish_try5,
        c_goto 21],
      set_c (\<lambda>z. z_l z - m7),
      routine r_mark_lArI_turkish (c_goto 18)])"

definition r_stem_noun_suffixes_turkish_try7 :: "sn_cmd" where
  "r_stem_noun_suffixes_turkish_try7 = c_let (\<lambda>z. z_l z - z_c z) (\<lambda>m_keep. c_block [
      set_ket z_c,
      c_upto 28 [
        routine r_mark_lAr_turkish (
          c_block [
            set_c (\<lambda>z. z_l z - m_keep),
            c_goto 28]),
        set_bra z_c,
        check slice_del,
        routine r_stem_suffix_chain_before_ki_turkish (
          c_block [
            set_c (\<lambda>z. z_l z - m_keep),
            c_goto 28])]])"

definition r_stem_noun_suffixes_turkish_try8 :: "sn_cmd" where
  "r_stem_noun_suffixes_turkish_try8 = c_let (\<lambda>z. z_l z - z_c z) (\<lambda>m_keep. c_block [
      c_upto 30 [
        routine r_stem_suffix_chain_before_ki_turkish (
          c_block [
            set_c (\<lambda>z. z_l z - m_keep),
            c_goto 30])]])"

definition r_stem_noun_suffixes_turkish_try6 :: "sn_cmd" where
  "r_stem_noun_suffixes_turkish_try6 = c_let (\<lambda>z. z_l z - z_c z) (\<lambda>m_keep. c_block [
      set_ket z_c,
      c_upto 25 [
        c_upto 26 [
          c_let (\<lambda>z. z_l z - z_c z) (\<lambda>m8. c_block [
            c_upto 27 [
              routine r_mark_possessives_turkish (c_goto 27),
              set_bra z_c,
              check slice_del,
              r_stem_noun_suffixes_turkish_try7,
              c_goto 26],
            set_c (\<lambda>z. z_l z - m8),
            c_upto 29 [
              routine r_mark_lAr_turkish (c_goto 29),
              set_bra z_c,
              check slice_del,
              r_stem_noun_suffixes_turkish_try8,
              c_goto 26],
            set_c (\<lambda>z. z_l z - m8),
            routine r_stem_suffix_chain_before_ki_turkish (
              c_block [
                set_c (\<lambda>z. z_l z - m_keep),
                c_goto 25])])]]])"

definition r_stem_noun_suffixes_turkish_try10 :: "sn_cmd" where
  "r_stem_noun_suffixes_turkish_try10 = c_let (\<lambda>z. z_l z - z_c z) (\<lambda>m_keep. c_block [
      set_ket z_c,
      c_upto 40 [
        routine r_mark_lAr_turkish (
          c_block [
            set_c (\<lambda>z. z_l z - m_keep),
            c_goto 40]),
        set_bra z_c,
        check slice_del,
        routine r_stem_suffix_chain_before_ki_turkish (
          c_block [
            set_c (\<lambda>z. z_l z - m_keep),
            c_goto 40])]])"

definition r_stem_noun_suffixes_turkish_try9 :: "sn_cmd" where
  "r_stem_noun_suffixes_turkish_try9 = c_let (\<lambda>z. z_l z - z_c z) (\<lambda>m_keep. c_block [
      c_upto 34 [
        c_upto 35 [
          c_let (\<lambda>z. z_l z - z_c z) (\<lambda>m10. c_block [
            set_ket z_c,
            c_upto 36 [
              routine r_mark_lAr_turkish (c_goto 36),
              set_bra z_c,
              check slice_del,
              routine r_stem_suffix_chain_before_ki_turkish (c_goto 36),
              c_goto 35],
            set_c (\<lambda>z. z_l z - m10),
            set_ket z_c,
            c_upto 37 [
              c_upto 38 [
                c_let (\<lambda>z. z_l z - z_c z) (\<lambda>m11. c_block [
                  c_upto 39 [
                    routine r_mark_possessives_turkish (c_goto 39),
                    c_goto 38],
                  set_c (\<lambda>z. z_l z - m11),
                  routine r_mark_sU_turkish (c_goto 37)])],
              set_bra z_c,
              check slice_del,
              r_stem_noun_suffixes_turkish_try10,
              c_goto 35],
            set_c (\<lambda>z. z_l z - m10),
            routine r_stem_suffix_chain_before_ki_turkish (
              c_block [
                set_c (\<lambda>z. z_l z - m_keep),
                c_goto 34])])]]])"

definition r_stem_noun_suffixes_turkish_try11 :: "sn_cmd" where
  "r_stem_noun_suffixes_turkish_try11 = c_let (\<lambda>z. z_l z - z_c z) (\<lambda>m_keep. c_block [
      set_ket z_c,
      c_upto 47 [
        c_upto 48 [
          c_let (\<lambda>z. z_l z - z_c z) (\<lambda>m13. c_block [
            c_upto 49 [
              routine r_mark_possessives_turkish (c_goto 49),
              set_bra z_c,
              check slice_del,
              c_let (\<lambda>z. z_l z - z_c z) (\<lambda>m_keep. c_block [
                set_ket z_c,
                c_upto 50 [
                  routine r_mark_lAr_turkish (
                    c_block [
                      set_c (\<lambda>z. z_l z - m_keep),
                      c_goto 50])]]),
              c_goto 48],
            set_c (\<lambda>z. z_l z - m13),
            routine r_mark_lAr_turkish (
              c_block [
                set_c (\<lambda>z. z_l z - m_keep),
                c_goto 47])])],
        set_bra z_c,
        check slice_del,
        set_ket z_c,
        routine r_stem_suffix_chain_before_ki_turkish (
          c_block [
            set_c (\<lambda>z. z_l z - m_keep),
            c_goto 47])]])"

definition r_stem_noun_suffixes_turkish_try12 :: "sn_cmd" where
  "r_stem_noun_suffixes_turkish_try12 = c_let (\<lambda>z. z_l z - z_c z) (\<lambda>m_keep. c_block [
      set_ket z_c,
      c_upto 53 [
        routine r_mark_lAr_turkish (
          c_block [
            set_c (\<lambda>z. z_l z - m_keep),
            c_goto 53]),
        set_bra z_c,
        check slice_del,
        routine r_stem_suffix_chain_before_ki_turkish (
          c_block [
            set_c (\<lambda>z. z_l z - m_keep),
            c_goto 53])]])"

definition r_stem_noun_suffixes_turkish :: "sn_func" where
  "r_stem_noun_suffixes_turkish = c_fun [
    c_upto 0 [
      c_let (\<lambda>z. z_l z - z_c z) (\<lambda>m1. c_block [
        set_ket z_c,
        c_upto 1 [
          routine r_mark_lAr_turkish (c_goto 1),
          set_bra z_c,
          check slice_del,
          r_stem_noun_suffixes_turkish_try1,
          c_goto 0],
        set_c (\<lambda>z. z_l z - m1),
        set_ket z_c,
        c_upto 3 [
          routine r_mark_ncA_turkish (c_goto 3),
          set_bra z_c,
          check slice_del,
          r_stem_noun_suffixes_turkish_try2,
          c_goto 0],
        set_c (\<lambda>z. z_l z - m1),
        set_ket z_c,
        c_upto 11 [
          c_upto 12 [
            c_let (\<lambda>z. z_l z - z_c z) (\<lambda>m4. c_block [
              c_upto 13 [
                routine r_mark_ndA_turkish (c_goto 13),
                c_goto 12],
              set_c (\<lambda>z. z_l z - m4),
              routine r_mark_nA_turkish (c_goto 11)])],
          c_upto 14 [
            r_stem_noun_suffixes_turkish_or1],
          c_goto 0],
        set_c (\<lambda>z. z_l z - m1),
        set_ket z_c,
        c_upto 18 [
          c_upto 19 [
            c_let (\<lambda>z. z_l z - z_c z) (\<lambda>m6. c_block [
              c_upto 20 [
                routine r_mark_ndAn_turkish (c_goto 20),
                c_goto 19],
              set_c (\<lambda>z. z_l z - m6),
              routine r_mark_nU_turkish (c_goto 18)])],
          c_upto 21 [
            r_stem_noun_suffixes_turkish_or2],
          c_goto 0],
        set_c (\<lambda>z. z_l z - m1),
        set_ket z_c,
        c_upto 24 [
          routine r_mark_DAn_turkish (c_goto 24),
          set_bra z_c,
          check slice_del,
          r_stem_noun_suffixes_turkish_try6,
          c_goto 0],
        set_c (\<lambda>z. z_l z - m1),
        set_ket z_c,
        c_upto 31 [
          c_upto 32 [
            c_let (\<lambda>z. z_l z - z_c z) (\<lambda>m9. c_block [
              c_upto 33 [
                routine r_mark_nUn_turkish (c_goto 33),
                c_goto 32],
              set_c (\<lambda>z. z_l z - m9),
              routine r_mark_ylA_turkish (c_goto 31)])],
          set_bra z_c,
          check slice_del,
          r_stem_noun_suffixes_turkish_try9,
          c_goto 0],
        set_c (\<lambda>z. z_l z - m1),
        set_ket z_c,
        c_upto 41 [
          routine r_mark_lArI_turkish (c_goto 41),
          set_bra z_c,
          check slice_del,
          c_goto 0],
        set_c (\<lambda>z. z_l z - m1),
        c_upto 42 [
          routine r_stem_suffix_chain_before_ki_turkish (c_goto 42),
          c_goto 0],
        set_c (\<lambda>z. z_l z - m1),
        set_ket z_c,
        c_upto 43 [
          c_upto 44 [
            c_let (\<lambda>z. z_l z - z_c z) (\<lambda>m12. c_block [
              c_upto 45 [
                routine r_mark_DA_turkish (c_goto 45),
                c_goto 44],
              set_c (\<lambda>z. z_l z - m12),
              c_upto 46 [
                routine r_mark_yU_turkish (c_goto 46),
                c_goto 44],
              set_c (\<lambda>z. z_l z - m12),
              routine r_mark_yA_turkish (c_goto 43)])],
          set_bra z_c,
          check slice_del,
          r_stem_noun_suffixes_turkish_try11,
          c_goto 0],
        set_c (\<lambda>z. z_l z - m1),
        set_ket z_c,
        c_upto 51 [
          c_let (\<lambda>z. z_l z - z_c z) (\<lambda>m14. c_block [
            c_upto 52 [
              routine r_mark_possessives_turkish (c_goto 52),
              c_goto 51],
            set_c (\<lambda>z. z_l z - m14),
            routine r_mark_sU_turkish (c_return 0)])],
        set_bra z_c,
        check slice_del,
        r_stem_noun_suffixes_turkish_try12])],
    c_return 1]"

definition r_post_process_last_consonants_turkish :: "sn_func" where
  "r_post_process_last_consonants_turkish = c_fun [
    set_ket z_c,
    c_call (find_among_b a_23_turkish 4) (\<lambda>among_var. c_block [
      c_if (test (\<lambda>_. among_var = 0)) (c_return 0),
      set_bra z_c,
      c_switch among_var [
        (0, c_block [
          c_return 0]),
        (1, c_block [
          check (slice_from_s 1 s_16_turkish),
          c_break]),
        (2, c_block [
          check (slice_from_s 2 s_17_turkish),
          c_break]),
        (3, c_block [
          check (slice_from_s 1 s_18_turkish),
          c_break]),
        (4, c_block [
          check (slice_from_s 1 s_19_turkish),
          c_break])],
      c_return 1])]"

definition r_append_U_to_stems_ending_with_d_or_g_turkish :: "sn_func" where
  "r_append_U_to_stems_ending_with_d_or_g_turkish = c_fun [
    c_let (\<lambda>z. z_l z - z_c z) (\<lambda>m_test. c_block [
      c_upto 0 [
        c_let (\<lambda>z. z_l z - z_c z) (\<lambda>m1. c_block [
          c_upto 1 [
            unless (eq_s_b 1 s_20_turkish) (c_goto 1),
            c_goto 0],
          set_c (\<lambda>z. z_l z - m1),
          unless (eq_s_b 1 s_21_turkish) (c_return 0)])],
      set_c (\<lambda>z. z_l z - m_test)]),
    c_upto 2 [
      c_let (\<lambda>z. z_l z - z_c z) (\<lambda>m2. c_block [
        c_upto 3 [
          c_let (\<lambda>z. z_l z - z_c z) (\<lambda>m_test. c_block [
            when_neg (out_grouping_b_U g_vowel_turkish 97 305 1) (c_goto 3),
            c_upto 4 [
              c_let (\<lambda>z. z_l z - z_c z) (\<lambda>m3. c_block [
                c_upto 5 [
                  unless (eq_s_b 1 s_22_turkish) (c_goto 5),
                  c_goto 4],
                set_c (\<lambda>z. z_l z - m3),
                unless (eq_s_b 2 s_23_turkish) (c_goto 3)])],
            set_c (\<lambda>z. z_l z - m_test)]),
          check_keep_c (insert_s_at z_c z_c 2 s_24_turkish),
          c_goto 2],
        set_c (\<lambda>z. z_l z - m2),
        c_upto 6 [
          c_let (\<lambda>z. z_l z - z_c z) (\<lambda>m_test. c_block [
            when_neg (out_grouping_b_U g_vowel_turkish 97 305 1) (c_goto 6),
            c_upto 7 [
              c_let (\<lambda>z. z_l z - z_c z) (\<lambda>m4. c_block [
                c_upto 8 [
                  unless (eq_s_b 1 s_25_turkish) (c_goto 8),
                  c_goto 7],
                set_c (\<lambda>z. z_l z - m4),
                unless (eq_s_b 1 s_26_turkish) (c_goto 6)])],
            set_c (\<lambda>z. z_l z - m_test)]),
          check_keep_c (insert_s_at z_c z_c 1 s_27_turkish),
          c_goto 2],
        set_c (\<lambda>z. z_l z - m2),
        c_upto 9 [
          c_let (\<lambda>z. z_l z - z_c z) (\<lambda>m_test. c_block [
            when_neg (out_grouping_b_U g_vowel_turkish 97 305 1) (c_goto 9),
            c_upto 10 [
              c_let (\<lambda>z. z_l z - z_c z) (\<lambda>m5. c_block [
                c_upto 11 [
                  unless (eq_s_b 1 s_28_turkish) (c_goto 11),
                  c_goto 10],
                set_c (\<lambda>z. z_l z - m5),
                unless (eq_s_b 1 s_29_turkish) (c_goto 9)])],
            set_c (\<lambda>z. z_l z - m_test)]),
          check_keep_c (insert_s_at z_c z_c 1 s_30_turkish),
          c_goto 2],
        set_c (\<lambda>z. z_l z - m2),
        c_let (\<lambda>z. z_l z - z_c z) (\<lambda>m_test. c_block [
          when_neg (out_grouping_b_U g_vowel_turkish 97 305 1) (c_return 0),
          c_upto 12 [
            c_let (\<lambda>z. z_l z - z_c z) (\<lambda>m6. c_block [
              c_upto 13 [
                unless (eq_s_b 2 s_31_turkish) (c_goto 13),
                c_goto 12],
              set_c (\<lambda>z. z_l z - m6),
              unless (eq_s_b 2 s_32_turkish) (c_return 0)])],
          set_c (\<lambda>z. z_l z - m_test)]),
        check_keep_c (insert_s_at z_c z_c 2 s_33_turkish)])],
    c_return 1]"

definition r_more_than_one_syllable_word_turkish_round1 :: "sn_cmd" where
  "r_more_than_one_syllable_word_turkish_round1 = c_block [
      c_let z_c (\<lambda>c1. c_block [
        c_upto 0 [
          advance (out_grouping_U g_vowel_turkish 97 305 1) (c_goto 0),
          c_continue],
        set_c (\<lambda>_. c1),
        c_break])]"

definition r_more_than_one_syllable_word_turkish :: "sn_func" where
  "r_more_than_one_syllable_word_turkish = c_fun [
    c_let z_c (\<lambda>c_test. c_block [
      c_atleast 2 r_more_than_one_syllable_word_turkish_round1 (c_return 0),
      set_c (\<lambda>_. c_test)]),
    c_return 1]"

definition r_is_reserved_word_turkish_while1 :: "sn_cmd" where
  "r_is_reserved_word_turkish_while1 = c_while1 (c_block [
      c_upto 2 [
        unless (eq_s 2 s_34_turkish) (c_goto 2),
        c_break],
      move_to (skip_utf8_z (\<lambda>_. 0) z_l 1) (c_goto 1)])"

definition r_is_reserved_word_turkish_while2 :: "sn_cmd" where
  "r_is_reserved_word_turkish_while2 = c_while1 (c_block [
      c_upto 3 [
        unless (eq_s 5 s_35_turkish) (c_goto 3),
        c_break],
      move_to (skip_utf8_z (\<lambda>_. 0) z_l 1) (c_return 0)])"

definition r_is_reserved_word_turkish :: "sn_func" where
  "r_is_reserved_word_turkish = c_fun [
    c_upto 0 [
      c_let z_c (\<lambda>c1. c_block [
        c_upto 1 [
          c_let z_c (\<lambda>c_test. c_block [
            r_is_reserved_word_turkish_while1,
            set_I 0 (\<lambda>_. 2),
            c_if (on_I 0 (\<lambda>z i. \<not> i = z_l z)) (c_goto 1),
            set_c (\<lambda>_. c_test)]),
          c_goto 0],
        set_c (\<lambda>_. c1),
        c_let z_c (\<lambda>c_test. c_block [
          r_is_reserved_word_turkish_while2,
          set_I 0 (\<lambda>_. 5),
          c_if (on_I 0 (\<lambda>z i. \<not> i = z_l z)) (c_return 0),
          set_c (\<lambda>_. c_test)])])],
    c_return 1]"

definition r_postlude_turkish :: "sn_func" where
  "r_postlude_turkish = c_fun [
    c_let z_c (\<lambda>c1. c_block [
      c_upto 0 [
        routine r_is_reserved_word_turkish (c_goto 0),
        c_return 0],
      set_c (\<lambda>_. c1)]),
    set_lb z_c,
    set_c z_l,
    try_b 1 r_append_U_to_stems_ending_with_d_or_g_turkish,
    try_b 2 r_post_process_last_consonants_turkish,
    set_c z_lb,
    c_return 1]"

definition turkish_UTF_8_stem :: "sn_func" where
  "turkish_UTF_8_stem = c_fun [
    routine r_more_than_one_syllable_word_turkish (c_return 0),
    set_lb z_c,
    set_c z_l,
    try_b 0 r_stem_nominal_verb_suffixes_turkish,
    c_if (on_B 0 (\<lambda>v. v = 0)) (c_return 0),
    try_b 1 r_stem_noun_suffixes_turkish,
    set_c z_lb,
    routine r_postlude_turkish (c_return 0),
    c_return 1]"

definition turkish_UTF_8_create_env :: "env_create" where
  "turkish_UTF_8_create_env = SN_create_env 0 1 1"

definition turkish_UTF_8_close_env :: "env_close" where
  "turkish_UTF_8_close_env z = SN_close_env z 0"

subsection \<open>Facts on the tables\<close>

lemma tables_turkish [simp]:
  "table_b a_0_turkish" "table_b a_1_turkish" "table_b a_2_turkish" "table_b a_3_turkish"
  "table_b a_4_turkish" "table_b a_5_turkish" "table_b a_6_turkish" "table_b a_7_turkish"
  "table_b a_8_turkish" "table_b a_9_turkish" "table_b a_10_turkish" "table_b a_11_turkish"
  "table_b a_12_turkish" "table_b a_13_turkish" "table_b a_14_turkish" "table_b a_15_turkish"
  "table_b a_16_turkish" "table_b a_17_turkish" "table_b a_18_turkish" "table_b a_19_turkish"
  "table_b a_20_turkish" "table_b a_21_turkish" "table_b a_22_turkish" "table_b a_23_turkish"
  by (rule table_sound, code_simp, code_simp)+

lemma length_tables_turkish [simp]:
  "length a_0_turkish = 10" "length a_1_turkish = 2" "length a_2_turkish = 4"
  "length a_3_turkish = 4" "length a_4_turkish = 2" "length a_5_turkish = 2"
  "length a_6_turkish = 4" "length a_7_turkish = 2" "length a_8_turkish = 4"
  "length a_9_turkish = 2" "length a_10_turkish = 2" "length a_11_turkish = 2"
  "length a_12_turkish = 4" "length a_13_turkish = 4" "length a_14_turkish = 4"
  "length a_15_turkish = 4" "length a_16_turkish = 2" "length a_17_turkish = 4"
  "length a_18_turkish = 8" "length a_19_turkish = 2" "length a_20_turkish = 32"
  "length a_21_turkish = 8" "length a_22_turkish = 4" "length a_23_turkish = 4"
  by code_simp+

lemma least_turkish [simp]:
  "least a_23_turkish 1 = 1" "least a_23_turkish 2 = 1" "least a_23_turkish 3 = 1"
  "least a_23_turkish 4 = 2"
  by code_simp+

lemma lengths_turkish [simp]:
  "length s_0_turkish = 1" "length s_1_turkish = 1" "length s_2_turkish = 2"
  "length s_3_turkish = 1" "length s_4_turkish = 1" "length s_5_turkish = 2"
  "length s_6_turkish = 1" "length s_7_turkish = 2" "length s_8_turkish = 1"
  "length s_9_turkish = 1" "length s_10_turkish = 1" "length s_11_turkish = 1"
  "length s_12_turkish = 1" "length s_13_turkish = 1" "length s_14_turkish = 2"
  "length s_15_turkish = 3" "length s_16_turkish = 1" "length s_17_turkish = 2"
  "length s_18_turkish = 1" "length s_19_turkish = 1" "length s_20_turkish = 1"
  "length s_21_turkish = 1" "length s_22_turkish = 1" "length s_23_turkish = 2"
  "length s_24_turkish = 2" "length s_25_turkish = 1" "length s_26_turkish = 1"
  "length s_27_turkish = 1" "length s_28_turkish = 1" "length s_29_turkish = 1"
  "length s_30_turkish = 1" "length s_31_turkish = 2" "length s_32_turkish = 2"
  "length s_33_turkish = 2" "length s_34_turkish = 2" "length s_35_turkish = 5"
  by code_simp+

lemma covers_turkish [simp]:
  "covers g_U_turkish 105 305" "covers g_vowel1_turkish 97 305" "covers g_vowel2_turkish 101 252"
  "covers g_vowel3_turkish 97 305" "covers g_vowel4_turkish 101 105"
  "covers g_vowel5_turkish 111 117" "covers g_vowel6_turkish 246 252"
  "covers g_vowel_turkish 97 305"
  by code_simp+

subsection \<open>Marking suffixes\<close>

text \<open>The routines that recognise a suffix move the cursor back in front of it and change nothing else.\<close>

lemma r_check_vowel_harmony_looks:
  "in_window z \<Longrightarrow> wpf r_check_vowel_harmony_turkish (looked z) z"
  unfolding r_check_vowel_harmony_turkish_def in_window_def
  by (auto intro!: win_intro lookedI looked_refl wp_upto_look simp del: wp_upto)

lemma r_optional_n_consonant_looks:
  "in_window z \<Longrightarrow> wpf r_mark_suffix_with_optional_n_consonant_turkish (looked z) z"
  unfolding r_mark_suffix_with_optional_n_consonant_turkish_def in_window_def
  by (auto intro!: win_intro lookedI looked_refl)

lemma r_optional_s_consonant_looks:
  "in_window z \<Longrightarrow> wpf r_mark_suffix_with_optional_s_consonant_turkish (looked z) z"
  unfolding r_mark_suffix_with_optional_s_consonant_turkish_def in_window_def
  by (auto intro!: win_intro lookedI looked_refl)

lemma r_optional_y_consonant_looks:
  "in_window z \<Longrightarrow> wpf r_mark_suffix_with_optional_y_consonant_turkish (looked z) z"
  unfolding r_mark_suffix_with_optional_y_consonant_turkish_def in_window_def
  by (auto intro!: win_intro lookedI looked_refl)

lemma r_optional_U_vowel_looks:
  "in_window z \<Longrightarrow> wpf r_mark_suffix_with_optional_U_vowel_turkish (looked z) z"
  unfolding r_mark_suffix_with_optional_U_vowel_turkish_def in_window_def
  by (auto intro!: win_intro lookedI looked_refl)

lemmas turkish_optional = looked_wp [OF r_check_vowel_harmony_looks] looked_wp [OF r_optional_n_consonant_looks]
  looked_wp [OF r_optional_s_consonant_looks] looked_wp [OF r_optional_y_consonant_looks]
  looked_wp [OF r_optional_U_vowel_looks]

lemma turkish_marks_look:
  assumes "in_window z"
  shows
    "wpf r_mark_possessives_turkish (looked z) z"
    "wpf r_mark_sU_turkish (looked z) z"
    "wpf r_mark_lArI_turkish (looked z) z"
    "wpf r_mark_yU_turkish (looked z) z"
    "wpf r_mark_nU_turkish (looked z) z"
    "wpf r_mark_nUn_turkish (looked z) z"
    "wpf r_mark_yA_turkish (looked z) z"
    "wpf r_mark_nA_turkish (looked z) z"
    "wpf r_mark_DA_turkish (looked z) z"
    "wpf r_mark_ndA_turkish (looked z) z"
    "wpf r_mark_DAn_turkish (looked z) z"
    "wpf r_mark_ndAn_turkish (looked z) z"
    "wpf r_mark_ylA_turkish (looked z) z"
    "wpf r_mark_ki_turkish (looked z) z"
    "wpf r_mark_ncA_turkish (looked z) z"
    "wpf r_mark_yUm_turkish (looked z) z"
    "wpf r_mark_sUn_turkish (looked z) z"
    "wpf r_mark_yUz_turkish (looked z) z"
    "wpf r_mark_sUnUz_turkish (looked z) z"
    "wpf r_mark_lAr_turkish (looked z) z"
    "wpf r_mark_nUz_turkish (looked z) z"
    "wpf r_mark_DUr_turkish (looked z) z"
    "wpf r_mark_cAsInA_turkish (looked z) z"
    "wpf r_mark_yDU_turkish (looked z) z"
    "wpf r_mark_ysA_turkish (looked z) z"
    "wpf r_mark_ymUs__turkish (looked z) z"
    "wpf r_mark_yken_turkish (looked z) z"
  using assms unfolding in_window_def r_mark_possessives_turkish_def r_mark_sU_turkish_def r_mark_lArI_turkish_def r_mark_yU_turkish_def
    r_mark_nU_turkish_def r_mark_nUn_turkish_def r_mark_yA_turkish_def r_mark_nA_turkish_def
    r_mark_DA_turkish_def r_mark_ndA_turkish_def r_mark_DAn_turkish_def r_mark_ndAn_turkish_def
    r_mark_ylA_turkish_def r_mark_ki_turkish_def r_mark_ncA_turkish_def r_mark_yUm_turkish_def
    r_mark_sUn_turkish_def r_mark_yUz_turkish_def r_mark_sUnUz_turkish_def r_mark_lAr_turkish_def
    r_mark_nUz_turkish_def r_mark_DUr_turkish_def r_mark_cAsInA_turkish_def r_mark_yDU_turkish_def
    r_mark_ysA_turkish_def r_mark_ymUs__turkish_def r_mark_yken_turkish_def
  by (auto intro!: win_intro turkish_optional lookedI looked_refl simp: in_window_def)

lemmas turkish_marks = looked_wp [OF turkish_marks_look(1)] looked_wp [OF turkish_marks_look(2)] looked_wp [OF turkish_marks_look(3)]
  looked_wp [OF turkish_marks_look(4)] looked_wp [OF turkish_marks_look(5)] looked_wp [OF turkish_marks_look(6)]
  looked_wp [OF turkish_marks_look(7)] looked_wp [OF turkish_marks_look(8)] looked_wp [OF turkish_marks_look(9)]
  looked_wp [OF turkish_marks_look(10)] looked_wp [OF turkish_marks_look(11)] looked_wp [OF
  turkish_marks_look(12)] looked_wp [OF turkish_marks_look(13)] looked_wp [OF turkish_marks_look(15)] looked_wp
  [OF turkish_marks_look(16)] looked_wp [OF turkish_marks_look(17)] looked_wp [OF turkish_marks_look(18)]
  looked_wp [OF turkish_marks_look(19)] looked_wp [OF turkish_marks_look(20)] looked_wp [OF
  turkish_marks_look(21)] looked_wp [OF turkish_marks_look(22)] looked_wp [OF turkish_marks_look(23)] looked_wp
  [OF turkish_marks_look(24)] looked_wp [OF turkish_marks_look(25)] looked_wp [OF turkish_marks_look(26)]
  looked_wp [OF turkish_marks_look(27)]

lemma r_mark_ki_turkish_wp:
  assumes "wf_env z" "0 \<le> z_lb z" "z_lb z \<le> z_c z" "z_c z \<le> z_l z"
    and "Q 0 z" and "z_lb z \<le> z_c z - 2 \<Longrightarrow> Q 1 (z\<lparr>z_c := z_c z - 2\<rparr>)"
  shows "wpf r_mark_ki_turkish Q z"
  using assms unfolding r_mark_ki_turkish_def by (auto intro!: win_intro)

subsection \<open>Removing suffixes\<close>

lemmas chain_labels = wp_upto_look [where n = "Suc 0"] wp_upto_look [where n = 4] wp_upto_look [where n = 7] wp_upto_look [where n =
  10] wp_upto_look [where n = 11] wp_upto_look [where n = 12] wp_upto_look [where n = 13] wp_upto_look [where n
  = 16] wp_upto_look [where n = 17] wp_upto_back [where n = 2] wp_upto_back [where n = 3] wp_upto_back [where n
  = 5] wp_upto_back [where n = 6] wp_upto_back [where n = 8] wp_upto_back [where n = 9] wp_upto_back [where n =
  14] wp_upto_back [where n = 18] wp_upto_ket [where n = 0] wp_upto_ket [where n = 15]

text \<open>The routine that calls itself: each call has read a \<^verbatim>\<open>ki\<close> before the next one starts.\<close>

lemma r_stem_suffix_chain_before_ki_turkish_backs:
  "in_window z \<Longrightarrow> wpf r_stem_suffix_chain_before_ki_turkish (backed z) z"
proof (induction "nat (z_c z)" arbitrary: z rule: less_induct)
  case less
  have IH: "wpf r_stem_suffix_chain_before_ki_turkish (backed z') z'" if "in_window z'" "z_c z' < z_c z" for z'
    using that less.prems by (intro less.hyps) (auto simp: in_window_def)
  show ?case
    using less.prems unfolding in_window_def
    by (subst ext [OF r_stem_suffix_chain_before_ki_turkish.simps])
      (auto intro!: r_mark_ki_turkish_wp turkish_marks backed_wp [OF IH] slice_del_back chain_labels
        simp: backed_def step_defs simp del: wp_upto)
qed

lemmas verb_labels = wp_upto_look [where n = "Suc 0"] wp_upto_look [where n = 2] wp_upto_look [where n = 3] wp_upto_look [where n =
  4] wp_upto_look [where n = 5] wp_upto_look [where n = 6] wp_upto_look [where n = 7] wp_upto_look [where n = 8]
  wp_upto_look [where n = 9] wp_upto_look [where n = 10] wp_upto_look [where n = 11] wp_upto_look [where n = 12]
  wp_upto_look [where n = 13] wp_upto_look [where n = 14] wp_upto_look [where n = 15] wp_upto_look [where n =
  16] wp_upto_look [where n = 17] wp_upto_look [where n = 18] wp_upto_look [where n = 19] wp_upto_look [where n
  = 20] wp_upto_look [where n = 21] wp_upto_look [where n = 22] wp_upto_look [where n = 23] wp_upto_look [where
  n = 24] wp_upto_look [where n = 25] wp_upto_look [where n = 26] wp_upto_look [where n = 27] wp_upto_look
  [where n = 29] wp_upto_look [where n = 30] wp_upto_look [where n = 31] wp_upto_look [where n = 32]
  wp_upto_look [where n = 33] wp_upto_look [where n = 34] wp_upto [where n = 0, THEN iffD2] wp_upto [where n =
  28, THEN iffD2]

lemma r_stem_nominal_verb_suffixes_turkish_steps:
  assumes "in_window z" "length (z_B z) = 1"
  shows "wpf r_stem_nominal_verb_suffixes_turkish (stepped_B z) z"
  using assms unfolding r_stem_nominal_verb_suffixes_turkish_def in_window_def
  by (auto intro!: win_intro turkish_marks slice_del_back verb_labels
      simp: stepped_B_def kept_B_def step_defs simp del: wp_upto)

lemmas noun_labels = wp_upto_look [where n = "Suc 0"] wp_upto_look [where n = 3] wp_upto_look [where n = 6] wp_upto_look [where n =
  7] wp_upto_look [where n = 8] wp_upto_look [where n = 9] wp_upto_look [where n = 12] wp_upto_look [where n =
  13] wp_upto_look [where n = 15] wp_upto_look [where n = 16] wp_upto_look [where n = 18] wp_upto_look [where n
  = 19] wp_upto_look [where n = 20] wp_upto_look [where n = 22] wp_upto_look [where n = 24] wp_upto_look [where
  n = 27] wp_upto_look [where n = 29] wp_upto_look [where n = 31] wp_upto_look [where n = 32] wp_upto_look
  [where n = 33] wp_upto_look [where n = 37] wp_upto_look [where n = 38] wp_upto_look [where n = 39]
  wp_upto_look [where n = 41] wp_upto_look [where n = 43] wp_upto_look [where n = 44] wp_upto_look [where n =
  45] wp_upto_look [where n = 46] wp_upto_look [where n = 49] wp_upto_look [where n = 50] wp_upto_look [where n
  = 51] wp_upto_look [where n = 52] wp_upto_back [where n = 2] wp_upto_back [where n = 4] wp_upto_back [where n
  = 5] wp_upto_back [where n = 10] wp_upto_back [where n = 11] wp_upto_back [where n = 17] wp_upto_back [where n
  = 23] wp_upto_back [where n = 25] wp_upto_back [where n = 26] wp_upto_back [where n = 28] wp_upto_back [where
  n = 30] wp_upto_back [where n = 34] wp_upto_back [where n = 35] wp_upto_back [where n = 36] wp_upto_back
  [where n = 40] wp_upto_back [where n = 42] wp_upto_back [where n = 47] wp_upto_back [where n = 53] wp_upto_ket
  [where n = 14] wp_upto_ket [where n = 21] wp_upto_by [where n = 0 and d = 0] wp_upto [where n = 48, THEN
  iffD2]

lemmas noun_parts = r_stem_noun_suffixes_turkish_try1_def r_stem_noun_suffixes_turkish_try2_def
  r_stem_noun_suffixes_turkish_try3_def r_stem_noun_suffixes_turkish_try4_def
  r_stem_noun_suffixes_turkish_try5_def r_stem_noun_suffixes_turkish_try6_def
  r_stem_noun_suffixes_turkish_try7_def r_stem_noun_suffixes_turkish_try8_def
  r_stem_noun_suffixes_turkish_try9_def r_stem_noun_suffixes_turkish_try10_def
  r_stem_noun_suffixes_turkish_try11_def r_stem_noun_suffixes_turkish_try12_def
  r_stem_noun_suffixes_turkish_or1_def r_stem_noun_suffixes_turkish_or2_def

lemma r_stem_noun_suffixes_turkish_steps:
  assumes "in_window z"
  shows "wpf r_stem_noun_suffixes_turkish (stepped z) z"
  using assms unfolding r_stem_noun_suffixes_turkish_def noun_parts in_window_def
  by (auto intro!: turkish_marks backed_wp [OF r_stem_suffix_chain_before_ki_turkish_backs] slice_del_back noun_labels
      simp: step_defs simp del: wp_upto)

subsection \<open>Repairing the stem\<close>

text \<open>The last routines may lengthen the text by \<open>g\<close> bytes, and fail when there is no memory for that.\<close>

definition extended :: "int \<Rightarrow> SN_env \<Rightarrow> int \<Rightarrow> SN_env \<Rightarrow> bool" where
  "extended g z r z' \<longleftrightarrow> (if r < 0 then oom z else wf_env z' \<and> z_lb z' = z_lb z
     \<and> z_lb z \<le> z_c z' \<and> z_c z' \<le> z_l z' \<and> z_l z' \<le> z_l z + g
     \<and> z_S z' = z_S z \<and> z_I z' = z_I z \<and> z_B z' = z_B z \<and> failing (z_faults z') \<le> failing (z_faults z))"

lemma r_append_U_turkish_extends:
  assumes "in_window z"
  shows "wpf r_append_U_to_stems_ending_with_d_or_g_turkish (extended 2 z) z"
  using assms unfolding r_append_U_to_stems_ending_with_d_or_g_turkish_def in_window_def
  by (auto intro!: win_intro insert_s_wp wp_upto_look wp_upto [where n = 2, THEN iffD2]
      simp: extended_def edited_def oom_def simp del: wp_upto)

lemma r_post_process_turkish_extends:
  assumes "wf_env z" "0 \<le> z_lb z" "z_lb z \<le> z_c z" "z_c z \<le> z_l z"
  shows "wpf r_post_process_last_consonants_turkish (extended 1 z) z"
  using assms unfolding r_post_process_last_consonants_turkish_def
  by (auto intro!: win_intro slice_from_s_wp simp: extended_def edited_def oom_def moved_c_def)

lemma syllables_turkish_wp:
  assumes "in_window z"
    and "\<And>c'. z_c z \<le> c' \<Longrightarrow> c' \<le> z_l z \<Longrightarrow> wp x Q (z\<lparr>z_c := c'\<rparr>)"
    and "\<And>c'. z_c z \<le> c' \<Longrightarrow> c' \<le> z_l z \<Longrightarrow> Q Next (z\<lparr>z_c := c'\<rparr>)"
  shows "wp (c_atleast n r_more_than_one_syllable_word_turkish_round1 x) Q z"
proof (rule wp_atleast [where f = "\<lambda>z. nat (z_l z - z_c z)"
      and P = "\<lambda>z'. z\<lparr>z_c := z_c z'\<rparr> = z' \<and> z_c z \<le> z_c z' \<and> z_c z' \<le> z_l z"
      and R = "\<lambda>k z'. k = Next \<and> z\<lparr>z_c := z_c z'\<rparr> = z' \<and> z_c z \<le> z_c z' \<and> z_c z' \<le> z_l z"])
  fix z1 assume *: "z\<lparr>z_c := z_c z1\<rparr> = z1 \<and> z_c z \<le> z_c z1 \<and> z_c z1 \<le> z_l z"
  then obtain c where c: "z1 = z\<lparr>z_c := c\<rparr>" "z_c z \<le> c" "c \<le> z_l z" by metis
  show "wp r_more_than_one_syllable_word_turkish_round1
      (loop_k (\<lambda>z'. (z\<lparr>z_c := z_c z'\<rparr> = z' \<and> z_c z \<le> z_c z' \<and> z_c z' \<le> z_l z)
          \<and> nat (z_l z' - z_c z') < nat (z_l z1 - z_c z1))
        (\<lambda>k z'. k = Next \<and> z\<lparr>z_c := z_c z'\<rparr> = z' \<and> z_c z \<le> z_c z' \<and> z_c z' \<le> z_l z)) z1"
    unfolding c(1) r_more_than_one_syllable_word_turkish_round1_def
    using assms(1) c(2,3) by (auto intro!: grouping_U_wp simp: in_window_def split: if_splits)
next
  fix z1 assume "Next = Next \<and> z\<lparr>z_c := z_c z1\<rparr> = z1 \<and> z_c z \<le> z_c z1 \<and> z_c z1 \<le> z_l z"
  then show "wp x Q z1" using assms(2) by metis
next
  fix z1 k assume "k = Next \<and> z\<lparr>z_c := z_c z1\<rparr> = z1 \<and> z_c z \<le> z_c z1 \<and> z_c z1 \<le> z_l z"
  then show "Q k z1" using assms(3) by metis
qed (use assms(1) in \<open>simp add: in_window_def\<close>)

lemma r_more_than_one_syllable_word_turkish_wp:
  assumes "in_window z" "\<And>c'. z_c z \<le> c' \<Longrightarrow> c' \<le> z_l z \<Longrightarrow> Q 0 (z\<lparr>z_c := c'\<rparr>)" "Q 1 z"
  shows "wpf r_more_than_one_syllable_word_turkish Q z"
  using assms unfolding r_more_than_one_syllable_word_turkish_def
  by (auto intro!: syllables_turkish_wp)

lemma reserved_turkish_loops:
  assumes "in_window z" and "\<And>z'. moved z z' \<Longrightarrow> z_c z \<le> z_c z' \<Longrightarrow> z_c z' \<le> z_l z \<Longrightarrow> Q Next z' \<and> Q k z'"
  shows "k = Goto 1 \<Longrightarrow> wp r_is_reserved_word_turkish_while1 Q z"
    and "k = Return 0 \<Longrightarrow> wp r_is_reserved_word_turkish_while2 Q z"
  using assms unfolding r_is_reserved_word_turkish_while1_def r_is_reserved_word_turkish_while2_def in_window_def
  by (intro wp_search; auto intro!: win_intro simp: moved_iff)+

lemma r_is_reserved_word_turkish_wp:
  assumes "in_window z" "length (z_I z) = 1"
    and "\<And>r z'. 0 \<le> r \<Longrightarrow> moved (z\<lparr>z_I := z_I z'\<rparr>) z' \<Longrightarrow> length (z_I z') = 1 \<Longrightarrow> Q r z'"
  shows "wpf r_is_reserved_word_turkish Q z"
  using assms unfolding r_is_reserved_word_turkish_def in_window_def
  by (auto intro!: win_intro reserved_turkish_loops [OF _ _ refl] simp: in_window_def moved_iff)

text \<open>An attempt at the end of the text.\<close>

lemma wp_try_extend:
  assumes "wpf f (extended g z) z" "z_c z = z_l z"
    and "\<And>r z'. r < 0 \<Longrightarrow> oom z \<Longrightarrow> Q (Return r) z'"
    and "\<And>z'. extended g z 0 z' \<Longrightarrow> z_c z' = z_l z' \<Longrightarrow> Q Next z'"
  shows "wp (try_b n f) Q z"
  unfolding try_b_def wp_let wp_block_Cons wp_upto wp_calls
proof (rule wpf_mono [OF assms(1)])
  fix r z' assume *: "extended g z r z'"
  show "routine_k (c_goto n) (block_k [] (upto_k n
      (block_k [set_c (\<lambda>za. z_l za - (z_l z - z_c z))] Q))) r z'"
  proof (cases "r < 0")
    case True
    with * show ?thesis by (simp add: assms(3) extended_def)
  next
    case False
    with * have "extended g z 0 (z'\<lparr>z_c := z_l z'\<rparr>)" by (auto simp: extended_def)
    from assms(4) [OF this] False assms(2) show ?thesis by simp
  qed
qed

definition repaired :: "SN_env \<Rightarrow> int \<Rightarrow> SN_env \<Rightarrow> bool" where
  "repaired z r z' \<longleftrightarrow> (if r < 0 then oom z else wf_env z' \<and> z_lb z' = z_lb z \<and> z_l z' \<le> z_l z + 3
     \<and> z_S z' = z_S z \<and> length (z_I z') = length (z_I z) \<and> z_B z' = z_B z \<and> failing (z_faults z') \<le> failing (z_faults z))"

lemma r_postlude_turkish_repairs:
  assumes "in_window z" "z_c z = z_lb z" "length (z_I z) = 1"
  shows "wpf r_postlude_turkish (repaired z) z"
  unfolding r_postlude_turkish_def wpf_fun
  apply (rule wp_cut [where n = 1 and J = "\<lambda>z'. moved (z\<lparr>z_I := z_I z'\<rparr>) z' \<and> z_c z' = z_c z \<and> length (z_I z') = 1"], simp, simp)
  subgoal using assms by (auto intro!: r_is_reserved_word_turkish_wp simp: repaired_def moved_iff in_window_def)
  subgoal using assms
    by (auto intro!: wp_try_extend [OF r_append_U_turkish_extends] wp_try_extend [OF r_post_process_turkish_extends]
        simp: moved_iff in_window_def extended_def repaired_def oom_def)
  done

subsection \<open>The stemmer\<close>

lemma turkish_stem_grows:
  assumes "in_window z" "z_c z = 0" "z_lb z = 0" "strs_ok (z_S z)" "length (z_I z) = 1" "length (z_B z) = 1"
  shows "wpf turkish_UTF_8_stem (\<lambda>r z'. if r < 0 then oom z else grown 3 z z') z"
  unfolding turkish_UTF_8_stem_def wpf_fun
  apply (rule wp_cut [where n = 3 and J = "at_end any_marks z"], simp, simp)
  subgoal using assms by (auto intro!: r_more_than_one_syllable_word_turkish_wp
      simp: grown_def in_window_def at_end_def fits_def)
  apply (erule wp_stage [where n = 1 and J' = "at_end any_marks z"], simp, simp)
  subgoal using assms by (auto intro!: wp_try_end stepped_B_wp [OF r_stem_nominal_verb_suffixes_turkish_steps]
      simp: step_defs kept_B_def fits_def at_end_def)
  apply (erule wp_stage [where n = 1 and J' = "at_end any_marks z"], simp, simp)
  subgoal using assms by (auto simp: at_end_def fits_def grown_def in_window_def)
  apply (erule wp_stage [where n = 1 and J' = "at_end any_marks z"], simp, simp)
  subgoal by (auto intro!: wp_try_at_end [where orig = z and P = any_marks] r_stem_noun_suffixes_turkish_steps)
  subgoal using assms by (auto intro!: wpf_mono [OF r_postlude_turkish_repairs]
      simp: at_end_def fits_def in_window_def repaired_def grown_def oom_def)
  done

interpretation turkish: stemmer turkish_UTF_8_stem 0 1 1 3
  by unfold_locales (simp_all add: turkish_stem_grows del: if_split)

end
