(* ===== verification/Modules.thy ===== *)
theory Modules
  imports Libc Porter English Russian Swedish Norwegian Danish German Dutch Italian Spanish Portuguese
    Romanian Hungarian French Finnish Turkish
begin

text \<open>
  The choice of a stemmer by name (\<^verbatim>\<open>libstemmer/libstemmer_utf8.c\<close> with the tables of
  \<^verbatim>\<open>libstemmer/modules_utf8.h\<close>): the encodings, the 51 modules, and \<^verbatim>\<open>sb_stemmer_new\<close>. Then the
  life of a stemmer object, from \<^verbatim>\<open>sb_stemmer_new\<close> over any number of words to
  \<^verbatim>\<open>sb_stemmer_delete\<close>, for every module of the table.
\<close>

subsection \<open>The tables\<close>

datatype stemmer_encoding_t = ENC_UNKNOWN | ENC_UTF_8

record stemmer_encoding =
  enc_name :: string
  enc_enc :: stemmer_encoding_t

text \<open>The entry with a null name that closes each table is the end of the list.\<close>

definition encodings :: "stemmer_encoding list" where
  "encodings = [\<lparr>enc_name = ''UTF_8'', enc_enc = ENC_UTF_8\<rparr>]"

record stemmer_modules =
  mod_name :: string
  mod_enc :: stemmer_encoding_t
  mod_create :: env_create
  mod_close :: env_close
  mod_stem :: sn_func

definition module_row :: "string \<Rightarrow> stemmer_encoding_t \<Rightarrow> env_create \<Rightarrow> env_close \<Rightarrow> sn_func \<Rightarrow> stemmer_modules" where
  "module_row nm enc create close stem =
     \<lparr>mod_name = nm, mod_enc = enc, mod_create = create, mod_close = close, mod_stem = stem\<rparr>"

lemma module_row_sel [simp]:
  "mod_name (module_row nm enc create close stem) = nm" "mod_enc (module_row nm enc create close stem) = enc"
  "mod_create (module_row nm enc create close stem) = create"
  "mod_close (module_row nm enc create close stem) = close" "mod_stem (module_row nm enc create close stem) = stem"
  by (simp_all add: module_row_def)

definition modules :: "stemmer_modules list" where
  "modules = [
    module_row ''da'' ENC_UTF_8 danish_UTF_8_create_env danish_UTF_8_close_env danish_UTF_8_stem,
    module_row ''dan'' ENC_UTF_8 danish_UTF_8_create_env danish_UTF_8_close_env danish_UTF_8_stem,
    module_row ''danish'' ENC_UTF_8 danish_UTF_8_create_env danish_UTF_8_close_env danish_UTF_8_stem,
    module_row ''de'' ENC_UTF_8 german_UTF_8_create_env german_UTF_8_close_env german_UTF_8_stem,
    module_row ''deu'' ENC_UTF_8 german_UTF_8_create_env german_UTF_8_close_env german_UTF_8_stem,
    module_row ''dut'' ENC_UTF_8 dutch_UTF_8_create_env dutch_UTF_8_close_env dutch_UTF_8_stem,
    module_row ''dutch'' ENC_UTF_8 dutch_UTF_8_create_env dutch_UTF_8_close_env dutch_UTF_8_stem,
    module_row ''en'' ENC_UTF_8 english_UTF_8_create_env english_UTF_8_close_env english_UTF_8_stem,
    module_row ''eng'' ENC_UTF_8 english_UTF_8_create_env english_UTF_8_close_env english_UTF_8_stem,
    module_row ''english'' ENC_UTF_8 english_UTF_8_create_env english_UTF_8_close_env english_UTF_8_stem,
    module_row ''es'' ENC_UTF_8 spanish_UTF_8_create_env spanish_UTF_8_close_env spanish_UTF_8_stem,
    module_row ''esl'' ENC_UTF_8 spanish_UTF_8_create_env spanish_UTF_8_close_env spanish_UTF_8_stem,
    module_row ''fi'' ENC_UTF_8 finnish_UTF_8_create_env finnish_UTF_8_close_env finnish_UTF_8_stem,
    module_row ''fin'' ENC_UTF_8 finnish_UTF_8_create_env finnish_UTF_8_close_env finnish_UTF_8_stem,
    module_row ''finnish'' ENC_UTF_8 finnish_UTF_8_create_env finnish_UTF_8_close_env finnish_UTF_8_stem,
    module_row ''fr'' ENC_UTF_8 french_UTF_8_create_env french_UTF_8_close_env french_UTF_8_stem,
    module_row ''fra'' ENC_UTF_8 french_UTF_8_create_env french_UTF_8_close_env french_UTF_8_stem,
    module_row ''fre'' ENC_UTF_8 french_UTF_8_create_env french_UTF_8_close_env french_UTF_8_stem,
    module_row ''french'' ENC_UTF_8 french_UTF_8_create_env french_UTF_8_close_env french_UTF_8_stem,
    module_row ''ger'' ENC_UTF_8 german_UTF_8_create_env german_UTF_8_close_env german_UTF_8_stem,
    module_row ''german'' ENC_UTF_8 german_UTF_8_create_env german_UTF_8_close_env german_UTF_8_stem,
    module_row ''hu'' ENC_UTF_8 hungarian_UTF_8_create_env hungarian_UTF_8_close_env hungarian_UTF_8_stem,
    module_row ''hun'' ENC_UTF_8 hungarian_UTF_8_create_env hungarian_UTF_8_close_env hungarian_UTF_8_stem,
    module_row ''hungarian'' ENC_UTF_8 hungarian_UTF_8_create_env hungarian_UTF_8_close_env hungarian_UTF_8_stem,
    module_row ''it'' ENC_UTF_8 italian_UTF_8_create_env italian_UTF_8_close_env italian_UTF_8_stem,
    module_row ''ita'' ENC_UTF_8 italian_UTF_8_create_env italian_UTF_8_close_env italian_UTF_8_stem,
    module_row ''italian'' ENC_UTF_8 italian_UTF_8_create_env italian_UTF_8_close_env italian_UTF_8_stem,
    module_row ''nl'' ENC_UTF_8 dutch_UTF_8_create_env dutch_UTF_8_close_env dutch_UTF_8_stem,
    module_row ''nld'' ENC_UTF_8 dutch_UTF_8_create_env dutch_UTF_8_close_env dutch_UTF_8_stem,
    module_row ''no'' ENC_UTF_8 norwegian_UTF_8_create_env norwegian_UTF_8_close_env norwegian_UTF_8_stem,
    module_row ''nor'' ENC_UTF_8 norwegian_UTF_8_create_env norwegian_UTF_8_close_env norwegian_UTF_8_stem,
    module_row ''norwegian'' ENC_UTF_8 norwegian_UTF_8_create_env norwegian_UTF_8_close_env norwegian_UTF_8_stem,
    module_row ''por'' ENC_UTF_8 portuguese_UTF_8_create_env portuguese_UTF_8_close_env portuguese_UTF_8_stem,
    module_row ''porter'' ENC_UTF_8 porter_UTF_8_create_env porter_UTF_8_close_env porter_UTF_8_stem,
    module_row ''portuguese'' ENC_UTF_8 portuguese_UTF_8_create_env portuguese_UTF_8_close_env portuguese_UTF_8_stem,
    module_row ''pt'' ENC_UTF_8 portuguese_UTF_8_create_env portuguese_UTF_8_close_env portuguese_UTF_8_stem,
    module_row ''ro'' ENC_UTF_8 romanian_UTF_8_create_env romanian_UTF_8_close_env romanian_UTF_8_stem,
    module_row ''romanian'' ENC_UTF_8 romanian_UTF_8_create_env romanian_UTF_8_close_env romanian_UTF_8_stem,
    module_row ''ron'' ENC_UTF_8 romanian_UTF_8_create_env romanian_UTF_8_close_env romanian_UTF_8_stem,
    module_row ''ru'' ENC_UTF_8 russian_UTF_8_create_env russian_UTF_8_close_env russian_UTF_8_stem,
    module_row ''rum'' ENC_UTF_8 romanian_UTF_8_create_env romanian_UTF_8_close_env romanian_UTF_8_stem,
    module_row ''rus'' ENC_UTF_8 russian_UTF_8_create_env russian_UTF_8_close_env russian_UTF_8_stem,
    module_row ''russian'' ENC_UTF_8 russian_UTF_8_create_env russian_UTF_8_close_env russian_UTF_8_stem,
    module_row ''spa'' ENC_UTF_8 spanish_UTF_8_create_env spanish_UTF_8_close_env spanish_UTF_8_stem,
    module_row ''spanish'' ENC_UTF_8 spanish_UTF_8_create_env spanish_UTF_8_close_env spanish_UTF_8_stem,
    module_row ''sv'' ENC_UTF_8 swedish_UTF_8_create_env swedish_UTF_8_close_env swedish_UTF_8_stem,
    module_row ''swe'' ENC_UTF_8 swedish_UTF_8_create_env swedish_UTF_8_close_env swedish_UTF_8_stem,
    module_row ''swedish'' ENC_UTF_8 swedish_UTF_8_create_env swedish_UTF_8_close_env swedish_UTF_8_stem,
    module_row ''tr'' ENC_UTF_8 turkish_UTF_8_create_env turkish_UTF_8_close_env turkish_UTF_8_stem,
    module_row ''tur'' ENC_UTF_8 turkish_UTF_8_create_env turkish_UTF_8_close_env turkish_UTF_8_stem,
    module_row ''turkish'' ENC_UTF_8 turkish_UTF_8_create_env turkish_UTF_8_close_env turkish_UTF_8_stem
  ]"

definition algorithm_names :: "string list" where
  "algorithm_names = [
    ''danish'', ''dutch'', ''english'', ''finnish'', ''french'', ''german'', ''hungarian'', ''italian'',
    ''norwegian'', ''porter'', ''portuguese'', ''romanian'', ''russian'', ''spanish'', ''swedish'', ''turkish''
  ]"

subsection \<open>Operations\<close>

definition sb_stemmer_list :: "string list" where
  "sb_stemmer_list = algorithm_names"

text \<open>A null encoding is \<^const>\<open>None\<close>.\<close>

definition sb_getenc :: "string option \<Rightarrow> stemmer_encoding_t" where
  "sb_getenc charenc = (case charenc of None \<Rightarrow> ENC_UTF_8
     | Some name \<Rightarrow> (case List.find (\<lambda>e. enc_name e = name) encodings of
         None \<Rightarrow> ENC_UNKNOWN | Some e \<Rightarrow> enc_enc e))"

text \<open>
  The result is the stemmer or null, how many of the objects that the call has allocated are still
  allocated when it returns, and what is left of the allocator's future. A null \<open>algorithm\<close> is an
  argument \<^verbatim>\<open>strcmp\<close> does not allow.
\<close>

definition sb_stemmer_new :: "string option \<Rightarrow> string option \<Rightarrow> bool list \<Rightarrow> (nat \<Rightarrow> symbol)
    \<Rightarrow> (sb_stemmer option \<times> nat \<times> bool list) option" where
  "sb_stemmer_new algorithm charenc fs fresh =
     (let (ok, fs) = malloc_ok fs in
      if \<not> ok then Some (None, 0, fs)
      else let enc = sb_getenc charenc in
      if enc = ENC_UNKNOWN then Some (None, 1, fs)
      else do {
        name \<leftarrow> algorithm;
        case List.find (\<lambda>m. mod_name m = name \<and> mod_enc m = enc) modules of
          None \<Rightarrow> Some (None, 1, fs)
        | Some m \<Rightarrow> do {
            (env, fs) \<leftarrow> mod_create m fs fresh;
            let stemmer = \<lparr>sb_create = mod_create m, sb_close = Some (mod_close m), sb_stem = mod_stem m, sb_env = env\<rparr>;
            if Option.is_none env then do {
              left \<leftarrow> sb_stemmer_delete (Some stemmer);
              Some (None, if Option.is_none left then 0 else 1, fs) }
            else Some (Some stemmer, 1, fs) } })"

subsection \<open>What the table promises\<close>

text \<open>How many bytes longer than the word a stem may be: only the Turkish stemmer appends letters.\<close>

definition slack :: "string \<Rightarrow> int" where
  "slack nm = (if nm \<in> {''tr'', ''tur'', ''turkish''} then 3 else 0)"

text \<open>
  A row whose three functions belong together: the environment that \<open>create\<close> makes has the
  variables \<open>stem\<close> works on, and \<open>close\<close> frees as many strings as \<open>create\<close> makes.
\<close>

definition consistent :: "stemmer_modules \<Rightarrow> int \<Rightarrow> int \<Rightarrow> int \<Rightarrow> bool" where
  "consistent m nS nI nB \<longleftrightarrow> mod_enc m = ENC_UTF_8 \<and> mod_create m = SN_create_env nS nI nB
     \<and> (\<forall>z. mod_close m z = SN_close_env z nS) \<and> stemmer (mod_stem m) nS nI nB (slack (mod_name m))"

lemmas create_env_defs =
  danish_UTF_8_create_env_def dutch_UTF_8_create_env_def english_UTF_8_create_env_def
  finnish_UTF_8_create_env_def french_UTF_8_create_env_def german_UTF_8_create_env_def
  hungarian_UTF_8_create_env_def italian_UTF_8_create_env_def norwegian_UTF_8_create_env_def
  porter_UTF_8_create_env_def portuguese_UTF_8_create_env_def romanian_UTF_8_create_env_def
  russian_UTF_8_create_env_def spanish_UTF_8_create_env_def swedish_UTF_8_create_env_def

lemmas close_env_defs =
  danish_UTF_8_close_env_def dutch_UTF_8_close_env_def english_UTF_8_close_env_def
  finnish_UTF_8_close_env_def french_UTF_8_close_env_def german_UTF_8_close_env_def
  hungarian_UTF_8_close_env_def italian_UTF_8_close_env_def norwegian_UTF_8_close_env_def
  porter_UTF_8_close_env_def portuguese_UTF_8_close_env_def romanian_UTF_8_close_env_def
  russian_UTF_8_close_env_def spanish_UTF_8_close_env_def swedish_UTF_8_close_env_def

lemma consistent_rows:
  assumes "slack nm = 0"
  shows "consistent (module_row nm ENC_UTF_8 danish_UTF_8_create_env danish_UTF_8_close_env danish_UTF_8_stem) 1 2 0"
    "consistent (module_row nm ENC_UTF_8 dutch_UTF_8_create_env dutch_UTF_8_close_env dutch_UTF_8_stem) 0 2 1"
    "consistent (module_row nm ENC_UTF_8 english_UTF_8_create_env english_UTF_8_close_env english_UTF_8_stem) 0 2 1"
    "consistent (module_row nm ENC_UTF_8 finnish_UTF_8_create_env finnish_UTF_8_close_env finnish_UTF_8_stem) 1 2 1"
    "consistent (module_row nm ENC_UTF_8 french_UTF_8_create_env french_UTF_8_close_env french_UTF_8_stem) 0 3 0"
    "consistent (module_row nm ENC_UTF_8 german_UTF_8_create_env german_UTF_8_close_env german_UTF_8_stem) 0 3 0"
    "consistent (module_row nm ENC_UTF_8 hungarian_UTF_8_create_env hungarian_UTF_8_close_env hungarian_UTF_8_stem) 0 1 0"
    "consistent (module_row nm ENC_UTF_8 italian_UTF_8_create_env italian_UTF_8_close_env italian_UTF_8_stem) 0 3 0"
    "consistent (module_row nm ENC_UTF_8 norwegian_UTF_8_create_env norwegian_UTF_8_close_env norwegian_UTF_8_stem) 0 2 0"
    "consistent (module_row nm ENC_UTF_8 porter_UTF_8_create_env porter_UTF_8_close_env porter_UTF_8_stem) 0 2 1"
    "consistent (module_row nm ENC_UTF_8 portuguese_UTF_8_create_env portuguese_UTF_8_close_env portuguese_UTF_8_stem) 0 3 0"
    "consistent (module_row nm ENC_UTF_8 romanian_UTF_8_create_env romanian_UTF_8_close_env romanian_UTF_8_stem) 0 3 1"
    "consistent (module_row nm ENC_UTF_8 russian_UTF_8_create_env russian_UTF_8_close_env russian_UTF_8_stem) 0 2 0"
    "consistent (module_row nm ENC_UTF_8 spanish_UTF_8_create_env spanish_UTF_8_close_env spanish_UTF_8_stem) 0 3 0"
    "consistent (module_row nm ENC_UTF_8 swedish_UTF_8_create_env swedish_UTF_8_close_env swedish_UTF_8_stem) 0 2 0"
  using assms danish.stemmer_axioms dutch.stemmer_axioms english.stemmer_axioms finnish.stemmer_axioms
    french.stemmer_axioms german.stemmer_axioms hungarian.stemmer_axioms italian.stemmer_axioms
    norwegian.stemmer_axioms porter.stemmer_axioms portuguese.stemmer_axioms romanian.stemmer_axioms
    russian.stemmer_axioms spanish.stemmer_axioms swedish.stemmer_axioms
  by (simp_all add: consistent_def close_env_defs create_env_defs)

lemma consistent_turkish:
  "slack nm = 3 \<Longrightarrow> consistent (module_row nm ENC_UTF_8 turkish_UTF_8_create_env turkish_UTF_8_close_env turkish_UTF_8_stem) 0 1 1"
  using turkish.stemmer_axioms by (simp add: consistent_def turkish_UTF_8_create_env_def turkish_UTF_8_close_env_def)

text \<open>Every row of the table is consistent.\<close>

definition sound :: "stemmer_modules \<Rightarrow> bool" where
  "sound m \<longleftrightarrow> (\<exists>nS nI nB. consistent m nS nI nB)"

lemma soundI: "consistent m nS nI nB \<Longrightarrow> sound m"
  by (auto simp: sound_def)

lemma modules_sound: "m \<in> set modules \<Longrightarrow> sound m"
proof -
  have "list_all sound modules"
    unfolding modules_def list.pred_inject(2)
    by (intro conjI list.pred_inject(1) consistent_rows [THEN soundI] consistent_turkish [THEN soundI]) (simp_all add: slack_def)
  then show "m \<in> set modules \<Longrightarrow> sound m" by (simp add: list_all_iff)
qed

subsection \<open>The search in the table\<close>

text \<open>The names are in strictly ascending order, so no module hides another.\<close>

lemma module_names:
  "map mod_name modules = [
    ''da'', ''dan'', ''danish'', ''de'', ''deu'', ''dut'', ''dutch'', ''en'',
    ''eng'', ''english'', ''es'', ''esl'', ''fi'', ''fin'', ''finnish'', ''fr'', ''fra'',
    ''fre'', ''french'', ''ger'', ''german'', ''hu'', ''hun'', ''hungarian'', ''it'', ''ita'',
    ''italian'', ''nl'', ''nld'', ''no'', ''nor'', ''norwegian'', ''por'', ''porter'', ''portuguese'',
    ''pt'', ''ro'', ''romanian'', ''ron'', ''ru'', ''rum'', ''rus'', ''russian'', ''spa'',
    ''spanish'', ''sv'', ''swe'', ''swedish'', ''tr'', ''tur'', ''turkish'']"
  by (simp add: modules_def)

lemma module_names_distinct: "distinct (map mod_name modules)"
  unfolding module_names by code_simp

lemma find_unique:
  "distinct (map f xs) \<Longrightarrow> x \<in> set xs \<Longrightarrow> P x \<Longrightarrow> List.find (\<lambda>y. f y = f x \<and> P y) xs = Some x"
  by (induction xs) (auto simp: image_iff)

lemma find_module:
  assumes "m \<in> set modules"
  shows "List.find (\<lambda>x. mod_name x = mod_name m \<and> mod_enc x = ENC_UTF_8) modules = Some m"
  using find_unique [OF module_names_distinct assms, of "\<lambda>x. mod_enc x = ENC_UTF_8"] modules_sound [OF assms]
  by (auto simp: sound_def consistent_def)

lemma find_no_module:
  assumes "name \<notin> set (map mod_name modules)"
  shows "List.find (\<lambda>x. mod_name x = name \<and> mod_enc x = enc) modules = None"
  using assms by (auto simp: find_None_iff)

lemma algorithm_names_known: "set algorithm_names \<subseteq> set (map mod_name modules)"
  unfolding module_names algorithm_names_def by code_simp

lemma sb_getenc_simps [simp]:
  "sb_getenc None = ENC_UTF_8" "sb_getenc (Some ''UTF_8'') = ENC_UTF_8"
  "e \<noteq> ''UTF_8'' \<Longrightarrow> sb_getenc (Some e) = ENC_UNKNOWN"
  by (simp_all add: sb_getenc_def encodings_def)

subsection \<open>The life of a stemmer object\<close>

text \<open>Closing an environment that \<open>create\<close> has made, in whatever state the stemming left it.\<close>

lemma lose_strings_ok: "i + n = length (z_S z) \<Longrightarrow> lose_strings i n z = Some ()"
  by (induction i n z rule: lose_strings.induct) simp_all

lemma SN_close_env_ok: "int (length (z_S z)) = nS \<Longrightarrow> SN_close_env (Some z) nS = Some ()"
  by (auto simp: SN_close_env_def lose_strings_ok)

lemma sb_stemmer_delete_ok:
  assumes "consistent m nS nI nB" "int (length (z_S z)) = nS" "sb_env s = Some z" "sb_close s = Some (mod_close m)"
  shows "sb_stemmer_delete (Some s) = Some None"
  using assms by (simp add: sb_stemmer_delete_def consistent_def SN_close_env_ok)

text \<open>
  What \<^verbatim>\<open>sb_stemmer_new\<close> gives for a module of the table: a stemmer with a fresh environment; or,
  only for want of memory, null with nothing left allocated; or, for a language with string
  variables, the faulty error path of \<^const>\<open>SN_create_env\<close>.
\<close>

definition stemmer_of :: "stemmer_modules \<Rightarrow> SN_env \<Rightarrow> sb_stemmer" where
  "stemmer_of m z = \<lparr>sb_create = mod_create m, sb_close = Some (mod_close m), sb_stem = mod_stem m, sb_env = Some z\<rparr>"

lemma stemmer_of_sel [simp]:
  "sb_stem (stemmer_of m z) = mod_stem m" "sb_env (stemmer_of m z) = Some z"
  "sb_close (stemmer_of m z) = Some (mod_close m)" "stemmer_of m z\<lparr>sb_env := Some z'\<rparr> = stemmer_of m z'"
  by (simp_all add: stemmer_of_def)

lemma sb_stemmer_new_cases:
  assumes m: "m \<in> set modules" "consistent m nS nI nB" and enc: "sb_getenc charenc = ENC_UTF_8"
  obtains (ok) z where "sb_stemmer_new (Some (mod_name m)) charenc fs fresh = Some (Some (stemmer_of m z), 1, z_faults z)"
      "made nS nI nB z" "failing (z_faults z) \<le> failing fs"
    | (null) fs' where "sb_stemmer_new (Some (mod_name m)) charenc fs fresh = Some (None, 0, fs')" "0 < failing fs"
    | (ub) "sb_stemmer_new (Some (mod_name m)) charenc fs fresh = None" "nS \<noteq> 0" "0 < failing fs"
proof (cases rule: malloc_ok_cases [of fs])
  case (fail fs')
  then show thesis by (intro null [of fs']) (simp_all add: sb_stemmer_new_def)
next
  case a: (ok fs1)
  have nS: "0 \<le> nS" using m(2) by (simp add: consistent_def stemmer_def)
  have cr: "mod_create m = SN_create_env nS nI nB" using m(2) by (simp add: consistent_def)
  note new = sb_stemmer_new_def a(1) enc find_module [OF m(1)]
  show thesis
  proof (cases rule: SN_create_env_cases [OF nS, of nI nB fs1 fresh, case_names ok null ub])
    case (ok z)
    with a cr show thesis by (intro that(1) [of z]) (simp_all add: new stemmer_of_def)
  next
    case (null fs')
    then have "mod_close m None = Some ()" using m(2) by (simp add: consistent_def SN_close_env_def)
    with null a cr show thesis
      by (intro that(2) [of fs']) (simp_all add: new sb_stemmer_delete_def)
  next
    case ub
    with a cr show thesis by (intro that(3)) (simp_all add: new)
  qed
qed

text \<open>With enough memory: every module serves every text and can be disposed of afterwards.\<close>

lemma module_serves:
  assumes m: "m \<in> set modules" and enc: "sb_getenc charenc = ENC_UTF_8" and mem: "failing fs = 0"
  obtains s fs' where "sb_stemmer_new (Some (mod_name m)) charenc fs fresh = Some (Some s, 1, fs')"
    "\<And>ws. \<exists>outs s'. stem_words s ws = Some (map Some outs, s')
       \<and> list_all2 (\<lambda>out w. int (length out) \<le> int (length w) + slack (mod_name m)) outs ws
       \<and> sb_stemmer_delete (Some s') = Some None"
proof -
  obtain nS nI nB where c: "consistent m nS nI nB" using modules_sound [OF m] by (auto simp: sound_def)
  then have st: "stemmer (mod_stem m) nS nI nB (slack (mod_name m))" by (simp add: consistent_def)
  show thesis
  proof (cases rule: sb_stemmer_new_cases [OF m c enc, of fs fresh, case_names ok null ub])
    case (ok z)
    show thesis
    proof (rule that [OF ok(1)])
      fix ws
      obtain outs z' where run: "stem_words (stemmer_of m z) ws = Some (map Some outs, stemmer_of m z')"
        "list_all2 (\<lambda>out w. int (length out) \<le> int (length w) + slack (mod_name m)) outs ws" "ready nS nI nB z'"
        using stemmer.stem_words_total [OF st, of "stemmer_of m z" z ws] stemmer.made_ready [OF st ok(2)] ok(3) mem by auto
      then have "sb_stemmer_delete (Some (stemmer_of m z')) = Some None"
        by (intro sb_stemmer_delete_ok [OF c, of z']) (simp_all add: ready_def)
      with run show "\<exists>outs s'. stem_words (stemmer_of m z) ws = Some (map Some outs, s')
         \<and> list_all2 (\<lambda>out w. int (length out) \<le> int (length w) + slack (mod_name m)) outs ws
         \<and> sb_stemmer_delete (Some s') = Some None" by blast
    qed
  qed (use mem in simp_all)
qed

text \<open>
  The modules whose stemmer needs no memory of its own survive every failed allocation: all but the
  Danish and the Finnish, which keep a string variable, and the Turkish, which lengthens the word.
\<close>

definition fragile :: "string list" where
  "fragile = [''da'', ''dan'', ''danish'', ''fi'', ''fin'', ''finnish'', ''tr'', ''tur'', ''turkish'']"

definition robust :: "stemmer_modules \<Rightarrow> bool" where
  "robust m \<longleftrightarrow> (\<exists>nI nB. consistent m 0 nI nB \<and> resilient_stemmer (mod_stem m) 0 nI nB 0)"

lemma robustI: "consistent m 0 nI nB \<Longrightarrow> resilient_stemmer (mod_stem m) 0 nI nB 0 \<Longrightarrow> robust m"
  by (auto simp: robust_def)

lemmas resilient_axioms =
    dutch.resilient_stemmer_axioms english.resilient_stemmer_axioms french.resilient_stemmer_axioms
    german.resilient_stemmer_axioms hungarian.resilient_stemmer_axioms
    italian.resilient_stemmer_axioms norwegian.resilient_stemmer_axioms
    porter.resilient_stemmer_axioms portuguese.resilient_stemmer_axioms
    romanian.resilient_stemmer_axioms russian.resilient_stemmer_axioms
    spanish.resilient_stemmer_axioms swedish.resilient_stemmer_axioms

lemma robust_rows:
  assumes "slack nm = 0"
  shows "robust (module_row nm ENC_UTF_8 dutch_UTF_8_create_env dutch_UTF_8_close_env dutch_UTF_8_stem)"
    "robust (module_row nm ENC_UTF_8 english_UTF_8_create_env english_UTF_8_close_env english_UTF_8_stem)"
    "robust (module_row nm ENC_UTF_8 french_UTF_8_create_env french_UTF_8_close_env french_UTF_8_stem)"
    "robust (module_row nm ENC_UTF_8 german_UTF_8_create_env german_UTF_8_close_env german_UTF_8_stem)"
    "robust (module_row nm ENC_UTF_8 hungarian_UTF_8_create_env hungarian_UTF_8_close_env hungarian_UTF_8_stem)"
    "robust (module_row nm ENC_UTF_8 italian_UTF_8_create_env italian_UTF_8_close_env italian_UTF_8_stem)"
    "robust (module_row nm ENC_UTF_8 norwegian_UTF_8_create_env norwegian_UTF_8_close_env norwegian_UTF_8_stem)"
    "robust (module_row nm ENC_UTF_8 porter_UTF_8_create_env porter_UTF_8_close_env porter_UTF_8_stem)"
    "robust (module_row nm ENC_UTF_8 portuguese_UTF_8_create_env portuguese_UTF_8_close_env portuguese_UTF_8_stem)"
    "robust (module_row nm ENC_UTF_8 romanian_UTF_8_create_env romanian_UTF_8_close_env romanian_UTF_8_stem)"
    "robust (module_row nm ENC_UTF_8 russian_UTF_8_create_env russian_UTF_8_close_env russian_UTF_8_stem)"
    "robust (module_row nm ENC_UTF_8 spanish_UTF_8_create_env spanish_UTF_8_close_env spanish_UTF_8_stem)"
    "robust (module_row nm ENC_UTF_8 swedish_UTF_8_create_env swedish_UTF_8_close_env swedish_UTF_8_stem)"
  by (rule robustI, rule consistent_rows [OF assms], unfold module_row_sel, rule resilient_axioms)+

definition robust_or_fragile :: "stemmer_modules \<Rightarrow> bool" where
  "robust_or_fragile m \<longleftrightarrow> robust m \<or> mod_name m \<in> set fragile"

lemma robust_or_fragileI:
  "robust m \<Longrightarrow> robust_or_fragile m" "mod_name m \<in> set fragile \<Longrightarrow> robust_or_fragile m"
  by (simp_all add: robust_or_fragile_def)

lemma modules_robust:
  assumes "m \<in> set modules" "mod_name m \<notin> set fragile"
  shows "robust m"
proof -
  have "list_all robust_or_fragile modules"
    unfolding modules_def list.pred_inject(2)
    by (intro conjI list.pred_inject(1); ((rule robust_or_fragileI(1), rule robust_rows, simp add: slack_def)
      | (rule robust_or_fragileI(2), simp add: fragile_def)))
  with assms show ?thesis by (auto simp: list_all_iff robust_or_fragile_def)
qed

lemma module_survives:
  assumes m: "m \<in> set modules" "mod_name m \<notin> set fragile" and enc: "sb_getenc charenc = ENC_UTF_8"
  obtains (null) fs' where "sb_stemmer_new (Some (mod_name m)) charenc fs fresh = Some (None, 0, fs')" "0 < failing fs"
    | (ok) s fs' where "sb_stemmer_new (Some (mod_name m)) charenc fs fresh = Some (Some s, 1, fs')"
      "\<And>ws. \<exists>outs s'. stem_words s ws = Some (outs, s')
        \<and> list_all2 (\<lambda>out w. case out of None \<Rightarrow> True | Some x \<Rightarrow> length x \<le> length w) outs ws
        \<and> sb_stemmer_delete (Some s') = Some None"
proof -
  obtain nI nB where c: "consistent m 0 nI nB" and st: "resilient_stemmer (mod_stem m) 0 nI nB 0"
    using modules_robust [OF m] by (auto simp: robust_def)
  from c have st': "stemmer (mod_stem m) 0 nI nB (slack (mod_name m))" by (simp add: consistent_def)
  show thesis
  proof (cases rule: sb_stemmer_new_cases [OF m(1) c enc, of fs fresh, case_names ok null ub])
    case new: (ok z)
    show thesis
    proof (rule ok [OF new(1)])
      fix ws
      obtain outs z' where run: "stem_words (stemmer_of m z) ws = Some (outs, stemmer_of m z')" "alive 0 nI nB z'"
        "list_all2 (\<lambda>out w. case out of None \<Rightarrow> True | Some x \<Rightarrow> int (length x) \<le> int (length w) + 0) outs ws"
        using resilient_stemmer.stem_words_resilient [OF st, of "stemmer_of m z" z ws]
          ready_alive [OF stemmer.made_ready [OF st' new(2)]] by auto
      then have "sb_stemmer_delete (Some (stemmer_of m z')) = Some None"
        by (intro sb_stemmer_delete_ok [OF c, of z']) (simp_all add: alive_def)
      with run show "\<exists>outs s'. stem_words (stemmer_of m z) ws = Some (outs, s')
        \<and> list_all2 (\<lambda>out w. case out of None \<Rightarrow> True | Some x \<Rightarrow> length x \<le> length w) outs ws
        \<and> sb_stemmer_delete (Some s') = Some None"
        using run(1) run(3) [unfolded add_0_right of_nat_le_iff] by blast
    qed
  qed (auto intro: null)
qed

subsection \<open>Requests the module refuses\<close>

lemma sb_stemmer_new_unknown_encoding:
  assumes "e \<noteq> ''UTF_8''" "malloc_ok fs = (True, fs')"
  shows "sb_stemmer_new algorithm (Some e) fs fresh = Some (None, 1, fs')"
  using assms by (simp add: sb_stemmer_new_def)

lemma sb_stemmer_new_unknown_algorithm:
  assumes "name \<notin> set (map mod_name modules)" "sb_getenc charenc = ENC_UTF_8" "malloc_ok fs = (True, fs')"
  shows "sb_stemmer_new (Some name) charenc fs fresh = Some (None, 1, fs')"
  using find_no_module [OF assms(1)] assms(2,3) by (simp add: sb_stemmer_new_def)

subsection \<open>Sessions\<close>

text \<open>
  A client's session with the library: it asks for a stemmer, gives it words one after the other, in
  any order of successes and failures, and disposes of it. The states are: no stemmer, and a stemmer
  object.
\<close>

datatype session = Closed | Open sb_stemmer

inductive session_step :: "string \<Rightarrow> session \<Rightarrow> session \<Rightarrow> bool" for name where
  new: "sb_stemmer_new (Some name) charenc fs fresh = Some (Some s, n, fs') \<Longrightarrow> session_step name Closed (Open s)"
| refused: "sb_stemmer_new (Some name) charenc fs fresh = Some (None, n, fs') \<Longrightarrow> session_step name Closed Closed"
| stem: "sb_stemmer_stem s w (int (length w)) = Some (p, s') \<Longrightarrow> session_step name (Open s) (Open s')"
| delete: "sb_stemmer_delete (Some s) = Some None \<Longrightarrow> session_step name (Open s) Closed"

inductive_cases session_step_Closed: "session_step name Closed st"
inductive_cases session_step_Open: "session_step name (Open s) st"

text \<open>The invariant of a session: the open object is one of the module's, its environment alive.\<close>

definition session_ok :: "stemmer_modules \<Rightarrow> session \<Rightarrow> bool" where
  "session_ok m st \<longleftrightarrow> (case st of Closed \<Rightarrow> True
     | Open s \<Rightarrow> \<exists>z nI nB. s = stemmer_of m z \<and> alive 0 nI nB z
         \<and> consistent m 0 nI nB \<and> resilient_stemmer (mod_stem m) 0 nI nB 0)"

lemma stem_keeps:
  assumes s: "session_ok m (Open s)"
  obtains p s' where "sb_stemmer_stem s w (int (length w)) = Some (p, s')" "session_ok m (Open s')"
proof -
  obtain z nI nB where z: "s = stemmer_of m z" "alive 0 nI nB z" and c: "consistent m 0 nI nB"
    and res: "resilient_stemmer (mod_stem m) 0 nI nB 0"
    using s by (auto simp: session_ok_def)
  from res have st: "stemmer (mod_stem m) 0 nI nB 0" by (rule resilient_stemmer.axioms)
  have keep: "session_ok m (Open (s\<lparr>sb_env := Some z'\<rparr>))" if "alive 0 nI nB z'" for z'
    using that z(1) c res by (auto simp: session_ok_def)
  show thesis
  proof (cases rule: stemmer.stem_call [OF st _ _ z(2) refl, of s w, case_names stem env ok refused broken])
    case (ok p z')
    then show thesis by (intro that [OF ok(1)] keep) (simp add: served_def ready_alive)
  next
    case (refused z')
    then show thesis by (intro that [OF refused(1)] keep) simp
  next
    case (broken z1 r z')
    then show thesis
      using resilient_stemmer.survives [OF res] by (intro that [OF broken(1)] keep) blast
  qed (simp_all add: z(1))
qed

lemma session_step_keeps:
  assumes m: "m \<in> set modules" "mod_name m \<notin> set fragile"
    and "session_step (mod_name m) st st'" "session_ok m st"
  shows "session_ok m st'"
  using assms(3)
proof cases
  case (new charenc fs fresh s n fs')
  have rob: "robust m" using m by (rule modules_robust)
  then obtain nI nB where c: "consistent m 0 nI nB" "resilient_stemmer (mod_stem m) 0 nI nB 0" by (auto simp: robust_def)
  have enc: "sb_getenc charenc = ENC_UTF_8"
    using new(3) by (cases "sb_getenc charenc") (auto simp: sb_stemmer_new_def Let_def split: prod.splits if_splits)
  show ?thesis
  proof (cases rule: sb_stemmer_new_cases [OF m(1) c(1) enc, of fs fresh, case_names ok null ub])
    case (ok z)
    with c(1) have "alive 0 nI nB z"
      by (intro ready_alive stemmer.made_ready [of "mod_stem m" _ _ _ "slack (mod_name m)"]) (simp_all add: consistent_def)
    with ok(1) new c show ?thesis by (auto simp: session_ok_def)
  qed (use new in simp_all)
next
  case (stem s w p s')
  obtain p1 s1 where "sb_stemmer_stem s w (int (length w)) = Some (p1, s1)" "session_ok m (Open s1)"
    using stem_keeps [of m s w] assms(4) stem(1) by auto
  with stem show ?thesis by simp
qed (simp_all add: session_ok_def)

text \<open>In every reachable state the client can go on: the next word returns, and so does the disposal.\<close>

lemma session_invariant:
  assumes m: "m \<in> set modules" "mod_name m \<notin> set fragile"
    and "(session_step (mod_name m))\<^sup>*\<^sup>* Closed st"
  shows "session_ok m st"
  using assms(3)
proof (induction rule: rtranclp_induct)
  case base
  show ?case by (simp add: session_ok_def)
next
  case (step st st')
  then show ?case using session_step_keeps [OF m] by blast
qed

lemma session_progress:
  assumes "session_ok m (Open s)"
  shows "\<exists>p s'. sb_stemmer_stem s w (int (length w)) = Some (p, s')" "sb_stemmer_delete (Some s) = Some None"
proof -
  show "\<exists>p s'. sb_stemmer_stem s w (int (length w)) = Some (p, s')"
    using stem_keeps [OF assms, of w] by blast
  obtain z nI nB where "s = stemmer_of m z" "alive 0 nI nB z" "consistent m 0 nI nB"
    using assms by (auto simp: session_ok_def)
  then show "sb_stemmer_delete (Some s) = Some None"
    by (intro sb_stemmer_delete_ok [of m 0 nI nB z]) (simp_all add: alive_def)
qed

subsection \<open>After a failed stem\<close>

text \<open>
  A stem that fails for want of memory leaves the length of the lost text in the environment. The
  next word then finds a new buffer of one byte and moves bytes from behind its end.
\<close>

lemma SN_set_current_stale:
  assumes "z_p z = None" "2 < z_l z" "failing (z_faults z) = 0"
  shows "SN_set_current (int (length w)) w z = None"
proof -
  obtain b fs where b: "create_s z = (Some b, z\<lparr>z_faults := fs\<rparr>)" "SIZE b = 1" "failing fs = 0"
    and cap: "CAPACITY b = 1" "length (bytes b) = 2"
  proof (cases rule: alloc_ok_cases [of z])
    case (ok fs)
    then show thesis
      using assms(3) by (intro that [of "\<lparr>bytes = map (z_fresh z) [0..<2], SIZE = 1, CAPACITY = 1\<rparr>" fs])
        (simp_all add: create_s_def CREATE_SIZE_def)
  qed (use assms(3) in simp)
  let ?z = "z\<lparr>z_faults := fs, z_p := Some b\<rparr>"
  let ?adj = "int (length w) - z_l z"
  have shift: "replace_shift 0 (z_l z) ?adj b ?z = None"
  proof (cases "1 < ?adj + 1")
    case False
    then show ?thesis using assms(2) b(2) cap by (simp add: replace_shift_def memmove_def arr_read_def)
  next
    case True
    show ?thesis
    proof (cases rule: alloc_ok_cases [of ?z])
      case (ok fs2)
      then show ?thesis
        using True assms(2) b(2) cap by (simp add: replace_shift_def increase_size_def memmove_def arr_read_def)
    qed (use b(3) in simp)
  qed
  show ?thesis
  proof (cases "?adj = 0")
    case True
    then have "2 < int (length w)" using assms(2) by simp
    then show ?thesis
      using True assms(1) b cap by (simp add: SN_set_current_def replace_s_def arr_read_def arr_write_def)
  next
    case False
    with shift assms(1) b show ?thesis by (simp add: SN_set_current_def replace_s_def)
  qed
qed

end
