(* ===== verification/Utf8_Text.thy ===== *)
theory Utf8_Text
  imports Runtime_Rules
begin

text \<open>
  The grouping tests for one-byte encodings (\<^verbatim>\<open>runtime/utilities.c\<close>), and what the character
  functions of the runtime do on UTF-8 text: the decoders against an encoder, the moves by
  characters against a list of characters, and the two kinds of grouping tests against each other
  on ASCII text.
\<close>

subsection \<open>Groupings of bytes\<close>

text \<open>
  As in the UTF-8 case, the four loops differ in the direction and in the sense of the test; the
  results are the return value and the cursor.
\<close>

function byte_grouping_fwd ::
  "bool \<Rightarrow> symbol list \<Rightarrow> int list \<Rightarrow> int \<Rightarrow> int \<Rightarrow> int \<Rightarrow> int \<Rightarrow> int \<Rightarrow> (int \<times> int) option" where
  "byte_grouping_fwd inside p grp mn mx repeat c l =
     (if c \<ge> l then Some (- 1, c)
      else case arr_get p c of None \<Rightarrow> None
      | Some ch \<Rightarrow> (case outside grp mn mx (byte ch) of None \<Rightarrow> None
          | Some out \<Rightarrow>
              if out = inside then Some (1, c)
              else if repeat \<noteq> 0 then byte_grouping_fwd inside p grp mn mx repeat (c + 1) l
              else Some (0, c + 1)))"
  by pat_completeness auto
termination by (relation "measure (\<lambda>(inside, p, grp, mn, mx, repeat, c, l). nat (l - c))") auto

function byte_grouping_bwd ::
  "bool \<Rightarrow> symbol list \<Rightarrow> int list \<Rightarrow> int \<Rightarrow> int \<Rightarrow> int \<Rightarrow> int \<Rightarrow> int \<Rightarrow> (int \<times> int) option" where
  "byte_grouping_bwd inside p grp mn mx repeat c lb =
     (if c \<le> lb then Some (- 1, c)
      else case arr_get p (c - 1) of None \<Rightarrow> None
      | Some ch \<Rightarrow> (case outside grp mn mx (byte ch) of None \<Rightarrow> None
          | Some out \<Rightarrow>
              if out = inside then Some (1, c)
              else if repeat \<noteq> 0 then byte_grouping_bwd inside p grp mn mx repeat (c - 1) lb
              else Some (0, c - 1)))"
  by pat_completeness auto
termination by (relation "measure (\<lambda>(inside, p, grp, mn, mx, repeat, c, lb). nat (c - lb))") auto

declare byte_grouping_fwd.simps [simp del] byte_grouping_bwd.simps [simp del]

definition in_grouping :: "int list \<Rightarrow> int \<Rightarrow> int \<Rightarrow> int \<Rightarrow> sn_func" where
  "in_grouping grp mn mx repeat z = do {
     p \<leftarrow> z_p z;
     (r, c) \<leftarrow> byte_grouping_fwd True (bytes p) grp mn mx repeat (z_c z) (z_l z);
     Some (r, z\<lparr>z_c := c\<rparr>) }"

definition in_grouping_b :: "int list \<Rightarrow> int \<Rightarrow> int \<Rightarrow> int \<Rightarrow> sn_func" where
  "in_grouping_b grp mn mx repeat z = do {
     p \<leftarrow> z_p z;
     (r, c) \<leftarrow> byte_grouping_bwd True (bytes p) grp mn mx repeat (z_c z) (z_lb z);
     Some (r, z\<lparr>z_c := c\<rparr>) }"

definition out_grouping :: "int list \<Rightarrow> int \<Rightarrow> int \<Rightarrow> int \<Rightarrow> sn_func" where
  "out_grouping grp mn mx repeat z = do {
     p \<leftarrow> z_p z;
     (r, c) \<leftarrow> byte_grouping_fwd False (bytes p) grp mn mx repeat (z_c z) (z_l z);
     Some (r, z\<lparr>z_c := c\<rparr>) }"

definition out_grouping_b :: "int list \<Rightarrow> int \<Rightarrow> int \<Rightarrow> int \<Rightarrow> sn_func" where
  "out_grouping_b grp mn mx repeat z = do {
     p \<leftarrow> z_p z;
     (r, c) \<leftarrow> byte_grouping_bwd False (bytes p) grp mn mx repeat (z_c z) (z_lb z);
     Some (r, z\<lparr>z_c := c\<rparr>) }"

text \<open>On ASCII bytes the two kinds of tests are the same.\<close>

definition ascii :: "symbol list \<Rightarrow> bool" where
  "ascii p \<longleftrightarrow> list_all (\<lambda>ch. byte ch < 0x80) p"

lemma ascii_get: "ascii p \<Longrightarrow> arr_get p i = Some ch \<Longrightarrow> byte ch < 0x80"
  by (auto simp: ascii_def list_all_iff arr_get_eq_Some)

lemma get_utf8_ascii:
  assumes "ascii p" "c < l"
  shows "get_utf8 p c l = map_option (\<lambda>ch. (1, byte ch)) (arr_get p c)"
  using assms(2) ascii_get [OF assms(1), of c] by (cases "arr_get p c") (auto simp: get_utf8_def)

lemma get_b_utf8_ascii:
  assumes "ascii p" "lb < c"
  shows "get_b_utf8 p c lb = map_option (\<lambda>ch. (1, byte ch)) (arr_get p (c - 1))"
  using assms(2) ascii_get [OF assms(1), of "c - 1"] by (cases "arr_get p (c - 1)") (auto simp: get_b_utf8_def)

lemma grouping_fwd_ascii:
  "ascii p \<Longrightarrow> grouping_fwd inside p grp mn mx repeat c l = byte_grouping_fwd inside p grp mn mx repeat c l"
proof (induction inside p grp mn mx repeat c l rule: byte_grouping_fwd.induct)
  case (1 inside p grp mn mx repeat c l)
  show ?case
  proof (cases "c < l")
    case True
    then show ?thesis
      using 1 get_utf8_ascii [OF "1.prems" True]
      by (subst grouping_fwd.simps, subst byte_grouping_fwd.simps) (auto split: option.split)
  next
    case False
    then have "get_utf8 p c l = Some (0, 0)" by (simp add: get_utf8_def)
    with False show ?thesis by (simp add: grouping_fwd.simps [of _ _ _ _ _ _ c] byte_grouping_fwd.simps [of _ _ _ _ _ _ c])
  qed
qed

lemma grouping_bwd_ascii:
  "ascii p \<Longrightarrow> grouping_bwd inside p grp mn mx repeat c lb = byte_grouping_bwd inside p grp mn mx repeat c lb"
proof (induction inside p grp mn mx repeat c lb rule: byte_grouping_bwd.induct)
  case (1 inside p grp mn mx repeat c lb)
  show ?case
  proof (cases "lb < c")
    case True
    then show ?thesis
      using 1 get_b_utf8_ascii [OF "1.prems" True]
      by (subst grouping_bwd.simps, subst byte_grouping_bwd.simps) (auto split: option.split)
  next
    case False
    then have "get_b_utf8 p c lb = Some (0, 0)" by (simp add: get_b_utf8_def)
    with False show ?thesis by (simp add: grouping_bwd.simps [of _ _ _ _ _ _ c] byte_grouping_bwd.simps [of _ _ _ _ _ _ c])
  qed
qed

lemma groupings_ascii:
  assumes "z_p z = Some p" "ascii (bytes p)"
  shows "in_grouping_U grp mn mx repeat z = in_grouping grp mn mx repeat z"
    "out_grouping_U grp mn mx repeat z = out_grouping grp mn mx repeat z"
    "in_grouping_b_U grp mn mx repeat z = in_grouping_b grp mn mx repeat z"
    "out_grouping_b_U grp mn mx repeat z = out_grouping_b grp mn mx repeat z"
  using assms
  by (simp_all add: in_grouping_U_def in_grouping_def out_grouping_U_def out_grouping_def in_grouping_b_U_def
    in_grouping_b_def out_grouping_b_U_def out_grouping_b_def grouping_fwd_ascii grouping_bwd_ascii)

subsection \<open>Characters\<close>

text \<open>The UTF-8 encoding of a code point, by the number of bytes it takes.\<close>

definition utf8_2 :: "int \<Rightarrow> int \<Rightarrow> symbol list" where
  "utf8_2 p q = [char_of (0xC0 + p), char_of (0x80 + q)]"

definition utf8_3 :: "int \<Rightarrow> int \<Rightarrow> int \<Rightarrow> symbol list" where
  "utf8_3 p q r = [char_of (0xE0 + p), char_of (0x80 + q), char_of (0x80 + r)]"

definition utf8_4 :: "int \<Rightarrow> int \<Rightarrow> int \<Rightarrow> int \<Rightarrow> symbol list" where
  "utf8_4 p q r s = [char_of (0xF0 + p), char_of (0x80 + q), char_of (0x80 + r), char_of (0x80 + s)]"

definition utf8 :: "int \<Rightarrow> symbol list" where
  "utf8 u =
     (if u < 0x80 then [char_of u]
      else if u < 0x800 then utf8_2 (u div 64) (u mod 64)
      else if u < 0x10000 then utf8_3 (u div 4096) (u div 64 mod 64) (u mod 64)
      else utf8_4 (u div 262144) (u div 4096 mod 64) (u div 64 mod 64) (u mod 64))"

text \<open>A number that six bits can hold, as the rest of a code point, and the two larger heads.\<close>

definition six :: "int \<Rightarrow> bool" where
  "six n \<longleftrightarrow> 0 \<le> n \<and> n < 64"

lemma six_mod [simp]: "six (n mod 64)"
  unfolding six_def by (intro conjI pos_mod_sign pos_mod_bound zero_less_numeral)

lemma heads:
  "0 \<le> u \<Longrightarrow> u < 0x800 \<Longrightarrow> 0 \<le> u div 64 \<and> u div 64 < 32"
  "0 \<le> u \<Longrightarrow> u < 0x10000 \<Longrightarrow> 0 \<le> u div 4096 \<and> u div 4096 < 16"
  "0 \<le> u \<Longrightarrow> u < 0x110000 \<Longrightarrow> 0 \<le> u div 262144 \<and> u div 262144 < 5" for u :: int
  by auto

lemma utf8_cases:
  assumes "0 \<le> u" "u < 0x110000"
  obtains (one) "u < 0x80" "utf8 u = [char_of u]"
    | (two) p q where "0x80 \<le> u" "u < 0x800" "u = p * 64 + q" "utf8 u = utf8_2 p q" "0 \<le> p" "p < 32" "six q"
    | (three) p q r where "0x800 \<le> u" "u < 0x10000" "u = p * 4096 + q * 64 + r" "utf8 u = utf8_3 p q r"
        "0 \<le> p" "p < 16" "six q" "six r"
    | (four) p q r s where "0x10000 \<le> u" "utf8 u = utf8_4 p q r s" "0 \<le> p" "p < 5" "six q" "six r" "six s"
proof -
  consider "u < 0x80" | "0x80 \<le> u" "u < 0x800" | "0x800 \<le> u" "u < 0x10000" | "0x10000 \<le> u" by linarith
  then show thesis
  proof cases
    case 1
    then show thesis by (intro one) (simp_all add: utf8_def)
  next
    case 2
    then have "utf8 u = utf8_2 (u div 64) (u mod 64)" by (simp add: utf8_def)
    with 2 heads(1) [OF assms(1)] show thesis by (intro two [of "u div 64" "u mod 64"]) (simp_all only: div_mult_mod_eq six_mod)
  next
    case 3
    then have w: "utf8 u = utf8_3 (u div 4096) (u div 64 mod 64) (u mod 64)" by (simp add: utf8_def)
    have "u div 64 div 64 * 64 + u div 64 mod 64 = u div 64" "u div 64 * 64 + u mod 64 = u" by (rule div_mult_mod_eq)+
    moreover have "u div 4096 = u div 64 div 64" using zdiv_zmult2_eq [of 64 u 64] by simp
    ultimately have "u = u div 4096 * 4096 + u div 64 mod 64 * 64 + u mod 64" by linarith
    with 3 w heads(2) [OF assms(1)] show thesis by (intro three) (blast intro: six_mod)+
  next
    case 4
    then have "utf8 u = utf8_4 (u div 262144) (u div 4096 mod 64) (u div 64 mod 64) (u mod 64)" by (simp add: utf8_def)
    with 4 heads(3) [OF assms] show thesis by (intro four) (blast intro: six_mod)+
  qed
qed

lemma byte_char_of [simp]: "0 \<le> n \<Longrightarrow> n < 256 \<Longrightarrow> byte (char_of n) = n"
  by (simp add: of_char_of)

lemma or_low: "0 \<le> b \<Longrightarrow> b < 2 ^ n \<Longrightarrow> push_bit n a OR b = a * 2 ^ n + (b :: int)"
proof -
  assume b: "0 \<le> b" "b < 2 ^ n"
  then have "take_bit n b = b" by (simp add: take_bit_int_eq_self)
  then have "push_bit n a AND b = 0"
    by (metis (no_types, opaque_lifting) bit_and_iff bit_push_bit_iff bit_take_bit_iff bit_eqI bit_0_eq bot_apply bot_bool_def not_le)
  then show ?thesis by (simp add: disjunctive_add_eq_or [symmetric] push_bit_eq_mult)
qed

lemma and_low [simp]: "n AND 31 = n mod 32" "n AND 63 = n mod 64" "n AND 15 = n mod 16" for n :: int
  using take_bit_eq_mask [of 5 n] take_bit_eq_mask [of 6 n] take_bit_eq_mask [of 4 n]
  by (simp_all add: take_bit_eq_mod mask_eq_exp_minus_1)

lemma join2: "0 \<le> b \<Longrightarrow> b < 64 \<Longrightarrow> push_bit 6 a OR b = a * 64 + (b :: int)"
  using or_low [of b 6 a] by simp

lemma join3:
  assumes "0 \<le> a" "0 \<le> b" "b < 64" "0 \<le> c" "c < 64"
  shows "push_bit 12 a OR push_bit 6 b OR c = a * 4096 + b * 64 + (c :: int)"
proof -
  have "push_bit 6 b OR c = b * 64 + c" using assms by (simp add: join2)
  moreover have "push_bit 12 a OR (b * 64 + c) = a * 4096 + (b * 64 + c)"
    using or_low [of "b * 64 + c" 12 a] assms by simp
  ultimately show ?thesis by (simp add: or.assoc)
qed

text \<open>Reading the bytes of a character that stands in a text.\<close>

lemma arr_get_at:
  "i < length w \<Longrightarrow> arr_get (xs @ w @ ys) (int (length xs) + int i) = Some (w ! i)"
  by (simp add: arr_get_def nth_append flip: of_nat_add)

lemmas arr_get_near = arr_get_at [of 0, simplified] arr_get_at [of 1, simplified] arr_get_at [of 2, simplified]

text \<open>The payload of a byte.\<close>

lemma payload:
  "0 \<le> p \<Longrightarrow> p < 32 \<Longrightarrow> (192 + p) mod 32 = p" "0 \<le> p \<Longrightarrow> p < 16 \<Longrightarrow> (224 + p) mod 16 = p"
  "0 \<le> p \<Longrightarrow> p < 64 \<Longrightarrow> (128 + p) mod 64 = p" "(128 + p) mod 16 = p mod 16" for p :: int
proof -
  have e: "192 + p = p + 6 * 32" "224 + p = p + 14 * 16" "128 + p = p + 2 * 64" by simp_all
  show "0 \<le> p \<Longrightarrow> p < 32 \<Longrightarrow> (192 + p) mod 32 = p" unfolding e mod_mult_self1 by (rule mod_pos_pos_trivial)
  show "0 \<le> p \<Longrightarrow> p < 16 \<Longrightarrow> (224 + p) mod 16 = p" unfolding e mod_mult_self1 by (rule mod_pos_pos_trivial)
  show "0 \<le> p \<Longrightarrow> p < 64 \<Longrightarrow> (128 + p) mod 64 = p" unfolding e mod_mult_self1 by (rule mod_pos_pos_trivial)
  have "128 + p = p + 8 * 16" by simp
  then show "(128 + p) mod 16 = p mod 16" by (simp only: mod_mult_self1)
qed

text \<open>\<^verbatim>\<open>get_utf8\<close> decodes every character of the basic multilingual plane.\<close>

lemma get_utf8_decodes:
  assumes u: "0 \<le> u" "u < 0x10000" and l: "int (length xs) + int (length (utf8 u)) \<le> l"
  shows "get_utf8 (xs @ utf8 u @ ys) (int (length xs)) l = Some (int (length (utf8 u)), u)"
proof -
  have "u < 0x110000" using u(2) by simp
  with u(1) show ?thesis
  proof (cases rule: utf8_cases)
    case one
    with u(1) l arr_get_near(1) [of "[char_of u]" xs ys] show ?thesis by (simp add: get_utf8_def del: arr_get_Some)
  next
    case (two p q)
    with l join2 [of q p] arr_get_near(1,2) [of "utf8_2 p q" xs ys] show ?thesis
      by (simp add: get_utf8_def utf8_2_def six_def payload del: arr_get_Some)
  next
    case (three p q r)
    with l join3 [of p q r] arr_get_near [of "utf8_3 p q r" xs ys] show ?thesis
      by (simp add: get_utf8_def utf8_3_def six_def payload del: arr_get_Some)
  next
    case four
    with u(2) show ?thesis by simp
  qed
qed

text \<open>
  \<^verbatim>\<open>get_b_utf8\<close> decodes characters of one and two bytes. For three bytes it takes the four high bits
  of the code from the middle byte and not from the first.
\<close>

lemma get_b_utf8_decodes:
  assumes u: "0 \<le> u" "u < 0x800" and lb: "lb \<le> int (length xs)"
  shows "get_b_utf8 (xs @ utf8 u @ ys) (int (length xs) + int (length (utf8 u))) lb = Some (int (length (utf8 u)), u)"
proof -
  have "u < 0x110000" using u(2) by simp
  with u(1) show ?thesis
  proof (cases rule: utf8_cases)
    case one
    with u(1) lb arr_get_near(1) [of "[char_of u]" xs ys] show ?thesis by (simp add: get_b_utf8_def del: arr_get_Some)
  next
    case (two p q)
    have get: "arr_get (xs @ utf8_2 p q @ ys) (int (length xs)) = Some (char_of (0xC0 + p))"
      "arr_get (xs @ utf8_2 p q @ ys) (1 + int (length xs)) = Some (char_of (0x80 + q))"
      using arr_get_near(1,2) [of "utf8_2 p q" xs ys] by (simp_all add: utf8_2_def add.commute del: arr_get_Some)
    with two lb join2 [of q p] show ?thesis
      by (simp add: get_b_utf8_def utf8_2_def six_def payload del: arr_get_Some)
  qed (use u(2) in simp_all)
qed

lemma get_b_utf8_three:
  assumes u: "0x800 \<le> u" "u < 0x10000" and lb: "lb \<le> int (length xs)"
  shows "get_b_utf8 (xs @ utf8 u @ ys) (int (length xs) + 3) lb = Some (3, u div 64 mod 16 * 4096 + u mod 4096)"
proof -
  have "0 \<le> u" "u < 0x110000" using u by simp_all
  then show ?thesis
  proof (cases rule: utf8_cases)
    case (three p q r)
    have low: "0 \<le> q * 64 + r" "q * 64 + r < 4096" using three(7,8) by (simp_all add: six_def)
    have "u mod 4096 = (q * 64 + r + p * 4096) mod 4096" unfolding three(3) by (simp add: algebra_simps)
    then have m: "u mod 4096 = q * 64 + r" using low by (simp only: mod_mult_self1 mod_pos_pos_trivial)
    have "u = r + (p * 64 + q) * 64" unfolding three(3) by (simp add: algebra_simps)
    then have "u div 64 = p * 64 + q + r div 64" by (simp only: div_mult_self1 [of 64] zero_neq_numeral not_False_eq_True)
    moreover have "r div 64 = 0" using three(8) by (simp only: six_def div_pos_pos_trivial)
    ultimately have "u div 64 = p * 64 + q" by simp
    then have "u div 64 mod 16 = (q + (p * 4) * 16) mod 16" by (simp add: algebra_simps)
    then have d: "u div 64 mod 16 = q mod 16" by (simp only: mod_mult_self1)
    have q: "0 \<le> q mod 16" by simp
    have get: "arr_get (xs @ utf8_3 p q r @ ys) (1 + int (length xs)) = Some (char_of (0x80 + q))"
      "arr_get (xs @ utf8_3 p q r @ ys) (2 + int (length xs)) = Some (char_of (0x80 + r))"
      using arr_get_near(2,3) [of "utf8_3 p q r" xs ys] by (simp_all add: utf8_3_def add.commute del: arr_get_Some)
    show ?thesis
      unfolding m d three(4)
      using lb three(5-8) get join3 [of "q mod 16" q r] q
      by (simp add: get_b_utf8_def six_def payload utf8_3_def del: arr_get_Some)
  qed (use u in simp_all)
qed

subsection \<open>Moving by characters\<close>

text \<open>The shape of a character: an ASCII byte, or a lead byte and its continuation bytes.\<close>

definition shaped :: "symbol list \<Rightarrow> bool" where
  "shaped w \<longleftrightarrow> (case w of [] \<Rightarrow> False
     | b # cs \<Rightarrow> if cs = [] then byte b < 0x80
                 else 0xC0 \<le> byte b \<and> list_all (\<lambda>c. 0x80 \<le> byte c \<and> byte c < 0xC0) cs)"

lemma utf8_shaped:
  assumes "0 \<le> u" "u < 0x110000"
  shows "shaped (utf8 u)"
  using assms
  by (cases rule: utf8_cases) (simp_all add: assms shaped_def six_def utf8_2_def utf8_3_def utf8_4_def)

definition tails :: "symbol list \<Rightarrow> bool" where
  "tails cs \<longleftrightarrow> list_all (\<lambda>c. 0x80 \<le> byte c \<and> byte c < 0xC0) cs"

definition leads :: "symbol list \<Rightarrow> bool" where
  "leads ys \<longleftrightarrow> (case ys of [] \<Rightarrow> False | y # _ \<Rightarrow> byte y < 0x80 \<or> 0xC0 \<le> byte y)"

lemma shaped_cases:
  assumes "shaped w"
  obtains b cs where "w = b # cs" "cs = [] \<longleftrightarrow> byte b < 0x80" "cs \<noteq> [] \<longleftrightarrow> 0xC0 \<le> byte b" "tails cs"
  using assms by (cases w) (auto simp: shaped_def tails_def split: if_splits)

lemma shaped_leads: "list_all shaped ws \<Longrightarrow> ws \<noteq> [] \<Longrightarrow> leads (concat ws @ ys)"
  by (cases ws) (auto simp: leads_def elim!: shaped_cases)

lemma skip_cont_tails:
  assumes "tails cs" "int (length xs + length cs) = l \<or> int (length xs + length cs) < l \<and> leads ys"
  shows "skip_cont (xs @ cs @ ys) (int (length xs)) l = Some (int (length xs + length cs))"
  using assms
proof (induction cs arbitrary: xs)
  case Nil
  show ?case
  proof (cases "int (length xs) < l")
    case True
    with Nil obtain y zs where "ys = y # zs" "byte y < 0x80 \<or> 0xC0 \<le> byte y" by (auto simp: leads_def split: list.splits)
    with True show ?thesis by (subst skip_cont.simps) (auto simp: arr_get_def nth_append)
  qed (use Nil in \<open>simp add: skip_cont.simps\<close>)
next
  case (Cons c cs)
  have "int (length xs) < l" using Cons.prems(2) by auto
  then show ?case
    using Cons.IH [of "xs @ [c]"] Cons.prems
    by (subst skip_cont.simps) (simp add: tails_def arr_get_def nth_append add.commute)
qed

lemma skip_cont_b_tails:
  assumes "tails cs" "0xC0 \<le> byte b" "cs = ds @ es" "int (length xs) \<ge> lb"
  shows "skip_cont_b (xs @ (b # cs) @ ys) (int (length xs + length ds)) lb = Some (int (length xs))"
  using assms(3)
proof (induction ds arbitrary: es rule: rev_induct)
  case Nil
  then show ?case using assms(2,4) by (subst skip_cont_b.simps) (simp add: arr_get_def nth_append)
next
  case (snoc c ds)
  have c: "0x80 \<le> byte c" "byte c < 0xC0" using assms(1) snoc.prems by (simp_all add: tails_def)
  have "(xs @ (b # cs) @ ys) ! (length xs + Suc (length ds)) = c" using snoc.prems by (simp add: nth_append)
  moreover have "nat (1 + (int (length xs) + int (length ds))) = Suc (length xs + length ds)" by simp
  ultimately show ?case
    using snoc.IH [of "c # es"] snoc.prems assms(4) c
    by (subst skip_cont_b.simps) (simp add: arr_get_def)
qed

text \<open>The position of the \<open>i\<close>-th character of a text.\<close>

definition char_pos :: "symbol list list \<Rightarrow> nat \<Rightarrow> int" where
  "char_pos ws i = int (length (concat (take i ws)))"

lemma char_pos_Suc: "i < length ws \<Longrightarrow> char_pos ws (Suc i) = char_pos ws i + int (length (ws ! i))"
  by (simp add: char_pos_def take_Suc_conv_app_nth)

lemma char_pos_0 [simp]: "char_pos ws 0 = 0"
  by (simp add: char_pos_def)

lemma char_pos_end: "char_pos ws (length ws) = int (length (concat ws))"
  by (simp add: char_pos_def)

lemma char_pos_mono: "i \<le> j \<Longrightarrow> char_pos ws i \<le> char_pos ws j"
proof -
  assume "i \<le> j"
  then have "take i ws = take i (take j ws)" by (simp add: min_def)
  then have "length (concat (take i ws)) \<le> length (concat (take j ws))"
    by (metis append_take_drop_id concat_append le_add1 length_append)
  then show ?thesis by (simp add: char_pos_def)
qed

lemma text_split:
  "i < length ws \<Longrightarrow> concat ws @ rest = concat (take i ws) @ (ws ! i) @ concat (drop (Suc i) ws) @ rest"
  by (metis append.assoc append_take_drop_id concat.simps(2) concat_append id_take_nth_drop)

lemma skip_fwd_chars:
  assumes "list_all shaped ws" "i \<le> length ws"
  shows "skip_fwd (concat ws @ rest) (char_pos ws i) (int (length (concat ws))) n =
    Some (if i + n \<le> length ws then char_pos ws (i + n) else - 1)"
  using assms(2)
proof (induction n arbitrary: i)
  case (Suc n)
  let ?p = "concat ws @ rest" and ?l = "int (length (concat ws))"
  show ?case
  proof (cases "i = length ws")
    case True
    then show ?thesis by (simp add: char_pos_end)
  next
    case False
    then have i: "i < length ws" using Suc.prems by simp
    then have "shaped (ws ! i)" using assms(1) by (simp add: list_all_length)
    then obtain b cs where w: "ws ! i = b # cs" "cs = [] \<longleftrightarrow> byte b < 0x80" "cs \<noteq> [] \<longleftrightarrow> 0xC0 \<le> byte b" "tails cs"
      by (rule shaped_cases)
    let ?xs = "concat (take i ws)" and ?ys = "concat (drop (Suc i) ws) @ rest"
    have p: "?p = ?xs @ (b # cs) @ ?ys" using text_split [OF i, of rest] w(1) by simp
    have pos: "char_pos ws (Suc i) = char_pos ws i + 1 + int (length cs)" using char_pos_Suc [OF i] w(1) by simp
    have le: "char_pos ws (Suc i) \<le> ?l" using char_pos_mono [of "Suc i" "length ws" ws] i char_pos_end [of ws] by simp
    have get: "arr_get ?p (char_pos ws i) = Some b"
      unfolding p char_pos_def using arr_get_near(1) [of "b # cs" ?xs ?ys] by simp
    have "skip_cont ?p (char_pos ws i + 1) ?l = Some (char_pos ws (Suc i))"
    proof -
      have c: "char_pos ws (Suc i) = int (length (?xs @ [b]) + length cs)" "char_pos ws i + 1 = int (length (?xs @ [b]))"
        using pos by (simp_all add: char_pos_def)
      have "char_pos ws (Suc i) = ?l \<or> char_pos ws (Suc i) < ?l \<and> leads ?ys"
      proof (cases "drop (Suc i) ws = []")
        case True
        then have "Suc i = length ws" using i by simp
        then show ?thesis using char_pos_end [of ws] by simp
      next
        case ne: False
        have sh: "list_all shaped (drop (Suc i) ws)" using assms(1) by (auto simp: list_all_iff dest: in_set_dropD)
        with ne have "leads ?ys" by (intro shaped_leads)
        moreover have "char_pos ws (Suc i) < ?l \<or> char_pos ws (Suc i) = ?l" using le by auto
        ultimately show ?thesis by auto
      qed
      then show ?thesis
        unfolding c p using skip_cont_tails [OF w(4), of "?xs @ [b]" ?l ?ys] by simp
    qed
    moreover have "cs = [] \<Longrightarrow> char_pos ws (Suc i) = char_pos ws i + 1" using pos by simp
    ultimately show ?thesis
      using get w(2,3) pos le Suc.IH [of "Suc i"] i by (auto simp: not_le)
  qed
qed simp

lemma skip_bwd_chars:
  assumes "list_all shaped ws" "i \<le> length ws"
  shows "skip_bwd (concat ws @ rest) (char_pos ws i) 0 n =
    Some (if n \<le> i then char_pos ws (i - n) else - 1)"
  using assms(2)
proof (induction n arbitrary: i)
  case (Suc n)
  let ?p = "concat ws @ rest"
  show ?case
  proof (cases i)
    case 0
    then show ?thesis by simp
  next
    case (Suc j)
    then have j: "j < length ws" using Suc.prems by simp
    then have "shaped (ws ! j)" using assms(1) by (simp add: list_all_length)
    then obtain b cs where w: "ws ! j = b # cs" "cs = [] \<longleftrightarrow> byte b < 0x80" "cs \<noteq> [] \<longleftrightarrow> 0xC0 \<le> byte b" "tails cs"
      by (rule shaped_cases)
    let ?xs = "concat (take j ws)" and ?ys = "concat (drop (Suc j) ws) @ rest"
    have p: "?p = ?xs @ (b # cs) @ ?ys" using text_split [OF j, of rest] w(1) by simp
    have pos: "char_pos ws i = char_pos ws j + 1 + int (length cs)" using char_pos_Suc [OF j] w(1) Suc by simp
    have j0: "0 \<le> char_pos ws j" by (simp add: char_pos_def)
    have step: "(if 0x80 \<le> byte ((b # cs) ! length cs) then skip_cont_b ?p (char_pos ws i - 1) 0 else Some (char_pos ws i - 1))
        = Some (char_pos ws j)"
    proof (cases "cs = []")
      case True
      with w pos show ?thesis by simp
    next
      case False
      then have "0x80 \<le> byte ((b # cs) ! length cs)"
        using w(4) by (cases cs rule: rev_cases) (simp_all add: tails_def)
      moreover have "skip_cont_b ?p (char_pos ws i - 1) 0 = Some (char_pos ws j)"
        using skip_cont_b_tails [OF w(4), of b cs "[]" 0 ?xs ?ys] w(3) False pos unfolding p
        by (simp add: char_pos_def add.commute)
      ultimately show ?thesis by simp
    qed
    have get: "arr_get ?p (char_pos ws i - 1) = Some ((b # cs) ! length cs)"
      unfolding p pos using arr_get_at [of "length cs" "b # cs" ?xs ?ys] by (simp add: char_pos_def)
    show ?thesis using get step pos j0 Suc.IH [of j] j Suc by (auto simp: not_le)
  qed
qed simp

text \<open>\<^verbatim>\<open>skip_utf8\<close> moves by \<open>n\<close> characters of the text, in either direction, or fails at its ends.\<close>

lemma skip_utf8_chars:
  assumes "list_all shaped ws" "i \<le> length ws"
  shows "skip_utf8 (concat ws @ rest) (char_pos ws i) 0 (int (length (concat ws))) n =
    Some (let j = int i + n in if 0 \<le> j \<and> j \<le> int (length ws) then char_pos ws (nat j) else - 1)"
proof (cases "0 \<le> n")
  case True
  then have "i + nat n = nat (int i + n)" by simp
  with True skip_fwd_chars [OF assms, of rest "nat n"] show ?thesis by (auto simp: skip_utf8_def Let_def)
next
  case False
  then have "nat (- n) \<le> i \<longleftrightarrow> 0 \<le> int i + n" "i - nat (- n) = nat (int i + n)" by auto
  with False skip_bwd_chars [OF assms, of rest "nat (- n)"] assms(2) show ?thesis by (auto simp: skip_utf8_def Let_def)
qed

end
