(* ===== verification/Markov.thy ===== *)
theory Markov
  imports Libc
begin

text \<open>
  The Markov chain of the test bed's text generator (\<^verbatim>\<open>testbed/markov.c\<close>): the hash table from
  prefixes of two words to the words that follow them, and its construction from a text. The
  abstract chain is the function that gives, for every prefix, the words that follow it in the text;
  the table is shown to represent it. A table is a function from bucket numbers, all of which are
  below \<^verbatim>\<open>NHASH\<close>, to the chains of states that the \<^verbatim>\<open>next\<close> pointers make; a \<^verbatim>\<open>State *\<close> is the number
  of its bucket and its position in the chain.
\<close>

subsection \<open>Data\<close>

definition NPREF :: nat where
  "NPREF = 2"

definition NHASH :: nat where
  "NHASH = 40930"

definition NONWORD :: string where
  "NONWORD = [CHR 0x0A]"

record State =
  pref :: "string list"
  suf :: "string list"

type_synonym statetab = "nat \<Rightarrow> State list"
type_synonym state_ptr = "nat \<times> nat"

subsection \<open>The hash function\<close>

text \<open>An \<^verbatim>\<open>unsigned long\<close> has 64 bits; a character counts as an \<^verbatim>\<open>unsigned char\<close>.\<close>

fun hash_word :: "64 word \<Rightarrow> string \<Rightarrow> 64 word" where
  "hash_word h [] = h"
| "hash_word h (c # cs) = hash_word (push_bit 5 h + h + word_of_int (byte c)) cs"

fun hash_words :: "64 word \<Rightarrow> string list \<Rightarrow> 64 word" where
  "hash_words h [] = h"
| "hash_words h (s # ss) = (let h = hash_word h s in hash_words (push_bit 5 h + h + 1) ss)"

definition hash :: "string list \<Rightarrow> nat" where
  "hash s = unat (hash_words 5381 s mod word_of_nat NHASH)"

subsection \<open>Looking up and adding\<close>

text \<open>The comparison of two prefixes, word by word, and the walk along a chain.\<close>

definition same_prefix :: "string list \<Rightarrow> string list \<Rightarrow> bool" where
  "same_prefix p q \<longleftrightarrow> list_all (\<lambda>i. p ! i = q ! i) [0..<NPREF]"

fun find_state :: "string list \<Rightarrow> State list \<Rightarrow> nat option" where
  "find_state p [] = None"
| "find_state p (s # ss) = (if same_prefix p (pref s) then Some 0 else map_option Suc (find_state p ss))"

text \<open>
  \<^verbatim>\<open>lookup\<close>: the pointer, null when there is no such state and none is to be created, with the
  table and the allocator's future. A new state goes to the front of its chain; the result of its
  \<^verbatim>\<open>malloc\<close> is not checked.
\<close>

definition lookup :: "string list \<Rightarrow> statetab \<Rightarrow> int \<Rightarrow> bool list
    \<Rightarrow> (state_ptr option \<times> statetab \<times> bool list) option" where
  "lookup p tab create fs =
     (let h = hash p in
      case find_state p (tab h) of
        Some k \<Rightarrow> Some (Some (h, k), tab, fs)
      | None \<Rightarrow>
          if create \<noteq> 0 then do {
            fs \<leftarrow> malloc_used fs;
            Some (Some (h, 0), tab(h := \<lparr>pref = p, suf = []\<rparr> # tab h), fs) }
          else Some (None, tab, fs))"

definition addsuffix :: "state_ptr option \<Rightarrow> string \<Rightarrow> statetab \<Rightarrow> bool list \<Rightarrow> (statetab \<times> bool list) option" where
  "addsuffix sp w tab fs = do {
     fs \<leftarrow> malloc_used fs;
     (h, k) \<leftarrow> sp;
     s \<leftarrow> arr_get (tab h) (int k);
     Some (tab(h := (tab h)[k := s\<lparr>suf := w # suf s\<rparr>]), fs) }"

text \<open>\<^verbatim>\<open>add\<close>, which also moves the words down the prefix.\<close>

definition add_word :: "string list \<Rightarrow> statetab \<Rightarrow> string \<Rightarrow> bool list
    \<Rightarrow> (string list \<times> statetab \<times> bool list) option" where
  "add_word p tab w fs = do {
     (sp, tab, fs) \<leftarrow> lookup p tab 1 fs;
     (tab, fs) \<leftarrow> addsuffix sp w tab fs;
     Some (take (NPREF - 1) (drop 1 p) @ [w], tab, fs) }"

text \<open>
  \<^verbatim>\<open>build_markov\<close> over the rest \<open>f\<close> of a file. A null from \<^verbatim>\<open>strdup\<close> becomes a word of the prefix,
  which the next \<^verbatim>\<open>add\<close> hashes: that there is a next one, \<^verbatim>\<open>init_file\<close> sees to.
\<close>

function build_markov :: "string list \<Rightarrow> statetab \<Rightarrow> string \<Rightarrow> bool list
    \<Rightarrow> (string list \<times> statetab \<times> bool list) option" where
  "build_markov p tab f fs = (case fscanf_word f of
     None \<Rightarrow> Some (p, tab, fs)
   | Some (buf, f') \<Rightarrow> (case malloc_used fs of
       None \<Rightarrow> None
     | Some fs \<Rightarrow> (case add_word p tab (c_str buf) fs of
         None \<Rightarrow> None
       | Some (p, tab, fs) \<Rightarrow> build_markov p tab f' fs)))"
  by pat_completeness auto
termination by (relation "measure (\<lambda>(p, tab, f, fs). length f)") (auto dest: fscanf_word_shorter)

declare build_markov.simps [simp del]

text \<open>The table of one text: \<^verbatim>\<open>init_file\<close> up to the closing of the file.\<close>

definition text_table :: "string \<Rightarrow> bool list \<Rightarrow> (statetab \<times> bool list) option" where
  "text_table f fs = do {
     (p, tab, fs) \<leftarrow> build_markov (replicate NPREF NONWORD) (\<lambda>_. []) f fs;
     (_, tab, fs) \<leftarrow> add_word p tab NONWORD fs;
     Some (tab, fs) }"

subsection \<open>The abstract chain\<close>

text \<open>The words that follow the prefix \<open>p\<close> in a sequence of words, in order.\<close>

fun followers :: "string list \<Rightarrow> string list \<Rightarrow> string list" where
  "followers p (a # b # c # xs) = (if p = [a, b] then [c] else []) @ followers p (b # c # xs)"
| "followers p _ = []"

text \<open>The sequence a text stands for: two nonwords, its words, a nonword.\<close>

definition text_seq :: "string \<Rightarrow> string list" where
  "text_seq f = replicate NPREF NONWORD @ file_words f @ [NONWORD]"

text \<open>What a table says of a prefix.\<close>

definition state_of :: "statetab \<Rightarrow> string list \<Rightarrow> State option" where
  "state_of tab p = List.find (\<lambda>s. pref s = p) (tab (hash p))"

definition suffixes :: "statetab \<Rightarrow> string list \<Rightarrow> string list" where
  "suffixes tab p = (case state_of tab p of None \<Rightarrow> [] | Some s \<Rightarrow> suf s)"

text \<open>
  The invariant: every state is in the bucket of its prefix, no two states of a chain have the same
  prefix, and every state has a suffix.
\<close>

definition chain_ok :: "nat \<Rightarrow> State list \<Rightarrow> bool" where
  "chain_ok h ss \<longleftrightarrow> distinct (map pref ss)
     \<and> list_all (\<lambda>s. length (pref s) = NPREF \<and> hash (pref s) = h \<and> suf s \<noteq> []) ss"

definition tab_ok :: "statetab \<Rightarrow> bool" where
  "tab_ok tab \<longleftrightarrow> (\<forall>h. chain_ok h (tab h))"

subsection \<open>The table represents the chain\<close>

lemma hash_less: "hash p < NHASH"
proof -
  have "hash_words 5381 p mod word_of_nat NHASH < word_of_nat NHASH"
    by (rule word_mod_less_divisor) (simp add: NHASH_def word_gt_0)
  then show ?thesis by (simp add: hash_def word_less_nat_alt NHASH_def)
qed

lemma same_prefix_eq: "length p = NPREF \<Longrightarrow> length q = NPREF \<Longrightarrow> same_prefix p q \<longleftrightarrow> p = q"
  by (auto simp: same_prefix_def list_all_iff list_eq_iff_nth_eq)

lemma find_state_None:
  assumes "length p = NPREF" "list_all (\<lambda>s. length (pref s) = NPREF) ss"
  shows "find_state p ss = None \<longleftrightarrow> List.find (\<lambda>s. pref s = p) ss = None"
  using assms by (induction ss) (auto simp: same_prefix_eq)

lemma find_state_Some:
  assumes "length p = NPREF" "list_all (\<lambda>s. length (pref s) = NPREF) ss" "find_state p ss = Some k"
  shows "k < length ss \<and> pref (ss ! k) = p \<and> List.find (\<lambda>s. pref s = p) ss = Some (ss ! k)"
  using assms by (induction ss arbitrary: k) (auto simp: same_prefix_eq split: if_splits)

lemma find_update:
  assumes "distinct (map pref ss)" "k < length ss" "pref s = pref (ss ! k)"
  shows "List.find (\<lambda>s. pref s = q) (ss[k := s]) =
    (if q = pref s then Some s else List.find (\<lambda>s. pref s = q) ss)"
  using assms
proof (induction ss arbitrary: k)
  case (Cons a ss)
  show ?case
  proof (cases k)
    case (Suc j)
    with Cons.prems have "pref a \<noteq> pref s" by (auto simp: image_iff)
    with Suc Cons show ?thesis by auto
  qed (use Cons.prems in auto)
qed simp

lemma chain_ok_update:
  assumes "chain_ok h ss" "k < length ss"
  shows "chain_ok h (ss[k := (ss ! k)\<lparr>suf := w # suf (ss ! k)\<rparr>])"
proof -
  have "map pref (ss[k := (ss ! k)\<lparr>suf := w # suf (ss ! k)\<rparr>]) = map pref ss"
    using assms(2) by (simp add: map_update list_update_same_conv)
  then show ?thesis
    using assms by (auto simp: chain_ok_def list_all_iff dest!: subsetD [OF set_update_subset_insert])
qed

lemma chain_ok_Cons:
  "chain_ok h ss \<Longrightarrow> length p = NPREF \<Longrightarrow> hash p = h \<Longrightarrow> List.find (\<lambda>s. pref s = p) ss = None
   \<Longrightarrow> chain_ok h (\<lparr>pref = p, suf = [w]\<rparr> # ss)"
  by (auto simp: chain_ok_def find_None_iff)

lemma chain_ok_lengths: "chain_ok h ss \<Longrightarrow> list_all (\<lambda>s. length (pref s) = NPREF) ss"
  by (auto simp: chain_ok_def list_all_iff)

text \<open>\<^verbatim>\<open>lookup\<close> without creation finds exactly the represented states.\<close>

lemma lookup_state:
  assumes "tab_ok tab" "length p = NPREF"
  shows "lookup p tab 0 fs = Some (case state_of tab p of None \<Rightarrow> (None, tab, fs)
    | Some s \<Rightarrow> (Some (hash p, the (find_state p (tab (hash p)))), tab, fs))"
    and "state_of tab p = Some s \<Longrightarrow> find_state p (tab (hash p)) = Some k
      \<Longrightarrow> k < length (tab (hash p)) \<and> tab (hash p) ! k = s"
proof -
  have l: "list_all (\<lambda>s. length (pref s) = NPREF) (tab (hash p))"
    using assms(1) chain_ok_lengths by (auto simp: tab_ok_def)
  show "lookup p tab 0 fs = Some (case state_of tab p of None \<Rightarrow> (None, tab, fs)
    | Some s \<Rightarrow> (Some (hash p, the (find_state p (tab (hash p)))), tab, fs))"
    using find_state_None [OF assms(2) l] find_state_Some [OF assms(2) l]
    by (auto simp: lookup_def state_of_def Let_def split: option.splits)
  show "k < length (tab (hash p)) \<and> tab (hash p) ! k = s"
    if "state_of tab p = Some s" "find_state p (tab (hash p)) = Some k"
    using find_state_Some [OF assms(2) l that(2)] that(1) by (simp add: state_of_def)
qed

text \<open>Adding a word prepends it to the suffixes of its prefix and changes nothing else.\<close>

lemma suffixes_other:
  assumes "\<And>h. h \<noteq> hash p \<Longrightarrow> tab' h = tab h"
    and "\<And>q. q \<noteq> p \<Longrightarrow> List.find (\<lambda>s. pref s = q) (tab' (hash p)) = List.find (\<lambda>s. pref s = q) (tab (hash p))"
    and "suffixes tab' p = xs"
  shows "suffixes tab' = (suffixes tab)(p := xs)"
proof
  fix q
  show "suffixes tab' q = ((suffixes tab)(p := xs)) q"
    using assms by (cases "q = p"; cases "hash q = hash p") (simp_all add: suffixes_def state_of_def)
qed

lemma add_word_ok:
  assumes tab: "tab_ok tab" and p: "length p = NPREF" and mem: "failing fs = 0"
  obtains tab' fs' where "add_word p tab w fs = Some (drop 1 p @ [w], tab', fs')" "tab_ok tab'"
    "failing fs' = 0" "suffixes tab' = (suffixes tab)(p := w # suffixes tab p)"
proof -
  let ?h = "hash p"
  let ?ss = "tab ?h"
  have ok: "chain_ok ?h ?ss" using tab by (simp add: tab_ok_def)
  note l = chain_ok_lengths [OF ok]
  have down: "take (NPREF - 1) (drop 1 p) = drop 1 p" using p by simp
  obtain fs1 where m1: "malloc_used fs = Some fs1" "failing fs1 = 0" using mem by (rule malloc_used_plenty)
  obtain fs2 where m2: "malloc_used fs1 = Some fs2" "failing fs2 = 0" using m1(2) by (rule malloc_used_plenty)
  show thesis
  proof (cases "find_state p ?ss")
    case None
    then have none: "List.find (\<lambda>s. pref s = p) ?ss = None" using find_state_None [OF p l] by simp
    let ?tab = "tab(?h := \<lparr>pref = p, suf = [w]\<rparr> # ?ss)"
    have "add_word p tab w fs = Some (drop 1 p @ [w], ?tab, fs2)"
      using None m1 m2 down by (simp add: add_word_def lookup_def addsuffix_def Let_def)
    moreover have "tab_ok ?tab" using tab chain_ok_Cons [OF ok p refl none] by (simp add: tab_ok_def)
    moreover have "suffixes ?tab = (suffixes tab)(p := w # suffixes tab p)"
      by (rule suffixes_other) (use none in \<open>simp_all add: suffixes_def state_of_def\<close>)
    ultimately show thesis using m2(2) by (intro that)
  next
    case (Some k)
    then have k: "k < length ?ss" "pref (?ss ! k) = p" "List.find (\<lambda>s. pref s = p) ?ss = Some (?ss ! k)"
      using find_state_Some [OF p l] by auto
    let ?s = "(?ss ! k)\<lparr>suf := w # suf (?ss ! k)\<rparr>"
    let ?tab = "tab(?h := ?ss[k := ?s])"
    have "distinct (map pref ?ss)" using ok by (simp add: chain_ok_def)
    then have upd: "List.find (\<lambda>s. pref s = q) (?ss[k := ?s]) = (if q = p then Some ?s else List.find (\<lambda>s. pref s = q) ?ss)" for q
      using find_update [of ?ss k ?s q] k by simp
    have "add_word p tab w fs = Some (drop 1 p @ [w], ?tab, fs1)"
      using Some k(1) m1 down by (simp add: add_word_def lookup_def addsuffix_def Let_def)
    moreover have "tab_ok ?tab" using tab chain_ok_update [OF ok k(1)] by (simp add: tab_ok_def)
    moreover have "suffixes ?tab = (suffixes tab)(p := w # suffixes tab p)"
      by (rule suffixes_other) (use upd k in \<open>simp_all add: suffixes_def state_of_def\<close>)
    ultimately show thesis using m1(2) by (intro that)
  qed
qed

subsection \<open>The table of a text\<close>

text \<open>The last two words of a sequence.\<close>

definition tail2 :: "string list \<Rightarrow> string list" where
  "tail2 xs = drop (length xs - NPREF) xs"

lemma followers_snoc:
  "followers p (xs @ [w]) = followers p xs @ (if NPREF \<le> length xs \<and> p = tail2 xs then [w] else [])"
  by (induction p xs rule: followers.induct) (auto simp: tail2_def NPREF_def)

lemma length_tail2: "NPREF \<le> length xs \<Longrightarrow> length (tail2 xs) = NPREF"
  by (simp add: tail2_def)

lemma tail2_snoc: "NPREF \<le> length xs \<Longrightarrow> tail2 (xs @ [w]) = drop 1 (tail2 xs) @ [w]"
proof -
  assume "NPREF \<le> length xs"
  then have "Suc (length xs) - NPREF = Suc (length xs - NPREF)" by (rule Suc_diff_le)
  then show ?thesis using \<open>NPREF \<le> length xs\<close> by (simp add: tail2_def NPREF_def)
qed

text \<open>A table represents a sequence when it lists the followers of each prefix, the latest first.\<close>

definition represents :: "statetab \<Rightarrow> string list \<Rightarrow> bool" where
  "represents tab xs \<longleftrightarrow> tab_ok tab \<and> (\<forall>p. suffixes tab p = rev (followers p xs))"

lemma represents_empty: "represents (\<lambda>_. []) (replicate NPREF x)"
  by (simp add: represents_def tab_ok_def chain_ok_def suffixes_def state_of_def NPREF_def numeral_2_eq_2)

lemma add_word_represents:
  assumes "represents tab xs" "NPREF \<le> length xs" "failing fs = 0"
  obtains tab' fs' where "add_word (tail2 xs) tab w fs = Some (tail2 (xs @ [w]), tab', fs')"
    "represents tab' (xs @ [w])" "failing fs' = 0"
proof -
  have tab: "tab_ok tab" using assms(1) by (simp add: represents_def)
  obtain tab' fs' where add: "add_word (tail2 xs) tab w fs = Some (drop 1 (tail2 xs) @ [w], tab', fs')" "tab_ok tab'"
    "failing fs' = 0" "suffixes tab' = (suffixes tab)(tail2 xs := w # suffixes tab (tail2 xs))"
    using add_word_ok [OF tab length_tail2 [OF assms(2)] assms(3)] by blast
  moreover have "represents tab' (xs @ [w])"
    using assms(1,2) add(2,4) by (auto simp: represents_def followers_snoc)
  ultimately show thesis using tail2_snoc [OF assms(2)] by (intro that) simp_all
qed

lemma build_markov_represents:
  assumes "represents tab xs" "NPREF \<le> length xs" "failing fs = 0"
  shows "\<exists>tab' fs'. build_markov (tail2 xs) tab f fs = Some (tail2 (xs @ file_words f), tab', fs')
    \<and> represents tab' (xs @ file_words f) \<and> failing fs' = 0"
  using assms
proof (induction f arbitrary: xs tab fs rule: file_words.induct)
  case (1 f)
  show ?case
  proof (cases "fscanf_word f")
    case None
    with 1 show ?thesis by (simp add: build_markov.simps file_words.simps [of f])
  next
    case (Some r)
    then obtain buf f' where sc: "fscanf_word f = Some (buf, f')" by (cases r) simp
    obtain fs1 where m1: "malloc_used fs = Some fs1" "failing fs1 = 0"
      using "1.prems"(3) by (rule malloc_used_plenty)
    obtain tab' fs' where add: "add_word (tail2 xs) tab (c_str buf) fs1 = Some (tail2 (xs @ [c_str buf]), tab', fs')"
      "represents tab' (xs @ [c_str buf])" "failing fs' = 0"
      using add_word_represents [OF "1.prems"(1,2) m1(2)] .
    then show ?thesis
      using "1.IH" [OF sc refl add(2) _ add(3)] "1.prems"(2) sc m1
      by (simp add: build_markov.simps [of _ _ f] file_words.simps [of f])
  qed
qed

text \<open>The table of a text, built with enough memory, represents the text's sequence.\<close>

lemma text_table_represents:
  assumes "failing fs = 0"
  obtains tab fs' where "text_table f fs = Some (tab, fs')" "represents tab (text_seq f)" "failing fs' = 0"
proof -
  let ?xs = "replicate NPREF NONWORD"
  have t: "tail2 ?xs = ?xs" by (simp add: tail2_def)
  obtain tab fs1 where b: "build_markov ?xs (\<lambda>_. []) f fs = Some (tail2 (?xs @ file_words f), tab, fs1)"
    "represents tab (?xs @ file_words f)" "failing fs1 = 0"
    using build_markov_represents [OF represents_empty _ assms, of NONWORD f] t by auto
  obtain tab' fs' where a: "add_word (tail2 (?xs @ file_words f)) tab NONWORD fs1 = Some (tail2 ((?xs @ file_words f) @ [NONWORD]), tab', fs')"
    "represents tab' ((?xs @ file_words f) @ [NONWORD])" "failing fs' = 0"
    using add_word_represents [OF b(2) _ b(3)] by auto
  with b(1) show thesis by (intro that [of tab' fs']) (simp_all add: text_table_def text_seq_def)
qed

subsection \<open>Walks in the chain\<close>

text \<open>
  Wherever a text can be continued, its continuation by any follower but the final nonword can be
  continued too.
\<close>

lemma followers_continue:
  assumes "w \<in> set (followers [a, b] xs)" "w \<noteq> last xs"
  shows "followers [b, w] xs \<noteq> []"
  using assms
proof (induction "[a, b]" xs rule: followers.induct)
  case (1 x y z xs)
  show ?case
  proof (cases "[a, b] = [x, y] \<and> w = z")
    case True
    with 1 obtain u us where "xs = u # us" by (cases xs) auto
    with True show ?thesis by simp
  next
    case False
    with 1 have "followers [b, w] (y # z # xs) \<noteq> []" by (auto split: if_splits)
    then show ?thesis by simp
  qed
qed auto

lemma followers_length: "followers p xs \<noteq> [] \<Longrightarrow> length p = NPREF"
  by (induction p xs rule: followers.induct) (auto simp: NPREF_def split: if_splits)

lemma followers_step:
  assumes "w \<in> set (followers p xs)" "w \<noteq> last xs"
  shows "followers (drop 1 p @ [w]) xs \<noteq> []"
proof -
  have "length p = NPREF" using assms(1) by (intro followers_length [of p xs]) auto
  then obtain a b where "p = [a, b]" by (auto simp: NPREF_def numeral_2_eq_2 length_Suc_conv)
  with assms followers_continue [of w a b xs] show ?thesis by simp
qed

lemma followers_start: "followers (replicate NPREF NONWORD) (text_seq f) \<noteq> []"
  by (cases "file_words f") (simp_all add: text_seq_def NPREF_def numeral_2_eq_2)

lemma last_text_seq: "last (text_seq f) = NONWORD"
  by (simp add: text_seq_def)

text \<open>A sequence of words the chain of \<open>xs\<close> can produce from a prefix.\<close>

fun walk :: "string list \<Rightarrow> string list \<Rightarrow> string list \<Rightarrow> bool" where
  "walk xs p [] \<longleftrightarrow> True"
| "walk xs p (w # ws) \<longleftrightarrow> w \<in> set (followers p xs) \<and> w \<noteq> NONWORD \<and> walk xs (drop 1 p @ [w]) ws"

end
