(* ===== verification/Ideal_Hash.thy ===== *)
theory Ideal_Hash
  imports Markov
begin

text \<open>
  The second level of the generator's table (\<^verbatim>\<open>testbed/markov.c\<close>, the \<^verbatim>\<open>IDEAL_HASHING\<close> build): for
  every chain of the first level, a multiplier under which its states do not collide in a table ten
  times as long, and the table filled with them. A lookup then needs no comparison; for the prefixes
  of the text it finds the same state as the walk along the chain.
\<close>

record Ideal =
  sub :: "State option list"
  isize :: int
  hash_num :: int

type_synonym idealtab = "nat \<Rightarrow> Ideal option"

subsection \<open>Code\<close>

text \<open>
  \<^verbatim>\<open>hash_\<close>: the multiplier and the size are converted to \<^verbatim>\<open>unsigned long\<close>; a size of zero has no
  remainder.
\<close>

fun ihash_word :: "64 word \<Rightarrow> 64 word \<Rightarrow> string \<Rightarrow> 64 word" where
  "ihash_word mult h [] = h"
| "ihash_word mult h (c # cs) = ihash_word mult (mult * h + word_of_int (byte c)) cs"

fun ihash_words :: "64 word \<Rightarrow> 64 word \<Rightarrow> string list \<Rightarrow> 64 word" where
  "ihash_words mult h [] = h"
| "ihash_words mult h (s # ss) = (let h = ihash_word mult h s in ihash_words mult (mult * h + 1) ss)"

definition ihash :: "string list \<Rightarrow> int \<Rightarrow> int \<Rightarrow> int option" where
  "ihash s nhash mult =
     (if word_of_int nhash = (0 :: 64 word) then None
      else Some (uint (ihash_words (word_of_int mult) 0 s mod word_of_int nhash)))"

text \<open>
  One attempt to place the states of a chain: the table and the collision flag. On a collision the
  table is cleared and the rest of the chain is not placed.
\<close>

fun ideal_fill :: "int \<Rightarrow> int \<Rightarrow> State list \<Rightarrow> State option list \<Rightarrow> (State option list \<times> int) option" where
  "ideal_fill size1 mult [] tb = Some (tb, 0)"
| "ideal_fill size1 mult (p # ps) tb = do {
     h \<leftarrow> ihash (pref p) size1 mult;
     x \<leftarrow> arr_get tb h;
     if x \<noteq> None then Some (replicate (nat size1) None, 1)
     else do { tb \<leftarrow> arr_set tb h (Some p); ideal_fill size1 mult ps tb } }"

text \<open>The loop over the multipliers below 10000: table, last multiplier tried, collision flag.\<close>

function ideal_search :: "int \<Rightarrow> State list \<Rightarrow> State option list \<Rightarrow> int \<Rightarrow> int \<Rightarrow> int
    \<Rightarrow> (State option list \<times> int \<times> int) option" where
  "ideal_search size1 ps tb num col mult =
     (if mult < 10000 then
        (case ideal_fill size1 mult ps tb of None \<Rightarrow> None
         | Some (tb, col) \<Rightarrow>
             if col = 0 then Some (tb, mult, col) else ideal_search size1 ps tb mult col (mult + 1))
      else Some (tb, num, col))"
  by pat_completeness auto
termination by (relation "measure (\<lambda>(size1, ps, tb, num, col, mult). nat (10000 - mult))") auto

declare ideal_search.simps [simp del]

text \<open>
  \<^verbatim>\<open>ideal_hashing_\<close>: the table of a chain, or the exit status of the process when no multiplier
  works; neither \<^verbatim>\<open>malloc\<close> is checked.
\<close>

definition ideal_chain :: "State list \<Rightarrow> bool list \<Rightarrow> (int + Ideal \<times> bool list) option" where
  "ideal_chain ps fs = do {
     fs \<leftarrow> malloc_used fs;
     let size1 = int (length ps) * 10;
     fs \<leftarrow> malloc_used fs;
     (tb, num, col) \<leftarrow> ideal_search size1 ps (replicate (nat size1) None) 0 0 1;
     if col = 1 then Some (Inl 1)
     else Some (Inr (\<lparr>sub = tb, isize = size1, hash_num = num\<rparr>, fs)) }"

text \<open>\<^verbatim>\<open>ideal_hashing\<close>: the loop over the buckets below \<open>n\<close>.\<close>

fun ideal_buckets :: "nat \<Rightarrow> statetab \<Rightarrow> bool list \<Rightarrow> (int + idealtab \<times> bool list) option" where
  "ideal_buckets 0 tab fs = Some (Inr (\<lambda>_. None, fs))"
| "ideal_buckets (Suc n) tab fs = do {
     r \<leftarrow> ideal_buckets n tab fs;
     case r of Inl status \<Rightarrow> Some (Inl status)
     | Inr (it, fs) \<Rightarrow>
         if tab n = [] then Some (Inr (it(n := None), fs))
         else do {
           r \<leftarrow> ideal_chain (tab n) fs;
           case r of Inl status \<Rightarrow> Some (Inl status)
           | Inr (i, fs) \<Rightarrow> Some (Inr (it(n := Some i), fs)) } }"

definition ideal_hashing :: "statetab \<Rightarrow> bool list \<Rightarrow> (int + idealtab \<times> bool list) option" where
  "ideal_hashing tab fs = ideal_buckets NHASH tab fs"

text \<open>\<^verbatim>\<open>lookup_ideal\<close>: no result when the bucket has no table; else the state in the slot, or null.\<close>

definition lookup_ideal :: "string list \<Rightarrow> idealtab \<Rightarrow> State option option" where
  "lookup_ideal p it = do {
     i \<leftarrow> it (hash p);
     h2 \<leftarrow> ihash p (isize i) (hash_num i);
     arr_get (sub i) h2 }"

subsection \<open>A filled table finds every state of its chain\<close>

text \<open>A size that is positive and fits keeps the hash inside the table.\<close>

lemma ihash_range:
  assumes "0 < n" "n < 2 ^ 63"
  obtains h where "ihash s n mult = Some h" "0 \<le> h" "h < n"
proof -
  let ?n = "word_of_int n :: 64 word"
  have n: "uint ?n = n" using assms by (simp add: uint_word_of_int)
  then have "?n \<noteq> 0" using assms(1) by auto
  then have "ihash_words (word_of_int mult) 0 s mod ?n < ?n"
    by (intro word_mod_less_divisor) (simp add: word_gt_0)
  then have "uint (ihash_words (word_of_int mult) 0 s mod ?n) < n" using n by (simp add: word_less_def)
  with \<open>?n \<noteq> 0\<close> show thesis
    by (intro that [of "uint (ihash_words (word_of_int mult) 0 s mod ?n)"]) (simp_all add: ihash_def)
qed

text \<open>Where a table has the states of \<open>ps\<close>.\<close>

definition placed :: "int \<Rightarrow> int \<Rightarrow> State option list \<Rightarrow> State \<Rightarrow> bool" where
  "placed n mult tb s \<longleftrightarrow> (\<exists>h. ihash (pref s) n mult = Some h \<and> arr_get tb h = Some (Some s))"

lemma ideal_fill_cases:
  assumes "0 < n" "n < 2 ^ 63" "length tb = nat n"
  obtains (ok) tb' where "ideal_fill n mult ps tb = Some (tb', 0)" "length tb' = nat n"
      "\<And>s. s \<in> set ps \<Longrightarrow> placed n mult tb' s" "\<And>s. placed n mult tb s \<Longrightarrow> placed n mult tb' s"
    | (collision) "ideal_fill n mult ps tb = Some (replicate (nat n) None, 1)"
  using assms(3)
proof (induction ps arbitrary: tb thesis)
  case Nil
  then show ?case by simp
next
  case (Cons p ps)
  obtain h where h: "ihash (pref p) n mult = Some h" "0 \<le> h" "h < n" using assms(1,2) by (rule ihash_range)
  then have hl: "nat h < length tb" using Cons.prems(3) by simp
  then have get: "arr_get tb h = Some (tb ! nat h)" using h(2) by simp
  show ?case
  proof (cases "tb ! nat h")
    case (Some x)
    with h get show ?thesis by (intro Cons.prems(2)) simp
  next
    case None
    let ?tb = "tb[nat h := Some p]"
    have set: "arr_set tb h (Some p) = Some ?tb" using h(2) hl by simp
    have len: "length ?tb = nat n" using Cons.prems(3) by simp
    have p: "placed n mult ?tb p" using h hl by (simp add: placed_def)
    have keep: "placed n mult ?tb s" if "placed n mult tb s" for s
      using that None h(2) hl by (auto simp: placed_def arr_get_eq_Some nth_list_update)
    show ?thesis
    proof (rule Cons.IH [OF _ _ len])
      fix tb' assume "ideal_fill n mult ps ?tb = Some (tb', 0)" "length tb' = nat n"
        "\<And>s. s \<in> set ps \<Longrightarrow> placed n mult tb' s" "\<And>s. placed n mult ?tb s \<Longrightarrow> placed n mult tb' s"
      with h get None set p keep show ?thesis by (intro Cons.prems(1) [of tb']) auto
    next
      assume "ideal_fill n mult ps ?tb = Some (replicate (nat n) None, 1)"
      with h get None set show ?thesis by (intro Cons.prems(2)) simp
    qed
  qed
qed

text \<open>The search ends: with a table that has every state, or with the flag set.\<close>

lemma ideal_search_cases:
  assumes "0 < n" "n < 2 ^ 63" "length tb = nat n" "mult < 10000 \<or> col = 1"
  obtains (ok) tb' num where "ideal_search n ps tb prev col mult = Some (tb', num, 0)"
      "\<And>s. s \<in> set ps \<Longrightarrow> placed n num tb' s"
    | (none) tb' num where "ideal_search n ps tb prev col mult = Some (tb', num, 1)"
  using assms(3,4)
proof (induction "nat (10000 - mult)" arbitrary: mult tb prev col thesis)
  case 0
  then show ?case by (simp add: ideal_search.simps)
next
  case (Suc k)
  then have m: "mult < 10000" by simp
  note step = ideal_search.simps [of n ps tb prev col mult]
  show ?case
  proof (cases rule: ideal_fill_cases [OF assms(1,2) Suc.prems(3), of mult ps, case_names ok collision])
    case (ok tb')
    with m step show ?thesis by (intro Suc.prems(1) [of tb' mult]) simp_all
  next
    case collision
    have k: "k = nat (10000 - (mult + 1))" using Suc.hyps(2) by simp
    show ?thesis
      by (rule Suc.hyps(1) [OF k, where tb = "replicate (nat n) None" and prev = mult and col = 1])
        (use m step collision Suc.prems(1,2) in auto)
  qed
qed

text \<open>A chain of one state is placed by the first multiplier.\<close>

lemma ideal_search_single:
  assumes "0 < n" "n < 2 ^ 63"
  shows "ideal_search n [s] (replicate (nat n) None) prev col 1 =
    Some ((replicate (nat n) None)[nat (the (ihash (pref s) n 1)) := Some s], 1, 0)"
proof -
  obtain h where h: "ihash (pref s) n 1 = Some h" "0 \<le> h" "h < n" using assms by (rule ihash_range)
  then have "nat h < nat n" by simp
  with h show ?thesis by (simp add: ideal_search.simps)
qed

lemma ideal_chain_cases:
  assumes "ps \<noteq> []" "10 * int (length ps) < 2 ^ 63" "failing fs = 0"
  obtains (ok) i fs' where "ideal_chain ps fs = Some (Inr (i, fs'))" "failing fs' = 0"
      "\<And>s. s \<in> set ps \<Longrightarrow> placed (isize i) (hash_num i) (sub i) s"
    | (stop) "ideal_chain ps fs = Some (Inl 1)" "1 < length ps"
proof -
  let ?n = "int (length ps) * 10"
  have n: "0 < ?n" "?n < 2 ^ 63" using assms(1,2) by simp_all
  obtain fs1 where m1: "malloc_used fs = Some fs1" "failing fs1 = 0" using assms(3) by (rule malloc_used_plenty)
  obtain fs2 where m2: "malloc_used fs1 = Some fs2" "failing fs2 = 0" using m1(2) by (rule malloc_used_plenty)
  show thesis
  proof (cases rule: ideal_search_cases [OF n, of "replicate (nat ?n) None" 1 0 ps 0, case_names len one ok none])
    case (ok tb num)
    with m1 m2 show thesis
      by (intro that(1) [of "\<lparr>sub = tb, isize = ?n, hash_num = num\<rparr>" fs2]) (simp_all add: ideal_chain_def)
  next
    case (none tb num)
    have "1 < length ps"
    proof (rule ccontr)
      assume "\<not> 1 < length ps"
      then obtain s where "ps = [s]" using assms(1) by (cases ps) auto
      with none ideal_search_single [of ?n s 0 0] n show False by simp
    qed
    with none m1 m2 show thesis by (intro that(2)) (simp_all add: ideal_chain_def)
  qed simp_all
qed

subsection \<open>All buckets\<close>

definition ideal_ok :: "statetab \<Rightarrow> idealtab \<Rightarrow> nat \<Rightarrow> bool" where
  "ideal_ok tab it h \<longleftrightarrow> (\<forall>s \<in> set (tab h). \<exists>i. it h = Some i \<and> placed (isize i) (hash_num i) (sub i) s)"

text \<open>The sizes are C integers; they are computed without overflow when no chain is too long.\<close>

definition short_chains :: "statetab \<Rightarrow> bool" where
  "short_chains tab \<longleftrightarrow> (\<forall>h. 10 * int (length (tab h)) < 2 ^ 31)"

lemma ideal_ok_other: "n \<noteq> h \<Longrightarrow> ideal_ok tab (it(n := x)) h \<longleftrightarrow> ideal_ok tab it h"
  by (simp add: ideal_ok_def)

lemma ideal_buckets_cases:
  assumes "short_chains tab" "failing fs = 0"
  obtains (ok) it fs' where "ideal_buckets n tab fs = Some (Inr (it, fs'))" "failing fs' = 0"
      "\<And>h. h < n \<Longrightarrow> ideal_ok tab it h"
    | (stop) "ideal_buckets n tab fs = Some (Inl 1)" "\<exists>h. 1 < length (tab h)"
proof (induction n arbitrary: thesis)
  case 0
  then show ?case using assms(2) by (intro "0"(1)) simp_all
next
  case (Suc n)
  show ?case
  proof (rule Suc.IH)
    fix it fs1 assume it: "ideal_buckets n tab fs = Some (Inr (it, fs1))" "failing fs1 = 0"
      "\<And>h. h < n \<Longrightarrow> ideal_ok tab it h"
    show ?thesis
    proof (cases "tab n = []")
      case True
      with it show ?thesis
        by (intro Suc.prems(1) [of "it(n := None)" fs1]) (auto simp: less_Suc_eq ideal_ok_other ideal_ok_def)
    next
      case False
      have "10 * int (length (tab n)) < 2 ^ 31" using assms(1) by (simp add: short_chains_def)
      then have small: "10 * int (length (tab n)) < 2 ^ 63" by simp
      show ?thesis
      proof (cases rule: ideal_chain_cases [OF False small it(2), case_names ok stop])
        case (ok i fs2)
        then have "ideal_ok tab (it(n := Some i)) n" by (simp add: ideal_ok_def)
        moreover from this have "ideal_ok tab (it(n := Some i)) h" if "h < Suc n" for h
          using that it(3) [of h] by (cases "h = n") (simp_all add: ideal_ok_other less_Suc_eq del: fun_upd_apply)
        ultimately show ?thesis
          using it ok False by (intro Suc.prems(1) [of "it(n := Some i)" fs2]) (simp_all del: fun_upd_apply)
      next
        case stop
        with it False show ?thesis by (intro Suc.prems(2)) auto
      qed
    qed
  next
    assume "ideal_buckets n tab fs = Some (Inl 1)" "\<exists>h. 1 < length (tab h)"
    then show ?thesis by (intro Suc.prems(2)) simp_all
  qed
qed

text \<open>For a prefix that has a state, \<^verbatim>\<open>lookup_ideal\<close> finds that state.\<close>

lemma lookup_ideal_state:
  assumes "\<And>h. h < NHASH \<Longrightarrow> ideal_ok tab it h" "state_of tab p = Some s"
  shows "lookup_ideal p it = Some (Some s)"
proof -
  have s: "s \<in> set (tab (hash p))" "pref s = p"
    using assms(2) by (auto simp: state_of_def find_Some_iff)
  then obtain i where i: "it (hash p) = Some i" "placed (isize i) (hash_num i) (sub i) s"
    using assms(1) [OF hash_less [of p]] by (auto simp: ideal_ok_def)
  then show ?thesis using s(2) by (auto simp: lookup_ideal_def placed_def)
qed

subsection \<open>The texts of a folder\<close>

text \<open>
  \<^verbatim>\<open>init_file\<close>: a file that cannot be opened (\<^const>\<open>None\<close>) ends the process with status 1.
\<close>

definition init_file :: "string option \<Rightarrow> bool list \<Rightarrow> (int + (statetab \<times> idealtab) \<times> bool list) option" where
  "init_file file fs = (case file of None \<Rightarrow> Some (Inl 1)
     | Some f \<Rightarrow> do {
         (tab, fs) \<leftarrow> text_table f fs;
         r \<leftarrow> ideal_hashing tab fs;
         case r of Inl status \<Rightarrow> Some (Inl status)
         | Inr (it, fs) \<Rightarrow> Some (Inr ((tab, it), fs)) })"

definition MARKOV_MAXFILES :: nat where
  "MARKOV_MAXFILES = 100"

definition MARKOV_MAXPATH :: nat where
  "MARKOV_MAXPATH = 3276"

text \<open>
  An entry of the folder: its name, what \<^verbatim>\<open>lstat\<close> says (\<^const>\<open>None\<close> when it fails, else whether it is a
  regular file) and the contents an \<^verbatim>\<open>fopen\<close> gives access to.
\<close>

record dir_entry =
  d_name :: string
  st_isreg :: "bool option"
  contents :: "string option"

text \<open>
  The loop of \<^verbatim>\<open>init_markov\<close> with the texts loaded so far: the path must fit its buffer, and the
  arrays have room for \<^verbatim>\<open>MARKOV_MAXFILES\<close> texts.
\<close>

fun load_entries :: "string \<Rightarrow> dir_entry list \<Rightarrow> (statetab \<times> idealtab) list \<Rightarrow> bool list
    \<Rightarrow> (int + (statetab \<times> idealtab) list \<times> bool list) option" where
  "load_entries folder [] ts fs = Some (Inr (ts, fs))"
| "load_entries folder (e # es) ts fs =
     (if MARKOV_MAXPATH \<le> length (folder @ d_name e) then None
      else if st_isreg e = Some True then
        if MARKOV_MAXFILES \<le> length ts then None
        else do {
          r \<leftarrow> init_file (contents e) fs;
          case r of Inl status \<Rightarrow> Some (Inl status)
          | Inr (t, fs) \<Rightarrow> load_entries folder es (ts @ [t]) fs }
      else load_entries folder es ts fs)"

text \<open>\<^verbatim>\<open>init_markov\<close>: a folder that cannot be read (\<^const>\<open>None\<close>) ends the process with status -1.\<close>

definition init_markov :: "string \<Rightarrow> dir_entry list option \<Rightarrow> bool list
    \<Rightarrow> (int + (statetab \<times> idealtab) list \<times> bool list) option" where
  "init_markov folder entries fs = (case entries of None \<Rightarrow> Some (Inl (- 1))
     | Some es \<Rightarrow> load_entries folder es [] fs)"

subsection \<open>What a loaded text gives\<close>

text \<open>Every chain is shorter than the text: its prefixes are different places of it.\<close>

fun pairs :: "string list \<Rightarrow> string list list" where
  "pairs (a # b # xs) = [a, b] # pairs (b # xs)"
| "pairs _ = []"

lemma length_pairs: "length (pairs xs) \<le> length xs"
  by (induction xs rule: pairs.induct) auto

lemma followers_pairs: "followers p xs \<noteq> [] \<Longrightarrow> p \<in> set (pairs xs)"
  by (induction p xs rule: followers.induct) (auto split: if_splits)

lemma state_in_chain:
  assumes "represents tab xs" "s \<in> set (tab h)"
  shows "followers (pref s) xs \<noteq> []"
proof -
  have ok: "chain_ok h (tab h)" using assms(1) by (simp add: represents_def tab_ok_def)
  then have s: "hash (pref s) = h" "suf s \<noteq> []" using assms(2) by (auto simp: chain_ok_def list_all_iff)
  have "List.find (\<lambda>x. pref x = pref s) (tab h) \<noteq> None" using assms(2) by (auto simp: find_None_iff)
  then obtain x where x: "List.find (\<lambda>x. pref x = pref s) (tab h) = Some x" by auto
  then have "suffixes tab (pref s) = suf x" using s(1) by (simp add: suffixes_def state_of_def)
  moreover from x have "x \<in> set (tab h)" by (auto simp: find_Some_iff)
  ultimately have "suffixes tab (pref s) \<noteq> []" using ok by (auto simp: chain_ok_def list_all_iff)
  then show ?thesis using assms(1) by (auto simp: represents_def)
qed

lemma chain_length:
  assumes "represents tab xs"
  shows "length (tab h) \<le> length xs"
proof -
  have "distinct (map pref (tab h))" using assms by (simp add: represents_def tab_ok_def chain_ok_def)
  then have "length (tab h) = card (pref ` set (tab h))" using distinct_card by fastforce
  also have "\<dots> \<le> card (set (pairs xs))"
    using state_in_chain [OF assms] followers_pairs by (intro card_mono) auto
  also have "\<dots> \<le> length xs" using card_length [of "pairs xs"] length_pairs [of xs] by linarith
  finally show ?thesis .
qed

lemma length_file_words: "length (file_words f) \<le> length f"
proof (induction f rule: file_words.induct)
  case (1 f)
  show ?case
  proof (cases "fscanf_word f")
    case (Some r)
    then obtain buf f' where "fscanf_word f = Some (buf, f')" by (cases r) simp
    with 1 [OF this refl] fscanf_word_shorter [OF this] show ?thesis by (simp add: file_words.simps [of f])
  qed (simp add: file_words.simps [of f])
qed

text \<open>
  A text serves a generator when the lookup gives, for every prefix that can be continued, a state
  with its followers.
\<close>

definition serves :: "(string list \<Rightarrow> State option option) \<Rightarrow> string list \<Rightarrow> bool" where
  "serves look xs \<longleftrightarrow> (\<forall>p. followers p xs \<noteq> [] \<longrightarrow> (\<exists>s. look p = Some (Some s) \<and> suf s = rev (followers p xs)))"

lemma represents_state:
  assumes "represents tab xs" "followers p xs \<noteq> []"
  obtains s where "state_of tab p = Some s" "suf s = rev (followers p xs)"
proof -
  have f: "suffixes tab p = rev (followers p xs)" using assms(1) by (simp add: represents_def)
  with assms(2) that show thesis by (cases "state_of tab p") (simp_all add: suffixes_def)
qed

text \<open>Two different prefixes of the text with the same hash.\<close>

definition collides :: "string list \<Rightarrow> bool" where
  "collides xs \<longleftrightarrow> (\<exists>p q. p \<noteq> q \<and> hash p = hash q \<and> followers p xs \<noteq> [] \<and> followers q xs \<noteq> [])"

lemma long_chain_collides:
  assumes "represents tab xs" "1 < length (tab h)"
  shows "collides xs"
proof -
  obtain s t ss where ss: "tab h = s # t # ss" using assms(2) by (cases "tab h"; cases "tl (tab h)") auto
  have "chain_ok h (tab h)" using assms(1) by (simp add: represents_def tab_ok_def)
  then have "pref s \<noteq> pref t" "hash (pref s) = hash (pref t)" using ss by (auto simp: chain_ok_def)
  moreover have "followers (pref s) xs \<noteq> []" "followers (pref t) xs \<noteq> []"
    using state_in_chain [OF assms(1), of s h] state_in_chain [OF assms(1), of t h] ss by simp_all
  ultimately show ?thesis unfolding collides_def by blast
qed

text \<open>The files a process can load: shorter than 200 megabytes.\<close>

definition fits_memory :: "string \<Rightarrow> bool" where
  "fits_memory f \<longleftrightarrow> length f < 200000000"

lemma init_file_cases:
  assumes "fits_memory f" "failing fs = 0"
  obtains (ok) tab it fs' where "init_file (Some f) fs = Some (Inr ((tab, it), fs'))" "failing fs' = 0"
      "represents tab (text_seq f)" "serves (\<lambda>p. lookup_ideal p it) (text_seq f)"
      "\<And>p s. state_of tab p = Some s \<Longrightarrow> lookup_ideal p it = Some (Some s)"
    | (stop) "init_file (Some f) fs = Some (Inl 1)" "collides (text_seq f)"
proof -
  obtain tab fs1 where t: "text_table f fs = Some (tab, fs1)" "represents tab (text_seq f)" "failing fs1 = 0"
    using assms(2) by (rule text_table_represents)
  have "length (text_seq f) \<le> length f + 3"
    using length_file_words [of f] by (simp add: text_seq_def NPREF_def)
  then have "10 * int (length (tab h)) < 2 ^ 31" for h
    using assms(1) chain_length [OF t(2), of h] by (simp add: fits_memory_def)
  then have short: "short_chains tab" by (simp add: short_chains_def)
  show thesis
  proof (cases rule: ideal_buckets_cases [OF short t(3), of NHASH, case_names ok stop])
    case (ok it fs2)
    have "serves (\<lambda>p. lookup_ideal p it) (text_seq f)"
      unfolding serves_def
    proof (intro allI impI)
      fix p assume "followers p (text_seq f) \<noteq> []"
      then obtain s where "state_of tab p = Some s" "suf s = rev (followers p (text_seq f))"
        using represents_state [OF t(2)] by blast
      then show "\<exists>s. lookup_ideal p it = Some (Some s) \<and> suf s = rev (followers p (text_seq f))"
        using lookup_ideal_state [OF ok(3)] by blast
    qed
    with ok t lookup_ideal_state [OF ok(3)] show thesis
      by (intro that(1) [of tab it fs2]) (simp_all add: init_file_def ideal_hashing_def)
  next
    case stop
    with t long_chain_collides [OF t(2)] show thesis
      by (intro that(2)) (auto simp: init_file_def ideal_hashing_def)
  qed
qed

end
