(* ===== verification/Text_Gen.thy ===== *)
theory Text_Gen
  imports Ideal_Hash
begin

text \<open>
  The page generator of the test bed (\<^verbatim>\<open>testbed/main.c\<close>): the pseudo-random numbers, the random walk
  along the Markov chain that \<^verbatim>\<open>generate\<close> turns into text with links and paragraphs, and the page
  the request handler \<^verbatim>\<open>gencb\<close> sends. What is appended to libevent's buffer is the string a
  definition returns.
\<close>

subsection \<open>Pseudo-random numbers\<close>

definition RAND_MAX :: int where
  "RAND_MAX = 2147483647"

text \<open>The number and the new seed; the multiplication wraps at 32 bits.\<close>

definition my_rand_r :: "32 word \<Rightarrow> int \<times> 32 word" where
  "my_rand_r seed = (let seed = seed * 1103515245 + 12345
     in (uint (seed mod (word_of_int RAND_MAX + 1)), seed))"

lemma my_rand_r_bounds: "0 \<le> fst (my_rand_r seed)" "fst (my_rand_r seed) \<le> RAND_MAX"
proof -
  show "0 \<le> fst (my_rand_r seed)" by (simp add: my_rand_r_def Let_def)
  have "(s :: 32 word) mod 2147483648 < 2147483648" for s
    by (rule word_mod_less_divisor) (simp add: word_gt_0)
  then have "uint ((s :: 32 word) mod 2147483648) < 2147483648" for s by (simp add: word_less_def)
  then show "fst (my_rand_r seed) \<le> RAND_MAX"
    using zle_diff1_eq [of "fst (my_rand_r seed)" 2147483648] by (simp add: my_rand_r_def Let_def RAND_MAX_def)
qed

subsection \<open>The generator\<close>

text \<open>The probabilities are doubles, which the generator does not read: their 64 bits.\<close>

record gen_config =
  daemon_port :: int
  words_per_page :: int
  intern_links :: int
  extern_links :: int
  intern_links_probability :: "64 word"
  extern_links_probability :: "64 word"
  extern_links_prefix :: string
  extern_links_suffix :: string
  extern_links_servers :: int
  links_total :: int
  worker_threads :: int

text \<open>
  The choice among the suffixes of a state: the \<open>n\<close>-th suffix replaces the choice with probability
  one in \<open>n\<close>. Without suffixes the old \<open>w\<close> stays.
\<close>

fun pick_suffix :: "string list \<Rightarrow> int \<Rightarrow> string option \<Rightarrow> 32 word \<Rightarrow> string option \<times> 32 word" where
  "pick_suffix [] nmatch w seed = (w, seed)"
| "pick_suffix (x # xs) nmatch w seed =
     (let (r, seed) = my_rand_r seed; nmatch = nmatch + 1
      in pick_suffix xs nmatch (if c_rem r nmatch = Some 0 then Some x else w) seed)"

definition newline :: string where
  "newline = [CHR 0x0A]"

definition href :: "string \<Rightarrow> string \<Rightarrow> string" where
  "href url w = ''<a href='' @ [CHR 0x22] @ url @ [CHR 0x22] @ ''>'' @ w @ ''</a> ''"

text \<open>
  The word as a link inside the site, as a link to another server or plain. The two random numbers
  of an outside link are arguments of one call: \<open>ltr\<close> says whether the compiler evaluates them from
  left to right.
\<close>

definition gen_link :: "bool \<Rightarrow> gen_config \<Rightarrow> bool \<Rightarrow> bool \<Rightarrow> string \<Rightarrow> 32 word \<Rightarrow> (string \<times> 32 word) option" where
  "gen_link ltr cfg int_link ext_link w seed =
     (if int_link then do {
        let (r, seed) = my_rand_r seed;
        page \<leftarrow> c_rem r (links_total cfg);
        Some (href (''/'' @ dec page @ ''.html'') w, seed) }
      else if ext_link then do {
        let (a, seed) = my_rand_r seed;
        let (b, seed) = my_rand_r seed;
        server \<leftarrow> c_rem (if ltr then a else b) (extern_links_servers cfg);
        page \<leftarrow> c_rem (if ltr then b else a) (links_total cfg);
        Some (href (''http://'' @ extern_links_prefix cfg @ dec server @ extern_links_suffix cfg @ ''/'' @ dec page @ ''.html'') w, seed) }
      else Some (w @ '' '', seed))"

text \<open>What one word of the walk appends to the page.\<close>

definition gen_word :: "bool \<Rightarrow> gen_config \<Rightarrow> string \<Rightarrow> bool \<Rightarrow> 32 word \<Rightarrow> (string \<times> bool \<times> 32 word) option" where
  "gen_word ltr cfg w p_open seed = do {
     let (a, seed) = my_rand_r seed;
     let int_link = a < intern_links cfg;
     let (b, seed) = my_rand_r seed;
     let ext_link = b < extern_links cfg;
     let (c, seed) = my_rand_r seed;
     let par = (if c < RAND_MAX div 50 then (if p_open then ''</p>'' @ newline else []) @ ''<p>'' @ newline else []);
     let p_open = (p_open \<or> c < RAND_MAX div 50);
     (link, seed) \<leftarrow> gen_link ltr cfg int_link ext_link w seed;
     let (d, seed) = my_rand_r seed;
     Some (par @ link @ (if d < RAND_MAX div 3 then newline else []), p_open, seed) }"

text \<open>
  The loop over at most \<open>n\<close> words; \<open>look\<close> is the lookup the build has chosen. A missing state or a
  word that was never chosen is a null pointer read.
\<close>

fun gen_loop :: "nat \<Rightarrow> bool \<Rightarrow> gen_config \<Rightarrow> (string list \<Rightarrow> State option option) \<Rightarrow> string list \<Rightarrow> string option
    \<Rightarrow> bool \<Rightarrow> 32 word \<Rightarrow> (string \<times> bool \<times> 32 word) option" where
  "gen_loop 0 ltr cfg look p w p_open seed = Some ([], p_open, seed)"
| "gen_loop (Suc n) ltr cfg look p w p_open seed = do {
     sp \<leftarrow> look p;
     s \<leftarrow> sp;
     let (w, seed) = pick_suffix (suf s) 0 w seed;
     v \<leftarrow> w;
     if v = NONWORD then Some ([], p_open, seed)
     else do {
       (chunk, p_open, seed) \<leftarrow> gen_word ltr cfg v p_open seed;
       (out, p_open, seed) \<leftarrow> gen_loop n ltr cfg look (take (NPREF - 1) (drop 1 p) @ [v]) w p_open seed;
       Some (chunk @ out, p_open, seed) } }"

definition generate :: "int \<Rightarrow> bool \<Rightarrow> gen_config \<Rightarrow> (string list \<Rightarrow> State option option) \<Rightarrow> 32 word
    \<Rightarrow> (string \<times> 32 word) option" where
  "generate nwords ltr cfg look seed = do {
     (out, p_open, seed) \<leftarrow> gen_loop (nat nwords) ltr cfg look (replicate NPREF NONWORD) None False seed;
     Some (out @ (if p_open then ''</p>'' @ newline else []), seed) }"

text \<open>
  The page of a request: \<open>wanted\<close> is the number \<^verbatim>\<open>sscanf\<close> finds in the URI, if it finds one, \<open>now\<close>
  the time. The texts are those \<^const>\<open>init_markov\<close> has loaded.
\<close>

definition gencb :: "bool \<Rightarrow> gen_config \<Rightarrow> (statetab \<times> idealtab) list \<Rightarrow> 32 word option \<Rightarrow> 32 word \<Rightarrow> string option" where
  "gencb ltr cfg texts wanted now = do {
     let seed = (case wanted of None \<Rightarrow> now | Some s \<Rightarrow> s);
     let (r, seed) = my_rand_r seed;
     nwords \<leftarrow> c_rem r (words_per_page cfg);
     let title = seed;
     let (r, seed) = my_rand_r seed;
     k \<leftarrow> c_rem r (int (length texts));
     (tab, it) \<leftarrow> arr_get texts k;
     (out, seed) \<leftarrow> generate nwords ltr cfg (\<lambda>p. lookup_ideal p it) seed;
     Some (''<html><head></head><body>'' @ newline @ ''<title>'' @ dec (uint title) @ ''</title>'' @ newline
       @ out @ ''</body></html>'' @ newline) }"

subsection \<open>The walk never leaves the chain\<close>

lemma pick_suffix_set:
  "pick_suffix xs n w seed = (w', seed') \<Longrightarrow> w' = w \<or> (\<exists>x \<in> set xs. w' = Some x)"
  by (induction xs arbitrary: n w seed) (fastforce simp: Let_def split: prod.splits if_splits)+

text \<open>The first suffix is always taken, so a state with suffixes gives one of them, whatever \<open>w\<close> was.\<close>

lemma pick_suffix_first:
  "xs \<noteq> [] \<Longrightarrow> pick_suffix xs 0 w seed = pick_suffix xs 0 None seed"
  by (cases xs) (simp_all add: Let_def c_rem_def split: prod.splits)

lemma pick_suffix_some:
  assumes "xs \<noteq> []"
  shows "\<exists>x \<in> set xs. \<exists>seed'. \<forall>w. pick_suffix xs 0 w seed = (Some x, seed')"
proof -
  obtain y ys where xs: "xs = y # ys" using assms by (cases xs) auto
  obtain w' seed' where r: "pick_suffix xs 0 (Some y) seed = (w', seed')" by (cases "pick_suffix xs 0 (Some y) seed")
  then have "\<exists>x \<in> set xs. w' = Some x" using pick_suffix_set [OF r] xs by auto
  moreover have "pick_suffix xs 0 w seed = (w', seed')" for w
    using pick_suffix_first [OF assms, of w] pick_suffix_first [OF assms, of "Some y"] r by simp
  ultimately show ?thesis by blast
qed

text \<open>The parts of a configuration the generator divides by.\<close>

definition cfg_ok :: "gen_config \<Rightarrow> bool" where
  "cfg_ok cfg \<longleftrightarrow> links_total cfg \<noteq> 0 \<and> extern_links_servers cfg \<noteq> 0"

lemma href_word: "sublist w (href url w)"
proof -
  have "href url w = (''<a href='' @ [CHR 0x22] @ url @ [CHR 0x22] @ ''>'') @ w @ ''</a> ''"
    by (simp add: href_def)
  then show ?thesis unfolding sublist_def by blast
qed

lemma gen_link_ok:
  assumes "cfg_ok cfg"
  shows "\<exists>link seed'. gen_link ltr cfg int_link ext_link w seed = Some (link, seed') \<and> sublist w link"
  using assms
  by (simp add: gen_link_def Let_def cfg_ok_def c_rem_def href_word split: prod.splits)

lemma gen_word_ok:
  assumes "cfg_ok cfg"
  obtains chunk q seed' where "gen_word ltr cfg w p_open seed = Some (chunk, q, seed')" "sublist w chunk"
proof -
  have "\<exists>chunk q seed'. gen_word ltr cfg w p_open seed = Some (chunk, q, seed') \<and> sublist w chunk"
  proof -
    obtain a s1 where a: "my_rand_r seed = (a, s1)" by (cases "my_rand_r seed")
    obtain b s2 where b: "my_rand_r s1 = (b, s2)" by (cases "my_rand_r s1")
    obtain c s3 where c: "my_rand_r s2 = (c, s3)" by (cases "my_rand_r s2")
    obtain link s4 where l: "gen_link ltr cfg (a < intern_links cfg) (b < extern_links cfg) w s3 = Some (link, s4)" "sublist w link"
      using gen_link_ok [OF assms] by blast
    obtain d s5 where d: "my_rand_r s4 = (d, s5)" by (cases "my_rand_r s4")
    have "sublist w (par @ link @ nl)" for par nl
      using sublist_appendI [of link par nl] l(2) by (rule sublist_order.order_trans [rotated])
    moreover have "gen_word ltr cfg w p_open seed = Some
       ((if c < RAND_MAX div 50 then (if p_open then ''</p>'' @ newline else []) @ ''<p>'' @ newline else [])
          @ link @ (if d < RAND_MAX div 3 then newline else []), p_open \<or> c < RAND_MAX div 50, s5)"
      using a b c d l(1) by (simp add: gen_word_def Let_def)
    ultimately show ?thesis by blast
  qed
  with that show thesis by blast
qed

text \<open>
  The walk over a text that serves: every word it emits follows its prefix in the text, and the page
  is the concatenation of what is emitted for each word.
\<close>

lemma gen_loop_walks:
  assumes "serves look xs" "last xs = NONWORD" "cfg_ok cfg" "followers p xs \<noteq> []"
  shows "\<exists>ws chunks q seed'. gen_loop n ltr cfg look p w p_open seed = Some (concat chunks, q, seed')
    \<and> walk xs p ws \<and> length ws \<le> n \<and> list_all2 sublist ws chunks"
  using assms(4)
proof (induction n arbitrary: p w p_open seed)
  case 0
  show ?case by (intro exI [of _ "[]"]) auto
next
  case (Suc n)
  obtain s where s: "look p = Some (Some s)" "suf s = rev (followers p xs)"
    using assms(1) Suc.prems by (auto simp: serves_def)
  then have "suf s \<noteq> []" using Suc.prems by simp
  then obtain v seed1 where v: "\<And>w. pick_suffix (suf s) 0 w seed = (Some v, seed1)" "v \<in> set (suf s)"
    using pick_suffix_some by blast
  have in_followers: "v \<in> set (followers p xs)" using v(2) s(2) by simp
  show ?case
  proof (cases "v = NONWORD")
    case True
    with s v show ?thesis by (intro exI [of _ "[]"]) auto
  next
    case False
    have p: "length p = NPREF" using Suc.prems by (rule followers_length)
    then have down: "take (NPREF - 1) (drop 1 p) = drop 1 p" by simp
    obtain chunk q seed2 where c: "gen_word ltr cfg v p_open seed1 = Some (chunk, q, seed2)" "sublist v chunk"
      using assms(3) by (rule gen_word_ok)
    have "followers (drop 1 p @ [v]) xs \<noteq> []"
      using followers_step [OF in_followers] False assms(2) by simp
    then obtain ws chunks q' seed' where rest:
      "gen_loop n ltr cfg look (drop 1 p @ [v]) (Some v) q seed2 = Some (concat chunks, q', seed')"
      "walk xs (drop 1 p @ [v]) ws" "length ws \<le> n" "list_all2 sublist ws chunks"
      using Suc.IH by blast
    have "gen_loop (Suc n) ltr cfg look p w p_open seed = Some (concat (chunk # chunks), q', seed')"
      using s(1) v(1) False c(1) rest(1) down by simp
    moreover have "walk xs p (v # ws)" "length (v # ws) \<le> Suc n" "list_all2 sublist (v # ws) (chunk # chunks)"
      using in_followers False rest(2-4) c(2) by simp_all
    ultimately show ?thesis by blast
  qed
qed

text \<open>Two lookups that serve the same text give the same pages.\<close>

lemma gen_loop_same:
  assumes "serves look xs" "serves look' xs" "last xs = NONWORD" "followers p xs \<noteq> []"
  shows "gen_loop n ltr cfg look p w p_open seed = gen_loop n ltr cfg look' p w p_open seed"
  using assms(4)
proof (induction n arbitrary: p w p_open seed)
  case (Suc n)
  obtain s s' where s: "look p = Some (Some s)" "look' p = Some (Some s')" "suf s = rev (followers p xs)" "suf s' = suf s"
    using assms(1,2) Suc.prems unfolding serves_def by metis
  then have "suf s \<noteq> []" using Suc.prems by simp
  then obtain v seed1 where v: "\<And>w. pick_suffix (suf s) 0 w seed = (Some v, seed1)" "v \<in> set (suf s)"
    using pick_suffix_some by blast
  have down: "take (NPREF - 1) (drop 1 p) = drop 1 p" using followers_length [OF Suc.prems] by simp
  have "followers (drop 1 p @ [v]) xs \<noteq> []" if "v \<noteq> NONWORD"
    using v(2) s(3) that assms(3) by (intro followers_step) simp_all
  then show ?case using s v(1) down Suc.IH by simp
qed simp

text \<open>The lookup of the build without \<^verbatim>\<open>IDEAL_HASHING\<close>.\<close>

definition lookup_plain :: "string list \<Rightarrow> statetab \<Rightarrow> State option option" where
  "lookup_plain p tab = do {
     (sp, tab, _) \<leftarrow> lookup p tab 0 [];
     case sp of None \<Rightarrow> Some None | Some (h, k) \<Rightarrow> do { s \<leftarrow> arr_get (tab h) (int k); Some (Some s) } }"

lemma lookup_plain_state:
  assumes "tab_ok tab" "length p = NPREF"
  shows "lookup_plain p tab = Some (state_of tab p)"
proof (cases "state_of tab p")
  case None
  with lookup_state(1) [OF assms, of "[]"] show ?thesis by (simp add: lookup_plain_def)
next
  case (Some s)
  have l: "list_all (\<lambda>s. length (pref s) = NPREF) (tab (hash p))"
    using assms(1) chain_ok_lengths by (auto simp: tab_ok_def)
  obtain k where k: "find_state p (tab (hash p)) = Some k"
    using Some find_state_None [OF assms(2) l] by (cases "find_state p (tab (hash p))") (auto simp: state_of_def)
  with Some lookup_state(1) [OF assms, of "[]"] lookup_state(2) [OF assms Some k] show ?thesis
    by (simp add: lookup_plain_def)
qed

lemma lookup_plain_serves:
  assumes "represents tab xs"
  shows "serves (\<lambda>p. lookup_plain p tab) xs"
  unfolding serves_def
proof (intro allI impI)
  fix p assume f: "followers p xs \<noteq> []"
  then obtain s where "state_of tab p = Some s" "suf s = rev (followers p xs)"
    using represents_state [OF assms] by blast
  moreover have "lookup_plain p tab = Some (state_of tab p)"
    using assms followers_length [OF f] by (intro lookup_plain_state) (simp_all add: represents_def)
  ultimately show "\<exists>s. lookup_plain p tab = Some (Some s) \<and> suf s = rev (followers p xs)" by simp
qed

lemma generate_same:
  assumes "serves look (text_seq f)" "serves look' (text_seq f)"
  shows "generate n ltr cfg look seed = generate n ltr cfg look' seed"
  unfolding generate_def gen_loop_same [OF assms last_text_seq followers_start] ..

lemma generate_walks:
  assumes "serves look (text_seq f)" "cfg_ok cfg"
  shows "\<exists>ws chunks close seed'. generate n ltr cfg look seed = Some (concat chunks @ close, seed')
    \<and> close \<in> {[], ''</p>'' @ newline} \<and> walk (text_seq f) (replicate NPREF NONWORD) ws
    \<and> int (length ws) \<le> max 0 n \<and> list_all2 sublist ws chunks"
proof -
  obtain ws chunks q seed' where
    "gen_loop (nat n) ltr cfg look (replicate NPREF NONWORD) None False seed = Some (concat chunks, q, seed')"
    "walk (text_seq f) (replicate NPREF NONWORD) ws" "length ws \<le> nat n" "list_all2 sublist ws chunks"
    using gen_loop_walks [OF assms(1) last_text_seq assms(2) followers_start] by blast
  then show ?thesis
    by (intro exI [of _ ws] exI [of _ chunks] exI [of _ "if q then ''</p>'' @ newline else []"] exI [of _ seed'])
      (auto simp: generate_def)
qed

text \<open>A loaded text: both lookups find the state of every prefix that can be continued.\<close>

lemma init_file_lookups:
  assumes "fits_memory f" "failing fs = 0"
  obtains (ok) tab it fs' where "init_file (Some f) fs = Some (Inr ((tab, it), fs'))" "failing fs' = 0"
      "represents tab (text_seq f)" "serves (\<lambda>p. lookup_ideal p it) (text_seq f)" "serves (\<lambda>p. lookup_plain p tab) (text_seq f)"
      "\<And>p. followers p (text_seq f) \<noteq> [] \<Longrightarrow> \<exists>s. lookup_ideal p it = Some (Some s)
        \<and> lookup_plain p tab = Some (Some s) \<and> suf s = rev (followers p (text_seq f))"
    | (stop) "init_file (Some f) fs = Some (Inl 1)" "collides (text_seq f)"
proof (cases rule: init_file_cases [OF assms, case_names ok stop])
  case a: (ok tab it fs')
  show thesis
  proof (rule ok [OF a(1-4) lookup_plain_serves [OF a(3)]])
    fix p assume f: "followers p (text_seq f) \<noteq> []"
    obtain s where s: "state_of tab p = Some s" "suf s = rev (followers p (text_seq f))"
      using a(3) f by (rule represents_state)
    have "lookup_plain p tab = Some (state_of tab p)"
      using a(3) followers_length [OF f] by (intro lookup_plain_state) (simp_all add: represents_def)
    with s a(5) [OF s(1)] show "\<exists>s. lookup_ideal p it = Some (Some s)
        \<and> lookup_plain p tab = Some (Some s) \<and> suf s = rev (followers p (text_seq f))" by auto
  qed
qed (rule stop)

text \<open>The texts a server works with.\<close>

definition loaded :: "(statetab \<times> idealtab) list \<Rightarrow> bool" where
  "loaded ts \<longleftrightarrow> (\<forall>(tab, it) \<in> set ts. \<exists>f. represents tab (text_seq f) \<and> serves (\<lambda>p. lookup_ideal p it) (text_seq f))"

lemma gencb_total:
  assumes "loaded texts" "texts \<noteq> []" "cfg_ok cfg" "words_per_page cfg \<noteq> 0"
  shows "\<exists>page. gencb ltr cfg texts wanted now = Some page"
proof -
  obtain r1 s1 where r1: "my_rand_r (case wanted of None \<Rightarrow> now | Some s \<Rightarrow> s) = (r1, s1)"
    by (cases "my_rand_r (case wanted of None \<Rightarrow> now | Some s \<Rightarrow> s)")
  obtain r2 s2 where r2: "my_rand_r s1 = (r2, s2)" by (cases "my_rand_r s1")
  obtain n where n: "c_rem r1 (words_per_page cfg) = Some n" using assms(4) by (simp add: c_rem_def)
  obtain k where k: "c_rem r2 (int (length texts)) = Some k" "0 \<le> k" "k < int (length texts)"
    using c_rem_bounds [of r2 "int (length texts)"] my_rand_r_bounds(1) [of s1] r2 assms(2) by auto
  obtain tab it where t: "texts ! nat k = (tab, it)" by (cases "texts ! nat k")
  have "texts ! nat k \<in> set texts" using k by simp
  then obtain f where "serves (\<lambda>p. lookup_ideal p it) (text_seq f)" using assms(1) t by (auto simp: loaded_def)
  from generate_walks [OF this assms(3)] obtain out seed' where
    "generate n ltr cfg (\<lambda>p. lookup_ideal p it) s2 = Some (out, seed')" by blast
  with r1 r2 n k t show ?thesis by (simp add: gencb_def Let_def)
qed

subsection \<open>Loading a folder\<close>

text \<open>A folder the process has room for.\<close>

definition folder_ok :: "string \<Rightarrow> dir_entry list \<Rightarrow> bool" where
  "folder_ok folder es \<longleftrightarrow>
     list_all (\<lambda>e. length (folder @ d_name e) < MARKOV_MAXPATH) es
     \<and> length (filter (\<lambda>e. st_isreg e = Some True) es) \<le> MARKOV_MAXFILES
     \<and> list_all (\<lambda>e. case contents e of None \<Rightarrow> True | Some f \<Rightarrow> fits_memory f) es"

text \<open>Why loading may end the process: a file that cannot be opened, or a text two of whose prefixes
  have the same hash.\<close>

definition cannot_load :: "dir_entry list \<Rightarrow> bool" where
  "cannot_load es \<longleftrightarrow> (\<exists>e \<in> set es. case contents e of None \<Rightarrow> True | Some f \<Rightarrow> collides (text_seq f))"

lemma cannot_load_Cons: "cannot_load es \<Longrightarrow> cannot_load (e # es)"
  by (simp add: cannot_load_def)

lemma load_entries_ok:
  assumes "list_all (\<lambda>e. length (folder @ d_name e) < MARKOV_MAXPATH) es"
    and "length ts + length (filter (\<lambda>e. st_isreg e = Some True) es) \<le> MARKOV_MAXFILES"
    and "list_all (\<lambda>e. case contents e of None \<Rightarrow> True | Some f \<Rightarrow> fits_memory f) es"
    and "loaded ts" "failing fs = 0"
  shows "load_entries folder es ts fs = Some (Inl 1) \<and> cannot_load es \<or> (\<exists>ts' fs'. load_entries folder es ts fs = Some (Inr (ts', fs'))
    \<and> loaded ts' \<and> length ts' = length ts + length (filter (\<lambda>e. st_isreg e = Some True) es))"
  using assms
proof (induction es arbitrary: ts fs)
  case (Cons e es)
  show ?case
  proof (cases "st_isreg e = Some True")
    case True
    show ?thesis
    proof (cases "contents e")
      case None
      with True Cons.prems show ?thesis by (simp add: init_file_def cannot_load_def)
    next
      case (Some f)
      then have f: "fits_memory f" using Cons.prems(3) by simp
      show ?thesis
      proof (cases rule: init_file_cases [OF f Cons.prems(5), case_names ok stop])
        case (ok tab it fs')
        have "loaded (ts @ [(tab, it)])" using Cons.prems(4) ok(3,4) by (auto simp: loaded_def)
        moreover have "\<not> MARKOV_MAXFILES \<le> length ts" "\<not> MARKOV_MAXPATH \<le> length (folder @ d_name e)"
          using True Cons.prems(1,2) by simp_all
        ultimately show ?thesis
          using Cons.IH [of "ts @ [(tab, it)]" fs'] Cons.prems(1-3) True Some ok(1,2) cannot_load_Cons [of es e] by auto
      next
        case stop
        with True Some Cons.prems(1,2) show ?thesis by (simp add: cannot_load_def)
      qed
    qed
  next
    case False
    with Cons.IH [of ts fs] Cons.prems cannot_load_Cons [of es e] show ?thesis by auto
  qed
qed simp

lemma init_markov_ok:
  assumes "folder_ok folder es" "failing fs = 0"
  shows "init_markov folder (Some es) fs = Some (Inl 1) \<and> cannot_load es \<or> (\<exists>ts fs'. init_markov folder (Some es) fs = Some (Inr (ts, fs'))
    \<and> loaded ts \<and> length ts = length (filter (\<lambda>e. st_isreg e = Some True) es))"
  using load_entries_ok [of folder es "[]" fs] assms by (simp add: init_markov_def folder_ok_def loaded_def)

end
