(* ===== verification/Conv2.thy ===== *)
theory Conv2
  imports Libc
begin

text \<open>
  The repair of texts that were read in the wrong encoding (\<^verbatim>\<open>conv2/main.c\<close>). A word is converted
  back; the letters that were lost on the way have become question marks, and the spelling
  dictionary is asked for words that agree with it everywhere else. GLib and Hunspell are not part
  of the repository: what the program calls of them is a record of functions. Every allocation is
  taken to succeed, and memory that is never freed is not modelled.
\<close>

subsection \<open>The libraries\<close>

text \<open>
  GLib: validation, the character at the start of a string, the number of bytes of a character after
  its first, by that first byte, and the conversion of an encoding to another with a fallback
  (\<^const>\<open>None\<close> when it reports an error). Hunspell: whether a word is in the dictionary, and the
  suggestions for one that is not.
\<close>

record glib =
  g_utf8_validate :: "string \<Rightarrow> bool"
  g_utf8_get_char :: "string \<Rightarrow> int"
  g_utf8_tail :: "char \<Rightarrow> nat"
  g_convert :: "string \<Rightarrow> string \<Rightarrow> string \<Rightarrow> string option"

record hunspell =
  Hunspell_spell :: "string \<Rightarrow> bool"
  Hunspell_suggest :: "string \<Rightarrow> string list"

abbreviation question :: char where
  "question \<equiv> CHR 0x3F"

subsection \<open>word2int\<close>

text \<open>
  The loop over the characters of a valid word: every code goes into \<open>ret\<close>, and the mask, where
  there is one, gets a 1 for a question mark. A write behind an array has no result, nor has a step
  over the end of the string.
\<close>

function word_chars :: "glib \<Rightarrow> int \<Rightarrow> string \<Rightarrow> int list \<Rightarrow> int list option
    \<Rightarrow> (int \<times> int list \<times> int list option) option" where
  "word_chars g i [] ret marks = Some (i, ret, marks)"
| "word_chars g i (c # cs) ret marks = (case arr_set ret i (g_utf8_get_char g (c # cs)) of
     None \<Rightarrow> None
   | Some ret \<Rightarrow>
       (case (case marks of None \<Rightarrow> Some None
              | Some m \<Rightarrow> if c = question then map_option Some (arr_set m i 1) else Some (Some m)) of
          None \<Rightarrow> None
        | Some marks \<Rightarrow>
            if length cs < g_utf8_tail g c then None
            else word_chars g (i + 1) (drop (g_utf8_tail g c) cs) ret marks))"
  by pat_completeness auto
termination by (relation "measure (\<lambda>(g, i, p, ret, marks). length p)") auto

definition word2int :: "glib \<Rightarrow> int list \<Rightarrow> int list option \<Rightarrow> string \<Rightarrow> (int \<times> int list \<times> int list option) option" where
  "word2int g ret marks word =
     (if \<not> g_utf8_validate g word then Some (0, ret, marks) else word_chars g 0 word ret marks)"

subsection \<open>check\<close>

text \<open>The letters a question mark may stand for: i and sha, small and capital, in UTF-8.\<close>

definition lost_letters :: "string list" where
  "lost_letters = [[CHR 0xD0, CHR 0xB8], [CHR 0xD0, CHR 0x98], [CHR 0xD1, CHR 0x88], [CHR 0xD0, CHR 0xA8]]"

definition lost_char :: "glib \<Rightarrow> int \<Rightarrow> bool" where
  "lost_char g u \<longleftrightarrow> u \<in> set (map (g_utf8_get_char g) lost_letters)"

text \<open>The comparison loop over the \<open>n\<close> characters both arrays hold.\<close>

definition agree :: "glib \<Rightarrow> int list \<Rightarrow> int list \<Rightarrow> int list \<Rightarrow> int \<Rightarrow> bool" where
  "agree g marks iword isug n \<longleftrightarrow>
     list_all (\<lambda>j. if marks ! j = 0 then iword ! j = isug ! j else lost_char g (isug ! j)) [0..<nat n]"

text \<open>The loop over the suggestions, which share one array; the first that agrees ends it.\<close>

fun try_suggestions :: "glib \<Rightarrow> int list \<Rightarrow> int list \<Rightarrow> int \<Rightarrow> int list \<Rightarrow> string list \<Rightarrow> string option option" where
  "try_suggestions g marks iword n1 isug [] = Some None"
| "try_suggestions g marks iword n1 isug (s # ss) = do {
     (n2, isug, _) \<leftarrow> word2int g isug None s;
     if n2 = 0 \<or> n1 \<noteq> n2 then try_suggestions g marks iword n1 isug ss
     else if agree g marks iword isug n1 then Some (Some s)
     else try_suggestions g marks iword n1 isug ss }"

text \<open>The arrays have an element for every byte of the word; they are written before they are read.\<close>

definition check :: "glib \<Rightarrow> hunspell \<Rightarrow> string \<Rightarrow> string option" where
  "check g h word =
     (if word = [question] then Some [CHR 0xD0, CHR 0xB8]
      else if Hunspell_spell h word then Some word
      else if question \<notin> set word then Some word
      else let sug = Hunspell_suggest h word in
      if sug = [] then Some word
      else do {
        let l = length word;
        (n1, iword, marks) \<leftarrow> word2int g (replicate l 0) (Some (replicate l 0)) word;
        if n1 = 0 then Some word
        else do {
          m \<leftarrow> marks;
          ret \<leftarrow> try_suggestions g m iword n1 (replicate l 0) sug;
          Some (case ret of None \<Rightarrow> word | Some s \<Rightarrow> s) } })"

subsection \<open>try\_convert\<close>

text \<open>The tokens \<^verbatim>\<open>strtok\<close> finds between question marks.\<close>

function strtok_all :: "string \<Rightarrow> string list" where
  "strtok_all w = (let w = dropWhile (\<lambda>c. c = question) w in
     if w = [] then []
     else takeWhile (\<lambda>c. c \<noteq> question) w # strtok_all (dropWhile (\<lambda>c. c \<noteq> question) w))"
  by pat_completeness auto
termination
proof (relation "measure length")
  fix w x assume x: "x = dropWhile (\<lambda>c. c = question) w" "x \<noteq> []"
  then have "hd x \<noteq> question" using hd_dropWhile [of "\<lambda>c. c = question" w] by simp
  with x(2) have "length (dropWhile (\<lambda>c. c \<noteq> question) x) < length x"
    by (cases x) (simp_all add: length_dropWhile_le le_imp_less_Suc)
  also have "length x \<le> length w" using x(1) by (simp add: length_dropWhile_le)
  finally show "(dropWhile (\<lambda>c. c \<noteq> question) x, w) \<in> measure length" by simp
qed simp

declare strtok_all.simps [simp del]

text \<open>
  What is left of the word once \<^verbatim>\<open>strtok\<close> has written a zero behind its first token; later tokens
  are cut behind that.
\<close>

definition strtok_cut :: "string \<Rightarrow> string" where
  "strtok_cut w = takeWhile (\<lambda>c. c = question) w @ takeWhile (\<lambda>c. c \<noteq> question) (dropWhile (\<lambda>c. c = question) w)"

text \<open>The three conversions of a token; \<^const>\<open>None\<close> when one reports an error.\<close>

definition recode :: "glib \<Rightarrow> string \<Rightarrow> string option" where
  "recode g w = do {
     a \<leftarrow> g_convert g ''cp1251'' ''utf-8'' w;
     b \<leftarrow> g_convert g ''cp1251'' ''utf-8'' (c_str a);
     c \<leftarrow> g_convert g ''utf-8'' ''cp1251'' (c_str b);
     Some (c_str c) }"

text \<open>
  The loop over the tokens with a buffer of \<open>cap\<close> bytes: \<^const>\<open>None\<close> inside when a conversion fails,
  no result when the text and its terminating zero do not fit.
\<close>

fun recode_all :: "glib \<Rightarrow> nat \<Rightarrow> string list \<Rightarrow> string \<Rightarrow> string option option" where
  "recode_all g cap [] buf = Some (Some buf)"
| "recode_all g cap (t # ts) buf = (case recode g t of
     None \<Rightarrow> Some None
   | Some a \<Rightarrow> if cap \<le> length (buf @ a @ [question]) then None
       else recode_all g cap ts (buf @ a @ [question]))"

definition try_convert :: "glib \<Rightarrow> hunspell \<Rightarrow> string \<Rightarrow> string option" where
  "try_convert g h word =
     (if word = [] then None
      else if Hunspell_spell h word then Some word
      else do {
        let flag = (last word = question);
        r \<leftarrow> recode_all g (length word * 10) (strtok_all word) [];
        case r of None \<Rightarrow> Some (strtok_cut word)
        | Some buf \<Rightarrow> do {
            buf \<leftarrow> (if flag then Some buf else if buf = [] then None else Some (butlast buf));
            check g h buf } })"

subsection \<open>do\_all\<close>

datatype token_kind = ALNUM | ALPHA | DIGIT | PUNCT | BLANK | RUS

text \<open>
  What is printed for the tokens the scanner delivers, which the build generates from
  \<^verbatim>\<open>tokenizer.l\<close>: the tokens are a parameter.
\<close>

fun print_tokens :: "glib \<Rightarrow> hunspell \<Rightarrow> (token_kind \<times> string) list \<Rightarrow> string option" where
  "print_tokens g h [] = Some []"
| "print_tokens g h ((kind, text) # ts) = do {
     nw \<leftarrow> (if kind = RUS then try_convert g h text else Some text);
     out \<leftarrow> print_tokens g h ts;
     Some (nw @ out) }"

text \<open>Nothing is printed when a dictionary file is missing or Hunspell cannot be created.\<close>

definition do_all :: "glib \<Rightarrow> bool \<Rightarrow> bool \<Rightarrow> hunspell option \<Rightarrow> (token_kind \<times> string) list \<Rightarrow> string option" where
  "do_all g aff dic hs tokens =
     (if \<not> aff then Some [] else if \<not> dic then Some []
      else case hs of None \<Rightarrow> Some [] | Some h \<Rightarrow> print_tokens g h tokens)"

text \<open>
  The loop of \<^verbatim>\<open>main\<close> over its arguments, dictionary path and mode so far; the value of an option is
  looked at as an option in its turn. \<^verbatim>\<open>usage\<close> ends the process with status 1.
\<close>

fun parse_args :: "string list \<Rightarrow> string \<Rightarrow> int \<Rightarrow> int + string \<times> int" where
  "parse_args [] dpath m = Inr (dpath, m)"
| "parse_args (a # as) dpath m =
     (if a = ''--dpath'' then (case as of [] \<Rightarrow> Inl 1 | v # _ \<Rightarrow> parse_args as v m)
      else if a = ''--mode'' then (case as of [] \<Rightarrow> Inl 1 | v # _ \<Rightarrow> parse_args as dpath (atoi v))
      else if a = ''--help'' then Inl 1
      else parse_args as dpath m)"

text \<open>
  \<^verbatim>\<open>main\<close>: exit status and output. The files and the Hunspell object depend on the path; the mode
  is not used.
\<close>

definition conv_main :: "glib \<Rightarrow> (string \<Rightarrow> bool) \<Rightarrow> (string \<Rightarrow> string \<Rightarrow> hunspell option) \<Rightarrow> (token_kind \<times> string) list
    \<Rightarrow> string list \<Rightarrow> (int \<times> string) option" where
  "conv_main g readable create tokens argv = (case parse_args argv ''./'' 0 of
     Inl status \<Rightarrow> Some (status, [])
   | Inr (dpath, _) \<Rightarrow> do {
       let aff = dpath @ ''ru_RU.aff'';
       let dic = dpath @ ''ru_RU.dic'';
       out \<leftarrow> do_all g (readable aff) (readable dic) (create aff dic) tokens;
       Some (0, out) })"

subsection \<open>What the program relies on\<close>

text \<open>The characters of a string, with their first bytes.\<close>

function uchars :: "glib \<Rightarrow> string \<Rightarrow> (int \<times> char) list" where
  "uchars g [] = []"
| "uchars g (c # cs) = (g_utf8_get_char g (c # cs), c) # uchars g (drop (g_utf8_tail g c) cs)"
  by pat_completeness auto
termination by (relation "measure (\<lambda>(g, w). length w)") auto

function whole :: "glib \<Rightarrow> string \<Rightarrow> bool" where
  "whole g [] \<longleftrightarrow> True"
| "whole g (c # cs) \<longleftrightarrow> g_utf8_tail g c \<le> length cs \<and> whole g (drop (g_utf8_tail g c) cs)"
  by pat_completeness auto
termination by (relation "measure (\<lambda>(g, w). length w)") auto

text \<open>A valid string consists of whole characters.\<close>

definition glib_ok :: "glib \<Rightarrow> bool" where
  "glib_ok g \<longleftrightarrow> (\<forall>w. g_utf8_validate g w \<longrightarrow> whole g w)"

text \<open>
  Conversion to the one-byte encoding makes a string no longer; from it, a byte becomes at most three.
\<close>

definition converts :: "glib \<Rightarrow> bool" where
  "converts g \<longleftrightarrow>
     (\<forall>w v. g_convert g ''cp1251'' ''utf-8'' w = Some v \<longrightarrow> length v \<le> length w)
     \<and> (\<forall>w v. g_convert g ''utf-8'' ''cp1251'' w = Some v \<longrightarrow> length v \<le> 3 * length w)"

subsection \<open>word2int decodes\<close>

declare word_chars.simps [simp del] uchars.simps [simp del]

lemma uchars_Nil [simp]: "uchars g [] = []"
  by (simp add: uchars.simps)

lemma length_uchars: "length (uchars g w) \<le> length w"
proof (induction g w rule: uchars.induct)
  case (2 g c cs)
  then show ?case by (simp add: uchars.simps(2) le_diff_conv)
qed simp

lemma uchars_empty: "uchars g w = [] \<longleftrightarrow> w = []"
  by (cases w) (simp_all add: uchars.simps(2))

lemma word_chars_plain:
  "whole g w \<Longrightarrow> word_chars g (int (length xs)) w (xs @ ys) None =
    (if length (uchars g w) \<le> length ys
     then Some (int (length xs + length (uchars g w)), xs @ map fst (uchars g w) @ drop (length (uchars g w)) ys, None)
     else None)"
proof (induction g w arbitrary: xs ys rule: uchars.induct)
  case (1 g)
  then show ?case by (simp add: word_chars.simps)
next
  case (2 g c cs)
  show ?case
  proof (cases ys)
    case Nil
    then show ?thesis by (simp add: word_chars.simps(2) uchars.simps(2) arr_set_append)
  next
    case (Cons y zs)
    with 2(1) [of "xs @ [g_utf8_get_char g (c # cs)]" zs] 2(2) show ?thesis
      by (simp add: word_chars.simps(2) uchars.simps(2) arr_set_append add.commute del: append_assoc)
  qed
qed

definition question_marks :: "(int \<times> char) list \<Rightarrow> int list" where
  "question_marks us = map (\<lambda>(u, c). if c = question then 1 else 0) us"

lemma word_chars_marked:
  assumes "whole g w" "length (uchars g w) \<le> length ys" "length (uchars g w) \<le> k" "length ms = length xs"
  shows "word_chars g (int (length xs)) w (xs @ ys) (Some (ms @ replicate k 0)) =
    Some (int (length xs + length (uchars g w)), xs @ map fst (uchars g w) @ drop (length (uchars g w)) ys,
      Some (ms @ question_marks (uchars g w) @ replicate (k - length (uchars g w)) 0))"
  using assms
proof (induction g w arbitrary: xs ys ms k rule: uchars.induct)
  case (1 g)
  then show ?case by (simp add: word_chars.simps question_marks_def)
next
  case (2 g c cs)
  then obtain y zs j where yk: "ys = y # zs" "k = Suc j" by (cases ys; cases k) (auto simp: uchars.simps(2))
  let ?u = "g_utf8_get_char g (c # cs)"
  let ?b = "if c = question then 1 else 0 :: int"
  have m: "arr_set (ms @ 0 # replicate j 0) (int (length xs)) 1 = Some (ms @ 1 # replicate j 0)"
    using arr_set_append [of ms "0 # replicate j 0" 1] 2(5) by simp
  have step: "word_chars g (int (length (xs @ [?u]))) (drop (g_utf8_tail g c) cs) ((xs @ [?u]) @ zs)
      (Some ((ms @ [?b]) @ replicate j 0)) =
    Some (int (length (xs @ [?u]) + length (uchars g (drop (g_utf8_tail g c) cs))),
      (xs @ [?u]) @ map fst (uchars g (drop (g_utf8_tail g c) cs)) @ drop (length (uchars g (drop (g_utf8_tail g c) cs))) zs,
      Some ((ms @ [?b]) @ question_marks (uchars g (drop (g_utf8_tail g c) cs))
        @ replicate (j - length (uchars g (drop (g_utf8_tail g c) cs))) 0))"
    by (rule 2(1)) (use 2(2-5) yk in \<open>simp_all add: uchars.simps(2)\<close>)
  show ?case
  proof (cases "c = question")
    case True
    with m step 2(2) show ?thesis
      by (simp add: word_chars.simps(2) arr_set_append uchars.simps(2) question_marks_def yk add.commute)
  next
    case False
    with step 2(2) show ?thesis
      by (simp add: word_chars.simps(2) arr_set_append uchars.simps(2) question_marks_def yk add.commute)
  qed
qed

text \<open>What \<^verbatim>\<open>word2int\<close> does with arrays of \<open>l\<close> elements.\<close>

lemma word2int_plain:
  assumes "glib_ok g" "g_utf8_validate g w"
  shows "word2int g ret None w = (if length (uchars g w) \<le> length ret
    then Some (int (length (uchars g w)), map fst (uchars g w) @ drop (length (uchars g w)) ret, None) else None)"
  using assms word_chars_plain [of g w "[]" ret] by (simp add: word2int_def glib_ok_def)

lemma word2int_marked:
  assumes "glib_ok g" "g_utf8_validate g w" "length w = l"
  shows "word2int g (replicate l 0) (Some (replicate l 0)) w = Some (int (length (uchars g w)),
    map fst (uchars g w) @ replicate (l - length (uchars g w)) 0,
    Some (question_marks (uchars g w) @ replicate (l - length (uchars g w)) 0))"
  using assms word_chars_marked [of g w "replicate l 0" l "[]" "[]"] length_uchars [of g w]
  by (simp add: word2int_def glib_ok_def)

subsection \<open>check finds the first suggestion that fits\<close>

text \<open>
  A suggestion fits when it has as many characters as the word, the same ones but for the question
  marks, and a letter that can be lost for each of those.
\<close>

definition fits_word :: "glib \<Rightarrow> string \<Rightarrow> string \<Rightarrow> bool" where
  "fits_word g word s \<longleftrightarrow> g_utf8_validate g s \<and> s \<noteq> []
     \<and> list_all2 (\<lambda>(u, c) (v, _). if c = question then lost_char g v else u = v) (uchars g word) (uchars g s)"

lemma agree_fits:
  assumes "length us = length vs"
  shows "agree g (question_marks us @ zs) (map fst us @ xs) (map fst vs @ ys) (int (length us))
    \<longleftrightarrow> list_all2 (\<lambda>(u, c) (v, _). if c = question then lost_char g v else u = v) us vs"
proof -
  have n: "(question_marks us @ zs) ! j = (if snd (us ! j) = question then 1 else 0)"
    "(map fst us @ xs) ! j = fst (us ! j)" "(map fst vs @ ys) ! j = fst (vs ! j)" if "j < length us" for j
    using that assms by (simp_all add: question_marks_def nth_append prod.case_eq_if)
  have "agree g (question_marks us @ zs) (map fst us @ xs) (map fst vs @ ys) (int (length us)) \<longleftrightarrow>
    (\<forall>j < length us. if snd (us ! j) = question then lost_char g (fst (vs ! j)) else fst (us ! j) = fst (vs ! j))"
    using n by (auto simp: agree_def list_all_iff)
  then show ?thesis using assms by (simp add: list_all2_conv_all_nth prod.case_eq_if)
qed

lemma try_suggestions_first:
  assumes "glib_ok g" "list_all (\<lambda>s. g_utf8_validate g s \<longrightarrow> length (uchars g s) \<le> l) sug" "length isug = l"
  shows "try_suggestions g (question_marks (uchars g word) @ zs) (map fst (uchars g word) @ xs) (int (length (uchars g word))) isug sug
    = Some (List.find (fits_word g word) sug)"
  using assms(2,3)
proof (induction sug arbitrary: isug)
  case (Cons s sug)
  let ?us = "uchars g word" and ?vs = "uchars g s"
  show ?case
  proof (cases "g_utf8_validate g s")
    case False
    then have "word2int g isug None s = Some (0, isug, None)" "\<not> fits_word g word s"
      by (simp_all add: word2int_def fits_word_def)
    with Cons show ?thesis by simp
  next
    case True
    let ?isug = "map fst ?vs @ drop (length ?vs) isug"
    have le: "length ?vs \<le> length isug" using True Cons.prems by simp
    then have w: "word2int g isug None s = Some (int (length ?vs), ?isug, None)"
      using word2int_plain [OF assms(1) True, of isug] by simp
    have "length ?isug = l" using le Cons.prems(2) by simp
    then have rest: "try_suggestions g (question_marks ?us @ zs) (map fst ?us @ xs) (int (length ?us)) ?isug sug
        = Some (List.find (fits_word g word) sug)"
      using Cons.IH [of ?isug] Cons.prems(1) by simp
    show ?thesis
    proof (cases "s = [] \<or> length ?us \<noteq> length ?vs")
      case True
      then have "\<not> fits_word g word s" by (auto simp: fits_word_def dest: list_all2_lengthD)
      with True w rest show ?thesis by auto
    next
      case False
      then have "fits_word g word s \<longleftrightarrow> agree g (question_marks ?us @ zs) (map fst ?us @ xs) ?isug (int (length ?us))"
        using agree_fits [of ?us ?vs g zs xs "drop (length ?vs) isug"] True by (simp add: fits_word_def)
      moreover have "?vs \<noteq> []" using False by (simp add: uchars_empty)
      ultimately show ?thesis using w rest False by simp
    qed
  qed
qed simp

text \<open>What \<^verbatim>\<open>check\<close> means to do.\<close>

definition check_spec :: "glib \<Rightarrow> hunspell \<Rightarrow> string \<Rightarrow> string" where
  "check_spec g h word =
     (if word = [question] then [CHR 0xD0, CHR 0xB8]
      else if Hunspell_spell h word \<or> question \<notin> set word \<or> \<not> g_utf8_validate g word then word
      else case List.find (fits_word g word) (Hunspell_suggest h word) of None \<Rightarrow> word | Some s \<Rightarrow> s)"

text \<open>The suggestions fit into the arrays, which are sized by the word.\<close>

definition sugs_fit :: "glib \<Rightarrow> hunspell \<Rightarrow> string \<Rightarrow> bool" where
  "sugs_fit g h word \<longleftrightarrow>
     list_all (\<lambda>s. g_utf8_validate g s \<longrightarrow> length (uchars g s) \<le> length word) (Hunspell_suggest h word)"

lemma check_meets_spec:
  assumes "glib_ok g" "sugs_fit g h word"
  shows "check g h word = Some (check_spec g h word)"
proof (cases "word = [question] \<or> Hunspell_spell h word \<or> question \<notin> set word \<or> Hunspell_suggest h word = []")
  case True
  then show ?thesis by (auto simp: check_def check_spec_def)
next
  case False
  show ?thesis
  proof (cases "g_utf8_validate g word")
    case invalid: False
    then have "word2int g r m word = Some (0, r, m)" for r m by (simp add: word2int_def)
    with False invalid show ?thesis by (simp add: check_def check_spec_def Let_def)
  next
    case True
    have "uchars g word \<noteq> []" using False by (auto simp: uchars_empty)
    with False True word2int_marked [OF assms(1) True refl]
      try_suggestions_first [OF assms(1) assms(2) [unfolded sugs_fit_def], of "replicate (length word) 0" word]
    show ?thesis by (simp add: check_def check_spec_def Let_def)
  qed
qed

text \<open>A suggestion with more characters than the word has bytes is written behind the array.\<close>

lemma check_overflows:
  assumes g: "glib_ok g" and word: "word \<noteq> [question]" "question \<in> set word" "g_utf8_validate g word" "\<not> Hunspell_spell h word"
    and sug: "Hunspell_suggest h word = s # ss" "g_utf8_validate g s" "length word < length (uchars g s)"
  shows "check g h word = None"
proof -
  have "word2int g (replicate (length word) 0) None s = None"
    using word2int_plain [OF g sug(2), of "replicate (length word) 0"] sug(3) by simp
  moreover have "uchars g word \<noteq> []" using word(2) by (auto simp: uchars_empty)
  ultimately show ?thesis
    using word sug(1) word2int_marked [OF g word(3) refl] by (simp add: check_def Let_def)
qed

subsection \<open>try\_convert stays inside its buffer\<close>

lemma length_c_str: "length (c_str w) \<le> length w"
  by (simp add: c_str_def length_takeWhile_le)

lemma recode_length:
  assumes "converts g" "recode g w = Some v"
  shows "length v \<le> 3 * length w"
proof -
  obtain a b c where abc: "g_convert g ''cp1251'' ''utf-8'' w = Some a" "g_convert g ''cp1251'' ''utf-8'' (c_str a) = Some b"
    "g_convert g ''utf-8'' ''cp1251'' (c_str b) = Some c" "v = c_str c"
    using assms(2) by (auto simp: recode_def split: bind_splits)
  have "length a \<le> length w" "length b \<le> length (c_str a)" "length c \<le> 3 * length (c_str b)"
    using assms(1) abc(1-3) unfolding converts_def by blast+
  then show ?thesis unfolding abc(4) using length_c_str [of a] length_c_str [of b] length_c_str [of c] by linarith
qed

text \<open>The room the tokens need, each with a question mark behind it.\<close>

definition room :: "string list \<Rightarrow> nat" where
  "room ts = sum_list (map (\<lambda>t. 3 * length t + 1) ts)"

lemma room_strtok_all: "room (strtok_all w) \<le> 4 * length w"
proof (induction w rule: strtok_all.induct)
  case (1 w)
  let ?v = "dropWhile (\<lambda>c. c = question) w"
  show ?case
  proof (cases "?v = []")
    case True
    then show ?thesis by (simp add: strtok_all.simps [of w] room_def)
  next
    case False
    let ?t = "takeWhile (\<lambda>c. c \<noteq> question) ?v" and ?r = "dropWhile (\<lambda>c. c \<noteq> question) ?v"
    have "hd ?v \<noteq> question" using False hd_dropWhile [of "\<lambda>c. c = question" w] by simp
    then have "?t \<noteq> []" using False by (cases ?v) simp_all
    then have "1 \<le> length ?t" by (cases ?t) simp_all
    moreover have "length ?t + length ?r = length ?v" using takeWhile_dropWhile_id [of _ ?v] by (metis length_append)
    moreover have "length ?v \<le> length w" by (simp add: length_dropWhile_le)
    moreover have "room (strtok_all ?r) \<le> 4 * length ?r" using 1 False by simp
    moreover have "room (strtok_all w) = 3 * length ?t + 1 + room (strtok_all ?r)"
      using False by (simp add: strtok_all.simps [of w] room_def Let_def)
    ultimately show ?thesis by linarith
  qed
qed

definition rejoin :: "string list \<Rightarrow> string" where
  "rejoin ts = concat (map (\<lambda>t. t @ [question]) ts)"

lemma recode_all_fits:
  assumes "converts g" "length buf + room ts < cap"
  shows "recode_all g cap ts buf = Some (map_option (\<lambda>vs. buf @ rejoin vs) (those (map (recode g) ts)))"
  using assms(2)
proof (induction ts arbitrary: buf)
  case (Cons t ts)
  show ?case
  proof (cases "recode g t")
    case (Some a)
    have "length a \<le> 3 * length t" using assms(1) Some by (rule recode_length)
    with Cons.prems have "length (buf @ a @ [question]) + room ts < cap" by (simp add: room_def)
    with Cons.IH [of "buf @ a @ [question]"] Some show ?thesis
      by (simp add: rejoin_def option.map_comp comp_def)
  qed simp
qed (simp add: rejoin_def)

lemma length_those: "those xs = Some ys \<Longrightarrow> length ys = length xs"
  by (induction xs arbitrary: ys) (auto split: option.splits)

text \<open>What \<^verbatim>\<open>try_convert\<close> computes, for the word as the scanner delivers it.\<close>

lemma try_convert_eq:
  assumes "converts g" "word \<noteq> []"
  shows "try_convert g h word =
    (if Hunspell_spell h word then Some word
     else case those (map (recode g) (strtok_all word)) of
       None \<Rightarrow> Some (strtok_cut word)
     | Some vs \<Rightarrow> check g h (if last word = question then rejoin vs else butlast (rejoin vs)))"
proof -
  have "length ([] :: string) + room (strtok_all word) < length word * 10"
    using room_strtok_all [of word] assms(2) by (cases word) simp_all
  note buf = recode_all_fits [OF assms(1) this]
  have "rejoin vs \<noteq> []" if "those (map (recode g) (strtok_all word)) = Some vs" "last word \<noteq> question" for vs
  proof -
    have "dropWhile (\<lambda>c. c = question) word \<noteq> []"
      using that(2) last_in_set [OF assms(2)] unfolding dropWhile_eq_Nil_conv by blast
    then have "strtok_all word \<noteq> []" unfolding strtok_all.simps [of word] by (simp add: Let_def del: dropWhile_eq_Nil_conv)
    moreover have "length vs = length (strtok_all word)"
      using length_those [OF that(1)] by simp
    ultimately show ?thesis by (cases vs) (auto simp: rejoin_def)
  qed
  then show ?thesis using buf assms(2) by (auto simp: try_convert_def Let_def split: option.split)
qed

text \<open>A word of question marks only is lost, and so is all that follows the first one in a word
  that cannot be converted.\<close>

lemma try_convert_questions:
  assumes "converts g" "0 < n" "\<not> Hunspell_spell h (replicate n question)"
  shows "try_convert g h (replicate n question) = Some []"
proof -
  have "strtok_all (replicate n question) = []" by (subst strtok_all.simps) (simp add: dropWhile_replicate)
  then show ?thesis
    using assms try_convert_eq [OF assms(1), of "replicate n question" h]
    by (simp add: check_def rejoin_def)
qed

lemma try_convert_truncates:
  assumes "converts g" "a \<noteq> []" "question \<notin> set a" "\<not> Hunspell_spell h (a @ question # b)"
    and "those (map (recode g) (strtok_all (a @ question # b))) = None"
  shows "try_convert g h (a @ question # b) = Some a"
proof -
  obtain c cs where a: "a = c # cs" "c \<noteq> question" using assms(2,3) by (cases a) auto
  then have "takeWhile (\<lambda>c. c = question) (a @ question # b) = []" "dropWhile (\<lambda>c. c = question) (a @ question # b) = a @ question # b"
    by simp_all
  then have "strtok_cut (a @ question # b) = a"
    using assms(3) by (simp add: strtok_cut_def takeWhile_append)
  then show ?thesis using assms try_convert_eq [OF assms(1), of "a @ question # b" h] by simp
qed

end
