(* ===== verification/Min_Heap.thy ===== *)
theory Min_Heap
  imports Libc "HOL-Library.Multiset"
begin

text \<open>
  libevent's queue of timeouts (\<^verbatim>\<open>contrib/libevent/min_heap.h\<close>): a binary heap of pointers to events in
  a growing array, in which every event remembers its place, so that it can be removed before its
  time. The abstract queue is the set of the events whose place is not -1.
\<close>

subsection \<open>Times\<close>

text \<open>A \<^verbatim>\<open>struct timeval\<close>, ordered by \<^verbatim>\<open>evutil_timercmp\<close>.\<close>

datatype timeval = Timeval (tv_sec: int) (tv_usec: int)

definition timer_greater :: "timeval \<Rightarrow> timeval \<Rightarrow> bool" where
  "timer_greater a b = (if tv_sec a = tv_sec b then tv_usec a > tv_usec b else tv_sec a > tv_sec b)"

instantiation timeval :: linorder
begin

definition less_timeval :: "timeval \<Rightarrow> timeval \<Rightarrow> bool" where
  "less_timeval a b = timer_greater b a"

definition less_eq_timeval :: "timeval \<Rightarrow> timeval \<Rightarrow> bool" where
  "less_eq_timeval a b = (\<not> timer_greater a b)"

instance
  by standard (auto simp: less_timeval_def less_eq_timeval_def timer_greater_def intro: timeval.expand split: if_splits)

end

subsection \<open>Code\<close>

text \<open>
  Events are numbers. The fields of the events that the heap uses are two functions: the time of an
  event, which does not change while it is in a heap, and its place, where \<^verbatim>\<open>(unsigned)-1\<close> is -1. The
  array \<open>mh_p\<close> has \<open>mh_a\<close> elements; the events are its first \<open>mh_n\<close>.
\<close>

type_synonym event = nat

record min_heap =
  mh_p :: "event list"
  mh_n :: nat
  mh_a :: nat

definition min_heap_ctor :: min_heap where
  "min_heap_ctor = \<lparr>mh_p = [], mh_n = 0, mh_a = 0\<rparr>"

definition min_heap_elem_init :: "event \<Rightarrow> (event \<Rightarrow> int) \<Rightarrow> (event \<Rightarrow> int)" where
  "min_heap_elem_init e idx = idx(e := - 1)"

definition min_heap_elem_greater :: "(event \<Rightarrow> timeval) \<Rightarrow> event \<Rightarrow> event \<Rightarrow> bool" where
  "min_heap_elem_greater tm a b = timer_greater (tm a) (tm b)"

definition min_heap_empty :: "min_heap \<Rightarrow> bool" where
  "min_heap_empty s \<longleftrightarrow> 0 = mh_n s"

definition min_heap_size :: "min_heap \<Rightarrow> nat" where
  "min_heap_size s = mh_n s"

definition min_heap_top :: "min_heap \<Rightarrow> event option option" where
  "min_heap_top s = (if mh_n s \<noteq> 0 then map_option Some (arr_get (mh_p s) 0) else Some None)"

text \<open>An event is put at a place of the array.\<close>

definition mh_place :: "event list \<Rightarrow> (event \<Rightarrow> int) \<Rightarrow> nat \<Rightarrow> event \<Rightarrow> (event list \<times> (event \<Rightarrow> int)) option" where
  "mh_place p idx i e = do { p \<leftarrow> arr_set p (int i) e; Some (p, idx(e := int i)) }"

function min_heap_shift_up :: "(event \<Rightarrow> timeval) \<Rightarrow> event list \<Rightarrow> (event \<Rightarrow> int) \<Rightarrow> nat \<Rightarrow> event
    \<Rightarrow> (event list \<times> (event \<Rightarrow> int)) option" where
  "min_heap_shift_up tm p idx hole e =
     (if hole \<noteq> 0 then
        (case arr_get p (int ((hole - 1) div 2)) of None \<Rightarrow> None
         | Some q \<Rightarrow>
             if min_heap_elem_greater tm q e then
               (case mh_place p idx hole q of None \<Rightarrow> None
                | Some (p, idx) \<Rightarrow> min_heap_shift_up tm p idx ((hole - 1) div 2) e)
             else mh_place p idx hole e)
      else mh_place p idx hole e)"
  by pat_completeness auto
termination by (relation "measure (\<lambda>(tm, p, idx, hole, e). hole)") auto

declare min_heap_shift_up.simps [simp del]

text \<open>The child that is taken: the second one, if there are two and it is not the greater.\<close>

definition min_child_of :: "(event \<Rightarrow> timeval) \<Rightarrow> event list \<Rightarrow> nat \<Rightarrow> nat \<Rightarrow> nat option" where
  "min_child_of tm p n c =
     (if c = n then Some (c - 1)
      else do {
        x \<leftarrow> arr_get p (int c);
        y \<leftarrow> arr_get p (int (c - 1));
        Some (if min_heap_elem_greater tm x y then c - 1 else c) })"

lemma min_child_of_range: "min_child_of tm p n c = Some m \<Longrightarrow> c - 1 \<le> m \<and> m \<le> c"
  by (auto simp: min_child_of_def split: if_splits bind_splits)

function min_heap_shift_down :: "(event \<Rightarrow> timeval) \<Rightarrow> nat \<Rightarrow> event list \<Rightarrow> (event \<Rightarrow> int) \<Rightarrow> nat \<Rightarrow> event
    \<Rightarrow> (event list \<times> (event \<Rightarrow> int)) option" where
  "min_heap_shift_down tm n p idx hole e =
     (if 2 * (hole + 1) \<le> n then
        (case min_child_of tm p n (2 * (hole + 1)) of None \<Rightarrow> None
         | Some c \<Rightarrow> (case arr_get p (int c) of None \<Rightarrow> None
             | Some q \<Rightarrow>
                 if \<not> min_heap_elem_greater tm e q then min_heap_shift_up tm p idx hole e
                 else (case mh_place p idx hole q of None \<Rightarrow> None
                    | Some (p, idx) \<Rightarrow> min_heap_shift_down tm n p idx c e)))
      else min_heap_shift_up tm p idx hole e)"
  by pat_completeness auto
termination by (relation "measure (\<lambda>(tm, n, p, idx, hole, e). n - hole)") (auto dest!: min_child_of_range)

declare min_heap_shift_down.simps [simp del]

text \<open>\<^verbatim>\<open>min_heap_reserve\<close>: the new elements of the array are what \<open>fr\<close> says.\<close>

definition min_heap_reserve :: "(nat \<Rightarrow> event) \<Rightarrow> min_heap \<Rightarrow> nat \<Rightarrow> bool list \<Rightarrow> int \<times> min_heap \<times> bool list" where
  "min_heap_reserve fr s n fs =
     (if mh_a s < n then
        let a = (if mh_a s \<noteq> 0 then mh_a s * 2 else 8);
            a = (if a < n then n else a);
            (ok, fs) = malloc_ok fs
        in if \<not> ok then (- 1, s, fs)
           else (0, s\<lparr>mh_p := mh_p s @ map fr [length (mh_p s)..<a], mh_a := a\<rparr>, fs)
      else (0, s, fs))"

definition min_heap_push :: "(nat \<Rightarrow> event) \<Rightarrow> (event \<Rightarrow> timeval) \<Rightarrow> min_heap \<Rightarrow> (event \<Rightarrow> int) \<Rightarrow> event \<Rightarrow> bool list
    \<Rightarrow> (int \<times> min_heap \<times> (event \<Rightarrow> int) \<times> bool list) option" where
  "min_heap_push fr tm s idx e fs =
     (let (err, s, fs) = min_heap_reserve fr s (mh_n s + 1) fs in
      if err \<noteq> 0 then Some (- 1, s, idx, fs)
      else do {
        (p, idx) \<leftarrow> min_heap_shift_up tm (mh_p s) idx (mh_n s) e;
        Some (0, s\<lparr>mh_p := p, mh_n := mh_n s + 1\<rparr>, idx, fs) })"

definition min_heap_pop :: "(event \<Rightarrow> timeval) \<Rightarrow> min_heap \<Rightarrow> (event \<Rightarrow> int) \<Rightarrow> (event option \<times> min_heap \<times> (event \<Rightarrow> int)) option" where
  "min_heap_pop tm s idx =
     (if mh_n s \<noteq> 0 then do {
        e \<leftarrow> arr_get (mh_p s) 0;
        let n = mh_n s - 1;
        x \<leftarrow> arr_get (mh_p s) (int n);
        (p, idx) \<leftarrow> min_heap_shift_down tm n (mh_p s) idx 0 x;
        Some (Some e, s\<lparr>mh_p := p, mh_n := n\<rparr>, idx(e := - 1)) }
      else Some (None, s, idx))"

definition min_heap_erase :: "(event \<Rightarrow> timeval) \<Rightarrow> min_heap \<Rightarrow> (event \<Rightarrow> int) \<Rightarrow> event \<Rightarrow> (int \<times> min_heap \<times> (event \<Rightarrow> int)) option" where
  "min_heap_erase tm s idx e =
     (if - 1 \<noteq> idx e then
        if mh_n s = 0 then None
        else do {
          let n = mh_n s - 1;
          x \<leftarrow> arr_get (mh_p s) (int n);
          (p, idx) \<leftarrow> min_heap_shift_down tm n (mh_p s) idx (nat (idx e)) x;
          Some (0, s\<lparr>mh_p := p, mh_n := n\<rparr>, idx(e := - 1)) }
      else Some (- 1, s, idx))"

subsection \<open>Heap order with a hole\<close>

abbreviation parent :: "nat \<Rightarrow> nat" where
  "parent i \<equiv> (i - 1) div 2"

text \<open>Every event is as late as its parent, but for the places in \<open>ex\<close>.\<close>

definition ordered_but :: "(nat \<Rightarrow> bool) \<Rightarrow> (event \<Rightarrow> timeval) \<Rightarrow> event list \<Rightarrow> nat \<Rightarrow> bool" where
  "ordered_but ex tm q m \<longleftrightarrow> (\<forall>i. 0 < i \<and> i < m \<and> \<not> ex i \<longrightarrow> tm (q ! parent i) \<le> tm (q ! i))"

text \<open>The children of a place are as late as its parent.\<close>

definition bridged :: "(event \<Rightarrow> timeval) \<Rightarrow> event list \<Rightarrow> nat \<Rightarrow> nat \<Rightarrow> bool" where
  "bridged tm q m h \<longleftrightarrow> (0 < h \<longrightarrow> (\<forall>c. 0 < c \<and> c < m \<and> parent c = h \<longrightarrow> tm (q ! parent h) \<le> tm (q ! c)))"

definition places_but :: "(nat \<Rightarrow> bool) \<Rightarrow> (event \<Rightarrow> int) \<Rightarrow> event list \<Rightarrow> nat \<Rightarrow> bool" where
  "places_but ex idx q m \<longleftrightarrow> (\<forall>i < m. \<not> ex i \<longrightarrow> idx (q ! i) = int i)"

text \<open>The result of a shift: the same events in heap order, each at its place; nothing else has changed.\<close>

definition shifted :: "(event \<Rightarrow> timeval) \<Rightarrow> nat \<Rightarrow> event list \<Rightarrow> (event \<Rightarrow> int) \<Rightarrow> event list \<times> (event \<Rightarrow> int) \<Rightarrow> bool" where
  "shifted tm m q idx r \<longleftrightarrow> (case r of (p', idx') \<Rightarrow> length p' = length q \<and> mset (take m p') = mset (take m q)
     \<and> drop m p' = drop m q \<and> ordered_but (\<lambda>_. False) tm p' m \<and> places_but (\<lambda>_. False) idx' p' m
     \<and> (\<forall>x. x \<notin> set (take m q) \<longrightarrow> idx' x = idx x))"

lemma mset_take_swap:
  assumes "i < m" "j < m" "m \<le> length q"
  shows "mset (take m (q[i := q ! j, j := q ! i])) = mset (take m q)"
  using assms mset_swap [of j "take m q" i] by (simp add: take_update_swap)

lemma shifted_swap:
  assumes "shifted tm m (q[i := q ! j, j := q ! i]) idx' r" "i < m" "j < m" "m \<le> length q"
    and "\<And>x. x \<notin> set (take m q) \<Longrightarrow> idx' x = idx x"
  shows "shifted tm m q idx r"
proof -
  have "mset (take m (q[i := q ! j, j := q ! i])) = mset (take m q)" using assms(2-4) by (rule mset_take_swap)
  then have "set (take m (q[i := q ! j, j := q ! i])) = set (take m q)" by (rule mset_eq_setD)
  moreover have "drop m (q[i := q ! j, j := q ! i]) = drop m q" using assms(2,3) by simp
  ultimately show ?thesis
    using assms(1,5) mset_take_swap [OF assms(2-4)] by (auto simp: shifted_def)
qed

lemma nth_distinct:
  assumes "distinct (take m q)" "m \<le> length q" "i < m" "j < m"
  shows "q ! i = q ! j \<longleftrightarrow> i = j"
  using assms nth_eq_iff_index_eq [OF assms(1), of i j] by simp

lemma elem_greater_less: "min_heap_elem_greater tm a b \<longleftrightarrow> tm b < tm a"
  by (simp add: min_heap_elem_greater_def less_timeval_def)

text \<open>The event \<open>e\<close> is put at the hole, where it is in order.\<close>

lemma place_shifted:
  assumes "hole < m" "m \<le> length p" "distinct (take m (p[hole := e]))" "places_but (\<lambda>i. i = hole) idx (p[hole := e]) m"
    and "ordered_but (\<lambda>_. False) tm (p[hole := e]) m"
  shows "\<exists>r. mh_place p idx hole e = Some r \<and> shifted tm m (p[hole := e]) idx r"
proof -
  let ?q = "p[hole := e]"
  have e: "e \<in> set (take m ?q)" using assms(1,2) by (auto simp: in_set_conv_nth intro!: exI [of _ hole])
  have "places_but (\<lambda>_. False) (idx(e := int hole)) ?q m"
    unfolding places_but_def
  proof (intro allI impI)
    fix i assume i: "i < m"
    show "(idx(e := int hole)) (?q ! i) = int i"
      using assms(4) i assms(1,2) nth_distinct [OF assms(3) _ i assms(1)] by (cases "i = hole") (auto simp: places_but_def)
  qed
  with assms e show ?thesis by (auto simp: mh_place_def shifted_def)
qed

lemma shift_up_ok:
  assumes "hole < m" "m \<le> length p" "distinct (take m (p[hole := e]))" "places_but (\<lambda>i. i = hole) idx (p[hole := e]) m"
    and "ordered_but (\<lambda>i. i = hole) tm (p[hole := e]) m" "bridged tm (p[hole := e]) m hole"
  shows "\<exists>r. min_heap_shift_up tm p idx hole e = Some r \<and> shifted tm m (p[hole := e]) idx r"
  using assms
proof (induction hole arbitrary: p idx rule: less_induct)
  case (less hole)
  let ?q = "p[hole := e]" and ?par = "parent hole"
  show ?case
  proof (cases "hole = 0")
    case True
    then have "ordered_but (\<lambda>_. False) tm ?q m" using less.prems(5) by (auto simp: ordered_but_def)
    from place_shifted [OF less.prems(1-4) this] True show ?thesis by (simp add: min_heap_shift_up.simps)
  next
    case False
    then have par: "?par < hole" "?par < m" "?par < length p" using less.prems(1,2) by auto
    then have get: "arr_get p (int ?par) = Some (p ! ?par)" "?q ! ?par = p ! ?par" "?q ! hole = e"
      using less.prems(1,2) by simp_all
    show ?thesis
    proof (cases "tm e < tm (p ! ?par)")
      case in_order: False
      have "ordered_but (\<lambda>_. False) tm ?q m"
        unfolding ordered_but_def
      proof (intro allI impI)
        fix i assume "0 < i \<and> i < m \<and> \<not> False"
        then show "tm (?q ! parent i) \<le> tm (?q ! i)"
          using less.prems(5) in_order get(2,3) by (cases "i = hole") (simp_all add: ordered_but_def del: nth_list_update_neq)
      qed
      from place_shifted [OF less.prems(1-4) this] False in_order get(1) show ?thesis
        by (simp add: min_heap_shift_up.simps [of _ _ _ hole] elem_greater_less)
    next
      case True
      let ?p1 = "p[hole := p ! ?par]" and ?idx1 = "idx(p ! ?par := int hole)"
      let ?q1 = "?p1[?par := e]"
      have q1: "?q1 = ?q[hole := ?q ! ?par, ?par := ?q ! hole]" using par get by simp
      have at: "?q1 ! hole = p ! ?par" "?q1 ! ?par = e" "\<And>i. i \<noteq> hole \<Longrightarrow> i \<noteq> ?par \<Longrightarrow> ?q1 ! i = ?q ! i"
        using par less.prems(1,2) by (simp_all add: nth_list_update)
      have dist: "distinct (take m ?q1)"
        unfolding q1 using mset_take_swap [OF less.prems(1) par(2), of ?q] less.prems(2,3)
        by (metis length_list_update mset_eq_imp_distinct_iff)
      have places: "places_but (\<lambda>i. i = ?par) ?idx1 ?q1 m"
        unfolding places_but_def
      proof (intro allI impI)
        fix i assume i: "i < m" "i \<noteq> ?par"
        show "?idx1 (?q1 ! i) = int i"
        proof (cases "i = hole")
          case other: False
          have "?q ! i \<noteq> p ! ?par" using nth_distinct [OF less.prems(3) _ i(1) par(2)] less.prems(2) i(2) get(2) by simp
          then show ?thesis using less.prems(4) at(3) other i by (simp add: places_but_def)
        qed (use at(1) in simp)
      qed
      have below: "tm (p ! ?par) \<le> tm (?q ! i)" if "0 < i" "i < m" "parent i = ?par" "i \<noteq> hole" for i
        using less.prems(5) that get(2) by (auto simp: ordered_but_def)
      have order: "ordered_but (\<lambda>i. i = ?par) tm ?q1 m"
        unfolding ordered_but_def
      proof (intro allI impI)
        fix i assume i: "0 < i \<and> i < m \<and> i \<noteq> ?par"
        consider "i = hole" | "i \<noteq> hole" "parent i = hole" | "i \<noteq> hole" "parent i = ?par" | "i \<noteq> hole" "parent i \<noteq> hole" "parent i \<noteq> ?par"
          by blast
        then show "tm (?q1 ! parent i) \<le> tm (?q1 ! i)"
        proof cases
          case 1
          then show ?thesis using True at(1,2) by simp
        next
          case 2
          have "?q1 ! i = ?q ! i" by (rule at(3)) (use 2 i in blast)+
          moreover have "tm (?q ! ?par) \<le> tm (?q ! i)" using less.prems(6) i 2 False unfolding bridged_def by blast
          ultimately show ?thesis unfolding 2(2) at(1) get(2) by (simp only:)
        next
          case 3
          have "?q1 ! i = ?q ! i" by (rule at(3)) (use 3 i in blast)+
          moreover have "tm (p ! ?par) \<le> tm (?q ! i)" using below i 3 by blast
          ultimately show ?thesis unfolding 3(2) at(2) using True by (metis order.strict_trans2 less_imp_le)
        next
          case 4
          have "?q1 ! i = ?q ! i" by (rule at(3)) (use 4 i in blast)+
          moreover have "?q1 ! parent i = ?q ! parent i" by (rule at(3)) (use 4 in blast)+
          moreover have "tm (?q ! parent i) \<le> tm (?q ! i)" using less.prems(5) i 4(1) unfolding ordered_but_def by blast
          ultimately show ?thesis by (simp only:)
        qed
      qed
      have bridge: "bridged tm ?q1 m ?par"
        unfolding bridged_def
      proof (intro impI allI)
        fix c assume p0: "0 < ?par" and c: "0 < c \<and> c < m \<and> parent c = ?par"
        have up: "tm (?q ! parent ?par) \<le> tm (p ! ?par)"
          using less.prems(5) p0 par get(2) by (auto simp: ordered_but_def)
        have pp: "?q1 ! parent ?par = ?q ! parent ?par" using p0 par(1) by (intro at(3)) linarith+
        show "tm (?q1 ! parent ?par) \<le> tm (?q1 ! c)"
        proof (cases "c = hole")
          case c_other: False
          have "c \<noteq> ?par" using c p0 by linarith
          then show ?thesis using pp up below [of c] c c_other at(3) [of c] by (metis order_trans)
        qed (use pp up at(1) in simp)
      qed
      have "\<exists>r. min_heap_shift_up tm ?p1 ?idx1 ?par e = Some r \<and> shifted tm m ?q1 ?idx1 r"
        by (rule less.IH [OF par(1,2) _ dist places order bridge]) (use less.prems(2) in simp)
      then obtain r where r: "min_heap_shift_up tm ?p1 ?idx1 ?par e = Some r" "shifted tm m ?q1 ?idx1 r" by blast
      have "p ! ?par \<in> set (take m ?q)"
        using par(2) less.prems(2) get(2) by (auto simp: in_set_conv_nth intro!: exI [of _ ?par])
      then have "shifted tm m ?q idx r"
        using r(2) less.prems(1,2) par(2) unfolding q1 by (intro shifted_swap [of tm m ?q hole ?par ?idx1]) auto
      moreover have "mh_place p idx hole (p ! ?par) = Some (?p1, ?idx1)"
        using less.prems(1,2) by (simp add: mh_place_def)
      ultimately show ?thesis
        using r(1) False get(1) True by (simp add: min_heap_shift_up.simps [of _ p _ hole] elem_greater_less)
    qed
  qed
qed

text \<open>The smaller of the children of a place that has one.\<close>

lemma min_child_of_ok:
  assumes "2 * (hole + 1) \<le> m" "m \<le> length p"
  obtains c where "min_child_of tm p m (2 * (hole + 1)) = Some c" "0 < c" "c < m" "hole < c" "parent c = hole"
    "\<And>d. 0 < d \<Longrightarrow> d < m \<Longrightarrow> parent d = hole \<Longrightarrow> tm (p ! c) \<le> tm (p ! d)"
proof -
  have kids: "d = 2 * hole + 1 \<or> d = 2 * hole + 2" if "0 < d" "parent d = hole" for d using that by presburger
  show thesis
  proof (cases "2 * (hole + 1) = m")
    case True
    then show thesis using that [of "2 * hole + 1"] kids by (fastforce simp: min_child_of_def)
  next
    case False
    let ?c = "if tm (p ! (2 * hole + 1)) < tm (p ! (2 * hole + 2)) then 2 * hole + 1 else 2 * hole + 2"
    have "min_child_of tm p m (2 * (hole + 1)) = Some ?c"
      using False assms by (simp add: min_child_of_def elem_greater_less add.commute nat_add_distrib nat_mult_distrib)
    then show thesis
    proof (rule that)
      fix d assume "0 < d" "d < m" "parent d = hole"
      then have "d = 2 * hole + 1 \<or> d = 2 * hole + 2" by (intro kids)
      then show "tm (p ! ?c) \<le> tm (p ! d)" by auto
    qed (use False assms(1) in auto)
  qed
qed

lemma shift_down_ok:
  assumes "hole < m" "m \<le> length p" "distinct (take m (p[hole := e]))" "places_but (\<lambda>i. i = hole) idx (p[hole := e]) m"
    and "ordered_but (\<lambda>i. i = hole \<or> parent i = hole) tm (p[hole := e]) m" "bridged tm (p[hole := e]) m hole"
  shows "\<exists>r. min_heap_shift_down tm m p idx hole e = Some r \<and> shifted tm m (p[hole := e]) idx r"
  using assms
proof (induction "m - hole" arbitrary: p idx hole rule: less_induct)
  case less
  let ?q = "p[hole := e]"
  have at_hole: "?q ! hole = e" using less.prems(1,2) by simp
  have up: ?case if stop: "min_heap_shift_down tm m p idx hole e = min_heap_shift_up tm p idx hole e"
    and kids: "\<And>i. 0 < i \<Longrightarrow> i < m \<Longrightarrow> parent i = hole \<Longrightarrow> i \<noteq> hole \<Longrightarrow> tm e \<le> tm (?q ! i)"
  proof -
    have "ordered_but (\<lambda>i. i = hole) tm ?q m"
      unfolding ordered_but_def
    proof (intro allI impI)
      fix i assume i: "0 < i \<and> i < m \<and> i \<noteq> hole"
      then show "tm (?q ! parent i) \<le> tm (?q ! i)"
        using less.prems(5) kids [of i] at_hole by (cases "parent i = hole") (simp_all add: ordered_but_def del: nth_list_update_neq)
    qed
    from shift_up_ok [OF less.prems(1-4) this less.prems(6)] stop show ?thesis by simp
  qed
  show ?case
  proof (cases "2 * (hole + 1) \<le> m")
    case False
    show ?thesis
    proof (rule up)
      show "min_heap_shift_down tm m p idx hole e = min_heap_shift_up tm p idx hole e"
        using False by (simp add: min_heap_shift_down.simps)
      fix i assume "0 < i" "i < m" "parent i = hole"
      then show "tm e \<le> tm (?q ! i)" using False by presburger
    qed
  next
    case True
    obtain c where c: "min_child_of tm p m (2 * (hole + 1)) = Some c" "0 < c" "c < m" "hole < c" "parent c = hole"
      and least: "\<And>d. 0 < d \<Longrightarrow> d < m \<Longrightarrow> parent d = hole \<Longrightarrow> tm (p ! c) \<le> tm (p ! d)"
      using min_child_of_ok [OF True less.prems(2), of tm] by blast
    have get: "arr_get p (int c) = Some (p ! c)" "?q ! c = p ! c" using c(3,4) less.prems(2) by simp_all
    show ?thesis
    proof (cases "tm (p ! c) < tm e")
      case False
      show ?thesis
      proof (rule up)
        show "min_heap_shift_down tm m p idx hole e = min_heap_shift_up tm p idx hole e"
          using True False c(1) get(1) by (simp add: min_heap_shift_down.simps [of _ _ _ _ hole] elem_greater_less)
        fix i assume "0 < i" "i < m" "parent i = hole" "i \<noteq> hole"
        then show "tm e \<le> tm (?q ! i)" using least [of i] False by simp
      qed
    next
      case smaller: True
      let ?p1 = "p[hole := p ! c]" and ?idx1 = "idx(p ! c := int hole)"
      let ?q1 = "?p1[c := e]"
      have lens: "hole < length p" "c < length p" using less.prems(1,2) c(3) by simp_all
      have q1: "?q1 = ?q[hole := ?q ! c, c := ?q ! hole]" using lens at_hole get(2) by simp
      have at: "?q1 ! hole = p ! c" "?q1 ! c = e" "\<And>i. i \<noteq> hole \<Longrightarrow> i \<noteq> c \<Longrightarrow> ?q1 ! i = ?q ! i"
        using lens c(4) by (simp_all add: nth_list_update)
      have dist: "distinct (take m ?q1)"
        unfolding q1 using mset_take_swap [OF less.prems(1) c(3), of ?q] less.prems(2,3)
        by (metis length_list_update mset_eq_imp_distinct_iff)
      have places: "places_but (\<lambda>i. i = c) ?idx1 ?q1 m"
        unfolding places_but_def
      proof (intro allI impI)
        fix i assume i: "i < m" "i \<noteq> c"
        show "?idx1 (?q1 ! i) = int i"
        proof (cases "i = hole")
          case other: False
          have "?q ! i \<noteq> p ! c" using nth_distinct [OF less.prems(3) _ i(1) c(3)] less.prems(2) i(2) get(2) by simp
          then show ?thesis using less.prems(4) at(3) other i by (simp add: places_but_def)
        qed (use at(1) in simp)
      qed
      have order: "ordered_but (\<lambda>i. i = c \<or> parent i = c) tm ?q1 m"
        unfolding ordered_but_def
      proof (intro allI impI)
        fix i assume i: "0 < i \<and> i < m \<and> \<not> (i = c \<or> parent i = c)"
        consider "i = hole" | "i \<noteq> hole" "parent i = hole" | "i \<noteq> hole" "parent i \<noteq> hole" by blast
        then show "tm (?q1 ! parent i) \<le> tm (?q1 ! i)"
        proof cases
          case 1
          then have "tm (?q ! parent hole) \<le> tm (?q ! c)" using less.prems(6) c(2,3,5) i unfolding bridged_def by blast
          moreover have "parent hole \<noteq> hole" "parent hole \<noteq> c" using 1 i c(4) by linarith+
          then have "?q1 ! parent hole = ?q ! parent hole" by (rule at(3))
          ultimately show ?thesis unfolding 1 at(1) get(2) by (simp only:)
        next
          case 2
          have "?q1 ! i = p ! i" using i 2(1) at(3) [of i] by simp
          then show ?thesis unfolding 2(2) at(1) using least [of i] i 2 by (simp only:)
        next
          case 3
          have "?q1 ! i = ?q ! i" by (rule at(3)) (use 3 i in blast)+
          moreover have "?q1 ! parent i = ?q ! parent i" by (rule at(3)) (use 3 i in blast)+
          moreover have "tm (?q ! parent i) \<le> tm (?q ! i)" using less.prems(5) i 3 unfolding ordered_but_def by blast
          ultimately show ?thesis by (simp only:)
        qed
      qed
      have bridge: "bridged tm ?q1 m c"
        unfolding bridged_def
      proof (intro impI allI)
        fix d assume d: "0 < d \<and> d < m \<and> parent d = c"
        then have "d \<noteq> c" "d \<noteq> hole" "parent d \<noteq> hole" using c(2,4) by linarith+
        then have "tm (?q ! c) \<le> tm (?q ! d)" "?q1 ! d = ?q ! d"
          using less.prems(5) d at(3) [of d] unfolding ordered_but_def by blast+
        then show "tm (?q1 ! parent c) \<le> tm (?q1 ! d)" unfolding c(5) at(1) get(2) by (simp only:)
      qed
      have "\<exists>r. min_heap_shift_down tm m ?p1 ?idx1 c e = Some r \<and> shifted tm m ?q1 ?idx1 r"
        by (rule less.hyps [OF _ c(3) _ dist places order bridge]) (use c(3,4) less.prems(2) in simp_all)
      then obtain r where r: "min_heap_shift_down tm m ?p1 ?idx1 c e = Some r" "shifted tm m ?q1 ?idx1 r" by blast
      have "p ! c \<in> set (take m ?q)"
        using c(3) less.prems(2) get(2) by (auto simp: in_set_conv_nth intro!: exI [of _ c])
      then have "shifted tm m ?q idx r"
        using r(2) less.prems(1,2) c(3) unfolding q1 by (intro shifted_swap [of tm m ?q hole c ?idx1]) auto
      moreover have "mh_place p idx hole (p ! c) = Some (?p1, ?idx1)"
        using lens by (simp add: mh_place_def)
      ultimately show ?thesis
        using r(1) True c(1) get(1) smaller by (simp add: min_heap_shift_down.simps [of _ _ p _ hole] elem_greater_less)
    qed
  qed
qed

subsection \<open>The queue\<close>

text \<open>
  The invariant of a heap: the array has room, every event is in heap order, at the place it remembers,
  and no other event has a place. The queue is the set of events with a place.
\<close>

definition heap_ok :: "(event \<Rightarrow> timeval) \<Rightarrow> min_heap \<Rightarrow> (event \<Rightarrow> int) \<Rightarrow> bool" where
  "heap_ok tm s idx \<longleftrightarrow> length (mh_p s) = mh_a s \<and> mh_n s \<le> mh_a s
     \<and> ordered_but (\<lambda>_. False) tm (mh_p s) (mh_n s) \<and> places_but (\<lambda>_. False) idx (mh_p s) (mh_n s)
     \<and> (\<forall>x. idx x \<noteq> - 1 \<longrightarrow> x \<in> set (take (mh_n s) (mh_p s)))"

definition queued :: "(event \<Rightarrow> int) \<Rightarrow> event set" where
  "queued idx = {x. idx x \<noteq> - 1}"

lemma places_nth: "places_but (\<lambda>_. False) idx p m \<Longrightarrow> i < m \<Longrightarrow> idx (p ! i) = int i"
  by (simp add: places_but_def)

lemma places_distinct: "places_but (\<lambda>_. False) idx p m \<Longrightarrow> m \<le> length p \<Longrightarrow> distinct (take m p)"
  unfolding distinct_conv_nth by (metis (no_types, lifting) length_take min.absorb2 nth_take of_nat_eq_iff places_nth)

lemma heap_ok_queued:
  assumes "heap_ok tm s idx"
  shows "queued idx = set (take (mh_n s) (mh_p s))"
  using assms by (fastforce simp: heap_ok_def queued_def in_set_conv_nth dest: places_nth)

lemma heap_ok_ctor: "heap_ok tm min_heap_ctor (\<lambda>_. - 1)" "queued (\<lambda>_. - 1) = {}"
  by (simp_all add: heap_ok_def min_heap_ctor_def ordered_but_def places_but_def queued_def)

lemma heap_ok_empty: "heap_ok tm s idx \<Longrightarrow> mh_n s = 0 \<longleftrightarrow> queued idx = {}"
  using heap_ok_queued [of tm s idx] by (auto simp: heap_ok_def)

text \<open>The first event is the earliest.\<close>

lemma ordered_top:
  assumes "ordered_but (\<lambda>_. False) tm p m" "i < m"
  shows "tm (p ! 0) \<le> tm (p ! i)"
  using assms(2)
proof (induction i rule: less_induct)
  case (less i)
  show ?case
  proof (cases "i = 0")
    case False
    then have "tm (p ! 0) \<le> tm (p ! parent i)" using less by simp
    also have "\<dots> \<le> tm (p ! i)" using assms(1) less.prems False by (auto simp: ordered_but_def)
    finally show ?thesis .
  qed simp
qed

lemma min_heap_top_ok:
  assumes "heap_ok tm s idx"
  shows "if queued idx = {} then min_heap_top s = Some None
    else \<exists>e \<in> queued idx. min_heap_top s = Some (Some e) \<and> (\<forall>x \<in> queued idx. tm e \<le> tm x)"
proof (cases "mh_n s = 0")
  case True
  then show ?thesis using heap_ok_empty [OF assms] by (simp add: min_heap_top_def)
next
  case False
  have s: "mh_n s \<le> length (mh_p s)" "ordered_but (\<lambda>_. False) tm (mh_p s) (mh_n s)" using assms by (simp_all add: heap_ok_def)
  have "tm (mh_p s ! 0) \<le> tm x" if "x \<in> queued idx" for x
    using that ordered_top [OF s(2)] heap_ok_queued [OF assms] by (auto simp: in_set_conv_nth)
  moreover have "mh_p s ! 0 \<in> queued idx"
    using False s(1) heap_ok_queued [OF assms] by (auto simp: in_set_conv_nth intro!: exI [of _ 0])
  moreover have "min_heap_top s = Some (Some (mh_p s ! 0))" proof -
    have "0 < length (mh_p s)" using False s(1) by linarith
    then show ?thesis using False by (simp add: min_heap_top_def)
  qed
  ultimately show ?thesis using False heap_ok_empty [OF assms] by auto
qed

text \<open>What a shift leaves of the events outside.\<close>

lemma shifted_set: "shifted tm m q idx (p', idx') \<Longrightarrow> set (take m p') = set (take m q)"
  by (auto simp: shifted_def dest: mset_eq_setD)

lemma min_heap_push_ok:
  assumes "heap_ok tm s idx" "idx e = - 1"
  shows "(\<exists>s' idx' fs'. min_heap_push fr tm s idx e fs = Some (0, s', idx', fs') \<and> heap_ok tm s' idx'
      \<and> queued idx' = insert e (queued idx))
    \<or> (\<exists>fs'. min_heap_push fr tm s idx e fs = Some (- 1, s, idx, fs') \<and> 0 < failing fs)"
proof -
  let ?n = "mh_n s"
  have old: "mh_n s \<le> mh_a s" "length (mh_p s) = mh_a s" "ordered_but (\<lambda>_. False) tm (mh_p s) ?n"
    "places_but (\<lambda>_. False) idx (mh_p s) ?n" using assms(1) by (simp_all add: heap_ok_def)
  have step: "\<exists>s' idx'. min_heap_push fr tm s idx e fs = Some (0, s', idx', fs') \<and> heap_ok tm s' idx' \<and> queued idx' = insert e (queued idx)"
    if room: "min_heap_reserve fr s (?n + 1) fs = (0, s1, fs')" "mh_n s1 = ?n" "length (mh_p s1) = mh_a s1" "?n < mh_a s1"
      "take ?n (mh_p s1) = take ?n (mh_p s)" for s1 fs'
  proof -
    let ?q = "(mh_p s1)[?n := e]"
    have same: "mh_p s1 ! i = mh_p s ! i" if "i < ?n" for i using room(5) that by (metis nth_take)
    have tq: "take (?n + 1) ?q = take ?n (mh_p s) @ [e]"
      using room(3-5) by (simp add: take_Suc_conv_app_nth)
    have "e \<notin> set (take ?n (mh_p s))" using heap_ok_queued [OF assms(1)] assms(2) by (auto simp: queued_def)
    moreover have "distinct (take ?n (mh_p s))" using old by (intro places_distinct) simp_all
    ultimately have dist: "distinct (take (?n + 1) ?q)" unfolding tq by simp
    have places: "places_but (\<lambda>i. i = ?n) idx ?q (?n + 1)" using old(4) same by (auto simp: places_but_def less_Suc_eq)
    have order: "ordered_but (\<lambda>i. i = ?n) tm ?q (?n + 1)"
      unfolding ordered_but_def
    proof (intro allI impI)
      fix i assume "0 < i \<and> i < ?n + 1 \<and> i \<noteq> ?n"
      then have i: "0 < i" "i < ?n" "parent i < ?n" by auto
      then show "tm (?q ! parent i) \<le> tm (?q ! i)" using old(3) same by (simp add: ordered_but_def)
    qed
    have bridge: "bridged tm ?q (?n + 1) ?n" unfolding bridged_def by (intro impI allI) linarith
    have "\<exists>r. min_heap_shift_up tm (mh_p s1) idx ?n e = Some r \<and> shifted tm (?n + 1) ?q idx r"
      by (rule shift_up_ok) (use room(3,4) dist places order bridge in simp_all)
    then obtain p' idx' where r: "min_heap_shift_up tm (mh_p s1) idx ?n e = Some (p', idx')" "shifted tm (?n + 1) ?q idx (p', idx')" by auto
    have set: "set (take (?n + 1) p') = insert e (queued idx)"
      using shifted_set [OF r(2)] tq heap_ok_queued [OF assms(1)] by simp
    have sh: "length p' = mh_a s1" "ordered_but (\<lambda>_. False) tm p' (?n + 1)" "places_but (\<lambda>_. False) idx' p' (?n + 1)"
      "\<And>x. x \<notin> insert e (queued idx) \<Longrightarrow> idx' x = idx x"
      using r(2) room(3) set shifted_set [OF r(2)] by (auto simp: shifted_def)
    have "heap_ok tm (s1\<lparr>mh_p := p', mh_n := ?n + 1\<rparr>) idx'"
      using sh room(4) set by (auto simp: heap_ok_def queued_def simp del: take_Suc)
    moreover from heap_ok_queued [OF this] have "queued idx' = insert e (queued idx)" using set by simp
    moreover have "min_heap_push fr tm s idx e fs = Some (0, s1\<lparr>mh_p := p', mh_n := ?n + 1\<rparr>, idx', fs')"
      using room(1,2) r(1) by (simp add: min_heap_push_def)
    ultimately show ?thesis by blast
  qed
  show ?thesis
  proof (cases "mh_a s < ?n + 1")
    case False
    then show ?thesis using step [of s fs] old(1,2) by (auto simp: min_heap_reserve_def)
  next
    case True
    define a where "a = (let a = if mh_a s \<noteq> 0 then mh_a s * 2 else 8 in if a < ?n + 1 then ?n + 1 else a)"
    have a: "?n < a" "mh_a s \<le> a" using True by (auto simp: a_def Let_def)
    show ?thesis
    proof (cases rule: malloc_ok_cases [of fs])
      case (ok fs')
      then have "min_heap_reserve fr s (?n + 1) fs = (0, s\<lparr>mh_p := mh_p s @ map fr [length (mh_p s)..<a], mh_a := a\<rparr>, fs')"
        using True by (simp add: min_heap_reserve_def a_def Let_def)
      then show ?thesis using step a old(1,2) by fastforce
    next
      case (fail fs')
      then have "min_heap_push fr tm s idx e fs = Some (- 1, s, idx, fs')"
        using True by (simp add: min_heap_push_def min_heap_reserve_def Let_def)
      with fail show ?thesis by blast
    qed
  qed
qed

text \<open>The last event is shifted down from the place of the one that is removed.\<close>

lemma fill_with_last:
  assumes "heap_ok tm s idx" "h < m" "mh_n s = Suc m"
  defines "q \<equiv> (mh_p s)[h := mh_p s ! m]"
  shows "distinct (take m q)" "places_but (\<lambda>i. i = h) idx q m" "bridged tm q m h"
    "ordered_but (\<lambda>i. i = h \<or> parent i = h) tm q m" "set (take m q) = queued idx - {mh_p s ! h}"
proof -
  let ?p = "mh_p s"
  have p: "Suc m \<le> length ?p" "ordered_but (\<lambda>_. False) tm ?p (Suc m)" "places_but (\<lambda>_. False) idx ?p (Suc m)"
    using assms(1,3) by (simp_all add: heap_ok_def)
  have q: "q ! i = ?p ! (if i = h then m else i)" if "i < m" for i
    using that p(1) by (simp add: q_def nth_list_update)
  have idx: "idx (?p ! i) = int i" if "i < Suc m" for i using p(3) that by (rule places_nth)
  have idx_q: "idx (q ! i) = int (if i = h then m else i)" if "i < m" for i using idx q that by simp
  have len: "length (take m q) = m" using p(1) by (simp add: q_def)
  show "distinct (take m q)"
    unfolding distinct_conv_nth len
  proof (intro allI impI)
    fix i j assume ij: "i < m" "j < m" "i \<noteq> j"
    then have "idx (q ! i) \<noteq> idx (q ! j)" using idx_q by auto
    then show "take m q ! i \<noteq> take m q ! j" using ij by auto
  qed
  show "places_but (\<lambda>i. i = h) idx q m" using idx_q by (auto simp: places_but_def)
  have up: "tm (?p ! parent i) \<le> tm (?p ! i)" if "0 < i" "i < m" for i using p(2) that by (simp add: ordered_but_def)
  show "bridged tm q m h"
    unfolding bridged_def
  proof (intro impI allI)
    fix c assume h: "0 < h" and c: "0 < c \<and> c < m \<and> parent c = h"
    then have "c \<noteq> h" "parent h \<noteq> h" "parent h < m" using assms(2) by linarith+
    then have "q ! c = ?p ! c" "q ! parent h = ?p ! parent h" using q [of c] q [of "parent h"] c by simp_all
    moreover have "tm (?p ! parent h) \<le> tm (?p ! h)" "tm (?p ! parent c) \<le> tm (?p ! c)" using up h c assms(2) by blast+
    ultimately show "tm (q ! parent h) \<le> tm (q ! c)" using c by (metis order_trans)
  qed
  show "ordered_but (\<lambda>i. i = h \<or> parent i = h) tm q m"
    unfolding ordered_but_def
  proof (intro allI impI)
    fix i assume i: "0 < i \<and> i < m \<and> \<not> (i = h \<or> parent i = h)"
    then have "parent i < m" by linarith
    then have "q ! i = ?p ! i" "q ! parent i = ?p ! parent i" using q [of i] q [of "parent i"] i by simp_all
    then show "tm (q ! parent i) \<le> tm (q ! i)" using up i by simp
  qed
  have tp: "take (Suc m) ?p = take m ?p @ [?p ! m]" using p(1) by (simp add: take_Suc_conv_app_nth)
  have "distinct (take (Suc m) ?p)" using p(3,1) by (rule places_distinct)
  then have dist: "distinct (take m ?p)" "?p ! m \<notin> set (take m ?p)" unfolding tp by simp_all
  have h: "h < length (take m ?p)" "take m ?p ! h = ?p ! h" using assms(2) p(1) by simp_all
  have "set (take m q) = insert (?p ! m) (set (take m ?p) - {?p ! h})"
    using set_update_distinct [OF dist(1) h(1), of "?p ! m"] h(2) by (simp add: q_def take_update_swap)
  moreover have "queued idx = insert (?p ! m) (set (take m ?p))"
    using heap_ok_queued [OF assms(1)] unfolding assms(3) tp by simp
  moreover have "?p ! m \<noteq> ?p ! h" using dist(2) h nth_mem [OF h(1)] by auto
  ultimately show "set (take m q) = queued idx - {?p ! h}" by auto
qed

text \<open>Both ways to take an event out of the heap.\<close>

lemma remove_place:
  assumes "heap_ok tm s idx" "h \<le> m" "mh_n s = Suc m"
  obtains p' idx' where "min_heap_shift_down tm m (mh_p s) idx h (mh_p s ! m) = Some (p', idx')"
    "heap_ok tm (s\<lparr>mh_p := p', mh_n := m\<rparr>) (idx'(mh_p s ! h := - 1))"
    "queued (idx'(mh_p s ! h := - 1)) = queued idx - {mh_p s ! h}"
proof -
  note result = that
  let ?p = "mh_p s" and ?e = "mh_p s ! h"
  have p: "length ?p = mh_a s" "Suc m \<le> mh_a s" "ordered_but (\<lambda>_. False) tm ?p (Suc m)" "places_but (\<lambda>_. False) idx ?p (Suc m)"
    using assms(1,3) by (simp_all add: heap_ok_def)
  have queue: "queued idx = set (take (Suc m) ?p)" using heap_ok_queued [OF assms(1)] assms(3) by simp
  have finish: thesis
    if r: "min_heap_shift_down tm m ?p idx h (?p ! m) = Some (p', idx')"
      and p': "length p' = mh_a s" "ordered_but (\<lambda>_. False) tm p' m" "places_but (\<lambda>_. False) idx' p' m"
        "set (take m p') = queued idx - {?e}" "\<And>x. x \<notin> queued idx - {?e} \<Longrightarrow> x \<noteq> ?e \<Longrightarrow> idx' x = idx x" for p' idx'
  proof -
    have "p' ! i \<noteq> ?e" if "i < m" for i
    proof -
      have "p' ! i \<in> set (take m p')" using that p'(1) p(2) by (auto simp: in_set_conv_nth)
      then show ?thesis using p'(4) by simp
    qed
    then have "places_but (\<lambda>_. False) (idx'(?e := - 1)) p' m" using p'(3) by (simp add: places_but_def)
    moreover have "x \<in> set (take m p')" if "(idx'(?e := - 1)) x \<noteq> - 1" for x
      using that p'(4) p'(5) [of x] by (auto simp: queued_def split: if_splits)
    ultimately have ok: "heap_ok tm (s\<lparr>mh_p := p', mh_n := m\<rparr>) (idx'(?e := - 1))"
      using p'(1,2) p(2) by (simp add: heap_ok_def)
    from result [OF r ok] heap_ok_queued [OF ok] p'(4) show thesis by simp
  qed
  show thesis
  proof (cases "h = m")
    case True
    have e: "?p ! m = ?e" "idx ?e = int m" "?p[m := ?e] = ?p" "m < length ?p" using True p places_nth [OF p(4), of m] by simp_all
    have "idx(?e := int m) = idx" using e(2) by auto
    moreover have "\<not> tm ?e < tm (?p ! parent m)" if "m \<noteq> 0"
      using p(3) that True by (auto simp: ordered_but_def not_less)
    ultimately have "min_heap_shift_up tm ?p idx m ?e = Some (?p, idx)"
      using e(3,4) by (auto simp: min_heap_shift_up.simps [of _ _ _ m] mh_place_def elem_greater_less)
    then have "min_heap_shift_down tm m ?p idx h (?p ! m) = Some (?p, idx)" using True by (simp add: min_heap_shift_down.simps)
    then show thesis
    proof (rule finish)
      have "distinct (take (Suc m) ?p)" using p by (intro places_distinct [OF p(4)]) simp
      then show "set (take m ?p) = queued idx - {?e}" unfolding queue using e(4) True by (auto simp: take_Suc_conv_app_nth)
    qed (use p in \<open>auto simp: ordered_but_def places_but_def\<close>)
  next
    case False
    then have h: "h < m" using assms(2) by simp
    note fill = fill_with_last [OF assms(1) h assms(3)]
    obtain p' idx' where r: "min_heap_shift_down tm m ?p idx h (?p ! m) = Some (p', idx')" "shifted tm m (?p[h := ?p ! m]) idx (p', idx')"
      using shift_down_ok [OF h _ fill(1,2,4,3)] p(1,2) by fastforce
    show thesis
      by (rule finish [OF r(1)]) (use r(2) shifted_set [OF r(2)] fill(5) p(1) in \<open>auto simp: shifted_def\<close>)
  qed
qed

lemma min_heap_pop_ok:
  assumes "heap_ok tm s idx"
  shows "if queued idx = {} then min_heap_pop tm s idx = Some (None, s, idx)
    else \<exists>e s' idx'. min_heap_pop tm s idx = Some (Some e, s', idx') \<and> heap_ok tm s' idx'
      \<and> e \<in> queued idx \<and> (\<forall>x \<in> queued idx. tm e \<le> tm x) \<and> queued idx' = queued idx - {e}"
proof (cases "mh_n s")
  case 0
  then show ?thesis using heap_ok_empty [OF assms] by (simp add: min_heap_pop_def)
next
  case (Suc m)
  have ne: "queued idx \<noteq> {}" using Suc heap_ok_empty [OF assms] by simp
  have len: "m < length (mh_p s)" "0 < length (mh_p s)" using Suc assms by (auto simp: heap_ok_def)
  obtain e where e: "e \<in> queued idx" "min_heap_top s = Some (Some e)" "\<forall>x \<in> queued idx. tm e \<le> tm x"
    using min_heap_top_ok [OF assms] ne by auto
  then have top: "e = mh_p s ! 0" using Suc len by (simp add: min_heap_top_def)
  obtain p' idx' where r: "min_heap_shift_down tm m (mh_p s) idx 0 (mh_p s ! m) = Some (p', idx')"
    "heap_ok tm (s\<lparr>mh_p := p', mh_n := m\<rparr>) (idx'(mh_p s ! 0 := - 1))"
    "queued (idx'(mh_p s ! 0 := - 1)) = queued idx - {mh_p s ! 0}"
    using remove_place [OF assms _ Suc, of 0] by blast
  then have "min_heap_pop tm s idx = Some (Some e, s\<lparr>mh_p := p', mh_n := m\<rparr>, idx'(e := - 1))"
    using Suc len top by (simp add: min_heap_pop_def Let_def)
  with r(2,3) e(1,3) ne top show ?thesis by auto
qed

lemma min_heap_erase_ok:
  assumes "heap_ok tm s idx"
  shows "if e \<in> queued idx then \<exists>s' idx'. min_heap_erase tm s idx e = Some (0, s', idx') \<and> heap_ok tm s' idx' \<and> queued idx' = queued idx - {e}
    else min_heap_erase tm s idx e = Some (- 1, s, idx)"
proof (cases "e \<in> queued idx")
  case True
  then obtain h where h: "h < mh_n s" "mh_p s ! h = e"
    using heap_ok_queued [OF assms] by (auto simp: in_set_conv_nth)
  then obtain m where m: "mh_n s = Suc m" "h \<le> m" by (cases "mh_n s") auto
  have "idx e = int h" using assms h by (auto simp: heap_ok_def places_nth)
  moreover have "m < length (mh_p s)" using m assms by (simp add: heap_ok_def)
  moreover obtain p' idx' where "min_heap_shift_down tm m (mh_p s) idx h (mh_p s ! m) = Some (p', idx')"
    "heap_ok tm (s\<lparr>mh_p := p', mh_n := m\<rparr>) (idx'(e := - 1))" "queued (idx'(e := - 1)) = queued idx - {e}"
    using remove_place [OF assms m(2,1)] unfolding h(2) by blast
  ultimately show ?thesis using True m by (auto simp: min_heap_erase_def Let_def)
qed (simp add: min_heap_erase_def queued_def)

subsection \<open>Events in the order of their times\<close>

text \<open>Taking events out of a queue until it is empty, \<open>n\<close> at most.\<close>

fun pop_all :: "('q \<Rightarrow> (event option \<times> 'q) option) \<Rightarrow> nat \<Rightarrow> 'q \<Rightarrow> (event list \<times> 'q) option" where
  "pop_all pop 0 q = Some ([], q)"
| "pop_all pop (Suc n) q = do {
     (e, q) \<leftarrow> pop q;
     case e of None \<Rightarrow> Some ([], q)
     | Some e \<Rightarrow> do { (es, q) \<leftarrow> pop_all pop n q; Some (e # es, q) } }"

locale timeout_queue =
  fixes ok :: "'q \<Rightarrow> bool" and events :: "'q \<Rightarrow> event set" and tm :: "event \<Rightarrow> timeval"
    and pop :: "'q \<Rightarrow> (event option \<times> 'q) option"
  assumes events_finite: "ok q \<Longrightarrow> finite (events q)"
    and pop_empty: "ok q \<Longrightarrow> events q = {} \<Longrightarrow> pop q = Some (None, q)"
    and pop_least: "ok q \<Longrightarrow> events q \<noteq> {} \<Longrightarrow> \<exists>e q'. pop q = Some (Some e, q') \<and> ok q' \<and> e \<in> events q
      \<and> (\<forall>x \<in> events q. tm e \<le> tm x) \<and> events q' = events q - {e}"
begin

lemma pop_all_sorted:
  assumes "ok q" "card (events q) \<le> n"
  shows "\<exists>es q'. pop_all pop n q = Some (es, q') \<and> ok q' \<and> events q' = {} \<and> set es = events q \<and> distinct es
    \<and> sorted (map tm es)"
  using assms
proof (induction n arbitrary: q)
  case 0
  then show ?case using events_finite [OF 0(1)] by simp
next
  case (Suc n)
  show ?case
  proof (cases "events q = {}")
    case True
    then show ?thesis using pop_empty [OF Suc.prems(1)] Suc.prems(1) by simp
  next
    case False
    obtain e q1 where e: "pop q = Some (Some e, q1)" "ok q1" "e \<in> events q" "\<forall>x \<in> events q. tm e \<le> tm x"
      "events q1 = events q - {e}" using pop_least [OF Suc.prems(1) False] by blast
    have "card (events q1) \<le> n"
      using e(3,5) Suc.prems(2) card_Suc_Diff1 [OF events_finite [OF Suc.prems(1)] e(3)] by simp
    then obtain es q' where rest: "pop_all pop n q1 = Some (es, q')" "ok q'" "events q' = {}" "set es = events q1" "distinct es"
      "sorted (map tm es)" using Suc.IH [OF e(2)] by blast
    have "\<forall>x \<in> set es. tm e \<le> tm x" "e \<notin> set es" using rest(4) e(4,5) by auto
    with e rest show ?thesis by (intro exI [of _ "e # es"] exI [of _ q']) (auto simp: e(3,5))
  qed
qed

end

definition heap_pop :: "(event \<Rightarrow> timeval) \<Rightarrow> min_heap \<times> (event \<Rightarrow> int) \<Rightarrow> (event option \<times> min_heap \<times> (event \<Rightarrow> int)) option" where
  "heap_pop tm q = min_heap_pop tm (fst q) (snd q)"

lemma heap_pop_least:
  assumes "heap_ok tm (fst q) (snd q)" "queued (snd q) \<noteq> {}"
  shows "\<exists>e q'. heap_pop tm q = Some (Some e, q') \<and> heap_ok tm (fst q') (snd q') \<and> e \<in> queued (snd q)
    \<and> (\<forall>x \<in> queued (snd q). tm e \<le> tm x) \<and> queued (snd q') = queued (snd q) - {e}"
  using min_heap_pop_ok [OF assms(1)] assms(2) by (auto simp: heap_pop_def)

interpretation timeouts: timeout_queue "\<lambda>q. heap_ok tm (fst q) (snd q)" "\<lambda>q. queued (snd q)" tm "heap_pop tm" for tm
proof
  fix q
  assume ok: "heap_ok tm (fst q) (snd q)"
  show "finite (queued (snd q))" using heap_ok_queued [OF ok] by simp
  show "queued (snd q) = {} \<Longrightarrow> heap_pop tm q = Some (None, q)"
    using min_heap_pop_ok [OF ok] by (simp add: heap_pop_def)
  show "queued (snd q) \<noteq> {} \<Longrightarrow> \<exists>e q'. heap_pop tm q = Some (Some e, q') \<and> heap_ok tm (fst q') (snd q') \<and> e \<in> queued (snd q)
    \<and> (\<forall>x \<in> queued (snd q). tm e \<le> tm x) \<and> queued (snd q') = queued (snd q) - {e}"
    by (rule heap_pop_least [OF ok])
qed

end
