(* ===== verification/Event_Queue.thy ===== *)
theory Event_Queue
  imports Min_Heap
begin

text \<open>
  libevent's base of events (\<^verbatim>\<open>contrib/libevent/event.c\<close>): the list of the events whose descriptors are
  watched, the heap of those that wait for a time, and the queues, one for each priority, of those
  whose callbacks are due. An event knows by its flags where it is.
\<close>

subsection \<open>Data\<close>

text \<open>Masks of flags are sets: \<open>EVLIST_\<close> for the places of an event, \<open>EV_\<close> for what it waits for.\<close>

datatype evlist = EVLIST_TIMEOUT | EVLIST_INSERTED | EVLIST_SIGNAL | EVLIST_ACTIVE | EVLIST_INTERNAL | EVLIST_INIT

datatype ev_what = EV_TIMEOUT | EV_READ | EV_WRITE | EV_SIGNAL | EV_PERSIST

text \<open>
  A \<^verbatim>\<open>struct event\<close> without its links, callback and place in the heap. \<open>ev_in_base\<close> says that \<^verbatim>\<open>ev_base\<close> is
  not null. \<^verbatim>\<open>ev_pncalls\<close> is null or the address of the counter of the loop that runs the callbacks.
\<close>

record event_data =
  ev_in_base :: bool
  ev_fd :: int
  ev_events :: "ev_what set"
  ev_ncalls :: int
  ev_pncalls :: bool
  ev_timeout :: timeval
  ev_pri :: int
  ev_res :: "ev_what set"
  ev_flags :: "evlist set"

text \<open>
  A \<^verbatim>\<open>struct event_base\<close> with the events (\<open>evs\<close>), their places in the heap (\<open>ev_idx\<close>), the counter of the
  running loop (\<open>ncalls\<close>, absent when none runs) and the allocations to come. A \<^verbatim>\<open>TAILQ\<close> is a list.
\<close>

record event_base =
  evs :: "event \<Rightarrow> event_data"
  ev_idx :: "event \<Rightarrow> int"
  ncalls :: "int option"
  event_count :: int
  event_count_active :: int
  event_gotterm :: bool
  event_break :: bool
  activequeues :: "event list list"
  nactivequeues :: int
  eventqueue :: "event list"
  event_tv :: timeval
  timeheap :: min_heap
  tv_cache :: timeval
  base_faults :: "bool list"

abbreviation ev_flags_of :: "event_base \<Rightarrow> event \<Rightarrow> evlist set" where
  "ev_flags_of B e \<equiv> ev_flags (evs B e)"

abbreviation ev_times :: "event_base \<Rightarrow> event \<Rightarrow> timeval" where
  "ev_times B \<equiv> \<lambda>e. ev_timeout (evs B e)"

definition ev_upd :: "(event_data \<Rightarrow> event_data) \<Rightarrow> event \<Rightarrow> event_base \<Rightarrow> event_base" where
  "ev_upd f e B = B\<lparr>evs := (evs B)(e := f (evs B e))\<rparr>"

text \<open>A step is undefined, or ends the process with a status, or has a result.\<close>

type_synonym 'a run = "(int + 'a) option"

definition and_then :: "'a run \<Rightarrow> ('a \<Rightarrow> 'b run) \<Rightarrow> 'b run" where
  "and_then m f = (case m of None \<Rightarrow> None | Some (Inl c) \<Rightarrow> Some (Inl c) | Some (Inr x) \<Rightarrow> f x)"

lemma and_then_simps [simp]:
  "and_then None f = None" "and_then (Some (Inl c)) f = Some (Inl c)" "and_then (Some (Inr x)) f = f x"
  by (simp_all add: and_then_def)

subsection \<open>Times\<close>

definition timer_add :: "timeval \<Rightarrow> timeval \<Rightarrow> timeval" where
  "timer_add a b = (let s = tv_sec a + tv_sec b; u = tv_usec a + tv_usec b in
     if u \<ge> 1000000 then Timeval (s + 1) (u - 1000000) else Timeval s u)"

definition timer_sub :: "timeval \<Rightarrow> timeval \<Rightarrow> timeval" where
  "timer_sub a b = (let s = tv_sec a - tv_sec b; u = tv_usec a - tv_usec b in
     if u < 0 then Timeval (s - 1) (u + 1000000) else Timeval s u)"

text \<open>\<^verbatim>\<open>gettime\<close>: the cached time, or what the clock says, which may fail.\<close>

definition gettime :: "timeval option \<Rightarrow> event_base \<Rightarrow> timeval option" where
  "gettime clk B = (if tv_sec (tv_cache B) \<noteq> 0 then Some (tv_cache B) else clk)"

subsection \<open>Queues\<close>

text \<open>Unlinking an element that is not in the list is undefined.\<close>

definition tailq_remove :: "event \<Rightarrow> event list \<Rightarrow> event list option" where
  "tailq_remove e q = (if e \<in> set q then Some (remove1 e q) else None)"

definition event_queue_remove :: "event_base \<Rightarrow> event \<Rightarrow> evlist \<Rightarrow> event_base run" where
  "event_queue_remove B e queue =
     (if queue \<notin> ev_flags_of B e then Some (Inl 1)
      else let B = (if EVLIST_INTERNAL \<notin> ev_flags_of B e then B\<lparr>event_count := event_count B - 1\<rparr> else B);
               B = ev_upd (\<lambda>d. d\<lparr>ev_flags := ev_flags d - {queue}\<rparr>) e B
      in case queue of
        EVLIST_INSERTED \<Rightarrow> do { q \<leftarrow> tailq_remove e (eventqueue B); Some (Inr (B\<lparr>eventqueue := q\<rparr>)) }
      | EVLIST_ACTIVE \<Rightarrow> do {
          q \<leftarrow> arr_get (activequeues B) (ev_pri (evs B e));
          q \<leftarrow> tailq_remove e q;
          qs \<leftarrow> arr_set (activequeues B) (ev_pri (evs B e)) q;
          Some (Inr (B\<lparr>event_count_active := event_count_active B - 1, activequeues := qs\<rparr>)) }
      | EVLIST_TIMEOUT \<Rightarrow> do {
          (_, h, idx) \<leftarrow> min_heap_erase (ev_times B) (timeheap B) (ev_idx B) e;
          Some (Inr (B\<lparr>timeheap := h, ev_idx := idx\<rparr>)) }
      | _ \<Rightarrow> Some (Inl 1))"

text \<open>The result of \<^verbatim>\<open>min_heap_push\<close> is not looked at. \<open>fr\<close> are the new elements of a grown heap.\<close>

definition event_queue_insert :: "(nat \<Rightarrow> event) \<Rightarrow> event_base \<Rightarrow> event \<Rightarrow> evlist \<Rightarrow> event_base run" where
  "event_queue_insert fr B e queue =
     (if queue \<in> ev_flags_of B e then (if queue = EVLIST_ACTIVE then Some (Inr B) else Some (Inl 1))
      else let B = (if EVLIST_INTERNAL \<notin> ev_flags_of B e then B\<lparr>event_count := event_count B + 1\<rparr> else B);
               B = ev_upd (\<lambda>d. d\<lparr>ev_flags := insert queue (ev_flags d)\<rparr>) e B
      in case queue of
        EVLIST_INSERTED \<Rightarrow> Some (Inr (B\<lparr>eventqueue := eventqueue B @ [e]\<rparr>))
      | EVLIST_ACTIVE \<Rightarrow> do {
          q \<leftarrow> arr_get (activequeues B) (ev_pri (evs B e));
          qs \<leftarrow> arr_set (activequeues B) (ev_pri (evs B e)) (q @ [e]);
          Some (Inr (B\<lparr>event_count_active := event_count_active B + 1, activequeues := qs\<rparr>)) }
      | EVLIST_TIMEOUT \<Rightarrow> do {
          (_, h, idx, fs) \<leftarrow> min_heap_push fr (ev_times B) (timeheap B) (ev_idx B) e (base_faults B);
          Some (Inr (B\<lparr>timeheap := h, ev_idx := idx, base_faults := fs\<rparr>)) }
      | _ \<Rightarrow> Some (Inl 1))"

subsection \<open>Events\<close>

text \<open>\<open>current\<close>: whether \<^verbatim>\<open>current_base\<close> is this base, or null.\<close>

definition event_set :: "bool \<Rightarrow> event \<Rightarrow> int \<Rightarrow> ev_what set \<Rightarrow> event_base \<Rightarrow> event_base" where
  "event_set current e fd events B =
     (let B = ev_upd (\<lambda>d. d\<lparr>ev_in_base := current, ev_fd := fd, ev_events := events, ev_res := {}, ev_flags := {EVLIST_INIT},
                ev_ncalls := 0, ev_pncalls := False\<rparr>) e B;
          B = B\<lparr>ev_idx := min_heap_elem_init e (ev_idx B)\<rparr>
      in if current then ev_upd (\<lambda>d. d\<lparr>ev_pri := nactivequeues B div 2\<rparr>) e B else B)"

definition event_base_set :: "event \<Rightarrow> event_base \<Rightarrow> int \<times> event_base" where
  "event_base_set e B =
     (if ev_flags_of B e \<noteq> {EVLIST_INIT} then (- 1, B)
      else (0, ev_upd (\<lambda>d. d\<lparr>ev_in_base := True, ev_pri := nactivequeues B div 2\<rparr>) e B))"

definition event_priority_set :: "event \<Rightarrow> int \<Rightarrow> event_base \<Rightarrow> (int \<times> event_base) option" where
  "event_priority_set e pri B =
     (if EVLIST_ACTIVE \<in> ev_flags_of B e then Some (- 1, B)
      else if pri < 0 then Some (- 1, B)
      else if \<not> ev_in_base (evs B e) then None
      else if pri \<ge> nactivequeues B then Some (- 1, B)
      else Some (0, ev_upd (\<lambda>d. d\<lparr>ev_pri := pri\<rparr>) e B))"

text \<open>What of \<open>events\<close> is pending, and, when asked for, the real time at which the timeout is due.\<close>

definition event_pending :: "timeval option \<Rightarrow> timeval option \<Rightarrow> event_base \<Rightarrow> event \<Rightarrow> ev_what set \<Rightarrow> bool
    \<Rightarrow> (ev_what set \<times> timeval option) option" where
  "event_pending clk real B e events tv =
     (let flags = (if EVLIST_INSERTED \<in> ev_flags_of B e then ev_events (evs B e) \<inter> {EV_READ, EV_WRITE, EV_SIGNAL} else {})
            \<union> (if EVLIST_ACTIVE \<in> ev_flags_of B e then ev_res (evs B e) else {})
            \<union> (if EVLIST_TIMEOUT \<in> ev_flags_of B e then {EV_TIMEOUT} else {});
          events = events \<inter> {EV_TIMEOUT, EV_READ, EV_WRITE, EV_SIGNAL}
      in if tv \<and> EV_TIMEOUT \<in> flags \<inter> events then
           if \<not> ev_in_base (evs B e) then None
           else do {
             now \<leftarrow> gettime clk B;
             let res = timer_sub (ev_timeout (evs B e)) now;
             now \<leftarrow> real;
             Some (flags \<inter> events, Some (timer_add now res)) }
         else Some (flags \<inter> events, None))"

text \<open>\<open>*ev->ev_pncalls = 0\<close>: undefined when the loop that owned the counter has ended.\<close>

definition abort_loop :: "event \<Rightarrow> event_base \<Rightarrow> event_base run" where
  "abort_loop e B =
     (if ev_ncalls (evs B e) \<noteq> 0 \<and> ev_pncalls (evs B e) then
        (if ncalls B = None then None else Some (Inr (B\<lparr>ncalls := Some 0\<rparr>)))
      else Some (Inr B))"

text \<open>The methods of the poll mechanism: their results for an event.\<close>

record eventop =
  evsel_add :: "event \<Rightarrow> int"
  evsel_del :: "event \<Rightarrow> int"

text \<open>The second half of \<^verbatim>\<open>event_add\<close>: the timeout is set anew.\<close>

definition schedule :: "(nat \<Rightarrow> event) \<Rightarrow> timeval option \<Rightarrow> event \<Rightarrow> timeval \<Rightarrow> event_base \<Rightarrow> event_base run" where
  "schedule fr clk e tv B =
     and_then (if EVLIST_TIMEOUT \<in> ev_flags_of B e then event_queue_remove B e EVLIST_TIMEOUT else Some (Inr B)) (\<lambda>B.
     and_then (if EVLIST_ACTIVE \<in> ev_flags_of B e \<and> EV_TIMEOUT \<in> ev_res (evs B e) then
         and_then (abort_loop e B) (\<lambda>B. event_queue_remove B e EVLIST_ACTIVE) else Some (Inr B)) (\<lambda>B.
     case gettime clk B of None \<Rightarrow> None
     | Some now \<Rightarrow> event_queue_insert fr (ev_upd (\<lambda>d. d\<lparr>ev_timeout := timer_add now tv\<rparr>) e B) e EVLIST_TIMEOUT))"

definition event_add :: "(nat \<Rightarrow> event) \<Rightarrow> eventop \<Rightarrow> timeval option \<Rightarrow> event_base \<Rightarrow> event \<Rightarrow> timeval option \<Rightarrow> (int \<times> event_base) run" where
  "event_add fr evsel clk B e tv =
     (if \<not> ev_in_base (evs B e) then None
      else let (err, h, fs) = (if tv \<noteq> None \<and> EVLIST_TIMEOUT \<notin> ev_flags_of B e
                 then min_heap_reserve fr (timeheap B) (1 + min_heap_size (timeheap B)) (base_faults B)
                 else (0, timeheap B, base_faults B));
               B = B\<lparr>timeheap := h, base_faults := fs\<rparr>
      in if err = - 1 then Some (Inr (- 1, B))
      else let watch = ev_events (evs B e) \<inter> {EV_READ, EV_WRITE, EV_SIGNAL} \<noteq> {}
                 \<and> ev_flags_of B e \<inter> {EVLIST_INSERTED, EVLIST_ACTIVE} = {};
               res = (if watch then evsel_add evsel e else 0)
      in and_then (if watch \<and> res \<noteq> - 1 then event_queue_insert fr B e EVLIST_INSERTED else Some (Inr B)) (\<lambda>B.
         case tv of None \<Rightarrow> Some (Inr (res, B))
         | Some tv \<Rightarrow> if res \<noteq> - 1 then and_then (schedule fr clk e tv B) (\<lambda>B. Some (Inr (res, B))) else Some (Inr (res, B))))"

definition event_del :: "eventop \<Rightarrow> event_base \<Rightarrow> event \<Rightarrow> (int \<times> event_base) run" where
  "event_del evsel B e =
     (if \<not> ev_in_base (evs B e) then Some (Inr (- 1, B))
      else and_then (abort_loop e B) (\<lambda>B.
        and_then (if EVLIST_TIMEOUT \<in> ev_flags_of B e then event_queue_remove B e EVLIST_TIMEOUT else Some (Inr B)) (\<lambda>B.
        and_then (if EVLIST_ACTIVE \<in> ev_flags_of B e then event_queue_remove B e EVLIST_ACTIVE else Some (Inr B)) (\<lambda>B.
        if EVLIST_INSERTED \<in> ev_flags_of B e
        then and_then (event_queue_remove B e EVLIST_INSERTED) (\<lambda>B. Some (Inr (evsel_del evsel e, B)))
        else Some (Inr (0, B))))))"

definition event_active :: "(nat \<Rightarrow> event) \<Rightarrow> event_base \<Rightarrow> event \<Rightarrow> ev_what set \<Rightarrow> int \<Rightarrow> event_base run" where
  "event_active fr B e res n =
     (if EVLIST_ACTIVE \<in> ev_flags_of B e then Some (Inr (ev_upd (\<lambda>d. d\<lparr>ev_res := ev_res d \<union> res\<rparr>) e B))
      else if \<not> ev_in_base (evs B e) then None
      else event_queue_insert fr (ev_upd (\<lambda>d. d\<lparr>ev_res := res, ev_ncalls := n, ev_pncalls := False\<rparr>) e B) e EVLIST_ACTIVE)"

definition event_haveevents :: "event_base \<Rightarrow> bool" where
  "event_haveevents B \<longleftrightarrow> event_count B > 0"

subsection \<open>Timeouts\<close>

text \<open>\<^verbatim>\<open>timeout_next\<close>: how long to wait for descriptors; \<open>Some None\<close> is for ever. The times must not be negative.\<close>

definition timeout_next :: "timeval option \<Rightarrow> event_base \<Rightarrow> (int \<times> timeval option) option" where
  "timeout_next clk B = do {
     top \<leftarrow> min_heap_top (timeheap B);
     case top of None \<Rightarrow> Some (0, None)
     | Some e \<Rightarrow>
         (case gettime clk B of None \<Rightarrow> Some (- 1, None)
          | Some now \<Rightarrow>
              if \<not> timer_greater (ev_timeout (evs B e)) now then Some (0, Some (Timeval 0 0))
              else let tv = timer_sub (ev_timeout (evs B e)) now in
                if tv_sec tv \<ge> 0 \<and> tv_usec tv \<ge> 0 then Some (0, Some tv) else None) }"

text \<open>The loop of \<^verbatim>\<open>timeout_correct\<close> over the array of the heap.\<close>

definition timeout_correct :: "bool \<Rightarrow> timeval option \<Rightarrow> event_base \<Rightarrow> event_base option" where
  "timeout_correct monotonic clk B =
     (if monotonic then Some B
      else do {
        tv \<leftarrow> gettime clk B;
        if \<not> timer_greater (event_tv B) tv then Some (B\<lparr>event_tv := tv\<rparr>)
        else let off = timer_sub (event_tv B) tv in
          if mh_n (timeheap B) \<le> length (mh_p (timeheap B))
          then Some (fold (ev_upd (\<lambda>d. d\<lparr>ev_timeout := timer_sub (ev_timeout d) off\<rparr>)) (take (mh_n (timeheap B)) (mh_p (timeheap B))) B)
          else None })"

partial_function (option) timeout_loop :: "(nat \<Rightarrow> event) \<Rightarrow> eventop \<Rightarrow> timeval \<Rightarrow> event_base \<Rightarrow> event_base run" where
  "timeout_loop fr evsel now B =
     (case min_heap_top (timeheap B) of None \<Rightarrow> None
      | Some None \<Rightarrow> Some (Inr B)
      | Some (Some e) \<Rightarrow>
          if timer_greater (ev_timeout (evs B e)) now then Some (Inr B)
          else (case and_then (event_del evsel B e) (\<lambda>(_, B). event_active fr B e {EV_TIMEOUT} 1) of None \<Rightarrow> None
             | Some (Inl c) \<Rightarrow> Some (Inl c)
             | Some (Inr B) \<Rightarrow> timeout_loop fr evsel now B))"

definition timeout_process :: "(nat \<Rightarrow> event) \<Rightarrow> eventop \<Rightarrow> timeval option \<Rightarrow> event_base \<Rightarrow> event_base run" where
  "timeout_process fr evsel clk B =
     (if min_heap_empty (timeheap B) then Some (Inr B)
      else (case gettime clk B of None \<Rightarrow> None | Some now \<Rightarrow> timeout_loop fr evsel now B))"

subsection \<open>Callbacks\<close>

text \<open>
  \<^verbatim>\<open>event_process_active\<close>: a callback is a step on the base. The inner loop runs the callback of an event
  as often as it is due; it says whether the function is to return at once.
\<close>

type_synonym callback = "event \<Rightarrow> event_base \<Rightarrow> event_base run"

partial_function (option) run_calls :: "callback \<Rightarrow> event \<Rightarrow> event_base \<Rightarrow> (bool \<times> event_base) run" where
  "run_calls cb e B =
     (case ncalls B of None \<Rightarrow> None
      | Some n \<Rightarrow>
          if n \<noteq> 0 then
            (case cb e (ev_upd (\<lambda>d. d\<lparr>ev_ncalls := n - 1\<rparr>) e (B\<lparr>ncalls := Some (n - 1)\<rparr>)) of None \<Rightarrow> None
             | Some (Inl c) \<Rightarrow> Some (Inl c)
             | Some (Inr B) \<Rightarrow> if event_break B then Some (Inr (True, B)) else run_calls cb e B)
          else Some (Inr (False, B)))"

partial_function (option) run_queue :: "eventop \<Rightarrow> callback \<Rightarrow> nat \<Rightarrow> event_base \<Rightarrow> event_base run" where
  "run_queue evsel cb i B =
     (case arr_get (activequeues B) (int i) of None \<Rightarrow> None
      | Some [] \<Rightarrow> Some (Inr B)
      | Some (e # _) \<Rightarrow>
          (case (if EV_PERSIST \<in> ev_events (evs B e) then event_queue_remove B e EVLIST_ACTIVE
                 else and_then (event_del evsel B e) (\<lambda>(_, B). Some (Inr B))) of None \<Rightarrow> None
           | Some (Inl c) \<Rightarrow> Some (Inl c)
           | Some (Inr B) \<Rightarrow>
               (case run_calls cb e (ev_upd (\<lambda>d. d\<lparr>ev_pncalls := True\<rparr>) e (B\<lparr>ncalls := Some (ev_ncalls (evs B e))\<rparr>)) of None \<Rightarrow> None
                | Some (Inl c) \<Rightarrow> Some (Inl c)
                | Some (Inr (stop, B)) \<Rightarrow> if stop then Some (Inr B) else run_queue evsel cb i B)))"

text \<open>There must be an active event. The counter is a local variable: it is gone when the function returns.\<close>

definition event_process_active :: "eventop \<Rightarrow> callback \<Rightarrow> event_base \<Rightarrow> event_base run" where
  "event_process_active evsel cb B =
     (case List.find (\<lambda>i. arr_get (activequeues B) (int i) \<noteq> Some []) [0..<nat (nactivequeues B)] of None \<Rightarrow> None
      | Some i \<Rightarrow> and_then (run_queue evsel cb i B) (\<lambda>B. Some (Inr (B\<lparr>ncalls := None\<rparr>))))"

subsection \<open>A new base\<close>

text \<open>\<^verbatim>\<open>event_base_priority_init\<close>: an array of queues and the queues.\<close>

fun new_queues :: "nat \<Rightarrow> bool list \<Rightarrow> (event list list \<times> bool list) run" where
  "new_queues 0 fs = Some (Inr ([], fs))"
| "new_queues (Suc n) fs = (let (ok, fs) = malloc_ok fs in
     if ok then and_then (new_queues n fs) (\<lambda>(qs, fs). Some (Inr ([] # qs, fs))) else Some (Inl 1))"

definition event_base_priority_init :: "nat \<Rightarrow> event_base \<Rightarrow> (int \<times> event_base) run" where
  "event_base_priority_init npriorities B =
     (if event_count_active B \<noteq> 0 then Some (Inr (- 1, B))
      else let (ok, fs) = malloc_ok (base_faults B) in
        if \<not> ok then Some (Inl 1)
        else and_then (new_queues npriorities fs) (\<lambda>(qs, fs).
          Some (Inr (0, B\<lparr>nactivequeues := int npriorities, activequeues := qs, base_faults := fs\<rparr>))))"

text \<open>
  \<^verbatim>\<open>event_base_new\<close>, when a poll mechanism is there or not. The memory of the events is zero before
  \<^verbatim>\<open>event_set\<close>.
\<close>

definition zero_event :: event_data where
  "zero_event = \<lparr>ev_in_base = False, ev_fd = 0, ev_events = {}, ev_ncalls = 0, ev_pncalls = False, ev_timeout = Timeval 0 0,
     ev_pri = 0, ev_res = {}, ev_flags = {}\<rparr>"

definition event_base_new :: "bool \<Rightarrow> timeval option \<Rightarrow> bool list \<Rightarrow> event_base run" where
  "event_base_new mechanism clk fs =
     (let (ok, fs) = malloc_ok fs in
      if \<not> ok then Some (Inl 1)
      else let B = \<lparr>evs = (\<lambda>_. zero_event), ev_idx = (\<lambda>_. - 1), ncalls = None, event_count = 0, event_count_active = 0,
                event_gotterm = False, event_break = False, activequeues = [], nactivequeues = 0, eventqueue = [],
                event_tv = (case clk of None \<Rightarrow> Timeval 0 0 | Some now \<Rightarrow> now), timeheap = min_heap_ctor, tv_cache = Timeval 0 0,
                base_faults = fs\<rparr>
      in if \<not> mechanism then Some (Inl 1)
         else and_then (event_base_priority_init 1 B) (\<lambda>(_, B). Some (Inr B)))"

subsection \<open>The invariant\<close>

definition on_queue :: "(event \<Rightarrow> event_data) \<Rightarrow> evlist \<Rightarrow> event set" where
  "on_queue E q = {e. q \<in> ev_flags (E e)}"

definition place_count :: "(event \<Rightarrow> event_data) \<Rightarrow> evlist \<Rightarrow> int" where
  "place_count E q = int (card {e. q \<in> ev_flags (E e) \<and> EVLIST_INTERNAL \<notin> ev_flags (E e)})"

definition places :: "evlist set" where
  "places = {EVLIST_TIMEOUT, EVLIST_INSERTED, EVLIST_ACTIVE}"

text \<open>
  Every event is exactly where its flags say, active events in the queue of their priority, and the
  counters are right: \<^verbatim>\<open>event_count\<close> counts an event that is not internal once for each of its places.
\<close>

definition base_ok :: "event_base \<Rightarrow> bool" where
  "base_ok B \<longleftrightarrow> heap_ok (ev_times B) (timeheap B) (ev_idx B) \<and> queued (ev_idx B) = on_queue (evs B) EVLIST_TIMEOUT
     \<and> distinct (eventqueue B) \<and> set (eventqueue B) = on_queue (evs B) EVLIST_INSERTED
     \<and> int (length (activequeues B)) = nactivequeues B \<and> 0 < nactivequeues B
     \<and> (\<forall>i < length (activequeues B). distinct (activequeues B ! i)
          \<and> set (activequeues B ! i) = {e \<in> on_queue (evs B) EVLIST_ACTIVE. ev_pri (evs B e) = int i})
     \<and> finite (on_queue (evs B) EVLIST_ACTIVE)
     \<and> (\<forall>e. ev_in_base (evs B e) \<longrightarrow> 0 \<le> ev_pri (evs B e) \<and> ev_pri (evs B e) < nactivequeues B)
     \<and> (\<forall>e. ev_flags_of B e \<inter> places \<noteq> {} \<longrightarrow> ev_in_base (evs B e))
     \<and> event_count_active B = int (card (on_queue (evs B) EVLIST_ACTIVE))
     \<and> event_count B = place_count (evs B) EVLIST_TIMEOUT + place_count (evs B) EVLIST_INSERTED + place_count (evs B) EVLIST_ACTIVE"

lemma base_ok_finite: "base_ok B \<Longrightarrow> q \<in> places \<Longrightarrow> finite (on_queue (evs B) q)"
  using heap_ok_queued [of "ev_times B" "timeheap B" "ev_idx B"] unfolding base_ok_def places_def
  by (metis List.finite_set empty_iff insert_iff)

lemma base_ok_in_base: "base_ok B \<Longrightarrow> q \<in> ev_flags_of B e \<Longrightarrow> q \<in> places \<Longrightarrow> ev_in_base (evs B e)"
  unfolding base_ok_def by blast

text \<open>What the steps on the queues leave alone.\<close>

definition frame :: "event_base \<Rightarrow> event_base \<Rightarrow> bool" where
  "frame B B' \<longleftrightarrow> ncalls B' = ncalls B \<and> event_gotterm B' = event_gotterm B \<and> event_break B' = event_break B
     \<and> nactivequeues B' = nactivequeues B \<and> event_tv B' = event_tv B \<and> tv_cache B' = tv_cache B \<and> base_faults B' = base_faults B"

subsection \<open>Flags\<close>

abbreviation with_flags :: "(evlist set \<Rightarrow> evlist set) \<Rightarrow> event \<Rightarrow> (event \<Rightarrow> event_data) \<Rightarrow> (event \<Rightarrow> event_data)" where
  "with_flags f e E \<equiv> E(e := (E e)\<lparr>ev_flags := f (ev_flags (E e))\<rparr>)"

lemma on_queue_insert [simp]:
  "on_queue (with_flags (insert q) e E) q' = (if q' = q then insert e (on_queue E q) else on_queue E q')"
  by (auto simp: on_queue_def)

lemma on_queue_remove [simp]:
  "on_queue (with_flags (\<lambda>F. F - {q}) e E) q' = (if q' = q then on_queue E q - {e} else on_queue E q')"
  by (auto simp: on_queue_def)

lemma place_count_finite: "finite (on_queue E q) \<Longrightarrow> finite {e. q \<in> ev_flags (E e) \<and> EVLIST_INTERNAL \<notin> ev_flags (E e)}"
  by (rule finite_subset [of _ "on_queue E q"]) (auto simp: on_queue_def)

lemma place_count_insert:
  assumes "finite (on_queue E q)" "q \<notin> ev_flags (E e)" "q \<in> places" "q' \<in> places"
  shows "place_count (with_flags (insert q) e E) q' = place_count E q' + (if q' = q \<and> EVLIST_INTERNAL \<notin> ev_flags (E e) then 1 else 0)"
proof -
  let ?S = "\<lambda>E q. {e. q \<in> ev_flags (E e) \<and> EVLIST_INTERNAL \<notin> ev_flags (E e)}"
  have ni: "q \<noteq> EVLIST_INTERNAL" using assms(3) by (auto simp: places_def)
  show ?thesis
  proof (cases "q' = q \<and> EVLIST_INTERNAL \<notin> ev_flags (E e)")
    case True
    then have "?S (with_flags (insert q) e E) q' = insert e (?S E q)" using ni by auto
    moreover have "e \<notin> ?S E q" "finite (?S E q)" using assms(2) place_count_finite [OF assms(1)] by simp_all
    ultimately show ?thesis using True by (simp add: place_count_def)
  next
    case False
    then have "?S (with_flags (insert q) e E) q' = ?S E q'" using ni by auto
    then show ?thesis using False by (simp add: place_count_def)
  qed
qed

lemma place_count_remove:
  assumes "finite (on_queue E q)" "q \<in> ev_flags (E e)" "q \<in> places" "q' \<in> places"
  shows "place_count (with_flags (\<lambda>F. F - {q}) e E) q' = place_count E q' - (if q' = q \<and> EVLIST_INTERNAL \<notin> ev_flags (E e) then 1 else 0)"
proof -
  let ?E = "with_flags (\<lambda>F. F - {q}) e E"
  have ni: "q \<noteq> EVLIST_INTERNAL" using assms(3) by (auto simp: places_def)
  have restored: "with_flags (insert q) e ?E = E" using assms(2) by (auto simp: insert_absorb)
  have "place_count (with_flags (insert q) e ?E) q' = place_count ?E q' + (if q' = q \<and> EVLIST_INTERNAL \<notin> ev_flags (?E e) then 1 else 0)"
    by (rule place_count_insert [OF _ _ assms(3,4)]) (use assms(1) in simp_all)
  then show ?thesis unfolding restored using ni by auto
qed

lemma in_places [simp]: "EVLIST_TIMEOUT \<in> places" "EVLIST_INSERTED \<in> places" "EVLIST_ACTIVE \<in> places"
  by (simp_all add: places_def)

subsection \<open>The heap in the base\<close>

lemma heap_ok_times:
  assumes "heap_ok tm s idx" "\<And>x. x \<in> queued idx \<Longrightarrow> tm' x = tm x"
  shows "heap_ok tm' s idx"
proof -
  have n: "mh_n s \<le> length (mh_p s)" using assms(1) by (simp add: heap_ok_def)
  have "tm' (mh_p s ! i) = tm (mh_p s ! i)" if "i < mh_n s" for i
    using assms that n by (intro assms(2)) (auto simp: heap_ok_queued [OF assms(1)] in_set_conv_nth)
  then have "ordered_but (\<lambda>_. False) tm (mh_p s) (mh_n s) \<Longrightarrow> ordered_but (\<lambda>_. False) tm' (mh_p s) (mh_n s)"
    by (auto simp: ordered_but_def)
  then show ?thesis using assms(1) by (simp add: heap_ok_def)
qed

lemma push_without_memory:
  assumes "heap_ok tm s idx" "idx e = - 1" "mh_n s < mh_a s"
  obtains s' idx' where
    "min_heap_push fr tm s idx e fs = Some (0, s', idx', fs)" "heap_ok tm s' idx'" "queued idx' = insert e (queued idx)"
proof -
  have "min_heap_push fr tm s idx e fs = map_option (\<lambda>(r, s', i', _). (r, s', i', fs)) (min_heap_push fr tm s idx e [])"
    using assms(3) by (cases "min_heap_shift_up tm (mh_p s) idx (mh_n s) e") (auto simp: min_heap_push_def min_heap_reserve_def)
  moreover obtain s' idx' fs' where "min_heap_push fr tm s idx e [] = Some (0, s', idx', fs')" "heap_ok tm s' idx'" "queued idx' = insert e (queued idx)"
    using min_heap_push_ok [OF assms(1,2), of fr "[]"] by (auto simp: failing_def)
  ultimately show thesis by (intro that) simp_all
qed

lemma erase_makes_room:
  assumes "heap_ok tm s idx" "e \<in> queued idx"
  obtains s' idx' where "min_heap_erase tm s idx e = Some (0, s', idx')" "heap_ok tm s' idx'" "queued idx' = queued idx - {e}" "mh_n s' < mh_a s'"
proof -
  obtain s' idx' where 1: "min_heap_erase tm s idx e = Some (0, s', idx')" "heap_ok tm s' idx'" "queued idx' = queued idx - {e}"
    using min_heap_erase_ok [OF assms(1), of e] assms(2) by auto
  moreover have "mh_n s \<le> mh_a s" using assms(1) by (simp add: heap_ok_def)
  then have "mh_n s' < mh_a s'" using 1(1) by (auto simp: min_heap_erase_def Let_def split: if_splits bind_splits)
  ultimately show thesis by (intro that)
qed

lemma reserve_ok:
  assumes "heap_ok tm s idx"
  obtains (ok) s' fs' where "min_heap_reserve fr s (1 + min_heap_size s) fs = (0, s', fs')" "heap_ok tm s' idx" "mh_n s' < mh_a s'"
    | (fail) fs' where "min_heap_reserve fr s (1 + min_heap_size s) fs = (- 1, s, fs')" "0 < failing fs"
proof (cases "min_heap_reserve fr s (1 + min_heap_size s) fs")
  case (fields err s' fs')
  show thesis
  proof (cases "err = 0")
    case True
    have n: "mh_n s \<le> length (mh_p s)" "length (mh_p s) = mh_a s" using assms by (simp_all add: heap_ok_def)
    have s': "mh_n s' = mh_n s" "length (mh_p s') = mh_a s'" "mh_n s < mh_a s'" "take (mh_n s) (mh_p s') = take (mh_n s) (mh_p s)"
      using fields True n by (auto simp: min_heap_reserve_def min_heap_size_def Let_def split: if_splits prod.splits)
    then have nth: "mh_p s' ! i = mh_p s ! i" if "i < mh_n s" for i using that by (metis nth_take)
    have "ordered_but (\<lambda>_. False) tm (mh_p s') (mh_n s)" "places_but (\<lambda>_. False) (idx) (mh_p s') (mh_n s)"
      using assms nth by (auto simp: heap_ok_def ordered_but_def places_but_def)
    then have "heap_ok tm s' idx" using assms s' by (simp add: heap_ok_def)
    then show thesis using fields True s' by (intro ok [of s' fs']) simp_all
  next
    case False
    then show thesis using fields
      by (intro fail [of fs']) (auto simp: min_heap_reserve_def min_heap_size_def Let_def malloc_ok_def failing_def split: if_splits prod.splits list.splits)
  qed
qed

subsection \<open>Steps on the queues\<close>

lemma with_flags_sel [simp]:
  "ev_pri (with_flags f e E x) = ev_pri (E x)" "ev_timeout (with_flags f e E x) = ev_timeout (E x)"
  "ev_in_base (with_flags f e E x) = ev_in_base (E x)" "ev_ncalls (with_flags f e E x) = ev_ncalls (E x)"
  "ev_pncalls (with_flags f e E x) = ev_pncalls (E x)" "ev_events (with_flags f e E x) = ev_events (E x)"
  "ev_res (with_flags f e E x) = ev_res (E x)"
  by simp_all

lemma on_queue_mem: "x \<in> on_queue E q \<longleftrightarrow> q \<in> ev_flags (E x)"
  by (simp add: on_queue_def)

text \<open>The part of the invariant that an entry into a place, or an exit from it, keeps by itself.\<close>

lemma insert_counts:
  assumes "base_ok B" "ev_in_base (evs B e)" "q \<in> places" "q \<notin> ev_flags_of B e"
  defines "E \<equiv> with_flags (insert q) e (evs B)"
  shows "(if EVLIST_INTERNAL \<notin> ev_flags_of B e then event_count B + 1 else event_count B) =
      place_count E EVLIST_TIMEOUT + place_count E EVLIST_INSERTED + place_count E EVLIST_ACTIVE"
    and "\<forall>x. ev_flags (E x) \<inter> places \<noteq> {} \<longrightarrow> ev_in_base (E x)"
    and "\<forall>x. ev_in_base (E x) \<longrightarrow> 0 \<le> ev_pri (E x) \<and> ev_pri (E x) < nactivequeues B"
    and "finite (on_queue E EVLIST_ACTIVE)"
proof -
  have c: "place_count E q' = place_count (evs B) q' + (if q' = q \<and> EVLIST_INTERNAL \<notin> ev_flags_of B e then 1 else 0)" if "q' \<in> places" for q'
    unfolding E_def by (rule place_count_insert [OF base_ok_finite [OF assms(1,3)] assms(4,3) that])
  have q: "q = EVLIST_TIMEOUT \<or> q = EVLIST_INSERTED \<or> q = EVLIST_ACTIVE" using assms(3) by (simp add: places_def)
  show "(if EVLIST_INTERNAL \<notin> ev_flags_of B e then event_count B + 1 else event_count B) =
      place_count E EVLIST_TIMEOUT + place_count E EVLIST_INSERTED + place_count E EVLIST_ACTIVE"
    using assms(1) q by (auto simp: c base_ok_def)
  show "\<forall>x. ev_flags (E x) \<inter> places \<noteq> {} \<longrightarrow> ev_in_base (E x)" using assms(1,2) by (auto simp: E_def base_ok_def)
  show "\<forall>x. ev_in_base (E x) \<longrightarrow> 0 \<le> ev_pri (E x) \<and> ev_pri (E x) < nactivequeues B" using assms(1) unfolding E_def with_flags_sel by (simp add: base_ok_def)
  show "finite (on_queue E EVLIST_ACTIVE)" using base_ok_finite [OF assms(1), of EVLIST_ACTIVE] by (simp add: E_def)
qed

lemma remove_counts:
  assumes "base_ok B" "q \<in> places" "q \<in> ev_flags_of B e"
  defines "E \<equiv> with_flags (\<lambda>F. F - {q}) e (evs B)"
  shows "(if EVLIST_INTERNAL \<notin> ev_flags_of B e then event_count B - 1 else event_count B) =
      place_count E EVLIST_TIMEOUT + place_count E EVLIST_INSERTED + place_count E EVLIST_ACTIVE"
    and "\<forall>x. ev_flags (E x) \<inter> places \<noteq> {} \<longrightarrow> ev_in_base (E x)"
    and "\<forall>x. ev_in_base (E x) \<longrightarrow> 0 \<le> ev_pri (E x) \<and> ev_pri (E x) < nactivequeues B"
    and "finite (on_queue E EVLIST_ACTIVE)"
proof -
  have c: "place_count E q' = place_count (evs B) q' - (if q' = q \<and> EVLIST_INTERNAL \<notin> ev_flags_of B e then 1 else 0)" if "q' \<in> places" for q'
    unfolding E_def by (rule place_count_remove [OF base_ok_finite [OF assms(1,2)] assms(3,2) that])
  have q: "q = EVLIST_TIMEOUT \<or> q = EVLIST_INSERTED \<or> q = EVLIST_ACTIVE" using assms(2) by (simp add: places_def)
  show "(if EVLIST_INTERNAL \<notin> ev_flags_of B e then event_count B - 1 else event_count B) =
      place_count E EVLIST_TIMEOUT + place_count E EVLIST_INSERTED + place_count E EVLIST_ACTIVE"
    using assms(1) q by (auto simp: c base_ok_def)
  show "\<forall>x. ev_flags (E x) \<inter> places \<noteq> {} \<longrightarrow> ev_in_base (E x)" using assms(1) by (auto simp: E_def base_ok_def)
  show "\<forall>x. ev_in_base (E x) \<longrightarrow> 0 \<le> ev_pri (E x) \<and> ev_pri (E x) < nactivequeues B" using assms(1) unfolding E_def with_flags_sel by (simp add: base_ok_def)
  show "finite (on_queue E EVLIST_ACTIVE)" using base_ok_finite [OF assms(1), of EVLIST_ACTIVE] by (simp add: E_def)
qed

lemma count_upd: "(if b then B\<lparr>event_count := n\<rparr> else B) = B\<lparr>event_count := if b then n else event_count B\<rparr>" for B :: event_base
  by simp

text \<open>The result of a step on a place: the flag of the event, and nothing else of it.\<close>

definition moved :: "(evlist set \<Rightarrow> evlist set) \<Rightarrow> event \<Rightarrow> event_base \<Rightarrow> event_base \<Rightarrow> bool" where
  "moved f e B B' \<longleftrightarrow> base_ok B' \<and> evs B' = with_flags f e (evs B) \<and> frame B B'"

lemma insert_inserted:
  assumes "base_ok B" "ev_in_base (evs B e)" "EVLIST_INSERTED \<notin> ev_flags_of B e"
  obtains B' where "event_queue_insert fr B e EVLIST_INSERTED = Some (Inr B')" "moved (insert EVLIST_INSERTED) e B B'"
    "timeheap B' = timeheap B" "ev_idx B' = ev_idx B"
proof -
  define E where "E = with_flags (insert EVLIST_INSERTED) e (evs B)"
  define B' where "B' = B\<lparr>evs := E, event_count := if EVLIST_INTERNAL \<notin> ev_flags_of B e then event_count B + 1 else event_count B,
    eventqueue := eventqueue B @ [e]\<rparr>"
  note c = insert_counts [OF assms(1,2) in_places(2) assms(3), folded E_def]
  have t: "(\<lambda>x. ev_timeout (E x)) = ev_times B" "\<And>x. ev_pri (E x) = ev_pri (evs B x)" by (simp_all add: E_def fun_eq_iff)
  have q: "on_queue E EVLIST_TIMEOUT = on_queue (evs B) EVLIST_TIMEOUT" "on_queue E EVLIST_ACTIVE = on_queue (evs B) EVLIST_ACTIVE"
    "on_queue E EVLIST_INSERTED = insert e (on_queue (evs B) EVLIST_INSERTED)" by (simp_all add: E_def)
  have "e \<notin> set (eventqueue B)" using assms(1,3) by (simp add: base_ok_def on_queue_mem)
  then have "base_ok B'"
    using assms(1) c unfolding base_ok_def B'_def by (simp add: t q del: fun_upd_apply)
  then show thesis
    by (intro that [of B']) (simp_all add: moved_def frame_def B'_def E_def event_queue_insert_def ev_upd_def Let_def count_upd assms(3))
qed

lemma remove_inserted:
  assumes "base_ok B" "EVLIST_INSERTED \<in> ev_flags_of B e"
  obtains B' where "event_queue_remove B e EVLIST_INSERTED = Some (Inr B')" "moved (\<lambda>F. F - {EVLIST_INSERTED}) e B B'"
    "timeheap B' = timeheap B" "ev_idx B' = ev_idx B"
proof -
  define E where "E = with_flags (\<lambda>F. F - {EVLIST_INSERTED}) e (evs B)"
  define B' where "B' = B\<lparr>evs := E, event_count := if EVLIST_INTERNAL \<notin> ev_flags_of B e then event_count B - 1 else event_count B,
    eventqueue := remove1 e (eventqueue B)\<rparr>"
  note c = remove_counts [OF assms(1) in_places(2) assms(2), folded E_def]
  have t: "(\<lambda>x. ev_timeout (E x)) = ev_times B" "\<And>x. ev_pri (E x) = ev_pri (evs B x)" by (simp_all add: E_def fun_eq_iff)
  have q: "on_queue E EVLIST_TIMEOUT = on_queue (evs B) EVLIST_TIMEOUT" "on_queue E EVLIST_ACTIVE = on_queue (evs B) EVLIST_ACTIVE"
    "on_queue E EVLIST_INSERTED = on_queue (evs B) EVLIST_INSERTED - {e}" by (simp_all add: E_def)
  have e: "e \<in> set (eventqueue B)" using assms by (simp add: base_ok_def on_queue_mem)
  have "base_ok B'"
    using assms(1) c unfolding base_ok_def B'_def by (simp add: t q del: fun_upd_apply)
  then show thesis
    by (intro that [of B']) (simp_all add: moved_def frame_def B'_def E_def event_queue_remove_def tailq_remove_def e ev_upd_def Let_def count_upd assms(2))
qed

lemma insert_active:
  assumes "base_ok B" "ev_in_base (evs B e)" "EVLIST_ACTIVE \<notin> ev_flags_of B e"
  obtains B' where "event_queue_insert fr B e EVLIST_ACTIVE = Some (Inr B')" "moved (insert EVLIST_ACTIVE) e B B'"
    "timeheap B' = timeheap B" "ev_idx B' = ev_idx B"
proof -
  define E where "E = with_flags (insert EVLIST_ACTIVE) e (evs B)"
  define p where "p = nat (ev_pri (evs B e))"
  have p: "ev_pri (evs B e) = int p" "p < length (activequeues B)"
    using assms(1,2) unfolding base_ok_def p_def by (auto simp: nat_less_iff)
  define B' where "B' = B\<lparr>evs := E, event_count := if EVLIST_INTERNAL \<notin> ev_flags_of B e then event_count B + 1 else event_count B,
    event_count_active := event_count_active B + 1, activequeues := (activequeues B)[p := activequeues B ! p @ [e]]\<rparr>"
  note c = insert_counts [OF assms(1,2) in_places(3) assms(3), folded E_def]
  have t: "(\<lambda>x. ev_timeout (E x)) = ev_times B" "\<And>x. ev_pri (E x) = ev_pri (evs B x)" by (simp_all add: E_def fun_eq_iff)
  have q: "on_queue E EVLIST_TIMEOUT = on_queue (evs B) EVLIST_TIMEOUT" "on_queue E EVLIST_INSERTED = on_queue (evs B) EVLIST_INSERTED"
    "on_queue E EVLIST_ACTIVE = insert e (on_queue (evs B) EVLIST_ACTIVE)" by (simp_all add: E_def)
  have e: "e \<notin> on_queue (evs B) EVLIST_ACTIVE" "finite (on_queue (evs B) EVLIST_ACTIVE)"
    using assms(1,3) by (simp_all add: base_ok_def on_queue_mem)
  have old: "distinct (activequeues B ! i)" "set (activequeues B ! i) = {x \<in> on_queue (evs B) EVLIST_ACTIVE. ev_pri (evs B x) = int i}"
    if "i < length (activequeues B)" for i using assms(1) that by (simp_all add: base_ok_def)
  have "\<forall>i < length (activequeues B'). distinct (activequeues B' ! i)
      \<and> set (activequeues B' ! i) = {x \<in> on_queue E EVLIST_ACTIVE. ev_pri (E x) = int i}"
    using old p e(1) by (auto simp: B'_def q(3) t(2) nth_list_update)
  then have "base_ok B'"
    using assms(1) c e unfolding base_ok_def B'_def by (simp add: t q del: fun_upd_apply)
  then show thesis
    using p by (intro that [of B']) (simp_all add: moved_def frame_def B'_def E_def event_queue_insert_def ev_upd_def Let_def count_upd assms(3))
qed

lemma remove_active:
  assumes "base_ok B" "EVLIST_ACTIVE \<in> ev_flags_of B e"
  obtains B' where "event_queue_remove B e EVLIST_ACTIVE = Some (Inr B')" "moved (\<lambda>F. F - {EVLIST_ACTIVE}) e B B'"
    "timeheap B' = timeheap B" "ev_idx B' = ev_idx B"
proof -
  define E where "E = with_flags (\<lambda>F. F - {EVLIST_ACTIVE}) e (evs B)"
  define p where "p = nat (ev_pri (evs B e))"
  have "ev_in_base (evs B e)" using assms by (rule base_ok_in_base) simp
  then have p: "ev_pri (evs B e) = int p" "p < length (activequeues B)"
    using assms(1) unfolding base_ok_def p_def by (auto simp: nat_less_iff)
  define B' where "B' = B\<lparr>evs := E, event_count := if EVLIST_INTERNAL \<notin> ev_flags_of B e then event_count B - 1 else event_count B,
    event_count_active := event_count_active B - 1, activequeues := (activequeues B)[p := remove1 e (activequeues B ! p)]\<rparr>"
  note c = remove_counts [OF assms(1) in_places(3) assms(2), folded E_def]
  have t: "(\<lambda>x. ev_timeout (E x)) = ev_times B" "\<And>x. ev_pri (E x) = ev_pri (evs B x)" by (simp_all add: E_def fun_eq_iff)
  have q: "on_queue E EVLIST_TIMEOUT = on_queue (evs B) EVLIST_TIMEOUT" "on_queue E EVLIST_INSERTED = on_queue (evs B) EVLIST_INSERTED"
    "on_queue E EVLIST_ACTIVE = on_queue (evs B) EVLIST_ACTIVE - {e}" by (simp_all add: E_def)
  have e: "e \<in> on_queue (evs B) EVLIST_ACTIVE" "finite (on_queue (evs B) EVLIST_ACTIVE)"
    using assms by (simp_all add: base_ok_def on_queue_mem)
  have active: "event_count_active B = int (card (on_queue (evs B) EVLIST_ACTIVE))" using assms(1) by (simp add: base_ok_def)
  have card: "event_count_active B - 1 = int (card (on_queue (evs B) EVLIST_ACTIVE - {e}))"
    using card_Suc_Diff1 [OF e(2,1)] unfolding active by linarith
  have old: "distinct (activequeues B ! i)" "set (activequeues B ! i) = {x \<in> on_queue (evs B) EVLIST_ACTIVE. ev_pri (evs B x) = int i}"
    if "i < length (activequeues B)" for i using assms(1) that by (simp_all add: base_ok_def)
  have here: "e \<in> set (activequeues B ! p)" using old(2) [OF p(2)] e(1) p(1) by simp
  have "\<forall>i < length (activequeues B'). distinct (activequeues B' ! i)
      \<and> set (activequeues B' ! i) = {x \<in> on_queue E EVLIST_ACTIVE. ev_pri (E x) = int i}"
    using old p by (auto simp: B'_def q(3) t(2) nth_list_update)
  then have "base_ok B'"
    using assms(1) c unfolding base_ok_def B'_def
    by (simp add: t q card [unfolded active] del: fun_upd_apply)
  then show thesis
    using p here by (intro that [of B']) (simp_all add: moved_def frame_def B'_def E_def event_queue_remove_def tailq_remove_def ev_upd_def Let_def count_upd assms(2))
qed

lemma queued_timeout: "base_ok B \<Longrightarrow> e \<in> queued (ev_idx B) \<longleftrightarrow> EVLIST_TIMEOUT \<in> ev_flags_of B e"
  by (simp add: base_ok_def on_queue_mem)

lemma insert_timeout:
  assumes "base_ok B" "ev_in_base (evs B e)" "EVLIST_TIMEOUT \<notin> ev_flags_of B e" "mh_n (timeheap B) < mh_a (timeheap B)"
  obtains B' where "event_queue_insert fr B e EVLIST_TIMEOUT = Some (Inr B')" "moved (insert EVLIST_TIMEOUT) e B B'"
proof -
  define E where "E = with_flags (insert EVLIST_TIMEOUT) e (evs B)"
  have t: "(\<lambda>x. ev_timeout (E x)) = ev_times B" "\<And>x. ev_pri (E x) = ev_pri (evs B x)" by (simp_all add: E_def fun_eq_iff)
  have q: "on_queue E EVLIST_INSERTED = on_queue (evs B) EVLIST_INSERTED" "on_queue E EVLIST_ACTIVE = on_queue (evs B) EVLIST_ACTIVE"
    "on_queue E EVLIST_TIMEOUT = insert e (on_queue (evs B) EVLIST_TIMEOUT)" by (simp_all add: E_def)
  have h: "heap_ok (ev_times B) (timeheap B) (ev_idx B)" "queued (ev_idx B) = on_queue (evs B) EVLIST_TIMEOUT"
    using assms(1) by (simp_all add: base_ok_def)
  have "ev_idx B e = - 1" using queued_timeout [OF assms(1), of e] assms(3) by (simp add: queued_def)
  then obtain s' idx' where push: "min_heap_push fr (ev_times B) (timeheap B) (ev_idx B) e (base_faults B) = Some (0, s', idx', base_faults B)"
    "heap_ok (ev_times B) s' idx'" "queued idx' = insert e (queued (ev_idx B))"
    by (rule push_without_memory [OF h(1) _ assms(4), of e fr "base_faults B"])
  define B' where "B' = B\<lparr>evs := E, event_count := if EVLIST_INTERNAL \<notin> ev_flags_of B e then event_count B + 1 else event_count B,
    timeheap := s', ev_idx := idx'\<rparr>"
  note c = insert_counts [OF assms(1,2) in_places(1) assms(3), folded E_def]
  have "base_ok B'"
    using assms(1) c push(2,3) h(2) unfolding base_ok_def B'_def by (simp add: t q del: fun_upd_apply)
  moreover have "event_queue_insert fr B e EVLIST_TIMEOUT = Some (Inr B')"
    using push(1) t(1) by (simp add: event_queue_insert_def ev_upd_def Let_def count_upd assms(3) E_def [symmetric] B'_def del: fun_upd_apply)
  ultimately show thesis
    by (intro that [of B']) (simp_all add: moved_def frame_def B'_def E_def)
qed

lemma remove_timeout:
  assumes "base_ok B" "EVLIST_TIMEOUT \<in> ev_flags_of B e"
  obtains B' where "event_queue_remove B e EVLIST_TIMEOUT = Some (Inr B')" "moved (\<lambda>F. F - {EVLIST_TIMEOUT}) e B B'"
    "mh_n (timeheap B') < mh_a (timeheap B')"
proof -
  define E where "E = with_flags (\<lambda>F. F - {EVLIST_TIMEOUT}) e (evs B)"
  have t: "(\<lambda>x. ev_timeout (E x)) = ev_times B" "\<And>x. ev_pri (E x) = ev_pri (evs B x)" by (simp_all add: E_def fun_eq_iff)
  have q: "on_queue E EVLIST_INSERTED = on_queue (evs B) EVLIST_INSERTED" "on_queue E EVLIST_ACTIVE = on_queue (evs B) EVLIST_ACTIVE"
    "on_queue E EVLIST_TIMEOUT = on_queue (evs B) EVLIST_TIMEOUT - {e}" by (simp_all add: E_def)
  have h: "heap_ok (ev_times B) (timeheap B) (ev_idx B)" "queued (ev_idx B) = on_queue (evs B) EVLIST_TIMEOUT"
    using assms(1) by (simp_all add: base_ok_def)
  have "e \<in> queued (ev_idx B)" using queued_timeout [OF assms(1), of e] assms(2) by simp
  with h(1) obtain s' idx' where erase: "min_heap_erase (ev_times B) (timeheap B) (ev_idx B) e = Some (0, s', idx')"
    "heap_ok (ev_times B) s' idx'" "queued idx' = queued (ev_idx B) - {e}" "mh_n s' < mh_a s'" by (rule erase_makes_room)
  define B' where "B' = B\<lparr>evs := E, event_count := if EVLIST_INTERNAL \<notin> ev_flags_of B e then event_count B - 1 else event_count B,
    timeheap := s', ev_idx := idx'\<rparr>"
  note c = remove_counts [OF assms(1) in_places(1) assms(2), folded E_def]
  have "base_ok B'"
    using assms(1) c erase(2,3) h(2) unfolding base_ok_def B'_def by (simp add: t q del: fun_upd_apply)
  moreover have "event_queue_remove B e EVLIST_TIMEOUT = Some (Inr B')"
    using erase(1) t(1) by (simp add: event_queue_remove_def ev_upd_def Let_def count_upd assms(2) E_def [symmetric] B'_def del: fun_upd_apply)
  ultimately show thesis
    using erase(4) by (intro that [of B']) (simp_all add: moved_def frame_def B'_def E_def)
qed

subsection \<open>Operations\<close>

text \<open>The event is taken out of a place if it is there.\<close>

lemma remove_step:
  assumes "base_ok B" "q \<in> places"
  obtains B' where "(if q \<in> ev_flags_of B e then event_queue_remove B e q else Some (Inr B)) = Some (Inr B')"
    "moved (\<lambda>F. F - {q}) e B B'" "q \<noteq> EVLIST_TIMEOUT \<Longrightarrow> timeheap B' = timeheap B"
    "q = EVLIST_TIMEOUT \<Longrightarrow> q \<in> ev_flags_of B e \<Longrightarrow> mh_n (timeheap B') < mh_a (timeheap B')"
    "q \<notin> ev_flags_of B e \<Longrightarrow> B' = B"
proof (cases "q \<in> ev_flags_of B e")
  case False
  then have "with_flags (\<lambda>F. F - {q}) e (evs B) = evs B" by auto
  with False assms(1) show thesis by (intro that [of B]) (simp_all add: moved_def frame_def)
next
  case True
  consider "q = EVLIST_TIMEOUT" | "q = EVLIST_INSERTED" | "q = EVLIST_ACTIVE" using assms(2) by (auto simp: places_def)
  then show thesis
  proof cases
    case 1
    obtain B' where "event_queue_remove B e EVLIST_TIMEOUT = Some (Inr B')" "moved (\<lambda>F. F - {EVLIST_TIMEOUT}) e B B'" "mh_n (timeheap B') < mh_a (timeheap B')"
      by (rule remove_timeout [OF assms(1), of e]) (use True 1 in auto)
    with True 1 show thesis by (intro that [of B']) simp_all
  next
    case 2
    obtain B' where "event_queue_remove B e EVLIST_INSERTED = Some (Inr B')" "moved (\<lambda>F. F - {EVLIST_INSERTED}) e B B'" "timeheap B' = timeheap B"
      by (rule remove_inserted [OF assms(1), of e]) (use True 2 in auto)
    with True 2 show thesis by (intro that [of B']) simp_all
  next
    case 3
    obtain B' where "event_queue_remove B e EVLIST_ACTIVE = Some (Inr B')" "moved (\<lambda>F. F - {EVLIST_ACTIVE}) e B B'" "timeheap B' = timeheap B"
      by (rule remove_active [OF assms(1), of e]) (use True 3 in auto)
    with True 3 show thesis by (intro that [of B']) simp_all
  qed
qed

lemma base_ok_ncalls [simp]: "base_ok (B\<lparr>ncalls := n\<rparr>) = base_ok B"
  by (simp add: base_ok_def)

text \<open>The counter that an event points to still exists.\<close>

definition counter_ok :: "event_base \<Rightarrow> event \<Rightarrow> bool" where
  "counter_ok B e \<longleftrightarrow> (ev_ncalls (evs B e) \<noteq> 0 \<and> ev_pncalls (evs B e) \<longrightarrow> ncalls B \<noteq> None)"

lemma abort_loop_ok:
  assumes "counter_ok B e"
  obtains n where "abort_loop e B = Some (Inr (B\<lparr>ncalls := n\<rparr>))" "n = None \<longleftrightarrow> ncalls B = None"
proof (cases "ev_ncalls (evs B e) \<noteq> 0 \<and> ev_pncalls (evs B e)")
  case True
  then show thesis using assms by (intro that [of "Some 0"]) (auto simp: abort_loop_def counter_ok_def)
next
  case False
  then show thesis by (intro that [of "ncalls B"]) (auto simp: abort_loop_def)
qed

text \<open>What the operations on events leave alone.\<close>

definition kept :: "event_base \<Rightarrow> event_base \<Rightarrow> bool" where
  "kept B B' \<longleftrightarrow> (ncalls B' = None \<longleftrightarrow> ncalls B = None) \<and> event_gotterm B' = event_gotterm B \<and> event_break B' = event_break B
     \<and> nactivequeues B' = nactivequeues B \<and> event_tv B' = event_tv B \<and> tv_cache B' = tv_cache B"

lemma gettime_kept: "kept B B' \<Longrightarrow> gettime clk B' = gettime clk B"
  by (simp add: gettime_def kept_def)

lemma event_del_ok:
  assumes "base_ok B" "ev_in_base (evs B e)" "counter_ok B e"
  obtains r B' where "event_del evsel B e = Some (Inr (r, B'))" "base_ok B'" "evs B' = with_flags (\<lambda>F. F - places) e (evs B)"
    "kept B B'"
proof -
  obtain n where n: "abort_loop e B = Some (Inr (B\<lparr>ncalls := n\<rparr>))" "n = None \<longleftrightarrow> ncalls B = None"
    using assms(3) by (rule abort_loop_ok)
  define B0 where "B0 = B\<lparr>ncalls := n\<rparr>"
  have 0: "base_ok B0" "evs B0 = evs B" "kept B B0" using assms(1) n(2) by (simp_all add: B0_def kept_def)
  obtain B1 where 1: "(if EVLIST_TIMEOUT \<in> ev_flags_of B0 e then event_queue_remove B0 e EVLIST_TIMEOUT else Some (Inr B0)) = Some (Inr B1)"
    "moved (\<lambda>F. F - {EVLIST_TIMEOUT}) e B0 B1" using remove_step [OF 0(1) in_places(1)] by metis
  have ok1: "base_ok B1" using 1(2) by (simp add: moved_def)
  obtain B2 where 2: "(if EVLIST_ACTIVE \<in> ev_flags_of B1 e then event_queue_remove B1 e EVLIST_ACTIVE else Some (Inr B1)) = Some (Inr B2)"
    "moved (\<lambda>F. F - {EVLIST_ACTIVE}) e B1 B2" using remove_step [OF ok1 in_places(3)] by metis
  have ok2: "base_ok B2" using 2(2) by (simp add: moved_def)
  obtain B3 where 3: "(if EVLIST_INSERTED \<in> ev_flags_of B2 e then event_queue_remove B2 e EVLIST_INSERTED else Some (Inr B2)) = Some (Inr B3)"
    "moved (\<lambda>F. F - {EVLIST_INSERTED}) e B2 B3" using remove_step [OF ok2 in_places(2)] by metis
  have fl: "F - {EVLIST_TIMEOUT} - {EVLIST_ACTIVE} - {EVLIST_INSERTED} = F - places" for F by (auto simp: places_def)
  have "evs B3 = with_flags (\<lambda>F. F - places) e (evs B)"
    using 1(2) 2(2) 3(2) 0(2) fl by (simp add: moved_def)
  moreover have "kept B B3" using 0(3) 1(2) 2(2) 3(2) by (simp add: moved_def frame_def kept_def)
  moreover have "base_ok B3" using 3(2) by (simp add: moved_def)
  moreover have "event_del evsel B e = Some (Inr (if EVLIST_INSERTED \<in> ev_flags_of B2 e then evsel_del evsel e else 0, B3))"
    using assms(2) 3(1) by (auto simp: event_del_def n(1) B0_def [symmetric] 1(1) 2(1) split: if_splits)
  ultimately show thesis by (intro that)
qed

lemma event_active_ok:
  assumes "base_ok B" "ev_in_base (evs B e)" "EVLIST_ACTIVE \<notin> ev_flags_of B e"
  obtains B' where "event_active fr B e res n = Some (Inr B')" "base_ok B'"
    "evs B' = (evs B)(e := (evs B e)\<lparr>ev_res := res, ev_ncalls := n, ev_pncalls := False, ev_flags := insert EVLIST_ACTIVE (ev_flags_of B e)\<rparr>)"
    "kept B B'" "timeheap B' = timeheap B" "ev_idx B' = ev_idx B"
proof -
  define B0 where "B0 = ev_upd (\<lambda>d. d\<lparr>ev_res := res, ev_ncalls := n, ev_pncalls := False\<rparr>) e B"
  have s: "ev_flags (evs B0 x) = ev_flags (evs B x)" "ev_pri (evs B0 x) = ev_pri (evs B x)" "ev_timeout (evs B0 x) = ev_timeout (evs B x)"
    "ev_in_base (evs B0 x) = ev_in_base (evs B x)" for x by (simp_all add: B0_def ev_upd_def)
  have same: "eventqueue B0 = eventqueue B" "activequeues B0 = activequeues B" "nactivequeues B0 = nactivequeues B" "timeheap B0 = timeheap B"
    "ev_idx B0 = ev_idx B" "event_count B0 = event_count B" "event_count_active B0 = event_count_active B" by (simp_all add: B0_def ev_upd_def)
  have "base_ok B0" using assms(1) by (simp add: base_ok_def on_queue_def place_count_def s same)
  moreover have "ev_in_base (evs B0 e)" "EVLIST_ACTIVE \<notin> ev_flags_of B0 e" using assms(2,3) by (simp_all add: s)
  ultimately obtain B' where "event_queue_insert fr B0 e EVLIST_ACTIVE = Some (Inr B')" "moved (insert EVLIST_ACTIVE) e B0 B'"
    "timeheap B' = timeheap B0" "ev_idx B' = ev_idx B0" by (rule insert_active)
  with assms(2,3) show thesis
    by (intro that [of B']) (auto simp: event_active_def B0_def [symmetric] moved_def frame_def kept_def same, auto simp: B0_def ev_upd_def)
qed

text \<open>An event that does not wait for a time may be given one.\<close>

lemma base_ok_timeout:
  assumes "base_ok B" "EVLIST_TIMEOUT \<notin> ev_flags_of B e"
  shows "base_ok (ev_upd (\<lambda>d. d\<lparr>ev_timeout := t\<rparr>) e B)"
proof -
  define B0 where "B0 = ev_upd (\<lambda>d. d\<lparr>ev_timeout := t\<rparr>) e B"
  have s: "ev_flags (evs B0 x) = ev_flags (evs B x)" "ev_pri (evs B0 x) = ev_pri (evs B x)"
    "ev_in_base (evs B0 x) = ev_in_base (evs B x)" for x by (simp_all add: B0_def ev_upd_def)
  have same: "eventqueue B0 = eventqueue B" "activequeues B0 = activequeues B" "nactivequeues B0 = nactivequeues B" "timeheap B0 = timeheap B"
    "ev_idx B0 = ev_idx B" "event_count B0 = event_count B" "event_count_active B0 = event_count_active B" by (simp_all add: B0_def ev_upd_def)
  have "heap_ok (ev_times B0) (timeheap B) (ev_idx B)"
  proof (rule heap_ok_times)
    show "heap_ok (ev_times B) (timeheap B) (ev_idx B)" using assms(1) by (simp add: base_ok_def)
    show "ev_times B0 x = ev_times B x" if "x \<in> queued (ev_idx B)" for x
      using that queued_timeout [OF assms(1)] assms(2) by (auto simp: B0_def ev_upd_def)
  qed
  then have "base_ok B0" using assms(1) by (simp add: base_ok_def on_queue_def place_count_def s same)
  then show ?thesis by (simp add: B0_def)
qed

text \<open>The event as \<open>schedule\<close> leaves it.\<close>

definition scheduled :: "timeval \<Rightarrow> timeval \<Rightarrow> event_data \<Rightarrow> event_data" where
  "scheduled now tv d = d\<lparr>ev_timeout := timer_add now tv,
     ev_flags := insert EVLIST_TIMEOUT (ev_flags d - (if EV_TIMEOUT \<in> ev_res d then {EVLIST_ACTIVE} else {}))\<rparr>"

lemma schedule_ok:
  assumes "base_ok B" "ev_in_base (evs B e)" "counter_ok B e" "gettime clk B = Some now"
    and "EVLIST_TIMEOUT \<notin> ev_flags_of B e \<Longrightarrow> mh_n (timeheap B) < mh_a (timeheap B)"
  obtains B' where "schedule fr clk e tv B = Some (Inr B')" "base_ok B'" "evs B' = (evs B)(e := scheduled now tv (evs B e))" "kept B B'"
proof -
  obtain B1 where 1: "(if EVLIST_TIMEOUT \<in> ev_flags_of B e then event_queue_remove B e EVLIST_TIMEOUT else Some (Inr B)) = Some (Inr B1)"
    "moved (\<lambda>F. F - {EVLIST_TIMEOUT}) e B B1" "mh_n (timeheap B1) < mh_a (timeheap B1)"
    using remove_step [OF assms(1) in_places(1)] assms(5) by metis
  have ok1: "base_ok B1" "evs B1 = with_flags (\<lambda>F. F - {EVLIST_TIMEOUT}) e (evs B)" "frame B B1" using 1(2) by (simp_all add: moved_def)
  have "counter_ok B1 e" using assms(3) ok1(2,3) by (simp add: counter_ok_def frame_def)
  then obtain n where n: "abort_loop e B1 = Some (Inr (B1\<lparr>ncalls := n\<rparr>))" "n = None \<longleftrightarrow> ncalls B1 = None" by (rule abort_loop_ok)
  let ?late = "EVLIST_ACTIVE \<in> ev_flags_of B1 e \<and> EV_TIMEOUT \<in> ev_res (evs B1 e)"
  obtain B2 where 2: "(if ?late then and_then (abort_loop e B1) (\<lambda>B. event_queue_remove B e EVLIST_ACTIVE) else Some (Inr B1)) = Some (Inr B2)"
    "base_ok B2" "evs B2 = with_flags (\<lambda>F. F - {EVLIST_TIMEOUT} - (if EV_TIMEOUT \<in> ev_res (evs B e) then {EVLIST_ACTIVE} else {})) e (evs B)"
    "kept B B2" "timeheap B2 = timeheap B1"
  proof (cases ?late)
    case True
    have "base_ok (B1\<lparr>ncalls := n\<rparr>)" "EVLIST_ACTIVE \<in> ev_flags_of (B1\<lparr>ncalls := n\<rparr>) e" using ok1(1) True by simp_all
    then obtain B2 where "event_queue_remove (B1\<lparr>ncalls := n\<rparr>) e EVLIST_ACTIVE = Some (Inr B2)" "moved (\<lambda>F. F - {EVLIST_ACTIVE}) e (B1\<lparr>ncalls := n\<rparr>) B2"
      "timeheap B2 = timeheap (B1\<lparr>ncalls := n\<rparr>)" by (rule remove_active)
    with True n ok1(2,3) show thesis by (intro that [of B2]) (auto simp: moved_def frame_def kept_def)
  next
    case False
    have "with_flags (\<lambda>F. F - {EVLIST_TIMEOUT} - (if EV_TIMEOUT \<in> ev_res (evs B e) then {EVLIST_ACTIVE} else {})) e (evs B) = evs B1"
      using False unfolding ok1(2) by (auto simp: fun_eq_iff)
    with False ok1 show thesis by (intro that [of B1]) (auto simp: frame_def kept_def)
  qed
  have now: "gettime clk B2 = Some now" using assms(4) gettime_kept [OF 2(4)] by simp
  define B3 where "B3 = ev_upd (\<lambda>d. d\<lparr>ev_timeout := timer_add now tv\<rparr>) e B2"
  have 3: "evs B3 = (evs B2)(e := (evs B2 e)\<lparr>ev_timeout := timer_add now tv\<rparr>)" "kept B2 B3" "timeheap B3 = timeheap B2"
    by (simp_all add: B3_def ev_upd_def kept_def)
  have "EVLIST_TIMEOUT \<notin> ev_flags_of B2 e" using 2(3) by simp
  with 2(2) have ok3: "base_ok B3" unfolding B3_def by (rule base_ok_timeout)
  have "EVLIST_TIMEOUT \<notin> ev_flags_of B3 e" "ev_in_base (evs B3 e)" "mh_n (timeheap B3) < mh_a (timeheap B3)"
    using 2(3,5) 3(1,3) 1(3) assms(2) by simp_all
  then obtain B' where ins: "event_queue_insert fr B3 e EVLIST_TIMEOUT = Some (Inr B')" "moved (insert EVLIST_TIMEOUT) e B3 B'"
    using insert_timeout [OF ok3] by blast
  have "schedule fr clk e tv B = Some (Inr B')"
    unfolding schedule_def 1(1) and_then_simps 2(1) using now ins(1) by (simp add: B3_def)
  moreover have fl: "insert q (F - {q} - X) = insert q (F - X)" for q and F X :: "evlist set" by auto
  have "evs B' = (evs B)(e := scheduled now tv (evs B e))"
    using ins(2) unfolding moved_def 3(1) 2(3) by (auto simp: scheduled_def fl)
  moreover have "kept B B'" using ins(2) 3(2) 2(4) by (simp add: moved_def frame_def kept_def)
  moreover have "base_ok B'" using ins(2) by (simp add: moved_def)
  ultimately show thesis by (intro that)
qed

text \<open>The event as a successful \<^verbatim>\<open>event_add\<close> leaves it.\<close>

definition watches :: "event_data \<Rightarrow> bool" where
  "watches d \<longleftrightarrow> ev_events d \<inter> {EV_READ, EV_WRITE, EV_SIGNAL} \<noteq> {} \<and> ev_flags d \<inter> {EVLIST_INSERTED, EVLIST_ACTIVE} = {}"

definition added :: "timeval \<Rightarrow> timeval option \<Rightarrow> event_data \<Rightarrow> event_data" where
  "added now tv d = (let d = (if watches d then d\<lparr>ev_flags := insert EVLIST_INSERTED (ev_flags d)\<rparr> else d)
     in case tv of None \<Rightarrow> d | Some tv \<Rightarrow> scheduled now tv d)"

text \<open>\<^verbatim>\<open>event_add\<close> adds the event, or fails and leaves every event as it was.\<close>

lemma event_add_ok:
  assumes "base_ok B" "ev_in_base (evs B e)" "counter_ok B e" "gettime clk B = Some now"
  shows "\<exists>r B'. event_add fr evsel clk B e tv = Some (Inr (r, B')) \<and> base_ok B' \<and> kept B B'
    \<and> (r \<noteq> - 1 \<and> evs B' = (evs B)(e := added now tv (evs B e))
       \<or> r = - 1 \<and> evs B' = evs B \<and> (0 < failing (base_faults B) \<or> watches (evs B e) \<and> evsel_add evsel e = - 1))"
proof -
  define reserve where "reserve \<longleftrightarrow> tv \<noteq> None \<and> EVLIST_TIMEOUT \<notin> ev_flags_of B e"
  obtain err h fs where rs: "(if reserve then min_heap_reserve fr (timeheap B) (1 + min_heap_size (timeheap B)) (base_faults B)
      else (0, timeheap B, base_faults B)) = (err, h, fs)" by (metis prod_cases3)
  define B0 where "B0 = B\<lparr>timeheap := h, base_faults := fs\<rparr>"
  have sel0: "evs B0 = evs B" "kept B B0" "ncalls B0 = ncalls B" by (simp_all add: B0_def kept_def)
  have hok: "heap_ok (ev_times B) (timeheap B) (ev_idx B)" using assms(1) by (simp add: base_ok_def)
  have cases: "err = 0 \<and> base_ok B0 \<and> (reserve \<longrightarrow> mh_n (timeheap B0) < mh_a (timeheap B0))
    \<or> err = - 1 \<and> base_ok B0 \<and> 0 < failing (base_faults B)"
  proof (cases reserve)
    case False
    then show ?thesis using rs assms(1) by (auto simp: B0_def base_ok_def)
  next
    case True
    show ?thesis
      by (cases rule: reserve_ok [OF hok, of fr "base_faults B", case_names ok fail])
        (use True rs assms(1) in \<open>auto simp: B0_def base_ok_def\<close>)
  qed
  have def: "event_add fr evsel clk B e tv = (if err = - 1 then Some (Inr (- 1, B0))
      else let watch = watches (evs B e); res = (if watch then evsel_add evsel e else 0)
      in and_then (if watch \<and> res \<noteq> - 1 then event_queue_insert fr B0 e EVLIST_INSERTED else Some (Inr B0)) (\<lambda>B.
         case tv of None \<Rightarrow> Some (Inr (res, B))
         | Some tv \<Rightarrow> if res \<noteq> - 1 then and_then (schedule fr clk e tv B) (\<lambda>B. Some (Inr (res, B))) else Some (Inr (res, B))))"
    using assms(2) unfolding event_add_def reserve_def [symmetric] rs by (simp add: B0_def [symmetric] sel0(1) watches_def Let_def)
  define res where "res = (if watches (evs B e) then evsel_add evsel e else 0)"
  consider "err = - 1" | "err = 0" "res = - 1" | "err = 0" "res \<noteq> - 1" using cases by auto
  then show ?thesis
  proof cases
    case 1
    then show ?thesis using cases sel0 def by auto
  next
    case 2
    then have "watches (evs B e)" "evsel_add evsel e = - 1" by (auto simp: res_def split: if_splits)
    then show ?thesis using 2 cases sel0 unfolding def by (auto simp: Let_def split: option.split)
  next
    case 3
    have ok0: "base_ok B0" "reserve \<longrightarrow> mh_n (timeheap B0) < mh_a (timeheap B0)" using 3 cases by auto
    define d where "d = (if watches (evs B e) then (evs B e)\<lparr>ev_flags := insert EVLIST_INSERTED (ev_flags_of B e)\<rparr> else evs B e)"
    obtain B1 where 1: "(if watches (evs B e) \<and> res \<noteq> - 1 then event_queue_insert fr B0 e EVLIST_INSERTED else Some (Inr B0)) = Some (Inr B1)"
      "base_ok B1" "evs B1 = (evs B)(e := d)" "kept B B1" "timeheap B1 = timeheap B0"
    proof (cases "watches (evs B e)")
      case True
      then have "EVLIST_INSERTED \<notin> ev_flags_of B0 e" "ev_in_base (evs B0 e)" using assms(2) by (auto simp: sel0(1) watches_def)
      then obtain B1 where "event_queue_insert fr B0 e EVLIST_INSERTED = Some (Inr B1)" "moved (insert EVLIST_INSERTED) e B0 B1"
        "timeheap B1 = timeheap B0" using insert_inserted [OF ok0(1)] by blast
      with True 3 sel0 show thesis by (intro that [of B1]) (auto simp: moved_def frame_def kept_def d_def)
    next
      case False
      with ok0 sel0 show thesis by (intro that [of B0]) (auto simp: d_def)
    qed
    note step = def [unfolded Let_def res_def [symmetric] 1(1) and_then_simps]
    have err: "err \<noteq> - 1" using 3 by simp
    show ?thesis
    proof (cases tv)
      case None
      with step err 1 3 show ?thesis by (auto simp: added_def Let_def d_def)
    next
      case (Some t)
      have d: "ev_flags d \<inter> {EVLIST_TIMEOUT} = ev_flags_of B e \<inter> {EVLIST_TIMEOUT}" "ev_in_base d = ev_in_base (evs B e)"
        "ev_ncalls d = ev_ncalls (evs B e)" "ev_pncalls d = ev_pncalls (evs B e)" by (auto simp: d_def)
      have "ev_in_base (evs B1 e)" "counter_ok B1 e" "gettime clk B1 = Some now"
        using assms(2-4) d(2-4) 1(3,4) gettime_kept [OF 1(4)] by (auto simp: counter_ok_def kept_def)
      moreover have "mh_n (timeheap B1) < mh_a (timeheap B1)" if "EVLIST_TIMEOUT \<notin> ev_flags_of B1 e"
        using that ok0(2) d(1) 1(3,5) Some by (auto simp: reserve_def)
      ultimately obtain B' where B': "schedule fr clk e t B1 = Some (Inr B')" "base_ok B'" "evs B' = (evs B1)(e := scheduled now t (evs B1 e))"
        "kept B1 B'" using schedule_ok [OF 1(2)] by metis
      have "evs B' = (evs B)(e := added now tv (evs B e))"
        using B'(3) unfolding 1(3) by (simp add: added_def Some d_def Let_def)
      moreover have "kept B B'" using B'(4) 1(4) by (simp add: kept_def)
      ultimately show ?thesis using step err 3 Some B'(1,2) by auto
    qed
  qed
qed

subsection \<open>Expired timeouts\<close>

definition expired :: "event_data \<Rightarrow> event_data" where
  "expired d = d\<lparr>ev_res := {EV_TIMEOUT}, ev_ncalls := 1, ev_pncalls := False, ev_flags := insert EVLIST_ACTIVE (ev_flags d - places)\<rparr>"

lemma expire_first:
  assumes "base_ok B" "e \<in> queued (ev_idx B)" "counter_ok B e"
  obtains B' where "and_then (event_del evsel B e) (\<lambda>(_, B). event_active fr B e {EV_TIMEOUT} 1) = Some (Inr B')"
    "base_ok B'" "evs B' = (evs B)(e := expired (evs B e))" "kept B B'" "queued (ev_idx B') = queued (ev_idx B) - {e}"
proof -
  have e: "EVLIST_TIMEOUT \<in> ev_flags_of B e" using assms(1,2) by (simp add: queued_timeout)
  have base: "ev_in_base (evs B e)" by (rule base_ok_in_base [OF assms(1) e]) simp
  obtain r B1 where 1: "event_del evsel B e = Some (Inr (r, B1))" "base_ok B1" "evs B1 = with_flags (\<lambda>F. F - places) e (evs B)"
    "kept B B1" using assms(1) base assms(3) by (rule event_del_ok)
  have "ev_in_base (evs B1 e)" "EVLIST_ACTIVE \<notin> ev_flags_of B1 e" using base by (simp_all add: 1(3))
  with 1(2) obtain B2 where 2: "event_active fr B1 e {EV_TIMEOUT} 1 = Some (Inr B2)" "base_ok B2"
    "evs B2 = (evs B1)(e := (evs B1 e)\<lparr>ev_res := {EV_TIMEOUT}, ev_ncalls := 1, ev_pncalls := False, ev_flags := insert EVLIST_ACTIVE (ev_flags_of B1 e)\<rparr>)"
    "kept B1 B2" by (rule event_active_ok)
  have evs: "evs B2 = (evs B)(e := expired (evs B e))" unfolding 2(3) 1(3) by (simp add: expired_def)
  have "queued (ev_idx B2) = on_queue (evs B2) EVLIST_TIMEOUT" "queued (ev_idx B) = on_queue (evs B) EVLIST_TIMEOUT"
    using 2(2) assms(1) by (simp_all add: base_ok_def)
  then have "queued (ev_idx B2) = queued (ev_idx B) - {e}" unfolding evs by (auto simp: on_queue_def expired_def)
  moreover have "kept B B2" using 1(4) 2(4) by (simp add: kept_def)
  ultimately show thesis using 1(1) 2(1,2) evs by (intro that [of B2]) simp_all
qed

text \<open>The loop ends, and exactly the events whose time has come are active then.\<close>

lemma timeout_loop_ok:
  assumes "base_ok B" "\<And>x. x \<in> queued (ev_idx B) \<Longrightarrow> counter_ok B x"
  shows "\<exists>B'. timeout_loop fr evsel now B = Some (Inr B') \<and> base_ok B' \<and> kept B B'
    \<and> evs B' = (\<lambda>x. if x \<in> queued (ev_idx B) \<and> ev_timeout (evs B x) \<le> now then expired (evs B x) else evs B x)"
  using assms
proof (induction "card (queued (ev_idx B))" arbitrary: B rule: less_induct)
  case less
  have hok: "heap_ok (ev_times B) (timeheap B) (ev_idx B)" using less.prems(1) by (simp add: base_ok_def)
  show ?case
  proof (cases "queued (ev_idx B) = {}")
    case True
    then have "timeout_loop fr evsel now B = Some (Inr B)"
      using min_heap_top_ok [OF hok] by (subst timeout_loop.simps) simp
    with True less.prems(1) show ?thesis by (auto simp: kept_def)
  next
    case False
    then obtain e where e: "e \<in> queued (ev_idx B)" "min_heap_top (timeheap B) = Some (Some e)"
      "\<And>x. x \<in> queued (ev_idx B) \<Longrightarrow> ev_timeout (evs B e) \<le> ev_timeout (evs B x)" using min_heap_top_ok [OF hok] by auto
    show ?thesis
    proof (cases "ev_timeout (evs B e) \<le> now")
      case False
      then have "timer_greater (ev_timeout (evs B e)) now" by (simp add: less_eq_timeval_def)
      then have "timeout_loop fr evsel now B = Some (Inr B)" using e(2) by (subst timeout_loop.simps) simp
      moreover have "evs B = (\<lambda>x. if x \<in> queued (ev_idx B) \<and> ev_timeout (evs B x) \<le> now then expired (evs B x) else evs B x)"
        using e(3) False by (auto simp: fun_eq_iff dest: order_trans)
      ultimately show ?thesis using less.prems(1) by (auto simp: kept_def)
    next
      case True
      then have due: "\<not> timer_greater (ev_timeout (evs B e)) now" by (simp add: less_eq_timeval_def)
      obtain B1 where 1: "and_then (event_del evsel B e) (\<lambda>(_, B). event_active fr B e {EV_TIMEOUT} 1) = Some (Inr B1)"
        "base_ok B1" "evs B1 = (evs B)(e := expired (evs B e))" "kept B B1" "queued (ev_idx B1) = queued (ev_idx B) - {e}"
        using less.prems(1) e(1) less.prems(2) [OF e(1)] by (rule expire_first)
      have "finite (queued (ev_idx B))" using heap_ok_queued [OF hok] by simp
      then have smaller: "card (queued (ev_idx B1)) < card (queued (ev_idx B))" using e(1) unfolding 1(5) by (rule card_Diff1_less)
      have "counter_ok B1 x" if "x \<in> queued (ev_idx B1)" for x
        using that less.prems(2) [of x] 1(3-5) by (auto simp: counter_ok_def kept_def)
      with less.hyps [OF smaller 1(2)] obtain B' where B': "timeout_loop fr evsel now B1 = Some (Inr B')" "base_ok B'" "kept B1 B'"
        "evs B' = (\<lambda>x. if x \<in> queued (ev_idx B1) \<and> ev_timeout (evs B1 x) \<le> now then expired (evs B1 x) else evs B1 x)" by blast
      have "timeout_loop fr evsel now B = Some (Inr B')"
        using e(2) due 1(1) B'(1) by (subst timeout_loop.simps) simp
      moreover have "evs B' = (\<lambda>x. if x \<in> queued (ev_idx B) \<and> ev_timeout (evs B x) \<le> now then expired (evs B x) else evs B x)"
        unfolding B'(4) 1(3,5) using e(1) True by (auto simp: fun_eq_iff)
      moreover have "kept B B'" using 1(4) B'(3) by (simp add: kept_def)
      ultimately show ?thesis using B'(2) by blast
    qed
  qed
qed

lemma timeout_process_ok:
  assumes "base_ok B" "\<And>x. x \<in> queued (ev_idx B) \<Longrightarrow> counter_ok B x" "gettime clk B = Some now"
  shows "\<exists>B'. timeout_process fr evsel clk B = Some (Inr B') \<and> base_ok B' \<and> kept B B'
    \<and> evs B' = (\<lambda>x. if EVLIST_TIMEOUT \<in> ev_flags_of B x \<and> ev_timeout (evs B x) \<le> now then expired (evs B x) else evs B x)"
proof -
  have hok: "heap_ok (ev_times B) (timeheap B) (ev_idx B)" using assms(1) by (simp add: base_ok_def)
  note q = queued_timeout [OF assms(1)]
  show ?thesis
  proof (cases "min_heap_empty (timeheap B)")
    case True
    then have "queued (ev_idx B) = {}" using heap_ok_empty [OF hok] by (simp add: min_heap_empty_def)
    then have "\<And>x. EVLIST_TIMEOUT \<notin> ev_flags_of B x" using q by auto
    with True assms(1) show ?thesis by (auto simp: timeout_process_def kept_def)
  next
    case False
    then show ?thesis
      using timeout_loop_ok [OF assms(1,2), of fr evsel now] assms(3) unfolding q by (simp add: timeout_process_def)
  qed
qed

subsection \<open>The clock\<close>

definition tv_ok :: "timeval \<Rightarrow> bool" where
  "tv_ok t \<longleftrightarrow> 0 \<le> tv_usec t \<and> tv_usec t < 1000000"

definition micros :: "timeval \<Rightarrow> int" where
  "micros t = tv_sec t * 1000000 + tv_usec t"

lemma timer_sub_ok:
  assumes "tv_ok a" "tv_ok b"
  shows "tv_ok (timer_sub a b)" "micros (timer_sub a b) = micros a - micros b"
  using assms by (auto simp: timer_sub_def tv_ok_def micros_def Let_def)

lemma timer_add_ok:
  assumes "tv_ok a" "tv_ok b"
  shows "tv_ok (timer_add a b)" "micros (timer_add a b) = micros a + micros b"
  using assms by (auto simp: timer_add_def tv_ok_def micros_def Let_def)

lemma micros_le:
  assumes "tv_ok a" "tv_ok b"
  shows "a \<le> b \<longleftrightarrow> micros a \<le> micros b"
  using assms by (auto simp: less_eq_timeval_def timer_greater_def tv_ok_def micros_def)

text \<open>How long the loop waits: until the earliest event is due, and not at all when it is.\<close>

lemma timeout_next_ok:
  assumes "base_ok B" "gettime clk B = Some now" "tv_ok now" "\<And>x. x \<in> queued (ev_idx B) \<Longrightarrow> tv_ok (ev_timeout (evs B x))"
  shows "if queued (ev_idx B) = {} then timeout_next clk B = Some (0, None)
    else \<exists>e \<in> queued (ev_idx B). \<exists>tv. timeout_next clk B = Some (0, Some tv) \<and> tv_ok tv
      \<and> micros tv = max 0 (micros (ev_timeout (evs B e)) - micros now)
      \<and> (\<forall>x \<in> queued (ev_idx B). micros (ev_timeout (evs B e)) \<le> micros (ev_timeout (evs B x)))"
proof -
  have top: "if queued (ev_idx B) = {} then min_heap_top (timeheap B) = Some None
    else \<exists>e \<in> queued (ev_idx B). min_heap_top (timeheap B) = Some (Some e) \<and> (\<forall>x \<in> queued (ev_idx B). ev_timeout (evs B e) \<le> ev_timeout (evs B x))"
  proof -
    have "heap_ok (ev_times B) (timeheap B) (ev_idx B)" using assms(1) by (simp add: base_ok_def)
    then show ?thesis by (rule min_heap_top_ok)
  qed
  show ?thesis
  proof (cases "queued (ev_idx B) = {}")
    case True
    then show ?thesis using top by (simp add: timeout_next_def)
  next
    case False
    then obtain e where e: "e \<in> queued (ev_idx B)" "min_heap_top (timeheap B) = Some (Some e)"
      "\<And>x. x \<in> queued (ev_idx B) \<Longrightarrow> ev_timeout (evs B e) \<le> ev_timeout (evs B x)" using top by auto
    have first: "\<forall>x \<in> queued (ev_idx B). micros (ev_timeout (evs B e)) \<le> micros (ev_timeout (evs B x))"
      using e(1,3) assms(4) by (simp add: micros_le [symmetric])
    define t where "t = ev_timeout (evs B e)"
    have t: "tv_ok t" using assms(4) e(1) by (simp add: t_def)
    have "\<exists>tv. timeout_next clk B = Some (0, Some tv) \<and> tv_ok tv \<and> micros tv = max 0 (micros t - micros now)"
    proof (cases "t \<le> now")
      case True
      then have "timeout_next clk B = Some (0, Some (Timeval 0 0))"
        using e(2) assms(2) by (simp add: timeout_next_def t_def [symmetric] less_eq_timeval_def)
      moreover have "micros t - micros now \<le> 0" using True micros_le [OF t assms(3)] by simp
      ultimately show ?thesis by (simp add: tv_ok_def micros_def)
    next
      case False
      then have pos: "0 < micros t - micros now" using micros_le [OF t assms(3)] by simp
      note sub = timer_sub_ok [OF t assms(3)]
      have "0 \<le> tv_usec (timer_sub t now)" "0 \<le> tv_sec (timer_sub t now)"
        using sub pos unfolding tv_ok_def by (auto simp: micros_def)
      then have "timeout_next clk B = Some (0, Some (timer_sub t now))"
        using False e(2) assms(2) by (simp add: timeout_next_def t_def [symmetric] less_eq_timeval_def Let_def)
      then show ?thesis using sub pos by auto
    qed
    then show ?thesis using False e(1) first unfolding t_def by auto
  qed
qed

lemma fold_ev_upd:
  "distinct xs \<Longrightarrow> fold (ev_upd f) xs B = B\<lparr>evs := (\<lambda>x. if x \<in> set xs then f (evs B x) else evs B x)\<rparr>"
proof (induction xs arbitrary: B)
  case (Cons x xs)
  then show ?case by (auto simp: ev_upd_def intro!: arg_cong [of _ _ "\<lambda>E. B\<lparr>evs := E\<rparr>"])
qed simp

text \<open>When the clock has gone backwards, all times move by the same amount, and the heap stays in order.\<close>

lemma heap_ok_shift:
  assumes "heap_ok tm s idx" "\<And>x y. x \<in> queued idx \<Longrightarrow> y \<in> queued idx \<Longrightarrow> tm x \<le> tm y \<Longrightarrow> tm' x \<le> tm' y"
  shows "heap_ok tm' s idx"
proof -
  have n: "mh_n s \<le> length (mh_p s)" using assms(1) by (simp add: heap_ok_def)
  have mem: "mh_p s ! i \<in> queued idx" if "i < mh_n s" for i
    using that n by (auto simp: heap_ok_queued [OF assms(1)] in_set_conv_nth)
  have "ordered_but (\<lambda>_. False) tm' (mh_p s) (mh_n s)"
    using assms(1) unfolding ordered_but_def heap_ok_def by (auto intro!: assms(2) mem)
  then show ?thesis using assms(1) by (simp add: heap_ok_def)
qed

lemma timeout_correct_ok:
  assumes "base_ok B" "gettime clk B = Some now" "tv_ok now" "tv_ok (event_tv B)" "\<And>x. x \<in> queued (ev_idx B) \<Longrightarrow> tv_ok (ev_timeout (evs B x))"
  shows "\<exists>B'. timeout_correct False clk B = Some B' \<and> base_ok B'
    \<and> (if event_tv B \<le> now then evs B' = evs B \<and> event_tv B' = now
       else \<forall>x. ev_flags_of B' x = ev_flags_of B x
         \<and> micros (ev_timeout (evs B' x)) = micros (ev_timeout (evs B x))
             - (if EVLIST_TIMEOUT \<in> ev_flags_of B x then micros (event_tv B) - micros now else 0))"
proof (cases "event_tv B \<le> now")
  case True
  then have "timeout_correct False clk B = Some (B\<lparr>event_tv := now\<rparr>)"
    using assms(2) by (simp add: timeout_correct_def less_eq_timeval_def)
  moreover have "base_ok (B\<lparr>event_tv := now\<rparr>)" using assms(1) by (simp add: base_ok_def)
  ultimately show ?thesis using True by simp
next
  case False
  define off where "off = timer_sub (event_tv B) now"
  have off: "tv_ok off" "micros off = micros (event_tv B) - micros now" unfolding off_def using assms(3,4) by (simp_all add: timer_sub_ok)
  have hok: "heap_ok (ev_times B) (timeheap B) (ev_idx B)" using assms(1) by (simp add: base_ok_def)
  let ?xs = "take (mh_n (timeheap B)) (mh_p (timeheap B))"
  have xs: "set ?xs = queued (ev_idx B)" "distinct ?xs" "mh_n (timeheap B) \<le> length (mh_p (timeheap B))"
    using heap_ok_queued [OF hok] hok places_distinct by (auto simp: heap_ok_def)
  define f where "f = (\<lambda>d :: event_data. d\<lparr>ev_timeout := timer_sub (ev_timeout d) off\<rparr>)"
  define B' where "B' = B\<lparr>evs := (\<lambda>x. if x \<in> queued (ev_idx B) then f (evs B x) else evs B x)\<rparr>"
  have run: "timeout_correct False clk B = Some B'"
    using False assms(2) xs(3) fold_ev_upd [OF xs(2), of f B] unfolding xs(1)
    by (simp add: timeout_correct_def less_eq_timeval_def Let_def off_def [symmetric] f_def [symmetric] B'_def)
  have s: "ev_flags (evs B' x) = ev_flags (evs B x)" "ev_pri (evs B' x) = ev_pri (evs B x)" "ev_in_base (evs B' x) = ev_in_base (evs B x)" for x
    by (simp_all add: B'_def f_def)
  have t: "ev_timeout (evs B' x) = (if x \<in> queued (ev_idx B) then timer_sub (ev_timeout (evs B x)) off else ev_timeout (evs B x))" for x
    by (simp add: B'_def f_def)
  have "heap_ok (ev_times B') (timeheap B) (ev_idx B)"
    using hok
  proof (rule heap_ok_shift)
    fix x y
    assume xy: "x \<in> queued (ev_idx B)" "y \<in> queued (ev_idx B)" "ev_timeout (evs B x) \<le> ev_timeout (evs B y)"
    then show "ev_timeout (evs B' x) \<le> ev_timeout (evs B' y)"
      using assms(5) [OF xy(1)] assms(5) [OF xy(2)] off by (simp add: t micros_le timer_sub_ok)
  qed
  then have "base_ok B'" using assms(1) by (simp add: base_ok_def on_queue_def place_count_def s) (simp add: B'_def)
  moreover have "micros (ev_timeout (evs B' x)) = micros (ev_timeout (evs B x))
      - (if EVLIST_TIMEOUT \<in> ev_flags_of B x then micros (event_tv B) - micros now else 0)" for x
    using assms(5) off queued_timeout [OF assms(1), of x] by (simp add: t timer_sub_ok)
  ultimately show ?thesis using run False s by auto
qed

subsection \<open>A counter that is gone\<close>

text \<open>
  A callback that breaks the loop while its event is due once more leaves the event with the address
  of a counter that no longer exists.
\<close>

lemma break_leaves_counter:
  assumes "base_ok B" "i < length (activequeues B)" "activequeues B ! i = e # q" "\<And>j. j < i \<Longrightarrow> activequeues B ! j = []"
    and "EV_PERSIST \<in> ev_events (evs B e)" "1 < ev_ncalls (evs B e)"
    and "\<And>B. cb e B = Some (Inr (B\<lparr>event_break := True\<rparr>))"
  shows "\<exists>B'. event_process_active evsel cb B = Some (Inr B') \<and> event_del evsel B' e = None"
proof -
  have n: "nactivequeues B = int (length (activequeues B))" using assms(1) by (simp add: base_ok_def)
  have "List.find (\<lambda>j. arr_get (activequeues B) (int j) \<noteq> Some []) [0..<length (activequeues B)] = Some i"
    using assms(2-4) by (auto simp: find_Some_iff intro!: exI [of _ i])
  then have find: "List.find (\<lambda>j. arr_get (activequeues B) (int j) \<noteq> Some []) [0..<nat (nactivequeues B)] = Some i" by (simp add: n)
  have "e \<in> set (activequeues B ! i)" using assms(3) by simp
  then have act: "EVLIST_ACTIVE \<in> ev_flags_of B e" using assms(1,2) by (auto simp: base_ok_def on_queue_mem)
  have base: "ev_in_base (evs B e)" by (rule base_ok_in_base [OF assms(1) act]) simp
  obtain B1 where 1: "event_queue_remove B e EVLIST_ACTIVE = Some (Inr B1)" "moved (\<lambda>F. F - {EVLIST_ACTIVE}) e B B1"
    using remove_active [OF assms(1) act] by blast
  define k where "k = ev_ncalls (evs B e)"
  have k: "ev_ncalls (evs B1 e) = k" "k \<noteq> 0" "k \<noteq> 1" using 1(2) assms(6) by (simp_all add: moved_def k_def)
  define B2 where "B2 = ev_upd (\<lambda>d. d\<lparr>ev_pncalls := True\<rparr>) e (B1\<lparr>ncalls := Some k\<rparr>)"
  define B3 where "B3 = (ev_upd (\<lambda>d. d\<lparr>ev_ncalls := k - 1\<rparr>) e (B2\<lparr>ncalls := Some (k - 1)\<rparr>))\<lparr>event_break := True\<rparr>"
  have calls: "run_calls cb e B2 = Some (Inr (True, B3))"
    using k(2) assms(7) by (subst run_calls.simps) (simp add: B2_def B3_def ev_upd_def)
  have "run_queue evsel cb i B = Some (Inr B3)"
    using assms(2,3,5) 1(1) calls k(1) by (subst run_queue.simps) (simp add: B2_def)
  then have "event_process_active evsel cb B = Some (Inr (B3\<lparr>ncalls := None\<rparr>))" by (simp add: event_process_active_def find)
  moreover have "event_del evsel (B3\<lparr>ncalls := None\<rparr>) e = None"
    using base k 1(2) by (simp add: event_del_def abort_loop_def B3_def B2_def ev_upd_def moved_def)
  ultimately show ?thesis by blast
qed

subsection \<open>Reachable bases\<close>

text \<open>What a client does with the events of a base, between the runs of callbacks, and what the loop does with the timeouts.\<close>

inductive base_step :: "(nat \<Rightarrow> event) \<Rightarrow> eventop \<Rightarrow> event_base \<Rightarrow> event_base \<Rightarrow> bool" for fr evsel where
  set: "ev_flags_of B e \<inter> places = {} \<Longrightarrow> base_step fr evsel B (event_set True e fd events B)"
| base: "event_base_set e B = (r, B') \<Longrightarrow> base_step fr evsel B B'"
| priority: "event_priority_set e pri B = Some (r, B') \<Longrightarrow> base_step fr evsel B B'"
| add: "gettime clk B = Some now \<Longrightarrow> event_add fr evsel clk B e tv = Some (Inr (r, B')) \<Longrightarrow> base_step fr evsel B B'"
| del: "event_del evsel B e = Some (Inr (r, B')) \<Longrightarrow> base_step fr evsel B B'"
| active: "event_active fr B e res n = Some (Inr B') \<Longrightarrow> base_step fr evsel B B'"
| timeouts: "gettime clk B = Some now \<Longrightarrow> timeout_process fr evsel clk B = Some (Inr B') \<Longrightarrow> base_step fr evsel B B'"

lemma base_ok_upd:
  assumes "base_ok B"
    and "\<And>d. ev_flags (f d) \<inter> insert EVLIST_INTERNAL places = ev_flags d \<inter> insert EVLIST_INTERNAL places" "\<And>d. ev_timeout (f d) = ev_timeout d"
    and "EVLIST_ACTIVE \<in> ev_flags_of B e \<Longrightarrow> ev_pri (f (evs B e)) = ev_pri (evs B e)"
    and "ev_flags_of B e \<inter> places \<noteq> {} \<Longrightarrow> ev_in_base (f (evs B e))"
    and "ev_in_base (f (evs B e)) \<Longrightarrow> 0 \<le> ev_pri (f (evs B e)) \<and> ev_pri (f (evs B e)) < nactivequeues B"
  shows "base_ok (ev_upd f e B)"
proof -
  have sel: "(q \<in> ev_flags (f d)) = (q \<in> ev_flags d)" if "q \<in> insert EVLIST_INTERNAL places" for q d
    using assms(2) [of d] that by blast
  define B0 where "B0 = ev_upd f e B"
  have fl: "q \<in> ev_flags (evs B0 x) \<longleftrightarrow> q \<in> ev_flags_of B x" if "q \<in> insert EVLIST_INTERNAL places" for q x
    using sel [OF that] by (simp add: B0_def ev_upd_def)
  have t: "ev_times B0 = ev_times B" by (simp add: B0_def ev_upd_def assms(3) fun_eq_iff)
  have q: "on_queue (evs B0) q = on_queue (evs B) q" "place_count (evs B0) q = place_count (evs B) q" if "q \<in> places" for q
    using that by (simp_all add: on_queue_def place_count_def fl)
  have same: "eventqueue B0 = eventqueue B" "activequeues B0 = activequeues B" "nactivequeues B0 = nactivequeues B" "timeheap B0 = timeheap B"
    "ev_idx B0 = ev_idx B" "event_count B0 = event_count B" "event_count_active B0 = event_count_active B" by (simp_all add: B0_def ev_upd_def)
  have p: "{x \<in> on_queue (evs B) EVLIST_ACTIVE. ev_pri (evs B0 x) = i} = {x \<in> on_queue (evs B) EVLIST_ACTIVE. ev_pri (evs B x) = i}" for i
    using assms(4) by (auto simp: B0_def ev_upd_def on_queue_mem)
  have in_base: "\<forall>x. ev_flags_of B0 x \<inter> places \<noteq> {} \<longrightarrow> ev_in_base (evs B0 x)"
  proof (intro allI impI)
    fix x
    assume "ev_flags_of B0 x \<inter> places \<noteq> {}"
    then have "ev_flags_of B x \<inter> places \<noteq> {}" using fl [of _ x] by blast
    then show "ev_in_base (evs B0 x)" using assms(1,5) by (cases "x = e") (auto simp: B0_def ev_upd_def base_ok_def)
  qed
  have pri: "\<forall>x. ev_in_base (evs B0 x) \<longrightarrow> 0 \<le> ev_pri (evs B0 x) \<and> ev_pri (evs B0 x) < nactivequeues B"
    using assms(1,6) by (simp add: B0_def ev_upd_def base_ok_def)
  have "base_ok B0" using assms(1) in_base pri by (simp add: base_ok_def t q same p)
  then show ?thesis by (simp add: B0_def)
qed

lemma base_ok_pri: "base_ok B \<Longrightarrow> 0 \<le> nactivequeues B div 2 \<and> nactivequeues B div 2 < nactivequeues B"
  unfolding base_ok_def using int_div_less_self [of "nactivequeues B" 2] by auto

text \<open>No event points to a counter that is gone.\<close>

lemma kept_counters:
  assumes "\<forall>x. counter_ok B x" "kept B B'" "\<And>x. ev_pncalls (evs B' x) \<Longrightarrow> ev_pncalls (evs B x) \<and> ev_ncalls (evs B' x) = ev_ncalls (evs B x)"
  shows "\<forall>x. counter_ok B' x"
  using assms unfolding counter_ok_def kept_def by metis

lemma step_keeps:
  assumes "base_step fr evsel B B'" "base_ok B" "\<forall>x. counter_ok B x"
  shows "base_ok B' \<and> (\<forall>x. counter_ok B' x)"
  using assms
proof (induction rule: base_step.induct)
  case (set B e fd events)
  define B1 where "B1 = ev_upd (\<lambda>d. d\<lparr>ev_in_base := True, ev_fd := fd, ev_events := events, ev_res := {}, ev_flags := {EVLIST_INIT},
                ev_ncalls := 0, ev_pncalls := False, ev_pri := nactivequeues B div 2\<rparr>) e B"
  have "EVLIST_TIMEOUT \<notin> ev_flags_of B e" using set(1) by (auto simp: places_def)
  then have "ev_idx B e = - 1" using queued_timeout [OF set(2), of e] by (simp add: queued_def)
  then have idx: "min_heap_elem_init e (ev_idx B) = ev_idx B" by (auto simp: min_heap_elem_init_def)
  have eq: "event_set True e fd events B = B1"
    by (simp add: event_set_def Let_def ev_upd_def B1_def idx)
  have fl: "q \<in> ev_flags_of B1 x \<longleftrightarrow> q \<in> ev_flags_of B x" if "q \<in> places" for q x
    using that set(1) by (auto simp: B1_def ev_upd_def places_def)
  have int: "{x. q \<in> ev_flags_of B1 x \<and> EVLIST_INTERNAL \<notin> ev_flags_of B1 x} = {x. q \<in> ev_flags_of B x \<and> EVLIST_INTERNAL \<notin> ev_flags_of B x}" if "q \<in> places" for q
    using that set(1) fl [OF that] by (auto simp: B1_def ev_upd_def places_def)
  have q: "on_queue (evs B1) q = on_queue (evs B) q" "place_count (evs B1) q = place_count (evs B) q" if "q \<in> places" for q
    using fl [OF that] int [OF that] by (simp_all add: on_queue_def place_count_def)
  have same: "eventqueue B1 = eventqueue B" "activequeues B1 = activequeues B" "nactivequeues B1 = nactivequeues B" "timeheap B1 = timeheap B"
    "ev_idx B1 = ev_idx B" "event_count B1 = event_count B" "event_count_active B1 = event_count_active B" by (simp_all add: B1_def ev_upd_def)
  have t: "ev_times B1 = ev_times B" by (auto simp: B1_def ev_upd_def)
  have p: "{x \<in> on_queue (evs B) EVLIST_ACTIVE. ev_pri (evs B1 x) = i} = {x \<in> on_queue (evs B) EVLIST_ACTIVE. ev_pri (evs B x) = i}" for i
    using set(1) by (auto simp: B1_def ev_upd_def on_queue_mem places_def)
  have in_base: "\<forall>x. ev_flags_of B1 x \<inter> places \<noteq> {} \<longrightarrow> ev_in_base (evs B1 x)"
    using set(2) by (auto simp: B1_def ev_upd_def base_ok_def)
  have pri: "\<forall>x. ev_in_base (evs B1 x) \<longrightarrow> 0 \<le> ev_pri (evs B1 x) \<and> ev_pri (evs B1 x) < nactivequeues B"
    using set(2) base_ok_pri [OF set(2)] by (simp add: B1_def ev_upd_def base_ok_def)
  have "base_ok B1" using set(2) in_base pri by (simp add: base_ok_def t q same p)
  moreover have "\<forall>x. counter_ok B1 x" using set(3) by (auto simp: counter_ok_def B1_def ev_upd_def)
  ultimately show ?case unfolding eq by blast
next
  case (base e B r B')
  then show ?case
    using base_ok_upd [OF base(2), of "\<lambda>d. d\<lparr>ev_in_base := True, ev_pri := nactivequeues B div 2\<rparr>" e] base_ok_pri [OF base(2)]
    by (auto simp: event_base_set_def counter_ok_def ev_upd_def split: if_splits)
next
  case (priority e pri B r B')
  then show ?case
    using base_ok_upd [OF priority(2), of "\<lambda>d. d\<lparr>ev_pri := pri\<rparr>" e] base_ok_in_base [OF priority(2), of _ e]
    by (auto simp: event_priority_set_def counter_ok_def ev_upd_def split: if_splits)
next
  case (add clk B now e tv r B')
  then have "ev_in_base (evs B e)" by (auto simp: event_add_def split: if_splits)
  from event_add_ok [OF add(3) this _ add(1), of fr evsel tv] add(2,4)
  have 1: "base_ok B'" "kept B B'" "evs B' = evs B \<or> evs B' = (evs B)(e := added now tv (evs B e))" by auto
  then show ?case
    by (intro conjI kept_counters [OF add(4) 1(2)]) (auto simp: added_def scheduled_def Let_def split: option.splits if_splits)
next
  case (del B e r B')
  show ?case
  proof (cases "ev_in_base (evs B e)")
    case True
    from event_del_ok [OF del(2) True, of evsel] del(1,3)
    have 1: "base_ok B'" "evs B' = with_flags (\<lambda>F. F - places) e (evs B)" "kept B B'" by auto
    then show ?thesis by (intro conjI kept_counters [OF del(3) 1(3)]) (auto split: if_splits)
  next
    case False
    then show ?thesis using del by (simp add: event_del_def)
  qed
next
  case (active B e res n B')
  show ?case
  proof (cases "EVLIST_ACTIVE \<in> ev_flags_of B e")
    case True
    have base: "ev_in_base (evs B e)" by (rule base_ok_in_base [OF active(2) True]) simp
    then have pri: "0 \<le> ev_pri (evs B e) \<and> ev_pri (evs B e) < nactivequeues B" using active(2) by (simp add: base_ok_def)
    have eq: "B' = ev_upd (\<lambda>d. d\<lparr>ev_res := ev_res d \<union> res\<rparr>) e B" using True active(1) by (simp add: event_active_def)
    have "base_ok B'" unfolding eq by (rule base_ok_upd [OF active(2)]) (use base pri in simp_all)
    moreover have "\<forall>x. counter_ok B' x" unfolding eq using active(3) by (auto simp: counter_ok_def ev_upd_def)
    ultimately show ?thesis by blast
  next
    case False
    then have base: "ev_in_base (evs B e)" using active(1) by (auto simp: event_active_def split: if_splits)
    from event_active_ok [OF active(2) base False, of fr res n] active(1)
    have 1: "base_ok B'" "evs B' = (evs B)(e := (evs B e)\<lparr>ev_res := res, ev_ncalls := n, ev_pncalls := False,
      ev_flags := insert EVLIST_ACTIVE (ev_flags_of B e)\<rparr>)" "kept B B'" by auto
    then show ?thesis by (intro conjI kept_counters [OF active(3) 1(3)]) (auto split: if_splits)
  qed
next
  case (timeouts clk B now B')
  from timeout_process_ok [OF timeouts(3) _ timeouts(1), of fr evsel] timeouts(2,4)
  have 1: "base_ok B'" "kept B B'" "evs B' = (\<lambda>x. if EVLIST_TIMEOUT \<in> ev_flags_of B x \<and> ev_timeout (evs B x) \<le> now then expired (evs B x) else evs B x)"
    by auto
  then show ?case by (intro conjI kept_counters [OF timeouts(4) 1(2)]) (auto simp: expired_def split: if_splits)
qed

lemma new_base_ok:
  assumes "event_base_new mechanism clk fs = Some (Inr B)"
  shows "base_ok B \<and> (\<forall>x. counter_ok B x)"
proof -
  obtain fs' where "B = \<lparr>evs = (\<lambda>_. zero_event), ev_idx = (\<lambda>_. - 1), ncalls = None, event_count = 0, event_count_active = 0,
      event_gotterm = False, event_break = False, activequeues = [[]], nactivequeues = 1, eventqueue = [],
      event_tv = (case clk of None \<Rightarrow> Timeval 0 0 | Some now \<Rightarrow> now), timeheap = min_heap_ctor, tv_cache = Timeval 0 0, base_faults = fs'\<rparr>"
    using assms
    by (auto simp: event_base_new_def event_base_priority_init_def Let_def split: if_splits prod.splits)
  then show ?thesis
    using heap_ok_ctor by (simp add: base_ok_def counter_ok_def zero_event_def on_queue_def place_count_def)
qed

lemma reachable_base_ok:
  assumes "event_base_new mechanism clk fs = Some (Inr B0)" "(base_step fr evsel)\<^sup>*\<^sup>* B0 B"
  shows "base_ok B \<and> (\<forall>x. counter_ok B x)"
  using assms(2) by induction (use new_base_ok [OF assms(1)] step_keeps in blast)+

lemma haveevents_iff:
  assumes "base_ok B"
  shows "event_haveevents B \<longleftrightarrow> (\<exists>e. ev_flags_of B e \<inter> places \<noteq> {} \<and> EVLIST_INTERNAL \<notin> ev_flags_of B e)"
proof -
  have c: "place_count (evs B) q > 0 \<longleftrightarrow> (\<exists>e. q \<in> ev_flags_of B e \<and> EVLIST_INTERNAL \<notin> ev_flags_of B e)" if "q \<in> places" for q
    using place_count_finite [OF base_ok_finite [OF assms that]] by (auto simp: place_count_def card_gt_0_iff)
  have nn: "place_count (evs B) q \<ge> 0" for q by (simp add: place_count_def)
  have "event_haveevents B \<longleftrightarrow> (\<exists>q \<in> places. place_count (evs B) q > 0)"
    using assms nn [of EVLIST_TIMEOUT] nn [of EVLIST_INSERTED] nn [of EVLIST_ACTIVE]
    unfolding event_haveevents_def base_ok_def places_def by auto
  then show ?thesis using c by auto
qed

end
