(* ===== verification/Evbuffer.thy ===== *)
theory Evbuffer
  imports Libc
begin

text \<open>
  libevent's growing byte buffer (\<^verbatim>\<open>contrib/libevent/buffer.c\<close>), into which the test bed's generator
  prints its pages and the tagging functions marshal. Bytes are added at the end and removed at the
  front; the front moves through the allocated block and the bytes are moved back to its start only
  when room is needed. The abstract buffer is the list of its bytes.
\<close>

subsection \<open>Data\<close>

text \<open>
  \<open>eb_orig\<close> is the block of \<open>eb_totallen\<close> bytes that \<^verbatim>\<open>orig_buffer\<close> points to, \<open>eb_buffer\<close> the distance of
  \<^verbatim>\<open>buffer\<close> from it. Of the callback a buffer may have, the calls are recorded: old and new length.
\<close>

record evbuffer =
  eb_buffer :: int
  eb_orig :: "symbol list option"
  eb_misalign :: int
  eb_totallen :: int
  eb_off :: int
  eb_cb :: bool
  eb_calls :: "(int \<times> int) list"

text \<open>Bytes at a distance from \<^verbatim>\<open>orig_buffer\<close>; copying no bytes from or to a null pointer has no effect.\<close>

definition eb_read :: "evbuffer \<Rightarrow> int \<Rightarrow> int \<Rightarrow> symbol list option" where
  "eb_read buf i n = (case eb_orig buf of None \<Rightarrow> if i = 0 \<and> n = 0 then Some [] else None
     | Some b \<Rightarrow> arr_read b i n)"

definition eb_write :: "evbuffer \<Rightarrow> int \<Rightarrow> symbol list \<Rightarrow> evbuffer option" where
  "eb_write buf i ys = (case eb_orig buf of None \<Rightarrow> if i = 0 \<and> ys = [] then Some buf else None
     | Some b \<Rightarrow> map_option (\<lambda>b. buf\<lparr>eb_orig := Some b\<rparr>) (arr_write b i ys))"

definition eb_notify :: "int \<Rightarrow> evbuffer \<Rightarrow> evbuffer" where
  "eb_notify oldoff buf = (if eb_cb buf then buf\<lparr>eb_calls := eb_calls buf @ [(oldoff, eb_off buf)]\<rparr> else buf)"

text \<open>
  \<^verbatim>\<open>realloc\<close>: the bytes of the old block are kept, the new ones are what \<open>fr\<close> says; null on failure.
\<close>

definition realloc :: "(nat \<Rightarrow> symbol) \<Rightarrow> symbol list option \<Rightarrow> int \<Rightarrow> bool list \<Rightarrow> symbol list option \<times> bool list" where
  "realloc fr p n fs = (let (ok, fs) = malloc_ok fs; old = (case p of None \<Rightarrow> [] | Some b \<Rightarrow> take (nat n) b)
     in (if ok then Some (old @ map fr [length old..<nat n]) else None, fs))"

subsection \<open>Operations\<close>

definition evbuffer_new :: "bool list \<Rightarrow> evbuffer option \<times> bool list" where
  "evbuffer_new fs = (let (ok, fs) = malloc_ok fs in
     (if ok then Some \<lparr>eb_buffer = 0, eb_orig = None, eb_misalign = 0, eb_totallen = 0, eb_off = 0, eb_cb = False, eb_calls = []\<rparr>
      else None, fs))"

definition evbuffer_setcb :: "bool \<Rightarrow> evbuffer \<Rightarrow> evbuffer" where
  "evbuffer_setcb cb buf = buf\<lparr>eb_cb := cb\<rparr>"

definition evbuffer_align :: "evbuffer \<Rightarrow> evbuffer option" where
  "evbuffer_align buf = do {
     data \<leftarrow> eb_read buf (eb_buffer buf) (eb_off buf);
     buf \<leftarrow> eb_write buf 0 data;
     Some (buf\<lparr>eb_buffer := 0, eb_misalign := 0\<rparr>) }"

text \<open>The doubling loop of \<^verbatim>\<open>evbuffer_expand\<close>, which starts at 256 or above.\<close>

function grow_to :: "int \<Rightarrow> int \<Rightarrow> int" where
  "grow_to len need = (if 0 < len \<and> len < need then grow_to (2 * len) need else len)"
  by pat_completeness auto
termination by (relation "measure (\<lambda>(len, need). nat (need - len))") auto

declare grow_to.simps [simp del]

definition evbuffer_expand :: "(nat \<Rightarrow> symbol) \<Rightarrow> evbuffer \<Rightarrow> int \<Rightarrow> bool list \<Rightarrow> (int \<times> evbuffer \<times> bool list) option" where
  "evbuffer_expand fr buf datlen fs =
     (let need = eb_misalign buf + eb_off buf + datlen in
      if eb_totallen buf \<ge> need then Some (0, buf, fs)
      else if eb_misalign buf \<ge> datlen then do { buf \<leftarrow> evbuffer_align buf; Some (0, buf, fs) }
      else do {
        let len = grow_to (if eb_totallen buf < 256 then 256 else eb_totallen buf) need;
        buf \<leftarrow> (if eb_buffer buf \<noteq> 0 then evbuffer_align buf else Some buf);
        case realloc fr (eb_orig buf) len fs of
          (None, fs) \<Rightarrow> Some (- 1, buf, fs)
        | (Some b, fs) \<Rightarrow> Some (0, buf\<lparr>eb_orig := Some b, eb_buffer := 0, eb_totallen := len\<rparr>, fs) })"

definition evbuffer_add :: "(nat \<Rightarrow> symbol) \<Rightarrow> evbuffer \<Rightarrow> symbol list \<Rightarrow> bool list \<Rightarrow> (int \<times> evbuffer \<times> bool list) option" where
  "evbuffer_add fr buf data fs = do {
     let datlen = int (length data);
     let need = eb_misalign buf + eb_off buf + datlen;
     let oldoff = eb_off buf;
     (res, buf, fs) \<leftarrow> (if eb_totallen buf < need then evbuffer_expand fr buf datlen fs else Some (0, buf, fs));
     if res = - 1 then Some (- 1, buf, fs)
     else do {
       buf \<leftarrow> eb_write buf (eb_buffer buf + eb_off buf) data;
       let buf = buf\<lparr>eb_off := eb_off buf + datlen\<rparr>;
       Some (0, if datlen \<noteq> 0 then eb_notify oldoff buf else buf, fs) } }"

definition evbuffer_drain :: "evbuffer \<Rightarrow> int \<Rightarrow> evbuffer" where
  "evbuffer_drain buf len =
     (let oldoff = eb_off buf;
          buf = (if len \<ge> eb_off buf then buf\<lparr>eb_off := 0, eb_buffer := 0, eb_misalign := 0\<rparr>
                 else buf\<lparr>eb_buffer := eb_buffer buf + len, eb_misalign := eb_misalign buf + len, eb_off := eb_off buf - len\<rparr>)
      in if eb_off buf \<noteq> oldoff then eb_notify oldoff buf else buf)"

definition evbuffer_remove :: "evbuffer \<Rightarrow> int \<Rightarrow> (int \<times> symbol list \<times> evbuffer) option" where
  "evbuffer_remove buf datlen = do {
     let nread = (if datlen \<ge> eb_off buf then eb_off buf else datlen);
     data \<leftarrow> eb_read buf (eb_buffer buf) nread;
     Some (nread, data, evbuffer_drain buf nread) }"

text \<open>\<^verbatim>\<open>evbuffer_add_buffer\<close>: an empty target takes the whole block of the source in exchange for its own.\<close>

definition swap_into :: "evbuffer \<Rightarrow> evbuffer \<Rightarrow> evbuffer" where
  "swap_into x y = x\<lparr>eb_buffer := eb_buffer y, eb_orig := eb_orig y, eb_misalign := eb_misalign y,
     eb_totallen := eb_totallen y, eb_off := eb_off y\<rparr>"

definition evbuffer_add_buffer :: "(nat \<Rightarrow> symbol) \<Rightarrow> evbuffer \<Rightarrow> evbuffer \<Rightarrow> bool list
    \<Rightarrow> (int \<times> evbuffer \<times> evbuffer \<times> bool list) option" where
  "evbuffer_add_buffer fr outbuf inbuf fs =
     (if eb_off outbuf = 0 then
        let oldoff = eb_off inbuf;
            tmp = outbuf;
            outbuf = swap_into outbuf inbuf;
            inbuf = swap_into inbuf tmp;
            inbuf = (if eb_off inbuf \<noteq> oldoff then eb_notify oldoff inbuf else inbuf);
            outbuf = (if oldoff \<noteq> 0 then eb_notify 0 outbuf else outbuf)
        in Some (0, outbuf, inbuf, fs)
      else do {
        data \<leftarrow> eb_read inbuf (eb_buffer inbuf) (eb_off inbuf);
        (res, outbuf, fs) \<leftarrow> evbuffer_add fr outbuf data fs;
        Some (res, outbuf, if res = 0 then evbuffer_drain inbuf (eb_off inbuf) else inbuf, fs) })"

text \<open>
  \<^verbatim>\<open>evutil_vsnprintf\<close> into \<open>space\<close> bytes at a place: the formatted text \<open>str\<close>, cut to leave room for a
  zero, which the wrapper writes again at the last of the bytes, also when there are none. The
  formatted text is an argument; \<^const>\<open>None\<close> is an encoding error.
\<close>

definition evutil_vsnprintf :: "evbuffer \<Rightarrow> int \<Rightarrow> int \<Rightarrow> symbol list option \<Rightarrow> (int \<times> evbuffer) option" where
  "evutil_vsnprintf buf i space str = do {
     buf \<leftarrow> (case str of None \<Rightarrow> Some buf
        | Some s \<Rightarrow> if space = 0 then Some buf else eb_write buf i (take (nat space - 1) s @ [CHR 0x00]));
     buf \<leftarrow> eb_write buf (i + space - 1) [CHR 0x00];
     Some (case str of None \<Rightarrow> - 1 | Some s \<Rightarrow> int (length s), buf) }"

partial_function (option) vprintf_loop :: "(nat \<Rightarrow> symbol) \<Rightarrow> symbol list option \<Rightarrow> int \<Rightarrow> evbuffer \<Rightarrow> bool list
    \<Rightarrow> (int \<times> evbuffer \<times> bool list) option" where
  "vprintf_loop fr str oldoff buf fs =
     (let used = eb_misalign buf + eb_off buf in
      if eb_totallen buf < used then None
      else do {
        let space = eb_totallen buf - used;
        (sz, buf) \<leftarrow> evutil_vsnprintf buf (eb_buffer buf + eb_off buf) space str;
        if sz < 0 then Some (- 1, buf, fs)
        else if sz < space then Some (sz, eb_notify oldoff (buf\<lparr>eb_off := eb_off buf + sz\<rparr>), fs)
        else do {
          (res, buf, fs) \<leftarrow> evbuffer_expand fr buf (sz + 1) fs;
          if res = - 1 then Some (- 1, buf, fs) else vprintf_loop fr str oldoff buf fs } })"

definition evbuffer_add_vprintf :: "(nat \<Rightarrow> symbol) \<Rightarrow> evbuffer \<Rightarrow> symbol list option \<Rightarrow> bool list
    \<Rightarrow> (int \<times> evbuffer \<times> bool list) option" where
  "evbuffer_add_vprintf fr buf str fs = do {
     let oldoff = eb_off buf;
     (_, buf, fs) \<leftarrow> evbuffer_expand fr buf 64 fs;
     vprintf_loop fr str oldoff buf fs }"

text \<open>\<^verbatim>\<open>evbuffer_readline\<close>: the line, null when there is no end of a line yet or no memory.\<close>

definition eol :: "symbol \<Rightarrow> bool" where
  "eol ch \<longleftrightarrow> ch = CHR 0x0D \<or> ch = CHR 0x0A"

definition evbuffer_readline :: "evbuffer \<Rightarrow> bool list \<Rightarrow> (symbol list option \<times> evbuffer \<times> bool list) option" where
  "evbuffer_readline buf fs = do {
     let len = eb_off buf;
     data \<leftarrow> eb_read buf (eb_buffer buf) len;
     let i = int (length (takeWhile (\<lambda>ch. \<not> eol ch) data));
     if i = len then Some (None, buf, fs)
     else let (ok, fs) = malloc_ok fs in
     if \<not> ok then Some (None, evbuffer_drain buf i, fs)
     else do {
       let line = take (nat i) data;
       i \<leftarrow> (if i < len - 1 then do {
               fch \<leftarrow> arr_get data i;
               sch \<leftarrow> arr_get data (i + 1);
               Some (if eol sch \<and> sch \<noteq> fch then i + 1 else i) }
             else Some i);
       Some (Some line, evbuffer_drain buf (i + 1), fs) } }"

text \<open>
  \<^verbatim>\<open>evbuffer_find\<close>: the loop over the places where the first byte occurs, in the bytes of the buffer;
  places are distances from its front.
\<close>

definition memchr :: "symbol list \<Rightarrow> nat \<Rightarrow> symbol \<Rightarrow> nat option" where
  "memchr data i ch = map_option (\<lambda>k. i + k) (List.find (\<lambda>k. drop i data ! k = ch) [0..<length data - i])"

lemma memchr_Some: "memchr data i ch = Some k \<Longrightarrow> i \<le> k \<and> k < length data"
  by (auto simp: memchr_def find_Some_iff)

function find_loop :: "symbol list \<Rightarrow> symbol list \<Rightarrow> int \<Rightarrow> nat \<Rightarrow> int option option" where
  "find_loop data what len search =
     (if search < length data then
        (case arr_get what 0 of None \<Rightarrow> None
         | Some ch \<Rightarrow> (case memchr data search ch of
             None \<Rightarrow> Some None
           | Some p \<Rightarrow>
               if int p + len > int (length data) then Some None
               else (case arr_read what 0 len of None \<Rightarrow> None
                 | Some w \<Rightarrow> if take (nat len) (drop p data) = w then Some (Some (int p))
                     else find_loop data what len (p + 1))))
      else Some None)"
  by pat_completeness auto
termination by (relation "measure (\<lambda>(data, what, len, search). length data - search)") (auto dest!: memchr_Some)

declare find_loop.simps [simp del]

definition evbuffer_find :: "evbuffer \<Rightarrow> symbol list \<Rightarrow> int \<Rightarrow> int option option" where
  "evbuffer_find buf what len = do {
     data \<leftarrow> eb_read buf (eb_buffer buf) (eb_off buf);
     find_loop data what len 0 }"

text \<open>
  Reading from and writing to a descriptor: what \<^verbatim>\<open>ioctl\<close> reports (\<^const>\<open>None\<close> when it fails), what
  \<^verbatim>\<open>read\<close> gives for a number of bytes (\<^const>\<open>None\<close> for -1) and how many bytes \<^verbatim>\<open>write\<close> takes are
  arguments.
\<close>

definition evbuffer_read :: "(nat \<Rightarrow> symbol) \<Rightarrow> int option \<Rightarrow> (int \<Rightarrow> symbol list option) \<Rightarrow> evbuffer \<Rightarrow> int \<Rightarrow> bool list
    \<Rightarrow> (int \<times> evbuffer \<times> bool list) option" where
  "evbuffer_read fr fionread rd buf howmuch fs = do {
     let oldoff = eb_off buf;
     let n = (case fionread of None \<Rightarrow> 4096 | Some n \<Rightarrow>
        if n = 0 then 4096
        else if n > 4096 \<and> n > howmuch then
          let n = (if n > 4 * eb_totallen buf then 4 * eb_totallen buf else n) in if n < 4096 then 4096 else n
        else n);
     let howmuch = (if howmuch < 0 \<or> howmuch > n then n else howmuch);
     (res, buf, fs) \<leftarrow> evbuffer_expand fr buf howmuch fs;
     if res = - 1 then Some (- 1, buf, fs)
     else (case rd howmuch of None \<Rightarrow> Some (- 1, buf, fs)
       | Some data \<Rightarrow> do {
           buf \<leftarrow> eb_write buf (eb_buffer buf + eb_off buf) data;
           if data = [] then Some (0, buf, fs)
           else do {
             let buf = buf\<lparr>eb_off := eb_off buf + int (length data)\<rparr>;
             Some (int (length data), eb_notify oldoff buf, fs) } }) }"

definition evbuffer_write :: "(symbol list \<Rightarrow> int) \<Rightarrow> evbuffer \<Rightarrow> (int \<times> evbuffer) option" where
  "evbuffer_write wr buf = do {
     data \<leftarrow> eb_read buf (eb_buffer buf) (eb_off buf);
     let n = wr data;
     if n = - 1 then Some (- 1, buf) else if n = 0 then Some (0, buf)
     else Some (n, evbuffer_drain buf n) }"

text \<open>\<^verbatim>\<open>evbuffer_free\<close> frees the block, if there is one, and the buffer: how many objects that is.\<close>

definition evbuffer_free :: "evbuffer \<Rightarrow> nat" where
  "evbuffer_free buf = (case eb_orig buf of None \<Rightarrow> 1 | Some _ \<Rightarrow> 2)"

subsection \<open>The invariant and the contents\<close>

definition eb_ok :: "evbuffer \<Rightarrow> bool" where
  "eb_ok buf \<longleftrightarrow> 0 \<le> eb_misalign buf \<and> 0 \<le> eb_off buf \<and> eb_buffer buf = eb_misalign buf
     \<and> eb_misalign buf + eb_off buf \<le> eb_totallen buf
     \<and> (case eb_orig buf of None \<Rightarrow> eb_totallen buf = 0 | Some b \<Rightarrow> int (length b) = eb_totallen buf)"

definition eb_content :: "evbuffer \<Rightarrow> symbol list" where
  "eb_content buf = (case eb_orig buf of None \<Rightarrow> [] | Some b \<Rightarrow> take (nat (eb_off buf)) (drop (nat (eb_buffer buf)) b))"

lemma eb_okE:
  assumes "eb_ok buf"
  obtains (null) "eb_orig buf = None" "eb_totallen buf = 0" "eb_misalign buf = 0" "eb_off buf = 0" "eb_buffer buf = 0"
    | (block) b where "eb_orig buf = Some b" "int (length b) = eb_totallen buf" "0 \<le> eb_misalign buf" "0 \<le> eb_off buf"
      "eb_misalign buf + eb_off buf \<le> eb_totallen buf" "eb_buffer buf = eb_misalign buf"
  using assms by (cases "eb_orig buf") (auto simp: eb_ok_def)

lemma length_eb_content: "eb_ok buf \<Longrightarrow> int (length (eb_content buf)) = eb_off buf"
  by (erule eb_okE) (simp_all add: eb_content_def)

lemma eb_read_content [simp]:
  assumes "eb_ok buf" "0 \<le> n" "n \<le> eb_off buf"
  shows "eb_read buf (eb_buffer buf) n = Some (take (nat n) (eb_content buf))"
  using assms(1) by (cases rule: eb_okE) (use assms(2,3) in \<open>simp_all add: eb_read_def eb_content_def\<close>)

lemma eb_read_all [simp]:
  assumes "eb_ok buf"
  shows "eb_read buf (eb_buffer buf) (eb_off buf) = Some (eb_content buf)"
  using eb_read_content [OF assms, of "eb_off buf"] length_eb_content [OF assms] assms
  by (simp add: eb_ok_def)

lemma eb_notify_sel [simp]:
  "eb_ok (eb_notify old buf) = eb_ok buf" "eb_content (eb_notify old buf) = eb_content buf"
  "eb_cb (eb_notify old buf) = eb_cb buf"
  "eb_off (eb_notify old buf) = eb_off buf" "eb_orig (eb_notify old buf) = eb_orig buf"
  "eb_buffer (eb_notify old buf) = eb_buffer buf" "eb_misalign (eb_notify old buf) = eb_misalign buf"
  "eb_totallen (eb_notify old buf) = eb_totallen buf"
  by (simp_all add: eb_notify_def eb_ok_def eb_content_def split: option.split)

lemma evbuffer_setcb_ok [simp]:
  "eb_ok (evbuffer_setcb f buf) = eb_ok buf" "eb_content (evbuffer_setcb f buf) = eb_content buf"
  by (simp_all add: evbuffer_setcb_def eb_ok_def eb_content_def split: option.split)

lemma evbuffer_new_ok:
  assumes "evbuffer_new fs = (Some buf, fs')"
  shows "eb_ok buf" "eb_content buf = []" "eb_totallen buf = 0" "\<not> eb_cb buf"
  using assms by (auto simp: evbuffer_new_def eb_ok_def eb_content_def Let_def split: prod.splits if_splits)

subsection \<open>Room\<close>

lemma grow_to_ge: "0 < len \<Longrightarrow> need \<le> grow_to len need \<and> len \<le> grow_to len need"
proof (induction len need rule: grow_to.induct)
  case (1 len need)
  then show ?case by (cases "len < need") (simp_all add: grow_to.simps [of len])
qed

lemma evbuffer_align_ok:
  assumes "eb_ok buf" "eb_orig buf \<noteq> None"
  obtains buf' where "evbuffer_align buf = Some buf'" "eb_ok buf'" "eb_content buf' = eb_content buf"
    "eb_totallen buf' = eb_totallen buf" "eb_misalign buf' = 0" "eb_off buf' = eb_off buf" "eb_orig buf' \<noteq> None"
    "eb_cb buf' = eb_cb buf" "eb_calls buf' = eb_calls buf"
  using assms(1)
proof (cases rule: eb_okE)
  case (block b)
  have l: "length (eb_content buf) = nat (eb_off buf)" using length_eb_content [OF assms(1)] by simp
  show ?thesis
    by (rule that [of "buf\<lparr>eb_orig := Some (eb_content buf @ drop (nat (eb_off buf)) b), eb_buffer := 0, eb_misalign := 0\<rparr>"])
      (use assms(1) block l in \<open>simp_all add: evbuffer_align_def eb_read_def eb_write_def eb_ok_def eb_content_def\<close>)
qed (use assms(2) in simp)

text \<open>
  \<^verbatim>\<open>evbuffer_expand\<close> keeps the contents, whether there is memory or not; when it succeeds there is room.
\<close>

definition same_bytes :: "evbuffer \<Rightarrow> evbuffer \<Rightarrow> bool" where
  "same_bytes buf buf' \<longleftrightarrow> eb_ok buf' \<and> eb_content buf' = eb_content buf \<and> eb_off buf' = eb_off buf
     \<and> eb_cb buf' = eb_cb buf \<and> eb_calls buf' = eb_calls buf"

lemma same_bytes_refl [simp]: "eb_ok buf \<Longrightarrow> same_bytes buf buf"
  by (simp add: same_bytes_def)

lemma realloc_cases:
  obtains (ok) b fs' where "realloc fr p n fs = (Some b, fs')" "length b = nat n" "failing fs' \<le> failing fs"
      "\<And>xs. p = Some xs \<Longrightarrow> length xs \<le> nat n \<Longrightarrow> take (length xs) b = xs"
    | (fail) fs' where "realloc fr p n fs = (None, fs')" "0 < failing fs"
proof (cases rule: malloc_ok_cases [of fs])
  case (ok fs')
  let ?old = "case p of None \<Rightarrow> [] | Some b \<Rightarrow> take (nat n) b"
  show thesis
    by (rule that(1) [of "?old @ map fr [length ?old..<nat n]" fs'])
      (use ok in \<open>auto simp: realloc_def Let_def split: option.split\<close>)
next
  case (fail fs')
  then show thesis by (intro that(2)) (simp_all add: realloc_def)
qed

lemma expand_block:
  assumes "eb_ok buf" "eb_misalign buf = 0" "length b = nat len" "eb_totallen buf \<le> len" "0 < len"
    and "\<And>xs. eb_orig buf = Some xs \<Longrightarrow> length xs \<le> nat len \<Longrightarrow> take (length xs) b = xs"
  shows "same_bytes buf (buf\<lparr>eb_orig := Some b, eb_buffer := 0, eb_totallen := len\<rparr>)"
  using assms(1)
proof (cases rule: eb_okE)
  case null
  with assms show ?thesis by (simp add: same_bytes_def eb_ok_def eb_content_def)
next
  case (block xs)
  have "take (length xs) b = xs" using assms(4,6) block by simp
  then have "take (nat (eb_off buf)) b = take (nat (eb_off buf)) xs"
    using block assms(2) by (metis min.absorb2 nat_le_iff take_take add.left_neutral min.commute)
  with block assms show ?thesis by (simp add: same_bytes_def eb_ok_def eb_content_def)
qed

lemma evbuffer_expand_cases:
  assumes "eb_ok buf" "0 \<le> n"
  obtains (ok) buf' fs' where "evbuffer_expand fr buf n fs = Some (0, buf', fs')" "same_bytes buf buf'"
      "eb_misalign buf' + eb_off buf' + n \<le> eb_totallen buf'" "failing fs' \<le> failing fs"
    | (fail) buf' fs' where "evbuffer_expand fr buf n fs = Some (- 1, buf', fs')" "same_bytes buf buf'" "0 < failing fs"
proof -
  define need where "need = eb_misalign buf + eb_off buf + n"
  note d = evbuffer_expand_def [of fr buf n fs, unfolded Let_def, folded need_def]
  show thesis
  proof (cases "need \<le> eb_totallen buf")
    case True
    then show thesis by (intro ok [of buf fs]) (use assms(1) d in \<open>simp_all add: need_def\<close>)
  next
    case False
    show thesis
    proof (cases "n \<le> eb_misalign buf")
      case True
      then have "eb_orig buf \<noteq> None" using False assms by (auto simp: need_def elim!: eb_okE)
      then obtain buf' where b: "evbuffer_align buf = Some buf'" "same_bytes buf buf'"
          "eb_totallen buf' = eb_totallen buf" "eb_misalign buf' = 0" "eb_off buf' = eb_off buf"
        using evbuffer_align_ok [OF assms(1)] unfolding same_bytes_def by metis
      moreover have "eb_misalign buf + eb_off buf \<le> eb_totallen buf" using assms(1) by (simp add: eb_ok_def)
      ultimately show thesis using True False d by (intro ok [of buf' fs]) simp_all
    next
      case misaligned: False
      define len where "len = grow_to (if eb_totallen buf < 256 then 256 else eb_totallen buf) need"
      have len: "need \<le> len" "eb_totallen buf \<le> len" "0 < len"
        using grow_to_ge [of "if eb_totallen buf < 256 then 256 else eb_totallen buf" need]
        unfolding len_def by (auto split: if_splits)
      obtain buf1 where b1: "(if eb_buffer buf \<noteq> 0 then evbuffer_align buf else Some buf) = Some buf1"
          "same_bytes buf buf1" "eb_misalign buf1 = 0" "eb_totallen buf1 = eb_totallen buf"
      proof (cases "eb_buffer buf = 0")
        case True
        then show thesis using assms(1) by (intro that [of buf]) (simp_all add: eb_ok_def)
      next
        case False
        then have "eb_orig buf \<noteq> None" using assms(1) by (auto elim!: eb_okE)
        with False show thesis using evbuffer_align_ok [OF assms(1)] that unfolding same_bytes_def by metis
      qed
      have e: "evbuffer_expand fr buf n fs = (case realloc fr (eb_orig buf1) len fs of
          (None, fs) \<Rightarrow> Some (- 1, buf1, fs)
        | (Some b, fs) \<Rightarrow> Some (0, buf1\<lparr>eb_orig := Some b, eb_buffer := 0, eb_totallen := len\<rparr>, fs))"
        using d False misaligned b1(1) unfolding len_def [symmetric] by simp
      show thesis
      proof (cases rule: realloc_cases [of fr "eb_orig buf1" len fs, case_names ok fail])
        case (ok b fs')
        let ?buf' = "buf1\<lparr>eb_orig := Some b, eb_buffer := 0, eb_totallen := len\<rparr>"
        have "same_bytes buf1 ?buf'"
          using b1(2-4) len ok by (intro expand_block) (simp_all add: same_bytes_def)
        then have "same_bytes buf ?buf'" using b1(2) by (simp add: same_bytes_def)
        moreover have "eb_misalign ?buf' + eb_off ?buf' + n \<le> eb_totallen ?buf'"
          using b1(2,3) assms(1) len(1) by (simp add: same_bytes_def eb_ok_def need_def)
        ultimately show thesis using ok(1,3) e by (intro that(1) [of ?buf' fs']) simp_all
      next
        case (fail fs')
        then show thesis using b1(2) e by (intro that(2) [of buf1 fs']) simp_all
      qed
    qed
  qed
qed

subsection \<open>The buffer is a queue of bytes\<close>

text \<open>Bytes written behind the contents.\<close>

lemma view_splice:
  assumes "m + k + length ys \<le> length b" "j \<le> length ys"
  shows "take (k + j) (drop m (take (m + k) b @ ys @ drop (m + k + length ys) b)) = take k (drop m b) @ take j ys"
proof -
  have "drop m (take (m + k) b) = take k (drop m b)" by (simp add: drop_take)
  moreover have "length (take k (drop m b)) = k" using assms(1) by simp
  ultimately show ?thesis using assms by simp
qed

lemma eb_write_end:
  assumes "eb_ok buf" "eb_misalign buf + eb_off buf + int (length ys) \<le> eb_totallen buf"
  obtains buf' where "eb_write buf (eb_buffer buf + eb_off buf) ys = Some buf'"
    "\<And>n. 0 \<le> n \<Longrightarrow> n \<le> int (length ys) \<Longrightarrow> eb_ok (buf'\<lparr>eb_off := eb_off buf + n\<rparr>)
       \<and> eb_content (buf'\<lparr>eb_off := eb_off buf + n\<rparr>) = eb_content buf @ take (nat n) ys"
    "eb_off buf' = eb_off buf" "eb_misalign buf' = eb_misalign buf" "eb_buffer buf' = eb_buffer buf"
    "eb_totallen buf' = eb_totallen buf" "eb_cb buf' = eb_cb buf" "eb_calls buf' = eb_calls buf"
  using assms(1)
proof (cases rule: eb_okE)
  case null
  with assms that [of buf] show thesis by (simp add: eb_write_def eb_ok_def eb_content_def)
next
  case (block b)
  obtain m k where mk: "eb_misalign buf = int m" "eb_off buf = int k" using block(3,4) nonneg_int_cases by metis
  then have kl: "m + k + length ys \<le> length b" and buf: "eb_buffer buf = int m" "nat (int m + int k) = m + k" "eb_totallen buf = int (length b)"
    using block(2,6) assms(2) by simp_all
  let ?b = "take (m + k) b @ ys @ drop (m + k + length ys) b"
  have lb: "length ?b = length b" using kl by simp
  show thesis
  proof (rule that)
    show "eb_write buf (eb_buffer buf + eb_off buf) ys = Some (buf\<lparr>eb_orig := Some ?b\<rparr>)"
      using block(1) kl buf mk(2) by (simp add: eb_write_def)
    fix n assume n: "0 \<le> n" "n \<le> int (length ys)"
    then obtain j where j: "n = int j" "j \<le> length ys" using nonneg_int_cases by (metis of_nat_le_iff)
    have "eb_content (buf\<lparr>eb_orig := Some ?b, eb_off := int (k + j)\<rparr>) = eb_content buf @ take j ys"
      using view_splice [OF kl j(2)] block(1) mk(2) buf(1)
      by (simp add: eb_content_def del: of_nat_add drop_append take_append)
    moreover have "int (length ?b) = int (length b)" using lb by simp
    then have "eb_ok (buf\<lparr>eb_orig := Some ?b, eb_off := int (k + j)\<rparr>)"
      using kl j(2) mk(1) buf(1,3) by (simp add: eb_ok_def del: length_append)
    ultimately show "eb_ok (buf\<lparr>eb_orig := Some ?b, eb_off := eb_off buf + n\<rparr>)
       \<and> eb_content (buf\<lparr>eb_orig := Some ?b, eb_off := eb_off buf + n\<rparr>) = eb_content buf @ take (nat n) ys"
      using mk(2) j(1) by simp
  qed simp_all
qed

lemma evbuffer_add_cases:
  assumes "eb_ok buf"
  obtains (ok) buf' fs' where "evbuffer_add fr buf data fs = Some (0, buf', fs')" "eb_ok buf'"
      "eb_content buf' = eb_content buf @ data" "failing fs' \<le> failing fs"
    | (fail) buf' fs' where "evbuffer_add fr buf data fs = Some (- 1, buf', fs')" "same_bytes buf buf'" "0 < failing fs"
proof -
  define need where "need = eb_misalign buf + eb_off buf + int (length data)"
  note d = evbuffer_add_def [of fr buf data fs, unfolded Let_def, folded need_def]
  have step: thesis
    if room: "(if eb_totallen buf < need then evbuffer_expand fr buf (int (length data)) fs else Some (0, buf, fs)) = Some (0, buf1, fs1)"
      and b1: "same_bytes buf buf1" "eb_misalign buf1 + eb_off buf1 + int (length data) \<le> eb_totallen buf1" "failing fs1 \<le> failing fs"
    for buf1 fs1
  proof -
    have "eb_ok buf1" using b1(1) by (simp add: same_bytes_def)
    then obtain buf2 where b2: "eb_write buf1 (eb_buffer buf1 + eb_off buf1) data = Some buf2"
        "\<And>n. 0 \<le> n \<Longrightarrow> n \<le> int (length data) \<Longrightarrow> eb_ok (buf2\<lparr>eb_off := eb_off buf1 + n\<rparr>)
           \<and> eb_content (buf2\<lparr>eb_off := eb_off buf1 + n\<rparr>) = eb_content buf1 @ take (nat n) data" "eb_off buf2 = eb_off buf1"
      using b1(2) by (rule eb_write_end) metis
    let ?b3 = "buf2\<lparr>eb_off := eb_off buf1 + int (length data)\<rparr>"
    have "eb_ok ?b3 \<and> eb_content ?b3 = eb_content buf @ data" using b2(2) [of "int (length data)"] b1(1) by (simp add: same_bytes_def)
    with room b1(3) b2(1,3) d show thesis
      by (intro ok [of "if data = [] then ?b3 else eb_notify (eb_off buf) ?b3" fs1]) auto
  qed
  show thesis
  proof (cases "eb_totallen buf < need")
    case False
    then show thesis using step [of buf fs] assms by (simp add: need_def)
  next
    case True
    show thesis
    proof (cases rule: evbuffer_expand_cases [OF assms, of "int (length data)" fr fs, case_names len ok fail])
      case (ok buf1 fs1)
      then show thesis using step [of buf1 fs1] True by simp
    next
      case (fail buf1 fs1)
      then show thesis using True d by (intro that(2) [of buf1 fs1]) simp_all
    qed simp
  qed
qed

lemma evbuffer_drain_ok:
  assumes "eb_ok buf" "0 \<le> n"
  shows "eb_ok (evbuffer_drain buf n)" "eb_content (evbuffer_drain buf n) = drop (nat n) (eb_content buf)"
proof -
  have l: "int (length (eb_content buf)) = eb_off buf" using assms(1) by (rule length_eb_content)
  have "eb_ok (evbuffer_drain buf n) \<and> eb_content (evbuffer_drain buf n) = drop (nat n) (eb_content buf)"
    using assms(1)
  proof (cases rule: eb_okE)
    case null
    with assms show ?thesis by (simp add: evbuffer_drain_def eb_ok_def eb_content_def Let_def)
  next
    case (block b)
    show ?thesis
    proof (cases "eb_off buf \<le> n")
      case True
      then have "drop (nat n) (eb_content buf) = []" using l by (simp add: nat_le_iff)
      moreover have "eb_ok (evbuffer_drain buf n) \<and> eb_content (evbuffer_drain buf n) = []"
        using True block by (simp add: evbuffer_drain_def Let_def eb_ok_def eb_content_def)
      ultimately show ?thesis by simp
    next
      case False
      have "nat (eb_off buf - n) = nat (eb_off buf) - nat n" "nat (eb_misalign buf + n) = nat n + nat (eb_misalign buf)"
        using assms(2) block by (simp_all add: nat_diff_distrib nat_add_distrib)
      with False assms(2) block show ?thesis
        by (simp add: evbuffer_drain_def Let_def eb_ok_def eb_content_def drop_take)
    qed
  qed
  then show "eb_ok (evbuffer_drain buf n)" "eb_content (evbuffer_drain buf n) = drop (nat n) (eb_content buf)" by simp_all
qed

lemma evbuffer_remove_ok:
  assumes "eb_ok buf" "0 \<le> n"
  shows "\<exists>buf'. evbuffer_remove buf n = Some (min n (eb_off buf), take (nat n) (eb_content buf), buf')
    \<and> eb_ok buf' \<and> eb_content buf' = drop (nat n) (eb_content buf)"
proof -
  have l: "int (length (eb_content buf)) = eb_off buf" using assms(1) by (rule length_eb_content)
  let ?k = "min n (eb_off buf)"
  have k: "0 \<le> ?k" "?k \<le> eb_off buf" using assms by (simp_all add: eb_ok_def)
  have "take (nat ?k) (eb_content buf) = take (nat n) (eb_content buf)" "drop (nat ?k) (eb_content buf) = drop (nat n) (eb_content buf)"
    using l by (auto simp: min_def)
  moreover have "(if eb_off buf \<le> n then eb_off buf else n) = ?k" by simp
  ultimately show ?thesis
    using evbuffer_drain_ok [OF assms(1) k(1)] eb_read_content [OF assms(1) k] unfolding evbuffer_remove_def Let_def
    by (simp only: bind.simps) simp
qed

lemma swap_into_ok [simp]:
  "eb_ok (swap_into x y) = eb_ok y" "eb_content (swap_into x y) = eb_content y" "eb_off (swap_into x y) = eb_off y"
  by (simp_all add: swap_into_def eb_ok_def eb_content_def split: option.split)

lemma eb_content_empty: "eb_ok buf \<Longrightarrow> eb_content buf = [] \<longleftrightarrow> eb_off buf = 0"
  using length_eb_content [of buf] by auto

text \<open>The bytes of one buffer move behind those of another, or both stay as they are.\<close>

lemma evbuffer_add_buffer_cases:
  assumes "eb_ok outbuf" "eb_ok inbuf"
  obtains (ok) ob ib fs' where "evbuffer_add_buffer fr outbuf inbuf fs = Some (0, ob, ib, fs')" "eb_ok ob" "eb_ok ib"
      "eb_content ob = eb_content outbuf @ eb_content inbuf" "eb_content ib = []" "failing fs' \<le> failing fs"
    | (fail) ob fs' where "evbuffer_add_buffer fr outbuf inbuf fs = Some (- 1, ob, inbuf, fs')" "same_bytes outbuf ob" "0 < failing fs"
proof (cases "eb_off outbuf = 0")
  case True
  then have "eb_content outbuf = []" using assms(1) by (simp add: eb_content_empty)
  with True assms show thesis
    by (intro ok [of "if eb_off inbuf \<noteq> 0 then eb_notify 0 (swap_into outbuf inbuf) else swap_into outbuf inbuf"
        "if eb_off outbuf \<noteq> eb_off inbuf then eb_notify (eb_off inbuf) (swap_into inbuf outbuf) else swap_into inbuf outbuf" fs])
      (simp_all add: evbuffer_add_buffer_def Let_def)
next
  case False
  show thesis
  proof (cases rule: evbuffer_add_cases [OF assms(1), of fr "eb_content inbuf" fs, case_names ok fail])
    case (ok ob fs')
    have o: "0 \<le> eb_off inbuf" using assms(2) by (simp add: eb_ok_def)
    have "eb_content (evbuffer_drain inbuf (eb_off inbuf)) = []"
      using evbuffer_drain_ok(2) [OF assms(2) o] length_eb_content [OF assms(2)] by simp
    with ok False assms evbuffer_drain_ok(1) [OF assms(2) o] show thesis
      by (intro that(1) [of ob "evbuffer_drain inbuf (eb_off inbuf)" fs']) (simp_all add: evbuffer_add_buffer_def)
  next
    case (fail ob fs')
    with False assms show thesis by (intro that(2) [of ob fs']) (simp_all add: evbuffer_add_buffer_def)
  qed
qed

subsection \<open>Printing\<close>

lemma eb_write_behind:
  assumes "eb_ok buf" "0 \<le> m" "eb_buffer buf + m \<le> i" "i + int (length ys) \<le> eb_totallen buf"
  obtains buf' where "eb_write buf i ys = Some buf'"
    "\<And>n. 0 \<le> n \<Longrightarrow> n \<le> m \<Longrightarrow> eb_ok (buf'\<lparr>eb_off := n\<rparr>) \<and> eb_content (buf'\<lparr>eb_off := n\<rparr>) = eb_content (buf\<lparr>eb_off := n\<rparr>)"
    "eb_off buf' = eb_off buf" "eb_misalign buf' = eb_misalign buf" "eb_buffer buf' = eb_buffer buf"
    "eb_totallen buf' = eb_totallen buf"
  using assms(1)
proof (cases rule: eb_okE)
  case null
  then have "i = 0 \<and> ys = [] \<and> m = 0" using assms(2-4) by (cases ys) simp_all
  with null that [of buf] assms(2) show thesis by (simp add: eb_write_def eb_ok_def eb_content_def)
next
  case (block b)
  let ?b = "take (nat i) b @ ys @ drop (nat i + length ys) b"
  have il: "nat i + length ys \<le> length b" "nat (eb_misalign buf) + nat m \<le> nat i" using assms block by simp_all
  show thesis
  proof (rule that)
    show "eb_write buf i ys = Some (buf\<lparr>eb_orig := Some ?b\<rparr>)" using assms block by (simp add: eb_write_def)
    fix n assume n: "0 \<le> n" "n \<le> m"
    have "nat n + nat (eb_misalign buf) \<le> nat i" using n il(2) by linarith
    then have "take (nat n) (drop (nat (eb_misalign buf)) ?b) = take (nat n) (drop (nat (eb_misalign buf)) b)"
      using il(1) by (simp add: take_drop min.absorb1)
    moreover have "length ?b = length b" using il(1) by simp
    ultimately show "eb_ok (buf\<lparr>eb_orig := Some ?b, eb_off := n\<rparr>)
        \<and> eb_content (buf\<lparr>eb_orig := Some ?b, eb_off := n\<rparr>) = eb_content (buf\<lparr>eb_off := n\<rparr>)"
      using n block assms(3,4) unfolding eb_ok_def eb_content_def by simp
  qed simp_all
qed

text \<open>What \<^verbatim>\<open>evutil_vsnprintf\<close> leaves when there is room for a byte at least.\<close>

lemma evutil_vsnprintf_ok:
  assumes "eb_ok buf" "space = eb_totallen buf - (eb_misalign buf + eb_off buf)" "0 < space"
  obtains buf' where "evutil_vsnprintf buf (eb_buffer buf + eb_off buf) space (Some s) = Some (int (length s), buf')"
    "\<And>n. 0 \<le> n \<Longrightarrow> n \<le> int (length s) \<Longrightarrow> n < space \<Longrightarrow> eb_ok (buf'\<lparr>eb_off := eb_off buf + n\<rparr>)
       \<and> eb_content (buf'\<lparr>eb_off := eb_off buf + n\<rparr>) = eb_content buf @ take (nat n) s"
    "eb_off buf' = eb_off buf" "eb_misalign buf' = eb_misalign buf" "eb_totallen buf' = eb_totallen buf"
proof -
  let ?ys = "take (nat space - 1) s @ [CHR 0x00]"
  have "eb_misalign buf + eb_off buf + int (length ?ys) \<le> eb_totallen buf"
    using assms(2,3) by (simp add: min_def) linarith
  then obtain b1 where w1: "eb_write buf (eb_buffer buf + eb_off buf) ?ys = Some b1"
    and c1: "\<And>n. 0 \<le> n \<Longrightarrow> n \<le> int (length ?ys) \<Longrightarrow> eb_ok (b1\<lparr>eb_off := eb_off buf + n\<rparr>)
       \<and> eb_content (b1\<lparr>eb_off := eb_off buf + n\<rparr>) = eb_content buf @ take (nat n) ?ys"
    and f1: "eb_off b1 = eb_off buf" "eb_misalign b1 = eb_misalign buf" "eb_buffer b1 = eb_buffer buf" "eb_totallen b1 = eb_totallen buf"
    by (rule eb_write_end [OF assms(1)]) blast
  have "b1\<lparr>eb_off := eb_off buf + 0\<rparr> = b1" using f1(1) by simp
  then have ok1: "eb_ok b1" using c1 [of 0] by simp
  have off: "0 \<le> eb_off buf" "eb_buffer buf = eb_misalign buf" using assms(1) by (simp_all add: eb_ok_def)
  obtain b2 where w2: "eb_write b1 (eb_buffer buf + eb_off buf + space - 1) [CHR 0x00] = Some b2"
    and c2: "\<And>n. 0 \<le> n \<Longrightarrow> n \<le> eb_off buf + space - 1 \<Longrightarrow> eb_ok (b2\<lparr>eb_off := n\<rparr>) \<and> eb_content (b2\<lparr>eb_off := n\<rparr>) = eb_content (b1\<lparr>eb_off := n\<rparr>)"
    and f2: "eb_off b2 = eb_off b1" "eb_misalign b2 = eb_misalign b1" "eb_totallen b2 = eb_totallen b1"
    by (rule eb_write_behind [OF ok1, of "eb_off buf + space - 1" "eb_buffer buf + eb_off buf + space - 1" "[CHR 0x00]"])
      (use assms(2,3) f1 off in simp_all)
  show thesis
  proof (rule that [of b2])
    show "evutil_vsnprintf buf (eb_buffer buf + eb_off buf) space (Some s) = Some (int (length s), b2)"
      using w1 w2 assms(3) by (simp add: evutil_vsnprintf_def)
    fix n assume n: "0 \<le> n" "n \<le> int (length s)" "n < space"
    then have "n \<le> int (length ?ys)" "take (nat n) ?ys = take (nat n) s" by (auto simp: min_def)
    then show "eb_ok (b2\<lparr>eb_off := eb_off buf + n\<rparr>) \<and> eb_content (b2\<lparr>eb_off := eb_off buf + n\<rparr>) = eb_content buf @ take (nat n) s"
      using c1 [of n] c2 [of "eb_off buf + n"] n off(1) by simp
  qed (use f1 f2 in simp_all)
qed

lemma vprintf_fits:
  assumes "eb_ok buf" "eb_misalign buf + eb_off buf + int (length s) < eb_totallen buf"
  shows "\<exists>buf'. vprintf_loop fr (Some s) oldoff buf fs = Some (int (length s), buf', fs)
    \<and> eb_ok buf' \<and> eb_content buf' = eb_content buf @ s"
proof -
  let ?space = "eb_totallen buf - (eb_misalign buf + eb_off buf)"
  obtain b where b: "evutil_vsnprintf buf (eb_buffer buf + eb_off buf) ?space (Some s) = Some (int (length s), b)"
    "\<And>n. 0 \<le> n \<Longrightarrow> n \<le> int (length s) \<Longrightarrow> n < ?space \<Longrightarrow> eb_ok (b\<lparr>eb_off := eb_off buf + n\<rparr>)
       \<and> eb_content (b\<lparr>eb_off := eb_off buf + n\<rparr>) = eb_content buf @ take (nat n) s" "eb_off b = eb_off buf"
    using assms(2) by (rule_tac evutil_vsnprintf_ok [OF assms(1) refl, of s]) simp_all
  have "eb_ok (b\<lparr>eb_off := eb_off buf + int (length s)\<rparr>) \<and> eb_content (b\<lparr>eb_off := eb_off buf + int (length s)\<rparr>) = eb_content buf @ s"
    using b(2) [of "int (length s)"] assms(2) by simp
  then show ?thesis
    using assms b(1,3) by (subst vprintf_loop.simps) (simp add: Let_def)
qed

text \<open>With memory, printing appends the formatted text; it takes two rounds of the loop at most.\<close>

lemma evbuffer_add_vprintf_ok:
  assumes "eb_ok buf" "failing fs = 0"
  shows "\<exists>buf' fs'. evbuffer_add_vprintf fr buf (Some s) fs = Some (int (length s), buf', fs')
    \<and> eb_ok buf' \<and> eb_content buf' = eb_content buf @ s \<and> failing fs' = 0"
proof -
  have pos: "(0::int) \<le> 64" by simp
  obtain b1 fs1 where b1: "evbuffer_expand fr buf 64 fs = Some (0, b1, fs1)" "same_bytes buf b1"
      "eb_misalign b1 + eb_off b1 + 64 \<le> eb_totallen b1" "failing fs1 = 0"
    by (cases rule: evbuffer_expand_cases [OF assms(1) pos, of fr fs, case_names ok fail]) (use assms(2) in auto)
  have ok1: "eb_ok b1" and cont: "eb_content b1 = eb_content buf" and off: "0 \<le> eb_off b1"
    using b1(2) by (simp_all add: same_bytes_def eb_ok_def)
  have "\<exists>buf' fs'. vprintf_loop fr (Some s) (eb_off buf) b1 fs1 = Some (int (length s), buf', fs')
    \<and> eb_ok buf' \<and> eb_content buf' = eb_content b1 @ s \<and> failing fs' = 0"
  proof (cases "eb_misalign b1 + eb_off b1 + int (length s) < eb_totallen b1")
    case True
    then show ?thesis using vprintf_fits [OF ok1 True, of fr "eb_off buf" fs1] b1(4) by auto
  next
    case False
    let ?space = "eb_totallen b1 - (eb_misalign b1 + eb_off b1)"
    obtain b where b: "evutil_vsnprintf b1 (eb_buffer b1 + eb_off b1) ?space (Some s) = Some (int (length s), b)"
      "\<And>n. 0 \<le> n \<Longrightarrow> n \<le> int (length s) \<Longrightarrow> n < ?space \<Longrightarrow> eb_ok (b\<lparr>eb_off := eb_off b1 + n\<rparr>)
         \<and> eb_content (b\<lparr>eb_off := eb_off b1 + n\<rparr>) = eb_content b1 @ take (nat n) s" "eb_off b = eb_off b1"
      using b1(3) by (rule_tac evutil_vsnprintf_ok [OF ok1 refl, of s]) simp_all
    have "b\<lparr>eb_off := eb_off b1 + 0\<rparr> = b" using b(3) by simp
    then have okb: "eb_ok b" "eb_content b = eb_content b1" using b(2) [of 0] b1(3) by simp_all
    have len: "(0::int) \<le> int (length s) + 1" by simp
    obtain b2 fs2 where b2: "evbuffer_expand fr b (int (length s) + 1) fs1 = Some (0, b2, fs2)" "same_bytes b b2"
        "eb_misalign b2 + eb_off b2 + (int (length s) + 1) \<le> eb_totallen b2" "failing fs2 = 0"
      by (cases rule: evbuffer_expand_cases [OF okb(1) len, of fr fs1, case_names ok fail]) (use b1(4) in auto)
    have "eb_ok b2" "eb_misalign b2 + eb_off b2 + int (length s) < eb_totallen b2"
      using b2(2,3) by (simp_all add: same_bytes_def)
    from vprintf_fits [OF this, of fr "eb_off buf" fs2]
    show ?thesis using False b1(3) b(1) b2 okb(2)
      by (subst vprintf_loop.simps) (auto simp: Let_def same_bytes_def)
  qed
  then show ?thesis using b1(1) cont by (simp add: evbuffer_add_vprintf_def)
qed

text \<open>
  Without memory there may be no byte to print into; the zero then goes in front of the place: over
  the last byte of the contents, or, into a buffer that has no block yet, through a null pointer.
\<close>

lemma vprintf_null:
  assumes "evbuffer_new fs = (Some buf, fs1)"
  shows "evbuffer_add_vprintf fr buf str (True # fs') = None"
proof -
  have b: "buf = \<lparr>eb_buffer = 0, eb_orig = None, eb_misalign = 0, eb_totallen = 0, eb_off = 0, eb_cb = False, eb_calls = []\<rparr>"
    using assms by (auto simp: evbuffer_new_def Let_def split: prod.splits if_splits)
  have "evbuffer_expand fr buf 64 (True # fs') = Some (- 1, buf, fs')"
    by (simp add: b evbuffer_expand_def realloc_def malloc_ok_def)
  then show ?thesis
    by (simp add: evbuffer_add_vprintf_def vprintf_loop.simps [of fr str] evutil_vsnprintf_def eb_write_def b split: option.split)
qed

subsection \<open>Lines and places\<close>

definition after_eol :: "symbol \<Rightarrow> symbol list \<Rightarrow> symbol list" where
  "after_eol e rest = (case rest of [] \<Rightarrow> [] | c # cs \<Rightarrow> if eol c \<and> c \<noteq> e then cs else c # cs)"

lemma evbuffer_readline_ok:
  assumes "eb_ok buf" "failing fs = 0"
    and data: "eb_content buf = line @ e # rest" and no_eol: "\<And>ch. ch \<in> set line \<Longrightarrow> \<not> eol ch" and "eol e"
  shows "\<exists>buf' fs'. evbuffer_readline buf fs = Some (Some line, buf', fs') \<and> eb_ok buf' \<and> eb_content buf' = after_eol e rest"
proof -
  obtain fs' where fs: "malloc_ok fs = (True, fs')" using assms(2) by (rule malloc_ok_plenty)
  have tw: "takeWhile (\<lambda>ch. \<not> eol ch) (eb_content buf) = line"
    using no_eol \<open>eol e\<close> by (simp add: data takeWhile_append2)
  have len: "eb_off buf = int (length line + 1 + length rest)"
    using length_eb_content [OF assms(1)] by (simp add: data)
  define k :: nat where "k = (case rest of [] \<Rightarrow> 1 | c # cs \<Rightarrow> if eol c \<and> c \<noteq> e then 2 else 1)"
  have "evbuffer_readline buf fs = Some (Some line, evbuffer_drain buf (int (length line + k)), fs')"
    using assms(1) fs tw len
    by (cases rest) (simp_all add: evbuffer_readline_def Let_def data arr_get_def nth_append nat_add_distrib add.commute k_def)
  moreover have "drop (length line + k) (eb_content buf) = after_eol e rest"
    by (cases rest) (simp_all add: data after_eol_def k_def)
  ultimately show ?thesis
    using evbuffer_drain_ok [OF assms(1), of "int (length line + k)"]
    by (metis nat_int of_nat_0_le_iff)
qed

lemma evbuffer_readline_none:
  assumes "eb_ok buf" "\<And>ch. ch \<in> set (eb_content buf) \<Longrightarrow> \<not> eol ch"
  shows "evbuffer_readline buf fs = Some (None, buf, fs)"
proof -
  have "takeWhile (\<lambda>ch. \<not> eol ch) (eb_content buf) = eb_content buf" using assms(2) by (simp add: takeWhile_eq_all_conv)
  note tw = this
  show ?thesis using assms(1) length_eb_content [OF assms(1)] by (simp add: evbuffer_readline_def Let_def tw)
qed

text \<open>The first place at which a string occurs.\<close>

definition first_place :: "symbol list \<Rightarrow> symbol list \<Rightarrow> nat option" where
  "first_place what data = List.find (\<lambda>i. prefix what (drop i data)) [0..<length data]"

lemma memchr_cases:
  obtains (none) "memchr data i ch = None" "\<And>k. i \<le> k \<Longrightarrow> k < length data \<Longrightarrow> data ! k \<noteq> ch"
    | (some) p where "memchr data i ch = Some p" "i \<le> p" "p < length data" "data ! p = ch"
      "\<And>k. i \<le> k \<Longrightarrow> k < p \<Longrightarrow> data ! k \<noteq> ch"
proof (cases "memchr data i ch")
  case None
  then have "\<forall>j < length data - i. data ! (i + j) \<noteq> ch" by (auto simp: memchr_def find_None_iff)
  then have "data ! k \<noteq> ch" if "i \<le> k" "k < length data" for k
    using that by (metis diff_less_mono le_add_diff_inverse)
  with None show thesis by (rule none)
next
  case (Some p)
  then obtain j where j: "j < length data - i" "drop i data ! j = ch" "\<forall>k < j. drop i data ! k \<noteq> ch" "p = i + j"
    by (auto simp: memchr_def find_Some_iff)
  have "data ! k \<noteq> ch" if "i \<le> k" "k < p" for k
  proof -
    have "k - i < j" "i + (k - i) = k" using j(4) that by simp_all
    then show ?thesis using j(1,3) nth_drop [of i data "k - i"] by force
  qed
  with Some j show thesis by (intro some [of p]) auto
qed

lemma prefix_drop_nth: "prefix (c # cs) (drop k data) \<Longrightarrow> k < length data \<and> data ! k = c"
  by (cases "k < length data") (auto simp flip: Cons_nth_drop_Suc)

lemma find_loop_first:
  assumes "what = c # cs" "\<And>k. k < search \<Longrightarrow> \<not> prefix what (drop k data)"
  shows "find_loop data what (int (length what)) search = Some (map_option int (first_place what data))"
  using assms(2)
proof (induction "length data - search" arbitrary: search rule: less_induct)
  case less
  have get: "arr_get what 0 = Some c" using assms(1) by simp
  have all: "arr_read what 0 (int (length what)) = Some what" by simp
  have starts: "data ! k = c" if "prefix what (drop k data)" for k
    using prefix_drop_nth [of c cs k data] that assms(1) by simp
  have nowhere: "first_place what data = None" if "\<And>k. k < length data \<Longrightarrow> \<not> prefix what (drop k data)"
    using that by (auto simp: first_place_def find_None_iff)
  show ?case
  proof (cases "search < length data")
    case False
    then have "first_place what data = None" using less.prems by (intro nowhere) simp
    with False show ?thesis by (simp add: find_loop.simps)
  next
    case True
    show ?thesis
    proof (cases rule: memchr_cases [of data search c, case_names none some])
      case none
      have "first_place what data = None"
        using none(2) starts less.prems by (intro nowhere) (metis not_le)
      with True none(1) get show ?thesis by (simp add: find_loop.simps [of data])
    next
      case (some p)
      have before: "\<not> prefix what (drop k data)" if "k < p" for k
        using that less.prems [of k] some(5) [of k] starts [of k] by (cases "k < search") auto
      show ?thesis
      proof (cases "length data < p + length what")
        case short: True
        have "\<not> prefix what (drop k data)" if "k < length data" for k
          using before [of k] short that by (cases "k < p") (auto dest!: prefix_length_le)
        then have "first_place what data = None" by (rule nowhere)
        with True some(1) get short show ?thesis by (simp add: find_loop.simps [of data])
      next
        case False
        then have pw: "take (length what) (drop p data) = what \<longleftrightarrow> prefix what (drop p data)"
          by (metis append_eq_conv_conj append_take_drop_id prefix_def)
        show ?thesis
        proof (cases "prefix what (drop p data)")
          case here: True
          then have "first_place what data = Some p"
            using before some(3) by (auto simp: first_place_def find_Some_iff intro!: exI [of _ p])
          with True some(1) get all False here pw show ?thesis by (simp add: find_loop.simps [of data])
        next
          case there: False
          have "find_loop data what (int (length what)) (p + 1) = Some (map_option int (first_place what data))"
            using some(2,3) before there by (intro less.hyps) (auto simp: less_Suc_eq)
          with True some(1) get all False there pw show ?thesis by (simp add: find_loop.simps [of data _ _ search])
        qed
      qed
    qed
  qed
qed

lemma evbuffer_find_first:
  assumes "eb_ok buf" "what \<noteq> []"
  shows "evbuffer_find buf what (int (length what)) = Some (map_option int (first_place what (eb_content buf)))"
proof -
  obtain c cs where "what = c # cs" using assms(2) by (cases what) auto
  from find_loop_first [OF this, of 0] assms(1) show ?thesis by (simp add: evbuffer_find_def)
qed

subsection \<open>Appending piece by piece\<close>

fun put_all :: "('q \<Rightarrow> symbol list \<Rightarrow> bool list \<Rightarrow> (int \<times> 'q \<times> bool list) option) \<Rightarrow> 'q \<Rightarrow> symbol list list \<Rightarrow> bool list
    \<Rightarrow> ('q \<times> bool list) option" where
  "put_all put q [] fs = Some (q, fs)"
| "put_all put q (w # ws) fs = do { (_, q, fs) \<leftarrow> put q w fs; put_all put q ws fs }"

text \<open>What clients rely on who append and do not look at the results.\<close>

locale appender =
  fixes ok :: "'q \<Rightarrow> bool" and abs :: "'q \<Rightarrow> symbol list"
    and put :: "'q \<Rightarrow> symbol list \<Rightarrow> bool list \<Rightarrow> (int \<times> 'q \<times> bool list) option"
  assumes put_ok: "ok q \<Longrightarrow> failing fs = 0
    \<Longrightarrow> \<exists>r q' fs'. put q w fs = Some (r, q', fs') \<and> ok q' \<and> abs q' = abs q @ w \<and> failing fs' = 0"
begin

lemma put_all_ok:
  assumes "ok q" "failing fs = 0"
  shows "\<exists>q' fs'. put_all put q ws fs = Some (q', fs') \<and> ok q' \<and> abs q' = abs q @ concat ws \<and> failing fs' = 0"
  using assms
proof (induction ws arbitrary: q fs)
  case (Cons w ws)
  obtain r q1 fs1 where 1: "put q w fs = Some (r, q1, fs1)" "ok q1" "abs q1 = abs q @ w" "failing fs1 = 0"
    using put_ok [OF Cons.prems, of w] by blast
  from Cons.IH [OF 1(2,4)] 1(1,3) show ?case by auto
qed auto

end

interpretation adds: appender eb_ok eb_content "evbuffer_add fr" for fr
proof
  fix q fs w
  assume "eb_ok q" "failing fs = 0"
  then show "\<exists>r q' fs'. evbuffer_add fr q w fs = Some (r, q', fs') \<and> eb_ok q' \<and> eb_content q' = eb_content q @ w \<and> failing fs' = 0"
    by (cases rule: evbuffer_add_cases [of q fr w fs, case_names ok1 ok fail]) auto
qed

interpretation prints: appender eb_ok eb_content "\<lambda>q w. evbuffer_add_vprintf fr q (Some w)" for fr
  by unfold_locales (use evbuffer_add_vprintf_ok in blast)

lemma vprintf_corrupts:
  assumes "eb_ok buf" "eb_misalign buf = 0" "eb_off buf = eb_totallen buf" "eb_content buf \<noteq> []" "failing fs = 0"
  shows "\<exists>buf' fs'. evbuffer_add_vprintf fr buf (Some s) (True # fs) = Some (int (length s), buf', fs')
    \<and> eb_content buf' = butlast (eb_content buf) @ [CHR 0x00] @ s"
proof -
  obtain b where b: "eb_orig buf = Some b" "b \<noteq> []" "int (length b) = eb_totallen buf" "eb_buffer buf = 0" "eb_content buf = b"
    using assms(1-4) by (auto simp: eb_content_def elim!: eb_okE)
  have tot: "0 < eb_totallen buf" using b(2,3) by (cases b) auto
  have full: "evbuffer_expand fr buf 64 (True # fs) = Some (- 1, buf, fs)"
    using assms(2,3) b(4) by (simp add: evbuffer_expand_def realloc_def malloc_ok_def)
  define b0 where "b0 = buf\<lparr>eb_orig := Some (butlast b @ [CHR 0x00])\<rparr>"
  have "nat (eb_totallen buf - 1) = length b - 1" using b(3) by simp
  then have w: "eb_write buf (eb_totallen buf - 1) [CHR 0x00] = Some b0"
    using b(1,3) tot by (simp add: eb_write_def b0_def butlast_conv_take)
  have b0: "eb_ok b0" "eb_content b0 = butlast b @ [CHR 0x00]"
  proof -
    have l: "int (length (butlast b @ [CHR 0x00])) = eb_totallen buf" using b(2,3) by (cases b) auto
    then have "take (nat (eb_totallen buf)) (butlast b @ [CHR 0x00]) = butlast b @ [CHR 0x00]" by simp
    then show "eb_content b0 = butlast b @ [CHR 0x00]" using assms(3) b(4) by (simp add: b0_def eb_content_def)
    show "eb_ok b0" using l assms(2,3) b(4) tot by (simp add: b0_def eb_ok_def)
  qed
  have len: "(0::int) \<le> int (length s) + 1" by simp
  obtain b2 fs2 where b2: "evbuffer_expand fr b0 (int (length s) + 1) fs = Some (0, b2, fs2)" "same_bytes b0 b2"
      "eb_misalign b2 + eb_off b2 + (int (length s) + 1) \<le> eb_totallen b2"
    by (cases rule: evbuffer_expand_cases [OF b0(1) len, of fr fs, case_names ok fail]) (use assms(5) in auto)
  have "eb_ok b2" "eb_misalign b2 + eb_off b2 + int (length s) < eb_totallen b2"
    using b2(2,3) by (simp_all add: same_bytes_def)
  note fits = this
  have print: "evutil_vsnprintf buf (eb_totallen buf) 0 (Some s) = Some (int (length s), b0)"
    using w by (simp add: evutil_vsnprintf_def)
  have step: "vprintf_loop fr (Some s) (eb_off buf) buf fs = vprintf_loop fr (Some s) (eb_off buf) b2 fs2"
    by (subst vprintf_loop.simps) (simp add: assms(2,3) b(4) print b2(1) Let_def)
  from vprintf_fits [OF fits, of fr "eb_off buf" fs2] show ?thesis
    using full b(4,5) step b2(2) b0(2) unfolding evbuffer_add_vprintf_def by (auto simp: same_bytes_def)
qed

end
