(* ===== verification/Event_Tagging.thy ===== *)
theory Event_Tagging
  imports Evbuffer
begin

text \<open>
  libevent's tagged data (\<^verbatim>\<open>contrib/libevent/event_tagging.c\<close>): integers by nibbles, tags by groups of
  seven bits, and tagged items of any length, marshalled into a buffer and read back from its front.
  Unsigned 32-bit numbers are natural numbers. A function that returns -1 has the result \<^const>\<open>None\<close>
  inside, with the buffer it leaves.
\<close>

subsection \<open>Encoding\<close>

definition symbols :: "nat list \<Rightarrow> symbol list" where
  "symbols = map char_of"

text \<open>The loop of \<^verbatim>\<open>encode_int\<close> over the nibbles of the number.\<close>

function encode_nibbles :: "nat \<Rightarrow> nat \<Rightarrow> nat list \<Rightarrow> (nat \<times> nat list) option" where
  "encode_nibbles number off data =
     (if number \<noteq> 0 then
        (case arr_get data (int (off div 2)) of None \<Rightarrow> None
         | Some x \<Rightarrow>
             (case arr_set data (int (off div 2))
                 (if off AND 1 \<noteq> 0 then (x AND 0xF0) OR (number AND 0xF) else (x AND 0xF) OR push_bit 4 (number AND 0xF)) of
                None \<Rightarrow> None
              | Some data \<Rightarrow> encode_nibbles (drop_bit 4 number) (off + 1) data))
      else Some (off, data))"
  by pat_completeness auto
termination by (relation "measure (\<lambda>(number, off, data). number)") (auto simp: drop_bit_eq_div)

declare encode_nibbles.simps [simp del]

definition int_bytes :: "nat \<Rightarrow> symbol list option" where
  "int_bytes number = do {
     (off, data) \<leftarrow> encode_nibbles number 1 (replicate 5 0);
     let nibbles = (if off > 2 then off - 2 else 0);
     x \<leftarrow> arr_get data 0;
     data \<leftarrow> arr_set data 0 ((x AND 0xF) OR push_bit 4 (nibbles AND 0xF));
     Some (symbols (take ((off + 1) div 2) data)) }"

text \<open>\<^verbatim>\<open>encode_int\<close> does not look at the result of \<^verbatim>\<open>evbuffer_add\<close>, nor do the functions that follow.\<close>

definition encode_int :: "(nat \<Rightarrow> symbol) \<Rightarrow> evbuffer \<Rightarrow> nat \<Rightarrow> bool list \<Rightarrow> (evbuffer \<times> bool list) option" where
  "encode_int fr buf number fs = do {
     data \<leftarrow> int_bytes number;
     (_, buf, fs) \<leftarrow> evbuffer_add fr buf data fs;
     Some (buf, fs) }"

text \<open>The loop of \<^verbatim>\<open>evtag_encode_tag\<close>: the bytes written and their number.\<close>

function encode_groups :: "nat \<Rightarrow> nat list \<Rightarrow> nat \<Rightarrow> (nat list \<times> nat) option" where
  "encode_groups tag data count =
     (let lower = tag AND 0x7F; tag' = drop_bit 7 tag;
          lower = (if tag' \<noteq> 0 then lower OR 0x80 else lower)
      in case arr_set data (int count) lower of None \<Rightarrow> None
         | Some data \<Rightarrow> if tag' \<noteq> 0 then encode_groups tag' data (count + 1) else Some (data, count + 1))"
  by pat_completeness auto
termination
  by (relation "measure (\<lambda>(tag, data, count). tag)") (auto simp: drop_bit_eq_div)

declare encode_groups.simps [simp del]

definition evtag_encode_tag :: "(nat \<Rightarrow> symbol) \<Rightarrow> evbuffer \<Rightarrow> nat \<Rightarrow> bool list \<Rightarrow> (nat \<times> evbuffer \<times> bool list) option" where
  "evtag_encode_tag fr buf tag fs = do {
     (data, count) \<leftarrow> encode_groups tag (replicate 5 0) 0;
     (_, buf, fs) \<leftarrow> evbuffer_add fr buf (symbols (take count data)) fs;
     Some (count, buf, fs) }"

subsection \<open>Decoding\<close>

text \<open>
  The loop of \<^verbatim>\<open>decode_tag_internal\<close> over the bytes: their number and the tag. A shift by 32 or more is
  undefined; bits shifted out of 32 are lost.
\<close>

fun decode_groups :: "symbol list \<Rightarrow> nat \<Rightarrow> nat \<Rightarrow> nat \<Rightarrow> (nat \<times> nat) option option" where
  "decode_groups [] count shift number = Some None"
| "decode_groups (b # bs) count shift number =
     (let lower = of_char b :: nat in
      if shift \<ge> 32 then None
      else let number = number OR take_bit 32 (push_bit shift (lower AND 0x7F)) in
      if lower AND 0x80 = 0 then Some (Some (count + 1, number))
      else decode_groups bs (count + 1) (shift + 7) number)"

definition decode_tag_internal :: "evbuffer \<Rightarrow> bool \<Rightarrow> ((nat \<times> nat) option \<times> evbuffer) option" where
  "decode_tag_internal buf dodrain = do {
     data \<leftarrow> eb_read buf (eb_buffer buf) (eb_off buf);
     r \<leftarrow> decode_groups data 0 0 0;
     case r of None \<Rightarrow> Some (None, buf)
     | Some (count, number) \<Rightarrow>
         Some (Some (count, number), if dodrain then evbuffer_drain buf (int count) else buf) }"

definition evtag_decode_tag :: "evbuffer \<Rightarrow> ((nat \<times> nat) option \<times> evbuffer) option" where
  "evtag_decode_tag buf = decode_tag_internal buf True"

text \<open>The loop of \<^verbatim>\<open>decode_int_internal\<close>, from the last nibble to the first.\<close>

fun decode_nibbles :: "symbol list \<Rightarrow> nat \<Rightarrow> nat \<Rightarrow> nat option" where
  "decode_nibbles data 0 number = Some number"
| "decode_nibbles data (Suc n) number = do {
     b \<leftarrow> arr_get data (int (Suc n div 2));
     let x = (of_char b :: nat);
     let number = take_bit 32 (push_bit 4 number);
     decode_nibbles data n (number OR (if Suc n AND 1 \<noteq> 0 then x AND 0xF else drop_bit 4 (x AND 0xF0))) }"

definition decode_int_internal :: "evbuffer \<Rightarrow> bool \<Rightarrow> ((nat \<times> nat) option \<times> evbuffer) option" where
  "decode_int_internal buf dodrain = do {
     data \<leftarrow> eb_read buf (eb_buffer buf) (eb_off buf);
     if data = [] then Some (None, buf)
     else do {
       let nibbles = drop_bit 4 (of_char (hd data) AND 0xF0 :: nat) + 1;
       if nibbles > 8 \<or> drop_bit 1 nibbles + 1 > length data then Some (None, buf)
       else do {
         let len = drop_bit 1 nibbles + 1;
         number \<leftarrow> decode_nibbles data nibbles 0;
         Some (Some (len, number), if dodrain then evbuffer_drain buf (int len) else buf) } } }"

definition evtag_decode_int :: "evbuffer \<Rightarrow> (nat option \<times> evbuffer) option" where
  "evtag_decode_int buf = do { (r, buf) \<leftarrow> decode_int_internal buf True; Some (map_option snd r, buf) }"

subsection \<open>Marshalling\<close>

text \<open>\<open>_buf\<close> is the module's own buffer, null before \<^verbatim>\<open>evtag_init\<close>; without memory that ends the process.\<close>

definition evtag_init :: "evbuffer option \<Rightarrow> bool list \<Rightarrow> int + evbuffer option \<times> bool list" where
  "evtag_init own fs = (case own of Some b \<Rightarrow> Inr (Some b, fs)
     | None \<Rightarrow> (case evbuffer_new fs of (None, _) \<Rightarrow> Inl 1 | (Some b, fs) \<Rightarrow> Inr (Some b, fs)))"

definition evtag_marshal :: "(nat \<Rightarrow> symbol) \<Rightarrow> evbuffer \<Rightarrow> nat \<Rightarrow> symbol list \<Rightarrow> bool list \<Rightarrow> (evbuffer \<times> bool list) option" where
  "evtag_marshal fr buf tag data fs = do {
     (_, buf, fs) \<leftarrow> evtag_encode_tag fr buf tag fs;
     (buf, fs) \<leftarrow> encode_int fr buf (length data) fs;
     (_, buf, fs) \<leftarrow> evbuffer_add fr buf data fs;
     Some (buf, fs) }"

definition evtag_marshal_string :: "(nat \<Rightarrow> symbol) \<Rightarrow> evbuffer \<Rightarrow> nat \<Rightarrow> symbol list \<Rightarrow> bool list \<Rightarrow> (evbuffer \<times> bool list) option" where
  "evtag_marshal_string fr buf tag str fs = evtag_marshal fr buf tag (c_str str) fs"

definition evtag_marshal_int :: "(nat \<Rightarrow> symbol) \<Rightarrow> evbuffer option \<Rightarrow> evbuffer \<Rightarrow> nat \<Rightarrow> nat \<Rightarrow> bool list
    \<Rightarrow> (evbuffer option \<times> evbuffer \<times> bool list) option" where
  "evtag_marshal_int fr own buf tag integer fs = do {
     b \<leftarrow> own;
     let b = evbuffer_drain b (eb_off b);
     (b, fs) \<leftarrow> encode_int fr b integer fs;
     (_, buf, fs) \<leftarrow> evtag_encode_tag fr buf tag fs;
     (buf, fs) \<leftarrow> encode_int fr buf (nat (eb_off b)) fs;
     (_, buf, b, fs) \<leftarrow> evbuffer_add_buffer fr buf b fs;
     Some (Some b, buf, fs) }"

definition evtag_marshal_timeval :: "(nat \<Rightarrow> symbol) \<Rightarrow> evbuffer option \<Rightarrow> evbuffer \<Rightarrow> nat \<Rightarrow> nat \<Rightarrow> nat \<Rightarrow> bool list
    \<Rightarrow> (evbuffer option \<times> evbuffer \<times> bool list) option" where
  "evtag_marshal_timeval fr own buf tag sec usec fs = do {
     b \<leftarrow> own;
     let b = evbuffer_drain b (eb_off b);
     (b, fs) \<leftarrow> encode_int fr b sec fs;
     (b, fs) \<leftarrow> encode_int fr b usec fs;
     data \<leftarrow> eb_read b (eb_buffer b) (eb_off b);
     (buf, fs) \<leftarrow> evtag_marshal fr buf tag data fs;
     Some (Some b, buf, fs) }"

subsection \<open>Looking ahead\<close>

definition evtag_peek :: "evbuffer \<Rightarrow> ((nat \<times> nat) option \<times> evbuffer) option" where
  "evtag_peek buf = decode_tag_internal buf False"

text \<open>The length of the payload, and that of the whole item, without moving the front of the buffer.\<close>

definition peek_int :: "evbuffer \<Rightarrow> (nat \<times> nat \<times> nat) option option" where
  "peek_int buf = do {
     (r, _) \<leftarrow> decode_tag_internal buf False;
     case r of None \<Rightarrow> Some None
     | Some (len, _) \<Rightarrow> do {
         let tmp = buf\<lparr>eb_buffer := eb_buffer buf + int len, eb_off := eb_off buf - int len\<rparr>;
         (r, _) \<leftarrow> decode_int_internal tmp False;
         Some (map_option (\<lambda>(res, n). (len, res, n)) r) } }"

definition evtag_peek_length :: "evbuffer \<Rightarrow> nat option option" where
  "evtag_peek_length buf = do { r \<leftarrow> peek_int buf; Some (map_option (\<lambda>(len, res, n). take_bit 32 (n + (res + len))) r) }"

definition evtag_payload_length :: "evbuffer \<Rightarrow> nat option option" where
  "evtag_payload_length buf = do { r \<leftarrow> peek_int buf; Some (map_option (\<lambda>(len, res, n). n) r) }"

definition evtag_consume :: "evbuffer \<Rightarrow> (unit option \<times> evbuffer) option" where
  "evtag_consume buf = do {
     (r, buf) \<leftarrow> decode_tag_internal buf True;
     if Option.is_none r then Some (None, buf)
     else do {
       (len, buf) \<leftarrow> evtag_decode_int buf;
       case len of None \<Rightarrow> Some (None, buf) | Some len \<Rightarrow> Some (Some (), evbuffer_drain buf (int len)) } }"

subsection \<open>Unmarshalling\<close>

text \<open>The result is the length and the tag.\<close>

definition evtag_unmarshal :: "(nat \<Rightarrow> symbol) \<Rightarrow> evbuffer \<Rightarrow> evbuffer \<Rightarrow> bool list
    \<Rightarrow> ((nat \<times> nat) option \<times> evbuffer \<times> evbuffer \<times> bool list) option" where
  "evtag_unmarshal fr src dst fs = do {
     (r, src) \<leftarrow> decode_tag_internal src True;
     case r of None \<Rightarrow> Some (None, src, dst, fs)
     | Some (_, tag) \<Rightarrow> do {
         (r, src) \<leftarrow> evtag_decode_int src;
         case r of None \<Rightarrow> Some (None, src, dst, fs)
         | Some len \<Rightarrow>
             if eb_off src < int len then Some (None, src, dst, fs)
             else do {
               data \<leftarrow> eb_read src (eb_buffer src) (int len);
               (res, dst, fs) \<leftarrow> evbuffer_add fr dst data fs;
               if res = - 1 then Some (None, src, dst, fs)
               else Some (Some (len, tag), evbuffer_drain src (int len), dst, fs) } } }"

definition evtag_unmarshal_int :: "(nat \<Rightarrow> symbol) \<Rightarrow> evbuffer option \<Rightarrow> evbuffer \<Rightarrow> nat \<Rightarrow> bool list
    \<Rightarrow> (nat option \<times> evbuffer option \<times> evbuffer \<times> bool list) option" where
  "evtag_unmarshal_int fr own buf need_tag fs = do {
     (r, buf) \<leftarrow> decode_tag_internal buf True;
     case r of None \<Rightarrow> Some (None, own, buf, fs)
     | Some (_, tag) \<Rightarrow>
         if need_tag \<noteq> tag then Some (None, own, buf, fs)
         else do {
           (r, buf) \<leftarrow> evtag_decode_int buf;
           case r of None \<Rightarrow> Some (None, own, buf, fs)
           | Some len \<Rightarrow>
               if eb_off buf < int len then Some (None, own, buf, fs)
               else do {
                 b \<leftarrow> own;
                 let b = evbuffer_drain b (eb_off b);
                 data \<leftarrow> eb_read buf (eb_buffer buf) (int len);
                 (res, b, fs) \<leftarrow> evbuffer_add fr b data fs;
                 if res = - 1 then Some (None, Some b, buf, fs)
                 else do {
                   let buf = evbuffer_drain buf (int len);
                   (r, b) \<leftarrow> evtag_decode_int b;
                   Some (r, Some b, buf, fs) } } } }"

text \<open>
  The functions that unmarshal into the module's buffer first: the tag and the buffer, or failure.
\<close>

definition unmarshal_own :: "(nat \<Rightarrow> symbol) \<Rightarrow> evbuffer option \<Rightarrow> evbuffer \<Rightarrow> nat \<Rightarrow> bool list
    \<Rightarrow> (bool \<times> evbuffer \<times> evbuffer \<times> bool list) option" where
  "unmarshal_own fr own src need_tag fs = do {
     b \<leftarrow> own;
     (r, src, b, fs) \<leftarrow> evtag_unmarshal fr src (evbuffer_drain b (eb_off b)) fs;
     Some (case r of None \<Rightarrow> False | Some (_, tag) \<Rightarrow> tag = need_tag, src, b, fs) }"

definition evtag_unmarshal_fixed :: "(nat \<Rightarrow> symbol) \<Rightarrow> evbuffer option \<Rightarrow> evbuffer \<Rightarrow> nat \<Rightarrow> int \<Rightarrow> bool list
    \<Rightarrow> (symbol list option \<times> evbuffer option \<times> evbuffer \<times> bool list) option" where
  "evtag_unmarshal_fixed fr own src need_tag len fs = do {
     (ok, src, b, fs) \<leftarrow> unmarshal_own fr own src need_tag fs;
     if \<not> ok then Some (None, Some b, src, fs)
     else if eb_off b \<noteq> len then Some (None, Some b, src, fs)
     else do { data \<leftarrow> eb_read b (eb_buffer b) len; Some (Some data, Some b, src, fs) } }"

text \<open>A string gets a zero behind it; without memory for it the process ends.\<close>

definition evtag_unmarshal_string :: "(nat \<Rightarrow> symbol) \<Rightarrow> evbuffer option \<Rightarrow> evbuffer \<Rightarrow> nat \<Rightarrow> bool list
    \<Rightarrow> (int + symbol list option \<times> evbuffer option \<times> evbuffer \<times> bool list) option" where
  "evtag_unmarshal_string fr own src need_tag fs = do {
     (ok, src, b, fs) \<leftarrow> unmarshal_own fr own src need_tag fs;
     if \<not> ok then Some (Inr (None, Some b, src, fs))
     else let (mem, fs) = malloc_ok fs in
     if \<not> mem then Some (Inl 1)
     else do {
       (_, data, b) \<leftarrow> evbuffer_remove b (eb_off b);
       Some (Inr (Some (data @ [CHR 0x00]), Some b, src, fs)) } }"

definition evtag_unmarshal_timeval :: "(nat \<Rightarrow> symbol) \<Rightarrow> evbuffer option \<Rightarrow> evbuffer \<Rightarrow> nat \<Rightarrow> bool list
    \<Rightarrow> ((nat \<times> nat) option \<times> evbuffer option \<times> evbuffer \<times> bool list) option" where
  "evtag_unmarshal_timeval fr own src need_tag fs = do {
     (ok, src, b, fs) \<leftarrow> unmarshal_own fr own src need_tag fs;
     if \<not> ok then Some (None, Some b, src, fs)
     else do {
       (sec, b) \<leftarrow> evtag_decode_int b;
       case sec of None \<Rightarrow> Some (None, Some b, src, fs)
       | Some sec \<Rightarrow> do {
           (usec, b) \<leftarrow> evtag_decode_int b;
           Some (map_option (\<lambda>usec. (sec, usec)) usec, Some b, src, fs) } } }"

subsection \<open>Bits as digits\<close>

lemma and_push: "x AND push_bit n m = push_bit n (drop_bit n x AND m)" for x m :: nat
  by (rule bit_eqI) (auto simp: bit_simps)

lemma or_push: "b < 2 ^ n \<Longrightarrow> b OR push_bit n a = b + a * 2 ^ n" for a b :: nat
proof -
  assume b: "b < 2 ^ n"
  then have "take_bit n b = b" by (simp add: take_bit_nat_eq_self)
  then have "b AND push_bit n a = 0"
    by (metis (no_types, opaque_lifting) bit_and_iff bit_push_bit_iff bit_take_bit_iff bit_eqI bit_0_eq bot_apply bot_bool_def not_le)
  then show ?thesis by (simp add: disjunctive_add_eq_or [symmetric] push_bit_eq_mult)
qed

lemma and_digits [simp]: "n AND 15 = n mod 16" "n AND 127 = n mod 128" "n AND 1 = n mod 2" for n :: nat
  using take_bit_eq_mask [of 4 n] take_bit_eq_mask [of 7 n] take_bit_eq_mask [of 1 n]
  by (simp_all add: take_bit_eq_mod mask_eq_exp_minus_1)

lemma and_240: "x AND 240 = x div 16 mod 16 * 16" for x :: nat
proof -
  have "x AND 240 = x AND push_bit 4 15" by (simp add: push_bit_eq_mult)
  then show ?thesis unfolding and_push by (simp add: push_bit_eq_mult drop_bit_eq_div)
qed

lemma and_128: "x AND 128 = x div 128 mod 2 * 128" for x :: nat
proof -
  have "x AND 128 = x AND push_bit 7 1" by (simp add: push_bit_eq_mult)
  then show ?thesis unfolding and_push by (simp add: push_bit_eq_mult drop_bit_eq_div)
qed

lemma or_128: "x < 128 \<Longrightarrow> x OR 128 = x + 128" for x :: nat
  using or_push [of x 7 1] by (simp add: push_bit_eq_mult)

lemma or_low_nibble: "x div 16 mod 16 * 16 OR n mod 16 = x div 16 mod 16 * 16 + n mod 16" for x n :: nat
  using or_push [of "n mod 16" 4 "x div 16 mod 16"] by (simp add: push_bit_eq_mult or.commute add.commute)

lemma or_high_nibble: "x mod 16 OR push_bit 4 (n mod 16) = n mod 16 * 16 + x mod 16" for x n :: nat
  using or_push [of "x mod 16" 4 "n mod 16"] by simp

subsection \<open>Tags\<close>

text \<open>The groups of seven bits, the lowest first, all but the last with the high bit.\<close>

fun groups :: "nat \<Rightarrow> nat list" where
  "groups t = (if t < 128 then [t] else (t mod 128 + 128) # groups (t div 128))"

declare groups.simps [simp del]

lemma groups_less: "b \<in> set (groups t) \<Longrightarrow> b < 256"
proof (induction t rule: groups.induct)
  case (1 t)
  have "t mod 128 < 128" by simp
  then show ?case using 1 by (cases "t < 128") (auto simp: groups.simps [of t])
qed

lemma length_groups: "0 < k \<Longrightarrow> t < 128 ^ k \<Longrightarrow> length (groups t) \<le> k"
proof (induction k arbitrary: t)
  case (Suc k)
  show ?case
  proof (cases "t < 128")
    case True
    then show ?thesis by (simp add: groups.simps)
  next
    case False
    then have "0 < k" using Suc.prems(2) by (cases k) simp_all
    moreover have "t div 128 < 128 ^ k" using Suc.prems(2) by (simp add: less_mult_imp_div_less mult.commute)
    ultimately have "length (groups (t div 128)) \<le> k" by (rule Suc.IH)
    then show ?thesis using False by (simp add: groups.simps [of t])
  qed
qed simp

lemma encode_groups_ok:
  "length (groups t) \<le> length ys \<Longrightarrow> encode_groups t (xs @ ys) (length xs) =
    Some (xs @ groups t @ drop (length (groups t)) ys, length xs + length (groups t))"
proof (induction t arbitrary: xs ys rule: groups.induct)
  case (1 t)
  obtain y zs where ys: "ys = y # zs" using 1(2) by (cases ys) (auto simp: groups.simps [of t] split: if_splits)
  show ?case
  proof (cases "t < 128")
    case True
    then have "drop_bit 7 t = 0" by (simp add: drop_bit_eq_div)
    with True ys show ?thesis by (simp add: encode_groups.simps [of t] groups.simps [of t] arr_set_append Let_def)
  next
    case False
    then have hi: "drop_bit 7 t = t div 128" "t div 128 \<noteq> 0" by (simp_all add: drop_bit_eq_div)
    define r where "r = t mod 128 + 128"
    have low: "(t AND 127) OR 128 = r" unfolding r_def and_digits by (rule or_128) simp
    have g: "groups t = r # groups (t div 128)" using False by (simp add: groups.simps [of t] r_def)
    have set: "arr_set (xs @ ys) (int (length xs)) r = Some ((xs @ [r]) @ zs)" unfolding ys arr_set_append by simp
    have len: "length (groups (t div 128)) \<le> length zs" using 1(2) unfolding g ys by simp
    have rec: "encode_groups (t div 128) ((xs @ [r]) @ zs) (length (xs @ [r])) =
      Some ((xs @ [r]) @ groups (t div 128) @ drop (length (groups (t div 128))) zs,
        length (xs @ [r]) + length (groups (t div 128)))"
      using False len by (rule 1(1))
    have "encode_groups t (xs @ ys) (length xs) = encode_groups (t div 128) ((xs @ [r]) @ zs) (length (xs @ [r]))"
      unfolding encode_groups.simps [of t] Let_def hi(1) if_P [OF hi(2)] low set by simp
    then show ?thesis unfolding rec g ys by simp
  qed
qed

lemma symbols_Cons [simp]: "symbols (b # bs) = char_of b # symbols bs" "symbols [] = []" "length (symbols bs) = length bs"
  "symbols (as @ bs) = symbols as @ symbols bs"
  by (simp_all add: symbols_def)

lemma shift_small:
  assumes "t * 2 ^ s < (2 :: nat) ^ n" "0 < t"
  shows "s < n"
proof (rule ccontr)
  assume "\<not> s < n"
  then have "(2 :: nat) ^ n \<le> 2 ^ s" by (intro power_increasing) simp_all
  also have "\<dots> \<le> t * 2 ^ s" using assms(2) by simp
  finally show False using assms(1) by simp
qed

text \<open>Decoding the groups of a tag, with \<open>s\<close> bits decoded before.\<close>

lemma decode_groups_ok:
  "acc < 2 ^ s \<Longrightarrow> t * 2 ^ s < 2 ^ 32 \<Longrightarrow> 0 < t \<or> s < 32 \<Longrightarrow>
    decode_groups (symbols (groups t) @ rest) count s acc = Some (Some (count + length (groups t), acc + t * 2 ^ s))"
proof (induction t arbitrary: acc s count rule: groups.induct)
  case (1 t)
  have s: "s < 32"
    using 1(4) shift_small [OF 1(3)] by blast
  have fits: "take_bit 32 (push_bit s (t mod 128)) = push_bit s (t mod 128)"
  proof -
    have "t mod 128 * 2 ^ s \<le> t * 2 ^ s" by simp
    then have "t mod 128 * 2 ^ s < 2 ^ 32" using 1(3) by (rule le_less_trans)
    then show ?thesis unfolding push_bit_eq_mult by (rule take_bit_nat_eq_self)
  qed
  have or: "acc OR push_bit s (t mod 128) = acc + t mod 128 * 2 ^ s" using 1(2) by (rule or_push)
  show ?case
  proof (cases "t < 128")
    case True
    with s fits or show ?thesis by (simp add: groups.simps [of t] Let_def and_128)
  next
    case False
    have hi: "(t mod 128 + 128) mod 256 = t mod 128 + 128" by simp
    have bit: "(t mod 128 + 128) AND 128 \<noteq> 0" by (simp add: and_128)
    have low: "(t mod 128 + 128) mod 128 = t mod 128" by simp
    define r q P where "r = t mod 128" and "q = t div 128" and "P = (2 :: nat) ^ s"
    have rq: "t = q * 128 + r" "r < 128" "0 < q" unfolding r_def q_def using False by simp_all
    have e: "2 ^ (s + 7) = 128 * P" by (simp add: power_add P_def)
    have sum: "acc + r * P + q * (128 * P) = acc + t * P" unfolding rq(1) by (simp add: algebra_simps)
    have lt: "acc + r * P < 128 * P"
    proof -
      have "r * P \<le> 127 * P" using rq(2) by (intro mult_le_mono1) simp
      then show ?thesis using 1(2) unfolding P_def by linarith
    qed
    have "q * (128 * P) \<le> t * P" unfolding rq(1) by (simp add: algebra_simps)
    then have bound: "q * (128 * P) < 2 ^ 32" using 1(3) unfolding P_def by (rule le_less_trans)
    have rec: "decode_groups (symbols (groups q) @ rest) (count + 1) (s + 7) (acc + r * P) =
      Some (Some (count + 1 + length (groups q), acc + r * P + q * (128 * P)))"
      using 1(1) [OF False, of "acc + r * P" "s + 7" "count + 1"] lt bound rq(3) unfolding e q_def by simp
    have g: "groups t = (r + 128) # groups q" using False by (simp add: groups.simps [of t] r_def q_def)
    have low: "of_char (char_of (r + 128) :: char) = r + 128" using rq(2) by simp
    have bits: "(r + 128) AND 128 \<noteq> 0" "(r + 128) AND 127 = r" using rq(2) by (simp_all add: and_128)
    have or': "acc OR take_bit 32 (push_bit s r) = acc + r * P" using or fits unfolding r_def P_def by simp
    have "decode_groups (symbols (groups t) @ rest) count s acc =
      decode_groups (symbols (groups q) @ rest) (count + 1) (s + 7) (acc + r * P)"
      unfolding g symbols_Cons append_Cons decode_groups.simps Let_def low bits(2) or' using s bits(1) by simp
    then show ?thesis unfolding rec sum g by (simp add: P_def)
  qed
qed

subsection \<open>Integers\<close>

text \<open>The nibbles of a number, the lowest first; and the nibble at a place of the encoding, from 1 on.\<close>

fun nibs :: "nat \<Rightarrow> nat list" where
  "nibs n = (if n = 0 then [] else n mod 16 # nibs (n div 16))"

declare nibs.simps [simp del]

definition get_nib :: "nat list \<Rightarrow> nat \<Rightarrow> nat" where
  "get_nib d j = (if odd j then d ! (j div 2) mod 16 else d ! (j div 2) div 16 mod 16)"

lemma length_nibs: "n < 16 ^ k \<Longrightarrow> length (nibs n) \<le> k"
proof (induction k arbitrary: n)
  case 0
  then show ?case by (simp add: nibs.simps)
next
  case (Suc k)
  have "n div 16 < 16 ^ k" using Suc.prems by (simp add: less_mult_imp_div_less mult.commute)
  from Suc.IH [OF this] show ?case by (cases "n = 0") (simp_all add: nibs.simps [of n])
qed

lemma nth_nibs: "j < length (nibs n) \<Longrightarrow> nibs n ! j = n div 16 ^ j mod 16"
proof (induction j arbitrary: n)
  case (Suc j)
  then have "n \<noteq> 0" by (cases "n = 0") (simp_all add: nibs.simps [of 0])
  with Suc show ?case by (simp add: nibs.simps [of n] div_mult2_eq)
qed (auto simp: nibs.simps [of n for n] split: if_splits)

lemma nibs_end: "length (nibs n) \<le> j \<Longrightarrow> n div 16 ^ j = 0"
proof (induction j arbitrary: n)
  case (Suc j)
  have "length (nibs (n div 16)) \<le> j" using Suc.prems by (cases "n = 0") (simp_all add: nibs.simps [of n] nibs.simps [of 0])
  from Suc.IH [OF this] show ?case by (simp add: div_mult2_eq)
qed (auto simp: nibs.simps [of n for n] split: if_splits)

lemma nibble_parts:
  assumes "b < (16 :: nat)" "a < 16"
  shows "(a * 16 + b) mod 16 = b" "(a * 16 + b) div 16 mod 16 = a" "a * 16 + b < 256"
  using assms by simp_all

text \<open>One nibble is written, every other one stays.\<close>

definition put_nib :: "nat list \<Rightarrow> nat \<Rightarrow> nat \<Rightarrow> nat list" where
  "put_nib d j n = d[j div 2 := (if odd j then d ! (j div 2) div 16 mod 16 * 16 + n mod 16 else n mod 16 * 16 + d ! (j div 2) mod 16)]"

lemma put_nib:
  assumes "j div 2 < length d"
  shows "length (put_nib d j n) = length d" "get_nib (put_nib d j n) j = n mod 16"
    "i \<noteq> j \<Longrightarrow> get_nib (put_nib d j n) i = get_nib d i"
    "\<forall>x \<in> set d. x < 256 \<Longrightarrow> \<forall>x \<in> set (put_nib d j n). x < 256"
proof -
  have lt: "x mod 16 < 16" for x :: nat by simp
  show "length (put_nib d j n) = length d" by (simp add: put_nib_def)
  show "get_nib (put_nib d j n) j = n mod 16"
    using assms nibble_parts [OF lt lt] by (simp add: put_nib_def get_nib_def)
  show "get_nib (put_nib d j n) i = get_nib d i" if "i \<noteq> j"
  proof (cases "i div 2 = j div 2")
    case True
    then have "odd i \<longleftrightarrow> even j" using that by presburger
    then show ?thesis using True assms nibble_parts [OF lt lt] by (simp add: put_nib_def get_nib_def)
  qed (simp add: put_nib_def get_nib_def)
  show "\<forall>x \<in> set (put_nib d j n). x < 256" if "\<forall>x \<in> set d. x < 256"
    using that nibble_parts(3) [OF lt lt] unfolding put_nib_def
    by (auto dest!: subsetD [OF set_update_subset_insert])
qed

lemma odd_and: "(j AND 1 \<noteq> 0) = odd j" for j :: nat
  by (simp add: odd_iff_mod_2_eq_one)

lemma encode_nibbles_step:
  assumes "n \<noteq> 0" "off div 2 < length d"
  shows "encode_nibbles n off d = encode_nibbles (n div 16) (off + 1) (put_nib d off n)"
proof -
  let ?i = "off div 2"
  have get: "arr_get d (int ?i) = Some (d ! ?i)" "\<And>v. arr_set d (int ?i) v = Some (d[?i := v])" using assms(2) by simp_all
  have "(if off AND 1 \<noteq> 0 then (d ! ?i AND 0xF0) OR (n AND 0xF) else (d ! ?i AND 0xF) OR push_bit 4 (n AND 0xF)) =
    (if odd off then d ! ?i div 16 mod 16 * 16 + n mod 16 else n mod 16 * 16 + d ! ?i mod 16)"
    unfolding odd_and and_240 and_digits(1) or_low_nibble or_high_nibble ..
  then show ?thesis
    using assms(1) by (simp only: encode_nibbles.simps [of n] get option.case put_nib_def drop_bit_eq_div) simp
qed

lemma encode_nibbles_ok:
  assumes "length d = 5" "off + length (nibs n) \<le> 10" "\<forall>x \<in> set d. x < 256"
  shows "\<exists>d'. encode_nibbles n off d = Some (off + length (nibs n), d') \<and> length d' = 5 \<and> (\<forall>x \<in> set d'. x < 256)
    \<and> (\<forall>j < off. get_nib d' j = get_nib d j) \<and> (\<forall>j < length (nibs n). get_nib d' (off + j) = nibs n ! j)"
  using assms
proof (induction n arbitrary: off d rule: nibs.induct)
  case (1 n)
  show ?case
  proof (cases "n = 0")
    case True
    with 1 show ?thesis by (simp add: encode_nibbles.simps nibs.simps)
  next
    case False
    have g: "nibs n = n mod 16 # nibs (n div 16)" using False by (simp add: nibs.simps [of n])
    have i: "off div 2 < length d" using 1(2,3) unfolding g by simp
    note put = put_nib [OF i, of n]
    have "\<exists>d'. encode_nibbles (n div 16) (off + 1) (put_nib d off n) = Some (off + 1 + length (nibs (n div 16)), d') \<and> length d' = 5
      \<and> (\<forall>x \<in> set d'. x < 256) \<and> (\<forall>j < off + 1. get_nib d' j = get_nib (put_nib d off n) j)
      \<and> (\<forall>j < length (nibs (n div 16)). get_nib d' (off + 1 + j) = nibs (n div 16) ! j)"
      using False put(1,4) 1(2-4) unfolding g by (intro 1(1)) simp_all
    then obtain d' where d': "encode_nibbles (n div 16) (off + 1) (put_nib d off n) = Some (off + 1 + length (nibs (n div 16)), d')"
      "length d' = 5" "\<forall>x \<in> set d'. x < 256" "\<And>j. j < off + 1 \<Longrightarrow> get_nib d' j = get_nib (put_nib d off n) j"
      "\<And>j. j < length (nibs (n div 16)) \<Longrightarrow> get_nib d' (off + 1 + j) = nibs (n div 16) ! j" by blast
    have "get_nib d' (off + j) = nibs n ! j" if "j < length (nibs n)" for j
      using that d'(4) [of off] d'(5) [of "j - 1"] put(2) unfolding g by (cases j) simp_all
    moreover have "get_nib d' j = get_nib d j" if "j < off" for j
      using d'(4) [of j] put_nib(3) [OF i, of j n] that by simp
    ultimately show ?thesis
      unfolding encode_nibbles_step [OF False i] using d'(1-3) unfolding g by auto
  qed
qed

lemma read_nibble:
  assumes "j div 2 < length d" "\<forall>x \<in> set d. x < 256"
  shows "\<exists>b. arr_get (symbols d @ rest) (int (j div 2)) = Some b
    \<and> (if j AND 1 \<noteq> 0 then of_char b AND 0xF else drop_bit 4 (of_char b AND 0xF0)) = get_nib d j"
proof (intro exI conjI)
  show "arr_get (symbols d @ rest) (int (j div 2)) = Some (char_of (d ! (j div 2)))"
    using assms(1) by (simp add: symbols_def nth_append)
  define x where "x = d ! (j div 2)"
  have "x < 256" using assms by (simp add: x_def)
  then have "(of_char (char_of x :: char) :: nat) = x" by simp
  then show "(if j AND 1 \<noteq> 0 then of_char (char_of (d ! (j div 2)) :: char) AND 0xF
      else drop_bit 4 (of_char (char_of (d ! (j div 2)) :: char) AND 0xF0)) = get_nib d j"
    unfolding odd_and and_240 and_digits(1) get_nib_def x_def [symmetric] by (simp add: drop_bit_eq_div)
qed

lemma digit_step: "n div 16 ^ Suc k * 16 + n div 16 ^ k mod 16 = n div 16 ^ k" for n :: nat
  by (simp add: div_mult2_eq mult.commute [of 16])

lemma decode_nibbles_ok:
  assumes "n < 2 ^ 32" "k div 2 < length d" "\<forall>x \<in> set d. x < 256"
    and "\<And>j. j < k \<Longrightarrow> get_nib d (Suc j) = n div 16 ^ j mod 16"
  shows "decode_nibbles (symbols d @ rest) k (n div 16 ^ k) = Some n"
  using assms(2,4)
proof (induction k)
  case (Suc k)
  have i: "Suc k div 2 < length d" and k: "k div 2 < length d" using Suc.prems(1) by simp_all
  obtain b where b: "arr_get (symbols d @ rest) (int (Suc k div 2)) = Some b"
    "(if Suc k AND 1 \<noteq> 0 then of_char b AND 0xF else drop_bit 4 (of_char b AND 0xF0)) = n div 16 ^ k mod 16"
    using read_nibble [OF i assms(3), of rest] Suc.prems(2) [of k] by auto
  define q r m where "q = n div 16 ^ Suc k" and "r = n div 16 ^ k mod 16" and "m = n div 16 ^ k"
  have qr: "q * 16 + r = m" "r < 16" unfolding q_def r_def m_def by (rule digit_step) simp
  have "m \<le> n" unfolding m_def by simp
  then have "q * 16 < 2 ^ 32" using qr(1) assms(1) by linarith
  then have shift: "take_bit 32 (push_bit 4 q) = push_bit 4 q"
    by (intro take_bit_nat_eq_self) (simp add: push_bit_eq_mult)
  have or: "push_bit 4 q OR r = m" using or_push [of r 4 q] qr by (simp add: or.commute add.commute)
  have rec: "decode_nibbles (symbols d @ rest) k m = Some n" unfolding m_def using k Suc.prems(2) by (intro Suc.IH) simp_all
  have b': "arr_get (symbols d @ rest) (int (Suc k div 2)) = Some b"
    "(if Suc k AND 1 \<noteq> 0 then of_char b AND 0xF else drop_bit 4 (of_char b AND 0xF0)) = r" using b by (simp_all only: r_def)
  show ?case unfolding q_def [symmetric] decode_nibbles.simps b'(1) bind.bind_lunit Let_def shift b'(2) or rec ..
qed simp

text \<open>The bytes of an integer: their number stands in the first nibble.\<close>

lemma int_bytes_ok:
  assumes "n < 2 ^ 32"
  obtains d k where "int_bytes n = Some (symbols d)" "length d = Suc (Suc k div 2)" "\<forall>x \<in> set d. x < 256" "k < 8"
    "get_nib d 0 = k" "\<And>j. j < Suc k \<Longrightarrow> get_nib d (Suc j) = n div 16 ^ j mod 16" "n div 16 ^ Suc k = 0"
proof -
  define l where "l = length (nibs n)"
  have l: "l \<le> 8" unfolding l_def using assms by (intro length_nibs) simp
  obtain e where e: "encode_nibbles n 1 (replicate 5 0) = Some (1 + l, e)" "length e = 5" "\<forall>x \<in> set e. x < 256"
    "\<And>j. j < l \<Longrightarrow> get_nib e (Suc j) = nibs n ! j"
    using encode_nibbles_ok [of "replicate 5 0" 1 n] l unfolding l_def by auto
  have zero: "get_nib e 1 = 0" if "n = 0"
  proof -
    have "e = replicate 5 0" using e(1) that by (simp add: encode_nibbles.simps [of 0])
    then show ?thesis by (simp add: get_nib_def)
  qed
  define k where "k = (if 1 + l > 2 then 1 + l - 2 else 0)"
  have k: "k < 8" "Suc k = max 1 l" using l by (auto simp: k_def)
  have len: "(1 + l + 1) div 2 = Suc (Suc k div 2)" using k(2) by (cases "l = 0") simp_all
  define d where "d = put_nib e 0 k"
  have zero_ok: "0 div 2 < length e" using e(2) by simp
  note put = put_nib [OF zero_ok, where n = k, folded d_def]
  define t where "t = take (Suc (Suc k div 2)) d"
  have short: "Suc k div 2 < 5" using k(1) by simp
  have t_nib: "get_nib t j = get_nib d j" if "j \<le> Suc k" for j
    using that by (simp add: get_nib_def t_def div_le_mono le_imp_less_Suc)
  have "(e ! 0 AND 15) OR push_bit 4 (k AND 15) = k mod 16 * 16 + e ! 0 mod 16"
    unfolding and_digits or_high_nibble ..
  then have low: "(e ! 0 AND 15) OR push_bit 4 (k AND 15) = k mod 16 * 16 + e ! 0 mod 16" .
  have io: "arr_get e 0 = Some (e ! 0)" "arr_set e 0 v = Some (e[0 := v])" for v
    using e(2) by simp_all
  have "int_bytes n = Some (symbols t)"
    unfolding int_bytes_def e(1) bind.bind_lunit prod.case Let_def k_def [symmetric] io low len
    by (simp add: t_def d_def put_nib_def)
  moreover have "length t = Suc (Suc k div 2)" using short put(1) e(2) by (simp add: t_def)
  moreover have "\<forall>x \<in> set t. x < 256" using put(4) e(3) unfolding t_def by (meson in_set_takeD)
  moreover note k(1)
  moreover have "get_nib t 0 = k" using put(2) k(1) by (simp add: t_nib)
  moreover have "get_nib t (Suc j) = n div 16 ^ j mod 16" if "j < Suc k" for j
  proof -
    have same: "get_nib t (Suc j) = get_nib e (Suc j)" using that put(3) [of "Suc j"] by (simp add: t_nib)
    show ?thesis
    proof (cases "j < l")
      case True
      then show ?thesis unfolding same e(4) [OF True] using nth_nibs unfolding l_def by simp
    next
      case False
      then have "l = 0" "j = 0" using that k(2) by (auto simp: max_def split: if_splits)
      moreover have "n = 0" using \<open>l = 0\<close> unfolding l_def by (cases "n = 0") (simp_all add: nibs.simps [of n])
      ultimately show ?thesis unfolding same using zero by simp
    qed
  qed
  moreover have "n div 16 ^ Suc k = 0" using k(2) unfolding l_def by (intro nibs_end) simp
  ultimately show thesis by (rule that)
qed

subsection \<open>Round trips\<close>

definition tag_code :: "nat \<Rightarrow> symbol list" where
  "tag_code t = symbols (groups t)"

definition int_code :: "nat \<Rightarrow> symbol list" where
  "int_code n = the (int_bytes n)"

text \<open>The bytes of a tagged item.\<close>

definition item_code :: "nat \<times> symbol list \<Rightarrow> symbol list" where
  "item_code = (\<lambda>(tag, data). tag_code tag @ int_code (length data) @ data)"

lemma tag_code_groups:
  assumes "t < 2 ^ 32"
  shows "length (groups t) \<le> 5" "encode_groups t (replicate 5 0) 0 = Some (groups t @ drop (length (groups t)) (replicate 5 0), length (groups t))"
proof -
  have "t < 128 ^ 5" by (rule less_trans [OF assms]) simp
  then show "length (groups t) \<le> 5" by (intro length_groups) simp_all
  then show "encode_groups t (replicate 5 0) 0 = Some (groups t @ drop (length (groups t)) (replicate 5 0), length (groups t))"
    using encode_groups_ok [of t "replicate 5 0" "[]"] by simp
qed

lemma int_bytes_code: "n < 2 ^ 32 \<Longrightarrow> int_bytes n = Some (int_code n)"
  by (erule int_bytes_ok [of n]) (simp add: int_code_def)

lemma evbuffer_add_ok:
  assumes "eb_ok buf" "failing fs = 0"
  obtains buf' fs' where "evbuffer_add fr buf data fs = Some (0, buf', fs')" "eb_ok buf'"
    "eb_content buf' = eb_content buf @ data" "failing fs' = 0"
  using assms(2) by (cases rule: evbuffer_add_cases [OF assms(1), of fr data fs, case_names ok fail]) (auto intro: that)

lemma evtag_encode_tag_ok:
  assumes "eb_ok buf" "failing fs = 0" "t < 2 ^ 32"
  obtains buf' fs' where "evtag_encode_tag fr buf t fs = Some (length (groups t), buf', fs')" "eb_ok buf'"
    "eb_content buf' = eb_content buf @ tag_code t" "failing fs' = 0"
  by (rule evbuffer_add_ok [OF assms(1,2), of fr "tag_code t"])
    (rule that, simp_all add: evtag_encode_tag_def tag_code_groups(2) [OF assms(3)] tag_code_def)

lemma encode_int_ok:
  assumes "eb_ok buf" "failing fs = 0" "n < 2 ^ 32"
  obtains buf' fs' where "encode_int fr buf n fs = Some (buf', fs')" "eb_ok buf'"
    "eb_content buf' = eb_content buf @ int_code n" "failing fs' = 0"
  by (rule evbuffer_add_ok [OF assms(1,2), of fr "int_code n"])
    (rule that, simp_all add: encode_int_def int_bytes_code [OF assms(3)])

text \<open>What is decoded leaves the front of the buffer, or stays when it is only looked at.\<close>

lemma decode_tag_ok:
  assumes "eb_ok buf" "eb_content buf = tag_code t @ rest" "t < 2 ^ 32"
  obtains buf' where "\<And>dodrain. decode_tag_internal buf dodrain = Some (Some (length (groups t), t), if dodrain then buf' else buf)"
    "eb_ok buf'" "eb_content buf' = rest"
proof (rule that [of "evbuffer_drain buf (int (length (groups t)))"])
  have "decode_groups (symbols (groups t) @ rest) 0 0 0 = Some (Some (0 + length (groups t), 0 + t * 2 ^ 0))"
    by (rule decode_groups_ok) (use assms(3) in simp_all)
  then show "decode_tag_internal buf dodrain =
      Some (Some (length (groups t), t), if dodrain then evbuffer_drain buf (int (length (groups t))) else buf)" for dodrain
    using assms(1,2) by (simp add: decode_tag_internal_def tag_code_def)
  show "eb_ok (evbuffer_drain buf (int (length (groups t))))" "eb_content (evbuffer_drain buf (int (length (groups t)))) = rest"
    using evbuffer_drain_ok [OF assms(1), of "int (length (groups t))"] assms(2) by (simp_all add: tag_code_def)
qed

lemma int_code_decodes:
  assumes "n < 2 ^ 32"
  obtains k where "int_code n \<noteq> []" "drop_bit 4 (of_char (hd (int_code n @ rest)) AND 0xF0 :: nat) = k" "k < 8"
    "length (int_code n) = Suc (Suc k div 2)" "decode_nibbles (int_code n @ rest) (Suc k) 0 = Some n"
proof -
  obtain d k where d: "int_bytes n = Some (symbols d)" "length d = Suc (Suc k div 2)" "\<forall>x \<in> set d. x < 256" "k < 8"
    "get_nib d 0 = k" "\<And>j. j < Suc k \<Longrightarrow> get_nib d (Suc j) = n div 16 ^ j mod 16" "n div 16 ^ Suc k = 0"
    using assms by (rule int_bytes_ok) blast
  have c: "int_code n = symbols d" by (simp add: int_code_def d(1))
  have "decode_nibbles (symbols d @ rest) (Suc k) (n div 16 ^ Suc k) = Some n"
    by (rule decode_nibbles_ok [OF assms _ d(3,6)]) (simp add: d(2))
  then have dec: "decode_nibbles (int_code n @ rest) (Suc k) 0 = Some n" unfolding c d(7) .
  have ne: "d \<noteq> []" using d(2) by auto
  then have "0 div 2 < length d" by simp
  from read_nibble [OF this d(3), of rest] ne
  have first: "drop_bit 4 (of_char (hd (int_code n @ rest)) AND 0xF0 :: nat) = k"
    unfolding c d(5) by (cases d) auto
  have "length (int_code n) = Suc (Suc k div 2)" unfolding c by (simp add: d(2))
  moreover from this have "int_code n \<noteq> []" by auto
  ultimately show thesis using first d(4) dec by (intro that)
qed

lemma decode_int_ok:
  assumes "eb_ok buf" "eb_content buf = int_code n @ rest" "n < 2 ^ 32"
  obtains buf' where "\<And>dodrain. decode_int_internal buf dodrain = Some (Some (length (int_code n), n), if dodrain then buf' else buf)"
    "eb_ok buf'" "eb_content buf' = rest"
proof -
  obtain k where k: "int_code n \<noteq> []" "drop_bit 4 (of_char (hd (int_code n @ rest)) AND 0xF0 :: nat) = k" "k < 8"
    "length (int_code n) = Suc (Suc k div 2)" "decode_nibbles (int_code n @ rest) (Suc k) 0 = Some n"
    using assms(3) by (rule int_code_decodes)
  let ?buf = "evbuffer_drain buf (int (length (int_code n)))"
  have short: "\<not> (Suc k > 8 \<or> drop_bit 1 (Suc k) + 1 > length (int_code n @ rest))"
    "drop_bit 1 (Suc k) + 1 = length (int_code n)"
    using k(3) unfolding length_append k(4) by (simp_all add: drop_bit_eq_div)
  have dec: "decode_int_internal buf dodrain = Some (Some (length (int_code n), n), if dodrain then ?buf else buf)" for dodrain
    unfolding decode_int_internal_def eb_read_all [OF assms(1)] bind.bind_lunit assms(2) k(2) Let_def
      add_Suc_right add_0_right One_nat_def if_not_P [OF short(1)]
    using k(1,5) short by simp
  show thesis
    by (rule that [OF dec]) (use evbuffer_drain_ok [OF assms(1), of "int (length (int_code n))"] assms(2) in simp_all)
qed

lemma evtag_decode_int_ok:
  assumes "eb_ok buf" "eb_content buf = int_code n @ rest" "n < 2 ^ 32"
  obtains buf' where "evtag_decode_int buf = Some (Some n, buf')" "eb_ok buf'" "eb_content buf' = rest"
  by (rule decode_int_ok [OF assms]) (rule that, simp_all add: evtag_decode_int_def)

subsection \<open>Items\<close>

lemma evtag_marshal_ok:
  assumes "eb_ok buf" "failing fs = 0" "t < 2 ^ 32" "length data < 2 ^ 32"
  obtains buf' fs' where "evtag_marshal fr buf t data fs = Some (buf', fs')" "eb_ok buf'"
    "eb_content buf' = eb_content buf @ item_code (t, data)" "failing fs' = 0"
proof -
  obtain b1 fs1 where 1: "evtag_encode_tag fr buf t fs = Some (length (groups t), b1, fs1)" "eb_ok b1"
    "eb_content b1 = eb_content buf @ tag_code t" "failing fs1 = 0"
    using assms(1-3) by (rule evtag_encode_tag_ok)
  obtain b2 fs2 where 2: "encode_int fr b1 (length data) fs1 = Some (b2, fs2)" "eb_ok b2"
    "eb_content b2 = eb_content b1 @ int_code (length data)" "failing fs2 = 0"
    using 1(2,4) assms(4) by (rule encode_int_ok)
  obtain b3 fs3 where 3: "evbuffer_add fr b2 data fs2 = Some (0, b3, fs3)" "eb_ok b3"
    "eb_content b3 = eb_content b2 @ data" "failing fs3 = 0"
    using 2(2,4) by (rule evbuffer_add_ok)
  show thesis
    by (rule that [of b3 fs3]) (simp_all add: evtag_marshal_def 1 2 3 item_code_def)
qed

text \<open>The head of an item is decoded.\<close>

lemma decode_head_ok:
  assumes "eb_ok src" "eb_content src = item_code (t, data) @ rest" "t < 2 ^ 32" "length data < 2 ^ 32"
  obtains b1 b2 where "\<And>dodrain. decode_tag_internal src dodrain = Some (Some (length (groups t), t), if dodrain then b1 else src)"
    "\<And>dodrain. decode_int_internal b1 dodrain = Some (Some (length (int_code (length data)), length data), if dodrain then b2 else b1)"
    "eb_ok b1" "eb_ok b2" "eb_content b2 = data @ rest"
proof -
  have "eb_content src = tag_code t @ int_code (length data) @ data @ rest" using assms(2) by (simp add: item_code_def)
  from decode_tag_ok [OF assms(1) this assms(3)] obtain b1
    where 1: "\<And>dodrain. decode_tag_internal src dodrain = Some (Some (length (groups t), t), if dodrain then b1 else src)"
    "eb_ok b1" "eb_content b1 = int_code (length data) @ data @ rest" by blast
  from decode_int_ok [OF 1(2,3) assms(4)] obtain b2
    where "\<And>dodrain. decode_int_internal b1 dodrain = Some (Some (length (int_code (length data)), length data), if dodrain then b2 else b1)"
    "eb_ok b2" "eb_content b2 = data @ rest" by blast
  with 1(1,2) show thesis by (intro that) auto
qed

lemma item_payload:
  assumes "eb_ok b" "eb_content b = data @ rest"
  shows "int (length data) \<le> eb_off b" "eb_read b (eb_buffer b) (int (length data)) = Some data"
    "eb_ok (evbuffer_drain b (int (length data)))" "eb_content (evbuffer_drain b (int (length data))) = rest"
proof -
  show le: "int (length data) \<le> eb_off b" using length_eb_content [OF assms(1)] assms(2) by simp
  show "eb_read b (eb_buffer b) (int (length data)) = Some data" using le assms by simp
  show "eb_ok (evbuffer_drain b (int (length data)))" "eb_content (evbuffer_drain b (int (length data))) = rest"
    using evbuffer_drain_ok [OF assms(1), of "int (length data)"] assms(2) by simp_all
qed

lemma evtag_unmarshal_ok:
  assumes "eb_ok src" "eb_content src = item_code (t, data) @ rest" "t < 2 ^ 32" "length data < 2 ^ 32"
    and "eb_ok dst" "failing fs = 0"
  obtains src' dst' fs' where "evtag_unmarshal fr src dst fs = Some (Some (length data, t), src', dst', fs')"
    "eb_ok src'" "eb_content src' = rest" "eb_ok dst'" "eb_content dst' = eb_content dst @ data" "failing fs' = 0"
proof -
  obtain b1 b2 where b: "\<And>dodrain. decode_tag_internal src dodrain = Some (Some (length (groups t), t), if dodrain then b1 else src)"
    "\<And>dodrain. decode_int_internal b1 dodrain = Some (Some (length (int_code (length data)), length data), if dodrain then b2 else b1)"
    "eb_ok b1" "eb_ok b2" "eb_content b2 = data @ rest"
    by (rule decode_head_ok [OF assms(1-4)]) (rule that)
  note p = item_payload [OF b(4,5)]
  obtain d fs' where d: "evbuffer_add fr dst data fs = Some (0, d, fs')" "eb_ok d" "eb_content d = eb_content dst @ data" "failing fs' = 0"
    using assms(5,6) by (rule evbuffer_add_ok)
  show thesis
    by (rule that [of "evbuffer_drain b2 (int (length data))" d fs'])
      (use p d in \<open>simp_all add: evtag_unmarshal_def b(1,2) evtag_decode_int_def not_less\<close>)
qed

text \<open>Many items: marshalled one after the other, and read back until the buffer is empty.\<close>

fun marshal_all :: "(nat \<Rightarrow> symbol) \<Rightarrow> evbuffer \<Rightarrow> (nat \<times> symbol list) list \<Rightarrow> bool list \<Rightarrow> (evbuffer \<times> bool list) option" where
  "marshal_all fr buf [] fs = Some (buf, fs)"
| "marshal_all fr buf ((t, data) # items) fs = do { (buf, fs) \<leftarrow> evtag_marshal fr buf t data fs; marshal_all fr buf items fs }"

fun unmarshal_all :: "(nat \<Rightarrow> symbol) \<Rightarrow> nat \<Rightarrow> evbuffer \<Rightarrow> bool list \<Rightarrow> ((nat \<times> symbol list) list \<times> evbuffer) option" where
  "unmarshal_all fr 0 src fs = Some ([], src)"
| "unmarshal_all fr (Suc n) src fs = (case evbuffer_new fs of (None, fs) \<Rightarrow> None
     | (Some dst, fs) \<Rightarrow> do {
         (r, src, dst, fs) \<leftarrow> evtag_unmarshal fr src dst fs;
         (_, t) \<leftarrow> r;
         (_, data, _) \<leftarrow> evbuffer_remove dst (eb_off dst);
         (items, src) \<leftarrow> unmarshal_all fr n src fs;
         Some ((t, data) # items, src) })"

definition item_ok :: "nat \<times> symbol list \<Rightarrow> bool" where
  "item_ok = (\<lambda>(t, data). t < 2 ^ 32 \<and> length data < 2 ^ 32)"

lemma marshal_all_ok:
  assumes "eb_ok buf" "failing fs = 0" "\<forall>i \<in> set items. item_ok i"
  shows "\<exists>buf' fs'. marshal_all fr buf items fs = Some (buf', fs') \<and> eb_ok buf'
    \<and> eb_content buf' = eb_content buf @ concat (map item_code items) \<and> failing fs' = 0"
  using assms
proof (induction items arbitrary: buf fs)
  case (Cons i items)
  obtain t data where i: "i = (t, data)" by (cases i)
  have ok: "t < 2 ^ 32" "length data < 2 ^ 32" using Cons.prems(3) i by (simp_all add: item_ok_def)
  obtain buf1 fs1 where 1: "evtag_marshal fr buf t data fs = Some (buf1, fs1)" "eb_ok buf1"
    "eb_content buf1 = eb_content buf @ item_code (t, data)" "failing fs1 = 0"
    using Cons.prems(1,2) ok by (rule evtag_marshal_ok)
  have "\<forall>i \<in> set items. item_ok i" using Cons.prems(3) by simp
  from Cons.IH [OF 1(2,4) this] show ?case unfolding i by (auto simp: 1)
qed simp

lemma evbuffer_new_succeeds:
  assumes "failing fs = 0"
  obtains buf fs' where "evbuffer_new fs = (Some buf, fs')" "eb_ok buf" "eb_content buf = []" "failing fs' = 0"
proof -
  obtain buf fs' where "evbuffer_new fs = (Some buf, fs')" "failing fs' = 0"
    using assms by (cases fs) (auto simp: evbuffer_new_def malloc_ok_def failing_def Let_def split: if_splits)
  then show thesis using evbuffer_new_ok by (intro that)
qed

lemma unmarshal_all_ok:
  assumes "eb_ok src" "eb_content src = concat (map item_code items) @ rest" "failing fs = 0" "\<forall>i \<in> set items. item_ok i"
  shows "\<exists>src'. unmarshal_all fr (length items) src fs = Some (items, src') \<and> eb_ok src' \<and> eb_content src' = rest"
  using assms
proof (induction items arbitrary: src fs)
  case (Cons i items)
  obtain t data where i: "i = (t, data)" by (cases i)
  have ok: "t < 2 ^ 32" "length data < 2 ^ 32" using Cons.prems(4) i by (simp_all add: item_ok_def)
  obtain dst fs1 where new: "evbuffer_new fs = (Some dst, fs1)" "eb_ok dst" "eb_content dst = []" "failing fs1 = 0"
    using Cons.prems(3) by (rule evbuffer_new_succeeds)
  have "eb_content src = item_code (t, data) @ concat (map item_code items) @ rest" using Cons.prems(2) i by simp
  from evtag_unmarshal_ok [OF Cons.prems(1) this ok new(2,4), of fr] obtain src1 dst1 fs2
    where 1: "evtag_unmarshal fr src dst fs1 = Some (Some (length data, t), src1, dst1, fs2)" "eb_ok src1"
    "eb_content src1 = concat (map item_code items) @ rest" "eb_ok dst1" "eb_content dst1 = data" "failing fs2 = 0"
    using new(3) by auto
  have off: "0 \<le> eb_off dst1" "nat (eb_off dst1) = length data" using length_eb_content [OF 1(4)] 1(5) by auto
  obtain dst2 where 2: "evbuffer_remove dst1 (eb_off dst1) = Some (eb_off dst1, data, dst2)"
    using evbuffer_remove_ok [OF 1(4) off(1)] 1(5) off(2) by auto
  have "\<forall>i \<in> set items. item_ok i" using Cons.prems(4) by simp
  from Cons.IH [OF 1(2,3,6) this] show ?case unfolding i by (auto simp: new(1) 1(1) 2)
qed simp

text \<open>A tag of more than five bytes is shifted by 35 bits, which the language leaves undefined.\<close>

lemma decode_groups_long:
  "length bs = n \<Longrightarrow> \<forall>b \<in> set bs. (of_char b :: nat) AND 128 \<noteq> 0 \<Longrightarrow> 32 \<le> s + 7 * n \<Longrightarrow>
    decode_groups (bs @ c # rest) count s acc = None"
  by (induction bs arbitrary: n count s acc) (auto simp: Let_def)

lemma evtag_decode_tag_undefined:
  assumes "eb_ok buf" "eb_content buf = bs @ c # rest" "length bs = 5" "\<forall>b \<in> set bs. (of_char b :: nat) AND 128 \<noteq> 0"
  shows "evtag_decode_tag buf = None"
proof -
  have "decode_groups (bs @ c # rest) 0 0 0 = None" by (rule decode_groups_long [OF assms(3,4)]) simp
  then show ?thesis using assms(1,2) by (simp add: evtag_decode_tag_def decode_tag_internal_def)
qed

subsection \<open>Integers and times as items\<close>

lemma drained:
  assumes "eb_ok b"
  shows "eb_ok (evbuffer_drain b (eb_off b))" "eb_content (evbuffer_drain b (eb_off b)) = []"
proof -
  have off: "0 \<le> eb_off b" using assms by (simp add: eb_ok_def)
  show "eb_ok (evbuffer_drain b (eb_off b))" using assms off by (rule evbuffer_drain_ok)
  show "eb_content (evbuffer_drain b (eb_off b)) = []"
    using evbuffer_drain_ok(2) [OF assms off] length_eb_content [OF assms] by simp
qed

lemma length_int_code: "n < 2 ^ 32 \<Longrightarrow> length (int_code n) \<le> 5"
  by (erule int_code_decodes) simp

lemma length_int_code_fits: "n < 2 ^ 32 \<Longrightarrow> length (int_code n) < 2 ^ 32"
  by (drule length_int_code) simp

lemma evtag_marshal_int_ok:
  assumes "eb_ok b" "eb_ok buf" "failing fs = 0" "t < 2 ^ 32" "n < 2 ^ 32"
  obtains b' buf' fs' where "evtag_marshal_int fr (Some b) buf t n fs = Some (Some b', buf', fs')" "eb_ok b'" "eb_ok buf'"
    "eb_content buf' = eb_content buf @ item_code (t, int_code n)" "failing fs' = 0"
proof -
  note d = drained [OF assms(1)]
  obtain b1 fs1 where 1: "encode_int fr (evbuffer_drain b (eb_off b)) n fs = Some (b1, fs1)" "eb_ok b1"
    "eb_content b1 = int_code n" "failing fs1 = 0"
    using encode_int_ok [OF d(1) assms(3,5), of fr] unfolding d(2) by auto
  obtain c2 fs2 where 2: "evtag_encode_tag fr buf t fs1 = Some (length (groups t), c2, fs2)" "eb_ok c2"
    "eb_content c2 = eb_content buf @ tag_code t" "failing fs2 = 0"
    using assms(2) 1(4) assms(4) by (rule evtag_encode_tag_ok)
  have len: "nat (eb_off b1) = length (int_code n)" using length_eb_content [OF 1(2)] 1(3) by simp
  obtain c3 fs3 where 3: "encode_int fr c2 (length (int_code n)) fs2 = Some (c3, fs3)" "eb_ok c3"
    "eb_content c3 = eb_content c2 @ int_code (length (int_code n))" "failing fs3 = 0"
    using 2(2,4) length_int_code_fits [OF assms(5)] by (rule encode_int_ok)
  obtain c4 b4 fs4 where 4: "evbuffer_add_buffer fr c3 b1 fs3 = Some (0, c4, b4, fs4)" "eb_ok c4" "eb_ok b4"
    "eb_content c4 = eb_content c3 @ eb_content b1" "failing fs4 = 0"
    by (cases rule: evbuffer_add_buffer_cases [OF 3(2) 1(2), of fr fs3, case_names ok fail]) (use 3(4) in auto)
  show thesis
    by (rule that [of b4 c4 fs4]) (simp_all add: evtag_marshal_int_def 1 2 len 3 4 item_code_def)
qed

lemma evtag_unmarshal_int_ok:
  assumes "eb_ok b" "eb_ok buf" "eb_content buf = item_code (t, int_code n) @ rest" "failing fs = 0" "t < 2 ^ 32" "n < 2 ^ 32"
  obtains b' buf' fs' where "evtag_unmarshal_int fr (Some b) buf t fs = Some (Some n, Some b', buf', fs')"
    "eb_ok b'" "eb_ok buf'" "eb_content buf' = rest"
proof -
  note d = drained [OF assms(1)]
  obtain b1 b2 where h: "\<And>dodrain. decode_tag_internal buf dodrain = Some (Some (length (groups t), t), if dodrain then b1 else buf)"
    "\<And>dodrain. decode_int_internal b1 dodrain =
       Some (Some (length (int_code (length (int_code n))), length (int_code n)), if dodrain then b2 else b1)"
    "eb_ok b1" "eb_ok b2" "eb_content b2 = int_code n @ rest"
    by (rule decode_head_ok [OF assms(2,3,5) length_int_code_fits [OF assms(6)]]) (rule that)
  note p = item_payload [OF h(4,5)]
  obtain c fs' where c: "evbuffer_add fr (evbuffer_drain b (eb_off b)) (int_code n) fs = Some (0, c, fs')" "eb_ok c"
    "eb_content c = int_code n @ []"
    by (rule evbuffer_add_ok [OF d(1) assms(4), of fr "int_code n"]) (rule that, simp_all add: d(2))
  obtain c' where c': "evtag_decode_int c = Some (Some n, c')" "eb_ok c'"
    using c(2,3) assms(6) by (rule evtag_decode_int_ok)
  have int: "evtag_decode_int b1 = Some (Some (length (int_code n)), b2)" by (simp add: evtag_decode_int_def h(2))
  show thesis
    by (rule that [of c' "evbuffer_drain b2 (int (length (int_code n)))" fs'])
      (use p c'(2) in \<open>simp_all add: evtag_unmarshal_int_def h(1) int c(1) c'(1)\<close>)
qed

lemma evtag_marshal_timeval_ok:
  assumes "eb_ok b" "eb_ok buf" "failing fs = 0" "t < 2 ^ 32" "sec < 2 ^ 32" "usec < 2 ^ 32"
  obtains b' buf' fs' where "evtag_marshal_timeval fr (Some b) buf t sec usec fs = Some (Some b', buf', fs')" "eb_ok b'" "eb_ok buf'"
    "eb_content buf' = eb_content buf @ item_code (t, int_code sec @ int_code usec)" "failing fs' = 0"
proof -
  note d = drained [OF assms(1)]
  obtain b1 fs1 where 1: "encode_int fr (evbuffer_drain b (eb_off b)) sec fs = Some (b1, fs1)" "eb_ok b1"
    "eb_content b1 = int_code sec" "failing fs1 = 0"
    using encode_int_ok [OF d(1) assms(3,5), of fr] unfolding d(2) by auto
  obtain b2 fs2 where 2: "encode_int fr b1 usec fs1 = Some (b2, fs2)" "eb_ok b2"
    "eb_content b2 = int_code sec @ int_code usec" "failing fs2 = 0"
    using encode_int_ok [OF 1(2,4) assms(6), of fr] unfolding 1(3) by auto
  have "length (int_code sec @ int_code usec) \<le> 10" using length_int_code [OF assms(5)] length_int_code [OF assms(6)] by simp
  then have len: "length (int_code sec @ int_code usec) < 2 ^ 32" by (rule le_less_trans) simp
  obtain c fs3 where "evtag_marshal fr buf t (int_code sec @ int_code usec) fs2 = Some (c, fs3)" "eb_ok c"
    "eb_content c = eb_content buf @ item_code (t, int_code sec @ int_code usec)" "failing fs3 = 0"
    using assms(2) 2(4) assms(4) len by (rule evtag_marshal_ok)
  with 2(2) show thesis
    by (intro that [of b2 c fs3]) (simp_all add: evtag_marshal_timeval_def 1(1) 2(1,3) eb_read_all [OF 2(2)])
qed

lemma evtag_unmarshal_timeval_ok:
  assumes "eb_ok b" "eb_ok buf" "eb_content buf = item_code (t, int_code sec @ int_code usec) @ rest" "failing fs = 0"
    "t < 2 ^ 32" "sec < 2 ^ 32" "usec < 2 ^ 32"
  obtains b' buf' fs' where "evtag_unmarshal_timeval fr (Some b) buf t fs = Some (Some (sec, usec), Some b', buf', fs')"
    "eb_ok b'" "eb_ok buf'" "eb_content buf' = rest"
proof -
  note d = drained [OF assms(1)]
  have "length (int_code sec @ int_code usec) \<le> 10" using length_int_code [OF assms(6)] length_int_code [OF assms(7)] by simp
  then have len: "length (int_code sec @ int_code usec) < 2 ^ 32" by (rule le_less_trans) simp
  obtain c b1 fs1 where 1: "evtag_unmarshal fr buf (evbuffer_drain b (eb_off b)) fs =
      Some (Some (length (int_code sec @ int_code usec), t), c, b1, fs1)"
    "eb_ok c" "eb_content c = rest" "eb_ok b1" "eb_content b1 = int_code sec @ int_code usec"
    by (rule evtag_unmarshal_ok [OF assms(2,3,5) len d(1) assms(4), of fr]) (rule that, simp_all add: d(2))
  obtain b2 where 2: "evtag_decode_int b1 = Some (Some sec, b2)" "eb_ok b2" "eb_content b2 = int_code usec @ []"
    using evtag_decode_int_ok [OF 1(4,5) assms(6)] by auto
  obtain b3 where 3: "evtag_decode_int b2 = Some (Some usec, b3)" "eb_ok b3"
    using 2(2,3) assms(7) by (rule evtag_decode_int_ok)
  show thesis
    by (rule that [of b3 c fs1])
      (simp_all add: evtag_unmarshal_timeval_def unmarshal_own_def 1(1-3) 2(1) 3)
qed

lemma evtag_consume_ok:
  assumes "eb_ok buf" "eb_content buf = item_code (t, data) @ rest" "t < 2 ^ 32" "length data < 2 ^ 32"
  obtains buf' where "evtag_consume buf = Some (Some (), buf')" "eb_ok buf'" "eb_content buf' = rest"
proof -
  obtain b1 b2 where h: "\<And>dodrain. decode_tag_internal buf dodrain = Some (Some (length (groups t), t), if dodrain then b1 else buf)"
    "\<And>dodrain. decode_int_internal b1 dodrain = Some (Some (length (int_code (length data)), length data), if dodrain then b2 else b1)"
    "eb_ok b1" "eb_ok b2" "eb_content b2 = data @ rest"
    by (rule decode_head_ok [OF assms]) (rule that)
  show thesis
    by (rule that [of "evbuffer_drain b2 (int (length data))"])
      (use item_payload(3,4) [OF h(4,5)] in \<open>simp_all add: evtag_consume_def h(1,2) evtag_decode_int_def\<close>)
qed

end
