(* ===== verification/Spec2Isabelle.thy ===== *)
theory Spec2Isabelle
  imports Modules Utf8_Text Text_Gen Conv2 Event_Queue Event_Tagging
begin

text \<open>
  Verification of the native code of the repository: the Snowball stemming library
  (\<^verbatim>\<open>src/stemmer2/sb\<close>), the Markov text generator of the test bed (\<^verbatim>\<open>src/testbed\<close>), the repair of
  texts read in the wrong encoding (\<^verbatim>\<open>src/conv2\<close>), and the data structures of the event library the
  servers run on (\<^verbatim>\<open>src/contrib/libevent\<close>).

  \<^bold>\<open>The program and the theories.\<close> A client asks \<^verbatim>\<open>libstemmer/libstemmer_utf8.c\<close> for a stemmer by name;
  it gets an object with an environment (\<^verbatim>\<open>runtime/api.c\<close>) and the entry point of one of sixteen
  languages (\<^verbatim>\<open>src_c/stem_UTF_8_*.c\<close>), which work on the environment's text with the operations of
  \<^verbatim>\<open>runtime/utilities.c\<close>.

  \<^item> \<^verbatim>\<open>Sr_Prelude\<close>: checked array access, the collections of rules. \<^verbatim>\<open>C_Control\<close>: the statements of C
    (sequence, goto to a label that closes a group, loops, switch) as functions on a state, with the
    rules of a total weakest precondition.
  \<^item> \<^verbatim>\<open>Sn_Env\<close>: \<^verbatim>\<open>struct SN_env\<close> and \<^verbatim>\<open>struct among\<close>, buffers with their header, the allocator.
    \<^verbatim>\<open>Utf8\<close>, \<^verbatim>\<open>Utf8_Text\<close>: moves by characters, decoders and grouping tests, for UTF-8 and for one-byte
    encodings. \<^verbatim>\<open>Slices\<close>: string tests, \<^verbatim>\<open>replace_s\<close> and the slice operations. \<^verbatim>\<open>Among\<close>, \<^verbatim>\<open>Among_Check\<close>:
    \<^verbatim>\<open>find_among\<close>, \<^verbatim>\<open>find_among_b\<close> and the test of their tables. \<^verbatim>\<open>Api\<close>: the life of an environment.
    Functions have the names and arguments of the code; the environment is passed and returned.
  \<^item> \<^verbatim>\<open>Runtime_Rules\<close>, \<^verbatim>\<open>Stem_Rules\<close>: the contracts of the runtime as rules, and the invariant of a
    routine: the cursor stays in the window of the text, the buffer is well formed, the text does
    not grow.
  \<^item> \<^verbatim>\<open>Porter\<close>, \<^verbatim>\<open>English\<close>, \<^verbatim>\<open>Russian\<close>, \<^verbatim>\<open>Swedish\<close>, \<^verbatim>\<open>Norwegian\<close>, \<^verbatim>\<open>Danish\<close>, \<^verbatim>\<open>German\<close>, \<^verbatim>\<open>Dutch\<close>, \<^verbatim>\<open>Italian\<close>,
    \<^verbatim>\<open>Spanish\<close>, \<^verbatim>\<open>Portuguese\<close>, \<^verbatim>\<open>Romanian\<close>, \<^verbatim>\<open>Hungarian\<close>, \<^verbatim>\<open>French\<close>, \<^verbatim>\<open>Finnish\<close>, \<^verbatim>\<open>Turkish\<close>: every table,
    string, grouping and routine of the file of that name, statement by statement, and the proof
    that the language keeps its contract.
  \<^item> \<^verbatim>\<open>Libstemmer\<close>: the stemmer object, and the contract of a language as the locales \<open>stemmer\<close>,
    \<open>resilient_stemmer\<close> (it survives failing allocations) and \<open>steady_stemmer\<close> (it needs no memory);
    each language theory interprets one of them. \<^verbatim>\<open>Modules\<close>: the table of 51 names
    (\<^verbatim>\<open>libstemmer/modules_utf8.h\<close>), \<^verbatim>\<open>sb_stemmer_new\<close>, and the sessions of a client as a step relation.
  \<^item> \<^verbatim>\<open>Libc\<close>: what the other programs use of the C library. \<^verbatim>\<open>Markov\<close>, \<^verbatim>\<open>Ideal_Hash\<close>
    (\<^verbatim>\<open>testbed/markov.c\<close>): the table from prefixes to followers, its construction from a text, the
    collision-free second level, the loading of a folder. \<^verbatim>\<open>Text_Gen\<close> (\<^verbatim>\<open>testbed/main.c\<close>): random
    numbers, \<^verbatim>\<open>generate\<close> and the request handler. \<^verbatim>\<open>Conv2\<close>: all of \<^verbatim>\<open>conv2/main.c\<close>.
  \<^item> \<^verbatim>\<open>Evbuffer\<close> (\<^verbatim>\<open>contrib/libevent/buffer.c\<close>): the buffers that \<^verbatim>\<open>generate\<close> prints into and the
    server sends; a well-formed buffer (\<^const>\<open>eb_ok\<close>) has a content (\<^const>\<open>eb_content\<close>), and what appends to
    it is a locale, interpreted by adding and by printing. \<^verbatim>\<open>Event_Tagging\<close> (\<^verbatim>\<open>event_tagging.c\<close>): tagged
    items in such buffers. \<^verbatim>\<open>Min_Heap\<close> (\<^verbatim>\<open>min_heap.h\<close>): the heap of timeouts. \<^verbatim>\<open>Event_Queue\<close> (\<^verbatim>\<open>event.c\<close>): the
    base of events over this heap, its invariant (\<^const>\<open>base_ok\<close>) and its steps as a relation.

  \<^bold>\<open>How the code is read.\<close> A result \<^const>\<open>None\<close> of the outermost option is undefined behaviour or a run
  that does not end: a read or write outside an array, a null pointer that is followed, a remainder
  by zero, a loop without end. That a theorem gives a result in \<^const>\<open>Some\<close> therefore always states
  memory safety and termination. Null pointers and error values are values inside it. Pointers into a
  buffer are integers, as in the code; a buffer owned by one structure is a field of it. There is no
  fuel: the two searches, \<^verbatim>\<open>while (1)\<close> and the recursive Turkish suffix chain are partial functions in
  the option type, and every theorem that mentions them shows that they return.
  Allocations fail as a list says, one entry for each request: theorems either hold for all lists, or
  ask that no entry be a failure. Fresh memory has arbitrary bytes, a parameter.

  \<^bold>\<open>What is shown.\<close> C1 to C3: the library as a whole, from a name to the stems of all words and the
  disposal, with and without failing allocations, and in every order of calls. C4 and C5: the binary
  searches are equivalent to a choice among all entries. C6 to C8: editing. C9 to C12: environments,
  with the two defects of their error paths. C13: the leak of \<^verbatim>\<open>sb_stemmer_new\<close>. C14 to C16: three
  languages; the others have the same theorem as an interpretation in their theory, and all are used
  by C1. C17: all search tables. C18 to C20: characters; C19 is the defect of the backward decoder.
  C21 to C23: the hash table refines the chain of the text, and both lookups agree. C24 to C26: the
  generator and the server. C27 and C28: the repair of words. C29 to C32: byte buffers as queues, and
  what a refused request does to them. C33, C34: the heap of timeouts. C35, C36: tagged items are read
  back as they were written. C37 to C40: the base of events, its timeouts and its clock.

  \<^bold>\<open>Bounds.\<close> Sizes and positions are integers without wrap-around: the code's \<^verbatim>\<open>int\<close> holds them below
  two gigabytes, which for the Markov tables is the hypothesis that a file has less than 200
  megabytes. Hash values and random seeds have their width (64 and 32 bits) and wrap. A table of more
  than 100 texts and a path of more than 3275 bytes have no result, as in the code. The order in which
  a call's arguments are evaluated is the parameter \<open>ltr\<close>.

  \<^bold>\<open>Libraries.\<close> GLib and Hunspell are records of functions; what is assumed of them
  (\<^const>\<open>glib_ok\<close>, \<^const>\<open>converts\<close>) is what their documentation says, and an instance satisfies it. The
  tokens of the scanner flex generates from \<^verbatim>\<open>conv2/tokenizer.l\<close>, the entries of a folder with the
  contents of its files, the number in a request's URI and the time are arguments.

  \<^bold>\<open>Not modelled.\<close> Of the vendored \<^verbatim>\<open>src/contrib/libevent\<close>, the loop over the poll mechanisms, signals,
  descriptors, HTTP, DNS and RPC: they are built on system calls. \<^verbatim>\<open>main\<close> and \<^verbatim>\<open>run_thr\<close> of the test bed start threads and
  event loops. \<^verbatim>\<open>testbed/gen_config.cpp\<close>, \<^verbatim>\<open>common/my_config.cpp\<close> and \<^verbatim>\<open>src/stemmer2/*.cpp\<close> are C++ over
  its standard library, libevent and iconv; \<^verbatim>\<open>common/my_signal.c\<close> is one system call. Diagnostic output
  to \<^verbatim>\<open>stderr\<close> has no effect on the results and is left out. Memory that \<^verbatim>\<open>conv2\<close> and the generator never
  free is not counted. \<^verbatim>\<open>runtime/utilities.c\<close> ends with a \<^verbatim>\<open>debug\<close> function that is compiled out.
\<close>

section \<open>Concrete environments\<close>

text \<open>An environment that holds the word \<open>w\<close> in a buffer with room for \<open>extra\<close> more bytes, the
  cursor at \<open>c\<close>.\<close>

definition word_env :: "symbol list \<Rightarrow> int \<Rightarrow> nat \<Rightarrow> nat \<Rightarrow> nat \<Rightarrow> nat \<Rightarrow> bool list \<Rightarrow> SN_env" where
  "word_env w c extra nS nI nB fs =
     \<lparr>z_p = Some \<lparr>bytes = w @ replicate (Suc extra) (CHR 0x00), SIZE = int (length w),
                  CAPACITY = int (length w + extra)\<rparr>,
      z_c = c, z_l = int (length w), z_lb = 0, z_bra = 0, z_ket = 0,
      z_S = replicate nS (Some \<lparr>bytes = replicate 2 (CHR 0x00), SIZE = 1, CAPACITY = 1\<rparr>),
      z_I = replicate nI 0, z_B = replicate nB 0, z_faults = fs, z_fresh = (\<lambda>_. CHR 0x00)\<rparr>"

lemma word_env_wf [simp]: "wf_env (word_env w c extra nS nI nB fs)"
  by (simp add: word_env_def wf_env_def wf_buf_def)

lemma word_env_content [simp]: "content (word_env w c extra nS nI nB fs) = w"
  by (simp add: word_env_def content_def)

lemma word_env_sel [simp]:
  "z_c (word_env w c extra nS nI nB fs) = c" "z_l (word_env w c extra nS nI nB fs) = int (length w)"
  "z_lb (word_env w c extra nS nI nB fs) = 0" "z_faults (word_env w c extra nS nI nB fs) = fs"
  by (simp_all add: word_env_def)

lemma word_env_ready [simp]: "ready (int nS) (int nI) (int nB) (word_env w c extra nS nI nB fs)"
  by (simp add: ready_def) (simp add: word_env_def strs_ok_def list_all_iff wf_buf_def)

section \<open>The stemming library\<close>

text \<open>C1: with enough memory, every name of the module table, with the encoding UTF_8 or none given,
  gets a stemmer; the stemmer gives every word of every text its stem, whatever bytes the words
  consist of, each at most as long as the word (at most three bytes longer for Turkish); and it can
  be deleted afterwards, with nothing left allocated.\<close>

theorem every_module_stems:
  assumes "name \<in> set (map mod_name modules)" "charenc \<in> {None, Some ''UTF_8''}" "failing fs = 0"
  shows "\<exists>s fs'. sb_stemmer_new (Some name) charenc fs fresh = Some (Some s, 1, fs')
    \<and> (\<forall>ws. \<exists>outs s'. stem_words s ws = Some (map Some outs, s')
       \<and> list_all2 (\<lambda>out w. int (length out) \<le> int (length w) + slack name) outs ws
       \<and> sb_stemmer_delete (Some s') = Some None)"
proof -
  obtain m where m: "m \<in> set modules" "mod_name m = name" using assms(1) by auto
  have "sb_getenc charenc = ENC_UTF_8" using assms(2) by auto
  from module_serves [OF m(1) this assms(3)] show ?thesis unfolding m(2) by metis
qed

theorem every_module_stems_witness:
  "\<exists>s fs'. sb_stemmer_new (Some ''english'') None [] (\<lambda>_. CHR 0x00) = Some (Some s, 1, fs')
    \<and> (\<forall>ws. \<exists>outs s'. stem_words s ws = Some (map Some outs, s')
       \<and> list_all2 (\<lambda>out w. int (length out) \<le> int (length w) + slack ''english'') outs ws
       \<and> sb_stemmer_delete (Some s') = Some None)"
  by (rule every_module_stems) (simp_all add: module_names failing_def)

text \<open>C2: for every module but the Danish, Finnish and Turkish, \<open>sb_stemmer_new\<close> with any pattern of
  failing allocations returns null with nothing left allocated, or a stemmer; the stemmer then
  survives every failing allocation: each word gets its stem or null, no call reads or writes where
  it must not, and the object can be deleted.\<close>

theorem modules_survive_failures:
  assumes "name \<in> set (map mod_name modules)" "name \<notin> set fragile" "charenc \<in> {None, Some ''UTF_8''}"
  shows "(\<exists>fs'. sb_stemmer_new (Some name) charenc fs fresh = Some (None, 0, fs') \<and> 0 < failing fs)
    \<or> (\<exists>s fs'. sb_stemmer_new (Some name) charenc fs fresh = Some (Some s, 1, fs')
        \<and> (\<forall>ws. \<exists>outs s'. stem_words s ws = Some (outs, s')
            \<and> list_all2 (\<lambda>out w. case out of None \<Rightarrow> True | Some x \<Rightarrow> length x \<le> length w) outs ws
            \<and> sb_stemmer_delete (Some s') = Some None))"
proof -
  obtain m where m: "m \<in> set modules" "mod_name m = name" using assms(1) by auto
  have enc: "sb_getenc charenc = ENC_UTF_8" using assms(3) by auto
  show ?thesis
    by (rule module_survives [OF m(1) _ enc, of fs fresh, unfolded m(2), OF assms(2)]) blast+
qed

theorem modules_survive_failures_witness:
  "(\<exists>fs'. sb_stemmer_new (Some ''porter'') None [False, True] (\<lambda>_. CHR 0x00) = Some (None, 0, fs') \<and> 0 < failing [False, True])
    \<or> (\<exists>s fs'. sb_stemmer_new (Some ''porter'') None [False, True] (\<lambda>_. CHR 0x00) = Some (Some s, 1, fs')
        \<and> (\<forall>ws. \<exists>outs s'. stem_words s ws = Some (outs, s')
            \<and> list_all2 (\<lambda>out w. case out of None \<Rightarrow> True | Some x \<Rightarrow> length x \<le> length w) outs ws
            \<and> sb_stemmer_delete (Some s') = Some None))"
  by (rule modules_survive_failures) (simp_all add: module_names fragile_def)



text \<open>C4: \<open>find_among_b\<close>, the binary search for the ending before the cursor, is equivalent to the
  specification that looks at every entry: on a well-formed table it takes the longest entry that is
  a suffix of the text between the backward limit and the cursor and puts the cursor in front of it;
  an entry with a test of its own counts only if the test succeeds there, otherwise the next
  longest has its turn; it returns 0 when no entry is left. The search itself ends and stays inside
  its arrays on every such input.\<close>

theorem find_among_b_is_longest_suffix:
  assumes "table_ok (\<lambda>w. rev (s_sym w)) v" "bwd_ready z"
  shows "find_among_b v (int (length v)) z =
    among_spec (\<lambda>w. z_c z - s_size w) (filter (\<lambda>w. suffix (s_sym w) (behind z)) v) z"
  using assms by (rule find_among_b_spec)

theorem find_among_b_is_longest_suffix_witness:
  "find_among_b a_6_finnish (int (length a_6_finnish)) (word_env ''talossa'' 7 0 1 2 1 []) =
    among_spec (\<lambda>w. z_c (word_env ''talossa'' 7 0 1 2 1 []) - s_size w)
      (filter (\<lambda>w. suffix (s_sym w) (behind (word_env ''talossa'' 7 0 1 2 1 []))) a_6_finnish)
      (word_env ''talossa'' 7 0 1 2 1 [])"
  by (rule find_among_b_is_longest_suffix) (simp_all add: bwd_ready_def)

text \<open>C5: \<open>find_among\<close>, the search for the beginning of the text after the cursor, is equivalent to
  the choice of the longest entry that is a prefix of it and passes its test.\<close>

theorem find_among_is_longest_prefix:
  assumes "table_ok s_sym v" "fwd_ready z"
  shows "find_among v (int (length v)) z =
    among_spec (\<lambda>w. z_c z + s_size w) (filter (\<lambda>w. prefix (s_sym w) (ahead z)) v) z"
  using assms by (rule find_among_spec)

theorem find_among_is_longest_prefix_witness:
  "find_among a_0_english (int (length a_0_english)) (word_env ''generic'' 0 0 0 2 1 []) =
    among_spec (\<lambda>w. z_c (word_env ''generic'' 0 0 0 2 1 []) + s_size w)
      (filter (\<lambda>w. prefix (s_sym w) (ahead (word_env ''generic'' 0 0 0 2 1 []))) a_0_english)
      (word_env ''generic'' 0 0 0 2 1 [])"
  by (rule find_among_is_longest_prefix) (use tables_english(1) [unfolded table_f_def] in \<open>simp_all add: fwd_ready_def\<close>)

section \<open>Editing the text\<close>

text \<open>C6: \<open>replace_s\<close> with enough memory replaces the text between \<open>bra\<close> and \<open>ket\<close> by the given
  string, keeps the invariant, reports the change of length, moves the limit by it and the cursor
  with the text it stands in.\<close>

theorem replace_s_replaces:
  assumes "wf_env z" "0 \<le> bra" "bra \<le> ket" "ket \<le> z_l z" "failing (z_faults z) = 0"
  shows "\<exists>z'. replace_s bra ket (int (length str)) str z = Some ((0, int (length str) - (ket - bra)), z')
    \<and> wf_env z' \<and> content z' = take (nat bra) (content z) @ str @ drop (nat ket) (content z)
    \<and> z_l z' = z_l z + (int (length str) - (ket - bra))
    \<and> z_c z' = moved_c bra ket (int (length str) - (ket - bra)) (z_c z)"
proof (cases rule: replace_s_cases [OF assms(1-4) refl, of str, case_names ok fail])
  case (ok z')
  then show ?thesis by (auto simp: edited_def)
qed (use assms(5) in simp)

theorem replace_s_replaces_witness:
  "\<exists>z'. replace_s 4 7 (int (length ''ate'')) ''ate'' (word_env ''relational'' 10 0 0 2 1 [])
      = Some ((0, int (length ''ate'') - (7 - 4)), z')
    \<and> wf_env z' \<and> content z' = take (nat 4) (content (word_env ''relational'' 10 0 0 2 1 []))
        @ ''ate'' @ drop (nat 7) (content (word_env ''relational'' 10 0 0 2 1 []))
    \<and> z_l z' = z_l (word_env ''relational'' 10 0 0 2 1 []) + (int (length ''ate'') - (7 - 4))
    \<and> z_c z' = moved_c 4 7 (int (length ''ate'') - (7 - 4)) (z_c (word_env ''relational'' 10 0 0 2 1 []))"
  by (rule replace_s_replaces) (simp_all add: failing_def)

text \<open>C7: a \<open>replace_s\<close> that fails needed more room than the buffer had and was refused memory; it
  returns -1 and leaves the environment as it was but for the buffer, which is gone: the limit is
  stale.\<close>

theorem replace_s_fails_only_for_memory:
  assumes "wf_env z" "0 \<le> bra" "bra \<le> ket" "ket \<le> z_l z"
    and "replace_s bra ket (int (length str)) str z = Some ((r, adj), z')" "r \<noteq> 0"
  shows "r = - 1 \<and> lost z z' \<and> 0 < failing (z_faults z)
    \<and> free z < z_l z + (int (length str) - (ket - bra))"
proof (cases rule: replace_s_cases [OF assms(1-4) refl, of str, case_names ok fail])
  case (fail z1)
  with assms(5) show ?thesis by simp
qed (use assms(5,6) in simp)

theorem replace_s_fails_only_for_memory_witness:
  "- 1 = (- 1 :: int) \<and> lost (word_env ''a'' 0 0 0 0 0 [True]) ((word_env ''a'' 0 0 0 0 0 [True])\<lparr>z_p := None, z_faults := []\<rparr>)
    \<and> 0 < failing (z_faults (word_env ''a'' 0 0 0 0 0 [True]))
    \<and> free (word_env ''a'' 0 0 0 0 0 [True]) < z_l (word_env ''a'' 0 0 0 0 0 [True]) + (int (length ''bc'') - (1 - 0))"
  by (rule replace_s_fails_only_for_memory [of _ 0 1 "''bc''" "- 1" 0])
    (simp_all, simp add: word_env_def replace_s_def replace_shift_def increase_size_def alloc_ok_def)

text \<open>C8: \<open>slice_from_s\<close> on a well-formed environment with enough memory: a slice inside the text is
  replaced by the string; any other slice is rejected with -1 and the environment is not touched.\<close>

theorem slice_from_s_total:
  assumes "wf_env z" "failing (z_faults z) = 0"
  shows "if 0 \<le> z_bra z \<and> z_bra z \<le> z_ket z \<and> z_ket z \<le> z_l z
    then \<exists>z'. slice_from_s (int (length str)) str z = Some (0, z') \<and> wf_env z'
      \<and> content z' = take (nat (z_bra z)) (content z) @ str @ drop (nat (z_ket z)) (content z)
    else slice_from_s (int (length str)) str z = Some (- 1, z)"
proof (cases "0 \<le> z_bra z \<and> z_bra z \<le> z_ket z \<and> z_ket z \<le> z_l z")
  case True
  then have "wpf (slice_from_s (int (length str)) str) (\<lambda>r z'. r = 0 \<and> wf_env z'
      \<and> content z' = take (nat (z_bra z)) (content z) @ str @ drop (nat (z_ket z)) (content z)) z"
    using assms by (intro slice_from_s_wp) (simp_all add: edited_def)
  with True show ?thesis by (auto simp: wpf_def)
next
  case False
  then have "slice_check z = - 1" by (auto simp: slice_check_def)
  with False show ?thesis by (simp add: slice_from_s_def)
qed

theorem slice_from_s_total_witness:
  "if 0 \<le> z_bra (word_env ''ab'' 2 0 0 0 0 []) \<and> z_bra (word_env ''ab'' 2 0 0 0 0 []) \<le> z_ket (word_env ''ab'' 2 0 0 0 0 [])
      \<and> z_ket (word_env ''ab'' 2 0 0 0 0 []) \<le> z_l (word_env ''ab'' 2 0 0 0 0 [])
    then \<exists>z'. slice_from_s (int (length ''xyz'')) ''xyz'' (word_env ''ab'' 2 0 0 0 0 []) = Some (0, z') \<and> wf_env z'
      \<and> content z' = take (nat (z_bra (word_env ''ab'' 2 0 0 0 0 []))) (content (word_env ''ab'' 2 0 0 0 0 []))
          @ ''xyz'' @ drop (nat (z_ket (word_env ''ab'' 2 0 0 0 0 []))) (content (word_env ''ab'' 2 0 0 0 0 []))
    else slice_from_s (int (length ''xyz'')) ''xyz'' (word_env ''ab'' 2 0 0 0 0 []) = Some (- 1, word_env ''ab'' 2 0 0 0 0 [])"
  by (rule slice_from_s_total) (simp_all add: failing_def)

section \<open>The environment's life\<close>

text \<open>C9: \<open>SN_set_current\<close> puts any word into any usable environment, also one whose buffer a
  failed call has lost: with enough memory the text is the word, the cursor is at its start and
  the variables are kept.\<close>

theorem SN_set_current_loads:
  assumes "usable z" "failing (z_faults z) = 0"
  shows "\<exists>z'. SN_set_current (int (length w)) w z = Some (0, z') \<and> wf_env z' \<and> content z' = w
    \<and> z_c z' = 0 \<and> z_S z' = z_S z \<and> z_I z' = z_I z \<and> z_B z' = z_B z"
  by (rule SN_set_current_cases [OF assms(1) refl, of w]) (use assms(2) in auto)

theorem SN_set_current_loads_witness:
  "\<exists>z'. SN_set_current (int (length ''word'')) ''word'' ((word_env '''' 0 0 0 0 0 [])\<lparr>z_p := None\<rparr>) = Some (0, z')
    \<and> wf_env z' \<and> content z' = ''word''
    \<and> z_c z' = 0 \<and> z_S z' = z_S ((word_env '''' 0 0 0 0 0 [])\<lparr>z_p := None\<rparr>)
    \<and> z_I z' = z_I ((word_env '''' 0 0 0 0 0 [])\<lparr>z_p := None\<rparr>) \<and> z_B z' = z_B ((word_env '''' 0 0 0 0 0 [])\<lparr>z_p := None\<rparr>)"
  by (rule SN_set_current_loads) (simp_all add: usable_def failing_def)

text \<open>C10: \<open>SN_create_env\<close> with enough memory returns an environment whose text is empty and whose
  variables are zero or empty strings; it can fail only for want of memory, and with no string
  variables it then returns null without touching memory it does not own.\<close>

theorem SN_create_env_outcomes:
  assumes "0 \<le> nS"
  shows "(\<exists>z. SN_create_env nS nI nB fs fresh = Some (Some z, z_faults z) \<and> made nS nI nB z)
    \<or> 0 < failing fs \<and> ((\<exists>fs'. SN_create_env nS nI nB fs fresh = Some (None, fs'))
        \<or> nS \<noteq> 0 \<and> SN_create_env nS nI nB fs fresh = None)"
  by (rule SN_create_env_cases [OF assms, of nI nB fs fresh]) auto

theorem SN_create_env_outcomes_witness:
  "(\<exists>z. SN_create_env 1 2 0 [] (\<lambda>_. CHR 0x00) = Some (Some z, z_faults z) \<and> made 1 2 0 z)
    \<or> 0 < failing [] \<and> ((\<exists>fs'. SN_create_env 1 2 0 [] (\<lambda>_. CHR 0x00) = Some (None, fs'))
        \<or> (1 :: int) \<noteq> 0 \<and> SN_create_env 1 2 0 [] (\<lambda>_. CHR 0x00) = None)"
  by (rule SN_create_env_outcomes) simp

text \<open>C11: \<open>SN_create_env\<close> for a language with string variables reads through a null pointer on its
  error path when the buffer or the array of strings cannot be allocated: the error path closes the
  half-made environment, and \<open>SN_close_env\<close> walks the strings without checking that there are any.\<close>

theorem SN_create_env_null_strings:
  assumes "0 < nS"
  shows "SN_create_env nS nI nB (False # True # fs) fresh = None
    \<and> SN_create_env nS nI nB (False # False # True # fs) fresh = None"
proof -
  obtain n where n: "nat nS = Suc n" using assms by (cases "nat nS") auto
  with assms show ?thesis
    by (simp add: SN_create_env_def SN_close_env_def alloc_ok_def zeroed_def create_s_def alloc_S_def arr_get_def)
qed

theorem SN_create_env_null_strings_witness:
  "SN_create_env 1 2 0 (False # True # []) (\<lambda>_. CHR 0x00) = None
    \<and> SN_create_env 1 2 0 (False # False # True # []) (\<lambda>_. CHR 0x00) = None"
  by (rule SN_create_env_null_strings) simp





section \<open>The stemmers\<close>

text \<open>C14: the Porter stemmer ends on every byte string, valid UTF-8 or not, never reads or writes
  outside its buffer, never fails, whatever the allocator does, keeps the environment ready for the
  next word and never makes the word longer.\<close>

theorem porter_stem_total:
  assumes "ready 0 2 1 z" "z_c z = 0"
  shows "\<exists>r z'. porter_UTF_8_stem z = Some (r, z') \<and> 0 \<le> r \<and> ready 0 2 1 z'
    \<and> length (content z') \<le> length (content z)"
  using assms by (rule porter.steady_run)

theorem porter_stem_total_witness:
  "\<exists>r z'. porter_UTF_8_stem (word_env ''cries'' 0 0 0 2 1 [True]) = Some (r, z') \<and> 0 \<le> r \<and> ready 0 2 1 z'
    \<and> length (content z') \<le> length (content (word_env ''cries'' 0 0 0 2 1 [True]))"
  by (rule porter_stem_total) (use word_env_ready [of 0 2 1 "''cries''" 0 0 "[True]"] in simp_all)

text \<open>C15: the Turkish stemmer, whose suffix chain is a recursion the code does not bound, ends on every
  byte string and stays inside its buffer; it fails only when memory was refused, and it lengthens
  the word by three bytes at most.\<close>

theorem turkish_stem_outcome:
  assumes "ready 0 1 1 z" "z_c z = 0"
  shows "\<exists>r z'. turkish_UTF_8_stem z = Some (r, z') \<and> (if r < 0 then 0 < failing (z_faults z)
    else ready 0 1 1 z' \<and> int (length (content z')) \<le> int (length (content z)) + 3)"
  using assms by (rule turkish.run_outcome)

theorem turkish_stem_outcome_witness:
  "\<exists>r z'. turkish_UTF_8_stem (word_env ''kitapta'' 0 0 0 1 1 [True]) = Some (r, z')
    \<and> (if r < 0 then 0 < failing (z_faults (word_env ''kitapta'' 0 0 0 1 1 [True]))
    else ready 0 1 1 z' \<and> int (length (content z')) \<le> int (length (content (word_env ''kitapta'' 0 0 0 1 1 [True]))) + 3)"
  by (rule turkish_stem_outcome) (use word_env_ready [of 0 1 1 "''kitapta''" 0 0 "[True]"] in simp_all)

text \<open>C16: the Russian stemmer returns a prefix of the word it is given, for every byte string, and
  never fails.\<close>

theorem russian_stem_prefix:
  assumes "ready 0 2 0 z" "z_c z = 0"
  shows "\<exists>r z'. russian_UTF_8_stem z = Some (r, z') \<and> 0 \<le> r \<and> ready 0 2 0 z' \<and> prefix (content z') (content z)"
proof -
  have "in_window z" using assms l_le_free by (auto simp: ready_def in_window_def elim!: wf_envE)
  then have "wpf russian_UTF_8_stem (\<lambda>r z'. fitted z r z' \<and> (0 \<le> r \<longrightarrow> content z' = take (nat (z_l z')) (content z))) z"
    using assms by (intro russian_stem_trims) (simp_all add: ready_def)
  with assms(1) show ?thesis
    by (auto simp: wpf_def fitted_def ready_def fits_def in_window_def take_is_prefix)
qed

theorem russian_stem_prefix_witness:
  "\<exists>r z'. russian_UTF_8_stem (word_env [CHR 0xD1, CHR 0x8F] 0 0 0 2 0 []) = Some (r, z') \<and> 0 \<le> r \<and> ready 0 2 0 z'
    \<and> prefix (content z') (content (word_env [CHR 0xD1, CHR 0x8F] 0 0 0 2 0 []))"
  by (rule russian_stem_prefix) (use word_env_ready [of 0 2 0 "[CHR 0xD1, CHR 0x8F]" 0 0 "[]"] in simp_all)

text \<open>C17: the 127 search tables of the sixteen stemmers are what \<open>find_among\<close> and \<open>find_among_b\<close> need:
  sizes that agree with the strings, strictly sorted keys, and links to the longest proper prefix
  (suffix) among the entries.\<close>

theorem stemmer_tables_well_formed:
  "list_all table_b [
    a_0_porter, a_1_porter, a_2_porter, a_3_porter, a_4_porter, a_5_porter, a_1_english,
    a_2_english, a_3_english, a_4_english, a_5_english, a_6_english, a_7_english, a_8_english,
    a_9_english, a_0_russian, a_1_russian, a_2_russian, a_3_russian, a_4_russian, a_5_russian,
    a_6_russian, a_7_russian, a_0_swedish, a_1_swedish, a_2_swedish, a_0_norwegian,
    a_1_norwegian, a_2_norwegian, a_0_danish, a_1_danish, a_2_danish, a_1_german, a_2_german,
    a_3_german, a_4_german, a_2_dutch, a_3_dutch, a_4_dutch, a_5_dutch, a_2_italian, a_3_italian,
    a_4_italian, a_5_italian, a_6_italian, a_7_italian, a_1_spanish, a_2_spanish, a_3_spanish,
    a_4_spanish, a_5_spanish, a_6_spanish, a_7_spanish, a_8_spanish, a_9_spanish, a_2_portuguese,
    a_3_portuguese, a_4_portuguese, a_5_portuguese, a_6_portuguese, a_7_portuguese,
    a_8_portuguese, a_1_romanian, a_2_romanian, a_3_romanian, a_4_romanian, a_5_romanian,
    a_1_hungarian, a_2_hungarian, a_3_hungarian, a_4_hungarian, a_5_hungarian, a_6_hungarian,
    a_7_hungarian, a_8_hungarian, a_9_hungarian, a_10_hungarian, a_11_hungarian, a_2_french,
    a_3_french, a_4_french, a_5_french, a_6_french, a_7_french, a_8_french, a_0_finnish,
    a_1_finnish, a_2_finnish, a_3_finnish, a_4_finnish, a_5_finnish, a_7_finnish, a_8_finnish,
    a_9_finnish, a_0_turkish, a_1_turkish, a_2_turkish, a_3_turkish, a_4_turkish, a_5_turkish,
    a_6_turkish, a_7_turkish, a_8_turkish, a_9_turkish, a_10_turkish, a_11_turkish, a_12_turkish,
    a_13_turkish, a_14_turkish, a_15_turkish, a_16_turkish, a_17_turkish, a_18_turkish,
    a_19_turkish, a_20_turkish, a_21_turkish, a_22_turkish, a_23_turkish]
   \<and> list_all table_f [
    a_0_english, a_10_english, a_0_german, a_0_dutch, a_1_dutch, a_0_italian, a_1_italian,
    a_0_spanish, a_0_portuguese, a_1_portuguese, a_0_romanian, a_0_hungarian, a_0_french,
    a_1_french]
   \<and> table_ok (\<lambda>w. rev (s_sym w)) a_6_finnish"
  by simp

section \<open>Characters\<close>

text \<open>C18: \<open>get_utf8\<close> reads back what UTF-8 encoding wrote: every code point below 0x10000, anywhere in
  a text, with its width.\<close>

theorem get_utf8_roundtrip:
  assumes "0 \<le> u" "u < 0x10000" "int (length xs) + int (length (utf8 u)) \<le> l"
  shows "get_utf8 (xs @ utf8 u @ ys) (int (length xs)) l = Some (int (length (utf8 u)), u)"
  using assms by (rule get_utf8_decodes)

theorem get_utf8_roundtrip_witness:
  "get_utf8 (''a'' @ utf8 0x20AC @ ''b'') (int (length ''a'')) 5 = Some (int (length (utf8 0x20AC)), 0x20AC)"
  by (rule get_utf8_roundtrip) (simp_all add: utf8_def utf8_3_def)

text \<open>C19: of a character of three bytes \<open>get_b_utf8\<close> returns the right width but a wrong code unless
  two groups of its bits happen to agree: the four high bits are taken from the middle byte.\<close>

theorem get_b_utf8_wrong_for_three_bytes:
  assumes "0x800 \<le> u" "u < 0x10000" "lb \<le> int (length xs)"
  shows "get_b_utf8 (xs @ utf8 u @ ys) (int (length xs) + 3) lb = Some (3, u div 64 mod 16 * 4096 + u mod 4096)"
  using assms by (rule get_b_utf8_three)

theorem get_b_utf8_wrong_for_three_bytes_witness:
  "get_b_utf8 (''a'' @ utf8 0xB95 @ ''b'') (int (length ''a'') + 3) 0 = Some (3, 0xEB95)"
  using get_b_utf8_wrong_for_three_bytes [where u = "0xB95" and lb = 0 and xs = "''a''" and ys = "''b''"] by simp



section \<open>The text generator\<close>

text \<open>C21: \<open>add\<close> on a table whose states are in their buckets, without duplicates, keeps it so, and
  refines the insertion into the abstract chain: the word becomes the first suffix of the prefix,
  every other prefix keeps its suffixes; the prefix moves on by one word.\<close>

theorem add_word_refines:
  assumes "tab_ok tab" "length p = NPREF" "failing fs = 0"
  shows "\<exists>tab' fs'. add_word p tab w fs = Some (drop 1 p @ [w], tab', fs') \<and> tab_ok tab'
    \<and> suffixes tab' = (suffixes tab)(p := w # suffixes tab p)"
  by (rule add_word_ok [OF assms, of w]) blast

theorem add_word_refines_witness:
  "\<exists>tab' fs'. add_word [''a'', ''b''] (\<lambda>_. []) ''c'' [] = Some (drop 1 [''a'', ''b''] @ [''c''], tab', fs') \<and> tab_ok tab'
    \<and> suffixes tab' = (suffixes (\<lambda>_. []))([''a'', ''b''] := ''c'' # suffixes (\<lambda>_. []) [''a'', ''b''])"
  by (rule add_word_refines) (simp_all add: tab_ok_def chain_ok_def NPREF_def failing_def)

text \<open>C22: the table built from a text keeps its invariant and gives, for every prefix of two words, the
  words that follow it in the text, the latest first, and nothing for any other prefix.\<close>

theorem text_table_gives_followers:
  assumes "failing fs = 0"
  shows "\<exists>tab fs'. text_table f fs = Some (tab, fs') \<and> tab_ok tab \<and> (\<forall>p. suffixes tab p = rev (followers p (text_seq f)))"
proof -
  obtain tab fs' where "text_table f fs = Some (tab, fs')" "represents tab (text_seq f)"
    using assms by (rule text_table_represents)
  then show ?thesis by (auto simp: represents_def)
qed

theorem text_table_gives_followers_witness:
  "\<exists>tab fs'. text_table ''a b a b'' [] = Some (tab, fs') \<and> tab_ok tab
    \<and> (\<forall>p. suffixes tab p = rev (followers p (text_seq ''a b a b'')))"
  by (rule text_table_gives_followers) (simp add: failing_def)

text \<open>C23: a file of less than 200 megabytes is loaded, or the process ends because two prefixes of the
  text have the same hash and no multiplier separates them. Once it is loaded, the collision-free
  second-level lookup and the walk along the chain find the same state for every prefix that occurs,
  and that state has the words that follow it.\<close>

theorem ideal_lookup_equals_lookup:
  assumes "fits_memory f" "failing fs = 0"
  shows "init_file (Some f) fs = Some (Inl 1) \<and> collides (text_seq f)
    \<or> (\<exists>tab it fs'. init_file (Some f) fs = Some (Inr ((tab, it), fs'))
        \<and> (\<forall>p. followers p (text_seq f) \<noteq> [] \<longrightarrow> (\<exists>s. lookup_ideal p it = Some (Some s)
             \<and> lookup_plain p tab = Some (Some s) \<and> suf s = rev (followers p (text_seq f)))))"
  by (rule init_file_lookups [OF assms]) blast+

theorem ideal_lookup_equals_lookup_witness:
  "init_file (Some ''a b a'') [] = Some (Inl 1) \<and> collides (text_seq ''a b a'')
    \<or> (\<exists>tab it fs'. init_file (Some ''a b a'') [] = Some (Inr ((tab, it), fs'))
        \<and> (\<forall>p. followers p (text_seq ''a b a'') \<noteq> [] \<longrightarrow> (\<exists>s. lookup_ideal p it = Some (Some s)
             \<and> lookup_plain p tab = Some (Some s) \<and> suf s = rev (followers p (text_seq ''a b a'')))))"
  by (rule ideal_lookup_equals_lookup) (simp_all add: fits_memory_def failing_def)

text \<open>C24: over a loaded text \<open>generate\<close> always returns: what it appends is made of one piece per word,
  each containing its word, for a sequence of at most \<open>n\<close> words that the text can produce: every
  word follows the two before it somewhere in the text.\<close>

theorem generate_walks_the_text:
  assumes "fits_memory f" "failing fs = 0" "cfg_ok cfg"
  shows "init_file (Some f) fs = Some (Inl 1) \<and> collides (text_seq f)
    \<or> (\<exists>tab it fs'. init_file (Some f) fs = Some (Inr ((tab, it), fs'))
        \<and> (\<forall>n ltr seed. \<exists>ws chunks close seed'.
             generate n ltr cfg (\<lambda>p. lookup_ideal p it) seed = Some (concat chunks @ close, seed')
             \<and> close \<in> {[], ''</p>'' @ newline} \<and> walk (text_seq f) (replicate NPREF NONWORD) ws
             \<and> int (length ws) \<le> max 0 n \<and> list_all2 sublist ws chunks))"
  by (rule init_file_lookups [OF assms(1,2)]) (use generate_walks [OF _ assms(3)] in blast)+

definition demo_config :: gen_config where
  "demo_config = \<lparr>daemon_port = 8083, words_per_page = 1000, intern_links = 200, extern_links = 100,
     intern_links_probability = 0, extern_links_probability = 0, extern_links_prefix = ''serv'',
     extern_links_suffix = ''.testbed.local'', extern_links_servers = 1, links_total = 100000, worker_threads = 1\<rparr>"

theorem generate_walks_the_text_witness:
  "init_file (Some ''to be or not to be'') [] = Some (Inl 1) \<and> collides (text_seq ''to be or not to be'')
    \<or> (\<exists>tab it fs'. init_file (Some ''to be or not to be'') [] = Some (Inr ((tab, it), fs'))
        \<and> (\<forall>n ltr seed. \<exists>ws chunks close seed'.
             generate n ltr demo_config (\<lambda>p. lookup_ideal p it) seed = Some (concat chunks @ close, seed')
             \<and> close \<in> {[], ''</p>'' @ newline} \<and> walk (text_seq ''to be or not to be'') (replicate NPREF NONWORD) ws
             \<and> int (length ws) \<le> max 0 n \<and> list_all2 sublist ws chunks))"
  by (rule generate_walks_the_text) (simp_all add: fits_memory_def failing_def cfg_ok_def demo_config_def)




section \<open>The repair of texts\<close>

text \<open>A library of one-byte characters and a dictionary of two words, for the examples.\<close>

definition demo_glib :: glib where
  "demo_glib = \<lparr>g_utf8_validate = (\<lambda>_. True), g_utf8_get_char = (\<lambda>w. byte (hd w)), g_utf8_tail = (\<lambda>_. 0),
     g_convert = (\<lambda>_ _ w. if CHR 0x21 \<in> set w then None else Some w)\<rparr>"


lemma demo_glib_whole: "whole demo_glib w"
  by (induction w) (simp_all add: demo_glib_def)

lemma demo_glib_ok [simp]: "glib_ok demo_glib" "converts demo_glib"
  using demo_glib_whole by (simp_all add: glib_ok_def converts_def) (auto simp: demo_glib_def split: if_splits)






section \<open>The event library\<close>

text \<open>A buffer that holds \<open>w\<close> behind \<open>m\<close> consumed bytes, with room for \<open>extra\<close> more, for the examples.\<close>

definition demo_evbuffer :: "nat \<Rightarrow> symbol list \<Rightarrow> nat \<Rightarrow> evbuffer" where
  "demo_evbuffer m w extra = \<lparr>eb_buffer = int m, eb_orig = Some (replicate m (CHR 0x78) @ w @ replicate extra (CHR 0x00)),
     eb_misalign = int m, eb_totallen = int (m + length w + extra), eb_off = int (length w), eb_cb = True, eb_calls = []\<rparr>"

lemma demo_evbuffer_ok [simp]: "eb_ok (demo_evbuffer m w extra)" "eb_content (demo_evbuffer m w extra) = w"
  by (simp_all add: demo_evbuffer_def eb_ok_def eb_content_def)

lemma demo_evbuffer_sel [simp]: "eb_misalign (demo_evbuffer m w extra) = int m" "eb_off (demo_evbuffer m w extra) = int (length w)"
  "eb_totallen (demo_evbuffer m w extra) = int (m + length w + extra)"
  by (simp_all add: demo_evbuffer_def)

text \<open>C29: \<open>evbuffer_add\<close> on a well-formed buffer, whatever allocations fail, puts the bytes behind the
  others and returns 0, or returns -1 with the same bytes in the buffer, which only happens when an
  allocation was refused; and \<open>evbuffer_add_buffer\<close> does the same with the bytes of another buffer,
  which is empty afterwards, or keeps its bytes.\<close>

theorem evbuffer_add_appends_or_fails:
  assumes "eb_ok buf" "eb_ok inbuf"
  shows "((\<exists>buf' fs'. evbuffer_add fr buf data fs = Some (0, buf', fs') \<and> eb_ok buf' \<and> eb_content buf' = eb_content buf @ data)
      \<or> (\<exists>buf' fs'. evbuffer_add fr buf data fs = Some (- 1, buf', fs') \<and> same_bytes buf buf' \<and> 0 < failing fs))
    \<and> ((\<exists>ob ib fs'. evbuffer_add_buffer fr buf inbuf fs = Some (0, ob, ib, fs') \<and> eb_ok ob \<and> eb_ok ib
        \<and> eb_content ob = eb_content buf @ eb_content inbuf \<and> eb_content ib = [])
      \<or> (\<exists>ob fs'. evbuffer_add_buffer fr buf inbuf fs = Some (- 1, ob, inbuf, fs') \<and> same_bytes buf ob \<and> 0 < failing fs))"
  (is "?add \<and> ?move")
proof
  show ?add by (cases rule: evbuffer_add_cases [OF assms(1), of fr data fs, case_names ok fail]) blast+
  show ?move by (cases rule: evbuffer_add_buffer_cases [OF assms, of fr fs, case_names ok fail]) blast+
qed

theorem evbuffer_add_appends_or_fails_witness:
  "((\<exists>buf' fs'. evbuffer_add (\<lambda>_. CHR 0x00) (demo_evbuffer 2 ''ab'' 0) ''cde'' [True] = Some (0, buf', fs') \<and> eb_ok buf'
        \<and> eb_content buf' = eb_content (demo_evbuffer 2 ''ab'' 0) @ ''cde'')
      \<or> (\<exists>buf' fs'. evbuffer_add (\<lambda>_. CHR 0x00) (demo_evbuffer 2 ''ab'' 0) ''cde'' [True] = Some (- 1, buf', fs')
        \<and> same_bytes (demo_evbuffer 2 ''ab'' 0) buf' \<and> 0 < failing [True]))
    \<and> ((\<exists>ob ib fs'. evbuffer_add_buffer (\<lambda>_. CHR 0x00) (demo_evbuffer 2 ''ab'' 0) (demo_evbuffer 0 ''xyz'' 1) [True] = Some (0, ob, ib, fs')
        \<and> eb_ok ob \<and> eb_ok ib \<and> eb_content ob = eb_content (demo_evbuffer 2 ''ab'' 0) @ eb_content (demo_evbuffer 0 ''xyz'' 1)
        \<and> eb_content ib = [])
      \<or> (\<exists>ob fs'. evbuffer_add_buffer (\<lambda>_. CHR 0x00) (demo_evbuffer 2 ''ab'' 0) (demo_evbuffer 0 ''xyz'' 1) [True] =
          Some (- 1, ob, demo_evbuffer 0 ''xyz'' 1, fs') \<and> same_bytes (demo_evbuffer 2 ''ab'' 0) ob \<and> 0 < failing [True]))"
  by (rule evbuffer_add_appends_or_fails) (rule demo_evbuffer_ok(1))+

text \<open>C30: a buffer is a queue of bytes: with enough memory, the texts printed into it one after the
  other, as the page generator does, stand behind its bytes in this order, and \<open>evbuffer_remove\<close> takes
  any number of them from the front and leaves the others; \<open>evbuffer_drain\<close> discards them.\<close>

theorem evbuffer_is_a_queue:
  assumes "eb_ok buf" "failing fs = 0"
  shows "\<exists>buf' fs'. put_all (\<lambda>q w. evbuffer_add_vprintf fr q (Some w)) buf ws fs = Some (buf', fs')
    \<and> (\<forall>n. \<exists>rest. evbuffer_remove buf' (int n) =
            Some (min (int n) (eb_off buf'), take n (eb_content buf @ concat ws), rest)
          \<and> eb_ok rest \<and> eb_content rest = drop n (eb_content buf @ concat ws)
          \<and> eb_content (evbuffer_drain buf' (int n)) = drop n (eb_content buf @ concat ws))"
proof -
  obtain buf' fs' where buf': "put_all (\<lambda>q w. evbuffer_add_vprintf fr q (Some w)) buf ws fs = Some (buf', fs')" "eb_ok buf'"
    "eb_content buf' = eb_content buf @ concat ws" using prints.put_all_ok [OF assms] by blast
  have "\<exists>rest. evbuffer_remove buf' (int n) = Some (min (int n) (eb_off buf'), take n (eb_content buf @ concat ws), rest)
      \<and> eb_ok rest \<and> eb_content rest = drop n (eb_content buf @ concat ws)
      \<and> eb_content (evbuffer_drain buf' (int n)) = drop n (eb_content buf @ concat ws)" for n
    using evbuffer_remove_ok [OF buf'(2), of "int n"] evbuffer_drain_ok(2) [OF buf'(2), of "int n"] buf'(3) by auto
  with buf'(1) show ?thesis by blast
qed

theorem evbuffer_is_a_queue_witness:
  "\<exists>buf' fs'. put_all (\<lambda>q w. evbuffer_add_vprintf (\<lambda>_. CHR 0x00) q (Some w)) (demo_evbuffer 1 ''ab'' 0) [''cd'', ''ef''] [] = Some (buf', fs')
    \<and> (\<forall>n. \<exists>rest. evbuffer_remove buf' (int n) =
            Some (min (int n) (eb_off buf'), take n (eb_content (demo_evbuffer 1 ''ab'' 0) @ concat [''cd'', ''ef'']), rest)
          \<and> eb_ok rest \<and> eb_content rest = drop n (eb_content (demo_evbuffer 1 ''ab'' 0) @ concat [''cd'', ''ef''])
          \<and> eb_content (evbuffer_drain buf' (int n)) = drop n (eb_content (demo_evbuffer 1 ''ab'' 0) @ concat [''cd'', ''ef'']))"
  by (rule evbuffer_is_a_queue) (simp_all add: failing_def)

text \<open>C31: \<open>evbuffer_add_vprintf\<close> into a full buffer, when its first request for memory is refused and
  the next granted, reports success, but \<open>evutil_vsnprintf\<close> has put its final zero over the last
  byte of the buffer; on a new buffer, which has no block yet, a refused request makes it follow a
  null pointer.\<close>

theorem evbuffer_add_vprintf_breaks_without_memory:
  assumes "eb_ok buf" "eb_misalign buf = 0" "eb_off buf = eb_totallen buf" "eb_content buf \<noteq> []" "failing fs = 0"
    and "evbuffer_new fs0 = (Some new, fs1)"
  shows "(\<exists>buf' fs'. evbuffer_add_vprintf fr buf (Some s) (True # fs) = Some (int (length s), buf', fs')
      \<and> eb_content buf' = butlast (eb_content buf) @ [CHR 0x00] @ s)
    \<and> evbuffer_add_vprintf fr new (Some s) (True # fs) = None"
  using vprintf_corrupts [OF assms(1-5)] vprintf_null [OF assms(6)] by blast

theorem evbuffer_add_vprintf_breaks_without_memory_witness:
  "\<exists>new. (\<exists>buf' fs'. evbuffer_add_vprintf (\<lambda>_. CHR 0x00) (demo_evbuffer 0 ''ab'' 0) (Some ''c'') (True # []) = Some (int (length ''c''), buf', fs')
      \<and> eb_content buf' = butlast (eb_content (demo_evbuffer 0 ''ab'' 0)) @ [CHR 0x00] @ ''c'')
    \<and> evbuffer_add_vprintf (\<lambda>_. CHR 0x00) new (Some ''c'') (True # []) = None"
proof -
  have "failing [] = 0" by (simp add: failing_def)
  then obtain new fs' where "evbuffer_new [] = (Some new, fs')" by (rule evbuffer_new_succeeds)
  from evbuffer_add_vprintf_breaks_without_memory [OF _ _ _ _ \<open>failing [] = 0\<close> this, of "demo_evbuffer 0 ''ab'' 0" "\<lambda>_. CHR 0x00" "''c''"]
  have "(\<exists>buf' fs'. evbuffer_add_vprintf (\<lambda>_. CHR 0x00) (demo_evbuffer 0 ''ab'' 0) (Some ''c'') (True # []) = Some (int (length ''c''), buf', fs')
      \<and> eb_content buf' = butlast (eb_content (demo_evbuffer 0 ''ab'' 0)) @ [CHR 0x00] @ ''c'')
    \<and> evbuffer_add_vprintf (\<lambda>_. CHR 0x00) new (Some ''c'') (True # []) = None"
    by simp
  then show ?thesis by blast
qed

text \<open>C32: \<open>evbuffer_find\<close>, which looks for the first byte of the pattern and compares there, is
  equivalent to a search over all places: it returns the first place at which the pattern stands in
  the bytes of the buffer, or null when there is none, and never reads behind them.\<close>

theorem evbuffer_find_is_first_place:
  assumes "eb_ok buf" "what \<noteq> []"
  shows "evbuffer_find buf what (int (length what)) = Some (map_option int (first_place what (eb_content buf)))"
  using assms by (rule evbuffer_find_first)

theorem evbuffer_find_is_first_place_witness:
  "evbuffer_find (demo_evbuffer 1 ''abab'' 3) ''ba'' (int (length ''ba'')) =
    Some (map_option int (first_place ''ba'' (eb_content (demo_evbuffer 1 ''abab'' 3))))"
  by (rule evbuffer_find_is_first_place) simp_all

text \<open>C33: every operation of the heap of timeouts keeps its invariant: the events stand in heap order,
  each knows its place, and no event outside has one. \<open>min_heap_push\<close> adds an event, or returns -1
  and leaves the heap as it was when memory is refused; \<open>min_heap_erase\<close> removes the given event
  wherever it stands, or returns -1 when it is not there; \<open>min_heap_top\<close> is an event none of the others
  comes before.\<close>

theorem timeout_heap_invariant:
  assumes "heap_ok tm s idx" "idx e = - 1"
  shows "((\<exists>s' idx' fs'. min_heap_push fr tm s idx e fs = Some (0, s', idx', fs') \<and> heap_ok tm s' idx'
        \<and> queued idx' = insert e (queued idx))
      \<or> (\<exists>fs'. min_heap_push fr tm s idx e fs = Some (- 1, s, idx, fs') \<and> 0 < failing fs))
    \<and> (if x \<in> queued idx then \<exists>s' idx'. min_heap_erase tm s idx x = Some (0, s', idx') \<and> heap_ok tm s' idx' \<and> queued idx' = queued idx - {x}
       else min_heap_erase tm s idx x = Some (- 1, s, idx))
    \<and> (if queued idx = {} then min_heap_top s = Some None
       else \<exists>y \<in> queued idx. min_heap_top s = Some (Some y) \<and> (\<forall>x \<in> queued idx. tm y \<le> tm x))"
  by (intro conjI min_heap_push_ok [OF assms] min_heap_erase_ok [OF assms(1)] min_heap_top_ok [OF assms(1)])

definition demo_heap :: min_heap where
  "demo_heap = \<lparr>mh_p = [7, 5], mh_n = 2, mh_a = 2\<rparr>"

definition demo_places :: "event \<Rightarrow> int" where
  "demo_places = ((\<lambda>_. - 1)(7 := 0))(5 := 1)"

definition demo_times :: "event \<Rightarrow> timeval" where
  "demo_times e = Timeval (- int e) 0"

lemma demo_heap_ok [simp]: "heap_ok demo_times demo_heap demo_places" "queued demo_places = {5, 7}"
  by (auto simp: heap_ok_def demo_heap_def demo_places_def demo_times_def ordered_but_def places_but_def queued_def
      less_eq_timeval_def timer_greater_def less_Suc_eq numeral_2_eq_2)

theorem timeout_heap_invariant_witness:
  "((\<exists>s' idx' fs'. min_heap_push (\<lambda>_. 0) demo_times demo_heap demo_places 9 [] = Some (0, s', idx', fs') \<and> heap_ok demo_times s' idx'
        \<and> queued idx' = insert 9 (queued demo_places))
      \<or> (\<exists>fs'. min_heap_push (\<lambda>_. 0) demo_times demo_heap demo_places 9 [] = Some (- 1, demo_heap, demo_places, fs') \<and> 0 < failing []))
    \<and> (if 7 \<in> queued demo_places then \<exists>s' idx'. min_heap_erase demo_times demo_heap demo_places 7 = Some (0, s', idx')
         \<and> heap_ok demo_times s' idx' \<and> queued idx' = queued demo_places - {7}
       else min_heap_erase demo_times demo_heap demo_places 7 = Some (- 1, demo_heap, demo_places))
    \<and> (if queued demo_places = {} then min_heap_top demo_heap = Some None
       else \<exists>y \<in> queued demo_places. min_heap_top demo_heap = Some (Some y) \<and> (\<forall>x \<in> queued demo_places. demo_times y \<le> demo_times x))"
  by (rule timeout_heap_invariant, rule demo_heap_ok) (simp add: demo_places_def)

text \<open>C34: popping a heap until it is empty gives every event exactly once, in the order of their times,
  and leaves no event with a place.\<close>

theorem timeouts_expire_in_order:
  assumes "heap_ok tm s idx" "card (queued idx) \<le> n"
  shows "\<exists>es s' idx'. pop_all (heap_pop tm) n (s, idx) = Some (es, s', idx') \<and> heap_ok tm s' idx' \<and> queued idx' = {}
    \<and> set es = queued idx \<and> distinct es \<and> sorted (map tm es)"
  using timeouts.pop_all_sorted [of tm "(s, idx)" n] assms by auto

theorem timeouts_expire_in_order_witness:
  "\<exists>es s' idx'. pop_all (heap_pop demo_times) 2 (demo_heap, demo_places) = Some (es, s', idx') \<and> heap_ok demo_times s' idx' \<and> queued idx' = {}
    \<and> set es = queued demo_places \<and> distinct es \<and> sorted (map demo_times es)"
  by (rule timeouts_expire_in_order) simp_all



text \<open>C36: every number of 32 bits and every time of two such numbers is read back from the item it was
  marshalled as, whatever else stands behind in the buffer, through the module's own buffer.\<close>

theorem marshalled_integers_and_times_are_unmarshalled:
  assumes "eb_ok own" "eb_ok buf" "eb_content buf = []" "failing fs = 0" "tag < 2 ^ 32" "n < 2 ^ 32" "sec < 2 ^ 32" "usec < 2 ^ 32"
  shows "\<exists>own1 own2 own3 own4 buf1 buf2 buf3 buf4 fs1 fs2 fs3.
      evtag_marshal_int fr (Some own) buf tag n fs = Some (Some own1, buf1, fs1)
    \<and> evtag_marshal_timeval fr (Some own1) buf1 tag sec usec fs1 = Some (Some own2, buf2, fs2)
    \<and> evtag_unmarshal_int fr (Some own2) buf2 tag [] = Some (Some n, Some own3, buf3, fs3)
    \<and> (\<exists>fs4. evtag_unmarshal_timeval fr (Some own3) buf3 tag [] = Some (Some (sec, usec), Some own4, buf4, fs4)) \<and> eb_content buf4 = []"
proof -
  have none: "failing [] = 0" by (simp add: failing_def)
  obtain own1 buf1 fs1 where 1: "evtag_marshal_int fr (Some own) buf tag n fs = Some (Some own1, buf1, fs1)" "eb_ok own1" "eb_ok buf1"
    "eb_content buf1 = eb_content buf @ item_code (tag, int_code n)" "failing fs1 = 0"
    using assms(1,2,4-6) by (rule evtag_marshal_int_ok)
  obtain own2 buf2 fs2 where 2: "evtag_marshal_timeval fr (Some own1) buf1 tag sec usec fs1 = Some (Some own2, buf2, fs2)"
    "eb_ok own2" "eb_ok buf2" "eb_content buf2 = eb_content buf1 @ item_code (tag, int_code sec @ int_code usec)"
    using 1(2,3,5) assms(5,7,8) by (rule evtag_marshal_timeval_ok)
  have "eb_content buf2 = item_code (tag, int_code n) @ item_code (tag, int_code sec @ int_code usec) @ []"
    using 2(4) 1(4) assms(3) by simp
  from evtag_unmarshal_int_ok [OF 2(2,3) this none assms(5,6), of fr] obtain own3 buf3 fs3
    where 3: "evtag_unmarshal_int fr (Some own2) buf2 tag [] = Some (Some n, Some own3, buf3, fs3)" "eb_ok own3" "eb_ok buf3"
    "eb_content buf3 = item_code (tag, int_code sec @ int_code usec) @ []" by blast
  from evtag_unmarshal_timeval_ok [OF 3(2-4) none assms(5,7,8), of fr] obtain own4 buf4 fs4
    where "evtag_unmarshal_timeval fr (Some own3) buf3 tag [] = Some (Some (sec, usec), Some own4, buf4, fs4)" "eb_content buf4 = []" by blast
  with 1(1) 2(1) 3(1) show ?thesis by blast
qed

theorem marshalled_integers_and_times_are_unmarshalled_witness:
  "\<exists>own1 own2 own3 own4 buf1 buf2 buf3 buf4 fs1 fs2 fs3.
      evtag_marshal_int (\<lambda>_. CHR 0x00) (Some (demo_evbuffer 0 ''old'' 1)) (demo_evbuffer 1 [] 2) 300 0xFEDCBA98 [] = Some (Some own1, buf1, fs1)
    \<and> evtag_marshal_timeval (\<lambda>_. CHR 0x00) (Some own1) buf1 300 0 999999 fs1 = Some (Some own2, buf2, fs2)
    \<and> evtag_unmarshal_int (\<lambda>_. CHR 0x00) (Some own2) buf2 300 [] = Some (Some 0xFEDCBA98, Some own3, buf3, fs3)
    \<and> (\<exists>fs4. evtag_unmarshal_timeval (\<lambda>_. CHR 0x00) (Some own3) buf3 300 [] = Some (Some (0, 999999), Some own4, buf4, fs4)) \<and> eb_content buf4 = []"
  by (rule marshalled_integers_and_times_are_unmarshalled) (simp_all add: failing_def)

section \<open>The base of events\<close>

text \<open>A new base with one event, for the examples; then the event waits for a second.\<close>

definition demo_new :: event_base where
  "demo_new = \<lparr>evs = (\<lambda>_. zero_event), ev_idx = (\<lambda>_. - 1), ncalls = None, event_count = 0, event_count_active = 0,
     event_gotterm = False, event_break = False, activequeues = [[]], nactivequeues = 1, eventqueue = [],
     event_tv = Timeval 500 0, timeheap = min_heap_ctor, tv_cache = Timeval 0 0, base_faults = []\<rparr>"

definition demo_base :: event_base where
  "demo_base = event_set True 3 5 {EV_READ} demo_new"

definition demo_eventop :: eventop where
  "demo_eventop = \<lparr>evsel_add = (\<lambda>_. 0), evsel_del = (\<lambda>_. 0)\<rparr>"

lemma demo_new_is_new: "event_base_new True (Some (Timeval 500 0)) [] = Some (Inr demo_new)"
  by (simp add: event_base_new_def event_base_priority_init_def malloc_ok_def demo_new_def numeral_eq_Suc)

lemma demo_base_step: "base_step fr evsel demo_new demo_base"
  unfolding demo_base_def by (rule base_step.set) (simp add: demo_new_def zero_event_def)


lemma demo_base_ok: "base_ok demo_base" "counter_ok demo_base x"
  using step_keeps [OF demo_base_step] new_base_ok [OF demo_new_is_new] by blast+

lemma demo_base_sel: "ev_in_base (evs demo_base 3)" "gettime clk demo_base = clk" "event_tv demo_base = Timeval 500 0"
  "x \<noteq> 3 \<Longrightarrow> evs demo_base x = zero_event" "ev_flags_of demo_base 3 = {EVLIST_INIT}" "ev_events (evs demo_base 3) = {EV_READ}"
  "base_faults demo_base = []" "ev_res (evs demo_base 3) = {}"
  by (simp_all add: demo_base_def demo_new_def event_set_def ev_upd_def gettime_def Let_def)





lemma demo_waiting:
  obtains B where "base_ok B" "\<And>x. counter_ok B x" "gettime clk B = clk" "event_tv B = Timeval 500 0"
    "ev_timeout (evs B 3) = Timeval 501 0" "EVLIST_TIMEOUT \<in> ev_flags_of B 3" "\<And>x. x \<in> queued (ev_idx B) \<Longrightarrow> x = 3"
proof -
  obtain r B where B: "base_ok B" "kept demo_base B" "evs B = (evs demo_base)(3 := added (Timeval 500 0) (Some (Timeval 1 0)) (evs demo_base 3))"
    using event_add_ok [OF demo_base_ok(1) demo_base_sel(1) demo_base_ok(2) demo_base_sel(2) [of "Some (Timeval 500 0)"],
        of "\<lambda>_. 0" demo_eventop "Some (Timeval 1 0)"]
    by (auto simp: demo_base_sel failing_def demo_eventop_def)
  have "\<forall>x. counter_ok demo_base x" using demo_base_ok(2) by blast
  then have "\<forall>x. counter_ok B x"
    by (rule kept_counters [OF _ B(2)]) (auto simp: B(3) added_def scheduled_def Let_def split: if_splits)
  moreover have "x = 3" if "x \<in> queued (ev_idx B)" for x
    using that queued_timeout [OF B(1), of x] by (cases "x = 3") (auto simp: B(3) demo_base_sel zero_event_def)
  ultimately show thesis
    using B(1,2) gettime_kept [OF B(2), of clk] by (intro that [of B])
      (auto simp: B(3) demo_base_sel kept_def added_def scheduled_def timer_add_def Let_def)
qed

text \<open>C39: \<open>timeout_process\<close> ends, and makes exactly those events active whose time has come: their only
  reason is the timeout, they are due once, and they are nowhere else; all others are as before.\<close>

theorem expired_timeouts_become_active:
  assumes "base_ok B" "\<And>x. counter_ok B x" "gettime clk B = Some now"
  shows "\<exists>B'. timeout_process fr evsel clk B = Some (Inr B') \<and> base_ok B'
    \<and> evs B' = (\<lambda>x. if EVLIST_TIMEOUT \<in> ev_flags_of B x \<and> ev_timeout (evs B x) \<le> now then expired (evs B x) else evs B x)"
  using timeout_process_ok [OF assms] by blast

theorem expired_timeouts_become_active_witness:
  "\<exists>B B'. EVLIST_TIMEOUT \<in> ev_flags_of B 3 \<and> timeout_process (\<lambda>_. 0) demo_eventop (Some (Timeval 502 0)) B = Some (Inr B') \<and> base_ok B'
    \<and> evs B' = (\<lambda>x. if EVLIST_TIMEOUT \<in> ev_flags_of B x \<and> ev_timeout (evs B x) \<le> Timeval 502 0 then expired (evs B x) else evs B x)"
proof -
  obtain B where B: "base_ok B" "\<And>x. counter_ok B x" "gettime (Some (Timeval 502 0)) B = Some (Timeval 502 0)" "EVLIST_TIMEOUT \<in> ev_flags_of B 3"
    by (rule demo_waiting [where clk = "Some (Timeval 502 0)"]) (rule that)
  from expired_timeouts_become_active [OF B(1-3)] B(4) show ?thesis by blast
qed

text \<open>C40: when the clock has gone backwards, \<open>timeout_correct\<close> moves the times of all waiting events by
  the same number of microseconds, in the array of the heap and without sorting it again, and the
  base stays consistent: the heap stays in order.\<close>

theorem corrected_times_stay_in_order:
  assumes "base_ok B" "gettime clk B = Some now" "tv_ok now" "tv_ok (event_tv B)" "\<And>x. x \<in> queued (ev_idx B) \<Longrightarrow> tv_ok (ev_timeout (evs B x))"
  shows "\<exists>B'. timeout_correct False clk B = Some B' \<and> base_ok B'
    \<and> (if event_tv B \<le> now then evs B' = evs B \<and> event_tv B' = now
       else \<forall>x. ev_flags_of B' x = ev_flags_of B x
         \<and> micros (ev_timeout (evs B' x)) = micros (ev_timeout (evs B x))
             - (if EVLIST_TIMEOUT \<in> ev_flags_of B x then micros (event_tv B) - micros now else 0))"
  using assms by (rule timeout_correct_ok)

theorem corrected_times_stay_in_order_witness:
  "\<exists>B B'. EVLIST_TIMEOUT \<in> ev_flags_of B 3 \<and> timeout_correct False (Some (Timeval 100 0)) B = Some B' \<and> base_ok B'
    \<and> (if event_tv B \<le> Timeval 100 0 then evs B' = evs B \<and> event_tv B' = Timeval 100 0
       else \<forall>x. ev_flags_of B' x = ev_flags_of B x
         \<and> micros (ev_timeout (evs B' x)) = micros (ev_timeout (evs B x))
             - (if EVLIST_TIMEOUT \<in> ev_flags_of B x then micros (event_tv B) - micros (Timeval 100 0) else 0))"
proof -
  obtain B where B: "base_ok B" "gettime (Some (Timeval 100 0)) B = Some (Timeval 100 0)" "event_tv B = Timeval 500 0"
    "ev_timeout (evs B 3) = Timeval 501 0" "EVLIST_TIMEOUT \<in> ev_flags_of B 3" "\<And>x. x \<in> queued (ev_idx B) \<Longrightarrow> x = 3"
    by (rule demo_waiting [where clk = "Some (Timeval 100 0)"]) (rule that)
  have "tv_ok (Timeval 100 0)" "tv_ok (event_tv B)" "\<And>x. x \<in> queued (ev_idx B) \<Longrightarrow> tv_ok (ev_timeout (evs B x))"
    using B(3,4,6) by (auto simp: tv_ok_def)
  from corrected_times_stay_in_order [OF B(1,2) this] B(5) show ?thesis by blast
qed

end
